(* ===== verification/Prelude.thy ===== *)
theory Prelude
  imports Main "HOL-Library.Sublist"
begin

text \<open>
  What every component shares: how a JavaScript string is represented, the string
  operations of the language the front end calls (\<open>trim\<close>, \<open>startsWith\<close>, \<open>replace\<close> of the
  first occurrence, \<open>split\<close> on a character, \<open>join\<close>), decimal digit strings and their value,
  \<open>Map\<close> values with insertion order, and the collections of rewrite rules the component
  proofs use.

  A string is the list of the bytes of its UTF-8 encoding.  Concatenation, prefix tests,
  equality and the replacement of ASCII characters commute with that encoding; where the
  source trims, the white space of the language outside ASCII is listed by its bytes.
\<close>

named_theorems js_string
  "rewrite rules for the string operations of the language"
named_theorems js_digits
  "rewrite rules for digit strings and their values"

type_synonym jstring = string

section \<open>Characters outside ASCII\<close>

definition em_dash :: jstring where "em_dash = [CHR 0xE2, CHR 0x80, CHR 0x94]"
definition en_dash :: jstring where "en_dash = [CHR 0xE2, CHR 0x80, CHR 0x93]"
definition minus_sign :: jstring where "minus_sign = [CHR 0xE2, CHR 0x88, CHR 0x92]"
definition euro_sign :: jstring where "euro_sign = [CHR 0xE2, CHR 0x82, CHR 0xAC]"
definition right_arrow :: jstring where "right_arrow = [CHR 0xE2, CHR 0x86, CHR 0x92]"
definition infinity_sign :: jstring where "infinity_sign = [CHR 0xE2, CHR 0x88, CHR 0x9E]"
definition up_arrow :: jstring where "up_arrow = [CHR 0xE2, CHR 0x86, CHR 0x91]"
definition down_arrow :: jstring where "down_arrow = [CHR 0xE2, CHR 0x86, CHR 0x93]"
definition ellipsis :: jstring where "ellipsis = [CHR 0xE2, CHR 0x80, CHR 0xA6]"
definition quote_char :: char where "quote_char = CHR 0x22"
definition apostrophe :: char where "apostrophe = CHR 0x27"

section \<open>String operations\<close>

text \<open>\<open>s.startsWith(p)\<close>.\<close>

definition starts_with :: "jstring \<Rightarrow> jstring \<Rightarrow> bool" where
  "starts_with s p \<longleftrightarrow> take (length p) s = p"

lemma starts_with_Nil [simp]: "starts_with s []"
  by (simp add: starts_with_def)

lemma starts_with_Cons [simp]:
  "starts_with (c # s) (d # p) \<longleftrightarrow> c = d \<and> starts_with s p"
  "\<not> starts_with [] (d # p)"
  by (auto simp: starts_with_def)

lemma starts_with_append [simp]: "starts_with (p @ s) p"
  by (simp add: starts_with_def)

lemma starts_with_iff: "starts_with s p \<longleftrightarrow> (\<exists>t. s = p @ t)"
  by (auto simp: starts_with_def) (metis append_take_drop_id)

text \<open>
  The white space and line terminators of ECMAScript as UTF-8: TAB, LF, VT, FF, CR, SP,
  NBSP, OGHAM SPACE MARK, U+2000 to U+200A, U+2028, U+2029, U+202F, U+205F, U+3000, U+FEFF.
\<close>

definition ws_units :: "jstring list" where
  "ws_units =
     [[CHR 0x09], [CHR 0x0A], [CHR 0x0B], [CHR 0x0C], [CHR 0x0D], [CHR 0x20],
      [CHR 0xC2, CHR 0xA0], [CHR 0xE1, CHR 0x9A, CHR 0x80],
      [CHR 0xE2, CHR 0x80, CHR 0x80], [CHR 0xE2, CHR 0x80, CHR 0x81],
      [CHR 0xE2, CHR 0x80, CHR 0x82], [CHR 0xE2, CHR 0x80, CHR 0x83],
      [CHR 0xE2, CHR 0x80, CHR 0x84], [CHR 0xE2, CHR 0x80, CHR 0x85],
      [CHR 0xE2, CHR 0x80, CHR 0x86], [CHR 0xE2, CHR 0x80, CHR 0x87],
      [CHR 0xE2, CHR 0x80, CHR 0x88], [CHR 0xE2, CHR 0x80, CHR 0x89],
      [CHR 0xE2, CHR 0x80, CHR 0x8A], [CHR 0xE2, CHR 0x80, CHR 0xA8],
      [CHR 0xE2, CHR 0x80, CHR 0xA9], [CHR 0xE2, CHR 0x80, CHR 0xAF],
      [CHR 0xE2, CHR 0x81, CHR 0x9F], [CHR 0xE3, CHR 0x80, CHR 0x80],
      [CHR 0xEF, CHR 0xBB, CHR 0xBF]]"

text \<open>Remove one unit from the front, if one is there.\<close>

definition strip_one :: "jstring list \<Rightarrow> jstring \<Rightarrow> jstring option" where
  "strip_one us s = map_option (\<lambda>u. drop (length u) s) (find (starts_with s) us)"

text \<open>Remove units from the front; every round removes a byte, so the length is fuel enough.\<close>

fun strip_units :: "nat \<Rightarrow> jstring list \<Rightarrow> jstring \<Rightarrow> jstring" where
  "strip_units 0 us s = s"
| "strip_units (Suc n) us s =
     (case strip_one us s of None \<Rightarrow> s | Some r \<Rightarrow> strip_units n us r)"

definition trim_start :: "jstring \<Rightarrow> jstring" where
  "trim_start s = strip_units (length s) ws_units s"

definition trim_end :: "jstring \<Rightarrow> jstring" where
  "trim_end s = rev (strip_units (length s) (map rev ws_units) (rev s))"

definition js_trim :: "jstring \<Rightarrow> jstring" where
  "js_trim s = trim_end (trim_start s)"

lemma strip_one_None:
  "(\<And>u. u \<in> set us \<Longrightarrow> \<not> starts_with s u) \<Longrightarrow> strip_one us s = None"
  by (simp add: strip_one_def find_None_iff)

lemma strip_one_shorter:
  assumes "strip_one us s = Some r" and "[] \<notin> set us"
  shows "length r < length s"
proof -
  from assms(1) obtain u where u: "find (starts_with s) us = Some u" "r = drop (length u) s"
    by (auto simp: strip_one_def)
  then have "u \<in> set us" "starts_with s u"
    by (auto simp: find_Some_iff)
  with assms(2) have "u \<noteq> []" "s = u @ r"
    using u(2) by (auto simp: starts_with_iff)
  then show ?thesis by (cases u) auto
qed

text \<open>The fuel of \<open>trim\<close> is enough: what is left starts with no white space.\<close>

lemma strip_units_enough:
  assumes "[] \<notin> set us" and "length s \<le> n"
  shows "strip_one us (strip_units n us s) = None"
  using assms(2)
proof (induction n arbitrary: s)
  case 0
  then show ?case
    using strip_one_shorter [OF _ assms(1), of "[]"] by (cases "strip_one us []") auto
next
  case (Suc n)
  show ?case
  proof (cases "strip_one us s")
    case None
    then show ?thesis by simp
  next
    case (Some r)
    with strip_one_shorter [OF Some assms(1)] Suc.prems have "length r \<le> n" by simp
    with Some Suc.IH show ?thesis by simp
  qed
qed

text \<open>Characters that neither begin nor end a white space unit: the ASCII ones above SPACE.\<close>

definition plain_char :: "char \<Rightarrow> bool" where
  "plain_char c \<longleftrightarrow> 0x20 < (of_char c :: nat) \<and> (of_char c :: nat) < 0x80"

lemma plain_strip_one:
  assumes "plain_char c"
  shows "strip_one ws_units (c # s) = None" "strip_one (map rev ws_units) (c # s) = None"
  using assms
  by (auto intro!: strip_one_None simp: ws_units_def plain_char_def)

lemma strip_units_plain:
  "plain_char c \<Longrightarrow> strip_units n ws_units (c # s) = c # s"
  "plain_char c \<Longrightarrow> strip_units n (map rev ws_units) (c # s) = c # s"
  by (cases n; simp add: plain_strip_one)+

lemma strip_units_Nil: "strip_units n ws_units [] = []"
  "strip_units n (map rev ws_units) [] = []"
  by (cases n; simp add: strip_one_def ws_units_def find_None_iff)+

lemma js_trim_plain_ends:
  assumes "s \<noteq> [] \<longrightarrow> plain_char (hd s) \<and> plain_char (last s)"
  shows "js_trim s = s"
proof (cases s)
  case Nil
  then show ?thesis by (simp add: js_trim_def trim_start_def trim_end_def)
next
  case (Cons c t)
  then obtain d u where du: "rev s = d # u" "d = last s"
    by (metis hd_rev list.collapse list.distinct(1) rev_is_Nil_conv)
  from Cons assms have "trim_start s = s" by (simp add: trim_start_def plain_strip_one)
  moreover from du assms Cons have "plain_char d" by auto
  then have "trim_end s = rev (rev s)"
    unfolding trim_end_def du(1) by (simp only: strip_units_plain)
  ultimately show ?thesis by (simp add: js_trim_def)
qed

lemma js_trim_plain [js_string]: "list_all plain_char s \<Longrightarrow> js_trim s = s"
  by (rule js_trim_plain_ends) (auto simp: list_all_iff)

text \<open>Trimming twice is trimming once.\<close>

lemma strip_units_stuck: "strip_one us s = None \<Longrightarrow> strip_units n us s = s"
  by (cases n) simp_all

lemma strip_units_suffix: "\<exists>p. s = p @ strip_units n us s"
proof (induction n arbitrary: s)
  case (Suc n)
  show ?case
  proof (cases "strip_one us s")
    case (Some r)
    then obtain p where "s = p @ r" by (auto simp: strip_one_def find_Some_iff starts_with_iff)
    moreover obtain q where "r = q @ strip_units n us r" using Suc.IH by blast
    ultimately have "s = (p @ q) @ strip_units n us r" by simp
    then show ?thesis using Some by (simp del: append_assoc)
  qed simp
qed simp

lemma strip_one_front: "strip_one us (a @ b) = None \<Longrightarrow> strip_one us a = None"
  by (fastforce simp: strip_one_def find_None_iff starts_with_iff)

lemma js_trim_twice [js_string]: "js_trim (js_trim s) = js_trim s"
proof -
  have us: "[] \<notin> set ws_units" "[] \<notin> set (map rev ws_units)" by (auto simp: ws_units_def)
  let ?t = "trim_start s"
  have t: "strip_one ws_units ?t = None"
    unfolding trim_start_def by (rule strip_units_enough [OF us(1)]) simp
  have u: "strip_one (map rev ws_units) (rev (trim_end ?t)) = None"
    unfolding trim_end_def rev_rev_ident by (rule strip_units_enough [OF us(2)]) simp
  obtain p where "rev ?t = p @ rev (trim_end ?t)"
    unfolding trim_end_def rev_rev_ident using strip_units_suffix by blast
  then have "?t = trim_end ?t @ rev p" by (metis rev_append rev_rev_ident)
  then have "strip_one ws_units (trim_end ?t) = None" using t strip_one_front by metis
  then have "trim_start (trim_end ?t) = trim_end ?t" by (simp add: trim_start_def strip_units_stuck)
  moreover have "trim_end (trim_end ?t) = trim_end ?t"
    unfolding trim_end_def [of "trim_end ?t"] using u by (simp add: strip_units_stuck)
  ultimately show ?thesis by (simp add: js_trim_def)
qed

text \<open>\<open>s.replace(c, d)\<close> with a one-character pattern: the first occurrence only.\<close>

fun replace_first :: "char \<Rightarrow> jstring \<Rightarrow> jstring \<Rightarrow> jstring" where
  "replace_first c d [] = []"
| "replace_first c d (x # s) = (if x = c then d @ s else x # replace_first c d s)"

text \<open>\<open>s.replace(/c/g, d)\<close>: every occurrence.\<close>

definition replace_all :: "char \<Rightarrow> jstring \<Rightarrow> jstring \<Rightarrow> jstring" where
  "replace_all c d s = concat (map (\<lambda>x. if x = c then d else [x]) s)"

lemma replace_first_none [js_string]: "c \<notin> set s \<Longrightarrow> replace_first c d s = s"
  by (induction s) auto

lemma replace_first_append [js_string]:
  "c \<notin> set s \<Longrightarrow> replace_first c d (s @ t) = s @ replace_first c d t"
  by (induction s) auto

text \<open>\<open>s.split(c)\<close> with a one-character separator: always at least one part.\<close>

fun js_split :: "char \<Rightarrow> jstring \<Rightarrow> jstring list" where
  "js_split c [] = [[]]"
| "js_split c (x # s) =
     (if x = c then [] # js_split c s
      else (case js_split c s of [] \<Rightarrow> [[x]] | p # ps \<Rightarrow> (x # p) # ps))"

lemma js_split_nonempty [simp]: "js_split c s \<noteq> []"
  by (induction s) (auto split: list.splits)

lemma js_split_none [js_string]: "c \<notin> set s \<Longrightarrow> js_split c s = [s]"
  by (induction s) auto

lemma js_split_append [js_string]:
  "c \<notin> set s \<Longrightarrow> js_split c (s @ c # t) = s # js_split c t"
  by (induction s) auto

text \<open>\<open>ps.join(sep)\<close>.\<close>

fun js_join :: "jstring \<Rightarrow> jstring list \<Rightarrow> jstring" where
  "js_join sep [] = []"
| "js_join sep [p] = p"
| "js_join sep (p # q # ps) = p @ sep @ js_join sep (q # ps)"

lemma js_join_split: "js_join [c] (js_split c s) = s"
proof (induction s)
  case Nil
  then show ?case by simp
next
  case (Cons x s)
  then show ?case by (cases "js_split c s"; cases "tl (js_split c s)") auto
qed

text \<open>
  Truthiness: \<open>a || b\<close> and \<open>a && b\<close> test a string for being non-empty; \<open>a ?? b\<close> tests
  for \<open>null\<close> and \<open>undefined\<close> only.  \<open>null\<close> and \<open>undefined\<close> are both \<open>None\<close> where the source
  treats them alike.
\<close>

definition or_null :: "jstring \<Rightarrow> jstring option" where
  "or_null s = (if s = [] then None else Some s)"

definition nullish :: "'a option \<Rightarrow> 'a \<Rightarrow> 'a" where
  "nullish a b = (case a of None \<Rightarrow> b | Some x \<Rightarrow> x)"

lemma nullish_simps [simp]: "nullish None b = b" "nullish (Some a) b = a"
  by (simp_all add: nullish_def)

lemma or_null_eq [simp]: "or_null s = None \<longleftrightarrow> s = []" "or_null s = Some t \<longleftrightarrow> s = t \<and> t \<noteq> []"
  by (auto simp: or_null_def)

section \<open>Digit strings\<close>

definition is_digit :: "char \<Rightarrow> bool" where
  "is_digit c \<longleftrightarrow> 48 \<le> (of_char c :: int) \<and> (of_char c :: int) \<le> 57"

definition digit_val :: "char \<Rightarrow> int" where
  "digit_val c = of_char c - 48"

definition digit_char :: "int \<Rightarrow> char" where
  "digit_char n = char_of (48 + n)"

text \<open>The number a digit string denotes.\<close>

definition digits_val :: "jstring \<Rightarrow> int" where
  "digits_val s = foldl (\<lambda>acc c. 10 * acc + digit_val c) 0 s"

text \<open>Decimal digits of a number that is not negative, most significant first; \<open>0\<close> is \<open>''0''\<close>.\<close>

function show_digits :: "int \<Rightarrow> jstring" where
  "show_digits n =
     (if n < 10 then [digit_char n] else show_digits (n div 10) @ [digit_char (n mod 10)])"
  by pat_completeness auto
termination
  by (relation "measure nat") auto

declare show_digits.simps [simp del]

text \<open>The leading digits of a string and what follows them.\<close>

definition span_digits :: "jstring \<Rightarrow> jstring \<times> jstring" where
  "span_digits s = (takeWhile is_digit s, dropWhile is_digit s)"

lemma digit_char_numerals [simp]:
  "digit_char 0 = CHR ''0''" "digit_char 1 = CHR ''1''"
  "digit_char 2 = CHR ''2''" "digit_char 3 = CHR ''3''" "digit_char 4 = CHR ''4''"
  "digit_char 5 = CHR ''5''" "digit_char 6 = CHR ''6''" "digit_char 7 = CHR ''7''"
  "digit_char 8 = CHR ''8''" "digit_char 9 = CHR ''9''"
  by code_simp+

lemma digit_cases:
  fixes n :: int
  assumes "0 \<le> n" "n < 10"
  obtains "n = 0" | "n = 1" | "n = 2" | "n = 3" | "n = 4"
    | "n = 5" | "n = 6" | "n = 7" | "n = 8" | "n = 9"
proof -
  from assms have "n = 0 \<or> n = 1 \<or> n = 2 \<or> n = 3 \<or> n = 4 \<or> n = 5 \<or> n = 6 \<or> n = 7 \<or> n = 8 \<or> n = 9"
    by arith
  with that show ?thesis by blast
qed

lemma digit_val_char [js_digits]: "0 \<le> n \<Longrightarrow> n < 10 \<Longrightarrow> digit_val (digit_char n) = n"
  by (erule (1) digit_cases) (simp_all add: digit_val_def)

lemma is_digit_char [js_digits]: "0 \<le> n \<Longrightarrow> n < 10 \<Longrightarrow> is_digit (digit_char n)"
  by (erule (1) digit_cases) (simp_all add: is_digit_def)

lemma digit_char_val [js_digits]: "digit_char (digit_val c) = c"
  by (simp add: digit_char_def digit_val_def)

lemma digit_val_less [js_digits]: "is_digit c \<Longrightarrow> digit_val c < 10"
  by (auto simp: is_digit_def digit_val_def)

lemma digit_val_nonneg [js_digits]: "is_digit c \<Longrightarrow> 0 \<le> digit_val c"
  by (auto simp: is_digit_def digit_val_def)

lemma is_digit_plain: "is_digit c \<Longrightarrow> plain_char c"
proof -
  have "(of_char c :: int) = int (of_char c)"
    by (simp add: of_nat_of_char)
  then show "is_digit c \<Longrightarrow> plain_char c"
    unfolding is_digit_def plain_char_def by linarith
qed

lemma is_digit_literals [simp]:
  "is_digit CHR ''0''" "is_digit CHR ''1''" "is_digit CHR ''2''" "is_digit CHR ''3''"
  "is_digit CHR ''4''" "is_digit CHR ''5''" "is_digit CHR ''6''" "is_digit CHR ''7''"
  "is_digit CHR ''8''" "is_digit CHR ''9''"
  "\<not> is_digit CHR ''.''" "\<not> is_digit CHR '',''" "\<not> is_digit CHR ''-''" "\<not> is_digit CHR ''+''"
  by (simp_all add: is_digit_def)

lemma is_digit_neq [simp]:
  "is_digit c \<Longrightarrow> c \<noteq> CHR ''.''" "is_digit c \<Longrightarrow> c \<noteq> CHR '',''"
  "is_digit c \<Longrightarrow> c \<noteq> CHR ''-''" "is_digit c \<Longrightarrow> c \<noteq> CHR ''+''"
  by auto

lemma digits_no_sep [simp]:
  "list_all is_digit s \<Longrightarrow> CHR ''.'' \<notin> set s" "list_all is_digit s \<Longrightarrow> CHR '','' \<notin> set s"
  "list_all is_digit s \<Longrightarrow> CHR ''-'' \<notin> set s" "list_all is_digit s \<Longrightarrow> CHR ''+'' \<notin> set s"
  by (auto simp: list_all_iff)

lemma digits_val_Nil [simp]: "digits_val [] = 0"
  by (simp add: digits_val_def)

lemma digits_val_snoc [js_digits]:
  "digits_val (s @ [c]) = 10 * digits_val s + digit_val c"
  by (simp add: digits_val_def)

lemma digits_val_append [js_digits]:
  "digits_val (s @ t) = digits_val s * 10 ^ length t + digits_val t"
proof (induction t rule: rev_induct)
  case Nil
  then show ?case by simp
next
  case (snoc c t)
  have "digits_val (s @ t @ [c]) = 10 * digits_val (s @ t) + digit_val c"
    by (metis append_assoc digits_val_snoc)
  with snoc show ?case by (simp add: digits_val_snoc algebra_simps)
qed

lemma digits_val_Cons [js_digits]:
  "digits_val (c # t) = digit_val c * 10 ^ length t + digits_val t"
  using digits_val_append [of "[c]" t] by (simp add: digits_val_def)

lemma digits_val_nonneg: "list_all is_digit s \<Longrightarrow> 0 \<le> digits_val s"
  by (induction s rule: rev_induct) (auto simp: digits_val_snoc digit_val_nonneg)

lemma digits_val_bound: "list_all is_digit s \<Longrightarrow> digits_val s < 10 ^ length s"
proof (induction s rule: rev_induct)
  case Nil
  then show ?case by simp
next
  case (snoc c s)
  then have "digits_val s + 1 \<le> 10 ^ length s" "digit_val c < 10"
    by (auto simp: digit_val_less)
  then show ?case by (simp add: digits_val_snoc)
qed

lemma digits_val_show [js_digits]: "0 \<le> n \<Longrightarrow> digits_val (show_digits n) = n"
proof (induction n rule: show_digits.induct)
  case (1 n)
  then show ?case
    by (subst show_digits.simps) (auto simp: digits_val_snoc digit_val_char digits_val_def)
qed

lemma show_digits_digits [js_digits]: "0 \<le> n \<Longrightarrow> list_all is_digit (show_digits n)"
proof (induction n rule: show_digits.induct)
  case (1 n)
  then show ?case by (subst show_digits.simps) (auto simp: is_digit_char)
qed

lemma show_digits_nonempty [simp]: "show_digits n \<noteq> []"
  by (subst show_digits.simps) simp

text \<open>A digit string with no leading zero is the one \<open>show_digits\<close> prints.\<close>

lemma show_digits_val:
  assumes "list_all is_digit s" and "s \<noteq> []" and "hd s = CHR ''0'' \<longrightarrow> length s = 1"
  shows "show_digits (digits_val s) = s"
  using assms
proof (induction s rule: rev_induct)
  case Nil
  then show ?case by simp
next
  case (snoc c s)
  have c: "is_digit c" using snoc.prems by simp
  show ?case
  proof (cases s)
    case Nil
    then show ?thesis
      using c by (subst show_digits.simps) (simp add: digits_val_def digit_val_less digit_char_val)
  next
    case (Cons d t)
    then have d: "is_digit d" "d \<noteq> CHR ''0''" and t: "list_all is_digit t"
      using snoc.prems by auto
    then have "0 < digit_val d"
      using digit_char_val [of d] digit_val_nonneg [of d] by (cases "digit_val d = 0") auto
    then have "0 < digits_val s"
      using digits_val_nonneg [OF t] by (simp add: Cons digits_val_Cons add_pos_nonneg)
    moreover have "show_digits (digits_val s) = s"
      using snoc Cons d by (intro snoc.IH) auto
    ultimately show ?thesis
      using c digit_val_less [OF c] digit_val_nonneg [OF c]
      by (subst show_digits.simps) (simp add: digits_val_snoc digit_char_val)
  qed
qed

lemma show_digits_hd: "0 < n \<Longrightarrow> hd (show_digits n) \<noteq> CHR ''0''"
proof (induction n rule: show_digits.induct)
  case (1 n)
  show ?case
  proof (cases "n < 10")
    case True
    then show ?thesis
      using "1.prems" digit_val_char [of n]
      by (subst show_digits.simps) (auto simp: digit_val_def)
  next
    case False
    with 1 have "hd (show_digits (n div 10)) \<noteq> CHR ''0''" by simp
    with False show ?thesis by (subst show_digits.simps) simp
  qed
qed

lemma show_digits_length: "0 < n \<Longrightarrow> 10 ^ (length (show_digits n) - 1) \<le> n"
proof (induction n rule: show_digits.induct)
  case (1 n)
  show ?case
  proof (cases "n < 10")
    case True
    then show ?thesis using "1.prems" by (subst show_digits.simps) simp
  next
    case False
    then have IH: "10 ^ (length (show_digits (n div 10)) - 1) \<le> n div 10" using 1 by simp
    obtain k where k: "length (show_digits (n div 10)) = Suc k"
      by (metis length_greater_0_conv show_digits_nonempty gr0_implies_Suc)
    then have "length (show_digits n) = Suc (Suc k)"
      using False by (subst show_digits.simps) simp
    with IH k show ?thesis by simp
  qed
qed

lemma show_digits_times10:
  assumes "0 < n"
  shows "show_digits (n * 10 ^ k) = show_digits n @ replicate k CHR ''0''"
proof -
  have zeros: "digits_val (replicate k CHR ''0'') = 0"
    by (induction k) (simp_all add: digits_val_Cons digit_val_def)
  let ?s = "show_digits n @ replicate k CHR ''0''"
  have "list_all is_digit ?s" using show_digits_digits [of n] assms by (auto simp: list_all_iff)
  moreover have "digits_val ?s = n * 10 ^ k" using assms by (simp add: digits_val_append digits_val_show zeros)
  moreover have "hd ?s \<noteq> CHR ''0''" using show_digits_hd [OF assms] by simp
  ultimately show ?thesis using show_digits_val [of ?s] by simp
qed

lemma span_digits_all [js_digits]: "list_all is_digit s \<Longrightarrow> span_digits s = (s, [])"
  by (induction s) (auto simp: span_digits_def)

lemma span_digits_stop [js_digits]:
  "list_all is_digit s \<Longrightarrow> \<not> is_digit c \<Longrightarrow> span_digits (s @ c # t) = (s, c # t)"
  by (induction s) (auto simp: span_digits_def)

lemma span_digits_split:
  "span_digits s = (i, r) \<Longrightarrow> s = i @ r \<and> list_all is_digit i \<and> (r \<noteq> [] \<longrightarrow> \<not> is_digit (hd r))"
  by (auto simp: span_digits_def list_all_iff hd_dropWhile dest: set_takeWhileD)

section \<open>Query strings\<close>

text \<open>\<open>encodeURIComponent\<close>, on the bytes of the text.\<close>

definition uri_unreserved :: "char \<Rightarrow> bool" where
  "uri_unreserved c \<longleftrightarrow>
     is_digit c \<or> (65 \<le> (of_char c :: int) \<and> (of_char c :: int) \<le> 90)
     \<or> (97 \<le> (of_char c :: int) \<and> (of_char c :: int) \<le> 122)
     \<or> c \<in> {CHR ''-'', CHR ''_'', CHR ''.'', CHR ''!'', CHR ''~'', CHR ''*'', apostrophe, CHR ''('', CHR '')''}"

definition hex_digit :: "nat \<Rightarrow> char" where
  "hex_digit n = (if n < 10 then char_of (48 + n) else char_of (55 + n))"

definition encode_byte :: "char \<Rightarrow> jstring" where
  "encode_byte c =
     (if uri_unreserved c then [c]
      else [CHR ''%'', hex_digit (of_char c div 16), hex_digit (of_char c mod 16)])"

definition encodeURIComponent :: "jstring \<Rightarrow> jstring" where
  "encodeURIComponent s = concat (map encode_byte s)"

section \<open>Query keys\<close>

text \<open>
  The query keys a change of the portfolio makes stale (\<open>lib/invalidate-cache.ts\<close>), which several
  mutations share.
\<close>

definition PORTFOLIO_CACHE_KEYS :: "jstring list" where
  "PORTFOLIO_CACHE_KEYS = [''transactions'', ''holdings'', ''perf'', ''networth'', ''realized'', ''concentration'',
     ''allocation'', ''contributions-bars'', ''contributions-overlay'', ''closed'']"

section \<open>Association lists with insertion order\<close>

text \<open>
  A JavaScript \<open>Map\<close> iterates in the order in which its keys were first inserted;
  \<open>set\<close> on a present key keeps the key's place.
\<close>

type_synonym ('k, 'v) jsmap = "('k \<times> 'v) list"

fun jm_set :: "'k \<Rightarrow> 'v \<Rightarrow> ('k, 'v) jsmap \<Rightarrow> ('k, 'v) jsmap" where
  "jm_set k v [] = [(k, v)]"
| "jm_set k v ((a, b) # m) = (if a = k then (k, v) # m else (a, b) # jm_set k v m)"

definition jm_get :: "('k, 'v) jsmap \<Rightarrow> 'k \<Rightarrow> 'v option" where
  "jm_get m k = map_of m k"

definition jm_has :: "('k, 'v) jsmap \<Rightarrow> 'k \<Rightarrow> bool" where
  "jm_has m k \<longleftrightarrow> jm_get m k \<noteq> None"

definition jm_delete :: "'k \<Rightarrow> ('k, 'v) jsmap \<Rightarrow> ('k, 'v) jsmap" where
  "jm_delete k m = filter (\<lambda>(a, b). a \<noteq> k) m"

definition jm_values :: "('k, 'v) jsmap \<Rightarrow> 'v list" where
  "jm_values m = map snd m"

definition jm_wf :: "('k, 'v) jsmap \<Rightarrow> bool" where
  "jm_wf m \<longleftrightarrow> distinct (map fst m)"

lemma jm_get_set [simp]: "jm_get (jm_set k v m) a = (if a = k then Some v else jm_get m a)"
  by (induction m) (auto simp: jm_get_def)

lemma jm_get_delete [simp]: "jm_get (jm_delete k m) a = (if a = k then None else jm_get m a)"
  by (induction m) (auto simp: jm_get_def jm_delete_def)

lemma jm_get_Nil [simp]: "jm_get [] a = None"
  by (simp add: jm_get_def)

lemma jm_set_order:
  "map fst (jm_set k v m) = (if k \<in> set (map fst m) then map fst m else map fst m @ [k])"
  by (induction m) (auto simp del: set_map split: if_splits)

lemma jm_wf_set [simp]: "jm_wf m \<Longrightarrow> jm_wf (jm_set k v m)"
  by (auto simp: jm_wf_def jm_set_order simp del: set_map)

lemma jm_wf_delete [simp]: "jm_wf m \<Longrightarrow> jm_wf (jm_delete k m)"
  by (induction m) (auto simp: jm_wf_def jm_delete_def)

lemma jm_wf_Nil [simp]: "jm_wf []"
  by (simp add: jm_wf_def)

lemma jm_values_get: "jm_wf m \<Longrightarrow> v \<in> set (jm_values m) \<longleftrightarrow> (\<exists>k. jm_get m k = Some v)"
  by (force simp: jm_wf_def jm_values_def jm_get_def image_iff)

text \<open>The values of a list in the order of their first occurrence.\<close>

definition first_seen :: "'a list \<Rightarrow> 'a list" where
  "first_seen xs = rev (remdups (rev xs))"

lemma first_seen_snoc: "first_seen (xs @ [x]) = (if x \<in> set xs then first_seen xs else first_seen xs @ [x])"
  by (simp add: first_seen_def)

lemma first_seen_simps [simp]: "first_seen [] = []" "distinct (first_seen xs)"
  "set (first_seen xs) = set xs"
  by (simp_all add: first_seen_def)

text \<open>
  The interface the components use a keyed collection through: read, write and delete at a key.
  The lemmas about collections whose entries carry their own key are proved from the interface
  alone.
\<close>

locale key_store =
  fixes get :: "'m \<Rightarrow> 'k \<Rightarrow> 'v option"
    and put :: "'k \<Rightarrow> 'v \<Rightarrow> 'm \<Rightarrow> 'm"
    and remove :: "'k \<Rightarrow> 'm \<Rightarrow> 'm"
    and empty :: 'm
  assumes get_put: "get (put k v m) a = (if a = k then Some v else get m a)"
    and get_remove: "get (remove k m) a = (if a = k then None else get m a)"
    and get_empty: "get empty a = None"
begin

definition entries_satisfy :: "('k \<Rightarrow> 'v \<Rightarrow> bool) \<Rightarrow> 'm \<Rightarrow> bool" where
  "entries_satisfy P m \<longleftrightarrow> (\<forall>k v. get m k = Some v \<longrightarrow> P k v)"

lemma satisfy_empty: "entries_satisfy P empty"
  by (simp add: entries_satisfy_def get_empty)

lemma satisfy_put: "entries_satisfy P m \<Longrightarrow> P k v \<Longrightarrow> entries_satisfy P (put k v m)"
  by (simp add: entries_satisfy_def get_put)

lemma satisfy_remove: "entries_satisfy P m \<Longrightarrow> entries_satisfy P (remove k m)"
  by (auto simp: entries_satisfy_def get_remove)

lemma satisfyD: "entries_satisfy P m \<Longrightarrow> get m k = Some v \<Longrightarrow> P k v"
  by (simp add: entries_satisfy_def)

lemma put_other: "a \<noteq> k \<Longrightarrow> get (put k v m) a = get m a"
  by (simp add: get_put)

lemma remove_put: "get (remove k (put k v m)) = get (remove k m)"
  by (rule ext) (simp add: get_put get_remove)

end

interpretation jm: key_store jm_get jm_set jm_delete "[]"
  by unfold_locales simp_all

text \<open>
  The interface of a canonical form: a normal form that keeps the value of valid texts and is
  the same for equal values.  Comparing normal forms is then comparing values.
\<close>

locale canonical_form =
  fixes valid :: "'s \<Rightarrow> bool"
    and norm_of :: "'s \<Rightarrow> 's"
    and value_of :: "'s \<Rightarrow> 'v"
    and canon :: "'s \<Rightarrow> bool"
  assumes norm_value: "valid s \<Longrightarrow> value_of (norm_of s) = value_of s"
    and norm_canon: "valid s \<Longrightarrow> canon (norm_of s)"
    and canon_valid: "canon s \<Longrightarrow> valid s"
    and norm_inj: "valid a \<Longrightarrow> valid b \<Longrightarrow> value_of (norm_of a) = value_of (norm_of b) \<Longrightarrow>
      norm_of a = norm_of b"
begin

lemma norm_eq_iff: "valid a \<Longrightarrow> valid b \<Longrightarrow> norm_of a = norm_of b \<longleftrightarrow> value_of a = value_of b"
  using norm_inj norm_value by metis

lemma norm_idem: "valid s \<Longrightarrow> norm_of (norm_of s) = norm_of s"
  using norm_eq_iff norm_value norm_canon canon_valid by metis

end

end
