(* ===== verification/JsNumber.thy ===== *)
theory JsNumber
  imports Prelude Complex_Main "HOL-Library.Log_Nat"
begin

text \<open>
  The \<open>number\<close> type of the language: IEEE 754 doubles.  A finite value is its exact
  rational value (negative zero is a value of its own), every arithmetic operation is the
  exact one followed by rounding to nearest, ties to even, with 53 bits of significand,
  gradual underflow and overflow to infinity.  \<open>Number(s)\<close> is \<open>str_to_number\<close>,
  \<open>String(x)\<close> is \<open>number_to_str\<close>.
\<close>

named_theorems js_number
  "facts about rounding and the arithmetic of numbers"

datatype jsnum = NaN | PInf | NInf | NegZero | Num rat

section \<open>Rounding to a double\<close>

definition pow2 :: "int \<Rightarrow> rat" where
  "pow2 k = (if 0 \<le> k then 2 ^ nat k else 1 / 2 ^ nat (- k))"

text \<open>\<open>pow10\<close>, likewise.\<close>

definition pow10 :: "int \<Rightarrow> rat" where
  "pow10 k = (if 0 \<le> k then 10 ^ nat k else 1 / 10 ^ nat (- k))"

text \<open>The exponent \<open>e\<close> with \<open>pow2 e \<le> q < pow2 (e + 1)\<close>, for \<open>0 < q\<close>.\<close>

definition rat_log2 :: "rat \<Rightarrow> int" where
  "rat_log2 q =
     (let (a, b) = quotient_of q; e = bitlen a - bitlen b
      in if pow2 e \<le> q then e else e - 1)"

definition round_even :: "rat \<Rightarrow> int" where
  "round_even q =
     (let f = \<lfloor>q\<rfloor>; d = q - of_int f
      in if d < 1 / 2 then f else if 1 / 2 < d then f + 1 else if even f then f else f + 1)"

text \<open>The exponent of the last place of a double near \<open>q\<close>: 52 bits below the leading one, never below 2^-1074.\<close>

definition ulp_exp :: "rat \<Rightarrow> int" where
  "ulp_exp q = max (rat_log2 q - 52) (- 1074)"

definition round_pos :: "rat \<Rightarrow> rat" where
  "round_pos q = of_int (round_even (q / pow2 (ulp_exp q))) * pow2 (ulp_exp q)"

definition to_double :: "rat \<Rightarrow> jsnum" where
  "to_double q =
     (if q = 0 then Num 0
      else let r = round_pos \<bar>q\<bar>
           in if r = 0 then (if q < 0 then NegZero else Num 0)
              else if 1024 \<le> rat_log2 r then (if q < 0 then NInf else PInf)
              else Num (if q < 0 then - r else r))"

text \<open>The rationals that are doubles.\<close>

definition is_double :: "rat \<Rightarrow> bool" where
  "is_double q \<longleftrightarrow> to_double q = Num q"

fun wf_num :: "jsnum \<Rightarrow> bool" where
  "wf_num (Num q) = is_double q"
| "wf_num _ = True"

section \<open>Operations\<close>

fun is_finite :: "jsnum \<Rightarrow> bool" where
  "is_finite NaN = False"
| "is_finite PInf = False"
| "is_finite NInf = False"
| "is_finite _ = True"

text \<open>The value of a finite number.\<close>

fun num_val :: "jsnum \<Rightarrow> rat" where
  "num_val (Num q) = q"
| "num_val _ = 0"

fun is_neg :: "jsnum \<Rightarrow> bool" where
  "is_neg (Num q) = (q < 0)"
| "is_neg NInf = True"
| "is_neg NegZero = True"
| "is_neg _ = False"

definition signed_zero :: "bool \<Rightarrow> jsnum" where
  "signed_zero n = (if n then NegZero else Num 0)"

definition signed_inf :: "bool \<Rightarrow> jsnum" where
  "signed_inf n = (if n then NInf else PInf)"

fun js_neg :: "jsnum \<Rightarrow> jsnum" where
  "js_neg NaN = NaN"
| "js_neg PInf = NInf"
| "js_neg NInf = PInf"
| "js_neg NegZero = Num 0"
| "js_neg (Num q) = (if q = 0 then NegZero else Num (- q))"

fun js_add :: "jsnum \<Rightarrow> jsnum \<Rightarrow> jsnum" where
  "js_add NaN b = NaN"
| "js_add a NaN = NaN"
| "js_add PInf b = (if b = NInf then NaN else PInf)"
| "js_add NInf b = (if b = PInf then NaN else NInf)"
| "js_add a PInf = PInf"
| "js_add a NInf = NInf"
| "js_add NegZero NegZero = NegZero"
| "js_add a b = to_double (num_val a + num_val b)"

definition js_sub :: "jsnum \<Rightarrow> jsnum \<Rightarrow> jsnum" where
  "js_sub a b = js_add a (js_neg b)"

definition js_mul :: "jsnum \<Rightarrow> jsnum \<Rightarrow> jsnum" where
  "js_mul a b =
     (if a = NaN \<or> b = NaN then NaN
      else let neg = (is_neg a \<noteq> is_neg b)
      in if \<not> is_finite a \<or> \<not> is_finite b
         then (if (is_finite a \<and> num_val a = 0) \<or> (is_finite b \<and> num_val b = 0) then NaN
               else signed_inf neg)
         else if num_val a * num_val b = 0 then signed_zero neg
         else to_double (num_val a * num_val b))"

definition js_div :: "jsnum \<Rightarrow> jsnum \<Rightarrow> jsnum" where
  "js_div a b =
     (if a = NaN \<or> b = NaN then NaN
      else let neg = (is_neg a \<noteq> is_neg b)
      in if \<not> is_finite a then (if is_finite b then signed_inf neg else NaN)
         else if \<not> is_finite b then signed_zero neg
         else if num_val b = 0 then (if num_val a = 0 then NaN else signed_inf neg)
         else if num_val a = 0 then signed_zero neg
         else to_double (num_val a / num_val b))"

fun js_abs :: "jsnum \<Rightarrow> jsnum" where
  "js_abs NaN = NaN"
| "js_abs PInf = PInf"
| "js_abs NInf = PInf"
| "js_abs NegZero = Num 0"
| "js_abs (Num q) = Num \<bar>q\<bar>"

fun js_lt :: "jsnum \<Rightarrow> jsnum \<Rightarrow> bool" where
  "js_lt NaN b = False"
| "js_lt a NaN = False"
| "js_lt NInf b = (b \<noteq> NInf)"
| "js_lt PInf b = False"
| "js_lt a PInf = True"
| "js_lt a NInf = False"
| "js_lt a b = (num_val a < num_val b)"

text \<open>\<open>a === b\<close> on numbers: \<open>NaN\<close> equals nothing, the two zeros are equal.\<close>

definition js_eq :: "jsnum \<Rightarrow> jsnum \<Rightarrow> bool" where
  "js_eq a b \<longleftrightarrow> a \<noteq> NaN \<and> b \<noteq> NaN \<and>
     (if is_finite a \<and> is_finite b then num_val a = num_val b else a = b)"

definition js_le :: "jsnum \<Rightarrow> jsnum \<Rightarrow> bool" where
  "js_le a b \<longleftrightarrow> js_lt a b \<or> js_eq a b"

section \<open>Number(s)\<close>

definition radix_val :: "char \<Rightarrow> int option" where
  "radix_val c =
     (let n = of_char c :: int
      in if 48 \<le> n \<and> n \<le> 57 then Some (n - 48)
         else if 97 \<le> n \<and> n \<le> 102 then Some (n - 87)
         else if 65 \<le> n \<and> n \<le> 70 then Some (n - 55)
         else None)"

fun parse_radix :: "int \<Rightarrow> int \<Rightarrow> jstring \<Rightarrow> int option" where
  "parse_radix b acc [] = Some acc"
| "parse_radix b acc (c # s) =
     (case radix_val c of None \<Rightarrow> None
      | Some d \<Rightarrow> if d < b then parse_radix b (b * acc + d) s else None)"

text \<open>The exponent part of a decimal literal; \<open>None\<close> where what is left is not one.\<close>

definition parse_exponent :: "jstring \<Rightarrow> int option" where
  "parse_exponent s =
     (case s of [] \<Rightarrow> Some 0
      | e # t \<Rightarrow>
          if e = CHR ''e'' \<or> e = CHR ''E'' then
            (let (neg, ds) =
               (case t of [] \<Rightarrow> (False, [])
                | c # u \<Rightarrow> if c = CHR ''-'' then (True, u)
                            else if c = CHR ''+'' then (False, u) else (False, t))
             in if ds \<noteq> [] \<and> list_all is_digit ds
                then Some (if neg then - digits_val ds else digits_val ds)
                else None)
          else None)"

text \<open>The digits after the point, where there is a point.\<close>

definition split_fraction :: "jstring \<Rightarrow> jstring \<times> jstring" where
  "split_fraction r =
     (case r of [] \<Rightarrow> ([], [])
      | c # t \<Rightarrow> if c = CHR ''.'' then span_digits t else ([], r))"

definition parse_unsigned :: "jstring \<Rightarrow> rat option" where
  "parse_unsigned s =
     (let (i, r) = span_digits s; (f, u) = split_fraction r
      in if i = [] \<and> f = [] then None
         else map_option
           (\<lambda>e. of_int (digits_val (i @ f)) * pow10 (e - int (length f)))
           (parse_exponent u))"

definition parse_signed :: "jstring \<Rightarrow> jsnum" where
  "parse_signed t =
     (let (neg, u) =
        (case t of [] \<Rightarrow> (False, [])
         | c # v \<Rightarrow> if c = CHR ''-'' then (True, v) else if c = CHR ''+'' then (False, v)
                     else (False, t))
      in if u = ''Infinity'' then signed_inf neg
         else case parse_unsigned u of None \<Rightarrow> NaN
              | Some q \<Rightarrow> if neg then js_neg (to_double q) else to_double q)"

definition str_to_number :: "jstring \<Rightarrow> jsnum" where
  "str_to_number s =
     (let t = js_trim s;
          radix = (\<lambda>b. let ds = drop 2 t in
             if ds = [] then NaN
             else case parse_radix b 0 ds of None \<Rightarrow> NaN | Some n \<Rightarrow> to_double (of_int n))
      in if t = [] then Num 0
         else if starts_with t ''0x'' \<or> starts_with t ''0X'' then radix 16
         else if starts_with t ''0o'' \<or> starts_with t ''0O'' then radix 8
         else if starts_with t ''0b'' \<or> starts_with t ''0B'' then radix 2
         else parse_signed t)"

section \<open>String(x)\<close>

text \<open>The \<open>n\<close> with \<open>pow10 (n - 1) \<le> q < pow10 n\<close>, for \<open>0 < q\<close>.\<close>

definition dec_exponent :: "rat \<Rightarrow> int" where
  "dec_exponent q =
     (let (a, b) = quotient_of q;
          n = int (length (show_digits a)) - int (length (show_digits b))
      in if q < pow10 n then n else n + 1)"

text \<open>
  The decimal digits of the shortest decimal that rounds to \<open>q\<close>: with \<open>k\<close> digits there are
  two neighbours of \<open>q\<close>; the nearest one that rounds back is taken, the even one on a tie.
\<close>

definition digit_candidates :: "rat \<Rightarrow> int \<Rightarrow> nat \<Rightarrow> int list" where
  "digit_candidates q n k =
     (let sc = pow10 (n - int k); lo = \<lfloor>q / sc\<rfloor>; hi = lo + 1;
          closer = (if q / sc - of_int lo < 1 / 2 then [lo, hi]
                    else if 1 / 2 < q / sc - of_int lo then [hi, lo]
                    else if even lo then [lo, hi] else [hi, lo])
      in filter (\<lambda>c. 0 < c \<and> to_double (of_int c * sc) = Num q) closer)"

fun shortest_digits :: "nat \<Rightarrow> nat \<Rightarrow> rat \<Rightarrow> int \<Rightarrow> int \<times> nat \<times> int" where
  "shortest_digits 0 k q n = (\<lfloor>q * pow10 (int k - n)\<rfloor>, k, n)"
| "shortest_digits (Suc fuel) k q n =
     (case digit_candidates q n k of
        [] \<Rightarrow> shortest_digits fuel (Suc k) q n
      | c # _ \<Rightarrow> if c = 10 ^ k then (10 ^ (k - 1), k, n + 1) else (c, k, n))"

definition layout_number :: "jstring \<Rightarrow> int \<Rightarrow> jstring" where
  "layout_number ds n =
     (let k = int (length ds)
      in if k \<le> n \<and> n \<le> 21 then ds @ replicate (nat (n - k)) CHR ''0''
         else if 0 < n \<and> n \<le> 21 then take (nat n) ds @ ''.'' @ drop (nat n) ds
         else if - 6 < n \<and> n \<le> 0 then ''0.'' @ replicate (nat (- n)) CHR ''0'' @ ds
         else let e = n - 1;
                  ex = (if e < 0 then ''e-'' else ''e+'') @ show_digits \<bar>e\<bar>
              in if k = 1 then ds @ ex else take 1 ds @ ''.'' @ drop 1 ds @ ex)"

definition pos_to_str :: "rat \<Rightarrow> jstring" where
  "pos_to_str q =
     (let (s, k, n) = shortest_digits 1400 1 q (dec_exponent q)
      in layout_number (show_digits s) n)"

fun number_to_str :: "jsnum \<Rightarrow> jstring" where
  "number_to_str NaN = ''NaN''"
| "number_to_str PInf = ''Infinity''"
| "number_to_str NInf = ''-Infinity''"
| "number_to_str NegZero = ''0''"
| "number_to_str (Num q) =
     (if q = 0 then ''0'' else if q < 0 then ''-'' @ pos_to_str (- q) else pos_to_str q)"

section \<open>Powers of two\<close>

lemma pow2_pos [simp]: "0 < pow2 k"
  by (simp add: pow2_def)

lemma pow2_nonneg [simp]: "0 \<le> pow2 k" and pow2_nonzero [simp]: "pow2 k \<noteq> 0"
  using pow2_pos [of k] by (simp_all del: pow2_pos)

lemma pow2_powi: "pow2 k = 2 powi k"
  by (auto simp: pow2_def power_int_def inverse_eq_divide power_one_over)

lemma pow2_add: "pow2 (a + b) = pow2 a * pow2 b"
  by (simp add: pow2_powi power_int_add)

lemma pow2_nat: "pow2 (int n) = 2 ^ n"
  by (simp add: pow2_def)

lemma pow2_Suc: "pow2 (k + 1) = 2 * pow2 k"
  by (simp add: pow2_add) (simp add: pow2_def)

lemma pow2_mono: "a \<le> b \<Longrightarrow> pow2 a \<le> pow2 b"
  by (simp add: pow2_powi power_int_increasing)

lemma pow2_less_iff [simp]: "pow2 a < pow2 b \<longleftrightarrow> a < b"
  by (metis linorder_not_le pow2_mono pow2_powi power_int_strict_increasing one_less_numeral_iff
      semiring_norm(76))

lemma pow2_le_iff [simp]: "pow2 a \<le> pow2 b \<longleftrightarrow> a \<le> b"
  by (meson linorder_not_le pow2_less_iff)

lemma pow10_pos [simp]: "0 < pow10 k"
  by (simp add: pow10_def)

lemma pow10_powi: "pow10 k = 10 powi k"
  by (auto simp: pow10_def power_int_def inverse_eq_divide power_one_over)

lemma pow10_neg: "pow10 (- int n) = 1 / 10 ^ n"
  by (simp add: pow10_def)

section \<open>Rounding facts\<close>

lemma bitlen_pow2:
  assumes "0 < x"
  shows "pow2 (bitlen x - 1) \<le> of_int x" "of_int x < pow2 (bitlen x)"
proof -
  have b: "0 < bitlen x"
    using bitlen_bounds [OF assms] assms by (cases "0 < bitlen x") auto
  have "2 ^ nat (bitlen x - 1) \<le> x" "x < 2 ^ nat (bitlen x)"
    using bitlen_bounds [OF assms] by auto
  then have "(of_int (2 ^ nat (bitlen x - 1)) :: rat) \<le> of_int x"
    "(of_int x :: rat) < of_int (2 ^ nat (bitlen x))"
    by (simp_all only: of_int_le_iff of_int_less_iff)
  with b show "pow2 (bitlen x - 1) \<le> of_int x" "of_int x < pow2 (bitlen x)"
    by (simp_all add: pow2_def)
qed

lemma rat_log2_bounds:
  assumes "0 < q"
  shows "pow2 (rat_log2 q) \<le> q" "q < pow2 (rat_log2 q + 1)"
proof -
  obtain a b where ab: "quotient_of q = (a, b)" by (cases "quotient_of q")
  then have b: "0 < b" by (rule quotient_of_denom_pos)
  have q: "q = of_int a / of_int b" using ab by (rule quotient_of_div)
  with assms b have a: "0 < a" by (simp add: zero_less_divide_iff)
  let ?e = "bitlen a - bitlen b"
  have rb: "(0 :: rat) < of_int b" using b by simp
  have "of_int a < pow2 (bitlen a)" by (rule bitlen_pow2 [OF a])
  also have "\<dots> = pow2 (?e + 1) * pow2 (bitlen b - 1)" by (simp flip: pow2_add)
  also have "\<dots> \<le> pow2 (?e + 1) * of_int b"
    using bitlen_pow2(1) [OF b] by (simp add: mult_left_mono)
  finally have hi: "q < pow2 (?e + 1)" using rb by (simp add: q divide_less_eq)
  have "pow2 (?e - 1) * of_int b \<le> pow2 (?e - 1) * pow2 (bitlen b)"
    using bitlen_pow2(2) [OF b] by (intro mult_left_mono) auto
  also have "\<dots> = pow2 (bitlen a - 1)" by (simp flip: pow2_add)
  also have "\<dots> \<le> of_int a" by (rule bitlen_pow2 [OF a])
  finally have lo: "pow2 (?e - 1) \<le> q" using rb by (simp add: q le_divide_eq)
  show "pow2 (rat_log2 q) \<le> q" "q < pow2 (rat_log2 q + 1)"
    using hi lo by (auto simp: rat_log2_def ab Let_def)
qed

lemma rat_log2_unique:
  assumes "pow2 e \<le> q" "q < pow2 (e + 1)"
  shows "rat_log2 q = e"
proof -
  have "0 < q" using assms(1) pow2_pos [of e] by linarith
  from rat_log2_bounds [OF this] assms
  have "pow2 (rat_log2 q) < pow2 (e + 1)" "pow2 e < pow2 (rat_log2 q + 1)" by linarith+
  then show ?thesis by simp
qed

lemma rat_log2_less: "0 < q \<Longrightarrow> q < pow2 e \<Longrightarrow> rat_log2 q < e"
  using rat_log2_bounds(1) [of q] by (metis linorder_not_le order.strict_trans2 pow2_less_iff less_le_not_le)

lemma rat_log2_ge: "0 < q \<Longrightarrow> pow2 e \<le> q \<Longrightarrow> e \<le> rat_log2 q"
  using rat_log2_bounds(2) [of q] by (metis order.strict_trans1 pow2_less_iff zless_add1_eq order_le_less)

lemma round_even_int [simp]: "round_even (of_int n) = n"
  by (simp add: round_even_def)

lemma round_even_near: "\<bar>of_int (round_even q) - q\<bar> \<le> 1 / 2"
  unfolding round_even_def Let_def
  using floor_correct [of q] by (auto simp: abs_le_iff; linarith)

lemma round_even_le: "q \<le> of_int n \<Longrightarrow> round_even q \<le> n"
proof -
  assume "q \<le> of_int n"
  then have "of_int (round_even q) < (of_int (n + 1) :: rat)"
    using round_even_near [of q] by linarith
  then show ?thesis by (simp only: of_int_less_iff)
qed

lemma round_even_ge: "of_int n \<le> q \<Longrightarrow> n \<le> round_even q"
proof -
  assume "of_int n \<le> q"
  then have "of_int (n - 1) < (of_int (round_even q) :: rat)"
    using round_even_near [of q] by linarith
  then show ?thesis by (simp only: of_int_less_iff)
qed

text \<open>A significand of 53 bits at an exponent of the format is kept as it is.\<close>

lemma round_pos_exact:
  assumes "0 < n" "n \<le> 2 ^ 53" "- 1074 \<le> u"
  shows "round_pos (of_int n * pow2 u) = of_int n * pow2 u"
proof -
  let ?q = "of_int n * pow2 u" and ?v = "ulp_exp (of_int n * pow2 u)"
  have q: "0 < ?q" using assms by simp
  have "\<exists>m. ?q = of_int m * pow2 ?v"
  proof (cases "n = 2 ^ 53")
    case True
    then have qq: "?q = pow2 (u + 53)" by (simp add: pow2_add) (simp add: pow2_def)
    have "rat_log2 ?q = u + 53" by (rule rat_log2_unique) (simp_all add: qq)
    then have "?v \<le> u + 53" "?v = u + 1" using assms(3) by (auto simp: ulp_exp_def)
    moreover have "pow2 (u + 53) = of_int (2 ^ 52) * pow2 (u + 1)"
      using pow2_add [of 52 "u + 1"] by (simp add: pow2_def algebra_simps)
    ultimately show ?thesis using qq by metis
  next
    case False
    with assms have "n < 2 ^ 53" by simp
    then have "(of_int n :: rat) < of_int (2 ^ 53)" by (simp only: of_int_less_iff)
    moreover have "pow2 53 = of_int (2 ^ 53)" by (simp add: pow2_def)
    ultimately have "?q < pow2 53 * pow2 u" by (simp only: mult_less_cancel_right_pos pow2_pos)
    then have "rat_log2 ?q < u + 53" using q by (intro rat_log2_less) (simp_all add: pow2_add mult.commute)
    then have v: "?v \<le> u" using assms(3) by (auto simp: ulp_exp_def)
    then have "pow2 u = pow2 (int (nat (u - ?v))) * pow2 ?v" by (simp flip: pow2_add)
    then have "pow2 u = of_int (2 ^ nat (u - ?v)) * pow2 ?v"
      by (simp only: pow2_nat of_int_power of_int_numeral)
    then have "?q = of_int (n * 2 ^ nat (u - ?v)) * pow2 ?v" by (simp only: of_int_mult mult.assoc)
    then show ?thesis by blast
  qed
  then obtain m where m: "?q = of_int m * pow2 ?v" by blast
  then have "?q / pow2 ?v = of_int m" by (simp add: field_simps)
  then show ?thesis unfolding round_pos_def by (simp only: round_even_int m [symmetric])
qed

text \<open>Every rounded value is such a significand times a power of two.\<close>

lemma round_pos_form:
  assumes "0 < q"
  obtains n u where "round_pos q = of_int n * pow2 u" "0 \<le> n" "n \<le> 2 ^ 53" "- 1074 \<le> u"
proof
  let ?u = "ulp_exp q"
  show "round_pos q = of_int (round_even (q / pow2 ?u)) * pow2 ?u" by (simp add: round_pos_def)
  show "0 \<le> round_even (q / pow2 ?u)" using assms by (intro round_even_ge) simp
  show "- 1074 \<le> ?u" by (simp add: ulp_exp_def)
  have "rat_log2 q + 1 \<le> ?u + 53" by (simp add: ulp_exp_def)
  then have "pow2 (rat_log2 q + 1) \<le> pow2 (?u + 53)" by (rule pow2_mono)
  with rat_log2_bounds(2) [OF assms] have "q \<le> pow2 (?u + 53)" by linarith
  then have "q \<le> pow2 (53 + ?u)" by (simp add: add.commute)
  also have "\<dots> = 2 ^ 53 * pow2 ?u" by (simp add: pow2_add) (simp add: pow2_def)
  finally have "q / pow2 ?u \<le> of_int (2 ^ 53)" by (simp add: divide_le_eq)
  then show "round_even (q / pow2 ?u) \<le> 2 ^ 53" by (rule round_even_le)
qed

lemma is_double_exact:
  assumes "0 < n" "n \<le> 2 ^ 53" "- 1074 \<le> u" "rat_log2 (of_int n * pow2 u) < 1024"
  shows "is_double (of_int n * pow2 u)"
proof -
  have "0 < of_int n * pow2 u" using assms(1) by simp
  with round_pos_exact [OF assms(1-3)] assms(4) show ?thesis
    by (simp add: is_double_def to_double_def Let_def)
qed

lemma is_double_0 [simp]: "is_double 0"
  by (simp add: is_double_def to_double_def)

lemma is_double_minus [simp]: "is_double (- q) \<longleftrightarrow> is_double q"
  by (auto simp: is_double_def to_double_def Let_def split: if_splits)

theorem wf_to_double [js_number]: "wf_num (to_double q)"
proof (cases "q = 0")
  case True
  then show ?thesis by (simp add: to_double_def)
next
  case False
  then have "0 < \<bar>q\<bar>" by simp
  then obtain n u where nu: "round_pos \<bar>q\<bar> = of_int n * pow2 u" "0 \<le> n" "n \<le> 2 ^ 53" "- 1074 \<le> u"
    by (rule round_pos_form)
  have "is_double (round_pos \<bar>q\<bar>)" if "round_pos \<bar>q\<bar> \<noteq> 0" "\<not> 1024 \<le> rat_log2 (round_pos \<bar>q\<bar>)"
    using nu that by (auto intro!: is_double_exact simp: order_le_less)
  with False show ?thesis by (auto simp: to_double_def Let_def)
qed

lemma is_double_int [js_number]:
  assumes "\<bar>n\<bar> \<le> 2 ^ 53"
  shows "is_double (of_int n)"
proof -
  have pos: "is_double (of_int m)" if "0 < m" "m \<le> 2 ^ 53" for m
  proof -
    have "(of_int m :: rat) \<le> of_int (2 ^ 53)" using that by (simp only: of_int_le_iff)
    then have "(of_int m :: rat) < pow2 1024" by (simp add: pow2_def)
    then have "rat_log2 (of_int m) < 1024" using that by (intro rat_log2_less) auto
    with is_double_exact [of m 0] that show ?thesis by (simp add: pow2_def)
  qed
  show ?thesis
    using assms pos [of n] pos [of "- n"] by (cases "n = 0"; cases "0 < n") auto
qed

lemma to_double_int [js_number]: "\<bar>n\<bar> \<le> 2 ^ 53 \<Longrightarrow> to_double (of_int n) = Num (of_int n)"
  using is_double_int by (simp add: is_double_def)

section \<open>Operations keep numbers well formed\<close>

lemma wf_js_neg [js_number]: "wf_num a \<Longrightarrow> wf_num (js_neg a)"
  by (cases a) auto

lemma wf_js_abs [js_number]: "wf_num a \<Longrightarrow> wf_num (js_abs a)"
  by (cases a) (auto simp: abs_if)

lemma wf_js_add [js_number]: "wf_num (js_add a b)"
  by (cases "(a, b)" rule: js_add.cases) (auto simp: wf_to_double)

lemma wf_js_sub [js_number]: "wf_num (js_sub a b)"
  by (simp add: js_sub_def wf_js_add)

lemma wf_js_mul [js_number]: "wf_num (js_mul a b)"
  by (auto simp: js_mul_def Let_def signed_zero_def signed_inf_def wf_to_double)

lemma wf_js_div [js_number]: "wf_num (js_div a b)"
  by (auto simp: js_div_def Let_def signed_zero_def signed_inf_def wf_to_double)

lemma wf_str_to_number [js_number]: "wf_num (str_to_number s)"
  by (auto simp: str_to_number_def parse_signed_def signed_inf_def Let_def wf_to_double wf_js_neg
      split: option.splits prod.splits)

lemma js_add_zero [js_number]:
  "wf_num a \<Longrightarrow> a \<noteq> NegZero \<Longrightarrow> js_add (Num 0) a = a"
  by (cases a) (auto simp: is_double_def)

lemma js_eq_refl [simp]: "js_eq a a \<longleftrightarrow> a \<noteq> NaN"
  by (simp add: js_eq_def)

lemma js_lt_irrefl [simp]: "\<not> js_lt a a"
  by (cases a) auto

lemma js_lt_trans: "js_lt a b \<Longrightarrow> js_lt b c \<Longrightarrow> js_lt a c"
  by (cases a; cases b; cases c) auto

lemma js_lt_asym: "js_lt a b \<Longrightarrow> \<not> js_lt b a"
  by (cases a; cases b) auto

section \<open>Rounding keeps the order\<close>

lemma round_pos_nonneg: "0 \<le> q \<Longrightarrow> 0 \<le> round_pos q"
  using round_even_ge [of 0 "q / pow2 (ulp_exp q)"] by (simp add: round_pos_def)

lemma to_double_pos: "js_lt (Num 0) (to_double q) \<Longrightarrow> 0 < q"
  using round_pos_nonneg [of "- q"] by (auto simp: to_double_def Let_def split: if_splits)

lemma round_even_mono: "p \<le> q \<Longrightarrow> round_even p \<le> round_even q"
proof -
  assume le: "p \<le> q"
  show ?thesis
  proof (cases "\<lfloor>p\<rfloor> = \<lfloor>q\<rfloor>")
    case True
    with le show ?thesis by (auto simp: round_even_def Let_def)
  next
    case False
    with floor_mono [OF le] have "\<lfloor>p\<rfloor> + 1 \<le> \<lfloor>q\<rfloor>" by linarith
    moreover have "round_even p \<le> \<lfloor>p\<rfloor> + 1" by (rule round_even_le) (use floor_correct [of p] in auto)
    moreover have "\<lfloor>q\<rfloor> \<le> round_even q" by (rule round_even_ge) simp
    ultimately show ?thesis by linarith
  qed
qed

lemma pow2_ratio: "u \<le> k \<Longrightarrow> pow2 k = of_int (2 ^ nat (k - u)) * pow2 u"
  using pow2_add [of "k - u" u] by (simp add: pow2_def [of "k - u"])

lemma round_pos_le_pow2: "ulp_exp q \<le> k \<Longrightarrow> q \<le> pow2 k \<Longrightarrow> round_pos q \<le> pow2 k"
  using round_even_le [of "q / pow2 (ulp_exp q)" "2 ^ nat (k - ulp_exp q)"]
  by (simp add: round_pos_def pow2_ratio [of "ulp_exp q" k] pos_divide_le_eq)

lemma round_pos_ge_pow2: "ulp_exp q \<le> k \<Longrightarrow> pow2 k \<le> q \<Longrightarrow> pow2 k \<le> round_pos q"
  using round_even_ge [of "2 ^ nat (k - ulp_exp q)" "q / pow2 (ulp_exp q)"]
  by (simp add: round_pos_def pow2_ratio [of "ulp_exp q" k] pos_le_divide_eq)

lemma rat_log2_mono: "0 < p \<Longrightarrow> p \<le> q \<Longrightarrow> rat_log2 p \<le> rat_log2 q"
  using rat_log2_bounds(1) [of p] by (intro rat_log2_ge) auto

lemma round_pos_mono:
  assumes "0 < p" "p \<le> q"
  shows "round_pos p \<le> round_pos q"
proof (cases "ulp_exp p = ulp_exp q")
  case True
  have "round_even (p / pow2 (ulp_exp q)) \<le> round_even (q / pow2 (ulp_exp q))"
    using assms by (intro round_even_mono divide_right_mono) auto
  then show ?thesis using True by (simp add: round_pos_def mult_right_mono)
next
  case False
  let ?e = "rat_log2 q"
  have "rat_log2 p \<le> ?e" using rat_log2_mono assms by blast
  with False have lt: "rat_log2 p < ?e" "ulp_exp p \<le> ?e" "ulp_exp q \<le> ?e"
    by (auto simp: ulp_exp_def max_def split: if_splits)
  have "p \<le> pow2 ?e"
    using rat_log2_bounds(2) [OF assms(1)] lt(1) pow2_mono [of "rat_log2 p + 1" ?e] by linarith
  then have "round_pos p \<le> pow2 ?e" using lt(2) round_pos_le_pow2 by blast
  also have "pow2 ?e \<le> round_pos q"
    using lt(3) round_pos_ge_pow2 rat_log2_bounds(1) [of q] assms by auto
  finally show ?thesis .
qed

lemma to_double_mono_pos:
  assumes "0 < p" "p \<le> q"
  shows "\<not> js_lt (to_double q) (to_double p)"
proof -
  have le: "round_pos p \<le> round_pos q" using round_pos_mono assms by blast
  have nn: "0 \<le> round_pos p" using round_pos_nonneg assms by simp
  show ?thesis
  proof (cases "round_pos p = 0 \<or> 1024 \<le> rat_log2 (round_pos q)")
    case True
    then show ?thesis using assms nn le round_pos_nonneg [of q] by (auto simp: to_double_def Let_def)
  next
    case False
    then have "rat_log2 (round_pos p) < 1024"
      using rat_log2_mono [of "round_pos p" "round_pos q"] le nn by linarith
    then show ?thesis using False assms nn le by (auto simp: to_double_def Let_def)
  qed
qed

lemma js_lt_neg: "js_lt (js_neg a) (js_neg b) \<longleftrightarrow> js_lt b a"
  by (cases a; cases b) auto

lemma to_double_minus: "0 < q \<Longrightarrow> to_double (- q) = js_neg (to_double q)"
  by (simp add: to_double_def Let_def)

lemma to_double_nonneg: "0 \<le> q \<Longrightarrow> \<not> js_lt (to_double q) (Num 0)"
  using round_pos_nonneg [of q] by (auto simp: to_double_def Let_def)

lemma js_lt_sign_cases:
  "\<not> js_lt a (Num 0) \<Longrightarrow> \<not> js_lt (Num 0) b \<Longrightarrow> \<not> js_lt a b"
  by (cases a; cases b) auto

theorem to_double_mono: "p \<le> q \<Longrightarrow> \<not> js_lt (to_double q) (to_double p)"
proof -
  assume le: "p \<le> q"
  consider "0 < p" | "q < 0" | "p \<le> 0" "0 \<le> q" by linarith
  then show ?thesis
  proof cases
    case 1
    then show ?thesis using to_double_mono_pos le by blast
  next
    case 2
    then show ?thesis
      using to_double_mono_pos [of "- q" "- p"] le to_double_minus [of "- q"] to_double_minus [of "- p"]
      by (simp add: js_lt_neg)
  next
    case 3
    have "\<not> js_lt (Num 0) (to_double p)" using to_double_pos [of p] 3 by auto
    then show ?thesis using js_lt_sign_cases to_double_nonneg 3 by blast
  qed
qed

lemma js_lt_to_double: "js_lt (to_double p) (to_double q) \<Longrightarrow> p < q"
  using to_double_mono [of q p] by linarith

lemma to_double_pos_ge:
  assumes "pow2 (- 1074) \<le> q"
  shows "js_lt (Num 0) (to_double q)"
proof -
  have q: "0 < q" using assms pow2_pos [of "- 1074"] by linarith
  let ?u = "ulp_exp q"
  have "pow2 ?u \<le> q"
  proof (cases "rat_log2 q - 52 \<le> - 1074")
    case True
    then show ?thesis using assms by (simp add: ulp_exp_def)
  next
    case False
    then have "pow2 ?u \<le> pow2 (rat_log2 q)" by (intro pow2_mono) (simp add: ulp_exp_def)
    then show ?thesis using rat_log2_bounds(1) [OF q] by linarith
  qed
  then have "1 \<le> round_even (q / pow2 ?u)" by (intro round_even_ge) (simp add: le_divide_eq)
  then have "0 < of_int (round_even (q / pow2 ?u)) * pow2 ?u" by simp
  then have "0 < round_pos q" by (simp only: round_pos_def)
  then show ?thesis using q by (auto simp: to_double_def Let_def)
qed

text \<open>Every double is a multiple of the smallest one, so a difference of two doubles has the sign
  of the exact difference.\<close>

lemma is_double_multiple:
  assumes "is_double q"
  shows "\<exists>n. q = of_int n * pow2 (- 1074)"
proof -
  have pos: "\<exists>n. p = of_int n * pow2 (- 1074)" if p: "is_double p" "0 < p" for p
  proof -
    obtain n u where r: "round_pos p = of_int n * pow2 u" "- 1074 \<le> u"
      using round_pos_form [OF p(2)] by metis
    have "p = round_pos p" using p by (auto simp: is_double_def to_double_def Let_def split: if_splits)
    with r pow2_ratio [OF r(2)] have "p = of_int (n * 2 ^ nat (u + 1074)) * pow2 (- 1074)" by simp
    then show ?thesis by blast
  qed
  consider "q = 0" | "0 < q" | "0 < - q" by linarith
  then show ?thesis
  proof cases
    case 1
    then have "q = of_int 0 * pow2 (- 1074)" by simp
    then show ?thesis by blast
  next
    case 2
    then show ?thesis using pos assms by blast
  next
    case 3
    then obtain n where "- q = of_int n * pow2 (- 1074)" using pos [of "- q"] assms by auto
    then have "q = of_int (- n) * pow2 (- 1074)" by simp
    then show ?thesis by blast
  qed
qed

lemma double_gap:
  assumes "is_double p" "is_double q" "p < q"
  shows "pow2 (- 1074) \<le> q - p"
proof -
  obtain m n where mn: "p = of_int m * pow2 (- 1074)" "q = of_int n * pow2 (- 1074)"
    using assms is_double_multiple by metis
  with assms(3) have "m < n" by (simp add: mult_less_cancel_right)
  then have "1 * pow2 (- 1074) \<le> of_int (n - m) * pow2 (- 1074)"
    by (intro mult_right_mono) auto
  then show ?thesis by (simp add: mn algebra_simps)
qed

lemma wf_num_val: "wf_num a \<Longrightarrow> is_double (num_val a)"
  by (cases a) auto

lemma js_lt_finite: "is_finite a \<Longrightarrow> is_finite b \<Longrightarrow> js_lt a b \<longleftrightarrow> num_val a < num_val b"
  by (cases a; cases b) auto

lemma js_sub_finite:
  assumes "is_finite a" "is_finite b"
  shows "js_sub a b = to_double (num_val a - num_val b) \<or> (num_val a = num_val b \<and> js_sub a b \<in> {Num 0, NegZero})"
proof -
  have "to_double 0 = Num 0" by (simp add: to_double_def)
  then show ?thesis using assms by (cases a; cases b) (auto simp: js_sub_def)
qed

lemma js_sub_pos:
  assumes "is_finite a" "is_finite b" "wf_num a" "wf_num b"
  shows "js_lt (Num 0) (js_sub a b) \<longleftrightarrow> js_lt b a"
proof -
  have "js_lt (Num 0) (to_double (num_val a - num_val b)) \<longleftrightarrow> num_val b < num_val a"
    using to_double_pos [of "num_val a - num_val b"] double_gap [of "num_val b" "num_val a"]
      to_double_pos_ge [of "num_val a - num_val b"] wf_num_val assms by auto
  then show ?thesis using js_sub_finite [OF assms(1,2)] js_lt_finite assms by auto
qed

lemma js_neg_zero_lt: "js_lt (js_neg a) (Num 0) \<longleftrightarrow> js_lt (Num 0) a"
  by (cases a) auto

lemma js_sub_neg:
  assumes "is_finite a" "is_finite b" "wf_num a" "wf_num b"
  shows "js_lt (js_sub a b) (Num 0) \<longleftrightarrow> js_lt a b"
proof -
  let ?d = "num_val a - num_val b"
  have "js_lt (to_double ?d) (Num 0) \<longleftrightarrow> num_val a < num_val b"
  proof (cases "?d < 0")
    case True
    have "js_lt (Num 0) (to_double (- ?d))"
      using to_double_pos_ge [of "- ?d"] double_gap [of "num_val a" "num_val b"] wf_num_val assms True
      by auto
    then show ?thesis using True to_double_minus [of "- ?d"] by (simp add: js_neg_zero_lt)
  next
    case False
    then show ?thesis using to_double_nonneg [of ?d] by auto
  qed
  then show ?thesis using js_sub_finite [OF assms(1,2)] js_lt_finite assms by auto
qed

end
