(* ===== verification/DecimalStrings.thy ===== *)
theory DecimalStrings
  imports JsNumber
begin

text \<open>
  \<open>frontend/lib/decimal-strings.ts\<close>: the canonical form of a decimal typed by the user, the
  equality of two decimals that never goes through a double, the schema of a money or quantity
  field, and the conversion to a number for display.  \<open>dec_value\<close> is the exact rational a
  decimal text denotes; the lemmas relate every operation to it.
\<close>

section \<open>The code\<close>

definition strip_leading_zeros :: "jstring \<Rightarrow> jstring" where
  "strip_leading_zeros s = dropWhile (\<lambda>c. c = CHR ''0'') s"

definition strip_trailing_zeros :: "jstring \<Rightarrow> jstring" where
  "strip_trailing_zeros s = rev (dropWhile (\<lambda>c. c = CHR ''0'') (rev s))"

text \<open>\<open>const [rawInt = "", rawFrac = ""] = parts\<close>.\<close>

definition first_two :: "jstring list \<Rightarrow> jstring \<times> jstring" where
  "first_two ps = (case ps of [] \<Rightarrow> ([], []) | [i] \<Rightarrow> (i, []) | i # f # _ \<Rightarrow> (i, f))"

text \<open>\<open>dotted\<close> without its leading sign.\<close>

definition drop_sign :: "jstring \<Rightarrow> jstring" where
  "drop_sign dotted =
     (if starts_with dotted ''+'' \<or> starts_with dotted ''-'' then drop 1 dotted else dotted)"

text \<open>\<open>intPart\<close>, and the last steps: the two parts put together, a zero without sign.\<close>

definition canon_int :: "jstring \<Rightarrow> jstring" where
  "canon_int rawInt =
     (if strip_leading_zeros rawInt = '''' then ''0'' else strip_leading_zeros rawInt)"

definition canon :: "bool \<Rightarrow> jstring \<Rightarrow> jstring \<Rightarrow> jstring" where
  "canon negative rawInt rawFrac =
     (let fracPart = strip_trailing_zeros rawFrac;
          v = (if fracPart \<noteq> '''' then canon_int rawInt @ ''.'' @ fracPart else canon_int rawInt)
      in if v = ''0'' then ''0'' else if negative then ''-'' @ v else v)"

definition normalizeDecimalInput :: "jstring \<Rightarrow> jstring" where
  "normalizeDecimalInput raw =
     (let n = js_trim raw in
      if n = '''' \<or> n = ''-'' then n
      else
        let dotted = replace_first CHR '','' ''.'' n;
            (rawInt, rawFrac) = first_two (js_split CHR ''.'' (drop_sign dotted))
        in canon (starts_with dotted ''-'') rawInt rawFrac)"

text \<open>\<open>None\<close> is \<open>null\<close> or \<open>undefined\<close>.\<close>

definition decimalStringsEqual :: "jstring option \<Rightarrow> jstring option \<Rightarrow> bool" where
  "decimalStringsEqual a b =
     (case (a, b) of
        (Some x, Some y) \<Rightarrow> normalizeDecimalInput x = normalizeDecimalInput y
      | _ \<Rightarrow> False)"

text \<open>The pattern \<open>^\d+([.,]\d+)?$\<close>.\<close>

definition decimal_shape :: "jstring \<Rightarrow> bool" where
  "decimal_shape s =
     (let (i, r) = span_digits s
      in i \<noteq> [] \<and>
         (case r of [] \<Rightarrow> True
          | c # f \<Rightarrow> (c = CHR ''.'' \<or> c = CHR '','') \<and> f \<noteq> [] \<and> list_all is_digit f))"

text \<open>
  The schema of a decimal field: the pattern, then the transformation to canonical form, then
  the refinement on the transformed value.  \<open>Inl\<close> is the message shown under the field.
\<close>

definition decimalField :: "bool \<Rightarrow> jstring option \<Rightarrow> jstring \<Rightarrow> jstring + jstring" where
  "decimalField positive message s =
     (if \<not> decimal_shape s then Inl (nullish message ''Enter a valid number'')
      else let t = normalizeDecimalInput s
           in if positive \<and> \<not> js_lt (Num 0) (str_to_number t) then Inl ''Must be > 0'' else Inr t)"

definition toDisplayNumber :: "jstring option \<Rightarrow> jsnum" where
  "toDisplayNumber v =
     (case v of None \<Rightarrow> Num 0 | Some s \<Rightarrow> if s = '''' then Num 0 else str_to_number s)"

section \<open>What a decimal text denotes\<close>

definition unsigned_value :: "jstring \<Rightarrow> rat" where
  "unsigned_value s =
     (let (i, r) = span_digits s; f = drop 1 r
      in of_int (digits_val (i @ f)) / 10 ^ length f)"

definition signed_shape :: "jstring \<Rightarrow> bool" where
  "signed_shape s =
     (case s of [] \<Rightarrow> False
      | c # t \<Rightarrow> if c = CHR ''+'' \<or> c = CHR ''-'' then decimal_shape t else decimal_shape s)"

definition dec_value :: "jstring \<Rightarrow> rat" where
  "dec_value s =
     (case s of [] \<Rightarrow> 0
      | c # t \<Rightarrow> if c = CHR ''-'' then - unsigned_value t
                 else if c = CHR ''+'' then unsigned_value t else unsigned_value s)"

text \<open>
  The canonical form: an optional minus, an integer part without superfluous leading zeros,
  an optional fraction after a dot that does not end in zero, and never a negative zero.
\<close>

definition canonical_unsigned :: "jstring \<Rightarrow> bool" where
  "canonical_unsigned s =
     (let (i, r) = span_digits s
      in i \<noteq> [] \<and> (hd i = CHR ''0'' \<longrightarrow> length i = 1) \<and>
         (case r of [] \<Rightarrow> True
          | c # f \<Rightarrow> c = CHR ''.'' \<and> f \<noteq> [] \<and> list_all is_digit f \<and> last f \<noteq> CHR ''0''))"

definition canonical_decimal :: "jstring \<Rightarrow> bool" where
  "canonical_decimal s =
     (case s of [] \<Rightarrow> False
      | c # t \<Rightarrow> if c = CHR ''-'' then canonical_unsigned t \<and> t \<noteq> ''0'' else canonical_unsigned s)"

section \<open>Shapes taken apart\<close>

text \<open>The text of an integer part, a separator and a fraction; no separator where the fraction is empty.\<close>

definition dec_text :: "jstring \<Rightarrow> char \<Rightarrow> jstring \<Rightarrow> jstring" where
  "dec_text i c f = (if f = [] then i else i @ c # f)"

lemma decimal_shapeE:
  assumes "decimal_shape s"
  obtains i c f where "s = dec_text i c f" "i \<noteq> []" "list_all is_digit i" "list_all is_digit f"
    "c = CHR ''.'' \<or> c = CHR '',''"
proof -
  obtain i r where ir: "span_digits s = (i, r)" by (cases "span_digits s")
  from span_digits_split [OF ir] have s: "s = i @ r" "list_all is_digit i" by auto
  from assms ir have i: "i \<noteq> []" by (simp add: decimal_shape_def)
  show ?thesis
  proof (cases r)
    case Nil
    with s i that [of i "CHR ''.''" "[]"] show ?thesis by (simp add: dec_text_def)
  next
    case (Cons c f)
    with assms ir s i that [of i c f] show ?thesis by (simp add: decimal_shape_def dec_text_def)
  qed
qed

lemma span_dec_text:
  assumes "list_all is_digit i" "c = CHR ''.'' \<or> c = CHR '',''"
  shows "span_digits (dec_text i c f) = (i, if f = [] then [] else c # f)"
  using assms by (auto simp: dec_text_def span_digits_all span_digits_stop)

lemma unsigned_value_text:
  assumes "list_all is_digit i" "c = CHR ''.'' \<or> c = CHR '',''"
  shows "unsigned_value (dec_text i c f) = of_int (digits_val (i @ f)) / 10 ^ length f"
  using assms by (simp add: unsigned_value_def span_dec_text)

lemma dec_text_not_sign:
  assumes "list_all is_digit i" "i \<noteq> []" "c = CHR ''.'' \<or> c = CHR '',''"
  shows "hd (dec_text i c f) \<noteq> CHR ''-''" "hd (dec_text i c f) \<noteq> CHR ''+''"
    "dec_text i c f \<noteq> []"
  using assms by (cases i; auto simp: dec_text_def)+


definition sign_val :: "bool \<Rightarrow> rat" where
  "sign_val neg = (if neg then - 1 else 1)"

text \<open>A signed decimal is an optional sign, which may be a plus, before such a text.\<close>

lemma signed_shapeE:
  assumes "signed_shape s"
  obtains sg i c f where "s = sg @ dec_text i c f" "sg \<in> {'''', ''+'', ''-''}" "i \<noteq> []"
    "list_all is_digit i" "list_all is_digit f" "c = CHR ''.'' \<or> c = CHR '',''"
proof -
  obtain x t where s: "s = x # t" using assms by (cases s) (auto simp: signed_shape_def)
  show ?thesis
  proof (cases "x = CHR ''+'' \<or> x = CHR ''-''")
    case True
    with assms s have "decimal_shape t" by (simp add: signed_shape_def)
    then show ?thesis using True s that [of "[x]"] by (elim decimal_shapeE) auto
  next
    case False
    with assms s have "decimal_shape s" by (simp add: signed_shape_def)
    then show ?thesis using that [of "[]"] by (elim decimal_shapeE) auto
  qed
qed

lemma dec_value_text:
  assumes "sg \<in> {'''', ''+'', ''-''}" "i \<noteq> []" "list_all is_digit i"
    "c = CHR ''.'' \<or> c = CHR '',''"
  shows "dec_value (sg @ dec_text i c f) =
    sign_val (sg = ''-'') * (of_int (digits_val (i @ f)) / 10 ^ length f)"
proof -
  obtain x t where t: "dec_text i c f = x # t" using dec_text_not_sign(3) [OF assms(3,2,4)]
    by (cases "dec_text i c f") auto
  with dec_text_not_sign(1,2) [OF assms(3,2,4), of f] have "x \<noteq> CHR ''-''" "x \<noteq> CHR ''+''" by auto
  then show ?thesis
    using assms(1) unsigned_value_text [OF assms(3,4), of f]
    by (auto simp: dec_value_def sign_val_def t)
qed

section \<open>The canonical form\<close>

lemma canon_text:
  "canon neg i f =
     (let v = dec_text (canon_int i) CHR ''.'' (strip_trailing_zeros f)
      in if v = ''0'' then ''0'' else if neg then ''-'' @ v else v)"
  by (simp add: canon_def dec_text_def Let_def)

lemma strip_leading_zeros_alt:
  "\<exists>n. s = replicate n CHR ''0'' @ strip_leading_zeros s"
proof (induction s)
  case Nil
  then show ?case by (simp add: strip_leading_zeros_def)
next
  case (Cons c s)
  then obtain n where n: "s = replicate n CHR ''0'' @ strip_leading_zeros s" by blast
  show ?case
  proof (cases "c = CHR ''0''")
    case True
    then have "c # s = replicate (Suc n) CHR ''0'' @ strip_leading_zeros (c # s)"
      using n by (simp add: strip_leading_zeros_def)
    then show ?thesis by blast
  next
    case False
    then show ?thesis by (intro exI [of _ 0]) (simp add: strip_leading_zeros_def)
  qed
qed

lemma strip_trailing_zeros_alt:
  "\<exists>n. s = strip_trailing_zeros s @ replicate n CHR ''0''"
  using strip_leading_zeros_alt [of "rev s"]
  by (metis rev_append rev_replicate rev_rev_ident strip_leading_zeros_def strip_trailing_zeros_def)

lemma strip_leading_zeros_hd: "strip_leading_zeros s \<noteq> [] \<Longrightarrow> hd (strip_leading_zeros s) \<noteq> CHR ''0''"
  unfolding strip_leading_zeros_def by (rule hd_dropWhile)

lemma strip_trailing_zeros_last:
  "strip_trailing_zeros s \<noteq> [] \<Longrightarrow> last (strip_trailing_zeros s) \<noteq> CHR ''0''"
  unfolding strip_trailing_zeros_def last_rev by (rule hd_dropWhile) simp

lemma strip_digits [simp]:
  "list_all is_digit s \<Longrightarrow> list_all is_digit (strip_leading_zeros s)"
  "list_all is_digit s \<Longrightarrow> list_all is_digit (strip_trailing_zeros s)"
  by (auto simp: list_all_iff strip_leading_zeros_def strip_trailing_zeros_def dest: set_dropWhileD)

lemma digits_val_zeros [simp]: "digits_val (replicate n CHR ''0'') = 0"
  by (induction n) (simp_all add: digits_val_Cons digit_val_def)

lemma digits_val_strip_leading [simp]: "digits_val (strip_leading_zeros s) = digits_val s"
proof -
  obtain n where "s = replicate n CHR ''0'' @ strip_leading_zeros s"
    using strip_leading_zeros_alt by blast
  then have "digits_val s = digits_val (replicate n CHR ''0'' @ strip_leading_zeros s)" by simp
  then show ?thesis by (simp add: digits_val_append)
qed

lemma canon_int_facts:
  assumes "list_all is_digit i"
  shows "list_all is_digit (canon_int i)" "canon_int i \<noteq> []" "digits_val (canon_int i) = digits_val i"
    "hd (canon_int i) = CHR ''0'' \<longrightarrow> length (canon_int i) = 1"
proof -
  have "digits_val ''0'' = 0" by (simp add: digits_val_def digit_val_def)
  moreover have "strip_leading_zeros i = [] \<Longrightarrow> digits_val i = 0"
    using digits_val_strip_leading [of i] by (simp del: digits_val_strip_leading)
  ultimately show "list_all is_digit (canon_int i)" "canon_int i \<noteq> []"
    "digits_val (canon_int i) = digits_val i" "hd (canon_int i) = CHR ''0'' \<longrightarrow> length (canon_int i) = 1"
    using assms strip_leading_zeros_hd [of i] by (auto simp: canon_int_def)
qed

text \<open>The fraction keeps its value when its trailing zeros go.\<close>

lemma fraction_value:
  "(of_int (digits_val (i @ f)) / 10 ^ length f :: rat) = of_int (digits_val i) + of_int (digits_val f) / 10 ^ length f"
  by (simp add: digits_val_append add_divide_distrib)

lemma strip_trailing_value:
  "(of_int (digits_val (strip_trailing_zeros f)) / 10 ^ length (strip_trailing_zeros f) :: rat) =
   of_int (digits_val f) / 10 ^ length f"
proof -
  obtain n where "f = strip_trailing_zeros f @ replicate n CHR ''0''"
    using strip_trailing_zeros_alt by blast
  then have "digits_val f = digits_val (strip_trailing_zeros f @ replicate n CHR ''0'')"
    "length f = length (strip_trailing_zeros f) + n"
    by (simp, metis length_append length_replicate)
  then show ?thesis by (simp add: digits_val_append power_add)
qed

lemma normalize_text:
  assumes "sg \<in> {'''', ''+'', ''-''}" "i \<noteq> []" "list_all is_digit i" "list_all is_digit f"
    "c = CHR ''.'' \<or> c = CHR '',''"
  shows "normalizeDecimalInput (sg @ dec_text i c f) = canon (sg = ''-'') i f"
proof -
  have "list_all plain_char i" "list_all plain_char f"
    using assms(3,4) by (auto simp: list_all_iff is_digit_plain)
  then have "list_all plain_char (sg @ dec_text i c f)"
    using assms(1,5) by (auto simp: dec_text_def plain_char_def)
  then have trim: "js_trim (sg @ dec_text i c f) = sg @ dec_text i c f" by (rule js_trim_plain)
  have comma: "CHR '','' \<notin> set sg" using assms(1) by auto
  have dot: "replace_first CHR '','' ''.'' (dec_text i c f) = dec_text i CHR ''.'' f"
    using assms(3-5) by (auto simp: dec_text_def js_string)
  have first: "first_two (js_split CHR ''.'' (dec_text i CHR ''.'' f)) = (i, f)"
    using assms(3,4) by (simp add: dec_text_def js_string first_two_def)
  obtain x t where xt: "dec_text i CHR ''.'' f = x # t" "x \<noteq> CHR ''-''" "x \<noteq> CHR ''+''"
    using dec_text_not_sign [OF assms(3,2), of "CHR ''.''" f]
    by (cases "dec_text i CHR ''.'' f") auto
  have ne: "dec_text i c f \<noteq> []" "dec_text i c f \<noteq> ''-''"
    using dec_text_not_sign [OF assms(3,2,5), of f] by auto
  let ?d = "sg @ dec_text i CHR ''.'' f"
  have un: "drop_sign ?d = dec_text i CHR ''.'' f" "starts_with ?d ''-'' = (sg = ''-'')"
    using assms(1) xt by (auto simp: drop_sign_def)
  have nn: "sg @ dec_text i c f \<noteq> ''''" "sg @ dec_text i c f \<noteq> ''-''"
    using assms(1) ne by auto
  show ?thesis
    unfolding normalizeDecimalInput_def trim Let_def replace_first_append [OF comma] dot un first
    using nn by auto
qed

section \<open>Canonical texts are determined by their value\<close>

lemma digits_val_inj:
  "list_all is_digit s \<Longrightarrow> list_all is_digit t \<Longrightarrow> length s = length t \<Longrightarrow>
   digits_val s = digits_val t \<Longrightarrow> s = t"
proof (induction s arbitrary: t rule: rev_induct)
  case Nil
  then show ?case by simp
next
  case (snoc c s)
  then obtain d u where t: "t = u @ [d]" by (cases t rule: rev_cases) auto
  with snoc.prems have eq: "10 * digits_val s + digit_val c = 10 * digits_val u + digit_val d"
    and cd: "is_digit c" "is_digit d" by (simp_all add: digits_val_snoc)
  then have "digit_val c = digit_val d" "digits_val s = digits_val u"
    using digit_val_less [of c] digit_val_less [of d] digit_val_nonneg [of c] digit_val_nonneg [of d]
    by presburger+
  with snoc t cd show ?case by (metis digit_char_val length_append_singleton list_all_append nat.inject)
qed

lemma digits_val_last:
  assumes "list_all is_digit f" "f \<noteq> []" "last f \<noteq> CHR ''0''"
  shows "digits_val f mod 10 \<noteq> 0"
proof -
  obtain g c where f: "f = g @ [c]" using assms(2) by (cases f rule: rev_cases) auto
  with assms have c: "is_digit c" "c \<noteq> CHR ''0''" by auto
  then have "digit_val c \<noteq> 0" using digit_char_val [of c] by (cases "digit_val c = 0") auto
  moreover have "digits_val f mod 10 = digit_val c"
    using c digit_val_less [of c] digit_val_nonneg [of c] by (simp add: f digits_val_snoc)
  ultimately show ?thesis by simp
qed

lemma fraction_less_1:
  "list_all is_digit f \<Longrightarrow> (of_int (digits_val f) / 10 ^ length f :: rat) < 1"
proof -
  assume "list_all is_digit f"
  then have "of_int (digits_val f) < (of_int (10 ^ length f) :: rat)"
    using digits_val_bound by (simp only: of_int_less_iff)
  then show ?thesis by simp
qed

lemma fraction_inj_le:
  assumes "list_all is_digit f" "list_all is_digit g" "length f \<le> length g"
    "g = [] \<or> last g \<noteq> CHR ''0''"
    "(of_int (digits_val f) / 10 ^ length f :: rat) = of_int (digits_val g) / 10 ^ length g"
  shows "f = g"
proof -
  obtain d where d: "length g = length f + d" using assms(3) le_Suc_ex by blast
  have "(of_int (digits_val f * 10 ^ d) :: rat) = of_int (digits_val g)"
    using assms(5) by (simp add: d power_add field_simps)
  then have eq: "digits_val f * 10 ^ d = digits_val g" by (simp only: of_int_eq_iff)
  have "d = 0"
  proof (rule ccontr)
    assume "d \<noteq> 0"
    then obtain e where e: "d = Suc e" by (cases d) auto
    then have "digits_val g mod 10 = 0" using eq by (auto simp flip: eq)
    moreover have "g \<noteq> []" using d e by auto
    ultimately show False using digits_val_last [OF assms(2)] assms(4) by simp
  qed
  with eq d digits_val_inj [OF assms(1,2)] show ?thesis by simp
qed

lemma fraction_inj:
  assumes "list_all is_digit f" "list_all is_digit g" "f = [] \<or> last f \<noteq> CHR ''0''"
    "g = [] \<or> last g \<noteq> CHR ''0''"
    "(of_int (digits_val f) / 10 ^ length f :: rat) = of_int (digits_val g) / 10 ^ length g"
  shows "f = g"
  using fraction_inj_le [of f g] fraction_inj_le [of g f] assms by (metis linear)

lemma canonical_parts_inj:
  assumes "list_all is_digit i" "list_all is_digit j" "list_all is_digit f" "list_all is_digit g"
    "(of_int (digits_val (i @ f)) / 10 ^ length f :: rat) = of_int (digits_val (j @ g)) / 10 ^ length g"
  shows "canon_int i = canon_int j" "strip_trailing_zeros f = strip_trailing_zeros g"
proof -
  let ?F = "of_int (digits_val f) / 10 ^ length f :: rat"
    and ?G = "of_int (digits_val g) / 10 ^ length g :: rat"
  have eq: "of_int (digits_val i) + ?F = of_int (digits_val j) + ?G"
    using assms(5) by (simp only: fraction_value)
  have b: "0 \<le> ?F" "?F < 1" "0 \<le> ?G" "?G < 1"
    using assms(3,4) digits_val_nonneg fraction_less_1 by auto
  have "\<lfloor>of_int (digits_val i) + ?F\<rfloor> = digits_val i" "\<lfloor>of_int (digits_val j) + ?G\<rfloor> = digits_val j"
    using b by (auto intro!: floor_unique)
  with eq have ij: "digits_val i = digits_val j" by simp
  then have "digits_val (canon_int i) = digits_val (canon_int j)"
    using canon_int_facts(3) assms(1,2) by simp
  then show "canon_int i = canon_int j"
    using show_digits_val canon_int_facts assms(1,2) by metis
  from eq ij have "?F = ?G" by simp
  then show "strip_trailing_zeros f = strip_trailing_zeros g"
    using assms(3,4) strip_trailing_zeros_last
    by (intro fraction_inj) (auto simp: strip_trailing_value)
qed

section \<open>Normalisation keeps the value and reaches the canonical form\<close>

lemma canon_value:
  assumes "list_all is_digit i" "list_all is_digit f"
  shows "dec_value (canon neg i f) = sign_val neg * (of_int (digits_val (i @ f)) / 10 ^ length f)"
proof -
  let ?F = "strip_trailing_zeros f"
  let ?v = "dec_text (canon_int i) CHR ''.'' ?F"
  have "(of_int (digits_val (canon_int i @ ?F)) / 10 ^ length ?F :: rat) =
    of_int (digits_val (i @ f)) / 10 ^ length f"
    by (simp only: fraction_value strip_trailing_value canon_int_facts(3) [OF assms(1)])
  then have val: "dec_value (sg @ ?v) = sign_val (sg = ''-'') * (of_int (digits_val (i @ f)) / 10 ^ length f)"
    if "sg \<in> {'''', ''+'', ''-''}" for sg
    using dec_value_text [OF that canon_int_facts(2) [OF assms(1)] canon_int_facts(1) [OF assms(1)],
        of "CHR ''.''" ?F] by simp
  have "dec_value ''0'' = 0" by (simp add: dec_value_def unsigned_value_def span_digits_def digits_val_def digit_val_def)
  then show ?thesis
    using val [of "''-''"] val [of "''''"] by (auto simp: canon_text Let_def sign_val_def)
qed

lemma canon_canonical:
  assumes "list_all is_digit i" "list_all is_digit f"
  shows "canonical_decimal (canon neg i f)"
proof -
  let ?F = "strip_trailing_zeros f"
  let ?v = "dec_text (canon_int i) CHR ''.'' ?F"
  note ci = canon_int_facts [OF assms(1)]
  have u: "canonical_unsigned ?v"
    using ci strip_trailing_zeros_last [of f] assms(2)
    by (simp add: canonical_unsigned_def span_dec_text)
  have "hd ?v \<noteq> CHR ''-''" "?v \<noteq> []" using dec_text_not_sign [OF ci(1,2)] by auto
  then have "canonical_decimal ?v" using u by (cases ?v) (auto simp: canonical_decimal_def)
  moreover have "canonical_decimal ''0''"
    by (simp add: canonical_decimal_def canonical_unsigned_def span_digits_def)
  ultimately show ?thesis using u by (auto simp: canon_text Let_def canonical_decimal_def)
qed


lemma normalize_value:
  assumes "signed_shape s"
  shows "dec_value (normalizeDecimalInput s) = dec_value s"
    and "canonical_decimal (normalizeDecimalInput s)"
proof -
  from assms obtain sg i c f where s: "s = sg @ dec_text i c f" "sg \<in> {'''', ''+'', ''-''}" "i \<noteq> []"
    "list_all is_digit i" "list_all is_digit f" "c = CHR ''.'' \<or> c = CHR '',''" by (rule signed_shapeE)
  show "dec_value (normalizeDecimalInput s) = dec_value s"
    unfolding s(1) normalize_text [OF s(2-6)] canon_value [OF s(4,5)] dec_value_text [OF s(2-4,6)] ..
  show "canonical_decimal (normalizeDecimalInput s)"
    unfolding s(1) normalize_text [OF s(2-6)] using s(4,5) by (rule canon_canonical)
qed

lemma canon_inj:
  assumes "list_all is_digit i" "list_all is_digit f" "list_all is_digit j" "list_all is_digit g"
  shows "canon n i f = canon m j g \<longleftrightarrow> dec_value (canon n i f) = dec_value (canon m j g)"
proof
  assume eq: "dec_value (canon n i f) = dec_value (canon m j g)"
  let ?a = "of_int (digits_val (i @ f)) / 10 ^ length f :: rat"
    and ?b = "of_int (digits_val (j @ g)) / 10 ^ length g :: rat"
  have ab: "0 \<le> ?a" "0 \<le> ?b" using assms digits_val_nonneg by auto
  from eq have sv: "sign_val n * ?a = sign_val m * ?b" using assms by (simp only: canon_value)
  then have "?a = ?b" using ab by (cases n; cases m) (auto simp: sign_val_def)
  then have parts: "canon_int i = canon_int j" "strip_trailing_zeros f = strip_trailing_zeros g"
    using canonical_parts_inj assms by blast+
  show "canon n i f = canon m j g"
  proof (cases "?a = 0")
    case True
    have "digits_val i = 0" "digits_val f = 0"
    proof -
      have "(of_int (digits_val i) + of_int (digits_val f) / 10 ^ length f :: rat) = 0"
        using True by (simp only: fraction_value)
      then show "digits_val i = 0" "digits_val f = 0"
        using digits_val_nonneg [OF assms(1)] digits_val_nonneg [OF assms(2)]
        by (simp_all add: add_nonneg_eq_0_iff)
    qed
    then have "canon_int i = ''0''" "strip_trailing_zeros f = []"
      using canonical_parts_inj [of i "''0''" f "[]"] assms
      by (simp_all add: digits_val_append canon_int_def strip_leading_zeros_def
          strip_trailing_zeros_def digits_val_def digit_val_def)
    with parts show ?thesis by (simp add: canon_def)
  next
    case False
    with sv \<open>?a = ?b\<close> have "sign_val n = sign_val m" by simp
    then have "n = m" by (cases n; cases m) (auto simp: sign_val_def)
    with parts show ?thesis by (simp add: canon_def Let_def)
  qed
qed simp

lemma normalize_inj:
  assumes "signed_shape a" "signed_shape b"
    "dec_value (normalizeDecimalInput a) = dec_value (normalizeDecimalInput b)"
  shows "normalizeDecimalInput a = normalizeDecimalInput b"
proof -
  from assms(1) obtain sg i c f where a: "a = sg @ dec_text i c f" "sg \<in> {'''', ''+'', ''-''}" "i \<noteq> []"
    "list_all is_digit i" "list_all is_digit f" "c = CHR ''.'' \<or> c = CHR '',''" by (rule signed_shapeE)
  from assms(2) obtain sh j d g where b: "b = sh @ dec_text j d g" "sh \<in> {'''', ''+'', ''-''}" "j \<noteq> []"
    "list_all is_digit j" "list_all is_digit g" "d = CHR ''.'' \<or> d = CHR '',''" by (rule signed_shapeE)
  have "normalizeDecimalInput a = normalizeDecimalInput b \<longleftrightarrow>
    dec_value (normalizeDecimalInput a) = dec_value (normalizeDecimalInput b)"
    unfolding a(1) b(1) normalize_text [OF a(2-6)] normalize_text [OF b(2-6)]
    using a(4,5) b(4,5) by (rule canon_inj)
  with assms(3) show ?thesis by simp
qed

lemma canonical_unsigned_shape: "canonical_unsigned s \<Longrightarrow> decimal_shape s"
  by (auto simp: canonical_unsigned_def decimal_shape_def Let_def split: prod.splits list.splits)

lemma canonical_shape: "canonical_decimal s \<Longrightarrow> signed_shape s"
proof -
  assume c: "canonical_decimal s"
  then obtain x t where s: "s = x # t" by (cases s) (auto simp: canonical_decimal_def)
  show ?thesis
  proof (cases "x = CHR ''-''")
    case True
    with c s show ?thesis
      by (auto simp: canonical_decimal_def signed_shape_def dest: canonical_unsigned_shape)
  next
    case False
    with c s have "decimal_shape s" by (simp add: canonical_decimal_def canonical_unsigned_shape)
    then obtain i d f where "s = dec_text i d f" "i \<noteq> []" "list_all is_digit i"
      "d = CHR ''.'' \<or> d = CHR '',''" by (rule decimal_shapeE)
    with dec_text_not_sign(2) have "hd s \<noteq> CHR ''+''" by metis
    with \<open>decimal_shape s\<close> s False show ?thesis by (simp add: signed_shape_def)
  qed
qed

text \<open>The canonical form provides the interface; equality and idempotence follow.\<close>

interpretation dec: canonical_form signed_shape normalizeDecimalInput dec_value canonical_decimal
  by unfold_locales (auto simp: normalize_value canonical_shape intro: normalize_inj)

lemma decimalStringsEqual_value:
  assumes "signed_shape a" "signed_shape b"
  shows "decimalStringsEqual (Some a) (Some b) \<longleftrightarrow> dec_value a = dec_value b"
  using dec.norm_eq_iff [OF assms] by (simp add: decimalStringsEqual_def)

section \<open>Numbers read from decimal texts\<close>

lemma str_to_number_text:
  assumes "i \<noteq> []" "list_all is_digit i" "list_all is_digit f"
  shows "str_to_number (dec_text i CHR ''.'' f) = to_double (dec_value (dec_text i CHR ''.'' f))"
proof -
  let ?s = "dec_text i CHR ''.'' f"
  have set: "c \<in> set ?s \<Longrightarrow> is_digit c \<or> c = CHR ''.''" for c
    using assms by (auto simp: dec_text_def list_all_iff split: if_splits)
  moreover have "plain_char CHR ''.''" by (simp add: plain_char_def)
  ultimately have "list_all plain_char ?s" by (metis Ball_set is_digit_plain)
  then have trim: "js_trim ?s = ?s" by (rule js_trim_plain)
  have no: "CHR ''x'' \<notin> set ?s" "CHR ''X'' \<notin> set ?s" "CHR ''o'' \<notin> set ?s" "CHR ''O'' \<notin> set ?s"
    "CHR ''b'' \<notin> set ?s" "CHR ''B'' \<notin> set ?s" "CHR ''I'' \<notin> set ?s"
    by (auto dest!: set simp: is_digit_def)
  obtain x t where xt: "?s = x # t" "x \<noteq> CHR ''-''" "x \<noteq> CHR ''+''"
    using dec_text_not_sign [OF assms(2,1), of "CHR ''.''" f] by (cases ?s) auto
  have radix: "\<not> starts_with ?s [CHR ''0'', c]" if "c \<notin> set ?s" for c
    using that by (auto simp: starts_with_iff)
  have inf: "?s \<noteq> ''Infinity''" using no(7) by auto
  have "parse_unsigned ?s = Some (of_int (digits_val (i @ f)) * pow10 (- int (length f)))"
    using assms by (auto simp: parse_unsigned_def span_dec_text split_fraction_def parse_exponent_def
        span_digits_all)
  also have "of_int (digits_val (i @ f)) * pow10 (- int (length f)) = dec_value ?s"
    using dec_value_text [of "''''" i "CHR ''.''" f] assms by (simp add: pow10_neg sign_val_def)
  finally have "parse_signed ?s = to_double (dec_value ?s)"
    using inf xt by (auto simp: parse_signed_def)
  moreover have "?s \<noteq> []" using xt by simp
  ultimately show ?thesis
    unfolding str_to_number_def trim Let_def using radix no by (simp del: starts_with_Cons)
qed

section \<open>Fields\<close>

lemma decimal_shape_signed: "decimal_shape s \<Longrightarrow> signed_shape s"
proof -
  assume d: "decimal_shape s"
  then obtain i c f where "s = dec_text i c f" "i \<noteq> []" "list_all is_digit i"
    "c = CHR ''.'' \<or> c = CHR '',''" by (rule decimal_shapeE)
  with dec_text_not_sign have "s \<noteq> []" "hd s \<noteq> CHR ''-''" "hd s \<noteq> CHR ''+''" by metis+
  with d show ?thesis by (cases s) (auto simp: signed_shape_def)
qed

text \<open>The transformed text of a field reads as the double nearest to the decimal.\<close>

lemma str_to_number_normalized:
  assumes "decimal_shape s"
  shows "str_to_number (normalizeDecimalInput s) = to_double (dec_value s)"
proof -
  from assms obtain i c f where s: "s = '''' @ dec_text i c f" "i \<noteq> []" "list_all is_digit i"
    "list_all is_digit f" "c = CHR ''.'' \<or> c = CHR '',''" by (auto elim: decimal_shapeE)
  have n: "normalizeDecimalInput s = dec_text (canon_int i) CHR ''.'' (strip_trailing_zeros f)"
    unfolding s(1) using normalize_text [OF _ s(2-5), of "''''"] by (simp add: canon_text Let_def)
  have "str_to_number (normalizeDecimalInput s) = to_double (dec_value (normalizeDecimalInput s))"
    unfolding n using canon_int_facts [OF s(3)] s(4) by (intro str_to_number_text) auto
  then show ?thesis using normalize_value(1) [OF decimal_shape_signed [OF assms]] by simp
qed

lemma decimalField_Inr:
  assumes "decimalField positive message s = Inr t"
  shows "decimal_shape s" "canonical_decimal t" "dec_value t = dec_value s"
    "positive \<Longrightarrow> 0 < dec_value t"
proof -
  show s: "decimal_shape s" using assms by (auto simp: decimalField_def split: if_splits)
  note sg = decimal_shape_signed [OF s]
  from assms s have t: "t = normalizeDecimalInput s"
    by (auto simp: decimalField_def Let_def split: if_splits)
  show "canonical_decimal t" "dec_value t = dec_value s"
    using normalize_value [OF sg] t by simp_all
  show "0 < dec_value t" if positive
  proof -
    have "js_lt (Num 0) (to_double (dec_value s))"
      using assms that s by (auto simp: decimalField_def Let_def str_to_number_normalized split: if_splits)
    then show ?thesis using to_double_pos normalize_value(1) [OF sg] t by simp
  qed
qed

lemma decimalField_accepts:
  assumes "decimal_shape s" "positive \<Longrightarrow> pow2 (- 1074) \<le> dec_value s"
  shows "decimalField positive message s = Inr (normalizeDecimalInput s)"
  using assms to_double_pos_ge by (auto simp: decimalField_def str_to_number_normalized Let_def)

section \<open>Properties\<close>

text \<open>
  Canonical form.  On every decimal with an optional sign and a comma or a point, the text
  \<open>normalizeDecimalInput\<close> returns has the same exact value, is canonical (no leading or trailing
  zeros, no plus, no negative zero) and is a fixed point.
\<close>

theorem normalization_sound:
  assumes "signed_shape s"
  shows "dec_value (normalizeDecimalInput s) = dec_value s
    \<and> canonical_decimal (normalizeDecimalInput s)
    \<and> normalizeDecimalInput (normalizeDecimalInput s) = normalizeDecimalInput s"
  using assms dec.norm_value dec.norm_canon dec.norm_idem by blast

theorem normalization_sound_witness:
  "dec_value (normalizeDecimalInput ''-007,50'') = dec_value ''-007,50''
    \<and> normalizeDecimalInput ''-007,50'' = ''-7.5''"
proof
  have "signed_shape ''-007,50''" by code_simp
  from normalization_sound [OF this]
  show "dec_value (normalizeDecimalInput ''-007,50'') = dec_value ''-007,50''" by blast
  show "normalizeDecimalInput ''-007,50'' = ''-7.5''" by code_simp
qed

text \<open>
  C6: Exact equality.  Two decimal texts are equal for \<open>decimalStringsEqual\<close> exactly when they
  denote the same rational number, however many digits they have and whichever separator they
  use; an absent value equals nothing.
\<close>

theorem decimal_equality_exact:
  assumes "signed_shape a" "signed_shape b"
  shows "(decimalStringsEqual (Some a) (Some b) \<longleftrightarrow> dec_value a = dec_value b)
    \<and> \<not> decimalStringsEqual None (Some b) \<and> \<not> decimalStringsEqual (Some a) None"
  using dec.norm_eq_iff [OF assms] by (simp add: decimalStringsEqual_def)

theorem decimal_equality_exact_witness:
  "decimalStringsEqual (Some ''15.500000000000000000'') (Some ''15,5'')
    \<and> \<not> decimalStringsEqual (Some ''0.0000000000000000001'') (Some ''0'')"
proof
  have "signed_shape ''15.500000000000000000''" "signed_shape ''15,5''"
    "dec_value ''15.500000000000000000'' = dec_value ''15,5''" by code_simp+
  then show "decimalStringsEqual (Some ''15.500000000000000000'') (Some ''15,5'')"
    using decimal_equality_exact by blast
  have "signed_shape ''0.0000000000000000001''" "signed_shape ''0''"
    "dec_value ''0.0000000000000000001'' \<noteq> dec_value ''0''" by code_simp+
  then show "\<not> decimalStringsEqual (Some ''0.0000000000000000001'') (Some ''0'')"
    using decimal_equality_exact by blast
qed

lemma decimal_shape_text:
  "decimal_shape s \<longleftrightarrow> (\<exists>i. i \<noteq> [] \<and> list_all is_digit i
     \<and> (s = i \<or> (\<exists>c f. s = i @ c # f \<and> (c = CHR ''.'' \<or> c = CHR '','') \<and> f \<noteq> [] \<and> list_all is_digit f)))"
  (is "_ \<longleftrightarrow> ?plain")
proof
  assume "decimal_shape s"
  then obtain i c f where s: "s = dec_text i c f" "i \<noteq> []" "list_all is_digit i" "list_all is_digit f"
    "c = CHR ''.'' \<or> c = CHR '',''" by (rule decimal_shapeE)
  then show ?plain by (intro exI [of _ i]) (auto simp: dec_text_def)
next
  assume ?plain
  then obtain i where i: "i \<noteq> []" "list_all is_digit i"
    and s: "s = i \<or> (\<exists>c f. s = i @ c # f \<and> (c = CHR ''.'' \<or> c = CHR '','') \<and> f \<noteq> [] \<and> list_all is_digit f)"
    by blast
  have accepted: "decimal_shape (dec_text i c f)" if "c = CHR ''.'' \<or> c = CHR '',''" "list_all is_digit f" for c f
    using i that by (auto simp: decimal_shape_def span_dec_text)
  from s show "decimal_shape s"
  proof (elim disjE exE conjE)
    assume "s = i"
    then show ?thesis using accepted [of "CHR ''.''" "[]"] by (simp add: dec_text_def)
  qed (use accepted in \<open>force simp: dec_text_def\<close>)+
qed

text \<open>
  C7: The field schema.  A text is let through exactly when it is a plain decimal: digits, and then
  nothing or one point or comma with digits after it; every other text, signs, exponents, spaces and
  the empty text included, is refused with the message of the field.  What is let through is canonical
  and has the value typed.  A field that asks for a positive number refuses zero, and lets through
  every plain decimal whose value a double does not flush to zero.
\<close>

theorem decimal_field_sound:
  "((\<exists>t. decimalField False msg s = Inr t) \<longleftrightarrow>
      (\<exists>i. i \<noteq> [] \<and> list_all is_digit i
        \<and> (s = i \<or> (\<exists>c f. s = i @ c # f \<and> (c = CHR ''.'' \<or> c = CHR '','') \<and> f \<noteq> [] \<and> list_all is_digit f))))
    \<and> (\<forall>t. decimalField pos msg s = Inr t \<longrightarrow>
        decimalField False msg s = Inr t \<and> canonical_decimal t \<and> dec_value t = dec_value s \<and> (pos \<longrightarrow> 0 < dec_value t))
    \<and> (\<forall>m. decimalField False msg s = Inl m \<longrightarrow>
        decimalField pos msg s = Inl m \<and> m = nullish msg ''Enter a valid number'')
    \<and> ((\<exists>t. decimalField False msg s = Inr t) \<and> pow2 (- 1074) \<le> dec_value s \<longrightarrow>
        decimalField pos msg s = decimalField False msg s)"
proof -
  have shape: "(\<exists>t. decimalField False msg s = Inr t) \<longleftrightarrow> decimal_shape s"
    using decimalField_Inr(1) [of False msg s] decimalField_accepts [of s False msg] by blast
  have same: "decimalField False msg s = Inr t" if "decimalField pos msg s = Inr t" for t
    using that by (auto simp: decimalField_def Let_def split: if_splits)
  have "decimalField pos msg s = Inl m \<and> m = nullish msg ''Enter a valid number''"
    if "decimalField False msg s = Inl m" for m
    using that by (auto simp: decimalField_def Let_def split: if_splits)
  moreover have "decimalField pos msg s = decimalField False msg s"
    if "decimal_shape s" "pow2 (- 1074) \<le> dec_value s"
    using that decimalField_accepts [of s pos msg] decimalField_accepts [of s False msg] by simp
  ultimately show ?thesis
    using shape same decimalField_Inr(2-4) [of pos msg s] decimal_shape_text [of s] by blast
qed

theorem decimal_field_sound_witness:
  "decimalField True None ''0012,50'' = Inr ''12.5'' \<and> decimalField True None ''1e3'' = Inl ''Enter a valid number''"
proof -
  have v: "dec_value ''0012,50'' = 25 / 2" by code_simp
  have "pow2 (- 1074) \<le> pow2 0" by (rule pow2_mono) simp
  then have "pow2 (- 1074) \<le> dec_value ''0012,50''" by (simp add: v pow2_def [of 0])
  moreover have "decimalField False None ''0012,50'' = Inr ''12.5''" "decimalField False None ''1e3'' = Inl ''Enter a valid number''"
    by code_simp+
  ultimately show ?thesis
    using decimal_field_sound [of None "''0012,50''" True] decimal_field_sound [of None "''1e3''" True] by metis
qed

end
