(* ===== verification/Format.thy ===== *)
theory Format
  imports DecimalStrings
begin

text \<open>
  \<open>frontend/lib/format.ts\<close>: the text of money, quantities, percentages and ages.  The en-GB
  number format of the language's \<open>Intl.NumberFormat\<close> is modelled on exact values: half away
  from zero to the given number of fraction digits, groups of three digits, the sign in front
  of the currency symbol.  A decimal string is formatted from its exact value, a number from
  the value of the double.  The formatter caches hold no state that a result depends on.
\<close>

datatype currency = EUR | USD

fun currency_text :: "currency \<Rightarrow> jstring" where
  "currency_text EUR = ''EUR''"
| "currency_text USD = ''USD''"

text \<open>A value of type \<open>string | number\<close>.\<close>

datatype sval = SStr jstring | SNum jsnum

fun sval_num :: "sval \<Rightarrow> jsnum" where
  "sval_num (SStr s) = str_to_number s"
| "sval_num (SNum x) = x"

fun sval_str :: "sval \<Rightarrow> jstring" where
  "sval_str (SStr s) = s"
| "sval_str (SNum x) = number_to_str x"

section \<open>Intl.NumberFormat for en-GB\<close>

text \<open>The mathematical value \<open>format\<close> sees: a sign (negative zero has one) and a magnitude.\<close>

datatype intl_val = IntlNaN | IntlInf bool | IntlVal bool rat

text \<open>The exact value of a numeric literal, its sign left out.\<close>

definition exact_magnitude :: "jstring \<Rightarrow> rat" where
  "exact_magnitude s =
     (let t = js_trim s;
          radix = (\<lambda>b. case parse_radix b 0 (drop 2 t) of None \<Rightarrow> 0 | Some n \<Rightarrow> of_int n);
          u = (if starts_with t ''-'' \<or> starts_with t ''+'' then drop 1 t else t)
      in if starts_with t ''0x'' \<or> starts_with t ''0X'' then radix 16
         else if starts_with t ''0o'' \<or> starts_with t ''0O'' then radix 8
         else if starts_with t ''0b'' \<or> starts_with t ''0B'' then radix 2
         else (case parse_unsigned u of None \<Rightarrow> 0 | Some q \<Rightarrow> q))"

fun intl_of_num :: "jsnum \<Rightarrow> intl_val" where
  "intl_of_num NaN = IntlNaN"
| "intl_of_num PInf = IntlInf False"
| "intl_of_num NInf = IntlInf True"
| "intl_of_num NegZero = IntlVal True 0"
| "intl_of_num (Num q) = IntlVal (q < 0) \<bar>q\<bar>"

text \<open>A string keeps its exact value, unless the nearest double is infinite or zero.\<close>

definition intl_of_str :: "jstring \<Rightarrow> intl_val" where
  "intl_of_str s =
     (case str_to_number s of
        Num q \<Rightarrow> if q = 0 then IntlVal False 0 else IntlVal (q < 0) (exact_magnitude s)
      | x \<Rightarrow> intl_of_num x)"

fun intl_of :: "sval \<Rightarrow> intl_val" where
  "intl_of (SStr s) = intl_of_str s"
| "intl_of (SNum x) = intl_of_num x"

fun group_rev :: "jstring \<Rightarrow> jstring" where
  "group_rev (a # b # c # d # r) = a # b # c # CHR '','' # group_rev (d # r)"
| "group_rev r = r"

definition group3 :: "jstring \<Rightarrow> jstring" where
  "group3 s = rev (group_rev (rev s))"

definition round_half_up :: "rat \<Rightarrow> int" where
  "round_half_up q = \<lfloor>q + 1 / 2\<rfloor>"

text \<open>Drop trailing zeros while there are more than \<open>k\<close> fraction digits.\<close>

fun cut_zeros :: "nat \<Rightarrow> jstring \<Rightarrow> jstring" where
  "cut_zeros k [] = []"
| "cut_zeros k (c # r) = (if c = CHR ''0'' \<and> k < length (c # r) then cut_zeros k r else c # r)"

definition pad_left :: "nat \<Rightarrow> jstring \<Rightarrow> jstring" where
  "pad_left k s = replicate (k - length s) CHR ''0'' @ s"

text \<open>Integer and fraction digits of a magnitude with \<open>mn\<close> to \<open>mx\<close> fraction digits.\<close>

definition to_fixed :: "nat \<Rightarrow> nat \<Rightarrow> rat \<Rightarrow> jstring \<times> jstring" where
  "to_fixed mn mx q =
     (let ds = pad_left (Suc mx) (show_digits (round_half_up (q * 10 ^ mx)));
          k = length ds - mx
      in (take k ds, rev (cut_zeros mn (rev (drop k ds)))))"

definition fixed_text :: "nat \<Rightarrow> nat \<Rightarrow> rat \<Rightarrow> jstring" where
  "fixed_text mn mx q =
     (let (i, f) = to_fixed mn mx q in dec_text (group3 i) CHR ''.'' f)"

fun intl_body :: "nat \<Rightarrow> nat \<Rightarrow> intl_val \<Rightarrow> jstring" where
  "intl_body mn mx IntlNaN = ''NaN''"
| "intl_body mn mx (IntlInf neg) = infinity_sign"
| "intl_body mn mx (IntlVal neg q) = fixed_text mn mx q"

fun intl_neg :: "intl_val \<Rightarrow> bool" where
  "intl_neg IntlNaN = False"
| "intl_neg (IntlInf neg) = neg"
| "intl_neg (IntlVal neg q) = neg"

text \<open>\<open>signDisplay: "auto"\<close> and \<open>"exceptZero"\<close>.\<close>

definition sign_auto :: "intl_val \<Rightarrow> jstring" where
  "sign_auto x = (if intl_neg x then ''-'' else '''')"

definition sign_except_zero :: "nat \<Rightarrow> intl_val \<Rightarrow> jstring" where
  "sign_except_zero mx x =
     (case x of IntlNaN \<Rightarrow> ''''
      | IntlInf neg \<Rightarrow> if neg then ''-'' else ''+''
      | IntlVal neg q \<Rightarrow>
          if round_half_up (q * 10 ^ mx) = 0 then '''' else if neg then ''-'' else ''+'')"

definition intl_decimal :: "nat \<Rightarrow> nat \<Rightarrow> intl_val \<Rightarrow> jstring" where
  "intl_decimal mn mx x = sign_auto x @ intl_body mn mx x"

definition intl_currency_eur :: "intl_val \<Rightarrow> jstring" where
  "intl_currency_eur x = sign_auto x @ euro_sign @ intl_body 2 2 x"

fun times100 :: "intl_val \<Rightarrow> intl_val" where
  "times100 (IntlVal neg q) = IntlVal neg (100 * q)"
| "times100 x = x"

definition intl_percent :: "bool \<Rightarrow> intl_val \<Rightarrow> jstring" where
  "intl_percent signed x =
     (let y = times100 x
      in (if signed then sign_except_zero 2 y else sign_auto y) @ intl_body 2 2 y @ ''%'')"

section \<open>The code\<close>

definition formatMoney :: "sval \<Rightarrow> currency \<Rightarrow> jstring" where
  "formatMoney value cur =
     (if cur = USD then ''$'' @ intl_decimal 2 2 (intl_of value)
      else intl_currency_eur (intl_of value))"

definition formatQuantity :: "sval \<Rightarrow> nat \<Rightarrow> jstring" where
  "formatQuantity value maxDigits =
     (let num = sval_num value
      in if \<not> is_finite num then (case value of SStr s \<Rightarrow> s | SNum x \<Rightarrow> '''')
         else intl_decimal 0 maxDigits (intl_of_num num))"

text \<open>\<open>s.replace(/^-/, "")\<close>.\<close>

definition drop_minus :: "jstring \<Rightarrow> jstring" where
  "drop_minus s = (if starts_with s ''-'' then drop 1 s else s)"

definition formatSignedMoney :: "sval \<Rightarrow> currency \<Rightarrow> jstring" where
  "formatSignedMoney value cur =
     (let num = sval_num value; s = sval_str value; isNeg = js_lt num (Num 0);
          absStr = (if isNeg then drop_minus s else s);
          formatted = formatMoney (SStr absStr) cur
      in if js_lt (Num 0) num then ''+ '' @ formatted
         else if isNeg then minus_sign @ '' '' @ formatted
         else formatted)"

definition directionalColor :: "sval option \<Rightarrow> jstring" where
  "directionalColor value =
     (case value of None \<Rightarrow> ''text-muted-foreground''
      | Some v \<Rightarrow>
          if js_lt (Num 0) (sval_num v) then ''text-positive''
          else if js_lt (sval_num v) (Num 0) then ''text-negative''
          else ''text-muted-foreground'')"

definition DEFAULT_DECIMALS_BY_TYPE :: "(jstring \<times> nat) list" where
  "DEFAULT_DECIMALS_BY_TYPE =
     [(''stock'', 4), (''etf'', 4), (''fund'', 4), (''crypto'', 8), (''stablecoin'', 2),
      (''cash'', 2), (''metal'', 4)]"

definition decimalsFor :: "jstring option \<Rightarrow> nat option \<Rightarrow> nat" where
  "decimalsFor instrumentType displayDecimals =
     (case displayDecimals of Some d \<Rightarrow> d
      | None \<Rightarrow>
          (case Option.bind instrumentType or_null of None \<Rightarrow> 8
           | Some t \<Rightarrow> nullish (map_of DEFAULT_DECIMALS_BY_TYPE t) 8))"

text \<open>
  The two \<open>replace\<close> calls that turn a (narrow) no-break space before a final percent sign
  into a space.
\<close>

definition replace_suffix :: "jstring \<Rightarrow> jstring \<Rightarrow> jstring \<Rightarrow> jstring" where
  "replace_suffix suf new s =
     (if length suf \<le> length s \<and> drop (length s - length suf) s = suf
      then take (length s - length suf) s @ new else s)"

definition formatPercent :: "sval \<Rightarrow> bool \<Rightarrow> jstring" where
  "formatPercent value signed =
     replace_suffix [CHR 0xE2, CHR 0x80, CHR 0xAF, CHR ''%''] '' %''
       (replace_suffix [CHR 0xC2, CHR 0xA0, CHR ''%''] '' %''
         (intl_percent signed (intl_of_num (sval_num value))))"

text \<open>
  Ages.  Times are integers of milliseconds; \<open>None\<close> is the time value of an invalid date.
  The remainder of the language truncates towards zero.
\<close>

definition js_rem :: "int \<Rightarrow> int \<Rightarrow> int" where
  "js_rem a b = (if a < 0 then - (\<bar>a\<bar> mod \<bar>b\<bar>) else \<bar>a\<bar> mod \<bar>b\<bar>)"

definition show_int :: "int \<Rightarrow> jstring" where
  "show_int n = (if n < 0 then ''-'' @ show_digits (- n) else show_digits n)"

definition formatRelativeHours :: "int option \<Rightarrow> int \<Rightarrow> jstring" where
  "formatRelativeHours fetchedAt reference =
     (case fetchedAt of None \<Rightarrow> ''NaNh NaNm''
      | Some t \<Rightarrow>
          let ms = reference - t; hours = ms div (3600 * 1000);
              minutes = js_rem ms (3600 * 1000) div 60000
          in show_int hours @ ''h '' @ show_int minutes @ ''m'')"

definition STALE_MS :: int where
  "STALE_MS = 48 * 3600 * 1000"

definition formatNumberEs :: "jsnum \<Rightarrow> nat \<Rightarrow> jstring" where
  "formatNumberEs n maxDigits = intl_decimal 0 maxDigits (intl_of_num n)"

definition formatCompactMoney :: "sval \<Rightarrow> currency \<Rightarrow> jstring" where
  "formatCompactMoney value cur =
     (let num = sval_num value; symbol = (if cur = EUR then euro_sign else ''$'');
          abs = js_abs num
      in if js_le (Num 1000000) abs
         then symbol @ formatNumberEs (js_div num (Num 1000000)) 1 @ ''M''
         else if js_le (Num 1000) abs
         then symbol @ formatNumberEs (js_div num (Num 1000)) 1 @ ''K''
         else symbol @ formatNumberEs num 0)"

definition PRICE_SOURCE_LABEL :: "(jstring \<times> jstring) list" where
  "PRICE_SOURCE_LABEL =
     [(''finnhub'', ''Finnhub''), (''coingecko'', ''CoinGecko''), (''ft'', ''FT.com''),
      (''manual'', ''Manual''), (''na'', ''None''), (''frankfurter'', ''Frankfurter'')]"

definition priceSourceLabel :: "jstring \<Rightarrow> jstring" where
  "priceSourceLabel src = nullish (map_of PRICE_SOURCE_LABEL src) src"

definition INSTRUMENT_TYPE_LABEL :: "(jstring \<times> jstring) list" where
  "INSTRUMENT_TYPE_LABEL =
     [(''stock'', ''Stock''), (''etf'', ''ETF''), (''fund'', ''Fund''), (''crypto'', ''Crypto''),
      (''stablecoin'', ''Stablecoin''), (''cash'', ''Cash''), (''metal'', ''Metal'')]"

text \<open>\<open>toUpperCase\<close> of one ASCII character.\<close>

definition ascii_upper :: "char \<Rightarrow> char" where
  "ascii_upper c = (let n = of_char c :: int in if 97 \<le> n \<and> n \<le> 122 then char_of (n - 32) else c)"

definition ascii_lower :: "char \<Rightarrow> char" where
  "ascii_lower c = (let n = of_char c :: int in if 65 \<le> n \<and> n \<le> 90 then char_of (n + 32) else c)"

definition instrumentTypeLabel :: "jstring \<Rightarrow> jstring" where
  "instrumentTypeLabel t =
     nullish (map_of INSTRUMENT_TYPE_LABEL t) (map ascii_upper (take 1 t) @ drop 1 t)"

text \<open>
  Dates are laid out by the date library, the parameter \<open>fmt\<close>: a pattern and a date to a text.
\<close>

definition formatDateRange :: "(jstring \<Rightarrow> 'date \<Rightarrow> jstring) \<Rightarrow> 'date \<Rightarrow> 'date \<Rightarrow> jstring" where
  "formatDateRange fmt from to = fmt ''dd MMM yyyy'' from @ '' '' @ en_dash @ '' '' @ fmt ''dd MMM yyyy'' to"

definition formatDate :: "(jstring \<Rightarrow> 'date \<Rightarrow> jstring) \<Rightarrow> (jstring \<Rightarrow> 'date) \<Rightarrow> jstring \<Rightarrow> jstring" where
  "formatDate fmt parse d = fmt ''dd MMM yyyy'' (parse d)"

definition formatDateTime :: "(jstring \<Rightarrow> 'date \<Rightarrow> jstring) \<Rightarrow> (jstring \<Rightarrow> 'date) \<Rightarrow> jstring \<Rightarrow> jstring" where
  "formatDateTime fmt parse d = fmt ''dd MMM yyyy, HH:mm'' (parse d)"

section \<open>Groups of three digits\<close>

definition ungroup :: "jstring \<Rightarrow> jstring" where
  "ungroup s = filter (\<lambda>c. c \<noteq> CHR '','') s"

lemma ungroup_append [simp]: "ungroup (s @ t) = ungroup s @ ungroup t"
  by (simp add: ungroup_def)

lemma ungroup_digits: "list_all is_digit s \<Longrightarrow> ungroup s = s"
  by (auto simp: ungroup_def list_all_iff intro!: filter_True)

lemma ungroup_group_rev: "CHR '','' \<notin> set s \<Longrightarrow> ungroup (group_rev s) = s"
  by (induction s rule: group_rev.induct) (auto simp: ungroup_def)

lemma ungroup_group3: "list_all is_digit s \<Longrightarrow> ungroup (group3 s) = s"
  using ungroup_group_rev [of "rev s"] by (simp add: group3_def ungroup_def flip: rev_filter)

lemma group3_small: "length s \<le> 3 \<Longrightarrow> group3 s = s"
  by (cases "rev s" rule: group_rev.cases) (auto simp: group3_def dest: arg_cong [where f = rev])

lemma group_rev_mid: "3 < length s \<Longrightarrow> length s \<le> 6 \<Longrightarrow> group_rev s = take 3 s @ CHR '','' # drop 3 s"
proof (cases s rule: group_rev.cases)
  case (1 a b c d r)
  assume "length s \<le> 6"
  with 1 have "length (d # r) \<le> 3" by simp
  then have "group_rev (d # r) = d # r" by (cases "d # r" rule: group_rev.cases) auto
  with 1 show ?thesis by simp
qed auto

lemma group3_mid:
  assumes "3 < length s" "length s \<le> 6"
  shows "group3 s = take (length s - 3) s @ CHR '','' # drop (length s - 3) s"
  using group_rev_mid [of "rev s"] assms by (simp add: group3_def rev_take rev_drop)

text \<open>Seven digits or more are grouped with two commas at least.\<close>

lemma group_rev_commas:
  assumes "6 < length s"
  shows "2 \<le> count_list (group_rev s) CHR '',''"
proof -
  from assms obtain a b c d e f g r where "s = a # b # c # d # e # f # g # r"
    by (auto simp: Suc_le_length_iff less_eq_Suc_le eval_nat_numeral)
  then show ?thesis by simp
qed

lemma group3_commas: "6 < length s \<Longrightarrow> 2 \<le> count_list (group3 s) CHR '',''"
  using group_rev_commas [of "rev s"] by (simp add: group3_def count_list_rev)

section \<open>Fixed formatting is half-up rounding\<close>

lemma cut_zeros_alt: "\<exists>n. s = replicate n CHR ''0'' @ cut_zeros k s"
proof (induction s)
  case (Cons c s)
  then obtain n where n: "s = replicate n CHR ''0'' @ cut_zeros k s" by blast
  show ?case
  proof (cases "c = CHR ''0'' \<and> k < length (c # s)")
    case True
    then have "c # s = replicate (Suc n) CHR ''0'' @ cut_zeros k (c # s)" using n by auto
    then show ?thesis by blast
  next
    case False
    then show ?thesis by (intro exI [of _ 0]) auto
  qed
qed simp

lemma cut_zeros_digits: "list_all is_digit s \<Longrightarrow> list_all is_digit (cut_zeros k s)"
  by (induction s) auto

lemma cut_zeros_replicate: "cut_zeros 0 (replicate n CHR ''0'') = []"
  by (induction n) auto

lemma fraction_drop_zeros:
  assumes "f = g @ replicate n CHR ''0''"
  shows "(of_int (digits_val (i @ f)) / 10 ^ length f :: rat) = of_int (digits_val (i @ g)) / 10 ^ length g"
  by (simp add: assms digits_val_append power_add add_divide_distrib)

lemma round_half_up_nonneg: "0 \<le> q \<Longrightarrow> 0 \<le> round_half_up q"
  by (simp add: round_half_up_def)

lemma round_half_up_int [simp]: "round_half_up (of_int n) = n"
  by (simp add: round_half_up_def floor_unique)

lemma round_half_up_near: "\<bar>of_int (round_half_up q) - q\<bar> \<le> 1 / 2"
  using floor_correct [of "q + 1 / 2"] unfolding round_half_up_def abs_le_iff by linarith

lemma to_fixed_parts:
  assumes "0 \<le> q" "to_fixed mn mx q = (i, f)"
  shows "list_all is_digit i" "i \<noteq> []" "list_all is_digit f"
    "(of_int (digits_val (i @ f)) / 10 ^ length f :: rat) = of_int (round_half_up (q * 10 ^ mx)) / 10 ^ mx"
proof -
  let ?n = "round_half_up (q * 10 ^ mx)"
  let ?ds = "pad_left (Suc mx) (show_digits ?n)"
  let ?k = "length ?ds - mx"
  have n: "0 \<le> ?n" using assms(1) by (simp add: round_half_up_nonneg)
  have ds: "list_all is_digit ?ds" "digits_val ?ds = ?n"
    using show_digits_digits [OF n] digits_val_show [OF n]
    by (auto simp: pad_left_def digits_val_append list_all_iff)
  have len: "mx < length ?ds" by (simp add: pad_left_def)
  have if_def: "i = take ?k ?ds" "f = rev (cut_zeros mn (rev (drop ?k ?ds)))"
    using assms(2) by (simp_all add: to_fixed_def Let_def)
  show "list_all is_digit i" "i \<noteq> []" using ds(1) len unfolding if_def
    by (auto simp: list_all_iff dest: in_set_takeD)
  have "list_all is_digit (rev (drop ?k ?ds))" using ds(1) by (auto simp: list_all_iff dest: in_set_dropD)
  then have "list_all is_digit (cut_zeros mn (rev (drop ?k ?ds)))" by (rule cut_zeros_digits)
  then show "list_all is_digit f" unfolding if_def by (simp add: list_all_iff)
  obtain z where "rev (drop ?k ?ds) = replicate z CHR ''0'' @ cut_zeros mn (rev (drop ?k ?ds))"
    using cut_zeros_alt by blast
  then have "drop ?k ?ds = f @ replicate z CHR ''0''"
    unfolding if_def by (metis rev_append rev_replicate rev_rev_ident)
  then have "(of_int (digits_val (i @ f)) / 10 ^ length f :: rat) =
    of_int (digits_val (i @ drop ?k ?ds)) / 10 ^ length (drop ?k ?ds)"
    by (rule fraction_drop_zeros [symmetric])
  also have "i @ drop ?k ?ds = ?ds" unfolding if_def by simp
  also have "length (drop ?k ?ds) = mx" using len by simp
  finally show "(of_int (digits_val (i @ f)) / 10 ^ length f :: rat) = of_int ?n / 10 ^ mx"
    by (simp only: ds(2))
qed

lemma fixed_text_value:
  assumes "0 \<le> q"
  shows "unsigned_value (ungroup (fixed_text mn mx q)) = of_int (round_half_up (q * 10 ^ mx)) / 10 ^ mx"
proof -
  obtain i f where if_def: "to_fixed mn mx q = (i, f)" by (cases "to_fixed mn mx q")
  note p = to_fixed_parts [OF assms if_def]
  have "ungroup (dec_text (group3 i) CHR ''.'' f) = dec_text i CHR ''.'' f"
    using p ungroup_digits [of f] by (simp add: dec_text_def ungroup_group3) (simp add: ungroup_def)
  then show ?thesis
    using p unsigned_value_text [of i "CHR ''.''" f] by (simp add: fixed_text_def if_def)
qed

lemma fixed_text_near:
  assumes "0 \<le> q"
  shows "\<bar>unsigned_value (ungroup (fixed_text mn mx q)) - q\<bar> \<le> 1 / (2 * 10 ^ mx)"
proof -
  have "\<bar>of_int (round_half_up (q * 10 ^ mx)) - q * 10 ^ mx\<bar> / 10 ^ mx \<le> (1 / 2) / 10 ^ mx"
    by (intro divide_right_mono round_half_up_near) simp
  moreover have "\<bar>x - q * 10 ^ mx\<bar> / 10 ^ mx = \<bar>x / 10 ^ mx - q\<bar>" for x :: rat
  proof -
    have "\<bar>x - q * 10 ^ mx\<bar> / 10 ^ mx = \<bar>(x - q * 10 ^ mx) / 10 ^ mx\<bar>" by simp
    also have "(x - q * 10 ^ mx) / 10 ^ mx = x / 10 ^ mx - q" by (simp add: diff_divide_distrib)
    finally show ?thesis .
  qed
  ultimately show ?thesis by (simp add: fixed_text_value [OF assms])
qed

section \<open>Quantities that are whole numbers\<close>

lemma str_to_number_digits:
  assumes "0 \<le> n" "n \<le> 2 ^ 53"
  shows "str_to_number (show_digits n) = Num (of_int n)"
proof -
  have d: "list_all is_digit (show_digits n)" using assms(1) by (rule show_digits_digits)
  have "str_to_number (dec_text (show_digits n) CHR ''.'' []) =
    to_double (dec_value (dec_text (show_digits n) CHR ''.'' []))"
    using d by (intro str_to_number_text) auto
  also have "dec_value (dec_text (show_digits n) CHR ''.'' []) = of_int n"
    using d assms(1) dec_value_text [of "''''" "show_digits n" "CHR ''.''" "[]"]
    by (simp add: sign_val_def digits_val_show)
  finally show ?thesis using assms by (simp add: dec_text_def to_double_int)
qed

lemma to_fixed_int:
  assumes "0 \<le> n"
  shows "to_fixed 0 mx (of_int n) = (show_digits n, [])"
proof -
  have r: "round_half_up (of_int n * 10 ^ mx) = n * 10 ^ mx"
    using round_half_up_int [of "n * 10 ^ mx"] by simp
  show ?thesis
  proof (cases "n = 0")
    case True
    have "show_digits 0 = ''0''" by (simp add: show_digits.simps)
    moreover have "pad_left (Suc mx) ''0'' = replicate (Suc mx) CHR ''0''"
      by (simp add: pad_left_def replicate_append_same)
    moreover have "round_half_up 0 = 0" using round_half_up_int [of 0] by simp
    ultimately show ?thesis using cut_zeros_replicate [of mx]
      by (simp add: to_fixed_def True Let_def)
  next
    case False
    with assms have "0 < n" by simp
    then have s: "show_digits (n * 10 ^ mx) = show_digits n @ replicate mx CHR ''0''"
      by (rule show_digits_times10)
    obtain c t where "show_digits n = c # t" by (cases "show_digits n") auto
    then have "pad_left (Suc mx) (show_digits n @ replicate mx CHR ''0'') = show_digits n @ replicate mx CHR ''0''"
      by (simp add: pad_left_def)
    then show ?thesis using cut_zeros_replicate [of mx]
      by (simp add: to_fixed_def r s Let_def)
  qed
qed

lemma formatQuantity_int:
  assumes "0 \<le> n" "n \<le> 2 ^ 53"
  shows "formatQuantity (SStr (show_digits n)) mx = group3 (show_digits n)"
proof -
  have "fixed_text 0 mx (of_int n) = group3 (show_digits n)"
    by (simp add: fixed_text_def to_fixed_int [OF assms(1)] dec_text_def)
  with assms show ?thesis
    by (simp add: formatQuantity_def str_to_number_digits [OF assms] intl_decimal_def sign_auto_def)
qed

text \<open>Text that is no number is left as typed.\<close>

lemma formatQuantity_not_finite:
  "\<not> is_finite (str_to_number s) \<Longrightarrow> formatQuantity (SStr s) mx = s"
  by (simp add: formatQuantity_def)

section \<open>What a formatted quantity means to the field it is written back to\<close>

text \<open>
  \<open>quantity_field s\<close> is what a positive decimal field makes of the text the form shows for
  \<open>s\<close> after the field was left: the text is formatted for display and the field then reads
  the display text.
\<close>

definition quantity_field :: "jstring \<Rightarrow> jstring + jstring" where
  "quantity_field s = decimalField True None (formatQuantity (SStr s) 8)"

lemma show_digits_len:
  assumes "0 < n"
  shows "n < 10 ^ k \<Longrightarrow> length (show_digits n) \<le> k" "10 ^ k \<le> n \<Longrightarrow> k < length (show_digits n)"
proof -
  show "length (show_digits n) \<le> k" if "n < 10 ^ k"
  proof (rule ccontr)
    assume "\<not> length (show_digits n) \<le> k"
    then have "(10 :: int) ^ k \<le> 10 ^ (length (show_digits n) - 1)" by (intro power_increasing) auto
    with show_digits_length [OF assms] that show False by linarith
  qed
  show "k < length (show_digits n)" if "10 ^ k \<le> n"
  proof -
    have "n < 10 ^ length (show_digits n)"
      using digits_val_bound [OF show_digits_digits] digits_val_show assms by force
    with that have "(10 :: int) ^ k < 10 ^ length (show_digits n)" by linarith
    then show ?thesis by (simp add: power_strict_increasing_iff)
  qed
qed

lemma decimal_field_of_text:
  assumes "list_all is_digit i" "i \<noteq> []" "list_all is_digit f" "c = CHR ''.'' \<or> c = CHR '',''"
    "1 \<le> digits_val (i @ f)" "length f \<le> 300"
  shows "decimalField True None (dec_text i c f) = Inr (normalizeDecimalInput (dec_text i c f))"
proof (rule decimalField_accepts)
  show "decimal_shape (dec_text i c f)"
    using assms by (auto simp: decimal_shape_def span_dec_text)
  have "(1 :: rat) \<le> of_int (digits_val (i @ f))" using assms(5) by simp
  then have "1 / 10 ^ length f \<le> dec_value ('''' @ dec_text i c f)"
    using assms by (subst dec_value_text) (auto simp: sign_val_def divide_right_mono)
  moreover have "(1 :: rat) / 10 ^ 300 \<le> 1 / 10 ^ length f"
    using assms(6) by (intro divide_left_mono power_increasing) auto
  moreover have "pow2 (- 1074) \<le> 1 / 10 ^ 300" by (simp add: pow2_def)
  ultimately show "pow2 (- 1074) \<le> dec_value (dec_text i c f)"
    unfolding append.simps by (meson order.trans)
qed

lemma quantity_field_small:
  assumes "0 < n" "n < 1000"
  shows "quantity_field (show_digits n) = Inr (show_digits n)"
proof -
  have d: "list_all is_digit (show_digits n)" using assms by (simp add: show_digits_digits)
  have "length (show_digits n) \<le> 3" using show_digits_len(1) [of n 3] assms by simp
  then have "formatQuantity (SStr (show_digits n)) 8 = dec_text (show_digits n) CHR ''.'' []"
    using assms by (simp add: formatQuantity_int group3_small dec_text_def)
  moreover have "decimalField True None (dec_text (show_digits n) CHR ''.'' []) =
    Inr (normalizeDecimalInput (dec_text (show_digits n) CHR ''.'' []))"
    using d assms by (intro decimal_field_of_text) (auto simp: digits_val_show)
  moreover have "normalizeDecimalInput ('''' @ dec_text (show_digits n) CHR ''.'' []) = canon False (show_digits n) []"
    using normalize_text [of "''''" "show_digits n" "[]" "CHR ''.''"] d by simp
  moreover have "strip_leading_zeros (show_digits n) = show_digits n"
    using show_digits_hd [OF assms(1)] by (cases "show_digits n") (auto simp: strip_leading_zeros_def)
  ultimately show ?thesis
    using show_digits_hd [OF assms(1)]
    by (auto simp: quantity_field_def canon_def canon_int_def strip_trailing_zeros_def Let_def)
qed

lemma quantity_field_thousands:
  assumes "1000 \<le> n" "n < 1000000"
  shows "\<exists>t. quantity_field (show_digits n) = Inr t \<and> dec_value t = of_int n / 1000"
proof -
  let ?s = "show_digits n"
  have n: "0 < n" using assms by simp
  have d: "list_all is_digit ?s" using n by (simp add: show_digits_digits)
  have len: "3 < length ?s" "length ?s \<le> 6"
    using show_digits_len [OF n, of 3] show_digits_len [OF n, of 6] assms by auto
  let ?i = "take (length ?s - 3) ?s" and ?f = "drop (length ?s - 3) ?s"
  have if_d: "list_all is_digit ?i" "list_all is_digit ?f" "?i \<noteq> []" "length ?f = 3"
    using d len by (auto simp: list_all_iff dest: in_set_takeD in_set_dropD)
  have v: "digits_val (?i @ ?f) = n" using n by (simp add: digits_val_show)
  have "formatQuantity (SStr ?s) 8 = dec_text ?i CHR '','' ?f"
    using assms len by (simp add: formatQuantity_int group3_mid dec_text_def)
  then have q: "quantity_field ?s = Inr (normalizeDecimalInput (dec_text ?i CHR '','' ?f))"
    unfolding quantity_field_def using if_d v assms by (simp only:, intro decimal_field_of_text) auto
  have "dec_value (normalizeDecimalInput ('''' @ dec_text ?i CHR '','' ?f)) = of_int n / 1000"
    using normalize_text [of "''''" ?i ?f "CHR '',''"] if_d v
      canon_value [OF if_d(1,2), of False] by (simp add: sign_val_def)
  with q show ?thesis by simp
qed

lemma decimal_shape_commas: "decimal_shape s \<Longrightarrow> count_list s CHR '','' \<le> 1"
proof (elim decimal_shapeE)
  fix i c f
  assume *: "s = dec_text i c f" "list_all is_digit i" "list_all is_digit f"
  then have "count_list i CHR '','' = 0" "count_list f CHR '','' = 0"
    by (auto simp: count_list_0_iff)
  with * show ?thesis by (auto simp: dec_text_def)
qed

lemma quantity_field_millions:
  assumes "1000000 \<le> n" "n \<le> 2 ^ 53"
  shows "quantity_field (show_digits n) = Inl ''Enter a valid number''"
proof -
  have "6 < length (show_digits n)" using show_digits_len(2) [of n 6] assms by simp
  then have "2 \<le> count_list (formatQuantity (SStr (show_digits n)) 8) CHR '',''"
    using assms by (simp add: formatQuantity_int group3_commas)
  then have "\<not> decimal_shape (formatQuantity (SStr (show_digits n)) 8)"
    using decimal_shape_commas by fastforce
  then show ?thesis by (simp add: quantity_field_def decimalField_def)
qed

section \<open>Money\<close>

lemma exact_magnitude_text:
  assumes "i \<noteq> []" "list_all is_digit i" "list_all is_digit f"
  shows "exact_magnitude (dec_text i CHR ''.'' f) = dec_value (dec_text i CHR ''.'' f)"
proof -
  let ?s = "dec_text i CHR ''.'' f"
  have set: "c \<in> set ?s \<Longrightarrow> is_digit c \<or> c = CHR ''.''" for c
    using assms by (auto simp: dec_text_def list_all_iff split: if_splits)
  moreover have "plain_char CHR ''.''" by (simp add: plain_char_def)
  ultimately have "list_all plain_char ?s" by (metis Ball_set is_digit_plain)
  then have trim: "js_trim ?s = ?s" by (rule js_trim_plain)
  have no: "CHR ''x'' \<notin> set ?s" "CHR ''X'' \<notin> set ?s" "CHR ''o'' \<notin> set ?s" "CHR ''O'' \<notin> set ?s"
    "CHR ''b'' \<notin> set ?s" "CHR ''B'' \<notin> set ?s" "CHR ''-'' \<notin> set ?s" "CHR ''+'' \<notin> set ?s"
    by (auto dest!: set simp: is_digit_def)
  have radix: "\<not> starts_with ?s [CHR ''0'', c]" "\<not> starts_with ?s [c]" if "c \<notin> set ?s" for c
    using that by (auto simp: starts_with_iff)
  have "parse_unsigned ?s = Some (of_int (digits_val (i @ f)) * pow10 (- int (length f)))"
    using assms by (auto simp: parse_unsigned_def span_dec_text split_fraction_def parse_exponent_def
        span_digits_all)
  moreover have "of_int (digits_val (i @ f)) * pow10 (- int (length f)) = dec_value ?s"
    using dec_value_text [of "''''" i "CHR ''.''" f] assms by (simp add: pow10_neg sign_val_def)
  ultimately show ?thesis
    unfolding exact_magnitude_def trim Let_def using radix no by (simp del: starts_with_Cons)
qed

lemma to_double_zero_small: "0 \<le> q \<Longrightarrow> to_double q = Num 0 \<Longrightarrow> q < pow2 (- 1074)"
  using to_double_pos_ge [of q] by (metis js_lt_irrefl linorder_not_le)

lemma to_double_signs: "0 \<le> q \<Longrightarrow> to_double q \<noteq> NInf \<and> to_double q \<noteq> NegZero \<and> to_double q \<noteq> NaN"
  by (auto simp: to_double_def Let_def)

text \<open>A decimal that is finite as a double is formatted from its exact value.\<close>

lemma intl_of_str_text:
  assumes "i \<noteq> []" "list_all is_digit i" "list_all is_digit f" "length f \<le> 300"
    "is_finite (str_to_number (dec_text i CHR ''.'' f))"
  shows "intl_of_str (dec_text i CHR ''.'' f) = IntlVal False (dec_value (dec_text i CHR ''.'' f))"
proof -
  let ?s = "dec_text i CHR ''.'' f" and ?v = "dec_value (dec_text i CHR ''.'' f)"
  have v: "?v = of_int (digits_val (i @ f)) / 10 ^ length f"
    using dec_value_text [of "''''" i "CHR ''.''" f] assms by (simp add: sign_val_def)
  have nn: "0 \<le> digits_val (i @ f)" using assms by (intro digits_val_nonneg) simp
  then have pos: "0 \<le> ?v" by (simp add: v)
  have num: "str_to_number ?s = to_double ?v" using assms by (intro str_to_number_text)
  then obtain q where q: "to_double ?v = Num q"
    using to_double_signs [OF pos] assms(5) by (cases "to_double ?v") auto
  show ?thesis
  proof (cases "q = 0")
    case True
    have "?v = 0"
    proof (rule ccontr)
      assume "?v \<noteq> 0"
      then have "1 \<le> digits_val (i @ f)" using nn v by (cases "digits_val (i @ f) = 0") auto
      then have "1 / 10 ^ length f \<le> ?v" unfolding v by (intro divide_right_mono) simp_all
      moreover have "(1 :: rat) / 10 ^ 300 \<le> 1 / 10 ^ length f"
        using assms(4) by (intro divide_left_mono power_increasing) auto
      moreover have "pow2 (- 1074) \<le> 1 / 10 ^ 300" by (simp add: pow2_def)
      ultimately have "pow2 (- 1074) \<le> ?v" by (meson order.trans)
      then show False using to_double_zero_small [OF pos] q True by simp
    qed
    then show ?thesis using q True by (simp add: intl_of_str_def num)
  next
    case False
    have "\<not> q < 0"
    proof
      assume "q < 0"
      with q pos show False
        using round_pos_nonneg [of "?v"] by (auto simp: to_double_def Let_def split: if_splits)
    qed
    then show ?thesis using q False exact_magnitude_text [OF assms(1-3)]
      by (simp add: intl_of_str_def num)
  qed
qed

text \<open>The symbol of a currency, which \<open>formatMoney\<close> writes in front of the digits.\<close>

definition symbol_of :: "currency \<Rightarrow> jstring" where
  "symbol_of c = (if c = EUR then euro_sign else ''$'')"

lemma formatMoney_text:
  assumes "i \<noteq> []" "list_all is_digit i" "list_all is_digit f" "length f \<le> 300"
    "is_finite (str_to_number (dec_text i CHR ''.'' f))"
  shows "formatMoney (SStr (dec_text i CHR ''.'' f)) cur =
    symbol_of cur @ fixed_text 2 2 (dec_value (dec_text i CHR ''.'' f))"
  using intl_of_str_text [OF assms]
  by (cases cur) (simp_all add: formatMoney_def intl_currency_eur_def intl_decimal_def sign_auto_def
      symbol_of_def)

lemma formatMoney_exact:
  assumes "i \<noteq> []" "list_all is_digit i" "list_all is_digit f" "length f \<le> 2"
    "is_finite (str_to_number (dec_text i CHR ''.'' f))"
  shows "\<exists>b. formatMoney (SStr (dec_text i CHR ''.'' f)) cur = symbol_of cur @ b \<and>
    unsigned_value (ungroup b) = dec_value (dec_text i CHR ''.'' f)"
proof (intro exI conjI)
  let ?v = "dec_value (dec_text i CHR ''.'' f)"
  show "formatMoney (SStr (dec_text i CHR ''.'' f)) cur = symbol_of cur @ fixed_text 2 2 ?v"
    using assms by (intro formatMoney_text) auto
  have v: "?v = of_int (digits_val (i @ f)) / 10 ^ length f"
    using dec_value_text [of "''''" i "CHR ''.''" f] assms by (simp add: sign_val_def)
  have nn: "0 \<le> ?v" using digits_val_nonneg [of "i @ f"] assms by (simp add: v)
  have "?v * 10 ^ 2 = of_int (digits_val (i @ f) * 10 ^ (2 - length f))"
  proof -
    have "length f = 0 \<or> length f = 1 \<or> length f = 2" using assms(4) by arith
    then show ?thesis by (elim disjE; simp only: v; simp)
  qed
  then have "round_half_up (?v * 10 ^ 2) = digits_val (i @ f) * 10 ^ (2 - length f)"
    by (simp only: round_half_up_int)
  then have "(of_int (round_half_up (?v * 10 ^ 2)) :: rat) / 10 ^ 2 = ?v"
    using \<open>?v * 10 ^ 2 = _\<close> by simp
  then show "unsigned_value (ungroup (fixed_text 2 2 ?v)) = ?v"
    by (simp only: fixed_text_value [OF nn])
qed

text \<open>The sign text and the colour of a signed amount agree.\<close>

lemma formatSignedMoney_colour:
  "directionalColor (Some v) = ''text-positive'' \<longleftrightarrow> js_lt (Num 0) (sval_num v)"
  "directionalColor (Some v) = ''text-negative'' \<longleftrightarrow> js_lt (sval_num v) (Num 0)"
  by (auto simp: directionalColor_def dest: js_lt_asym)

lemma formatSignedMoney_sign:
  "formatSignedMoney v cur =
     (if directionalColor (Some v) = ''text-positive'' then ''+ '' @ formatMoney (SStr (sval_str v)) cur
      else if directionalColor (Some v) = ''text-negative''
      then minus_sign @ '' '' @ formatMoney (SStr (drop_minus (sval_str v))) cur
      else formatMoney (SStr (sval_str v)) cur)"
  unfolding formatSignedMoney_colour formatSignedMoney_def Let_def by (auto dest: js_lt_asym)

section \<open>Properties\<close>

text \<open>
  C8: Amounts are shown without a detour through doubles.  On a plain decimal \<open>formatMoney\<close>
  writes the currency symbol and digits whose value is within half a cent of the exact value, and
  equal to it when the text has at most two decimals, for amounts of any size.
\<close>

theorem money_shown_exactly:
  assumes "i \<noteq> []" "list_all is_digit i" "list_all is_digit f" "length f \<le> 300"
    "is_finite (str_to_number (dec_text i CHR ''.'' f))"
  shows "\<exists>b. formatMoney (SStr (dec_text i CHR ''.'' f)) cur = symbol_of cur @ b
    \<and> \<bar>unsigned_value (ungroup b) - dec_value (dec_text i CHR ''.'' f)\<bar> \<le> 1 / 200
    \<and> (length f \<le> 2 \<longrightarrow> unsigned_value (ungroup b) = dec_value (dec_text i CHR ''.'' f))"
proof (intro exI conjI impI)
  let ?v = "dec_value (dec_text i CHR ''.'' f)"
  show eq: "formatMoney (SStr (dec_text i CHR ''.'' f)) cur = symbol_of cur @ fixed_text 2 2 ?v"
    using assms by (rule formatMoney_text)
  have nn: "0 \<le> ?v"
    using dec_value_text [of "''''" i "CHR ''.''" f] digits_val_nonneg [of "i @ f"] assms
    by (simp add: sign_val_def)
  show "\<bar>unsigned_value (ungroup (fixed_text 2 2 ?v)) - ?v\<bar> \<le> 1 / 200"
    using fixed_text_near [OF nn, of 2 2] by simp
  show "unsigned_value (ungroup (fixed_text 2 2 ?v)) = ?v" if "length f \<le> 2"
    using formatMoney_exact [OF assms(1-3) that assms(5), of cur] eq by auto
qed

theorem money_shown_exactly_witness:
  "\<exists>b. formatMoney (SStr (dec_text ''90071992547409931'' CHR ''.'' ''25'')) EUR = symbol_of EUR @ b
    \<and> unsigned_value (ungroup b) = dec_value (dec_text ''90071992547409931'' CHR ''.'' ''25'')"
proof -
  have "is_finite (str_to_number (dec_text ''90071992547409931'' CHR ''.'' ''25''))" by code_simp
  moreover have "list_all is_digit ''90071992547409931''" "list_all is_digit ''25''" by code_simp+
  ultimately show ?thesis
    using money_shown_exactly [of "''90071992547409931''" "''25''" EUR] by auto
qed

text \<open>
  Sign and colour of a signed amount agree.  The green class goes with a leading plus, the red
  class with a leading minus sign and the digits of the absolute value, the muted class with
  neither, and the colour is decided by the number the text denotes.
\<close>

theorem signed_money_colour:
  "formatSignedMoney v cur =
     (if directionalColor (Some v) = ''text-positive'' then ''+ '' @ formatMoney (SStr (sval_str v)) cur
      else if directionalColor (Some v) = ''text-negative''
      then minus_sign @ '' '' @ formatMoney (SStr (drop_minus (sval_str v))) cur
      else formatMoney (SStr (sval_str v)) cur)
    \<and> (directionalColor (Some v) = ''text-positive'') = js_lt (Num 0) (sval_num v)
    \<and> (directionalColor (Some v) = ''text-negative'') = js_lt (sval_num v) (Num 0)"
  unfolding formatSignedMoney_def Let_def by (auto simp: directionalColor_def dest: js_lt_asym)

end
