(* ===== verification/Drift.thy ===== *)
theory Drift
  imports Format
begin

text \<open>
  The rows of a reconciliation: \<open>frontend/lib/reconciliation-drift.ts\<close>, the payload types of
  \<open>frontend/lib/reconciliation-api.ts\<close>, the difference table, the reject drawer, the dismiss
  dialog and the instrument picker of \<open>frontend/components/reconciliation\<close>.  The state machine
  of the form that owns them is in the theory of the form.
\<close>

section \<open>Data\<close>

record DriftRow =
  dr_instrument_id :: jstring
  dr_instrument_symbol :: jstring
  dr_instrument_name :: jstring
  dr_instrument_type :: jstring
  dr_display_decimals :: "nat option"
  dr_price_currency :: "jstring option"
  dr_app_qty :: jstring
  dr_app_value_eur :: "jstring option"

datatype DriftAction = Accept | Reject | Dismiss | Matched

record DriftDecision =
  dd_instrument_id :: jstring
  dd_action :: DriftAction
  dd_dismiss_reason :: "jstring option"
  dd_rejected_txn_id :: "jstring option"

datatype RejectTxnType = BuyTxn | SellTxn | SpendTxn

record PendingRejectTxn =
  pr_account_id :: jstring
  pr_instrument_id :: jstring
  pr_txn_type :: RejectTxnType
  pr_date :: jstring
  pr_unit_price :: jstring
  pr_price_currency :: currency
  pr_fx_rate_to_eur :: "jstring option"
  pr_fee_eur :: jstring
  pr_notes :: jstring

datatype DriftState = MatchedState | QtyDrift | MissingState | Phantom | PendingInput

section \<open>Classification of a row\<close>

definition isRowUnresolved :: "jstring \<Rightarrow> jstring \<Rightarrow> bool \<Rightarrow> bool" where
  "isRowUnresolved appQty snapQty hasDecision =
     (if snapQty = '''' \<or> decimalStringsEqual (Some snapQty) (Some appQty) then False
      else \<not> hasDecision)"

definition parseDecimal :: "jstring option \<Rightarrow> jsnum" where
  "parseDecimal value =
     (case value of None \<Rightarrow> NaN
      | Some s \<Rightarrow> if s = '''' then NaN
                  else let n = str_to_number s in if is_finite n then n else NaN)"

definition deriveDriftState :: "jstring \<Rightarrow> jstring \<Rightarrow> DriftState" where
  "deriveDriftState appQtyStr snapStr =
     (if snapStr = '''' then PendingInput
      else if decimalStringsEqual (Some appQtyStr) (Some snapStr) then MatchedState
      else
        let isAppZero = decimalStringsEqual (Some appQtyStr) (Some ''0'');
            isSnapZero = decimalStringsEqual (Some snapStr) (Some ''0'');
            snap = parseDecimal (Some snapStr)
        in if snap = NaN then PendingInput
           else if isAppZero \<and> \<not> isSnapZero then MissingState
           else if \<not> isAppZero \<and> isSnapZero then Phantom
           else QtyDrift)"

section \<open>The difference table\<close>

datatype RowIcon = CheckIcon | DestructiveTriangle | PlusIcon | AmberTriangle

fun StatusIcon :: "DriftState \<Rightarrow> RowIcon option" where
  "StatusIcon MatchedState = Some CheckIcon"
| "StatusIcon Phantom = Some DestructiveTriangle"
| "StatusIcon MissingState = Some PlusIcon"
| "StatusIcon QtyDrift = Some AmberTriangle"
| "StatusIcon PendingInput = None"

definition DriftCaption :: "DriftState \<Rightarrow> jstring \<Rightarrow> jstring \<Rightarrow> jstring \<Rightarrow> jstring option" where
  "DriftCaption state appQty snapStr symbol =
     (let app = parseDecimal (Some appQty); snap = parseDecimal (Some snapStr)
      in case state of
           MatchedState \<Rightarrow> Some ''Match''
         | QtyDrift \<Rightarrow>
             let delta = js_sub snap app; sign = (if js_le (Num 0) delta then ''+'' else '''')
             in Some (''Drift: '' @ sign @ number_to_str delta @ '' '' @ symbol)
         | MissingState \<Rightarrow> Some (''Missing in app: +'' @ number_to_str snap @ '' '' @ symbol)
         | Phantom \<Rightarrow> Some (''Phantom: app says '' @ appQty @ '' '' @ symbol @ '', broker says 0'')
         | PendingInput \<Rightarrow> None)"

definition ResolvedCaption :: "DriftAction \<Rightarrow> jstring" where
  "ResolvedCaption action =
     (if action = Reject then ''Will reject via new txn''
      else if action = Dismiss then ''Will dismiss'' else ''Will accept'')"

text \<open>The value cell: its text and the chip with a foreign currency code.\<close>

definition valueCell :: "DriftRow \<Rightarrow> jstring \<times> jstring option" where
  "valueCell row =
     (case Option.bind (dr_app_value_eur row) or_null of
        None \<Rightarrow> (em_dash @ '' no price'', None)
      | Some v \<Rightarrow>
          (formatMoney (SStr v) EUR,
           case Option.bind (dr_price_currency row) or_null of
             None \<Rightarrow> None
           | Some c \<Rightarrow> if c = ''EUR'' then None else Some c))"

text \<open>The buttons of a row: undo with a caption, none, or the decisions the row offers.\<close>

datatype RowActionsView =
    UndoButton jstring
  | NoButtons
  | RejectOrDismiss \<comment> \<open>phantom rows: the accept button is disabled\<close>
  | AcceptRejectDismiss

definition RowActions :: "DriftState \<Rightarrow> DriftDecision option \<Rightarrow> RowActionsView" where
  "RowActions state decision =
     (case decision of
        Some d \<Rightarrow> UndoButton (ResolvedCaption (dd_action d))
      | None \<Rightarrow>
          if state = MatchedState \<or> state = PendingInput then NoButtons
          else if state = Phantom then RejectOrDismiss
          else AcceptRejectDismiss)"

text \<open>What the table shows of one row, in the desktop table and in the mobile card.\<close>

record DiffRowView =
  dv_id :: jstring
  dv_symbol :: jstring
  dv_name :: jstring
  dv_icon :: "RowIcon option"
  dv_caption :: "jstring option"
  dv_app_qty :: jstring
  dv_snap_input :: jstring
  dv_value :: "jstring \<times> jstring option"
  dv_actions :: RowActionsView

definition diffRowView ::
  "(jstring, jstring) jsmap \<Rightarrow> (jstring, DriftDecision) jsmap \<Rightarrow> DriftRow \<Rightarrow> DiffRowView" where
  "diffRowView snapshotQtys decisions row =
     (let snap = nullish (jm_get snapshotQtys (dr_instrument_id row)) '''';
          state = deriveDriftState (dr_app_qty row) snap;
          decision = jm_get decisions (dr_instrument_id row)
      in \<lparr> dv_id = dr_instrument_id row,
           dv_symbol = dr_instrument_symbol row,
           dv_name = dr_instrument_name row,
           dv_icon = StatusIcon state,
           dv_caption = DriftCaption state (dr_app_qty row) snap (dr_instrument_symbol row),
           dv_app_qty = formatQuantity (SStr (dr_app_qty row))
             (decimalsFor (Some (dr_instrument_type row)) (dr_display_decimals row)),
           dv_snap_input = snap,
           dv_value = valueCell row,
           dv_actions = RowActions state decision \<rparr>)"

definition ReconciliationDiffTable ::
  "DriftRow list \<Rightarrow> (jstring, jstring) jsmap \<Rightarrow> (jstring, DriftDecision) jsmap \<Rightarrow> DiffRowView list" where
  "ReconciliationDiffTable rows snapshotQtys decisions = map (diffRowView snapshotQtys decisions) rows"

section \<open>The reject drawer\<close>

definition hasDriftForButton :: "jstring \<Rightarrow> jstring \<Rightarrow> bool" where
  "hasDriftForButton snapshotQty appQty \<longleftrightarrow> \<not> decimalStringsEqual (Some snapshotQty) (Some appQty)"

definition inferredType :: "jstring \<Rightarrow> jstring \<Rightarrow> RejectTxnType" where
  "inferredType snapshotQty appQty =
     (let snapNum = str_to_number snapshotQty; appNum = str_to_number appQty;
          isSnapZero = decimalStringsEqual (Some snapshotQty) (Some ''0'');
          isAppZero = decimalStringsEqual (Some appQty) (Some ''0'')
      in if isSnapZero \<and> \<not> isAppZero then SpendTxn
         else if js_lt appNum snapNum then BuyTxn else SellTxn)"

text \<open>The absolute difference the drawer displays.\<close>

definition absDelta :: "jstring \<Rightarrow> jstring \<Rightarrow> jsnum" where
  "absDelta snapshotQty appQty = js_abs (js_sub (str_to_number snapshotQty) (str_to_number appQty))"

record DrawerState =
  dw_unitPrice :: jstring
  dw_priceCurrency :: currency
  dw_fxRate :: jstring
  dw_feeEur :: jstring
  dw_notes :: jstring

definition drawer_reset :: DrawerState where
  "drawer_reset =
     \<lparr> dw_unitPrice = '''', dw_priceCurrency = EUR, dw_fxRate = '''', dw_feeEur = ''0'',
       dw_notes = '''' \<rparr>"

text \<open>The props of the drawer that a staged transaction depends on.\<close>

record RejectContext =
  rc_instrumentId :: jstring
  rc_instrumentSymbol :: jstring
  rc_accountId :: jstring
  rc_snapshotDate :: jstring
  rc_appQty :: jstring
  rc_snapshotQty :: jstring

definition stage_enabled :: "RejectContext \<Rightarrow> DrawerState \<Rightarrow> bool" where
  "stage_enabled ctx d \<longleftrightarrow>
     dw_unitPrice d \<noteq> '''' \<and> hasDriftForButton (rc_snapshotQty ctx) (rc_appQty ctx)"

text \<open>\<open>handleStage\<close>: the transaction handed to the form, and the drawer's fields after it.\<close>

definition handleStage :: "RejectContext \<Rightarrow> DrawerState \<Rightarrow> PendingRejectTxn \<times> DrawerState" where
  "handleStage ctx d =
     (\<lparr> pr_account_id = rc_accountId ctx,
        pr_instrument_id = rc_instrumentId ctx,
        pr_txn_type = inferredType (rc_snapshotQty ctx) (rc_appQty ctx),
        pr_date = rc_snapshotDate ctx,
        pr_unit_price = dw_unitPrice d,
        pr_price_currency = dw_priceCurrency d,
        pr_fx_rate_to_eur = (if dw_priceCurrency d = USD then or_null (dw_fxRate d) else None),
        pr_fee_eur = dw_feeEur d,
        pr_notes = dw_notes d \<rparr>,
      drawer_reset)"

section \<open>The dismiss dialog and the instrument picker\<close>

text \<open>\<open>handleConfirm\<close>: the reason handed to the form; blank text counts as none.\<close>

definition dismiss_reason_of :: "jstring \<Rightarrow> jstring option" where
  "dismiss_reason_of reason = or_null (js_trim reason)"

record PickInstrument =
  pi_id :: jstring
  pi_symbol :: jstring
  pi_name :: jstring
  pi_instrument_type :: "jstring option"
  pi_display_decimals :: "nat option"
  pi_price_currency :: "jstring option"

text \<open>
  \<open>filtered\<close>: instruments not yet in the table whose symbol or name contains the query.
  \<open>lower\<close> is the \<open>toLowerCase\<close> of the language.
\<close>

definition picker_filtered ::
  "(jstring \<Rightarrow> jstring) \<Rightarrow> PickInstrument list \<Rightarrow> jstring list \<Rightarrow> jstring \<Rightarrow> PickInstrument list" where
  "picker_filtered lower instruments excludeIds query =
     (let q = lower (js_trim query)
      in filter (\<lambda>i. q = '''' \<or> sublist q (lower (pi_symbol i)) \<or> sublist q (lower (pi_name i)))
           (filter (\<lambda>i. pi_id i \<notin> set excludeIds) instruments))"

definition picker_row :: "PickInstrument \<Rightarrow> DriftRow" where
  "picker_row i =
     \<lparr> dr_instrument_id = pi_id i,
       dr_instrument_symbol = pi_symbol i,
       dr_instrument_name = pi_name i,
       dr_instrument_type = nullish (pi_instrument_type i) ''stock'',
       dr_display_decimals = pi_display_decimals i,
       dr_price_currency = pi_price_currency i,
       dr_app_qty = ''0'',
       dr_app_value_eur = None \<rparr>"

definition LastReconciledBadge :: "jstring option \<Rightarrow> jstring" where
  "LastReconciledBadge d =
     (case Option.bind d or_null of None \<Rightarrow> ''Never reconciled'' | Some t \<Rightarrow> ''Reconciled '' @ t)"

section \<open>What the classification means\<close>

lemma signed_shape_0: "signed_shape ''0''" and dec_value_0: "dec_value ''0'' = 0"
  by (simp_all add: signed_shape_def decimal_shape_def span_digits_def dec_value_def
      unsigned_value_def digits_val_def digit_val_def)

lemma equal_zero_iff:
  "signed_shape s \<Longrightarrow> decimalStringsEqual (Some s) (Some ''0'') \<longleftrightarrow> dec_value s = 0"
  using decimalStringsEqual_value [OF _ signed_shape_0] by (simp add: dec_value_0)

lemma signed_shape_nonempty: "signed_shape s \<Longrightarrow> s \<noteq> ''''"
  by (auto simp: signed_shape_def)

text \<open>On decimals the table can read, the state of a row is decided by exact values.\<close>

lemma deriveDriftState_value:
  assumes "signed_shape app" "signed_shape snap" "is_finite (str_to_number snap)"
  shows "deriveDriftState app snap =
    (if dec_value app = dec_value snap then MatchedState
     else if dec_value app = 0 then MissingState
     else if dec_value snap = 0 then Phantom
     else QtyDrift)"
proof -
  have "parseDecimal (Some snap) \<noteq> NaN"
    using assms signed_shape_nonempty [OF assms(2)] by (auto simp: parseDecimal_def Let_def)
  then show ?thesis
    using signed_shape_nonempty [OF assms(2)]
    by (simp add: deriveDriftState_def Let_def decimalStringsEqual_value equal_zero_iff assms)
qed

lemma isRowUnresolved_value:
  assumes "signed_shape app" "signed_shape snap"
  shows "isRowUnresolved app snap dec \<longleftrightarrow> dec_value app \<noteq> dec_value snap \<and> \<not> dec"
  using decimalStringsEqual_value [OF assms(2,1)] signed_shape_nonempty [OF assms(2)]
  by (auto simp: isRowUnresolved_def)

lemma decimal_shape_nonneg: "decimal_shape s \<Longrightarrow> 0 \<le> dec_value s"
proof (elim decimal_shapeE)
  fix i c f
  assume "s = dec_text i c f" "i \<noteq> []" "list_all is_digit i" "list_all is_digit f"
    "c = CHR ''.'' \<or> c = CHR '',''"
  then show ?thesis
    using dec_value_text [of "''''" i c f] digits_val_nonneg [of "i @ f"] by (simp add: sign_val_def)
qed

lemma to_double_cases: "0 \<le> q \<Longrightarrow> to_double q = PInf \<or> (\<exists>r. to_double q = Num r)"
  using to_double_signs [of q] by (cases "to_double q") auto

text \<open>A row the table reads is unresolved exactly when it offers buttons.\<close>

lemma unresolved_iff_buttons:
  assumes "signed_shape app" "signed_shape snap" "is_finite (str_to_number snap)"
  shows "isRowUnresolved app snap (d \<noteq> None) \<longleftrightarrow>
    RowActions (deriveDriftState app snap) d \<in> {RejectOrDismiss, AcceptRejectDismiss}"
  using assms by (cases d) (auto simp: isRowUnresolved_value deriveDriftState_value RowActions_def)

section \<open>Properties\<close>

text \<open>
  C3: A row is decided by exact values.  On decimals the table can read the state of a row depends
  only on the exact quantities, the row blocks saving exactly while they differ and it has no
  decision, and a row that blocks saving always offers the buttons that resolve it.
\<close>

theorem row_decided_by_value:
  assumes "signed_shape app" "signed_shape snap" "is_finite (str_to_number snap)"
  shows "deriveDriftState app snap =
      (if dec_value app = dec_value snap then MatchedState
       else if dec_value app = 0 then MissingState
       else if dec_value snap = 0 then Phantom
       else QtyDrift)
    \<and> (isRowUnresolved app snap (d \<noteq> None) \<longleftrightarrow> dec_value app \<noteq> dec_value snap \<and> d = None)
    \<and> (isRowUnresolved app snap (d \<noteq> None) \<longleftrightarrow>
        RowActions (deriveDriftState app snap) d \<in> {RejectOrDismiss, AcceptRejectDismiss})"
  using deriveDriftState_value [OF assms] isRowUnresolved_value [OF assms(1,2)]
    unresolved_iff_buttons [OF assms] by simp

theorem row_decided_by_value_witness:
  "deriveDriftState ''15.500000000000000000'' ''15.5'' = MatchedState
    \<and> deriveDriftState ''1.5'' ''0.00'' = Phantom"
proof
  have "signed_shape ''15.500000000000000000''" "signed_shape ''15.5''" "is_finite (str_to_number ''15.5'')"
    "dec_value ''15.500000000000000000'' = dec_value ''15.5''" by code_simp+
  then show "deriveDriftState ''15.500000000000000000'' ''15.5'' = MatchedState"
    using row_decided_by_value by simp
  have "signed_shape ''1.5''" "signed_shape ''0.00''" "is_finite (str_to_number ''0.00'')"
    "dec_value ''1.5'' \<noteq> 0" "dec_value ''0.00'' = 0" by code_simp+
  then show "deriveDriftState ''1.5'' ''0.00'' = Phantom"
    using row_decided_by_value [of "''1.5''" "''0.00''"] by simp
qed

text \<open>
  C5: Input the classification cannot read.  A text that is not a number but differs from the
  quantity offers no buttons and yet blocks saving: a comma decimal that differs is such a text.
\<close>

theorem unreadable_row_blocks:
  assumes "\<not> is_finite (str_to_number snap)" "snap \<noteq> ''''"
    "\<not> decimalStringsEqual (Some snap) (Some app)"
  shows "deriveDriftState app snap = PendingInput
    \<and> RowActions (deriveDriftState app snap) None = NoButtons
    \<and> isRowUnresolved app snap False"
  using assms by (auto simp: deriveDriftState_def parseDecimal_def RowActions_def isRowUnresolved_def
      decimalStringsEqual_def Let_def)

theorem unreadable_row_blocks_witness:
  "RowActions (deriveDriftState ''2.5'' ''1,5'') None = NoButtons \<and> isRowUnresolved ''2.5'' ''1,5'' False"
proof -
  have "\<not> is_finite (str_to_number ''1,5'')" "\<not> decimalStringsEqual (Some ''1,5'') (Some ''2.5'')"
    by code_simp+
  then show ?thesis using unreadable_row_blocks [of "''1,5''" "''2.5''"] by blast
qed

text \<open>
  The transaction type inferred for a reject.  For plain decimals it is a spend exactly when the
  broker has none of a holding the app has, a buy only if the broker really has more, and a sell
  for less whenever the two quantities differ as doubles.
\<close>

theorem inferred_type_sound:
  assumes "decimal_shape app" "decimal_shape snap" "CHR '','' \<notin> set app" "CHR '','' \<notin> set snap"
  shows "(inferredType snap app = SpendTxn \<longleftrightarrow> dec_value snap = 0 \<and> dec_value app \<noteq> 0)
    \<and> (inferredType snap app = BuyTxn \<longrightarrow> dec_value app < dec_value snap)
    \<and> (inferredType snap app = SellTxn \<and> to_double (dec_value app) \<noteq> to_double (dec_value snap) \<longrightarrow>
        dec_value snap < dec_value app)"
proof -
  have num: "str_to_number s = to_double (dec_value s)" if s: "decimal_shape s" "CHR '','' \<notin> set s" for s
  proof -
    obtain i c f where t: "s = dec_text i c f" "i \<noteq> []" "list_all is_digit i" "list_all is_digit f"
      "c = CHR ''.'' \<or> c = CHR '',''" using s(1) by (rule decimal_shapeE)
    have "dec_text i c f = dec_text i CHR ''.'' f"
      using t s(2) by (auto simp: dec_text_def split: if_splits)
    then show ?thesis using str_to_number_text [of i f] t by simp
  qed
  have sh: "signed_shape app" "signed_shape snap" using assms decimal_shape_signed by blast+
  have spend: "inferredType snap app = SpendTxn \<longleftrightarrow> dec_value snap = 0 \<and> dec_value app \<noteq> 0"
    by (simp add: inferredType_def Let_def equal_zero_iff sh)
  have "js_lt (to_double (dec_value app)) (to_double (dec_value snap)) \<Longrightarrow> dec_value app < dec_value snap"
    by (rule js_lt_to_double)
  moreover have "dec_value snap < dec_value app"
    if "\<not> js_lt (to_double (dec_value app)) (to_double (dec_value snap))"
      "to_double (dec_value app) \<noteq> to_double (dec_value snap)"
  proof (rule ccontr)
    assume "\<not> dec_value snap < dec_value app"
    then have "\<not> js_lt (to_double (dec_value snap)) (to_double (dec_value app))"
      by (intro to_double_mono) simp
    moreover have "0 \<le> dec_value app" "0 \<le> dec_value snap"
      using assms decimal_shape_nonneg by blast+
    ultimately show False using that to_double_cases [of "dec_value app"] to_double_cases [of "dec_value snap"] by auto
  qed
  ultimately show ?thesis using spend
    by (auto simp: inferredType_def Let_def equal_zero_iff sh num assms split: if_splits)
qed

theorem inferred_type_sound_witness:
  "dec_value ''1.5'' < dec_value ''2.25'' \<and> inferredType ''2.25'' ''1.5'' = BuyTxn"
proof -
  have t: "inferredType ''2.25'' ''1.5'' = BuyTxn" by code_simp
  have "decimal_shape ''1.5''" "decimal_shape ''2.25''" by code_simp+
  with inferred_type_sound [of "''1.5''" "''2.25''"] t show ?thesis by simp
qed

end
