(* ===== verification/Reconciliation.thy ===== *)
theory Reconciliation
  imports Drift
begin

text \<open>
  The form of \<open>frontend/components/reconciliation/ReconciliationForm.tsx\<close> as a state machine:
  its React state is the record \<open>FormState\<close>, each handler is a definition, and \<open>form_step\<close>
  composes them with the conditions under which the rendered form lets the event happen.
  What leaves the form (the request, the toasts, the cache keys it invalidates) is a list of
  effects.
\<close>

section \<open>State, events and effects\<close>

record PreviewResponse =
  pv_rows :: "DriftRow list"
  pv_last_reconciled_date :: "jstring option"

record DismissContext =
  dc_instrumentId :: jstring
  dc_instrumentSymbol :: jstring
  dc_snapshotDate :: jstring

record HoldingSnapshotEntry =
  hs_instrument_id :: jstring
  hs_snapshot_qty :: jstring

record RejectedTxnPayload =
  rt_instrument_id :: jstring
  rt_txn_type :: RejectTxnType
  rt_txn_date :: jstring
  rt_unit_price :: jstring
  rt_price_currency :: currency
  rt_fx_rate_to_eur :: "jstring option"
  rt_fee_eur :: jstring
  rt_notes :: "jstring option"

record ReconciliationCreate =
  rx_account_id :: jstring
  rx_snapshot_date :: jstring
  rx_notes :: "jstring option"
  rx_holdings :: "HoldingSnapshotEntry list"
  rx_decisions :: "DriftDecision list"
  rx_rejected_txns :: "RejectedTxnPayload list"

text \<open>
  \<open>rf_preview\<close> is the data of the preview query for the current date, \<open>rf_inflight\<close> the payload
  of the save that has not returned (\<open>saveMutation.isPending\<close> is that there is one).
\<close>

record FormState =
  rf_snapshotDate :: jstring
  rf_snapshotQtys :: "(jstring, jstring) jsmap"
  rf_decisions :: "(jstring, DriftDecision) jsmap"
  rf_notes :: jstring
  rf_addedRows :: "DriftRow list"
  rf_rejectCtx :: "RejectContext option"
  rf_dismissCtx :: "DismissContext option"
  rf_pendingRejectTxns :: "PendingRejectTxn list"
  rf_preview :: "PreviewResponse option"
  rf_inflight :: "ReconciliationCreate option"

datatype FormEvent =
    TypeQty jstring jstring
  | AcceptClick DriftRow
  | RejectClick DriftRow
  | DismissClick DriftRow
  | UndoClick jstring
  | AddHolding PickInstrument
  | StageClick DrawerState
  | RejectCancel
  | DismissConfirm jstring
  | DismissCancel
  | NotesTyped jstring
  | DatePicked jstring
  | PreviewData "PreviewResponse option"
  | SaveClick
  | SaveOk
  | SaveFailed jstring

datatype FormEffect =
    PostEvent ReconciliationCreate
  | InvalidateKey jstring
  | ToastSuccess jstring
  | ToastError jstring

section \<open>Derived values\<close>

definition initial_form :: "jstring \<Rightarrow> FormState" where
  "initial_form today =
     \<lparr> rf_snapshotDate = today, rf_snapshotQtys = [], rf_decisions = [], rf_notes = '''',
       rf_addedRows = [], rf_rejectCtx = None, rf_dismissCtx = None, rf_pendingRejectTxns = [],
       rf_preview = None, rf_inflight = None \<rparr>"

definition previewRows :: "FormState \<Rightarrow> DriftRow list" where
  "previewRows s = (case rf_preview s of None \<Rightarrow> [] | Some p \<Rightarrow> pv_rows p)"

definition lastReconciled :: "FormState \<Rightarrow> jstring option" where
  "lastReconciled s = Option.bind (rf_preview s) pv_last_reconciled_date"

definition allRows :: "FormState \<Rightarrow> DriftRow list" where
  "allRows s = previewRows s @ rf_addedRows s"

definition excludeIds :: "FormState \<Rightarrow> jstring list" where
  "excludeIds s = map dr_instrument_id (allRows s)"

definition snap_of :: "FormState \<Rightarrow> DriftRow \<Rightarrow> jstring" where
  "snap_of s row = nullish (jm_get (rf_snapshotQtys s) (dr_instrument_id row)) ''''"

definition unresolvedCount :: "FormState \<Rightarrow> nat" where
  "unresolvedCount s =
     length (filter (\<lambda>row. isRowUnresolved (dr_app_qty row) (snap_of s row)
                        (jm_has (rf_decisions s) (dr_instrument_id row))) (allRows s))"

definition unresolvedAlert :: "nat \<Rightarrow> jstring option" where
  "unresolvedAlert n =
     (if 0 < n then
        Some (show_int (int n) @ '' drift '' @ (if n = 1 then ''row'' else ''rows'') @ '' still need''
              @ (if n = 1 then ''s'' else '''') @ '' a decision before you can save.'')
      else None)"

definition save_enabled :: "FormState \<Rightarrow> bool" where
  "save_enabled s \<longleftrightarrow> \<not> (0 < unresolvedCount s \<or> rf_inflight s \<noteq> None)"

definition save_label :: "FormState \<Rightarrow> jstring" where
  "save_label s = (if rf_inflight s \<noteq> None then ''Saving'' @ ellipsis else ''Save reconciliation'')"

section \<open>Handlers\<close>

text \<open>The optional fields of a decision are \<open>None\<close> both where the code leaves them out and
  where it sets them to \<open>null\<close>.\<close>

definition setDecisionFor :: "jstring \<Rightarrow> DriftAction \<Rightarrow> jstring option \<Rightarrow> FormState \<Rightarrow> FormState" where
  "setDecisionFor instrumentId action reason s =
     s\<lparr> rf_decisions := jm_set instrumentId
          \<lparr> dd_instrument_id = instrumentId, dd_action = action, dd_dismiss_reason = reason,
            dd_rejected_txn_id = None \<rparr> (rf_decisions s) \<rparr>"

definition clearDecision :: "jstring \<Rightarrow> FormState \<Rightarrow> FormState" where
  "clearDecision instrumentId s = s\<lparr> rf_decisions := jm_delete instrumentId (rf_decisions s) \<rparr>"

definition handleAccept :: "DriftRow \<Rightarrow> FormState \<Rightarrow> FormState" where
  "handleAccept row s = setDecisionFor (dr_instrument_id row) Accept None s"

text \<open>
  The new date changes the key of the preview query, so its data is that of the new date once
  it arrives; picking the date already shown keeps the key.
\<close>

definition handleSnapshotDateChange :: "jstring \<Rightarrow> FormState \<Rightarrow> FormState" where
  "handleSnapshotDateChange d s =
     s\<lparr> rf_snapshotDate := d, rf_decisions := [], rf_snapshotQtys := [], rf_addedRows := [],
        rf_preview := (if d = rf_snapshotDate s then rf_preview s else None) \<rparr>"

definition onSnapshotQtyChange :: "jstring \<Rightarrow> jstring \<Rightarrow> FormState \<Rightarrow> FormState" where
  "onSnapshotQtyChange i val s = s\<lparr> rf_snapshotQtys := jm_set i val (rf_snapshotQtys s) \<rparr>"

definition onReject :: "jstring \<Rightarrow> DriftRow \<Rightarrow> FormState \<Rightarrow> FormState" where
  "onReject accountId row s =
     s\<lparr> rf_rejectCtx := Some
          \<lparr> rc_instrumentId = dr_instrument_id row,
            rc_instrumentSymbol = dr_instrument_symbol row,
            rc_accountId = accountId,
            rc_snapshotDate = rf_snapshotDate s,
            rc_appQty = dr_app_qty row,
            rc_snapshotQty = nullish (jm_get (rf_snapshotQtys s) (dr_instrument_id row)) ''0'' \<rparr> \<rparr>"

definition onDismiss :: "DriftRow \<Rightarrow> FormState \<Rightarrow> FormState" where
  "onDismiss row s =
     s\<lparr> rf_dismissCtx := Some
          \<lparr> dc_instrumentId = dr_instrument_id row,
            dc_instrumentSymbol = dr_instrument_symbol row,
            dc_snapshotDate = rf_snapshotDate s \<rparr> \<rparr>"

definition onAddInstrument :: "DriftRow \<Rightarrow> FormState \<Rightarrow> FormState" where
  "onAddInstrument row s = s\<lparr> rf_addedRows := rf_addedRows s @ [row] \<rparr>"

text \<open>The drawer is unmounted when it closes, so only what it stages outlives it.\<close>

definition onStage :: "RejectContext \<Rightarrow> PendingRejectTxn \<Rightarrow> FormState \<Rightarrow> FormState" where
  "onStage ctx pending s =
     (setDecisionFor (rc_instrumentId ctx) Reject None
        (s\<lparr> rf_pendingRejectTxns := rf_pendingRejectTxns s @ [pending] \<rparr>))\<lparr> rf_rejectCtx := None \<rparr>"

definition onConfirmDismiss :: "DismissContext \<Rightarrow> jstring option \<Rightarrow> FormState \<Rightarrow> FormState" where
  "onConfirmDismiss ctx reason s =
     (setDecisionFor (dc_instrumentId ctx) Dismiss reason s)\<lparr> rf_dismissCtx := None \<rparr>"

section \<open>Saving\<close>

definition rejected_txn_of :: "PendingRejectTxn \<Rightarrow> RejectedTxnPayload" where
  "rejected_txn_of p =
     \<lparr> rt_instrument_id = pr_instrument_id p,
       rt_txn_type = pr_txn_type p,
       rt_txn_date = pr_date p,
       rt_unit_price = pr_unit_price p,
       rt_price_currency = pr_price_currency p,
       rt_fx_rate_to_eur = pr_fx_rate_to_eur p,
       rt_fee_eur = pr_fee_eur p,
       rt_notes = or_null (pr_notes p) \<rparr>"

definition holding_of :: "FormState \<Rightarrow> DriftRow \<Rightarrow> HoldingSnapshotEntry" where
  "holding_of s r =
     \<lparr> hs_instrument_id = dr_instrument_id r,
       hs_snapshot_qty = nullish (jm_get (rf_snapshotQtys s) (dr_instrument_id r)) (dr_app_qty r) \<rparr>"

definition save_payload :: "jstring \<Rightarrow> FormState \<Rightarrow> ReconciliationCreate" where
  "save_payload accountId s =
     \<lparr> rx_account_id = accountId,
       rx_snapshot_date = rf_snapshotDate s,
       rx_notes = or_null (rf_notes s),
       rx_holdings = map (holding_of s) (allRows s),
       rx_decisions = jm_values (rf_decisions s),
       rx_rejected_txns = map rejected_txn_of (rf_pendingRejectTxns s) \<rparr>"

definition action_count :: "DriftAction \<Rightarrow> DriftDecision list \<Rightarrow> nat" where
  "action_count a ds = length (filter (\<lambda>d. dd_action d = a) ds)"

text \<open>The counts of the toast are those of the state the save was clicked in.\<close>

definition saved_toast :: "ReconciliationCreate \<Rightarrow> jstring" where
  "saved_toast p =
     ''Reconciliation saved. '' @ show_int (int (action_count Accept (rx_decisions p)))
     @ '' adjustments, '' @ show_int (int (length (rx_rejected_txns p)))
     @ '' new transactions, '' @ show_int (int (action_count Dismiss (rx_decisions p)))
     @ '' dismissed.''"

text \<open>The keys invalidated by the mutation hook on success, and again by the form.\<close>

definition save_invalidations :: "FormEffect list" where
  "save_invalidations = map InvalidateKey (PORTFOLIO_CACHE_KEYS @ [''reconciliation'', ''accounts''])"

definition clear_form :: "FormState \<Rightarrow> FormState" where
  "clear_form s =
     s\<lparr> rf_snapshotQtys := [], rf_decisions := [], rf_addedRows := [], rf_notes := '''',
        rf_pendingRejectTxns := [] \<rparr>"

definition handleSave_start :: "jstring \<Rightarrow> FormState \<Rightarrow> FormState \<times> FormEffect list" where
  "handleSave_start accountId s =
     (let p = save_payload accountId s in (s\<lparr> rf_inflight := Some p \<rparr>, [PostEvent p]))"

definition handleSave_ok :: "ReconciliationCreate \<Rightarrow> FormState \<Rightarrow> FormState \<times> FormEffect list" where
  "handleSave_ok p s =
     ((clear_form s)\<lparr> rf_inflight := None \<rparr>,
      save_invalidations @ save_invalidations @ [ToastSuccess (saved_toast p)])"

definition handleSave_failed :: "jstring \<Rightarrow> FormState \<Rightarrow> FormState \<times> FormEffect list" where
  "handleSave_failed msg s =
     (s\<lparr> rf_inflight := None \<rparr>,
      [ToastError (''Could not save reconciliation. '' @ msg), ToastError (''Save failed: '' @ msg)])"

section \<open>Steps\<close>

text \<open>
  The drawer and the dialog are modal: while one is open nothing behind it takes input.  The
  table is shown once the preview has data.
\<close>

definition page_active :: "FormState \<Rightarrow> bool" where
  "page_active s \<longleftrightarrow> rf_rejectCtx s = None \<and> rf_dismissCtx s = None"

definition table_active :: "FormState \<Rightarrow> bool" where
  "table_active s \<longleftrightarrow> page_active s \<and> rf_preview s \<noteq> None"

definition row_view :: "FormState \<Rightarrow> DriftRow \<Rightarrow> DiffRowView" where
  "row_view s row = diffRowView (rf_snapshotQtys s) (rf_decisions s) row"

definition offers :: "RowActionsView set \<Rightarrow> FormState \<Rightarrow> DriftRow \<Rightarrow> bool" where
  "offers V s row \<longleftrightarrow> table_active s \<and> row \<in> set (allRows s)
     \<and> RowActions (deriveDriftState (dr_app_qty row) (snap_of s row))
         (jm_get (rf_decisions s) (dr_instrument_id row)) \<in> V"

lemma row_view_actions:
  "dv_actions (row_view s row) = RowActions (deriveDriftState (dr_app_qty row) (snap_of s row))
     (jm_get (rf_decisions s) (dr_instrument_id row))"
  by (simp add: row_view_def diffRowView_def Let_def snap_of_def)

definition quiet :: "FormState \<Rightarrow> FormState \<times> FormEffect list" where
  "quiet s = (s, [])"

fun form_step :: "jstring \<Rightarrow> FormState \<Rightarrow> FormEvent \<Rightarrow> (FormState \<times> FormEffect list) option" where
  "form_step acc s (TypeQty i v) =
     (if table_active s \<and> i \<in> set (excludeIds s) then Some (quiet (onSnapshotQtyChange i v s)) else None)"
| "form_step acc s (AcceptClick row) =
     (if offers {AcceptRejectDismiss} s row then Some (quiet (handleAccept row s)) else None)"
| "form_step acc s (RejectClick row) =
     (if offers {AcceptRejectDismiss, RejectOrDismiss} s row
      then Some (quiet (onReject acc row s)) else None)"
| "form_step acc s (DismissClick row) =
     (if offers {AcceptRejectDismiss, RejectOrDismiss} s row
      then Some (quiet (onDismiss row s)) else None)"
| "form_step acc s (UndoClick i) =
     (if table_active s \<and> i \<in> set (excludeIds s) \<and> jm_has (rf_decisions s) i
      then Some (quiet (clearDecision i s)) else None)"
| "form_step acc s (AddHolding instr) =
     (if table_active s \<and> pi_id instr \<notin> set (excludeIds s)
      then Some (quiet (onAddInstrument (picker_row instr) s)) else None)"
| "form_step acc s (StageClick d) =
     (case rf_rejectCtx s of None \<Rightarrow> None
      | Some ctx \<Rightarrow> if stage_enabled ctx d then Some (quiet (onStage ctx (fst (handleStage ctx d)) s))
                    else None)"
| "form_step acc s RejectCancel =
     (if rf_rejectCtx s \<noteq> None then Some (quiet (s\<lparr> rf_rejectCtx := None \<rparr>)) else None)"
| "form_step acc s (DismissConfirm reason) =
     (case rf_dismissCtx s of None \<Rightarrow> None
      | Some ctx \<Rightarrow> Some (quiet (onConfirmDismiss ctx (dismiss_reason_of reason) s)))"
| "form_step acc s DismissCancel =
     (if rf_dismissCtx s \<noteq> None then Some (quiet (s\<lparr> rf_dismissCtx := None \<rparr>)) else None)"
| "form_step acc s (NotesTyped t) =
     (if page_active s then Some (quiet (s\<lparr> rf_notes := t \<rparr>)) else None)"
| "form_step acc s (DatePicked d) =
     (if page_active s then Some (quiet (handleSnapshotDateChange d s)) else None)"
| "form_step acc s (PreviewData p) = Some (quiet (s\<lparr> rf_preview := p \<rparr>))"
| "form_step acc s SaveClick =
     (if page_active s \<and> save_enabled s then Some (handleSave_start acc s) else None)"
| "form_step acc s SaveOk =
     (case rf_inflight s of None \<Rightarrow> None | Some p \<Rightarrow> Some (handleSave_ok p s))"
| "form_step acc s (SaveFailed msg) =
     (case rf_inflight s of None \<Rightarrow> None | Some p \<Rightarrow> Some (handleSave_failed msg s))"

text \<open>A run collects the effects in order; it is \<open>None\<close> where an event cannot happen.\<close>

fun form_run :: "jstring \<Rightarrow> FormState \<Rightarrow> FormEvent list \<Rightarrow> (FormState \<times> FormEffect list) option" where
  "form_run acc s [] = Some (s, [])"
| "form_run acc s (e # es) =
     Option.bind (form_step acc s e) (\<lambda>(s1, out1).
       Option.bind (form_run acc s1 es) (\<lambda>(s2, out2). Some (s2, out1 @ out2)))"

inductive form_reach :: "jstring \<Rightarrow> jstring \<Rightarrow> FormEvent set \<Rightarrow> FormState \<Rightarrow> bool"
  for acc today allowed where
  start: "form_reach acc today allowed (initial_form today)"
| next_step: "form_reach acc today allowed s \<Longrightarrow> e \<in> allowed \<Longrightarrow> form_step acc s e = Some (s', out) \<Longrightarrow>
    form_reach acc today allowed s'"

section \<open>Invariants\<close>

lemmas handler_defs = setDecisionFor_def clearDecision_def handleAccept_def
  handleSnapshotDateChange_def onSnapshotQtyChange_def onReject_def onDismiss_def
  onAddInstrument_def onStage_def onConfirmDismiss_def clear_form_def handleSave_start_def
  handleSave_ok_def handleSave_failed_def quiet_def handleStage_def

inductive_cases form_reach_cases: "form_reach acc today allowed s"

text \<open>What a decision in the map may be.\<close>

definition decision_ok :: "jstring \<Rightarrow> DriftDecision \<Rightarrow> bool" where
  "decision_ok k d \<longleftrightarrow> dd_instrument_id d = k \<and> dd_action d \<noteq> Matched
     \<and> (dd_dismiss_reason d \<noteq> None \<longrightarrow> dd_action d = Dismiss) \<and> dd_dismiss_reason d \<noteq> Some ''''"

definition pending_ok :: "jstring \<Rightarrow> PendingRejectTxn \<Rightarrow> bool" where
  "pending_ok acc p \<longleftrightarrow> pr_account_id p = acc \<and> pr_unit_price p \<noteq> ''''
     \<and> (pr_fx_rate_to_eur p \<noteq> None \<longrightarrow> pr_price_currency p = USD) \<and> pr_fx_rate_to_eur p \<noteq> Some ''''"

definition form_inv :: "jstring \<Rightarrow> FormState \<Rightarrow> bool" where
  "form_inv acc s \<longleftrightarrow>
     jm_wf (rf_decisions s) \<and> jm_wf (rf_snapshotQtys s)
     \<and> jm.entries_satisfy decision_ok (rf_decisions s)
     \<and> list_all (pending_ok acc) (rf_pendingRejectTxns s)
     \<and> (\<forall>c. rf_rejectCtx s = Some c \<longrightarrow> rc_accountId c = acc)
     \<and> (rf_rejectCtx s = None \<or> rf_dismissCtx s = None)"

lemma or_null_not_blank [simp]: "or_null s \<noteq> Some ''''"
  by (simp add: or_null_def)

lemma staged_ok:
  "stage_enabled ctx d \<Longrightarrow> rc_accountId ctx = acc \<Longrightarrow> pending_ok acc (fst (handleStage ctx d))"
  by (auto simp: stage_enabled_def handleStage_def pending_ok_def)

lemma initial_inv: "form_inv acc (initial_form today)"
  by (simp add: form_inv_def initial_form_def jm.satisfy_empty)

lemma step_inv:
  assumes "form_inv acc s" "form_step acc s e = Some (s', out)"
  shows "form_inv acc s'"
proof (cases e)
  case (StageClick d)
  then obtain ctx where c: "rf_rejectCtx s = Some ctx" "stage_enabled ctx d"
    and s': "s' = onStage ctx (fst (handleStage ctx d)) s"
    using assms by (auto simp: quiet_def split: option.splits if_splits)
  then show ?thesis
    using assms staged_ok [OF c(2)]
    by (auto simp: form_inv_def onStage_def setDecisionFor_def decision_ok_def
        intro!: jm.satisfy_put)
qed (use assms in \<open>auto simp: form_inv_def handler_defs offers_def table_active_def page_active_def
      decision_ok_def Let_def dismiss_reason_of_def
      intro!: jm.satisfy_put jm.satisfy_remove jm.satisfy_empty
      split: option.splits if_splits\<close>)

lemma reach_inv: "form_reach acc today allowed s \<Longrightarrow> form_inv acc s"
  by (induction rule: form_reach.induct) (auto simp: initial_inv step_inv)

text \<open>
  The runs in which every staged transaction still stands for the reject decision of its row:
  those that neither undo a decision nor pick another date.
\<close>

definition forward_events :: "FormEvent set" where
  "forward_events = - (range UndoClick \<union> range DatePicked)"

definition no_decision_on :: "FormState \<Rightarrow> jstring \<Rightarrow> bool" where
  "no_decision_on s i \<longleftrightarrow> jm_get (rf_decisions s) i = None"

definition rejects_staged :: "FormState \<Rightarrow> bool" where
  "rejects_staged s \<longleftrightarrow>
     distinct (map pr_instrument_id (rf_pendingRejectTxns s))
     \<and> (\<forall>i. i \<in> pr_instrument_id ` set (rf_pendingRejectTxns s) \<longleftrightarrow>
          (\<exists>d. jm_get (rf_decisions s) i = Some d \<and> dd_action d = Reject))
     \<and> (\<forall>p \<in> set (rf_pendingRejectTxns s). pr_date p = rf_snapshotDate s)
     \<and> (\<forall>c. rf_rejectCtx s = Some c \<longrightarrow>
          rc_snapshotDate c = rf_snapshotDate s \<and> no_decision_on s (rc_instrumentId c))
     \<and> (\<forall>c. rf_dismissCtx s = Some c \<longrightarrow> no_decision_on s (dc_instrumentId c))
     \<and> (rf_rejectCtx s = None \<or> rf_dismissCtx s = None)"

lemma offers_no_decision:
  "offers V s row \<Longrightarrow> V \<subseteq> {AcceptRejectDismiss, RejectOrDismiss} \<Longrightarrow>
    no_decision_on s (dr_instrument_id row) \<and> rf_rejectCtx s = None \<and> rf_dismissCtx s = None"
  by (auto simp: offers_def RowActions_def no_decision_on_def
      table_active_def page_active_def split: option.splits if_splits)

lemma rejects_staged_initial: "rejects_staged (initial_form today)"
  by (simp add: rejects_staged_def initial_form_def)

lemma rejects_staged_accept:
  assumes "rejects_staged s" "no_decision_on s i" "rf_rejectCtx s = None" "a \<noteq> Reject"
  shows "rejects_staged (s\<lparr> rf_decisions := jm_set i
    \<lparr> dd_instrument_id = j, dd_action = a, dd_dismiss_reason = r, dd_rejected_txn_id = t \<rparr>
    (rf_decisions s), rf_dismissCtx := None \<rparr>)"
  using assms by (auto simp: rejects_staged_def no_decision_on_def)

lemma rejects_staged_stage:
  assumes "rejects_staged s" "rf_rejectCtx s = Some ctx"
  shows "rejects_staged (onStage ctx (fst (handleStage ctx d)) s)"
  using assms by (auto simp: rejects_staged_def no_decision_on_def onStage_def setDecisionFor_def
      handleStage_def)

lemma rejects_staged_frame:
  assumes "rejects_staged s" "rf_decisions s' = rf_decisions s"
    "rf_pendingRejectTxns s' = rf_pendingRejectTxns s" "rf_snapshotDate s' = rf_snapshotDate s"
    "rf_rejectCtx s' \<in> {None, rf_rejectCtx s}" "rf_dismissCtx s' \<in> {None, rf_dismissCtx s}"
  shows "rejects_staged s'"
  using assms unfolding rejects_staged_def no_decision_on_def by (elim conjE insertE) simp_all

lemma rejects_staged_clear:
  assumes "rejects_staged s" "rf_decisions s' = []" "rf_pendingRejectTxns s' = []"
    "rf_snapshotDate s' = rf_snapshotDate s"
    "rf_rejectCtx s' = rf_rejectCtx s" "rf_dismissCtx s' = rf_dismissCtx s"
  shows "rejects_staged s'"
  using assms unfolding rejects_staged_def no_decision_on_def by simp

lemma rejects_staged_reject:
  assumes "rejects_staged s" "offers {AcceptRejectDismiss, RejectOrDismiss} s row"
  shows "rejects_staged (onReject acc row s)" "rejects_staged (onDismiss row s)"
  using assms(1) offers_no_decision [OF assms(2)]
  unfolding rejects_staged_def onReject_def onDismiss_def no_decision_on_def by simp_all

lemma rejects_staged_dismiss:
  assumes "rejects_staged s" "rf_dismissCtx s = Some ctx"
  shows "rejects_staged (onConfirmDismiss ctx r s)"
proof -
  have "no_decision_on s (dc_instrumentId ctx)" "rf_rejectCtx s = None"
    using assms by (auto simp: rejects_staged_def)
  then show ?thesis
    using rejects_staged_accept [OF assms(1), of "dc_instrumentId ctx" Dismiss]
    by (simp add: onConfirmDismiss_def setDecisionFor_def)
qed

lemma rejects_staged_handleAccept:
  assumes "rejects_staged s" "offers {AcceptRejectDismiss} s row"
  shows "rejects_staged (handleAccept row s)"
proof -
  have *: "no_decision_on s (dr_instrument_id row) \<and> rf_rejectCtx s = None \<and> rf_dismissCtx s = None"
    using offers_no_decision [OF assms(2)] by simp
  then have "handleAccept row s = (handleAccept row s)\<lparr> rf_dismissCtx := None \<rparr>"
    by (simp add: handleAccept_def setDecisionFor_def)
  also have "rejects_staged \<dots>"
    using * rejects_staged_accept [OF assms(1), of "dr_instrument_id row" Accept]
    by (simp add: handleAccept_def setDecisionFor_def)
  finally show ?thesis .
qed

lemma step_rejects_staged:
  assumes inv: "rejects_staged s" and e: "e \<in> forward_events"
    and step: "form_step acc s e = Some (s', out)"
  shows "rejects_staged s'"
proof (cases e)
  case (StageClick d)
  then obtain ctx where "rf_rejectCtx s = Some ctx" "s' = onStage ctx (fst (handleStage ctx d)) s"
    using step by (auto simp: quiet_def split: option.splits if_splits)
  then show ?thesis using rejects_staged_stage [OF inv] by simp
next
  case (DismissConfirm r)
  then obtain ctx where "rf_dismissCtx s = Some ctx"
    "s' = onConfirmDismiss ctx (dismiss_reason_of r) s"
    using step by (auto simp: quiet_def split: option.splits)
  then show ?thesis using rejects_staged_dismiss [OF inv] by simp
next
  case SaveOk
  then show ?thesis
    using step by (auto simp: handleSave_ok_def clear_form_def split: option.splits
        intro: rejects_staged_clear [OF inv])
qed (use e step in \<open>auto simp: forward_events_def quiet_def onSnapshotQtyChange_def
      onAddInstrument_def handleSave_start_def handleSave_failed_def Let_def
      split: option.splits if_splits
      intro: rejects_staged_frame [OF inv] rejects_staged_handleAccept [OF inv]
        rejects_staged_reject [OF inv]\<close>)

lemma reach_rejects_staged: "form_reach acc today forward_events s \<Longrightarrow> rejects_staged s"
  by (induction rule: form_reach.induct)
    (auto simp: rejects_staged_initial intro: step_rejects_staged)

section \<open>Runs\<close>

lemma form_run_reach:
  "form_run acc s es = Some (s', out) \<Longrightarrow> form_reach acc today allowed s \<Longrightarrow> set es \<subseteq> allowed \<Longrightarrow>
    form_reach acc today allowed s'"
proof (induction es arbitrary: s out)
  case (Cons e es)
  from Cons.prems(1) obtain s1 out1 out2 where 1: "form_step acc s e = Some (s1, out1)"
    "form_run acc s1 es = Some (s', out2)"
    by (auto split: Option.bind_splits)
  have "e \<in> allowed" "set es \<subseteq> allowed" using Cons.prems(3) by auto
  with Cons.IH [OF 1(2) next_step [OF Cons.prems(2) _ 1(1)]] show ?case by simp
qed simp

lemma form_run_reach_initial:
  "form_run acc (initial_form today) es = Some (s, out) \<Longrightarrow> set es \<subseteq> allowed \<Longrightarrow>
    form_reach acc today allowed s"
  by (rule form_run_reach [OF _ start])

fun is_post :: "FormEffect \<Rightarrow> bool" where
  "is_post (PostEvent p) = True"
| "is_post _ = False"

fun is_return :: "FormEvent \<Rightarrow> bool" where
  "is_return SaveOk = True"
| "is_return (SaveFailed msg) = True"
| "is_return _ = False"

definition posts :: "FormEffect list \<Rightarrow> nat" where
  "posts out = length (filter is_post out)"

definition open_saves :: "FormState \<Rightarrow> nat" where
  "open_saves s = (if rf_inflight s = None then 0 else 1)"

lemma posts_append [simp]: "posts (xs @ ys) = posts xs + posts ys"
  by (simp add: posts_def)

lemma posts_invalidations [simp]: "posts save_invalidations = 0"
  by (simp add: posts_def save_invalidations_def PORTFOLIO_CACHE_KEYS_def)

lemma step_posts:
  "form_step acc s e = Some (s', out) \<Longrightarrow>
    posts out + open_saves s = (if is_return e then 1 else 0) + open_saves s'"
  by (cases e) (auto simp: handler_defs open_saves_def Let_def save_enabled_def posts_def [of "[]"]
      posts_def [of "_ # _"] split: option.splits if_splits)

lemma run_posts:
  "form_run acc s es = Some (s', out) \<Longrightarrow>
    posts out + open_saves s = length (filter is_return es) + open_saves s'"
proof (induction es arbitrary: s out)
  case (Cons e es)
  then obtain s1 out1 out2 where 1: "form_step acc s e = Some (s1, out1)"
    "form_run acc s1 es = Some (s', out2)" "out = out1 @ out2"
    by (auto split: Option.bind_splits)
  with step_posts [OF 1(1)] Cons.IH [OF 1(2)] show ?case by (auto split: if_splits)
qed (simp add: posts_def)

lemma rejected_ids:
  "map rt_instrument_id (map rejected_txn_of ps) = map pr_instrument_id ps"
  by (simp add: rejected_txn_of_def o_def)

lemma rejected_dates:
  "map rt_txn_date (map rejected_txn_of ps) = map pr_date ps"
  by (simp add: rejected_txn_of_def o_def)

lemma decision_values:
  assumes "form_inv acc s"
  shows "d \<in> set (jm_values (rf_decisions s)) \<longleftrightarrow>
    jm_get (rf_decisions s) (dd_instrument_id d) = Some d"
  using assms jm_values_get [of "rf_decisions s" d]
    jm.satisfyD [of decision_ok "rf_decisions s"]
  by (auto simp: form_inv_def decision_ok_def)

lemma reject_ids_iff:
  assumes "form_inv acc s" "rejects_staged s"
  shows "pr_instrument_id ` set (rf_pendingRejectTxns s) =
    dd_instrument_id ` {d \<in> set (jm_values (rf_decisions s)). dd_action d = Reject}"
proof (rule set_eqI)
  fix i
  have keyed: "jm_get (rf_decisions s) i = Some d \<Longrightarrow> dd_instrument_id d = i" for d
    using assms(1) jm.satisfyD [of decision_ok "rf_decisions s"]
    by (auto simp: form_inv_def decision_ok_def)
  show "i \<in> pr_instrument_id ` set (rf_pendingRejectTxns s) \<longleftrightarrow>
    i \<in> dd_instrument_id ` {d \<in> set (jm_values (rf_decisions s)). dd_action d = Reject}"
    using assms(2) keyed decision_values [OF assms(1)]
    by (fastforce simp: rejects_staged_def image_iff)
qed

lemma resolved_rows:
  assumes "unresolvedCount s = 0" "row \<in> set (allRows s)"
  shows "\<not> isRowUnresolved (dr_app_qty row) (snap_of s row)
    (jm_has (rf_decisions s) (dr_instrument_id row))"
  using assms by (auto simp: unresolvedCount_def filter_empty_conv)

section \<open>Example data\<close>

definition demo_row :: DriftRow where
  "demo_row =
     \<lparr> dr_instrument_id = ''i1'', dr_instrument_symbol = ''BTC'', dr_instrument_name = ''Bitcoin'',
       dr_instrument_type = ''crypto'', dr_display_decimals = None, dr_price_currency = None,
       dr_app_qty = ''1.50'', dr_app_value_eur = None \<rparr>"

definition demo_preview :: PreviewResponse where
  "demo_preview = \<lparr> pv_rows = [demo_row], pv_last_reconciled_date = None \<rparr>"

definition demo_drawer :: DrawerState where
  "demo_drawer = drawer_reset\<lparr> dw_unitPrice := ''42000'' \<rparr>"

text \<open>The user types a smaller quantity and stages the missing sale.\<close>

definition demo_events :: "FormEvent list" where
  "demo_events =
     [PreviewData (Some demo_preview), TypeQty ''i1'' ''1.25'', RejectClick demo_row,
      StageClick demo_drawer]"

definition demo_form :: FormState where
  "demo_form = fst (the (form_run ''a1'' (initial_form ''2024-03-01'') demo_events))"

definition demo_typed :: FormState where
  "demo_typed = fst (the (form_run ''a1'' (initial_form ''2024-03-01'') (take 2 demo_events)))"

definition demo_saving :: FormState where
  "demo_saving = fst (the (form_step ''a1'' demo_form SaveClick))"

section \<open>Properties\<close>

lemma demo_form_run:
  "form_run ''a1'' (initial_form ''2024-03-01'') demo_events = Some (demo_form, [])"
  by code_simp

lemma demo_forward: "set demo_events \<subseteq> forward_events"
  by (auto simp: demo_events_def forward_events_def)

lemma demo_reach: "form_reach ''a1'' ''2024-03-01'' forward_events demo_form"
  by (rule form_run_reach_initial [OF demo_form_run demo_forward])

lemma demo_typed_run:
  "form_run ''a1'' (initial_form ''2024-03-01'') (take 2 demo_events) = Some (demo_typed, [])"
  by code_simp

lemma form_run_snoc:
  "form_run acc s es = Some (s1, out1) \<Longrightarrow> form_step acc s1 e = Some (s2, out2) \<Longrightarrow>
    form_run acc s (es @ [e]) = Some (s2, out1 @ out2)"
  by (induction es arbitrary: s out1) (auto split: Option.bind_splits)

lemma demo_inflight: "rf_inflight demo_saving = Some (save_payload ''a1'' demo_form)"
  by code_simp

lemma demo_save:
  "form_step ''a1'' demo_form SaveClick =
     Some (demo_saving, [PostEvent (save_payload ''a1'' demo_form)])"
  by code_simp

text \<open>
  C1: The save gate.  Clicking Save sends exactly one request.  Its holdings are the rows of the
  table in order, and every row was left blank, equals the calculated quantity as a decimal, or
  has a decision of its own (accept, reject or dismiss) in the same request.
\<close>

theorem save_gate:
  assumes "form_reach acc today allowed s" "form_step acc s SaveClick = Some (s', out)"
  shows "\<exists>p. out = [PostEvent p] \<and> rx_account_id p = acc \<and> rx_snapshot_date p = rf_snapshotDate s
    \<and> map hs_instrument_id (rx_holdings p) = map dr_instrument_id (allRows s)
    \<and> (\<forall>row \<in> set (allRows s).
         snap_of s row = '''' \<or> decimalStringsEqual (Some (snap_of s row)) (Some (dr_app_qty row))
         \<or> (\<exists>d \<in> set (rx_decisions p).
              dd_instrument_id d = dr_instrument_id row \<and> dd_action d \<noteq> Matched))"
proof (intro exI conjI ballI)
  let ?p = "save_payload acc s"
  have en: "unresolvedCount s = 0" and out: "out = [PostEvent ?p]"
    using assms(2) by (auto simp: handleSave_start_def Let_def save_enabled_def split: if_splits)
  show "out = [PostEvent ?p]" by (fact out)
  fix row assume row: "row \<in> set (allRows s)"
  show "snap_of s row = '''' \<or> decimalStringsEqual (Some (snap_of s row)) (Some (dr_app_qty row))
    \<or> (\<exists>d \<in> set (rx_decisions ?p).
         dd_instrument_id d = dr_instrument_id row \<and> dd_action d \<noteq> Matched)"
  proof (cases "jm_get (rf_decisions s) (dr_instrument_id row)")
    case None
    then show ?thesis
      using resolved_rows [OF en row] by (auto simp: isRowUnresolved_def jm_has_def split: if_splits)
  next
    case (Some d)
    have inv: "form_inv acc s" by (rule reach_inv [OF assms(1)])
    then have "decision_ok (dr_instrument_id row) d"
      using Some jm.satisfyD by (auto simp: form_inv_def)
    then show ?thesis
      using Some decision_values [OF inv, of d] by (auto simp: decision_ok_def save_payload_def)
  qed
qed (simp_all add: save_payload_def holding_of_def)

theorem save_gate_witness:
  "\<exists>p. [PostEvent (save_payload ''a1'' demo_form)] = [PostEvent p] \<and> rx_account_id p = ''a1''"
  using save_gate [OF demo_reach demo_save] by blast

text \<open>
  C2: Reject decisions and staged transactions.  On a run in which no decision was undone and no
  other date picked, the request's rejected transactions are, one for one, those of its reject
  decisions: no instrument twice, none without its decision, each at the snapshot date.
\<close>

theorem rejects_match_decisions:
  assumes "form_reach acc today forward_events s"
  shows "distinct (map rt_instrument_id (rx_rejected_txns (save_payload acc s)))
    \<and> set (map rt_instrument_id (rx_rejected_txns (save_payload acc s))) =
        dd_instrument_id ` {d \<in> set (rx_decisions (save_payload acc s)). dd_action d = Reject}
    \<and> (\<forall>t \<in> set (rx_rejected_txns (save_payload acc s)).
         rt_txn_date t = rx_snapshot_date (save_payload acc s))"
proof -
  have inv: "form_inv acc s" and rs: "rejects_staged s"
    using assms reach_inv reach_rejects_staged by blast+
  have ids: "map rt_instrument_id (rx_rejected_txns (save_payload acc s)) =
      map pr_instrument_id (rf_pendingRejectTxns s)"
    by (simp add: save_payload_def rejected_ids del: map_map)
  show ?thesis
    unfolding ids using rs reject_ids_iff [OF inv rs]
    by (auto simp: rejects_staged_def save_payload_def rejected_txn_of_def)
qed

theorem rejects_match_decisions_witness:
  "set (map rt_instrument_id (rx_rejected_txns (save_payload ''a1'' demo_form))) =
     dd_instrument_id ` {d \<in> set (rx_decisions (save_payload ''a1'' demo_form)). dd_action d = Reject}"
  using rejects_match_decisions [OF demo_reach] by simp

text \<open>
  C4: What the form stages is well formed.  In every reachable state each decision is stored
  under its own instrument, is never the unused \<open>matched\<close> action, carries a reason only when it
  is a dismissal and never a blank one; each staged transaction is of the form's account, has a
  unit price, and an exchange rate only if priced in dollars.
\<close>

theorem staged_well_formed:
  assumes "form_reach acc today allowed s"
  shows "distinct (map dd_instrument_id (rx_decisions (save_payload acc s)))
    \<and> (\<forall>d \<in> set (rx_decisions (save_payload acc s)). dd_action d \<noteq> Matched
         \<and> (dd_dismiss_reason d \<noteq> None \<longrightarrow> dd_action d = Dismiss) \<and> dd_dismiss_reason d \<noteq> Some '''')
    \<and> (\<forall>t \<in> set (rx_rejected_txns (save_payload acc s)). rt_unit_price t \<noteq> ''''
         \<and> (rt_fx_rate_to_eur t \<noteq> None \<longrightarrow> rt_price_currency t = USD))
    \<and> (\<forall>p \<in> set (rf_pendingRejectTxns s). pr_account_id p = acc)"
proof -
  have inv: "form_inv acc s" by (rule reach_inv [OF assms])
  have "\<And>k d. (k, d) \<in> set (rf_decisions s) \<Longrightarrow> decision_ok k d"
    using inv jm.satisfyD [of decision_ok "rf_decisions s"]
    by (auto simp: form_inv_def jm_wf_def jm_get_def)
  then have ok: "\<forall>x \<in> set (rf_decisions s). decision_ok (fst x) (snd x)" by auto
  then have ids: "map dd_instrument_id (jm_values (rf_decisions s)) = map fst (rf_decisions s)"
    by (auto simp: jm_values_def decision_ok_def)
  have "\<forall>d \<in> set (jm_values (rf_decisions s)). \<exists>k. decision_ok k d"
    using ok by (auto simp: jm_values_def)
  then show ?thesis
    using inv ids by (auto simp: save_payload_def form_inv_def jm_wf_def decision_ok_def
        list_all_iff pending_ok_def rejected_txn_of_def)
qed

theorem staged_well_formed_witness:
  "distinct (map dd_instrument_id (rx_decisions (save_payload ''a1'' demo_form)))
    \<and> list_all (\<lambda>p. pr_account_id p = ''a1'') (rf_pendingRejectTxns demo_form)"
  using staged_well_formed [OF demo_reach] by (simp add: list_all_iff)
text \<open>
  A failed save loses nothing.  When the request comes back with an error the form shows two
  toasts and is in the state it was in before the click, so clicking Save again sends the same
  request.
\<close>

theorem failed_save_retries:
  assumes "form_step acc s SaveClick = Some (s1, out1)"
  shows "form_step acc s1 (SaveFailed msg) =
      Some (s, [ToastError (''Could not save reconciliation. '' @ msg), ToastError (''Save failed: '' @ msg)])
    \<and> form_run acc s1 [SaveFailed msg, SaveClick] =
      Some (s1, [ToastError (''Could not save reconciliation. '' @ msg), ToastError (''Save failed: '' @ msg)]
                @ out1)"
proof -
  have s1: "s1 = s\<lparr> rf_inflight := Some (save_payload acc s) \<rparr>" and "rf_inflight s = None"
    using assms by (auto simp: handleSave_start_def Let_def save_enabled_def split: if_splits)
  then have "s1\<lparr> rf_inflight := None \<rparr> = s" by simp
  then have "form_step acc s1 (SaveFailed msg) =
      Some (s, [ToastError (''Could not save reconciliation. '' @ msg), ToastError (''Save failed: '' @ msg)])"
    using s1 by (simp add: handleSave_failed_def)
  then show ?thesis using assms by simp
qed

theorem failed_save_retries_witness:
  "form_step ''a1'' demo_saving (SaveFailed ''offline'') =
     Some (demo_form, [ToastError ''Could not save reconciliation. offline'',
                       ToastError ''Save failed: offline''])"
  using failed_save_retries [OF demo_save, of "''offline''"] by simp

text \<open>
  A successful save empties the form.  Typed quantities, decisions, added rows, notes and
  staged transactions are gone, no row is unresolved, every portfolio cache key and the keys of
  the reconciliation and the accounts are invalidated, and the toast counts what was sent.
\<close>

theorem successful_save_resets:
  assumes "form_step acc s SaveOk = Some (s', out)"
  shows "\<exists>p. rf_inflight s = Some p
    \<and> s' = (initial_form (rf_snapshotDate s))
         \<lparr> rf_preview := rf_preview s, rf_rejectCtx := rf_rejectCtx s, rf_dismissCtx := rf_dismissCtx s \<rparr>
    \<and> unresolvedCount s' = 0
    \<and> (\<forall>k \<in> set PORTFOLIO_CACHE_KEYS \<union> {''reconciliation'', ''accounts''}. InvalidateKey k \<in> set out)
    \<and> last out = ToastSuccess (saved_toast p)"
proof -
  obtain p where p: "rf_inflight s = Some p" and s': "(s', out) = handleSave_ok p s"
    using assms by (auto split: option.splits)
  have "unresolvedCount s' = 0"
    using s' by (simp add: handleSave_ok_def clear_form_def unresolvedCount_def snap_of_def
        isRowUnresolved_def nullish_def)
  then show ?thesis
    using p s' by (auto simp: handleSave_ok_def clear_form_def initial_form_def save_invalidations_def)
qed

theorem successful_save_resets_witness:
  "unresolvedCount (fst (handleSave_ok (save_payload ''a1'' demo_form) demo_saving)) = 0"
proof -
  have "form_step ''a1'' demo_saving SaveOk =
      Some (fst (handleSave_ok (save_payload ''a1'' demo_form) demo_saving),
            snd (handleSave_ok (save_payload ''a1'' demo_form) demo_saving))"
    by (simp add: demo_inflight)
  from successful_save_resets [OF this] show ?thesis by blast
qed

text \<open>
  One save at a time.  On every run of the form the requests sent are those that have
  returned, plus one exactly when a save is in flight: no second request starts before the first
  has come back.
\<close>

theorem one_save_at_a_time:
  assumes "form_run acc (initial_form today) es = Some (s, out)"
  shows "posts out = length (filter is_return es) + (if rf_inflight s = None then 0 else 1)"
  using run_posts [OF assms] by (simp add: open_saves_def initial_form_def)

theorem one_save_at_a_time_witness:
  "posts [PostEvent (save_payload ''a1'' demo_form)] = 1"
proof -
  have "form_run ''a1'' (initial_form ''2024-03-01'') (demo_events @ [SaveClick]) =
      Some (demo_saving, [PostEvent (save_payload ''a1'' demo_form)])"
    using form_run_snoc [OF demo_form_run demo_save] by simp
  from one_save_at_a_time [OF this] show ?thesis
    by (simp add: demo_events_def demo_inflight)
qed

text \<open>
  Picking another date clears what was typed and decided, but not the staged transactions.
  After the change no row is decided and the request would carry the very transactions staged
  for the previous date, still dated then.
\<close>

theorem date_change_keeps_staged:
  assumes "form_reach acc today forward_events s" "form_step acc s (DatePicked d) = Some (s', out)"
  shows "rx_snapshot_date (save_payload acc s') = d
    \<and> rx_decisions (save_payload acc s') = []
    \<and> (\<forall>row. snap_of s' row = '''') \<and> rf_addedRows s' = [] \<and> unresolvedCount s' = 0
    \<and> rx_rejected_txns (save_payload acc s') = rx_rejected_txns (save_payload acc s)
    \<and> (\<forall>t \<in> set (rx_rejected_txns (save_payload acc s')). rt_txn_date t = rf_snapshotDate s)"
proof -
  have "rejects_staged s" by (rule reach_rejects_staged [OF assms(1)])
  then have dates: "\<forall>p \<in> set (rf_pendingRejectTxns s). pr_date p = rf_snapshotDate s"
    by (simp add: rejects_staged_def)
  have s': "s' = handleSnapshotDateChange d s"
    using assms(2) by (auto simp: quiet_def split: if_splits)
  then show ?thesis
    using dates by (auto simp: save_payload_def handleSnapshotDateChange_def jm_values_def snap_of_def
        nullish_def rejected_txn_of_def unresolvedCount_def isRowUnresolved_def)
qed

theorem date_change_keeps_staged_witness:
  "rx_rejected_txns (save_payload ''a1'' (handleSnapshotDateChange ''2024-03-31'' demo_form)) =
     rx_rejected_txns (save_payload ''a1'' demo_form) \<and>
   length (rx_rejected_txns (save_payload ''a1'' demo_form)) = 1"
proof -
  have "form_step ''a1'' demo_form (DatePicked ''2024-03-31'') =
      Some (handleSnapshotDateChange ''2024-03-31'' demo_form, [])"
    by code_simp
  moreover have "length (rx_rejected_txns (save_payload ''a1'' demo_form)) = 1" by code_simp
  ultimately show ?thesis using date_change_keeps_staged [OF demo_reach] by blast
qed

text \<open>
  Undoing a reject drops the decision and leaves the transaction.  If the row is accepted
  next, the request holds both the accept decision and the transaction staged before.
\<close>

theorem undo_keeps_staged:
  assumes "form_run acc s [UndoClick (dr_instrument_id row), AcceptClick row] = Some (s', out)"
  shows "rx_rejected_txns (save_payload acc s') = rx_rejected_txns (save_payload acc s)
    \<and> (\<exists>d \<in> set (rx_decisions (save_payload acc s')).
         dd_instrument_id d = dr_instrument_id row \<and> dd_action d = Accept)"
proof -
  have s': "s' = handleAccept row (clearDecision (dr_instrument_id row) s)"
    using assms by (auto simp: quiet_def split: if_splits)
  let ?d = "\<lparr> dd_instrument_id = dr_instrument_id row, dd_action = Accept, dd_dismiss_reason = None,
    dd_rejected_txn_id = None \<rparr>"
  have "jm_get (rf_decisions s') (dr_instrument_id row) = Some ?d"
    by (simp add: s' handleAccept_def setDecisionFor_def)
  then have "?d \<in> set (jm_values (rf_decisions s'))"
    by (force simp: jm_get_def jm_values_def dest: map_of_SomeD)
  moreover have "rx_rejected_txns (save_payload acc s') = rx_rejected_txns (save_payload acc s)"
    by (simp add: s' save_payload_def handleAccept_def setDecisionFor_def clearDecision_def)
  ultimately show ?thesis by (force simp: save_payload_def)
qed

theorem undo_keeps_staged_witness:
  "\<exists>s'. form_run ''a1'' demo_form [UndoClick ''i1'', AcceptClick demo_row] = Some (s', []) \<and>
     length (rx_rejected_txns (save_payload ''a1'' s')) = 1 \<and>
     (\<exists>d \<in> set (rx_decisions (save_payload ''a1'' s')). dd_action d = Accept)"
proof -
  let ?s = "handleAccept demo_row (clearDecision ''i1'' demo_form)"
  have id: "dr_instrument_id demo_row = ''i1''" by (simp add: demo_row_def)
  have "form_step ''a1'' demo_form (UndoClick ''i1'') = Some (clearDecision ''i1'' demo_form, [])"
    by code_simp
  moreover have "form_step ''a1'' (clearDecision ''i1'' demo_form) (AcceptClick demo_row) = Some (?s, [])"
    by code_simp
  ultimately have run: "form_run ''a1'' demo_form [UndoClick ''i1'', AcceptClick demo_row] = Some (?s, [])"
    by (simp del: form_step.simps)
  have one: "length (rx_rejected_txns (save_payload ''a1'' demo_form)) = 1" by code_simp
  show ?thesis
    using undo_keeps_staged [of "''a1''" demo_form demo_row, unfolded id, OF run] run one by auto
qed

text \<open>
  Only a real difference can be accepted, and the acceptance then outlives the quantity.  The
  accept button acts on rows that are not phantoms and have no decision; what is typed
  into the row afterwards, a zero included, changes the holding sent and not the decision.
\<close>

theorem accept_guard:
  assumes "form_step acc s (AcceptClick row) = Some (s1, out)"
  shows "deriveDriftState (dr_app_qty row) (snap_of s row) \<in> {QtyDrift, MissingState}
    \<and> jm_get (rf_decisions s) (dr_instrument_id row) = None
    \<and> (\<exists>s2. form_step acc s1 (TypeQty (dr_instrument_id row) v) = Some (s2, [])
         \<and> snap_of s2 row = v \<and> rx_decisions (save_payload acc s2) = rx_decisions (save_payload acc s1)
         \<and> (\<exists>d. jm_get (rf_decisions s2) (dr_instrument_id row) = Some d \<and> dd_action d = Accept))"
proof -
  have off: "offers {AcceptRejectDismiss} s row" and s1: "s1 = handleAccept row s"
    using assms by (auto simp: quiet_def split: if_splits)
  have "deriveDriftState (dr_app_qty row) (snap_of s row) \<in> {QtyDrift, MissingState}
      \<and> jm_get (rf_decisions s) (dr_instrument_id row) = None"
    using off by (cases "deriveDriftState (dr_app_qty row) (snap_of s row)")
      (auto simp: offers_def RowActions_def split: option.splits if_splits)
  moreover have "form_step acc s1 (TypeQty (dr_instrument_id row) v) =
      Some (onSnapshotQtyChange (dr_instrument_id row) v s1, [])"
    using off by (auto simp: s1 handleAccept_def setDecisionFor_def offers_def table_active_def
        page_active_def excludeIds_def allRows_def previewRows_def quiet_def)
  ultimately show ?thesis
    by (simp add: s1 handleAccept_def setDecisionFor_def onSnapshotQtyChange_def snap_of_def
        nullish_def save_payload_def)
qed

theorem accept_guard_witness:
  "deriveDriftState ''1.50'' ''1.25'' \<in> {QtyDrift, MissingState}"
proof -
  have "form_step ''a1'' demo_typed (AcceptClick demo_row) = Some (handleAccept demo_row demo_typed, [])"
    by code_simp
  note accept_guard [OF this]
  moreover have "dr_app_qty demo_row = ''1.50''" "snap_of demo_typed demo_row = ''1.25''"
    by code_simp+
  ultimately show ?thesis by simp
qed

end
