(* ===== verification/Json.thy ===== *)
theory Json
  imports JsNumber
begin

text \<open>
  JSON as the code uses it: \<open>JSON.stringify\<close> of request bodies and of persisted filters, and
  \<open>JSON.parse\<close> of what comes back.  Texts are UTF-8 bytes; an escaped surrogate pair becomes the
  four bytes of its character.
\<close>

datatype json = JNull | JBool bool | JNum jsnum | JStr jstring | JArr "json list"
  | JObj "(jstring \<times> json) list"

section \<open>Writing\<close>

definition hex_lower :: "nat \<Rightarrow> char" where
  "hex_lower n = (if n < 10 then char_of (48 + n) else char_of (87 + n))"

definition escape_char :: "char \<Rightarrow> jstring" where
  "escape_char c =
     (if c = quote_char then [CHR 0x5C, quote_char]
      else if c = CHR 0x5C then [CHR 0x5C, CHR 0x5C]
      else if c = CHR 0x08 then [CHR 0x5C, CHR ''b'']
      else if c = CHR 0x0C then [CHR 0x5C, CHR ''f'']
      else if c = CHR 0x0A then [CHR 0x5C, CHR ''n'']
      else if c = CHR 0x0D then [CHR 0x5C, CHR ''r'']
      else if c = CHR 0x09 then [CHR 0x5C, CHR ''t'']
      else if (of_char c :: nat) < 32
      then [CHR 0x5C, CHR ''u'', CHR ''0'', CHR ''0'', hex_lower (of_char c div 16), hex_lower (of_char c mod 16)]
      else [c])"

definition quote_str :: "jstring \<Rightarrow> jstring" where
  "quote_str s = quote_char # concat (map escape_char s) @ [quote_char]"

fun stringify :: "json \<Rightarrow> jstring" where
  "stringify JNull = ''null''"
| "stringify (JBool b) = (if b then ''true'' else ''false'')"
| "stringify (JNum n) = (if is_finite n then number_to_str n else ''null'')"
| "stringify (JStr s) = quote_str s"
| "stringify (JArr xs) = ''['' @ js_join '','' (map stringify xs) @ '']''"
| "stringify (JObj kvs) =
     ''{'' @ js_join '','' (map (\<lambda>(k, v). quote_str k @ '':'' @ v) (map (\<lambda>(k, v). (k, stringify v)) kvs)) @ ''}''"

section \<open>Reading\<close>

definition json_ws :: "char \<Rightarrow> bool" where
  "json_ws c \<longleftrightarrow> c \<in> {CHR '' '', CHR 0x09, CHR 0x0A, CHR 0x0D}"

definition skip_ws :: "jstring \<Rightarrow> jstring" where
  "skip_ws s = dropWhile json_ws s"

definition hex_value :: "char \<Rightarrow> nat option" where
  "hex_value c =
     (let n = (of_char c :: nat)
      in if 48 \<le> n \<and> n \<le> 57 then Some (n - 48)
         else if 97 \<le> n \<and> n \<le> 102 then Some (n - 87)
         else if 65 \<le> n \<and> n \<le> 70 then Some (n - 55) else None)"

fun hex4 :: "jstring \<Rightarrow> (nat \<times> jstring) option" where
  "hex4 (a # b # c # d # t) =
     (case (hex_value a, hex_value b, hex_value c, hex_value d) of
        (Some w, Some x, Some y, Some z) \<Rightarrow> Some (((w * 16 + x) * 16 + y) * 16 + z, t)
      | _ \<Rightarrow> None)"
| "hex4 _ = None"

definition utf8_of :: "nat \<Rightarrow> jstring" where
  "utf8_of n =
     (if n < 128 then [char_of n]
      else if n < 2048 then [char_of (192 + n div 64), char_of (128 + n mod 64)]
      else if n < 65536
      then [char_of (224 + n div 4096), char_of (128 + n div 64 mod 64), char_of (128 + n mod 64)]
      else [char_of (240 + n div 262144), char_of (128 + n div 4096 mod 64),
            char_of (128 + n div 64 mod 64), char_of (128 + n mod 64)])"

text \<open>The low half of a surrogate pair, if the text goes on with one.\<close>

definition low_surrogate :: "jstring \<Rightarrow> (nat \<times> jstring) option" where
  "low_surrogate s =
     (case s of a # b # t \<Rightarrow>
        if a = CHR 0x5C \<and> b = CHR ''u''
        then (case hex4 t of Some (n, r) \<Rightarrow> if 56320 \<le> n \<and> n \<le> 57343 then Some (n, r) else None
              | None \<Rightarrow> None)
        else None
      | _ \<Rightarrow> None)"

definition simple_escape :: "char \<Rightarrow> char option" where
  "simple_escape c =
     (if c = quote_char \<or> c = CHR 0x5C \<or> c = CHR ''/'' then Some c
      else if c = CHR ''b'' then Some (CHR 0x08) else if c = CHR ''f'' then Some (CHR 0x0C)
      else if c = CHR ''n'' then Some (CHR 0x0A) else if c = CHR ''r'' then Some (CHR 0x0D)
      else if c = CHR ''t'' then Some (CHR 0x09) else None)"

text \<open>One escape after the backslash: the bytes it stands for and the rest.\<close>

definition read_escape :: "jstring \<Rightarrow> (jstring \<times> jstring) option" where
  "read_escape s =
     (case s of [] \<Rightarrow> None
      | c # t \<Rightarrow>
          if c = CHR ''u'' then
            (case hex4 t of None \<Rightarrow> None
             | Some (n, r) \<Rightarrow>
                 (case (if 55296 \<le> n \<and> n \<le> 56319 then low_surrogate r else None) of
                    Some (l, r') \<Rightarrow> Some (utf8_of (65536 + (n - 55296) * 1024 + (l - 56320)), r')
                  | None \<Rightarrow> Some (utf8_of n, r)))
          else (case simple_escape c of None \<Rightarrow> None | Some x \<Rightarrow> Some ([x], t)))"

text \<open>The rest of a string after its opening quote.\<close>

fun read_str :: "nat \<Rightarrow> jstring \<Rightarrow> (jstring \<times> jstring) option" where
  "read_str 0 s = None"
| "read_str (Suc fuel) [] = None"
| "read_str (Suc fuel) (c # t) =
     (if c = quote_char then Some ([], t)
      else if c = CHR 0x5C then
        (case read_escape t of None \<Rightarrow> None
         | Some (x, r) \<Rightarrow> map_option (\<lambda>(s, r'). (x @ s, r')) (read_str fuel r))
      else if (of_char c :: nat) < 32 then None
      else map_option (\<lambda>(s, r'). (c # s, r')) (read_str fuel t))"

text \<open>A number: its longest prefix of number characters, which must have the shape of the grammar.\<close>

definition json_number :: "jstring \<Rightarrow> (jsnum \<times> jstring) option" where
  "json_number s =
     (let (neg, u) = (if starts_with s ''-'' then (True, drop 1 s) else (False, s));
          (i, r) = span_digits u;
          (f, r1) = (if starts_with r ''.'' then (let (d, r') = span_digits (drop 1 r) in (Some d, r')) else (None, r));
          e_sign = (if starts_with r1 ''e'' \<or> starts_with r1 ''E''
                    then (if starts_with (drop 1 r1) ''+'' \<or> starts_with (drop 1 r1) ''-''
                          then Some (drop 2 r1) else Some (drop 1 r1)) else None);
          (e, r2) = (case e_sign of None \<Rightarrow> (None, r1)
                     | Some v \<Rightarrow> (let (d, r') = span_digits v in (Some d, r')))
      in if i = [] \<or> (1 < length i \<and> hd i = CHR ''0'') \<or> f = Some [] \<or> e = Some [] then None
         else Some (str_to_number (take (length s - length r2) s), r2))"

definition lit :: "jstring \<Rightarrow> json \<Rightarrow> jstring \<Rightarrow> (json \<times> jstring) option" where
  "lit w v s = (if starts_with s w then Some (v, drop (length w) s) else None)"

text \<open>The fuel bounds the nesting and the number of elements; the length of the text is enough.\<close>

fun read_value :: "nat \<Rightarrow> jstring \<Rightarrow> (json \<times> jstring) option"
  and read_items :: "nat \<Rightarrow> jstring \<Rightarrow> (json list \<times> jstring) option"
  and read_members :: "nat \<Rightarrow> jstring \<Rightarrow> ((jstring \<times> json) list \<times> jstring) option" where
  "read_value 0 s = None"
| "read_value (Suc n) s =
     (case skip_ws s of [] \<Rightarrow> None
      | c # t \<Rightarrow>
          if c = quote_char then map_option (\<lambda>(x, r). (JStr x, r)) (read_str (Suc (length t)) t)
          else if c = CHR ''['' then
            (if starts_with (skip_ws t) '']'' then Some (JArr [], drop 1 (skip_ws t))
             else map_option (\<lambda>(xs, r). (JArr xs, r)) (read_items n t))
          else if c = CHR ''{'' then
            (if starts_with (skip_ws t) ''}'' then Some (JObj [], drop 1 (skip_ws t))
             else map_option (\<lambda>(kvs, r). (JObj kvs, r)) (read_members n t))
          else if c = CHR ''n'' then lit ''null'' JNull (c # t)
          else if c = CHR ''t'' then lit ''true'' (JBool True) (c # t)
          else if c = CHR ''f'' then lit ''false'' (JBool False) (c # t)
          else map_option (\<lambda>(x, r). (JNum x, r)) (json_number (c # t)))"
| "read_items 0 s = None"
| "read_items (Suc n) s =
     (case read_value n s of None \<Rightarrow> None
      | Some (v, r) \<Rightarrow>
          (case skip_ws r of [] \<Rightarrow> None
           | c # t \<Rightarrow> if c = CHR '']'' then Some ([v], t)
                      else if c = CHR '','' then map_option (\<lambda>(vs, r'). (v # vs, r')) (read_items n t)
                      else None))"
| "read_members 0 s = None"
| "read_members (Suc n) s =
     (case skip_ws s of [] \<Rightarrow> None
      | q # k \<Rightarrow>
          if q \<noteq> quote_char then None
          else (case read_str (Suc (length k)) k of None \<Rightarrow> None
            | Some (key, r0) \<Rightarrow>
                if \<not> starts_with (skip_ws r0) '':'' then None
                else (case read_value n (drop 1 (skip_ws r0)) of None \<Rightarrow> None
                  | Some (v, r) \<Rightarrow>
                      (case skip_ws r of [] \<Rightarrow> None
                       | c # t \<Rightarrow>
                           if c = CHR ''}'' then Some ([(key, v)], t)
                           else if c = CHR '','' then
                             map_option (\<lambda>(m, r'). ((key, v) # m, r')) (read_members n t)
                           else None))))"

text \<open>\<open>JSON.parse\<close>; \<open>None\<close> is the exception.\<close>

definition json_parse :: "jstring \<Rightarrow> json option" where
  "json_parse s =
     (case read_value (2 * length s + 2) s of None \<Rightarrow> None
      | Some (v, r) \<Rightarrow> if skip_ws r = [] then Some v else None)"

text \<open>A member of an object; the last of several with one name counts.\<close>

definition member :: "jstring \<Rightarrow> json \<Rightarrow> json option" where
  "member k v = (case v of JObj kvs \<Rightarrow> map_of (rev kvs) k | _ \<Rightarrow> None)"

section \<open>Reading back what was written\<close>

lemma hex_value_lower: "n < 16 \<Longrightarrow> hex_value (hex_lower n) = Some n"
  by (auto simp: hex_value_def hex_lower_def)

lemma read_str_plain:
  assumes "c \<noteq> quote_char" "c \<noteq> CHR 0x5C" "\<not> (of_char c :: nat) < 32"
  shows "read_str (Suc fuel) (c # t) = map_option (\<lambda>(s, r). (c # s, r)) (read_str fuel t)"
  using assms by simp

lemma read_escape_control:
  assumes "(of_char c :: nat) < 32"
  shows "read_escape (CHR ''u'' # CHR ''0'' # CHR ''0'' # hex_lower (of_char c div 16)
    # hex_lower (of_char c mod 16) # t) = Some ([c], t)"
proof -
  have "hex_value (CHR ''0'') = Some 0" by (simp add: hex_value_def)
  moreover have "(of_char c :: nat) div 16 < 16" using assms by simp
  ultimately show ?thesis
    using assms by (simp add: read_escape_def hex_value_lower utf8_of_def)
qed

lemma read_escaped:
  "read_str (Suc fuel) (escape_char c @ t) = map_option (\<lambda>(s, r). (c # s, r)) (read_str fuel t)"
proof -
  have b: "read_str (Suc fuel) (CHR 0x5C # u) =
      (case read_escape u of None \<Rightarrow> None
       | Some (x, r) \<Rightarrow> map_option (\<lambda>(s, r'). (x @ s, r')) (read_str fuel r))" for u
    by (simp add: quote_char_def)
  have e: "read_escape (x # t) = (case simple_escape x of None \<Rightarrow> None | Some y \<Rightarrow> Some ([y], t))"
    if "x \<noteq> CHR ''u''" for x using that by (simp add: read_escape_def)
  show ?thesis
  proof (cases "c \<in> {quote_char, CHR 0x5C, CHR 0x08, CHR 0x0C, CHR 0x0A, CHR 0x0D, CHR 0x09}")
    case True
    then show ?thesis
      by (elim insertE emptyE)
        (simp_all add: escape_char_def b e simple_escape_def quote_char_def del: read_str.simps)
  next
    case False
    show ?thesis
    proof (cases "(of_char c :: nat) < 32")
      case True
      then show ?thesis
        using False read_escape_control [OF True, of t] by (simp add: escape_char_def b del: read_str.simps)
    next
      case ge: False
      have "escape_char c = [c]" using False ge by (simp add: escape_char_def)
      then show ?thesis using False ge by (simp add: read_str_plain del: read_str.simps)
    qed
  qed
qed

lemma read_quoted:
  "length s < fuel \<Longrightarrow> read_str fuel (concat (map escape_char s) @ quote_char # t) = Some (s, t)"
proof (induction s arbitrary: fuel)
  case Nil
  then show ?case by (cases fuel) auto
next
  case (Cons c s)
  then obtain f where f: "fuel = Suc f" "length s < f" by (cases fuel) auto
  have "read_str (Suc f) (escape_char c @ (concat (map escape_char s) @ quote_char # t)) =
      map_option (\<lambda>(s, r). (c # s, r)) (read_str f (concat (map escape_char s) @ quote_char # t))"
    by (rule read_escaped)
  then show ?case using Cons.IH [OF f(2)] f(1) by simp
qed

lemma escape_length: "length s \<le> length (concat (map escape_char s))"
proof (induction s)
  case (Cons c s)
  have "1 \<le> length (escape_char c)" by (simp add: escape_char_def)
  with Cons show ?case by simp
qed simp

lemma skip_ws_quote [simp]: "skip_ws (quote_char # t) = quote_char # t"
  by (simp add: skip_ws_def json_ws_def quote_char_def)

lemma read_value_str: "read_value (Suc n) (quote_str s @ t) = Some (JStr s, t)"
  using read_quoted [of s _ t] escape_length [of s] by (simp add: quote_str_def)

lemma skip_ws_punct [simp]: "skip_ws (CHR '']'' # t) = CHR '']'' # t" "skip_ws (CHR '','' # t) = CHR '','' # t"
  "skip_ws (CHR ''['' # t) = CHR ''['' # t" "skip_ws [] = []"
  by (simp_all add: skip_ws_def json_ws_def)

lemma read_items_last: "read_value m s = Some (v, CHR '']'' # r) \<Longrightarrow> read_items (Suc m) s = Some ([v], r)"
  by simp

lemma read_items_next:
  "read_value m s = Some (v, CHR '','' # u) \<Longrightarrow> read_items m u = Some (vs, r) \<Longrightarrow>
    read_items (Suc m) s = Some (v # vs, r)"
  by simp

lemma read_items_strs:
  "ids \<noteq> [] \<Longrightarrow> length ids < n \<Longrightarrow>
    read_items n (js_join '','' (map quote_str ids) @ CHR '']'' # t) = Some (map JStr ids, t)"
proof (induction ids arbitrary: n)
  case (Cons i ids)
  then obtain m where m: "n = Suc (Suc m)" "length ids < Suc m"
    by (metis One_nat_def Suc_less_eq2 length_Cons less_imp_Suc_add add_Suc)
  show ?case
  proof (cases ids)
    case Nil
    have "read_items (Suc (Suc m)) (quote_str i @ CHR '']'' # t) = Some ([JStr i], t)"
      by (rule read_items_last [OF read_value_str])
    then show ?thesis using Nil by (simp only: m(1)) simp
  next
    case (Cons j js)
    let ?u = "js_join '','' (map quote_str ids) @ CHR '']'' # t"
    have "read_items (Suc m) ?u = Some (map JStr ids, t)"
      using Cons.IH [of "Suc m"] m(2) Cons by simp
    then have "read_items (Suc (Suc m)) (quote_str i @ CHR '','' # ?u) = Some (JStr i # map JStr ids, t)"
      by (rule read_items_next [OF read_value_str])
    moreover have "js_join '','' (map quote_str (i # ids)) @ CHR '']'' # t = quote_str i @ CHR '','' # ?u"
      using Cons by simp
    ultimately show ?thesis by (simp only: m(1)) simp
  qed
qed simp

lemma quote_str_length: "length s + 2 \<le> length (quote_str s)"
  using escape_length [of s] by (simp add: quote_str_def)

lemma join_quoted_length: "2 * length ids \<le> length (js_join '','' (map quote_str ids))"
proof (induction ids)
  case (Cons i ids)
  then show ?case using quote_str_length [of i] by (cases ids) auto
qed simp

text \<open>The round trip the persisted filters rely on.\<close>

lemma parse_stringify_strs: "json_parse (stringify (JArr (map JStr ids))) = Some (JArr (map JStr ids))"
proof (cases "ids = []")
  case True
  have "json_parse ''[]'' = Some (JArr [])" by code_simp
  then show ?thesis using True by simp
next
  case False
  have eq: "stringify (JArr (map JStr ids)) = ''['' @ js_join '','' (map quote_str ids) @ '']''"
    by (simp add: o_def)
  let ?j = "js_join '','' (map quote_str ids)"
  let ?u = "?j @ CHR '']'' # []"
  let ?n = "2 * length (CHR ''['' # ?u) + 1"
  have "length ids < ?n" using join_quoted_length [of ids] by simp
  then have items: "read_items ?n ?u = Some (map JStr ids, [])"
    by (rule read_items_strs [OF False])
  obtain i js where ids: "ids = i # js" using False by (cases ids) auto
  obtain u where u: "?u = quote_char # u" by (cases js) (auto simp: ids quote_str_def)
  have "read_value (Suc ?n) (CHR ''['' # ?u) = Some (JArr (map JStr ids), [])"
    unfolding u using items [unfolded u]
    by (simp add: quote_char_def skip_ws_def json_ws_def del: read_items.simps)
  then have "json_parse (''['' @ ?u) = Some (JArr (map JStr ids))"
    by (simp add: json_parse_def del: read_value.simps)
  then show ?thesis by (simp only: eq)
qed

end
