(* ===== verification/Uri.thy ===== *)
theory Uri
  imports Json
begin

text \<open>
  The standard functions on URLs the code uses: \<open>decodeURIComponent\<close> (with the round trip through
  \<open>encodeURIComponent\<close>) and the part of URL resolution that decides whether a reference stays on
  its origin.
\<close>

section \<open>UTF-8\<close>

definition cont_byte :: "char \<Rightarrow> bool" where
  "cont_byte c \<longleftrightarrow> 128 \<le> (of_char c :: nat) \<and> (of_char c :: nat) < 192"

text \<open>How many continuation bytes follow a lead byte, and the range of the first of them.\<close>

definition utf8_lead :: "nat \<Rightarrow> (nat \<times> nat \<times> nat) option" where
  "utf8_lead n =
     (if n < 128 then Some (0, 0, 0)
      else if 194 \<le> n \<and> n \<le> 223 then Some (1, 128, 192)
      else if n = 224 then Some (2, 160, 192)
      else if n = 237 then Some (2, 128, 160)
      else if 225 \<le> n \<and> n \<le> 239 then Some (2, 128, 192)
      else if n = 240 then Some (3, 144, 192)
      else if n = 244 then Some (3, 128, 144)
      else if 241 \<le> n \<and> n \<le> 243 then Some (3, 128, 192)
      else None)"

text \<open>Read that many continuation bytes: the bytes, whether all were there, and the rest.\<close>

fun utf8_conts :: "nat \<Rightarrow> nat \<Rightarrow> nat \<Rightarrow> jstring \<Rightarrow> jstring \<times> bool \<times> jstring" where
  "utf8_conts 0 lo hi s = ([], True, s)"
| "utf8_conts (Suc k) lo hi [] = ([], False, [])"
| "utf8_conts (Suc k) lo hi (c # s) =
     (if lo \<le> of_char c \<and> of_char c < hi
      then (case utf8_conts k 128 192 s of (cs, ok, r) \<Rightarrow> (c # cs, ok, r))
      else ([], False, c # s))"

lemma utf8_conts_shorter: "length (snd (snd (utf8_conts k lo hi s))) \<le> length s"
  by (induction k lo hi s rule: utf8_conts.induct) (auto split: prod.splits)

lemma utf8_conts_length: "utf8_conts k lo hi s = (cs, ok, r) \<Longrightarrow> length r < Suc (length s)"
  using utf8_conts_shorter [of k lo hi s] by simp

text \<open>Well-formed UTF-8: no overlong forms, no surrogates, nothing above U+10FFFF.\<close>

function valid_utf8 :: "jstring \<Rightarrow> bool" where
  "valid_utf8 [] = True"
| "valid_utf8 (c # s) =
     (case utf8_lead (of_char c) of
        None \<Rightarrow> False
      | Some (k, lo, hi) \<Rightarrow> (case utf8_conts k lo hi s of (cs, ok, r) \<Rightarrow> ok \<and> valid_utf8 r))"
  by pat_completeness auto
termination
  by (relation "measure length") (auto simp: utf8_conts_length [OF sym])

declare valid_utf8.simps(2) [simp del]

text \<open>
  The length of a string is counted in UTF-16 units: a continuation byte adds none, a lead byte of
  four adds two.
\<close>

definition utf16_units :: "char \<Rightarrow> nat" where
  "utf16_units c = (if cont_byte c then 0 else if 240 \<le> (of_char c :: nat) then 2 else 1)"

definition js_length :: "jstring \<Rightarrow> nat" where
  "js_length s = sum_list (map utf16_units s)"

lemma js_length_simps [simp]: "js_length [] = 0" "js_length (c # s) = utf16_units c + js_length s"
  by (simp_all add: js_length_def)

lemma js_length_le: "js_length s \<le> 2 * length s"
  by (induction s) (auto simp: utf16_units_def)

lemma js_length_zero: "valid_utf8 s \<Longrightarrow> js_length s = 0 \<longleftrightarrow> s = []"
  by (cases s) (auto simp: utf16_units_def cont_byte_def utf8_lead_def valid_utf8.simps(2) split: if_splits)

text \<open>Decoding that never fails: U+FFFD for each maximal prefix of a character that is not one.\<close>

definition replacement_char :: jstring where
  "replacement_char = [CHR 0xEF, CHR 0xBF, CHR 0xBD]"

function utf8_decode :: "jstring \<Rightarrow> jstring" where
  "utf8_decode [] = []"
| "utf8_decode (c # s) =
     (case utf8_lead (of_char c) of
        None \<Rightarrow> replacement_char @ utf8_decode s
      | Some (k, lo, hi) \<Rightarrow>
          (case utf8_conts k lo hi s of (cs, ok, r) \<Rightarrow>
             (if ok then c # cs else replacement_char) @ utf8_decode r))"
  by pat_completeness auto
termination
  by (relation "measure length") (auto simp: utf8_conts_length [OF sym])

declare utf8_decode.simps(2) [simp del]

lemma utf8_conts_append: "utf8_conts k lo hi s = (cs, True, r) \<Longrightarrow> s = cs @ r"
  by (induction k lo hi s arbitrary: cs r rule: utf8_conts.induct) (auto split: if_splits prod.splits)

lemma utf8_decode_valid: "valid_utf8 s \<Longrightarrow> utf8_decode s = s"
proof (induction s rule: valid_utf8.induct)
  case (2 c s)
  obtain k lo hi cs r where c: "utf8_lead (of_char c) = Some (k, lo, hi)"
      "utf8_conts k lo hi s = (cs, True, r)" "valid_utf8 r"
    using "2.prems" by (auto simp: valid_utf8.simps(2) split: option.splits prod.splits)
  then have "utf8_decode r = r" by (intro "2.IH") auto
  then show ?case using c utf8_conts_append [OF c(2)] by (simp add: utf8_decode.simps(2))
qed simp

section \<open>Percent encoding\<close>

text \<open>The bytes a percent-encoded text stands for; \<open>None\<close> for a malformed escape.\<close>

fun percent_decode :: "jstring \<Rightarrow> jstring option" where
  "percent_decode [] = Some []"
| "percent_decode (c # t) =
     (if c = CHR ''%'' then
        (case t of a # b # r \<Rightarrow>
           (case (hex_value a, hex_value b) of
              (Some x, Some y) \<Rightarrow> map_option (\<lambda>s. char_of (x * 16 + y) # s) (percent_decode r)
            | _ \<Rightarrow> None)
         | _ \<Rightarrow> None)
      else map_option (\<lambda>s. c # s) (percent_decode t))"

text \<open>\<open>decodeURIComponent\<close>; \<open>None\<close> is the exception.\<close>

definition decodeURIComponent :: "jstring \<Rightarrow> jstring option" where
  "decodeURIComponent s =
     (case percent_decode s of None \<Rightarrow> None | Some t \<Rightarrow> if valid_utf8 t then Some t else None)"

lemma hex_value_digit: "n < 16 \<Longrightarrow> hex_value (hex_digit n) = Some n"
  by (auto simp: hex_value_def hex_digit_def)

lemma of_char_div16: "(of_char c :: nat) div 16 < 16"
  by (rule less_mult_imp_div_less) simp

lemma decode_byte: "percent_decode (encode_byte c @ t) = map_option (\<lambda>s. c # s) (percent_decode t)"
proof (cases "uri_unreserved c")
  case True
  then have "c \<noteq> CHR ''%''"
    by (auto simp: uri_unreserved_def is_digit_def apostrophe_def)
  then show ?thesis using True by (simp add: encode_byte_def)
next
  case False
  have "(of_char c :: nat) div 16 * 16 + of_char c mod 16 = of_char c" by simp
  then show ?thesis using False by (simp add: encode_byte_def hex_value_digit of_char_div16)
qed

lemma decode_encode: "percent_decode (encodeURIComponent s) = Some s"
  unfolding encodeURIComponent_def by (induction s) (simp_all add: decode_byte)

theorem decode_encodeURIComponent: "valid_utf8 s \<Longrightarrow> decodeURIComponent (encodeURIComponent s) = Some s"
  by (simp add: decodeURIComponent_def decode_encode)

text \<open>The encoded text is made of unreserved characters and escapes.\<close>

lemma encode_chars: "set (encodeURIComponent s) \<subseteq> {c. uri_unreserved c} \<union> {CHR ''%''}"
proof -
  have "set (encode_byte c) \<subseteq> {c. uri_unreserved c} \<union> {CHR ''%''}" for c
  proof (cases "uri_unreserved c")
    case False
    have hex: "uri_unreserved (hex_digit n)" if "n < 16" for n
    proof -
      have "\<forall>n \<in> set [0 ..< 16]. uri_unreserved (hex_digit n)" by code_simp
      then show ?thesis using that by simp
    qed
    show ?thesis using False hex of_char_div16 by (simp add: encode_byte_def)
  qed (simp add: encode_byte_def)
  then show ?thesis by (auto simp: encodeURIComponent_def)
qed

section \<open>Resolving a reference against an http origin\<close>

text \<open>
  The URL parser strips leading control characters and spaces, removes tabs and line breaks
  anywhere, and in the web's schemes takes a backslash for a slash.  A reference whose first two
  characters are then slashes names a host of its own.
\<close>

definition url_clean :: "jstring \<Rightarrow> jstring" where
  "url_clean s =
     filter (\<lambda>c. c \<notin> {CHR 0x09, CHR 0x0A, CHR 0x0D}) (dropWhile (\<lambda>c. (of_char c :: nat) \<le> 32) s)"

definition url_slash :: "char \<Rightarrow> bool" where
  "url_slash c \<longleftrightarrow> c = CHR ''/'' \<or> c = CHR 0x5C"

definition names_host :: "jstring \<Rightarrow> bool" where
  "names_host s = (case url_clean s of a # b # t \<Rightarrow> url_slash a \<and> url_slash b | _ \<Rightarrow> False)"

section \<open>Query parameters\<close>

text \<open>
  Decoding of query parameters never fails: \<open>+\<close> is a space, an escape that is not one stays.
\<close>

fun percent_decode_lenient :: "jstring \<Rightarrow> jstring" where
  "percent_decode_lenient (c # a # b # r) =
     (if c = CHR ''%'' then
        (case (hex_value a, hex_value b) of
           (Some x, Some y) \<Rightarrow> char_of (x * 16 + y) # percent_decode_lenient r
         | _ \<Rightarrow> c # percent_decode_lenient (a # b # r))
      else c # percent_decode_lenient (a # b # r))"
| "percent_decode_lenient s = s"

definition form_decode :: "jstring \<Rightarrow> jstring" where
  "form_decode s = utf8_decode (percent_decode_lenient (map (\<lambda>c. if c = CHR ''+'' then CHR '' '' else c) s))"

text \<open>The pairs of a query, and the first value of a name: \<open>searchParams.get(name)\<close>.\<close>

definition query_pair :: "jstring \<Rightarrow> jstring \<times> jstring" where
  "query_pair p =
     (form_decode (takeWhile (\<lambda>c. c \<noteq> CHR ''='') p), form_decode (drop 1 (dropWhile (\<lambda>c. c \<noteq> CHR ''='') p)))"

definition query_pairs :: "jstring \<Rightarrow> (jstring \<times> jstring) list" where
  "query_pairs q =
     map query_pair (filter (\<lambda>p. p \<noteq> [])
       (js_split (CHR ''&'') (if starts_with q ''?'' then drop 1 q else q)))"

definition search_param :: "jstring \<Rightarrow> jstring \<Rightarrow> jstring option" where
  "search_param name q = map_of (query_pairs q) name"

text \<open>How \<open>searchParams.set\<close> writes a value: the characters it leaves alone are fewer.\<close>

definition form_unreserved :: "char \<Rightarrow> bool" where
  "form_unreserved c \<longleftrightarrow>
     is_digit c \<or> (65 \<le> (of_char c :: int) \<and> (of_char c :: int) \<le> 90)
     \<or> (97 \<le> (of_char c :: int) \<and> (of_char c :: int) \<le> 122)
     \<or> c \<in> {CHR ''-'', CHR ''_'', CHR ''.'', CHR ''*''}"

definition form_encode_byte :: "char \<Rightarrow> jstring" where
  "form_encode_byte c =
     (if form_unreserved c then [c] else if c = CHR '' '' then ''+''
      else [CHR ''%'', hex_digit (of_char c div 16), hex_digit (of_char c mod 16)])"

definition form_encode :: "jstring \<Rightarrow> jstring" where
  "form_encode s = concat (map form_encode_byte s)"

text \<open>
  What every encoding of a query value promises: the value comes back, and the encoded text has
  none of the characters that structure a query.
\<close>

locale query_encoding =
  fixes enc :: "jstring \<Rightarrow> jstring"
  assumes decode_enc: "valid_utf8 s \<Longrightarrow> form_decode (enc s) = s"
    and no_amp: "CHR ''&'' \<notin> set (enc s)"
begin

lemma param_alone:
  assumes "valid_utf8 v" "name \<noteq> []" "form_decode name = name"
    and "set name \<inter> {CHR ''='', CHR ''&'', CHR ''?''} = {}"
  shows "search_param name (''?'' @ name @ ''='' @ enc v) = Some v"
proof -
  have amp: "CHR ''&'' \<notin> set (name @ CHR ''='' # enc v)" using assms(4) no_amp by auto
  have "takeWhile (\<lambda>c. c \<noteq> CHR ''='') (name @ ''='' @ enc v) = name"
    "dropWhile (\<lambda>c. c \<noteq> CHR ''='') (name @ ''='' @ enc v) = ''='' @ enc v"
    using assms(4) by (auto simp: takeWhile_append dropWhile_append)
  then have "query_pair (name @ ''='' @ enc v) = (name, v)"
    using assms(1,3) by (simp add: query_pair_def decode_enc)
  then show ?thesis
    using assms(2) by (simp add: search_param_def query_pairs_def js_split_none [OF amp])
qed

end

lemma lenient_plain: "c \<noteq> CHR ''%'' \<Longrightarrow> percent_decode_lenient (c # t) = c # percent_decode_lenient t"
  by (cases t rule: percent_decode_lenient.cases) auto

lemma lenient_escape:
  "percent_decode_lenient ([CHR ''%'', hex_digit (of_char c div 16), hex_digit (of_char c mod 16)] @ t) =
    c # percent_decode_lenient t"
  by (simp add: hex_value_digit of_char_div16)

text \<open>The fact both encoders share: encoding byte by byte is undone.\<close>

lemma bytewise_decode:
  fixes e :: "char \<Rightarrow> jstring"
  assumes "\<And>c t. percent_decode_lenient (map (\<lambda>c. if c = CHR ''+'' then CHR '' '' else c) (e c) @ t)
    = c # percent_decode_lenient t"
    and "valid_utf8 s"
  shows "form_decode (concat (map e s)) = s"
proof -
  have "percent_decode_lenient (map (\<lambda>c. if c = CHR ''+'' then CHR '' '' else c) (concat (map e s))) = s" for s
    by (induction s) (simp_all add: assms(1))
  then show ?thesis by (simp add: form_decode_def utf8_decode_valid assms(2))
qed

lemma hex_digit_chars: "n < 16 \<Longrightarrow> uri_unreserved (hex_digit n) \<and> hex_digit n \<noteq> CHR ''+'' \<and> hex_digit n \<noteq> CHR ''&''"
proof -
  have "\<forall>n \<in> set [0 ..< 16]. uri_unreserved (hex_digit n) \<and> hex_digit n \<noteq> CHR ''+'' \<and> hex_digit n \<noteq> CHR ''&''"
    by code_simp
  then show "n < 16 \<Longrightarrow> ?thesis" by simp
qed

lemma uri_unreserved_not: "\<not> uri_unreserved (CHR ''+'')" "\<not> uri_unreserved (CHR ''%'')" "\<not> uri_unreserved (CHR ''&'')"
  by code_simp+

lemma form_unreserved_not: "\<not> form_unreserved (CHR ''+'')" "\<not> form_unreserved (CHR ''%'')" "\<not> form_unreserved (CHR ''&'')"
  by code_simp+

lemma escape_decode:
  "percent_decode_lenient (map (\<lambda>c. if c = CHR ''+'' then CHR '' '' else c)
      [CHR ''%'', hex_digit (of_char c div 16), hex_digit (of_char c mod 16)] @ t) = c # percent_decode_lenient t"
  using lenient_escape [of c t] hex_digit_chars of_char_div16 by simp

interpretation uri: query_encoding encodeURIComponent
proof
  show "form_decode (encodeURIComponent s) = s" if "valid_utf8 s" for s
    unfolding encodeURIComponent_def
  proof (rule bytewise_decode [OF _ that])
    show "percent_decode_lenient (map (\<lambda>c. if c = CHR ''+'' then CHR '' '' else c) (encode_byte c) @ t) =
        c # percent_decode_lenient t" for c t
    proof (cases "uri_unreserved c")
      case True
      then have "c \<noteq> CHR ''+''" "c \<noteq> CHR ''%''" using uri_unreserved_not by auto
      with True show ?thesis by (simp add: encode_byte_def lenient_plain)
    next
      case False
      then show ?thesis using escape_decode [of c t] by (simp add: encode_byte_def)
    qed
  qed
  show "CHR ''&'' \<notin> set (encodeURIComponent s)" for s
    using encode_chars [of s] uri_unreserved_not by auto
qed

interpretation form: query_encoding form_encode
proof
  show "form_decode (form_encode s) = s" if "valid_utf8 s" for s
    unfolding form_encode_def
  proof (rule bytewise_decode [OF _ that])
    show "percent_decode_lenient (map (\<lambda>c. if c = CHR ''+'' then CHR '' '' else c) (form_encode_byte c) @ t) =
        c # percent_decode_lenient t" for c t
    proof (cases "form_unreserved c")
      case True
      then have "c \<noteq> CHR ''+''" "c \<noteq> CHR ''%''" using form_unreserved_not by auto
      with True show ?thesis by (simp add: form_encode_byte_def lenient_plain)
    next
      case False
      then show ?thesis using escape_decode [of c t] by (simp add: form_encode_byte_def lenient_plain)
    qed
  qed
  have "CHR ''&'' \<notin> set (form_encode_byte c)" for c
  proof (cases "form_unreserved c")
    case True
    then have "c \<noteq> CHR ''&''" using form_unreserved_not by auto
    with True show ?thesis by (simp add: form_encode_byte_def)
  next
    case False
    have "hex_digit (of_char c div 16) \<noteq> CHR ''&''" "hex_digit (of_char c mod 16) \<noteq> CHR ''&''"
      using hex_digit_chars of_char_div16 by simp_all
    with False show ?thesis by (simp add: form_encode_byte_def eq_commute [of "CHR ''&''"])
  qed
  then show "CHR ''&'' \<notin> set (form_encode s)" for s
    by (simp add: form_encode_def)
qed

section \<open>Queries written back\<close>

text \<open>Writing a query back: the pairs of a query with one of them set or removed.\<close>

fun set_param :: "jstring \<Rightarrow> jstring \<Rightarrow> (jstring \<times> jstring) list \<Rightarrow> (jstring \<times> jstring) list" where
  "set_param k v [] = [(k, v)]"
| "set_param k v (p # ps) = (if fst p = k then (k, v) # filter (\<lambda>q. fst q \<noteq> k) ps else p # set_param k v ps)"

definition delete_param :: "jstring \<Rightarrow> (jstring \<times> jstring) list \<Rightarrow> (jstring \<times> jstring) list" where
  "delete_param k ps = filter (\<lambda>q. fst q \<noteq> k) ps"

definition query_text :: "(jstring \<times> jstring) list \<Rightarrow> jstring" where
  "query_text ps = js_join ''&'' (map (\<lambda>(k, v). form_encode k @ ''='' @ form_encode v) ps)"

end
