(* ===== verification/Prefs.thy ===== *)
theory Prefs
  imports Uri Format
begin

text \<open>
  Persisted preferences: the cookies behind \<open>lib/prefs.tsx\<close>, the hooks on them
  (\<open>lib/currency.tsx\<close>, \<open>lib/tag-filter.tsx\<close>, \<open>lib/instrument-filter.ts\<close>) and what the server
  layout reads (\<open>app/(app)/layout.tsx\<close>).
\<close>

section \<open>The cookie jar of the browser\<close>

text \<open>
  The cookies a page sees at path \<open>/\<close>, in the order they were created.  Assigning to
  \<open>document.cookie\<close> follows the cookie standard: the pair up to the first semicolon, trimmed
  around the first equals sign; a pair of more than 4096 octets is ignored; \<open>max-age\<close> of zero
  removes the cookie; otherwise it is set, and keeps its place if it was there.
\<close>

type_synonym jar = "(jstring, jstring) jsmap"

definition wsp_trim :: "jstring \<Rightarrow> jstring" where
  "wsp_trim s =
     (let w = (\<lambda>c. c = CHR '' '' \<or> c = CHR 0x09) in rev (dropWhile w (rev (dropWhile w s))))"

definition eq_pair :: "jstring \<Rightarrow> jstring \<times> jstring" where
  "eq_pair p =
     (wsp_trim (takeWhile (\<lambda>c. c \<noteq> CHR ''='') p), wsp_trim (drop 1 (dropWhile (\<lambda>c. c \<noteq> CHR ''='') p)))"

definition expires_now :: "jstring list \<Rightarrow> bool" where
  "expires_now attrs =
     (case map_of (rev (map eq_pair attrs)) ''max-age'' of
        Some v \<Rightarrow> v \<noteq> [] \<and> list_all is_digit v \<and> digits_val v = 0 \<or> starts_with v ''-''
      | None \<Rightarrow> False)"

definition set_cookie :: "jstring \<Rightarrow> jar \<Rightarrow> jar" where
  "set_cookie s jar =
     (case js_split (CHR '';'') s of
        [] \<Rightarrow> jar
      | p # attrs \<Rightarrow>
          (let (n, v) = eq_pair p
           in if (n = [] \<and> v = []) \<or> 4096 < length n + length v then jar
              else if expires_now attrs then jm_delete n jar else jm_set n v jar))"

definition document_cookie :: "jar \<Rightarrow> jstring" where
  "document_cookie jar = js_join ''; '' (map (\<lambda>(n, v). n @ ''='' @ v) jar)"

text \<open>\<open>split("; ")\<close>.\<close>

fun split_cookies :: "jstring \<Rightarrow> jstring list" where
  "split_cookies (c # d # s) =
     (if c = CHR '';'' \<and> d = CHR '' '' then [] # split_cookies s
      else (case split_cookies (d # s) of [] \<Rightarrow> [[c]] | p # ps \<Rightarrow> (c # p) # ps))"
| "split_cookies s = [s]"

section \<open>Reading and writing a preference\<close>

definition PREF_KEYS :: "jstring list" where
  "PREF_KEYS = [''flowfolio.displayCurrency'', ''flowfolio.tagFilter'', ''flowfolio.nwShowTransactions'',
     ''flowfolio.nwShowCostBasis'', ''flowfolio.nwShowYields'', ''flowfolio.instrumentFilter.networth'']"

definition ONE_YEAR_SECONDS :: int where
  "ONE_YEAR_SECONDS = 60 * 60 * 24 * 365"

text \<open>What a stored text stands for: decoded, or itself where it is malformed.\<close>

definition decode_stored :: "jstring \<Rightarrow> jstring" where
  "decode_stored s = nullish (decodeURIComponent s) s"

definition readCookie :: "bool \<Rightarrow> jstring \<Rightarrow> jar \<Rightarrow> jstring option" where
  "readCookie browser key jar =
     (if \<not> browser then None
      else map_option (\<lambda>part. decode_stored (drop (length (key @ ''='')) part))
        (find (\<lambda>part. starts_with part (key @ ''='')) (split_cookies (document_cookie jar))))"

definition cookie_text :: "jstring \<Rightarrow> jstring option \<Rightarrow> jstring" where
  "cookie_text key value =
     (case value of
        None \<Rightarrow> key @ ''=; path=/; max-age=0; samesite=lax''
      | Some v \<Rightarrow> key @ ''='' @ encodeURIComponent v @ ''; path=/; max-age='' @ show_digits ONE_YEAR_SECONDS
          @ ''; samesite=lax'')"

definition writeCookie :: "jstring \<Rightarrow> jstring option \<Rightarrow> jar \<Rightarrow> jar" where
  "writeCookie key value jar = set_cookie (cookie_text key value) jar"

section \<open>Reading back what was written\<close>

text \<open>Names the code uses: characters that mean nothing to the cookie syntax.\<close>

definition name_char :: "char \<Rightarrow> bool" where
  "name_char c \<longleftrightarrow> c \<notin> {CHR ''='', CHR '';'', CHR '' '', CHR 0x09}"

definition simple_name :: "jstring \<Rightarrow> bool" where
  "simple_name n \<longleftrightarrow> n \<noteq> [] \<and> list_all name_char n"

definition jar_ok :: "jar \<Rightarrow> bool" where
  "jar_ok jar \<longleftrightarrow>
     jm_wf jar \<and> list_all (\<lambda>(n, v). n \<noteq> [] \<and> CHR ''='' \<notin> set n \<and> CHR '';'' \<notin> set n \<and> CHR '';'' \<notin> set v) jar"

lemma wsp_trim_id: "list_all name_char s \<Longrightarrow> wsp_trim s = s"
proof -
  assume h: "list_all name_char s"
  let ?w = "\<lambda>c. c = CHR '' '' \<or> c = CHR 0x09"
  have id: "dropWhile ?w t = t" if "set t \<subseteq> set s" for t
    using that h by (cases t) (auto simp: list_all_iff name_char_def)
  show ?thesis unfolding wsp_trim_def Let_def by (simp add: id)
qed

lemma split_cookies_no: "CHR '';'' \<notin> set p \<Longrightarrow> split_cookies p = [p]"
  by (induction p rule: split_cookies.induct) auto

lemma split_cookies_append:
  "CHR '';'' \<notin> set p \<Longrightarrow> split_cookies (p @ ''; '' @ t) = p # split_cookies t"
proof (induction p)
  case (Cons c p)
  obtain d r where "p @ ''; '' @ t = d # r" by (cases p) auto
  with Cons show ?case by auto
qed simp

lemma split_document:
  "list_all (\<lambda>p. CHR '';'' \<notin> set p) ps \<Longrightarrow> ps \<noteq> [] \<Longrightarrow> split_cookies (js_join ''; '' ps) = ps"
proof (induction ps rule: induct_list012)
  case (3 p q ps)
  then show ?case using split_cookies_append [of p "js_join ''; '' (q # ps)"] by simp
qed (simp_all add: split_cookies_no)

lemma starts_pair:
  assumes "CHR ''='' \<notin> set n" "CHR ''='' \<notin> set k"
  shows "starts_with (n @ ''='' @ v) (k @ ''='') \<longleftrightarrow> n = k"
  using assms
proof (induction n arbitrary: k)
  case Nil
  then show ?case by (cases k) auto
next
  case (Cons c n)
  then show ?case by (cases k) auto
qed

lemma find_pair:
  assumes "CHR ''='' \<notin> set k" "list_all (\<lambda>(n, v). CHR ''='' \<notin> set n) jar"
  shows "find (\<lambda>p. starts_with p (k @ ''='')) (map (\<lambda>(n, v). n @ ''='' @ v) jar)
    = map_option (\<lambda>v. k @ ''='' @ v) (jm_get jar k)"
  using assms(2)
proof (induction jar)
  case (Cons e jar)
  obtain n v where "e = (n, v)" by (cases e)
  then show ?case using Cons starts_pair [OF _ assms(1), of n v] by (auto simp: jm_get_def)
qed (simp add: jm_get_def)

lemma read_jar:
  assumes "jar_ok jar" "simple_name key"
  shows "readCookie True key jar = map_option decode_stored (jm_get jar key)"
proof -
  let ?ps = "map (\<lambda>(n, v). n @ ''='' @ v) jar"
  have k: "CHR ''='' \<notin> set key" using assms(2) by (auto simp: simple_name_def list_all_iff name_char_def)
  have n: "list_all (\<lambda>(n, v). CHR ''='' \<notin> set n) jar" using assms(1) by (auto simp: jar_ok_def list_all_iff)
  have f: "find (\<lambda>p. starts_with p (key @ ''='')) (split_cookies (document_cookie jar))
      = map_option (\<lambda>v. key @ ''='' @ v) (jm_get jar key)"
  proof (cases "jar = []")
    case True
    have "\<not> starts_with [] (key @ ''='')" by (cases key) auto
    then show ?thesis using True by (simp add: document_cookie_def)
  next
    case False
    have "list_all (\<lambda>p. CHR '';'' \<notin> set p) ?ps" using assms(1) by (auto simp: jar_ok_def list_all_iff)
    then have "split_cookies (document_cookie jar) = ?ps"
      unfolding document_cookie_def using False by (intro split_document) auto
    then show ?thesis using find_pair [OF k n] by simp
  qed
  show ?thesis by (simp add: readCookie_def f option.map_comp o_def)
qed

definition fits :: "jstring \<Rightarrow> jstring \<Rightarrow> bool" where
  "fits key v \<longleftrightarrow> length key + length (encodeURIComponent v) \<le> 4096"

lemma encoded_name_chars: "list_all name_char (encodeURIComponent v)"
proof -
  have "name_char c" if "uri_unreserved c \<or> c = CHR ''%''" for c
    using that by (auto simp: uri_unreserved_def name_char_def is_digit_def apostrophe_def)
  then show ?thesis using encode_chars [of v] by (auto simp: list_all_iff)
qed

lemma eq_pair_plain:
  assumes "simple_name key" "list_all name_char v"
  shows "eq_pair (key @ CHR ''='' # v) = (key, v)"
proof -
  have "CHR ''='' \<notin> set key" using assms(1) by (auto simp: simple_name_def list_all_iff name_char_def)
  then have "takeWhile (\<lambda>c. c \<noteq> CHR ''='') (key @ CHR ''='' # v) = key"
    "dropWhile (\<lambda>c. c \<noteq> CHR ''='') (key @ CHR ''='' # v) = CHR ''='' # v"
    by (auto simp: takeWhile_append dropWhile_append)
  then show ?thesis using assms by (simp add: eq_pair_def wsp_trim_id simple_name_def)
qed

lemma no_semi: "list_all name_char v \<Longrightarrow> CHR '';'' \<notin> set v"
  by (auto simp: list_all_iff name_char_def)

lemma writeCookie_some:
  assumes "simple_name key"
  shows "writeCookie key (Some v) jar = (if fits key v then jm_set key (encodeURIComponent v) jar else jar)"
proof -
  let ?attrs = "'' path=/; max-age='' @ show_digits ONE_YEAR_SECONDS @ ''; samesite=lax''"
  have "CHR '';'' \<notin> set (key @ CHR ''='' # encodeURIComponent v)"
    using assms no_semi encoded_name_chars by (auto simp: simple_name_def)
  then have split: "js_split (CHR '';'') (cookie_text key (Some v))
      = (key @ CHR ''='' # encodeURIComponent v) # js_split (CHR '';'') ?attrs"
    using js_split_append [of "CHR '';''" "key @ CHR ''='' # encodeURIComponent v" ?attrs]
    by (simp add: cookie_text_def)
  have "\<not> expires_now (js_split (CHR '';'') ?attrs)" by code_simp
  then show ?thesis
    using assms eq_pair_plain [OF assms encoded_name_chars]
    by (simp add: writeCookie_def set_cookie_def split fits_def simple_name_def)
qed

lemma writeCookie_none:
  assumes "simple_name key" "length key \<le> 4096"
  shows "writeCookie key None jar = jm_delete key jar"
proof -
  let ?attrs = "'' path=/; max-age=0; samesite=lax''"
  have "CHR '';'' \<notin> set (key @ ''='')" using assms no_semi by (auto simp: simple_name_def)
  then have split: "js_split (CHR '';'') (cookie_text key None) = (key @ ''='') # js_split (CHR '';'') ?attrs"
    using js_split_append [of "CHR '';''" "key @ ''=''" ?attrs] by (simp add: cookie_text_def)
  have "expires_now (js_split (CHR '';'') ?attrs)" by code_simp
  then show ?thesis
    using assms eq_pair_plain [OF assms(1), of "[]"]
    by (simp add: writeCookie_def set_cookie_def split simple_name_def)
qed

lemma jar_ok_set: "jar_ok jar \<Longrightarrow> simple_name n \<Longrightarrow> CHR '';'' \<notin> set v \<Longrightarrow> jar_ok (jm_set n v jar)"
proof -
  assume h: "jar_ok jar" "simple_name n" "CHR '';'' \<notin> set v"
  have "list_all P (jm_set n v jar)" if "list_all P jar" "P (n, v)" for P
    using that by (induction jar) auto
  moreover have "n \<noteq> [] \<and> CHR ''='' \<notin> set n \<and> CHR '';'' \<notin> set n"
    using h(2) by (auto simp: simple_name_def list_all_iff name_char_def)
  ultimately show ?thesis using h(1,3) by (simp add: jar_ok_def)
qed

lemma jar_ok_delete: "jar_ok jar \<Longrightarrow> jar_ok (jm_delete n jar)"
  by (auto simp: jar_ok_def jm_delete_def list_all_iff jm_wf_delete [unfolded jm_delete_def])

lemma jar_ok_write: "jar_ok jar \<Longrightarrow> simple_name key \<Longrightarrow> length key \<le> 4096 \<Longrightarrow> jar_ok (writeCookie key val jar)"
  by (cases val) (simp_all add: writeCookie_some writeCookie_none jar_ok_delete jar_ok_set no_semi encoded_name_chars)

lemma decode_stored_encoded: "valid_utf8 v \<Longrightarrow> decode_stored (encodeURIComponent v) = v"
  by (simp add: decode_stored_def decode_encodeURIComponent)

lemma read_write:
  assumes "jar_ok jar" "simple_name key" "simple_name k'" "length key \<le> 4096"
  shows "readCookie True k' (writeCookie key val jar) =
    (if k' \<noteq> key then readCookie True k' jar
     else case val of None \<Rightarrow> None
          | Some v \<Rightarrow> if fits key v then Some (decode_stored (encodeURIComponent v)) else readCookie True key jar)"
  using assms read_jar [OF jar_ok_write [OF assms(1,2,4), of val] assms(3)] read_jar [OF assms(1) assms(3)]
  by (auto simp: writeCookie_some writeCookie_none split: option.splits)

section \<open>The interface of a preference\<close>

text \<open>
  What the hooks rely on: a slot of the store that gives back the text last put into it, if it is
  one the store can hold, and nothing after it was cleared.
\<close>

locale pref_slot =
  fixes read :: "'s \<Rightarrow> jstring option"
    and put :: "jstring option \<Rightarrow> 's \<Rightarrow> 's"
    and ok :: "'s \<Rightarrow> bool"
    and storable :: "jstring \<Rightarrow> bool"
  assumes read_put: "ok s \<Longrightarrow> storable v \<Longrightarrow> read (put (Some v) s) = Some v"
    and read_clear: "ok s \<Longrightarrow> read (put None s) = None"
    and ok_put: "ok s \<Longrightarrow> ok (put t s)"

text \<open>The hooks, over the text of a slot.\<close>

definition currency_of :: "jstring option \<Rightarrow> currency" where
  "currency_of raw = (if raw = Some ''USD'' then USD else EUR)"

definition tagFilter_of :: "jstring option \<Rightarrow> jstring option" where
  "tagFilter_of raw = Option.bind raw or_null"

definition strings_of :: "json list \<Rightarrow> jstring list" where
  "strings_of vs = List.map_filter (\<lambda>v. case v of JStr s \<Rightarrow> Some s | _ \<Rightarrow> None) vs"

definition parseIds :: "jstring option \<Rightarrow> jstring list" where
  "parseIds raw =
     (case Option.bind raw or_null of
        None \<Rightarrow> []
      | Some r \<Rightarrow> (case json_parse r of Some (JArr vs) \<Rightarrow> strings_of vs | _ \<Rightarrow> []))"

definition id_step :: "jstring list \<times> jstring set \<Rightarrow> jstring \<Rightarrow> jstring list \<times> jstring set" where
  "id_step acc v =
     (case acc of (normalized, seen) \<Rightarrow>
        if v \<in> seen then acc else (normalized @ [v], insert v seen))"

definition normalizeIds :: "jstring list \<Rightarrow> jstring list" where
  "normalizeIds next_ids = fst (foldl id_step ([], {}) next_ids)"

definition ids_text :: "jstring list \<Rightarrow> jstring option" where
  "ids_text next_ids =
     (let normalized = normalizeIds next_ids
      in if normalized = [] then None else Some (stringify (JArr (map JStr normalized))))"

definition sanitizeInstrumentFilter :: "jstring list \<Rightarrow> jstring set \<Rightarrow> jstring list" where
  "sanitizeInstrumentFilter ids knownIds = filter (\<lambda>i. i \<in> knownIds) ids"

lemma normalize_fold: "foldl id_step ([], {}) xs = (first_seen xs, set xs)"
  by (induction xs rule: rev_induct) (auto simp: id_step_def first_seen_snoc insert_absorb)

lemma normalizeIds_eq: "normalizeIds xs = first_seen xs"
  by (simp add: normalizeIds_def normalize_fold)

lemma strings_of_strs: "strings_of (map JStr ids) = ids"
  by (induction ids) (simp_all add: strings_of_def List.map_filter_def)

lemma parseIds_stringify: "parseIds (Some (stringify (JArr (map JStr ids)))) = ids"
proof -
  have "stringify (JArr (map JStr ids)) \<noteq> []" by simp
  then show ?thesis unfolding parseIds_def by (simp add: or_null_def parse_stringify_strs strings_of_strs del: stringify.simps)
qed

context pref_slot
begin

lemma currency_kept:
  "ok s \<Longrightarrow> storable (currency_text c) \<Longrightarrow> currency_of (read (put (Some (currency_text c)) s)) = c"
  by (cases c) (simp_all add: read_put currency_of_def)

lemma tag_kept:
  "ok s \<Longrightarrow> (\<And>v. t = Some v \<Longrightarrow> storable v) \<Longrightarrow> tagFilter_of (read (put t s)) = Option.bind t or_null"
  by (cases t) (auto simp: read_put read_clear tagFilter_of_def)

lemma ids_kept:
  assumes "ok s" "storable (stringify (JArr (map JStr (first_seen ids))))"
  shows "parseIds (read (put (ids_text ids) s)) = first_seen ids"
proof (cases "first_seen ids = []")
  case True
  then show ?thesis using assms(1) by (simp add: ids_text_def normalizeIds_eq read_clear parseIds_def)
next
  case False
  then show ?thesis
    using assms by (simp add: ids_text_def normalizeIds_eq read_put parseIds_stringify del: stringify.simps)
qed

end

definition pref_ok :: "jstring \<Rightarrow> jstring \<Rightarrow> bool" where
  "pref_ok key v \<longleftrightarrow> valid_utf8 v \<and> fits key v"

lemma pref_names: "list_all (\<lambda>k. simple_name k \<and> length k \<le> 4096) PREF_KEYS"
  by code_simp

lemma pref_slot_cookie:
  assumes "key \<in> set PREF_KEYS"
  shows "pref_slot (readCookie True key) (writeCookie key) jar_ok (pref_ok key)"
proof -
  have "simple_name key" "length key \<le> 4096" using assms pref_names by (auto simp: list_all_iff)
  then show ?thesis
    by unfold_locales (simp_all add: read_write jar_ok_write pref_ok_def decode_stored_encoded)
qed

interpretation cookie_currency: pref_slot "readCookie True ''flowfolio.displayCurrency''"
  "writeCookie ''flowfolio.displayCurrency''" jar_ok "pref_ok ''flowfolio.displayCurrency''"
  by (rule pref_slot_cookie) (simp add: PREF_KEYS_def)

interpretation cookie_tag: pref_slot "readCookie True ''flowfolio.tagFilter''"
  "writeCookie ''flowfolio.tagFilter''" jar_ok "pref_ok ''flowfolio.tagFilter''"
  by (rule pref_slot_cookie) (simp add: PREF_KEYS_def)

interpretation cookie_ids: pref_slot "readCookie True ''flowfolio.instrumentFilter.networth''"
  "writeCookie ''flowfolio.instrumentFilter.networth''" jar_ok "pref_ok ''flowfolio.instrumentFilter.networth''"
  by (rule pref_slot_cookie) (simp add: PREF_KEYS_def)

section \<open>The hooks and their subscribers\<close>

text \<open>
  A listener is a number.  A set keeps its elements in the order they were added, and \<open>notify\<close>
  calls the listeners of a key in that order.
\<close>

type_synonym registry = "(jstring, nat list) jsmap"

definition getSubscribers :: "jstring \<Rightarrow> registry \<Rightarrow> registry" where
  "getSubscribers key subs = (if jm_has subs key then subs else jm_set key [] subs)"

definition subscribe :: "jstring \<Rightarrow> nat \<Rightarrow> registry \<Rightarrow> registry" where
  "subscribe key l subs =
     (let subs = getSubscribers key subs; ls = nullish (jm_get subs key) []
      in jm_set key (if l \<in> set ls then ls else ls @ [l]) subs)"

definition unsubscribe :: "jstring \<Rightarrow> nat \<Rightarrow> registry \<Rightarrow> registry" where
  "unsubscribe key l subs =
     (case jm_get subs key of None \<Rightarrow> subs | Some ls \<Rightarrow> jm_set key (filter (\<lambda>x. x \<noteq> l) ls) subs)"

definition notify :: "jstring \<Rightarrow> registry \<Rightarrow> nat list" where
  "notify key subs = nullish (jm_get subs key) []"

record browser =
  cookies :: jar
  localStorage :: "(jstring, jstring) jsmap"
  subscribers :: registry
  called :: "nat list"

definition setValue :: "jstring \<Rightarrow> jstring option \<Rightarrow> browser \<Rightarrow> browser" where
  "setValue key val b =
     b\<lparr>cookies := writeCookie key val (cookies b), called := called b @ notify key (subscribers b)\<rparr>"

text \<open>The value a component sees: the cookie, or while the server renders and the page hydrates the layout's map.\<close>

definition usePref :: "bool \<Rightarrow> (jstring, jstring) jsmap \<Rightarrow> jstring \<Rightarrow> jar \<Rightarrow> jstring option" where
  "usePref hydrating initial key jar = (if hydrating then jm_get initial key else readCookie True key jar)"

definition setTagFilter :: "jstring option \<Rightarrow> browser \<Rightarrow> browser" where
  "setTagFilter t = setValue ''flowfolio.tagFilter'' t"

definition setCurrency :: "currency \<Rightarrow> browser \<Rightarrow> browser" where
  "setCurrency c = setValue ''flowfolio.displayCurrency'' (Some (currency_text c))"

definition setInstrumentFilter :: "jstring list \<Rightarrow> browser \<Rightarrow> browser" where
  "setInstrumentFilter ids = setValue ''flowfolio.instrumentFilter.networth'' (ids_text ids)"

text \<open>One round of the migration, and the migration after the first render.\<close>

definition migrate_key :: "browser \<Rightarrow> jstring \<Rightarrow> browser" where
  "migrate_key b key =
     (if readCookie True key (cookies b) \<noteq> None then b
      else case jm_get (localStorage b) key of
             None \<Rightarrow> b
           | Some legacy \<Rightarrow>
               b\<lparr>cookies := writeCookie key (Some legacy) (cookies b),
                 localStorage := jm_delete key (localStorage b),
                 called := called b @ notify key (subscribers b)\<rparr>)"

definition migrate :: "browser \<Rightarrow> browser" where
  "migrate b = foldl migrate_key b PREF_KEYS"

text \<open>
  The layout on the server: the framework hands over name and value of every cookie, decoded
  already or not (\<open>framework\<close>), and the values of this application are decoded once more.
\<close>

definition pref_cookie :: "jstring \<times> jstring \<Rightarrow> bool" where
  "pref_cookie c = starts_with (fst c) ''flowfolio.''"

definition initialPrefs :: "(jstring \<Rightarrow> jstring) \<Rightarrow> jar \<Rightarrow> (jstring, jstring) jsmap" where
  "initialPrefs framework jar =
     foldl (\<lambda>m (n, v). jm_set n (decode_stored v) m) [] (filter pref_cookie (map (\<lambda>(n, v). (n, framework v)) jar))"

lemma subscribed_called:
  "notify key (subscribe key l subs) = (let ls = notify key subs in if l \<in> set ls then ls else ls @ [l])"
  "k' \<noteq> key \<Longrightarrow> notify k' (subscribe key l subs) = notify k' subs"
  by (auto simp: notify_def subscribe_def getSubscribers_def jm_has_def Let_def)

lemma subscriptions: "l \<in> set (notify key (subscribe key l subs))"
  "l \<notin> set (notify key (unsubscribe key l subs))"
proof -
  show "l \<in> set (notify key (subscribe key l subs))" by (simp add: subscribed_called Let_def)
  show "l \<notin> set (notify key (unsubscribe key l subs))"
    by (simp add: notify_def unsubscribe_def split: option.splits)
qed

lemma jm_collect: "jm_get (foldl (\<lambda>m (n, v). jm_set n (f v) m) m0 xs) k
    = (case map_of (rev xs) k of Some v \<Rightarrow> Some (f v) | None \<Rightarrow> jm_get m0 k)"
proof (induction xs arbitrary: m0)
  case (Cons x xs)
  then show ?case by (cases x) (auto simp: map_add_def split: option.splits)
qed simp

lemma initialPrefs_get:
  assumes "jm_wf jar" "starts_with key ''flowfolio.''"
  shows "jm_get (initialPrefs framework jar) key = map_option (\<lambda>v. decode_stored (framework v)) (jm_get jar key)"
proof -
  let ?xs = "filter pref_cookie (map (\<lambda>(n, v). (n, framework v)) jar)"
  have "map fst ?xs = filter (\<lambda>n. starts_with n ''flowfolio.'') (map fst jar)"
    by (induction jar) (auto simp: pref_cookie_def)
  then have d: "distinct (map fst ?xs)" using assms(1) by (simp add: jm_wf_def)
  have "map_of ?xs key = map_option framework (map_of jar key)"
    by (induction jar) (auto simp: pref_cookie_def assms(2))
  moreover have "map_of (rev ?xs) = map_of ?xs"
    using d by (intro map_of_inject_set [THEN iffD2]) (auto simp: rev_map [symmetric])
  ultimately have "map_of (rev ?xs) key = map_option framework (jm_get jar key)" by (simp add: jm_get_def)
  then show ?thesis
    unfolding initialPrefs_def by (cases "jm_get jar key") (simp_all add: jm_collect)
qed

lemma percent_free_decode: "CHR ''%'' \<notin> set s \<Longrightarrow> percent_decode s = Some s"
  by (induction s) auto

lemma decode_stored_plain: "CHR ''%'' \<notin> set s \<Longrightarrow> decode_stored s = s"
  by (simp add: decode_stored_def decodeURIComponent_def percent_free_decode)

lemma setValue_kept:
  assumes "jar_ok (cookies b)" "simple_name slot" "length slot \<le> 4096" "simple_name key"
  shows "jar_ok (cookies (setValue slot v b))" "localStorage (setValue slot v b) = localStorage b"
    "key \<noteq> slot \<Longrightarrow> usePref False m key (cookies (setValue slot v b)) = usePref False m key (cookies b)"
  using assms by (simp_all add: setValue_def jar_ok_write usePref_def read_write)

lemma setValue_told:
  "take (length (called b)) (called (setValue slot v b)) = called b"
  "l \<in> set (drop (length (called b)) (called (setValue slot v (b\<lparr>subscribers := subscribe slot l (subscribers b)\<rparr>))))"
  "l \<notin> set (drop (length (called b)) (called (setValue slot v (b\<lparr>subscribers := unsubscribe slot l (subscribers b)\<rparr>))))"
  "key \<noteq> slot \<Longrightarrow> called (setValue slot v (b\<lparr>subscribers := subscribe key l (subscribers b)\<rparr>)) = called (setValue slot v b)"
  using subscriptions by (simp_all add: setValue_def subscribed_called(2))

text \<open>
  C18: Preferences survive a reload.  On a well-formed cookie jar, after the setters ran, the hooks
  read the currency, the tag and the instrument ids that were set, the ids without repetitions and
  in the order of their first occurrence; clearing a tag or the ids leaves the default.  Whichever
  setter ran, every other cookie reads as before, the jar stays well formed, a component that has
  subscribed to the slot is told, one that has unsubscribed is not, and whoever subscribes to another
  slot makes no difference.
\<close>
theorem prefs_roundtrip:
  assumes "jar_ok (cookies b)"
    and "\<And>t. tag = Some t \<Longrightarrow> pref_ok ''flowfolio.tagFilter'' t"
    and "pref_ok ''flowfolio.instrumentFilter.networth'' (stringify (JArr (map JStr (first_seen ids))))"
    and "simple_name key"
  shows "currency_of (usePref False m ''flowfolio.displayCurrency'' (cookies (setCurrency c b))) = c
    \<and> tagFilter_of (usePref False m ''flowfolio.tagFilter'' (cookies (setTagFilter tag b))) = (if tag = Some [] then None else tag)
    \<and> parseIds (usePref False m ''flowfolio.instrumentFilter.networth'' (cookies (setInstrumentFilter ids b)))
        = first_seen ids
    \<and> (\<forall>(slot, put) \<in> {(''flowfolio.displayCurrency'', setCurrency c), (''flowfolio.tagFilter'', setTagFilter tag),
          (''flowfolio.instrumentFilter.networth'', setInstrumentFilter ids)}.
        jar_ok (cookies (put b))
        \<and> (key \<noteq> slot \<longrightarrow> usePref False m key (cookies (put b)) = usePref False m key (cookies b))
        \<and> take (length (called b)) (called (put b)) = called b
        \<and> l \<in> set (drop (length (called b)) (called (put (b\<lparr>subscribers := subscribe slot l (subscribers b)\<rparr>))))
        \<and> l \<notin> set (drop (length (called b)) (called (put (b\<lparr>subscribers := unsubscribe slot l (subscribers b)\<rparr>))))
        \<and> (key \<noteq> slot \<longrightarrow> called (put (b\<lparr>subscribers := subscribe key l (subscribers b)\<rparr>)) = called (put b)))"
proof -
  have "pref_ok ''flowfolio.displayCurrency'' ''EUR''" "pref_ok ''flowfolio.displayCurrency'' ''USD''" by code_simp+
  then have cur: "pref_ok ''flowfolio.displayCurrency'' (currency_text c)" by (cases c) simp_all
  have "Option.bind tag or_null = (if tag = Some [] then None else tag)" by (cases tag) (auto simp: or_null_def)
  then have tag_read: "tagFilter_of (readCookie True ''flowfolio.tagFilter'' (writeCookie ''flowfolio.tagFilter'' tag (cookies b)))
      = (if tag = Some [] then None else tag)"
    using cookie_tag.tag_kept [OF assms(1), of tag] assms(2) by simp
  have names: "simple_name s \<and> length s \<le> 4096"
    if "s \<in> {''flowfolio.displayCurrency'', ''flowfolio.tagFilter'', ''flowfolio.instrumentFilter.networth''}" for s
    using that pref_names by (auto simp: PREF_KEYS_def)
  have kept: "jar_ok (cookies (setValue s v b))
      \<and> (key \<noteq> s \<longrightarrow> usePref False m key (cookies (setValue s v b)) = usePref False m key (cookies b))"
    if "s \<in> {''flowfolio.displayCurrency'', ''flowfolio.tagFilter'', ''flowfolio.instrumentFilter.networth''}" for s v
    using setValue_kept [OF assms(1), where slot = s and key = key and v = v] names [OF that] assms(4) by simp
  show ?thesis
    using cookie_currency.currency_kept [OF assms(1) cur] tag_read cookie_ids.ids_kept [OF assms(1,3)] kept
    by (simp add: setCurrency_def setTagFilter_def setInstrumentFilter_def setValue_told)
      (simp add: usePref_def setValue_def split: if_splits)
qed

definition empty_browser :: browser where
  "empty_browser = \<lparr>cookies = [(''session'', ''x'')], localStorage = [], subscribers = [], called = []\<rparr>"

theorem prefs_roundtrip_witness:
  "parseIds (usePref False [] ''flowfolio.instrumentFilter.networth''
      (cookies (setInstrumentFilter [''b'', ''a'', ''b''] empty_browser))) = [''b'', ''a'']
   \<and> usePref False [] ''session'' (cookies (setCurrency USD empty_browser)) = usePref False [] ''session'' (cookies empty_browser)"
proof -
  have fs: "first_seen [''b'', ''a'', ''b''] = [''b'', ''a'']" by code_simp
  have "jar_ok (cookies empty_browser)"
    "pref_ok ''flowfolio.tagFilter'' ''growth''"
    "pref_ok ''flowfolio.instrumentFilter.networth'' (stringify (JArr (map JStr [''b'', ''a''])))"
    "simple_name ''session''"
    by code_simp+
  then show ?thesis
    using prefs_roundtrip [where b = empty_browser and ids = "[''b'', ''a'', ''b'']" and tag = "Some ''growth''"
        and key = "''session''" and m = "[]" and c = USD]
    unfolding fs by auto
qed

text \<open>
  The server renders what the browser will show.  For a preference whose text has no percent
  sign, what the layout hands down for hydration is what the browser reads from the cookie,
  whether or not the framework has decoded the value already.
\<close>
theorem server_first_render:
  assumes "jar_ok jar" and "key \<in> set PREF_KEYS" and "valid_utf8 v" and "CHR ''%'' \<notin> set v" and "fits key v"
    and "framework \<in> {\<lambda>s. s, decode_stored}"
  shows "usePref True (initialPrefs framework (writeCookie key (Some v) jar)) key (writeCookie key (Some v) jar)
      = usePref False [] key (writeCookie key (Some v) jar)
    \<and> usePref False [] key (writeCookie key (Some v) jar) = Some v"
proof -
  have key: "simple_name key" "length key \<le> 4096" using assms(2) pref_names by (auto simp: list_all_iff)
  have "list_all (\<lambda>k. starts_with k ''flowfolio.'') PREF_KEYS" by code_simp
  then have pre: "starts_with key ''flowfolio.''" using assms(2) by (auto simp: list_all_iff)
  let ?jar = "writeCookie key (Some v) jar"
  have ok: "jar_ok ?jar" using assms(1) key by (simp add: jar_ok_write)
  have get: "jm_get ?jar key = Some (encodeURIComponent v)" using key assms(5) by (simp add: writeCookie_some)
  have "decode_stored (framework (encodeURIComponent v)) = v"
    using assms(3,4,6) by (auto simp: decode_stored_encoded decode_stored_plain)
  then show ?thesis
    using ok initialPrefs_get [OF _ pre] read_jar [OF ok key(1)] get
    by (simp add: usePref_def jar_ok_def decode_stored_encoded assms(3))
qed

theorem server_first_render_witness:
  "usePref True (initialPrefs decode_stored (writeCookie ''flowfolio.tagFilter'' (Some ''a b'') []))
     ''flowfolio.tagFilter'' [] = Some ''a b''"
proof -
  have "jar_ok []" "''flowfolio.tagFilter'' \<in> set PREF_KEYS" "valid_utf8 ''a b''" "CHR ''%'' \<notin> set ''a b''"
    "fits ''flowfolio.tagFilter'' ''a b''"
    by code_simp+
  then show ?thesis
    using server_first_render [of "[]" "''flowfolio.tagFilter''" "''a b''" decode_stored]
    by (simp add: usePref_def)
qed

section \<open>How many instruments a filter can hold\<close>

definition uuid_chars :: jstring where
  "uuid_chars = ''0123456789abcdef-''"

definition uuid_like :: "jstring \<Rightarrow> bool" where
  "uuid_like i \<longleftrightarrow> length i = 36 \<and> list_all (\<lambda>c. c \<in> set uuid_chars) i"

lemma encode_append: "encodeURIComponent (s @ t) = encodeURIComponent s @ encodeURIComponent t"
  by (simp add: encodeURIComponent_def)

lemma uuid_char_escape: "c \<in> set uuid_chars \<Longrightarrow> escape_char c = [c] \<and> encode_byte c = [c]"
proof -
  have "list_all (\<lambda>c. escape_char c = [c] \<and> encode_byte c = [c]) uuid_chars" by code_simp
  then show "c \<in> set uuid_chars \<Longrightarrow> ?thesis" by (auto simp: list_all_iff)
qed

lemma encode_uuid: "uuid_like i \<Longrightarrow> length (encodeURIComponent (quote_str i)) = 42"
proof -
  assume h: "uuid_like i"
  have "concat (map escape_char t) = t \<and> encodeURIComponent t = t" if "list_all (\<lambda>c. c \<in> set uuid_chars) t" for t
    using that by (induction t) (auto simp: uuid_char_escape encodeURIComponent_def)
  then have "concat (map escape_char i) = i" "encodeURIComponent i = i" using h by (simp_all add: uuid_like_def)
  moreover have "quote_str i = [quote_char] @ concat (map escape_char i) @ [quote_char]" by (simp add: quote_str_def)
  moreover have "length (encodeURIComponent [quote_char]) = 3" by code_simp
  ultimately show ?thesis using h by (simp only: encode_append length_append) (simp add: uuid_like_def)
qed

lemma encode_uuids:
  "ids \<noteq> [] \<Longrightarrow> list_all uuid_like ids \<Longrightarrow>
    length (encodeURIComponent (js_join '','' (map quote_str ids))) + 3 = 45 * length ids"
proof (induction ids rule: induct_list012)
  case (3 i j ids)
  have "length (encodeURIComponent '','') = 3" by code_simp
  moreover have "js_join '','' (map quote_str (i # j # ids)) = quote_str i @ '','' @ js_join '','' (map quote_str (j # ids))"
    by simp
  ultimately have "length (encodeURIComponent (js_join '','' (map quote_str (i # j # ids))))
      = 45 + length (encodeURIComponent (js_join '','' (map quote_str (j # ids))))"
    using 3 by (simp only: encode_append length_append) (simp add: encode_uuid)
  then show ?case using 3 by (simp del: js_join.simps)
qed (simp_all add: encode_uuid)

lemma filter_length:
  assumes "ids \<noteq> []" "list_all uuid_like ids"
  shows "length (encodeURIComponent (stringify (JArr (map JStr ids)))) = 45 * length ids + 3"
proof -
  have "stringify (JArr (map JStr ids)) = ''['' @ js_join '','' (map quote_str ids) @ '']''" by (simp add: o_def)
  moreover have "length (encodeURIComponent ''['') = 3" "length (encodeURIComponent '']'') = 3" by code_simp+
  ultimately show ?thesis using encode_uuids [OF assms] by (simp only: encode_append length_append)
qed

text \<open>
  A filter of at most 90 instruments is kept, a larger one is lost.  The ids are UUIDs, and a
  cookie holds 4096 octets: setting 91 or more distinct ids leaves the cookies as they were, so the
  selection on screen stays at what it was before.
\<close>
theorem instrument_filter_limit:
  assumes "list_all uuid_like ids" and "distinct ids" and "ids \<noteq> []"
  shows "(cookies (setInstrumentFilter ids b) = cookies b
          \<or> jm_get (cookies (setInstrumentFilter ids b)) ''flowfolio.instrumentFilter.networth''
            = Some (encodeURIComponent (stringify (JArr (map JStr ids)))))
    \<and> (90 < length ids \<longrightarrow> cookies (setInstrumentFilter ids b) = cookies b)
    \<and> (length ids \<le> 90 \<longrightarrow>
        jm_get (cookies (setInstrumentFilter ids b)) ''flowfolio.instrumentFilter.networth''
          = Some (encodeURIComponent (stringify (JArr (map JStr ids)))))"
proof -
  have name: "simple_name ''flowfolio.instrumentFilter.networth''" by code_simp
  have "first_seen ids = ids" using assms(2) by (simp add: first_seen_def distinct_remdups_id)
  then have "ids_text ids = Some (stringify (JArr (map JStr ids)))"
    using assms(3) by (simp add: ids_text_def normalizeIds_eq)
  moreover have "fits ''flowfolio.instrumentFilter.networth'' (stringify (JArr (map JStr ids))) \<longleftrightarrow> length ids \<le> 90"
  proof -
    have "length ''flowfolio.instrumentFilter.networth'' + (45 * n + 3) \<le> 4096 \<longleftrightarrow> n \<le> 90" for n :: nat
      by simp presburger
    then show ?thesis by (simp only: fits_def filter_length [OF assms(3,1)])
  qed
  ultimately show ?thesis
    by (simp add: setInstrumentFilter_def setValue_def writeCookie_some name del: stringify.simps)
qed

definition hex_lower_digit :: "nat \<Rightarrow> char" where
  "hex_lower_digit n = uuid_chars ! n"

definition some_uuid :: "nat \<Rightarrow> jstring" where
  "some_uuid n = ''00000000-0000-4000-8000-0000000000'' @ [hex_lower_digit (n div 16), hex_lower_digit (n mod 16)]"

lemma some_uuids: "list_all uuid_like (map some_uuid [0 ..< 91])" "distinct (map some_uuid [0 ..< 91])"
proof -
  have 1: "list_all (\<lambda>c. c \<in> set uuid_chars) ''00000000-0000-4000-8000-0000000000''" by code_simp
  have len: "length uuid_chars = 17" "distinct uuid_chars" by code_simp+
  have "hex_lower_digit n \<in> set uuid_chars" if "n < 16" for n
    using that len by (simp add: hex_lower_digit_def)
  with 1 show "list_all uuid_like (map some_uuid [0 ..< 91])"
    by (auto simp: list_all_iff uuid_like_def some_uuid_def)
  have "m = n" if "some_uuid m = some_uuid n" "m < 91" "n < 91" for m n
  proof -
    have "m div 16 = n div 16" "m mod 16 = n mod 16"
      using that len by (auto simp: some_uuid_def hex_lower_digit_def nth_eq_iff_index_eq)
    then show ?thesis by (metis div_mult_mod_eq)
  qed
  then show "distinct (map some_uuid [0 ..< 91])" by (auto simp: distinct_map inj_on_def)
qed

theorem instrument_filter_limit_witness:
  "cookies (setInstrumentFilter (map some_uuid [0 ..< 91]) empty_browser) = cookies empty_browser"
proof -
  have "map some_uuid [0 ..< 91] \<noteq> []" "90 < length (map some_uuid [0 ..< 91])" by simp_all
  then show ?thesis
    using instrument_filter_limit [OF some_uuids, of empty_browser] by blast
qed

section \<open>The migration\<close>

text \<open>
  What the browser shows for a key after the migration: the cookie if there was one, otherwise the
  value of the old store, if a cookie can hold it.
\<close>

lemma migrate_key_reads:
  assumes "jar_ok (cookies b)" "key \<in> set PREF_KEYS" "k \<in> set PREF_KEYS"
    and "\<And>v. jm_get (localStorage b) key = Some v \<Longrightarrow> pref_ok key v"
  shows "jar_ok (cookies (migrate_key b key))
    \<and> (k \<noteq> key \<longrightarrow> readCookie True k (cookies (migrate_key b key)) = readCookie True k (cookies b)
        \<and> jm_get (localStorage (migrate_key b key)) k = jm_get (localStorage b) k)
    \<and> readCookie True key (cookies (migrate_key b key))
      = (case readCookie True key (cookies b) of Some v \<Rightarrow> Some v | None \<Rightarrow> jm_get (localStorage b) key)"
proof -
  have "simple_name key" "length key \<le> 4096" "simple_name k" using assms(2,3) pref_names by (auto simp: list_all_iff)
  then show ?thesis
    using assms(1,4)
    by (auto simp: migrate_key_def jar_ok_write read_write pref_ok_def decode_stored_encoded split: option.splits)
qed

lemma migrate_fold:
  "jar_ok (cookies b) \<Longrightarrow> distinct ks \<Longrightarrow> set ks \<subseteq> set PREF_KEYS \<Longrightarrow> k \<in> set PREF_KEYS \<Longrightarrow>
    (\<And>key v. key \<in> set ks \<Longrightarrow> jm_get (localStorage b) key = Some v \<Longrightarrow> pref_ok key v) \<Longrightarrow>
    readCookie True k (cookies (foldl migrate_key b ks))
      = (if k \<in> set ks
         then (case readCookie True k (cookies b) of Some v \<Rightarrow> Some v | None \<Rightarrow> jm_get (localStorage b) k)
         else readCookie True k (cookies b))"
proof (induction ks arbitrary: b)
  case (Cons key ks)
  have key: "key \<in> set PREF_KEYS" and ok: "\<And>v. jm_get (localStorage b) key = Some v \<Longrightarrow> pref_ok key v"
    using Cons.prems by auto
  note step = migrate_key_reads [OF Cons.prems(1) key _ ok]
  have "readCookie True k (cookies (foldl migrate_key (migrate_key b key) ks))
      = (if k \<in> set ks
         then (case readCookie True k (cookies (migrate_key b key)) of Some v \<Rightarrow> Some v
               | None \<Rightarrow> jm_get (localStorage (migrate_key b key)) k)
         else readCookie True k (cookies (migrate_key b key)))"
  proof (rule Cons.IH)
    show "jar_ok (cookies (migrate_key b key))" using step [OF key] by simp
    show "pref_ok a v" if "a \<in> set ks" "jm_get (localStorage (migrate_key b key)) a = Some v" for a v
    proof -
      have "a \<noteq> key" "a \<in> set PREF_KEYS" using that(1) Cons.prems(2,3) by auto
      then have "jm_get (localStorage b) a = Some v" using step [of a] that(2) by simp
      then show ?thesis using Cons.prems(5) that(1) by simp
    qed
  qed (use Cons.prems in auto)
  then show ?case
    using step [OF key] step [OF Cons.prems(4)] Cons.prems(2) by (auto split: option.split)
qed simp

lemma migration_reads:
  assumes "jar_ok (cookies b)" "k \<in> set PREF_KEYS"
    and "\<And>key v. key \<in> set PREF_KEYS \<Longrightarrow> jm_get (localStorage b) key = Some v \<Longrightarrow> pref_ok key v"
  shows "readCookie True k (cookies (migrate b))
      = (case readCookie True k (cookies b) of Some v \<Rightarrow> Some v | None \<Rightarrow> jm_get (localStorage b) k)"
proof -
  have "distinct PREF_KEYS" by code_simp
  then show ?thesis using migrate_fold [OF assms(1) _ _ assms(2), of PREF_KEYS] assms(2,3) by (simp add: migrate_def)
qed

end
