(* ===== verification/HoldingsAgg.thy ===== *)
theory HoldingsAgg
  imports Format
begin

text \<open>
  \<open>frontend/lib/holdings-aggregation.ts\<close> and \<open>frontend/lib/instrument-aggregation.ts\<close>: the rows of
  the performance endpoint, one per account and instrument, rolled up into one row per
  instrument for the table and into one headline summary for the instrument page.  All sums are
  sums of doubles in the order of the rows, as in the code.
\<close>

section \<open>Rows\<close>

datatype RowStatus = OpenRow | ClosedRow

text \<open>
  The optional fields hold \<open>None\<close> for \<open>null\<close> and for a field left out; the code treats the two
  alike.
\<close>

record PerfHoldingRow =
  ph_account_id :: jstring
  ph_account_name :: jstring
  ph_instrument_id :: jstring
  ph_instrument_symbol :: jstring
  ph_instrument_name :: jstring
  ph_instrument_type :: jstring
  ph_display_decimals :: "nat option"
  ph_risk_level :: "jstring option"
  ph_is_banked :: bool
  ph_quantity :: jstring
  ph_avg_cost :: "jstring option"
  ph_current_price :: "jstring option"
  ph_current_price_fetched_at :: "jstring option"
  ph_percent_return :: "jstring option"
  ph_realized_eur :: "jstring option"
  ph_twrr :: "jstring option"
  ph_twrr_annualized :: bool
  ph_twrr_period_days :: "int option"
  ph_twrr_reason :: "jstring option"
  ph_status :: "RowStatus option"
  ph_last_close :: "jstring option"
  ph_last_close_date :: "jstring option"
  ph_twrr_window_days :: "int option"

record AggregatedHoldingRow =
  ah_instrument_id :: jstring
  ah_instrument_symbol :: jstring
  ah_instrument_name :: jstring
  ah_instrument_type :: jstring
  ah_display_decimals :: "nat option"
  ah_risk_level :: "jstring option"
  ah_is_banked :: bool
  ah_quantity :: jstring
  ah_avg_cost :: "jstring option"
  ah_current_price :: "jstring option"
  ah_current_price_fetched_at :: "jstring option"
  ah_percent_return :: "jstring option"
  ah_realized_eur :: "jstring option"
  ah_twrr :: "jstring option"
  ah_twrr_annualized :: bool
  ah_twrr_period_days :: "int option"
  ah_twrr_reason :: "jstring option"
  ah_status :: RowStatus
  ah_last_close :: "jstring option"
  ah_last_close_date :: "jstring option"
  ah_twrr_window_days :: "int option"

record TwrrPick =
  tp_value :: "jstring option"
  tp_period_days :: "int option"
  tp_annualized :: bool
  tp_reason :: "jstring option"

section \<open>String comparison\<close>

text \<open>\<open>a < b\<close> on strings compares code units in order.\<close>

fun js_str_lt :: "jstring \<Rightarrow> jstring \<Rightarrow> bool" where
  "js_str_lt s [] = False"
| "js_str_lt [] (c # t) = True"
| "js_str_lt (a # s) (b # t) =
     ((of_char a :: nat) < of_char b \<or> a = b \<and> js_str_lt s t)"

lemma js_str_lt_irrefl [simp]: "\<not> js_str_lt s s"
  by (induction s) auto

lemma js_str_lt_trans: "js_str_lt a b \<Longrightarrow> js_str_lt b c \<Longrightarrow> js_str_lt a c"
proof (induction a b arbitrary: c rule: js_str_lt.induct)
  case (2 x t)
  then show ?case by (cases c) auto
next
  case (3 a s b t)
  then show ?case by (cases c) auto
qed simp

lemma js_str_lt_linear: "a \<noteq> b \<Longrightarrow> js_str_lt a b \<or> js_str_lt b a"
proof (induction a b rule: js_str_lt.induct)
  case (1 s)
  then show ?case by (cases s) auto
next
  case (3 a s b t)
  have "(of_char a :: nat) = of_char b \<Longrightarrow> a = b" by simp
  with 3 show ?case by auto
qed simp

section \<open>Sums over rows\<close>

definition is_open :: "PerfHoldingRow \<Rightarrow> bool" where
  "is_open r \<longleftrightarrow> ph_status r \<noteq> Some ClosedRow"

definition open_rows :: "PerfHoldingRow list \<Rightarrow> PerfHoldingRow list" where
  "open_rows rows = filter is_open rows"

definition closed_rows :: "PerfHoldingRow list \<Rightarrow> PerfHoldingRow list" where
  "closed_rows rows = filter (\<lambda>r. \<not> is_open r) rows"

text \<open>\<open>total += v\<close> over the finite values of a list.\<close>

definition sum_finite :: "jsnum list \<Rightarrow> jsnum" where
  "sum_finite vs = foldl js_add (Num 0) (filter is_finite vs)"

definition qty_of :: "PerfHoldingRow \<Rightarrow> jsnum" where
  "qty_of r = toDisplayNumber (Some (ph_quantity r))"

text \<open>The guard \<open>!Number.isFinite(q) || q <= 0\<close> that skips a row.\<close>

definition counts :: "PerfHoldingRow \<Rightarrow> bool" where
  "counts r \<longleftrightarrow> is_finite (qty_of r) \<and> \<not> js_le (qty_of r) (Num 0)"

text \<open>A decimal field that is there and reads as a finite number.\<close>

definition finite_field :: "jstring option \<Rightarrow> jsnum option" where
  "finite_field v =
     (case v of None \<Rightarrow> None
      | Some s \<Rightarrow> let n = toDisplayNumber (Some s) in if is_finite n then Some n else None)"

text \<open>The loop over the cost of the open rows.\<close>

record CostAcc =
  ca_weighted :: jsnum
  ca_qty :: jsnum
  ca_complete :: bool

definition cost_step :: "CostAcc \<Rightarrow> PerfHoldingRow \<Rightarrow> CostAcc" where
  "cost_step acc r =
     (if \<not> counts r then acc
      else case finite_field (ph_avg_cost r) of
        None \<Rightarrow> acc\<lparr> ca_complete := False \<rparr>
      | Some ac \<Rightarrow>
          acc\<lparr> ca_weighted := js_add (ca_weighted acc) (js_mul (qty_of r) ac),
               ca_qty := js_add (ca_qty acc) (qty_of r) \<rparr>)"

definition cost_loop :: "PerfHoldingRow list \<Rightarrow> CostAcc" where
  "cost_loop rows =
     foldl cost_step \<lparr> ca_weighted = Num 0, ca_qty = Num 0, ca_complete = True \<rparr> rows"

text \<open>The loop over the prices of the open rows: the price shown and its age move together.\<close>

record PriceAcc =
  pa_fetched :: "jstring option"
  pa_price :: "jstring option"
  pa_value :: jsnum
  pa_complete :: bool

definition pick_price :: "PriceAcc \<Rightarrow> PerfHoldingRow \<Rightarrow> PriceAcc" where
  "pick_price acc r =
     (case Option.bind (ph_current_price_fetched_at r) or_null of
        Some f \<Rightarrow>
          if (case pa_fetched acc of None \<Rightarrow> True | Some l \<Rightarrow> js_str_lt l f)
          then acc\<lparr> pa_fetched := Some f, pa_price := ph_current_price r \<rparr>
          else if pa_price acc = None then acc\<lparr> pa_price := ph_current_price r \<rparr> else acc
      | None \<Rightarrow> if pa_price acc = None then acc\<lparr> pa_price := ph_current_price r \<rparr> else acc)"

definition price_step :: "PriceAcc \<Rightarrow> PerfHoldingRow \<Rightarrow> PriceAcc" where
  "price_step acc r =
     (if \<not> counts r then acc
      else case finite_field (ph_current_price r) of
        None \<Rightarrow> acc\<lparr> pa_complete := False \<rparr>
      | Some cp \<Rightarrow> pick_price (acc\<lparr> pa_value := js_add (pa_value acc) (js_mul (qty_of r) cp) \<rparr>) r)"

definition price_loop :: "PerfHoldingRow list \<Rightarrow> PriceAcc" where
  "price_loop rows =
     foldl price_step \<lparr> pa_fetched = None, pa_price = None, pa_value = Num 0, pa_complete = True \<rparr> rows"

text \<open>The sum of the realized gains, over open and closed rows.\<close>

definition realized_values :: "PerfHoldingRow list \<Rightarrow> jsnum list" where
  "realized_values rows = List.map_filter (\<lambda>r. finite_field (ph_realized_eur r)) rows"

definition realized_sum :: "PerfHoldingRow list \<Rightarrow> jsnum option" where
  "realized_sum rows =
     (if realized_values rows = [] then None
      else Some (foldl js_add (Num 0) (realized_values rows)))"

section \<open>The time-weighted return shown\<close>

definition twrr_of :: "PerfHoldingRow \<Rightarrow> TwrrPick" where
  "twrr_of r =
     \<lparr> tp_value = ph_twrr r, tp_period_days = ph_twrr_period_days r,
       tp_annualized = ph_twrr_annualized r, tp_reason = ph_twrr_reason r \<rparr>"

definition twrr_step :: "TwrrPick option \<Rightarrow> PerfHoldingRow \<Rightarrow> TwrrPick option" where
  "twrr_step best r =
     (if ph_twrr r = None then best
      else case best of
        None \<Rightarrow> Some (twrr_of r)
      | Some b \<Rightarrow>
          if nullish (tp_period_days b) 0 < nullish (ph_twrr_period_days r) 0
          then Some (twrr_of r) else best)"

definition first_reason :: "PerfHoldingRow list \<Rightarrow> jstring option" where
  "first_reason rows =
     Option.bind (find (\<lambda>r. Option.bind (ph_twrr_reason r) or_null \<noteq> None) rows) ph_twrr_reason"

definition no_twrr :: "jstring option \<Rightarrow> TwrrPick" where
  "no_twrr reason =
     \<lparr> tp_value = None, tp_period_days = None, tp_annualized = False, tp_reason = reason \<rparr>"

definition pickBestTwrr :: "PerfHoldingRow list \<Rightarrow> TwrrPick" where
  "pickBestTwrr openRows =
     (case foldl twrr_step None openRows of
        Some b \<Rightarrow> b
      | None \<Rightarrow> if openRows = [] then no_twrr None else no_twrr (first_reason openRows))"

section \<open>One row per instrument\<close>

definition weighted_avg_cost :: "PerfHoldingRow list \<Rightarrow> jsnum option" where
  "weighted_avg_cost openRows =
     (let c = cost_loop openRows
      in if js_lt (Num 0) (ca_qty c) then Some (js_div (ca_weighted c) (ca_qty c)) else None)"

definition group_percent_return :: "PerfHoldingRow list \<Rightarrow> jstring option" where
  "group_percent_return openRows =
     (let c = cost_loop openRows; p = price_loop openRows
      in case weighted_avg_cost openRows of
           None \<Rightarrow> None
         | Some w \<Rightarrow>
             if openRows \<noteq> [] \<and> ca_complete c \<and> pa_complete p \<and> js_lt (Num 0) (ca_qty c)
             then let cost_basis = js_mul (ca_qty c) w
                  in if js_lt (Num 0) cost_basis
                     then Some (number_to_str (js_div (js_sub (pa_value p) cost_basis) cost_basis))
                     else None
             else None)"

definition aggregateGroup :: "PerfHoldingRow list \<Rightarrow> AggregatedHoldingRow" where
  "aggregateGroup grp =
     (let openRows = open_rows grp; closedRows = closed_rows grp;
          anyOpen = openRows \<noteq> []; first = hd grp;
          p = price_loop openRows; best = pickBestTwrr openRows;
          closed_of = (\<lambda>f. if \<not> anyOpen \<and> closedRows \<noteq> [] then f (hd closedRows) else None)
      in \<lparr> ah_instrument_id = ph_instrument_id first,
           ah_instrument_symbol = ph_instrument_symbol first,
           ah_instrument_name = ph_instrument_name first,
           ah_instrument_type = ph_instrument_type first,
           ah_display_decimals = ph_display_decimals first,
           ah_risk_level = ph_risk_level first,
           ah_is_banked = ph_is_banked first,
           ah_quantity = number_to_str (sum_finite (map qty_of grp)),
           ah_avg_cost = map_option number_to_str (weighted_avg_cost openRows),
           ah_current_price = pa_price p,
           ah_current_price_fetched_at = pa_fetched p,
           ah_percent_return = group_percent_return openRows,
           ah_realized_eur = map_option number_to_str (realized_sum grp),
           ah_twrr = tp_value best,
           ah_twrr_annualized = tp_annualized best,
           ah_twrr_period_days = tp_period_days best,
           ah_twrr_reason = tp_reason best,
           ah_status = (if anyOpen then OpenRow else ClosedRow),
           ah_last_close = closed_of ph_last_close,
           ah_last_close_date = closed_of ph_last_close_date,
           ah_twrr_window_days = (if \<not> anyOpen \<and> closedRows \<noteq> []
              then ph_twrr_window_days (hd closedRows) else None) \<rparr>)"

text \<open>The map of groups; a new key is appended to \<open>order\<close>, which is the map's own order.\<close>

definition group_step ::
  "(jstring, PerfHoldingRow list) jsmap \<times> jstring list \<Rightarrow> PerfHoldingRow \<Rightarrow>
   (jstring, PerfHoldingRow list) jsmap \<times> jstring list" where
  "group_step go r =
     (let (groups, order) = go; i = ph_instrument_id r
      in case jm_get groups i of
           Some list \<Rightarrow> (jm_set i (list @ [r]) groups, order)
         | None \<Rightarrow> (jm_set i [r] groups, order @ [i]))"

definition aggregateHoldingsByInstrument :: "PerfHoldingRow list \<Rightarrow> AggregatedHoldingRow list" where
  "aggregateHoldingsByInstrument rows =
     (let (groups, order) = foldl group_step ([], []) rows
      in map (\<lambda>i. aggregateGroup (nullish (jm_get groups i) [])) order)"

section \<open>The headline of one instrument\<close>

record InstrumentAggregate =
  ia_total_quantity :: jsnum
  ia_weighted_avg_cost :: "jsnum option"
  ia_market_value :: "jsnum option"
  ia_cost_basis :: "jsnum option"
  ia_unrealized :: "jsnum option"
  ia_unrealized_pct :: "jsnum option"
  ia_realized_total :: "jsnum option"
  ia_best_twrr :: "TwrrPick option"
  ia_latest_price_fetched_at :: "jstring option"
  ia_open_count :: nat
  ia_closed_count :: nat

record HeadAcc =
  hd_qty :: jsnum
  hd_weighted :: jsnum
  hd_cost :: jsnum
  hd_cost_complete :: bool
  hd_value :: jsnum
  hd_value_complete :: bool
  hd_fetched :: "jstring option"

definition head_cost :: "HeadAcc \<Rightarrow> PerfHoldingRow \<Rightarrow> HeadAcc" where
  "head_cost acc r =
     (case finite_field (ph_avg_cost r) of
        None \<Rightarrow> acc\<lparr> hd_cost_complete := False \<rparr>
      | Some ac \<Rightarrow>
          acc\<lparr> hd_weighted := js_add (hd_weighted acc) (js_mul (qty_of r) ac),
               hd_cost := js_add (hd_cost acc) (js_mul (qty_of r) ac) \<rparr>)"

definition head_price :: "HeadAcc \<Rightarrow> PerfHoldingRow \<Rightarrow> HeadAcc" where
  "head_price acc r =
     (case finite_field (ph_current_price r) of
        None \<Rightarrow> acc\<lparr> hd_value_complete := False \<rparr>
      | Some cp \<Rightarrow>
          acc\<lparr> hd_value := js_add (hd_value acc) (js_mul (qty_of r) cp),
               hd_fetched :=
                 (case Option.bind (ph_current_price_fetched_at r) or_null of
                    None \<Rightarrow> hd_fetched acc
                  | Some f \<Rightarrow>
                      if (case hd_fetched acc of None \<Rightarrow> True | Some l \<Rightarrow> js_str_lt l f)
                      then Some f else hd_fetched acc) \<rparr>)"

definition head_step :: "HeadAcc \<Rightarrow> PerfHoldingRow \<Rightarrow> HeadAcc" where
  "head_step acc r =
     (if \<not> counts r then acc
      else head_price (head_cost (acc\<lparr> hd_qty := js_add (hd_qty acc) (qty_of r) \<rparr>) r) r)"

definition head_loop :: "PerfHoldingRow list \<Rightarrow> HeadAcc" where
  "head_loop rows =
     foldl head_step
       \<lparr> hd_qty = Num 0, hd_weighted = Num 0, hd_cost = Num 0, hd_cost_complete = True,
         hd_value = Num 0, hd_value_complete = True, hd_fetched = None \<rparr> rows"

definition aggregateInstrument :: "PerfHoldingRow list \<Rightarrow> InstrumentAggregate" where
  "aggregateInstrument rows =
     (let openRows = open_rows rows; h = head_loop openRows;
          held = js_lt (Num 0) (hd_qty h);
          cost_basis = (if hd_cost_complete h \<and> held then Some (hd_cost h) else None);
          market_value = (if hd_value_complete h \<and> held then Some (hd_value h) else None);
          unrealized = (case (market_value, cost_basis) of
                          (Some m, Some c) \<Rightarrow> Some (js_sub m c) | _ \<Rightarrow> None);
          pct = (case (unrealized, cost_basis) of
                   (Some u, Some c) \<Rightarrow> if js_lt (Num 0) c then Some (js_div u c) else None
                 | _ \<Rightarrow> None);
          best = foldl twrr_step None openRows
      in \<lparr> ia_total_quantity = hd_qty h,
           ia_weighted_avg_cost = (if held then Some (js_div (hd_weighted h) (hd_qty h)) else None),
           ia_market_value = market_value,
           ia_cost_basis = cost_basis,
           ia_unrealized = unrealized,
           ia_unrealized_pct = pct,
           ia_realized_total = realized_sum rows,
           ia_best_twrr = (if best = None \<and> openRows \<noteq> []
                           then Some (no_twrr (first_reason openRows)) else best),
           ia_latest_price_fetched_at = hd_fetched h,
           ia_open_count = length openRows,
           ia_closed_count = length (closed_rows rows) \<rparr>)"

section \<open>Groups\<close>

definition rows_of :: "jstring \<Rightarrow> PerfHoldingRow list \<Rightarrow> PerfHoldingRow list" where
  "rows_of i rows = filter (\<lambda>r. ph_instrument_id r = i) rows"

lemma group_fold:
  "foldl group_step ([], []) rows = (gs, order) \<Longrightarrow>
    order = first_seen (map ph_instrument_id rows)
    \<and> (\<forall>i. jm_get gs i = (if rows_of i rows = [] then None else Some (rows_of i rows)))"
proof (induction rows arbitrary: gs order rule: rev_induct)
  case Nil
  then show ?case by (simp add: rows_of_def)
next
  case (snoc r rows)
  obtain gs0 order0 where 0: "foldl group_step ([], []) rows = (gs0, order0)"
    by (cases "foldl group_step ([], []) rows")
  note IH = snoc.IH [OF 0]
  let ?i = "ph_instrument_id r"
  have seen: "?i \<in> ph_instrument_id ` set rows \<longleftrightarrow> rows_of ?i rows \<noteq> []"
    unfolding rows_of_def filter_empty_conv image_iff by metis
  have app: "rows_of i (rows @ [r]) = rows_of i rows @ (if ?i = i then [r] else [])" for i
    by (simp add: rows_of_def)
  have step: "group_step (gs0, order0) r = (gs, order)" using snoc.prems 0 by simp
  show ?case
  proof (cases "rows_of ?i rows = []")
    case True
    then have "jm_get gs0 ?i = None" using IH by simp
    with step have "gs = jm_set ?i [r] gs0" "order = order0 @ [?i]"
      by (auto simp: group_step_def Let_def)
    then show ?thesis using IH seen True by (simp add: first_seen_snoc app)
  next
    case False
    then have "jm_get gs0 ?i = Some (rows_of ?i rows)" using IH by simp
    with step have "gs = jm_set ?i (rows_of ?i rows @ [r]) gs0" "order = order0"
      by (auto simp: group_step_def Let_def)
    then show ?thesis using IH seen False by (simp add: first_seen_snoc app)
  qed
qed

lemma aggregate_as_map:
  "aggregateHoldingsByInstrument rows =
     map (\<lambda>i. aggregateGroup (rows_of i rows)) (first_seen (map ph_instrument_id rows))"
proof -
  obtain gs order where f: "foldl group_step ([], []) rows = (gs, order)"
    by (cases "foldl group_step ([], []) rows")
  have "jm_get gs i = Some (rows_of i rows)" if "i \<in> ph_instrument_id ` set rows" for i
    using that group_fold [OF f] by (auto simp: rows_of_def filter_empty_conv)
  then show ?thesis
    using group_fold [OF f] by (auto simp: aggregateHoldingsByInstrument_def f nullish_def)
qed

lemma hd_rows_of: "i \<in> ph_instrument_id ` set rows \<Longrightarrow> ph_instrument_id (hd (rows_of i rows)) = i"
  by (induction rows) (auto simp: rows_of_def)

section \<open>Loops\<close>

definition contributes_price :: "PerfHoldingRow \<Rightarrow> bool" where
  "contributes_price r \<longleftrightarrow> counts r \<and> finite_field (ph_current_price r) \<noteq> None"

definition fetched_at :: "PerfHoldingRow \<Rightarrow> jstring option" where
  "fetched_at r = Option.bind (ph_current_price_fetched_at r) or_null"

text \<open>What the price loop has picked after some rows.\<close>

definition price_picked :: "PerfHoldingRow list \<Rightarrow> PriceAcc \<Rightarrow> bool" where
  "price_picked rows a \<longleftrightarrow>
     (case pa_fetched a of
        None \<Rightarrow> (\<forall>r \<in> set rows. contributes_price r \<longrightarrow> fetched_at r = None)
          \<and> pa_price a = Option.bind (find contributes_price rows) ph_current_price
      | Some f \<Rightarrow>
          (\<exists>r \<in> set rows. contributes_price r \<and> pa_price a = ph_current_price r \<and> fetched_at r = Some f)
          \<and> (\<forall>r \<in> set rows. \<forall>g. contributes_price r \<longrightarrow> fetched_at r = Some g \<longrightarrow> \<not> js_str_lt f g))"

lemma find_snoc: "find P (xs @ [x]) = (case find P xs of None \<Rightarrow> (if P x then Some x else None) | Some y \<Rightarrow> Some y)"
  by (induction xs) auto

lemma finite_field_Some: "finite_field v = Some n \<Longrightarrow> \<exists>s. v = Some s"
  by (auto simp: finite_field_def split: option.splits)

lemma contributing_price: "contributes_price r \<Longrightarrow> \<exists>s. ph_current_price r = Some s"
  by (auto simp: contributes_price_def dest: finite_field_Some)

lemma find_price:
  "Option.bind (find contributes_price rows) ph_current_price = None \<longleftrightarrow> find contributes_price rows = None"
proof (cases "find contributes_price rows")
  case (Some r)
  then have "contributes_price r" by (auto simp: find_Some_iff)
  then show ?thesis using Some contributing_price by fastforce
qed simp

lemma price_step_skip: "\<not> contributes_price r \<Longrightarrow>
    pa_fetched (price_step a r) = pa_fetched a \<and> pa_price (price_step a r) = pa_price a"
  by (auto simp: price_step_def contributes_price_def split: option.splits)

lemma price_step_take: "contributes_price r \<Longrightarrow>
    \<exists>v. price_step a r = pick_price (a\<lparr> pa_value := v \<rparr>) r"
  by (auto simp: price_step_def contributes_price_def)

lemma price_picked_step:
  assumes "price_picked rows a"
  shows "price_picked (rows @ [r]) (price_step a r)"
proof (cases "contributes_price r")
  case False
  with price_step_skip [OF False, of a] assms show ?thesis
    by (auto simp: price_picked_def find_snoc split: option.splits)
next
  case True
  then obtain s where s: "ph_current_price r = Some s" using contributing_price by blast
  obtain v where v: "price_step a r = pick_price (a\<lparr> pa_value := v \<rparr>) r"
    using price_step_take [OF True] by blast
  show ?thesis
  proof (cases "pa_fetched a")
    case None
    with assms have n: "\<forall>r \<in> set rows. contributes_price r \<longrightarrow> fetched_at r = None"
      "pa_price a = Option.bind (find contributes_price rows) ph_current_price"
      by (auto simp: price_picked_def)
    show ?thesis
    proof (cases "fetched_at r")
      case None
      then show ?thesis
        using n True \<open>pa_fetched a = None\<close> s find_price [of rows]
        by (auto simp: v pick_price_def price_picked_def find_snoc fetched_at_def split: option.splits)
    next
      case (Some f)
      then show ?thesis
        using n True \<open>pa_fetched a = None\<close>
        by (auto simp: v pick_price_def price_picked_def fetched_at_def)
    qed
  next
    case (Some l)
    with assms obtain r0 where r0: "r0 \<in> set rows" "contributes_price r0" "pa_price a = ph_current_price r0"
      "fetched_at r0 = Some l"
      and max: "\<forall>r \<in> set rows. \<forall>g. contributes_price r \<longrightarrow> fetched_at r = Some g \<longrightarrow> \<not> js_str_lt l g"
      by (auto simp: price_picked_def)
    have p: "pa_price a \<noteq> None" using r0 contributing_price by auto
    show ?thesis
    proof (cases "\<exists>f. fetched_at r = Some f \<and> js_str_lt l f")
      case True
      then obtain f where f: "fetched_at r = Some f" "js_str_lt l f" by blast
      have "\<not> js_str_lt f g" if "x \<in> set rows" "contributes_price x" "fetched_at x = Some g" for x g
        using max that f js_str_lt_trans by blast
      then show ?thesis
        using f Some \<open>contributes_price r\<close> by (auto simp: v pick_price_def price_picked_def fetched_at_def)
    next
      case False
      then show ?thesis
        using Some r0 max p \<open>contributes_price r\<close>
        by (auto simp: v pick_price_def price_picked_def fetched_at_def split: option.splits)
    qed
  qed
qed

lemma price_loop_picked: "price_picked rows (price_loop rows)"
proof (induction rows rule: rev_induct)
  case Nil
  then show ?case by (simp add: price_loop_def price_picked_def)
next
  case (snoc r rows)
  then show ?case using price_picked_step by (simp add: price_loop_def)
qed

text \<open>The two modules run the same loops: their accumulators stay in step.\<close>

definition same_sums :: "HeadAcc \<Rightarrow> CostAcc \<Rightarrow> PriceAcc \<Rightarrow> bool" where
  "same_sums h c p \<longleftrightarrow>
     hd_weighted h = ca_weighted c \<and> hd_cost h = ca_weighted c \<and> hd_cost_complete h = ca_complete c
     \<and> hd_value h = pa_value p \<and> hd_value_complete h = pa_complete p \<and> hd_fetched h = pa_fetched p
     \<and> (ca_complete c \<longrightarrow> hd_qty h = ca_qty c)"

lemma pick_price_fields [simp]:
  "pa_value (pick_price a r) = pa_value a" "pa_complete (pick_price a r) = pa_complete a"
  by (auto simp: pick_price_def split: option.splits)

lemma pick_price_fetched:
  "pa_fetched (pick_price a r) =
     (case fetched_at r of None \<Rightarrow> pa_fetched a
      | Some f \<Rightarrow> if (case pa_fetched a of None \<Rightarrow> True | Some l \<Rightarrow> js_str_lt l f)
                  then Some f else pa_fetched a)"
  by (auto simp: pick_price_def fetched_at_def split: option.splits)

lemma same_sums_step:
  "same_sums h c p \<Longrightarrow> same_sums (head_step h r) (cost_step c r) (price_step p r)"
  by (cases "finite_field (ph_avg_cost r)"; cases "finite_field (ph_current_price r)")
    (auto simp: same_sums_def head_step_def cost_step_def price_step_def head_cost_def head_price_def
      pick_price_fetched fetched_at_def [symmetric] split: option.splits)

lemma same_sums_loop: "same_sums (head_loop rows) (cost_loop rows) (price_loop rows)"
proof (induction rows rule: rev_induct)
  case Nil
  then show ?case by (simp add: same_sums_def head_loop_def cost_loop_def price_loop_def)
next
  case (snoc r rows)
  then show ?case using same_sums_step by (simp add: head_loop_def cost_loop_def price_loop_def)
qed

text \<open>The return picked: that of the longest period.\<close>

definition twrr_period :: "PerfHoldingRow \<Rightarrow> int" where
  "twrr_period r = nullish (ph_twrr_period_days r) 0"

definition twrr_picked :: "PerfHoldingRow list \<Rightarrow> TwrrPick option \<Rightarrow> bool" where
  "twrr_picked rows best \<longleftrightarrow>
     (case best of
        None \<Rightarrow> \<forall>r \<in> set rows. ph_twrr r = None
      | Some b \<Rightarrow> \<exists>r \<in> set rows. ph_twrr r \<noteq> None \<and> b = twrr_of r
          \<and> (\<forall>x \<in> set rows. ph_twrr x \<noteq> None \<longrightarrow> twrr_period x \<le> twrr_period r))"

lemma twrr_picked_step: "twrr_picked rows best \<Longrightarrow> twrr_picked (rows @ [r]) (twrr_step best r)"
proof (cases "ph_twrr r")
  case (Some t)
  assume p: "twrr_picked rows best"
  show ?thesis
  proof (cases best)
    case None
    with p Some show ?thesis by (auto simp: twrr_picked_def twrr_step_def)
  next
    case (Some b)
    with p obtain r0 where r0: "r0 \<in> set rows" "ph_twrr r0 \<noteq> None" "b = twrr_of r0"
      and mx: "\<And>x. x \<in> set rows \<Longrightarrow> ph_twrr x \<noteq> None \<Longrightarrow> twrr_period x \<le> twrr_period r0"
      by (auto simp: twrr_picked_def)
    have pd: "nullish (tp_period_days b) 0 = twrr_period r0" by (simp add: r0 twrr_of_def twrr_period_def)
    show ?thesis
    proof (cases "twrr_period r0 < twrr_period r")
      case True
      then have "\<And>x. x \<in> set rows \<Longrightarrow> ph_twrr x \<noteq> None \<Longrightarrow> twrr_period x \<le> twrr_period r"
        using mx by force
      with True pd Some \<open>ph_twrr r = Some t\<close> show ?thesis
        by (simp add: twrr_picked_def twrr_step_def twrr_period_def [symmetric])
    next
      case False
      with pd Some r0 mx \<open>ph_twrr r = Some t\<close> show ?thesis
        by (auto simp: twrr_picked_def twrr_step_def twrr_period_def [symmetric])
    qed
  qed
qed (auto simp: twrr_picked_def twrr_step_def split: option.splits)

lemma twrr_fold_picked: "twrr_picked rows (foldl twrr_step None rows)"
  by (induction rows rule: rev_induct) (simp_all add: twrr_picked_def [of "[]"] twrr_picked_step)

section \<open>Example rows\<close>

definition demo_holding :: "jstring \<Rightarrow> jstring \<Rightarrow> jstring \<Rightarrow> PerfHoldingRow" where
  "demo_holding acc instr qty =
     \<lparr> ph_account_id = acc, ph_account_name = acc, ph_instrument_id = instr,
       ph_instrument_symbol = instr, ph_instrument_name = instr, ph_instrument_type = ''etf'',
       ph_display_decimals = None, ph_risk_level = None, ph_is_banked = False, ph_quantity = qty,
       ph_avg_cost = Some ''10'', ph_current_price = Some ''12'',
       ph_current_price_fetched_at = Some ''2024-03-01T10:00:00Z'', ph_percent_return = None,
       ph_realized_eur = None, ph_twrr = Some ''0.1'', ph_twrr_annualized = True,
       ph_twrr_period_days = Some 400, ph_twrr_reason = None, ph_status = None,
       ph_last_close = None, ph_last_close_date = None, ph_twrr_window_days = None \<rparr>"

definition demo_holdings :: "PerfHoldingRow list" where
  "demo_holdings =
     [demo_holding ''a1'' ''i1'' ''3'',
      (demo_holding ''a2'' ''i1'' ''5'')\<lparr> ph_current_price := Some ''13'', ph_twrr := Some ''0.2'',
         ph_current_price_fetched_at := Some ''2024-03-02T10:00:00Z'', ph_twrr_period_days := Some 900 \<rparr>]"

definition demo_closed :: "PerfHoldingRow list" where
  "demo_closed = [(demo_holding ''a1'' ''i1'' ''0'')\<lparr> ph_status := Some ClosedRow, ph_last_close := Some ''9'' \<rparr>]"

section \<open>Properties\<close>

text \<open>
  C9: The grouping loop.  The table has one row per instrument, in the order the instruments
  first occur, each the aggregate of exactly the rows of its instrument in their order.
\<close>

theorem aggregate_by_instrument:
  "aggregateHoldingsByInstrument rows =
      map (\<lambda>i. aggregateGroup (filter (\<lambda>r. ph_instrument_id r = i) rows))
        (first_seen (map ph_instrument_id rows))
    \<and> map ah_instrument_id (aggregateHoldingsByInstrument rows) = first_seen (map ph_instrument_id rows)
    \<and> distinct (map ah_instrument_id (aggregateHoldingsByInstrument rows))"
proof -
  have "map ah_instrument_id (aggregateHoldingsByInstrument rows) = first_seen (map ph_instrument_id rows)"
    using hd_rows_of by (auto simp: aggregate_as_map aggregateGroup_def Let_def o_def intro: map_idI)
  then show ?thesis by (simp add: aggregate_as_map rows_of_def)
qed

text \<open>
  C10: The price shown and its age.  When the aggregate of a group shows a timestamp, the price
  beside it is that of one open row with that very timestamp, and no open row whose price counts
  was fetched later.  Without a timestamp no row that counts has one, and the price is that of
  the first row that counts.
\<close>

theorem price_never_misdated:
  "case ah_current_price_fetched_at (aggregateGroup g) of
     Some f \<Rightarrow>
       (\<exists>r \<in> set (open_rows g). contributes_price r \<and> fetched_at r = Some f
          \<and> ah_current_price (aggregateGroup g) = ph_current_price r)
       \<and> (\<forall>r \<in> set (open_rows g). \<forall>f'. contributes_price r \<longrightarrow> fetched_at r = Some f' \<longrightarrow> \<not> js_str_lt f f')
   | None \<Rightarrow>
       (\<forall>r \<in> set (open_rows g). contributes_price r \<longrightarrow> fetched_at r = None)
       \<and> ah_current_price (aggregateGroup g) =
           Option.bind (find contributes_price (open_rows g)) ph_current_price"
  using price_loop_picked [of "open_rows g"]
  by (auto simp: aggregateGroup_def Let_def price_picked_def split: option.splits)

theorem price_never_misdated_witness:
  "ah_current_price_fetched_at (aggregateGroup demo_holdings) = Some ''2024-03-02T10:00:00Z''
    \<and> (\<exists>r \<in> set (open_rows demo_holdings). ah_current_price (aggregateGroup demo_holdings) = ph_current_price r)"
proof -
  have f: "ah_current_price_fetched_at (aggregateGroup demo_holdings) = Some ''2024-03-02T10:00:00Z''"
    by (simp add: aggregateGroup_def Let_def) code_simp
  show ?thesis using price_never_misdated [of demo_holdings] by (auto simp: f)
qed

text \<open>
  The return shown for an instrument is that of an open row with the longest period among the
  open rows that have one; without such a row there is no value, and the reason shown is the
  first one given by an open row.
\<close>

theorem longest_twrr:
  "(if \<exists>r \<in> set (open_rows g). ph_twrr r \<noteq> None
    then \<exists>r \<in> set (open_rows g). ph_twrr r \<noteq> None \<and> ah_twrr (aggregateGroup g) = ph_twrr r
      \<and> ah_twrr_period_days (aggregateGroup g) = ph_twrr_period_days r
      \<and> ah_twrr_annualized (aggregateGroup g) = ph_twrr_annualized r
      \<and> (\<forall>x \<in> set (open_rows g). ph_twrr x \<noteq> None \<longrightarrow>
           nullish (ph_twrr_period_days x) 0 \<le> nullish (ph_twrr_period_days r) 0)
    else ah_twrr (aggregateGroup g) = None
      \<and> ah_twrr_reason (aggregateGroup g) = first_reason (open_rows g))"
proof -
  let ?o = "open_rows g"
  show ?thesis
  proof (cases "foldl twrr_step None ?o")
    case None
    then have "\<forall>r \<in> set ?o. ph_twrr r = None"
      using twrr_fold_picked [of ?o] by (simp add: twrr_picked_def)
    then show ?thesis
      by (auto simp: aggregateGroup_def Let_def pickBestTwrr_def None no_twrr_def first_reason_def)
  next
    case (Some b)
    then have "twrr_picked ?o (Some b)" using twrr_fold_picked [of ?o] by simp
    then obtain r where "r \<in> set ?o" "ph_twrr r \<noteq> None" "b = twrr_of r"
      "\<forall>x \<in> set ?o. ph_twrr x \<noteq> None \<longrightarrow> twrr_period x \<le> twrr_period r"
      unfolding twrr_picked_def by auto
    then show ?thesis
      by (auto simp: aggregateGroup_def Let_def pickBestTwrr_def Some twrr_of_def twrr_period_def)
  qed
qed

theorem longest_twrr_witness:
  "(\<exists>r \<in> set (open_rows demo_holdings). ph_twrr r \<noteq> None)
    \<and> (\<exists>r \<in> set (open_rows demo_holdings). ah_twrr (aggregateGroup demo_holdings) = ph_twrr r)"
proof -
  have "\<exists>r \<in> set (open_rows demo_holdings). ph_twrr r \<noteq> None"
    by (simp add: open_rows_def is_open_def demo_holdings_def demo_holding_def)
  with longest_twrr [of demo_holdings] show ?thesis by auto
qed

text \<open>
  The instrument page and the table agree.  On the rows of one instrument the headline of
  \<open>aggregateInstrument\<close> and the table row of \<open>aggregateGroup\<close> show the same realized gain, price
  age and, while a row is open, return; the average cost is the same too as long as every row
  that counts carries its cost.
\<close>

theorem headline_agrees_with_table:
  assumes "open_rows rows \<noteq> []" "ca_complete (cost_loop (open_rows rows))"
  shows "ah_realized_eur (aggregateGroup rows) =
      map_option number_to_str (ia_realized_total (aggregateInstrument rows))
    \<and> ah_current_price_fetched_at (aggregateGroup rows) = ia_latest_price_fetched_at (aggregateInstrument rows)
    \<and> ia_best_twrr (aggregateInstrument rows) = Some (pickBestTwrr (open_rows rows))
    \<and> ah_twrr (aggregateGroup rows) = tp_value (pickBestTwrr (open_rows rows))
    \<and> ah_avg_cost (aggregateGroup rows) =
        map_option number_to_str (ia_weighted_avg_cost (aggregateInstrument rows))"
  using same_sums_loop [of "open_rows rows"] assms
  by (auto simp: aggregateGroup_def aggregateInstrument_def Let_def same_sums_def
      weighted_avg_cost_def pickBestTwrr_def split: option.splits)

theorem headline_agrees_with_table_witness:
  "ah_avg_cost (aggregateGroup demo_holdings) =
     map_option number_to_str (ia_weighted_avg_cost (aggregateInstrument demo_holdings))"
proof -
  have "open_rows demo_holdings \<noteq> []" "ca_complete (cost_loop (open_rows demo_holdings))"
    by code_simp+
  from headline_agrees_with_table [OF this] show ?thesis by blast
qed

text \<open>
  A fully closed instrument.  When no row of a group is open the aggregate is closed, shows
  no price, no cost and no return of its own, and takes the close of the first row.
\<close>

theorem closed_group:
  assumes "g \<noteq> []" "open_rows g = []"
  shows "ah_status (aggregateGroup g) = ClosedRow \<and> ah_current_price (aggregateGroup g) = None
    \<and> ah_avg_cost (aggregateGroup g) = None \<and> ah_percent_return (aggregateGroup g) = None
    \<and> ah_twrr (aggregateGroup g) = None
    \<and> ah_last_close (aggregateGroup g) = ph_last_close (hd g)
    \<and> ah_last_close_date (aggregateGroup g) = ph_last_close_date (hd g)
    \<and> ah_twrr_window_days (aggregateGroup g) = ph_twrr_window_days (hd g)"
proof -
  have "closed_rows g = g"
    using assms(2) by (simp add: closed_rows_def open_rows_def filter_empty_conv)
  then show ?thesis
    using assms by (simp add: aggregateGroup_def Let_def price_loop_def weighted_avg_cost_def
        group_percent_return_def cost_loop_def pickBestTwrr_def no_twrr_def)
qed

theorem closed_group_witness:
  "ah_last_close (aggregateGroup demo_closed) = Some ''9''"
  using closed_group [of demo_closed]
  by (simp add: demo_closed_def demo_holding_def open_rows_def is_open_def)

text \<open>
  Whole quantities are added exactly.  If the quantities of a group are whole numbers that
  total at most 2^53, the quantity shown is that total.
\<close>

theorem whole_quantities_exact:
  assumes "\<forall>r \<in> set g. qty_of r = Num (of_int (n r)) \<and> 0 \<le> n r"
    and "sum_list (map n g) \<le> 2 ^ 53"
  shows "ah_quantity (aggregateGroup g) = number_to_str (Num (of_int (sum_list (map n g))))"
proof -
  have "foldl js_add (Num (of_int t)) (filter is_finite (map qty_of g)) = Num (of_int (t + sum_list (map n g)))"
    if "0 \<le> t" "t + sum_list (map n g) \<le> 2 ^ 53" "\<forall>r \<in> set g. qty_of r = Num (of_int (n r)) \<and> 0 \<le> n r"
    for t using that
  proof (induction g arbitrary: t)
    case (Cons r g)
    have nn: "0 \<le> sum_list (map n g)" using Cons.prems(3) by (auto intro!: sum_list_nonneg)
    have "to_double (of_int (t + n r)) = Num (of_int (t + n r))"
      using Cons.prems nn by (intro to_double_int) auto
    with Cons.IH [of "t + n r"] Cons.prems show ?case by (simp add: add.assoc)
  qed simp
  from this [of 0] assms show ?thesis
    by (simp add: aggregateGroup_def Let_def sum_finite_def)
qed

theorem whole_quantities_exact_witness:
  "ah_quantity (aggregateGroup demo_holdings) = number_to_str (Num 8)"
proof -
  let ?n = "\<lambda>r. if ph_quantity r = ''3'' then 3 else 5 :: int"
  have "\<forall>r \<in> set demo_holdings. qty_of r = Num (of_int (?n r)) \<and> 0 \<le> ?n r"
    by code_simp
  moreover have "sum_list (map ?n demo_holdings) = 8" by code_simp
  ultimately show ?thesis using whole_quantities_exact [of demo_holdings ?n] by simp
qed

text \<open>
  Where a row that counts has no cost, the two modules differ: the table divides by the quantity
  with a known cost, the headline by the whole quantity.
\<close>

definition demo_partial :: "PerfHoldingRow list" where
  "demo_partial =
     [demo_holding ''a1'' ''i1'' ''1'', (demo_holding ''a2'' ''i1'' ''1'')\<lparr> ph_avg_cost := None \<rparr>]"

lemma headline_dilutes_cost:
  "ah_avg_cost (aggregateGroup demo_partial) = Some ''10''
    \<and> ia_weighted_avg_cost (aggregateInstrument demo_partial) = Some (Num 5)"
proof
  show "ah_avg_cost (aggregateGroup demo_partial) = Some ''10''"
  proof -
    have "map_option number_to_str (weighted_avg_cost (open_rows demo_partial)) = Some ''10''"
      by code_simp
    then show ?thesis by (simp only: aggregateGroup_def Let_def AggregatedHoldingRow.simps)
  qed
  show "ia_weighted_avg_cost (aggregateInstrument demo_partial) = Some (Num 5)"
    by code_simp
qed

end
