(* ===== verification/StableSort.thy ===== *)
theory StableSort
  imports Prelude "HOL-Library.Multiset"
begin

text \<open>
  \<open>Array.prototype.sort\<close> with a comparator.  The language fixes the result only up to the choice
  of a stable algorithm; the model is stable insertion.  A locale states what a comparator must
  promise (a strict weak order on the values it is given) and what then holds: the result is
  sorted, and every stable algorithm gives the same list, so the choice does not matter.
\<close>

fun insert_by :: "('a \<Rightarrow> 'a \<Rightarrow> bool) \<Rightarrow> 'a \<Rightarrow> 'a list \<Rightarrow> 'a list" where
  "insert_by lt x [] = [x]"
| "insert_by lt x (y # ys) = (if lt y x then y # insert_by lt x ys else x # y # ys)"

text \<open>\<open>lt y x\<close> is that the comparator puts \<open>y\<close> before \<open>x\<close>.\<close>

fun sort_by :: "('a \<Rightarrow> 'a \<Rightarrow> bool) \<Rightarrow> 'a list \<Rightarrow> 'a list" where
  "sort_by lt [] = []"
| "sort_by lt (x # xs) = insert_by lt x (sort_by lt xs)"

lemma mset_insert_by [simp]: "mset (insert_by lt x ys) = add_mset x (mset ys)"
  by (induction ys) auto

lemma mset_sort_by [simp]: "mset (sort_by lt xs) = mset xs"
  by (induction xs) auto

lemma set_sort_by [simp]: "set (sort_by lt xs) = set xs"
  using mset_sort_by [of lt xs] by (metis set_mset_mset)

lemma set_insert_by [simp]: "set (insert_by lt x ys) = insert x (set ys)"
  using mset_insert_by [of lt x ys] by (metis set_mset_add_mset_insert set_mset_mset)

lemma length_sort_by [simp]: "length (sort_by lt xs) = length xs"
  using mset_sort_by [of lt xs] by (metis size_mset)

definition ordered_by :: "('a \<Rightarrow> 'a \<Rightarrow> bool) \<Rightarrow> 'a list \<Rightarrow> bool" where
  "ordered_by lt xs \<longleftrightarrow> sorted_wrt (\<lambda>a b. \<not> lt b a) xs"

text \<open>The elements the comparator does not separate from \<open>x\<close>, in their order.\<close>

definition peers :: "('a \<Rightarrow> 'a \<Rightarrow> bool) \<Rightarrow> 'a \<Rightarrow> 'a list \<Rightarrow> 'a list" where
  "peers lt x xs = filter (\<lambda>y. \<not> lt x y \<and> \<not> lt y x) xs"

lemma peers_Cons: "peers lt x (y # ys) = (if \<not> lt x y \<and> \<not> lt y x then y # peers lt x ys else peers lt x ys)"
  by (simp add: peers_def)

locale weak_order =
  fixes dom :: "'a \<Rightarrow> bool"
    and lt :: "'a \<Rightarrow> 'a \<Rightarrow> bool"
  assumes irrefl: "dom a \<Longrightarrow> \<not> lt a a"
    and asym: "dom a \<Longrightarrow> dom b \<Longrightarrow> lt a b \<Longrightarrow> \<not> lt b a"
    and split: "dom a \<Longrightarrow> dom b \<Longrightarrow> dom c \<Longrightarrow> lt a c \<Longrightarrow> lt a b \<or> lt b c"
begin

lemma lt_trans: "dom a \<Longrightarrow> dom b \<Longrightarrow> dom c \<Longrightarrow> lt a b \<Longrightarrow> lt b c \<Longrightarrow> lt a c"
  using split [of a c b] asym by blast

lemma ordered_insert:
  assumes "ordered_by lt ys" "\<forall>z \<in> insert x (set ys). dom z"
  shows "ordered_by lt (insert_by lt x ys)"
  using assms
proof (induction ys)
  case (Cons y ys)
  then have IH: "ordered_by lt (insert_by lt x ys)" by (simp add: ordered_by_def)
  show ?case
  proof (cases "lt y x")
    case True
    then have "\<not> lt x y" using asym Cons.prems by auto
    then show ?thesis using True IH Cons.prems by (simp add: ordered_by_def)
  next
    case False
    have "\<not> lt z x" if "z \<in> set ys" for z
    proof
      assume "lt z x"
      then have "lt z y \<or> lt y x" using split [of z y x] that Cons.prems by auto
      then show False using False that Cons.prems by (auto simp: ordered_by_def)
    qed
    then show ?thesis using False Cons.prems by (simp add: ordered_by_def)
  qed
qed (simp add: ordered_by_def)

lemma ordered_sort: "\<forall>z \<in> set xs. dom z \<Longrightarrow> ordered_by lt (sort_by lt xs)"
  by (induction xs) (auto simp: ordered_by_def [of _ "[]"] intro!: ordered_insert)

lemma peers_insert:
  assumes "\<forall>z \<in> insert x (insert a (set ys)). dom z"
  shows "peers lt a (insert_by lt x ys) = peers lt a (x # ys)"
  using assms
proof (induction ys)
  case (Cons y ys)
  have "\<not> (\<not> lt a y \<and> \<not> lt y a \<and> \<not> lt a x \<and> \<not> lt x a)" if "lt y x"
    using split [of y a x] that Cons.prems by auto
  with Cons show ?case by (auto simp: peers_Cons)
qed simp

lemma stable_sort: "\<forall>z \<in> insert a (set xs). dom z \<Longrightarrow> peers lt a (sort_by lt xs) = peers lt a xs"
proof (induction xs)
  case (Cons x xs)
  then show ?case using peers_insert [of x a "sort_by lt xs"] by (simp add: peers_Cons)
qed simp

lemma ordered_unique:
  assumes "ordered_by lt xs" "ordered_by lt ys" "\<forall>z \<in> set xs \<union> set ys. dom z"
    and "\<And>a. a \<in> set xs \<union> set ys \<Longrightarrow> peers lt a xs = peers lt a ys"
  shows "xs = ys"
  using assms
proof (induction xs arbitrary: ys)
  case Nil
  show ?case
  proof (cases ys)
    case (Cons y ys')
    then have "peers lt y ys \<noteq> []" using irrefl Nil.prems by (auto simp: peers_Cons)
    then show ?thesis using Nil.prems(4) [of y] Cons by (simp add: peers_def)
  qed simp
next
  case (Cons x xs)
  have px: "peers lt x (x # xs) = x # peers lt x xs" using irrefl Cons.prems by (simp add: peers_Cons)
  then obtain y ys' where ys: "ys = y # ys'"
    using Cons.prems(4) [of x] by (cases ys) (auto simp: peers_def)
  have "y \<in> set (peers lt y (x # xs))"
    using irrefl Cons.prems(3) Cons.prems(4) [of y] by (simp add: ys peers_Cons)
  then have "y = x \<or> y \<in> set xs" by (auto simp: peers_def split: if_splits)
  then have 1: "\<not> lt y x" using Cons.prems irrefl by (auto simp: ordered_by_def)
  have "x \<in> set (peers lt x ys)" using px Cons.prems(4) [of x] by simp
  then have "x = y \<or> x \<in> set ys'" by (auto simp: peers_def ys split: if_splits)
  then have 2: "\<not> lt x y" using Cons.prems irrefl by (auto simp: ordered_by_def ys)
  have xy: "x = y" using Cons.prems(4) [of x] px 1 2 by (simp add: ys peers_Cons)
  have "xs = ys'"
  proof (rule Cons.IH)
    show "peers lt a xs = peers lt a ys'" if "a \<in> set xs \<union> set ys'" for a
      using Cons.prems(4) [of a] that by (auto simp: ys xy peers_Cons split: if_splits)
  qed (use Cons.prems in \<open>auto simp: ordered_by_def ys\<close>)
  then show ?case by (simp add: ys xy)
qed

text \<open>Any ordered rearrangement that keeps peers in place is the one computed.\<close>

lemma sort_unique:
  assumes "\<forall>z \<in> set xs. dom z" "ordered_by lt ys" "set ys = set xs"
    and "\<And>a. a \<in> set xs \<Longrightarrow> peers lt a ys = peers lt a xs"
  shows "ys = sort_by lt xs"
proof (rule ordered_unique)
  show "peers lt a ys = peers lt a (sort_by lt xs)" if "a \<in> set ys \<union> set (sort_by lt xs)" for a
    using that assms(1,3,4) stable_sort [of a xs] by auto
qed (use assms ordered_sort in auto)

end

text \<open>Sorting commutes with a map that respects the order.\<close>

lemma map_insert_by:
  assumes "\<And>a b. lt' (f a) (f b) = lt a b"
  shows "map f (insert_by lt x ys) = insert_by lt' (f x) (map f ys)"
  by (induction ys) (simp_all add: assms)

lemma map_sort_by:
  assumes "\<And>a b. lt' (f a) (f b) = lt a b"
  shows "map f (sort_by lt xs) = sort_by lt' (map f xs)"
  by (induction xs) (simp_all add: map_insert_by [where lt = lt and lt' = lt' and f = f, OF assms])

end
