(* ===== verification/PerfTable.thy ===== *)
theory PerfTable
  imports HoldingsAgg StableSort
begin

text \<open>
  The performance table of \<open>frontend/components/perf\<close>: \<open>PerfTable.tsx\<close> with its cells, the stale
  badge of the price cell, and the timeframes.  The state of the component is its sort key and
  direction; everything it shows is a function of that state, of its props and of the query.
\<close>

section \<open>Timeframes\<close>

datatype Timeframe = TF1m | TF3m | TF1y | TFAll | TFCustom

fun timeframe_text :: "Timeframe \<Rightarrow> jstring" where
  "timeframe_text TF1m = ''1m''"
| "timeframe_text TF3m = ''3m''"
| "timeframe_text TF1y = ''1y''"
| "timeframe_text TFAll = ''all''"
| "timeframe_text TFCustom = ''custom''"

definition TIMEFRAME_PRESETS :: "(Timeframe \<times> jstring) list" where
  "TIMEFRAME_PRESETS = [(TF1m, ''1M''), (TF3m, ''3M''), (TF1y, ''1Y''), (TFAll, ''All'')]"

definition parseTimeframe :: "jstring option \<Rightarrow> Timeframe" where
  "parseTimeframe value =
     (if value = Some ''1m'' then TF1m else if value = Some ''3m'' then TF3m
      else if value = Some ''1y'' then TF1y else if value = Some ''all'' then TFAll else TF1y)"

section \<open>Rows, sorting and filters\<close>

datatype SortKey = ByInstrument | ByQuantity | ByAvgCost | ByCurrentPrice | ByPercentReturn
  | ByRealized | ByTwrr

datatype SortDir = Asc | Desc

definition SORT_LABELS :: "SortKey \<Rightarrow> jstring" where
  "SORT_LABELS k =
     (case k of ByInstrument \<Rightarrow> ''Instrument'' | ByQuantity \<Rightarrow> ''Qty'' | ByAvgCost \<Rightarrow> ''Avg cost''
      | ByCurrentPrice \<Rightarrow> ''Current price'' | ByPercentReturn \<Rightarrow> ''% return'' | ByRealized \<Rightarrow> ''Realized''
      | ByTwrr \<Rightarrow> ''TWRR'')"

text \<open>
  \<open>RenderRow\<close>: the fields the two kinds of row share, and the account of a raw row (\<open>None\<close> for an
  aggregated one).
\<close>

record RenderRow =
  rr_account_id :: "jstring option"
  rr_instrument_id :: jstring
  rr_instrument_symbol :: jstring
  rr_instrument_name :: jstring
  rr_instrument_type :: jstring
  rr_display_decimals :: "nat option"
  rr_quantity :: jstring
  rr_avg_cost :: "jstring option"
  rr_current_price :: "jstring option"
  rr_current_price_fetched_at :: "jstring option"
  rr_percent_return :: "jstring option"
  rr_realized_eur :: "jstring option"
  rr_twrr :: "jstring option"
  rr_status :: "RowStatus option"
  rr_last_close :: "jstring option"
  rr_twrr_window_days :: "int option"

definition of_raw :: "PerfHoldingRow \<Rightarrow> RenderRow" where
  "of_raw r =
     \<lparr> rr_account_id = Some (ph_account_id r), rr_instrument_id = ph_instrument_id r,
       rr_instrument_symbol = ph_instrument_symbol r, rr_instrument_name = ph_instrument_name r,
       rr_instrument_type = ph_instrument_type r, rr_display_decimals = ph_display_decimals r,
       rr_quantity = ph_quantity r, rr_avg_cost = ph_avg_cost r,
       rr_current_price = ph_current_price r,
       rr_current_price_fetched_at = ph_current_price_fetched_at r,
       rr_percent_return = ph_percent_return r, rr_realized_eur = ph_realized_eur r,
       rr_twrr = ph_twrr r, rr_status = ph_status r, rr_last_close = ph_last_close r,
       rr_twrr_window_days = ph_twrr_window_days r \<rparr>"

definition of_aggregated :: "AggregatedHoldingRow \<Rightarrow> RenderRow" where
  "of_aggregated r =
     \<lparr> rr_account_id = None, rr_instrument_id = ah_instrument_id r,
       rr_instrument_symbol = ah_instrument_symbol r, rr_instrument_name = ah_instrument_name r,
       rr_instrument_type = ah_instrument_type r, rr_display_decimals = ah_display_decimals r,
       rr_quantity = ah_quantity r, rr_avg_cost = ah_avg_cost r,
       rr_current_price = ah_current_price r,
       rr_current_price_fetched_at = ah_current_price_fetched_at r,
       rr_percent_return = ah_percent_return r, rr_realized_eur = ah_realized_eur r,
       rr_twrr = ah_twrr r, rr_status = Some (ah_status r), rr_last_close = ah_last_close r,
       rr_twrr_window_days = ah_twrr_window_days r \<rparr>"

definition numericValue :: "RenderRow \<Rightarrow> SortKey \<Rightarrow> jsnum option" where
  "numericValue row key =
     (case key of
        ByInstrument \<Rightarrow> None
      | ByRealized \<Rightarrow> map_option str_to_number (rr_realized_eur row)
      | ByCurrentPrice \<Rightarrow>
          map_option str_to_number
            (if rr_last_close row \<noteq> None then rr_last_close row else rr_current_price row)
      | ByQuantity \<Rightarrow> Some (str_to_number (rr_quantity row))
      | ByAvgCost \<Rightarrow> map_option str_to_number (rr_avg_cost row)
      | ByPercentReturn \<Rightarrow> map_option str_to_number (rr_percent_return row)
      | ByTwrr \<Rightarrow> map_option str_to_number (rr_twrr row))"

text \<open>\<open>collate\<close> is \<open>a.localeCompare(b, "en")\<close>.\<close>

definition compareRows ::
  "(jstring \<Rightarrow> jstring \<Rightarrow> int) \<Rightarrow> RenderRow \<Rightarrow> RenderRow \<Rightarrow> SortKey \<Rightarrow> SortDir \<Rightarrow> jsnum" where
  "compareRows collate a b sortKey sortDir =
     (if sortKey = ByInstrument then
        let result = Num (of_int (collate (rr_instrument_symbol a) (rr_instrument_symbol b)))
        in if sortDir = Asc then result else js_neg result
      else case (numericValue a sortKey, numericValue b sortKey) of
        (None, None) \<Rightarrow> Num 0
      | (None, Some bv) \<Rightarrow> Num 1
      | (Some av, None) \<Rightarrow> Num (- 1)
      | (Some av, Some bv) \<Rightarrow>
          let result = js_sub av bv in if sortDir = Asc then result else js_neg result)"

definition comes_before ::
  "(jstring \<Rightarrow> jstring \<Rightarrow> int) \<Rightarrow> SortKey \<Rightarrow> SortDir \<Rightarrow> RenderRow \<Rightarrow> RenderRow \<Rightarrow> bool" where
  "comes_before collate sortKey sortDir a b \<longleftrightarrow>
     js_lt (compareRows collate a b sortKey sortDir) (Num 0)"

datatype FilterBy = FilterType jstring | FilterRisk jstring | FilterAccount jstring | FilterBanked jstring

text \<open>\<open>lower\<close> is \<open>toLowerCase\<close>.\<close>

definition filter_matches :: "(jstring \<Rightarrow> jstring) \<Rightarrow> FilterBy \<Rightarrow> PerfHoldingRow \<Rightarrow> bool" where
  "filter_matches lower f row =
     (case f of
        FilterType v \<Rightarrow> lower (ph_instrument_type row) = lower v
      | FilterRisk v \<Rightarrow> lower (nullish (ph_risk_level row) '''') = lower v
      | FilterAccount v \<Rightarrow> ph_account_name row = v
      | FilterBanked v \<Rightarrow> (if ph_is_banked row then ''Banked'' else ''Non-banked'') = v)"

definition applyFilterBy ::
  "(jstring \<Rightarrow> jstring) \<Rightarrow> PerfHoldingRow list \<Rightarrow> FilterBy option \<Rightarrow> PerfHoldingRow list" where
  "applyFilterBy lower rows filterBy =
     (case filterBy of None \<Rightarrow> rows | Some f \<Rightarrow> filter (filter_matches lower f) rows)"

fun is_account_filter :: "FilterBy option \<Rightarrow> bool" where
  "is_account_filter (Some (FilterAccount v)) = True"
| "is_account_filter _ = False"

definition displayRows :: "FilterBy option \<Rightarrow> PerfHoldingRow list \<Rightarrow> RenderRow list" where
  "displayRows filterBy filteredData =
     (if is_account_filter filterBy then map of_raw filteredData
      else map of_aggregated (aggregateHoldingsByInstrument filteredData))"

definition sortedRows ::
  "(jstring \<Rightarrow> jstring \<Rightarrow> int) \<Rightarrow> SortKey \<Rightarrow> SortDir \<Rightarrow> RenderRow list \<Rightarrow> RenderRow list" where
  "sortedRows collate sortKey sortDir rows = sort_by (comes_before collate sortKey sortDir) rows"

text \<open>Clicking a header, and choosing an entry of the mobile menu.\<close>

definition toggleSort :: "SortKey \<Rightarrow> SortKey \<times> SortDir \<Rightarrow> SortKey \<times> SortDir" where
  "toggleSort nextKey st =
     (let (sortKey, sortDir) = st
      in if nextKey = sortKey then (sortKey, if sortDir = Asc then Desc else Asc)
         else (nextKey, if nextKey = ByInstrument then Asc else Desc))"

definition initial_sort :: "SortKey \<times> SortDir" where
  "initial_sort = (ByTwrr, Desc)"

definition mobile_sort_options :: "(SortKey \<times> SortDir) list" where
  "mobile_sort_options =
     [(ByTwrr, Desc), (ByTwrr, Asc), (ByPercentReturn, Desc), (ByRealized, Desc), (ByAvgCost, Desc),
      (ByInstrument, Asc)]"

datatype SortIconView = ArrowUp | ArrowDown | ArrowUpDown

definition SortIcon :: "bool \<Rightarrow> SortDir \<Rightarrow> SortIconView" where
  "SortIcon active dir = (if active then (if dir = Asc then ArrowUp else ArrowDown) else ArrowUpDown)"

section \<open>Totals\<close>

record TotalsAcc =
  ta_market_value :: jsnum
  ta_cost_basis :: jsnum
  ta_realized :: jsnum
  ta_mv_complete :: bool
  ta_cb_complete :: bool
  ta_any_realized :: bool

definition totals_value :: "RenderRow \<Rightarrow> TotalsAcc \<Rightarrow> TotalsAcc" where
  "totals_value r acc =
     (let q = str_to_number (rr_quantity r);
          priceRaw = (if rr_current_price r \<noteq> None then rr_current_price r else rr_last_close r)
      in case priceRaw of
           None \<Rightarrow> acc\<lparr> ta_mv_complete := False \<rparr>
         | Some s \<Rightarrow>
             if is_finite q \<and> is_finite (str_to_number s)
             then acc\<lparr> ta_market_value := js_add (ta_market_value acc) (js_mul q (str_to_number s)) \<rparr>
             else acc\<lparr> ta_mv_complete := False \<rparr>)"

definition totals_cost :: "RenderRow \<Rightarrow> TotalsAcc \<Rightarrow> TotalsAcc" where
  "totals_cost r acc =
     (let q = str_to_number (rr_quantity r)
      in case rr_avg_cost r of
           None \<Rightarrow> acc\<lparr> ta_cb_complete := False \<rparr>
         | Some s \<Rightarrow>
             if is_finite q \<and> is_finite (str_to_number s)
             then acc\<lparr> ta_cost_basis := js_add (ta_cost_basis acc) (js_mul q (str_to_number s)) \<rparr>
             else acc\<lparr> ta_cb_complete := False \<rparr>)"

definition totals_realized :: "RenderRow \<Rightarrow> TotalsAcc \<Rightarrow> TotalsAcc" where
  "totals_realized r acc =
     (case rr_realized_eur r of
        None \<Rightarrow> acc
      | Some s \<Rightarrow>
          if is_finite (str_to_number s)
          then acc\<lparr> ta_realized := js_add (ta_realized acc) (str_to_number s), ta_any_realized := True \<rparr>
          else acc)"

definition totals_step :: "TotalsAcc \<Rightarrow> RenderRow \<Rightarrow> TotalsAcc" where
  "totals_step acc r = totals_realized r (totals_cost r (totals_value r acc))"

definition totals_loop :: "RenderRow list \<Rightarrow> TotalsAcc" where
  "totals_loop rows =
     foldl totals_step
       \<lparr> ta_market_value = Num 0, ta_cost_basis = Num 0, ta_realized = Num 0,
         ta_mv_complete = True, ta_cb_complete = True, ta_any_realized = False \<rparr> rows"

record Totals =
  tt_market_value :: "jsnum option"
  tt_cost_basis :: "jsnum option"
  tt_realized :: "jsnum option"
  tt_percent_return :: "jstring option"

definition totals :: "bool \<Rightarrow> RenderRow list \<Rightarrow> Totals option" where
  "totals showTotals rows =
     (if \<not> showTotals \<or> rows = [] then None
      else let t = totals_loop rows
           in Some \<lparr> tt_market_value = (if ta_mv_complete t then Some (ta_market_value t) else None),
                     tt_cost_basis = (if ta_cb_complete t then Some (ta_cost_basis t) else None),
                     tt_realized = (if ta_any_realized t then Some (ta_realized t) else None),
                     tt_percent_return =
                       (if ta_mv_complete t \<and> ta_cb_complete t \<and> js_lt (Num 0) (ta_cost_basis t)
                        then Some (number_to_str
                               (js_div (js_sub (ta_market_value t) (ta_cost_basis t)) (ta_cost_basis t)))
                        else None) \<rparr>)"

section \<open>The request\<close>

datatype TableMode = OpenMode | ClosedMode

text \<open>
  The dates are given as what \<open>format(date, "yyyy-MM-dd")\<close> makes of them.  \<open>pp_perf_param\<close> and
  \<open>pp_exclude_param\<close> are the URL parameters \<open>perf\<close> and \<open>excludeClosed\<close>.
\<close>

record PerfTableProps =
  pp_rows :: "PerfHoldingRow list option"
  pp_mode :: TableMode
  pp_filterBy :: "FilterBy option"
  pp_respectExcludeClosed :: bool
  pp_showTotals :: bool
  pp_timeframe :: "Timeframe option"
  pp_from :: "jstring option"
  pp_to :: "jstring option"
  pp_perf_param :: "jstring option"
  pp_exclude_param :: "jstring option"
  pp_currency :: currency
  pp_tagFilter :: "jstring option"

definition table_timeframe :: "PerfTableProps \<Rightarrow> Timeframe" where
  "table_timeframe p = nullish (pp_timeframe p) (parseTimeframe (pp_perf_param p))"

definition includeClosed :: "PerfTableProps \<Rightarrow> bool" where
  "includeClosed p \<longleftrightarrow>
     pp_mode p = OpenMode \<and> pp_respectExcludeClosed p \<and> pp_exclude_param p \<noteq> Some ''1''"

definition customDatesReady :: "PerfTableProps \<Rightarrow> bool" where
  "customDatesReady p \<longleftrightarrow> table_timeframe p \<noteq> TFCustom \<or> (pp_from p \<noteq> None \<and> pp_to p \<noteq> None)"

definition customQuery :: "PerfTableProps \<Rightarrow> jstring" where
  "customQuery p =
     (case (pp_from p, pp_to p) of
        (Some f, Some t) \<Rightarrow> if table_timeframe p = TFCustom then ''&from='' @ f @ ''&to='' @ t else ''''
      | _ \<Rightarrow> '''')"

definition timeframeQuery :: "PerfTableProps \<Rightarrow> jstring" where
  "timeframeQuery p =
     (if pp_mode p = OpenMode \<or> table_timeframe p = TFCustom
      then ''&timeframe='' @ timeframe_text (table_timeframe p) else '''')"

definition perf_url :: "PerfTableProps \<Rightarrow> jstring" where
  "perf_url p =
     (if pp_mode p = ClosedMode then ''/api/closed'' else ''/api/perf'')
     @ ''?currency='' @ currency_text (pp_currency p) @ timeframeQuery p @ customQuery p
     @ (case Option.bind (pp_tagFilter p) or_null of None \<Rightarrow> '''' | Some t \<Rightarrow> ''&tag='' @ encodeURIComponent t)
     @ (if includeClosed p then ''&include_closed=1'' else '''')"

text \<open>\<open>enabled\<close>: whether the component asks for rows at all.\<close>

definition perf_query_enabled :: "PerfTableProps \<Rightarrow> bool" where
  "perf_query_enabled p \<longleftrightarrow> pp_rows p = None \<and> customDatesReady p"

section \<open>Cells\<close>

text \<open>A cell is its colour class and its text.\<close>

type_synonym cell = "jstring \<times> jstring"

definition PercentCell :: "sval option \<Rightarrow> cell" where
  "PercentCell value =
     (case value of
        None \<Rightarrow> (''text-muted-foreground'', em_dash)
      | Some v \<Rightarrow> (directionalColor (Some (SNum (sval_num v))), formatPercent (SNum (sval_num v)) True))"

definition TwrrCell :: "sval option \<Rightarrow> cell" where
  "TwrrCell value =
     (case value of None \<Rightarrow> (''text-muted-foreground'', em_dash) | Some v \<Rightarrow> PercentCell (Some v))"

definition RealizedCell :: "jstring option \<Rightarrow> currency \<Rightarrow> cell" where
  "RealizedCell value cur =
     (case value of
        None \<Rightarrow> (''text-muted-foreground'', em_dash)
      | Some v \<Rightarrow> (directionalColor (Some (SStr v)), formatSignedMoney (SStr v) cur))"

text \<open>
  The stale badge: \<open>fetchedAt\<close> the text and \<open>time_of\<close> its time value (\<open>None\<close> for an invalid date),
  \<open>now\<close> the clock once the page is mounted.  The result is the age shown.
\<close>

definition StaleBadge :: "(jstring \<Rightarrow> int option) \<Rightarrow> jstring option \<Rightarrow> int option \<Rightarrow> jstring option" where
  "StaleBadge time_of fetchedAt now =
     (case (Option.bind fetchedAt or_null, now) of
        (Some f, Some n) \<Rightarrow>
          if (case time_of f of None \<Rightarrow> False | Some t \<Rightarrow> n - t < STALE_MS) then None
          else Some (formatRelativeHours (time_of f) n)
      | _ \<Rightarrow> None)"

definition money_or_dash :: "jstring option \<Rightarrow> currency \<Rightarrow> jstring" where
  "money_or_dash v cur = (case v of None \<Rightarrow> em_dash | Some s \<Rightarrow> formatMoney (SStr s) cur)"

text \<open>The price cell: its text and, for an open row, the timestamp handed to the stale badge.\<close>

definition renderPriceCell :: "TableMode \<Rightarrow> currency \<Rightarrow> RenderRow \<Rightarrow> jstring \<times> jstring option" where
  "renderPriceCell mode cur row =
     (if rr_status row = Some ClosedRow then (em_dash, None)
      else if mode = ClosedMode then (money_or_dash (rr_last_close row) cur, None)
      else (money_or_dash (rr_current_price row) cur, rr_current_price_fetched_at row))"

definition twrrHeader :: "TableMode \<Rightarrow> Timeframe \<Rightarrow> RenderRow list \<Rightarrow> jstring" where
  "twrrHeader mode timeframe rows =
     (if mode = ClosedMode
      then (if rows \<noteq> [] \<and> list_all (\<lambda>r. 365 \<le> nullish (rr_twrr_window_days r) 0) rows
            then ''TWRR (annualized)'' else ''TWRR (hold window)'')
      else if timeframe = TF1y \<or> timeframe = TFAll then ''TWRR (annualized)'' else ''Period return'')"

definition priceHeader :: "TableMode \<Rightarrow> jstring" where
  "priceHeader mode = (if mode = ClosedMode then ''Last close'' else ''Current price'')"

section \<open>The table\<close>

record PerfRowView =
  pv_key :: jstring
  pv_href :: jstring
  pv_symbol :: jstring
  pv_closed_badge :: bool
  pv_name :: jstring
  pv_quantity :: jstring
  pv_avg_cost :: jstring
  pv_price :: "jstring \<times> jstring option"
  pv_percent :: cell
  pv_realized :: cell
  pv_twrr :: cell

definition row_key :: "RenderRow \<Rightarrow> jstring" where
  "row_key row =
     (case Option.bind (rr_account_id row) or_null of
        Some a \<Rightarrow> a @ ''::'' @ rr_instrument_id row
      | None \<Rightarrow> rr_instrument_id row)"

definition perfRowView :: "TableMode \<Rightarrow> currency \<Rightarrow> RenderRow \<Rightarrow> PerfRowView" where
  "perfRowView mode cur row =
     \<lparr> pv_key = row_key row,
       pv_href = ''/holdings/i/'' @ rr_instrument_id row,
       pv_symbol = rr_instrument_symbol row,
       pv_closed_badge = (rr_status row = Some ClosedRow),
       pv_name = rr_instrument_name row,
       pv_quantity = formatQuantity (SStr (rr_quantity row))
         (decimalsFor (Some (rr_instrument_type row)) (rr_display_decimals row)),
       pv_avg_cost = money_or_dash (rr_avg_cost row) cur,
       pv_price = renderPriceCell mode cur row,
       pv_percent = PercentCell (map_option SStr (rr_percent_return row)),
       pv_realized = RealizedCell (rr_realized_eur row) cur,
       pv_twrr = TwrrCell (map_option SStr (rr_twrr row)) \<rparr>"

record TotalsView =
  tv_cost_basis :: jstring
  tv_market_value :: jstring
  tv_percent :: cell
  tv_realized :: cell

definition totalsView :: "currency \<Rightarrow> Totals \<Rightarrow> TotalsView" where
  "totalsView cur t =
     \<lparr> tv_cost_basis = (case tt_cost_basis t of None \<Rightarrow> em_dash | Some x \<Rightarrow> formatMoney (SNum x) cur),
       tv_market_value = (case tt_market_value t of None \<Rightarrow> em_dash | Some x \<Rightarrow> formatMoney (SNum x) cur),
       tv_percent = PercentCell (map_option SStr (tt_percent_return t)),
       tv_realized = RealizedCell (map_option number_to_str (tt_realized t)) cur \<rparr>"

text \<open>The rows query: not settled, failed, or its data (absent while the query is disabled).\<close>

datatype PerfQuery = QueryLoading | QueryError | QueryData "PerfHoldingRow list option"

datatype PerfView =
    CustomRangeEmptyView
  | LoadingRowsView
  | LoadErrorView
  | NoPerformanceView
  | TableView "(SortKey \<times> jstring \<times> SortIconView) list" "PerfRowView list" "TotalsView option"

definition header_row :: "PerfTableProps \<Rightarrow> SortKey \<times> SortDir \<Rightarrow> RenderRow list \<Rightarrow>
    (SortKey \<times> jstring \<times> SortIconView) list" where
  "header_row p st rows =
     map (\<lambda>(k, label). (k, label, SortIcon (k = fst st) (snd st)))
       [(ByInstrument, ''Instrument''), (ByQuantity, ''Qty''), (ByAvgCost, ''Avg cost''),
        (ByCurrentPrice, priceHeader (pp_mode p)), (ByPercentReturn, ''% return''),
        (ByRealized, ''Realized''), (ByTwrr, twrrHeader (pp_mode p) (table_timeframe p) rows)]"

definition raw_data :: "PerfTableProps \<Rightarrow> PerfQuery \<Rightarrow> PerfHoldingRow list option" where
  "raw_data p q =
     (case pp_rows p of Some rows \<Rightarrow> Some rows
      | None \<Rightarrow> (case q of QueryData d \<Rightarrow> d | _ \<Rightarrow> None))"

definition table_rows ::
  "(jstring \<Rightarrow> jstring) \<Rightarrow> (jstring \<Rightarrow> jstring \<Rightarrow> int) \<Rightarrow> PerfTableProps \<Rightarrow> PerfQuery \<Rightarrow>
   SortKey \<times> SortDir \<Rightarrow> RenderRow list" where
  "table_rows lower collate p q st =
     sortedRows collate (fst st) (snd st)
       (displayRows (pp_filterBy p) (applyFilterBy lower (nullish (raw_data p q) []) (pp_filterBy p)))"

definition PerfTable ::
  "(jstring \<Rightarrow> jstring) \<Rightarrow> (jstring \<Rightarrow> jstring \<Rightarrow> int) \<Rightarrow> PerfTableProps \<Rightarrow> PerfQuery \<Rightarrow>
   SortKey \<times> SortDir \<Rightarrow> PerfView" where
  "PerfTable lower collate p q st =
     (let rows = table_rows lower collate p q st
      in if pp_rows p = None \<and> table_timeframe p = TFCustom \<and> \<not> customDatesReady p
         then CustomRangeEmptyView
         else if pp_rows p = None \<and> q = QueryLoading then LoadingRowsView
         else if pp_rows p = None \<and> q = QueryError then LoadErrorView
         else if rows = [] then NoPerformanceView
         else TableView (header_row p st rows)
                (map (perfRowView (pp_mode p) (pp_currency p)) rows)
                (map_option (totalsView (pp_currency p)) (totals (pp_showTotals p) rows)))"

section \<open>The cards shown on a narrow screen\<close>

record PerfCard =
  cd_key :: jstring
  cd_href :: jstring
  cd_symbol :: jstring
  cd_closed_badge :: bool
  cd_percent :: cell
  cd_name :: jstring
  cd_line :: "jstring list"
  cd_stale :: "jstring option"
  cd_realized :: cell
  cd_twrr :: "jstring \<times> cell"

definition perfCard :: "TableMode \<Rightarrow> currency \<Rightarrow> jstring \<Rightarrow> RenderRow \<Rightarrow> PerfCard" where
  "perfCard mode cur header row =
     \<lparr> cd_key = row_key row,
       cd_href = ''/holdings/i/'' @ rr_instrument_id row,
       cd_symbol = rr_instrument_symbol row,
       cd_closed_badge = (rr_status row = Some ClosedRow),
       cd_percent = PercentCell (map_option SStr (rr_percent_return row)),
       cd_name = rr_instrument_name row,
       cd_line =
         [formatQuantity (SStr (rr_quantity row)) (decimalsFor (Some (rr_instrument_type row)) (rr_display_decimals row)),
          ''@'', money_or_dash (rr_avg_cost row) cur, right_arrow,
          if rr_status row = Some ClosedRow then em_dash
          else if mode = ClosedMode then money_or_dash (rr_last_close row) cur
          else money_or_dash (rr_current_price row) cur],
       cd_stale =
         (if rr_status row = Some ClosedRow \<or> mode = ClosedMode then None else rr_current_price_fetched_at row),
       cd_realized = RealizedCell (rr_realized_eur row) cur,
       cd_twrr = (header @ '': '', TwrrCell (map_option SStr (rr_twrr row))) \<rparr>"

text \<open>The menu that sorts: its entries, the one selected (none when the table headers chose another), and what choosing does.\<close>

definition mobile_sort_label :: "SortKey \<times> SortDir \<Rightarrow> jstring" where
  "mobile_sort_label o' =
     (case o' of
        (ByInstrument, d) \<Rightarrow> ''Sort: Name A-Z''
      | (k, d) \<Rightarrow> ''Sort: '' @ SORT_LABELS k @ '' '' @ (if d = Asc then up_arrow else down_arrow))"

definition choose_mobile_sort :: "SortKey \<times> SortDir \<Rightarrow> SortKey \<times> SortDir \<Rightarrow> SortKey \<times> SortDir" where
  "choose_mobile_sort chosen st = (if chosen \<in> set mobile_sort_options then chosen else st)"

definition PerfCards ::
  "PerfTableProps \<Rightarrow> SortKey \<times> SortDir \<Rightarrow> RenderRow list \<Rightarrow> (jstring \<times> bool) list \<times> PerfCard list \<times> TotalsView option" where
  "PerfCards p st rows =
     (map (\<lambda>o'. (mobile_sort_label o', o' = st)) mobile_sort_options,
      map (perfCard (pp_mode p) (pp_currency p) (twrrHeader (pp_mode p) (table_timeframe p) rows)) rows,
      map_option (totalsView (pp_currency p)) (totals (pp_showTotals p) rows))"

section \<open>The comparator is a weak order\<close>

definition consistent_collation :: "(jstring \<Rightarrow> jstring \<Rightarrow> int) \<Rightarrow> bool" where
  "consistent_collation collate \<longleftrightarrow>
     (\<forall>a b. (collate a b < 0) = (0 < collate b a))
     \<and> (\<forall>a b c. collate a c < 0 \<longrightarrow> collate a b < 0 \<or> collate b c < 0)"

text \<open>The rows whose decimals can be read, sorted by a consistent collation.\<close>

definition sortable :: "(jstring \<Rightarrow> jstring \<Rightarrow> int) \<Rightarrow> SortKey \<Rightarrow> RenderRow \<Rightarrow> bool" where
  "sortable collate k row \<longleftrightarrow>
     consistent_collation collate \<and> (\<forall>n. numericValue row k = Some n \<longrightarrow> is_finite n)"

lemma wf_numericValue: "numericValue row k = Some n \<Longrightarrow> wf_num n"
  by (auto simp: numericValue_def wf_str_to_number split: SortKey.splits)

lemma js_lt_minus_zero: "js_lt (js_neg x) (Num 0) \<longleftrightarrow> js_lt (Num 0) x"
  by (cases x) auto

text \<open>What the order means: a missing value comes last, others by value in the direction chosen.\<close>

definition value_before :: "SortDir \<Rightarrow> jsnum option \<Rightarrow> jsnum option \<Rightarrow> bool" where
  "value_before d a b \<longleftrightarrow>
     (case (a, b) of
        (Some x, Some y) \<Rightarrow> (if d = Asc then js_lt x y else js_lt y x)
      | (Some x, None) \<Rightarrow> True
      | _ \<Rightarrow> False)"

lemma comes_before_value:
  assumes "sortable collate k a" "sortable collate k b" "k \<noteq> ByInstrument"
  shows "comes_before collate k d a b \<longleftrightarrow> value_before d (numericValue a k) (numericValue b k)"
proof (cases "numericValue a k"; cases "numericValue b k")
  fix x y assume xy: "numericValue a k = Some x" "numericValue b k = Some y"
  then have "is_finite x" "is_finite y" "wf_num x" "wf_num y"
    using assms wf_numericValue by (auto simp: sortable_def)
  then show ?thesis
    using xy assms(3) js_sub_neg [of x y] js_sub_pos [of x y]
    by (cases d) (auto simp: comes_before_def compareRows_def value_before_def js_lt_minus_zero Let_def)
qed (use assms(3) in \<open>auto simp: comes_before_def compareRows_def value_before_def\<close>)

text \<open>The text of the cell a column sorts by; a closed position shows its last close as the price.\<close>

definition column_text :: "SortKey \<Rightarrow> RenderRow \<Rightarrow> jstring option" where
  "column_text k r =
     (case k of
        ByInstrument \<Rightarrow> Some (rr_instrument_symbol r)
      | ByQuantity \<Rightarrow> Some (rr_quantity r)
      | ByAvgCost \<Rightarrow> rr_avg_cost r
      | ByCurrentPrice \<Rightarrow> (case rr_last_close r of Some p \<Rightarrow> Some p | None \<Rightarrow> rr_current_price r)
      | ByPercentReturn \<Rightarrow> rr_percent_return r
      | ByRealized \<Rightarrow> rr_realized_eur r
      | ByTwrr \<Rightarrow> rr_twrr r)"

text \<open>When a row belongs before another: by the symbol, or by the number in the cell.\<close>

definition row_before ::
  "(jstring \<Rightarrow> jstring \<Rightarrow> int) \<Rightarrow> SortKey \<Rightarrow> SortDir \<Rightarrow> RenderRow \<Rightarrow> RenderRow \<Rightarrow> bool" where
  "row_before collate k d a b \<longleftrightarrow>
     (if k = ByInstrument
      then (case d of Asc \<Rightarrow> collate (rr_instrument_symbol a) (rr_instrument_symbol b) < 0
            | Desc \<Rightarrow> collate (rr_instrument_symbol b) (rr_instrument_symbol a) < 0)
      else value_before d (map_option str_to_number (column_text k a)) (map_option str_to_number (column_text k b)))"

lemma numericValue_column:
  "k \<noteq> ByInstrument \<Longrightarrow> numericValue r k = map_option str_to_number (column_text k r)"
  by (auto simp: numericValue_def column_text_def split: SortKey.split option.split)

lemma comes_before_instrument:
  "comes_before collate ByInstrument d a b \<longleftrightarrow>
     (if d = Asc then collate (rr_instrument_symbol a) (rr_instrument_symbol b) < 0
      else 0 < collate (rr_instrument_symbol a) (rr_instrument_symbol b))"
  by (cases d) (auto simp: comes_before_def compareRows_def Let_def js_lt_minus_zero)

lemma comes_before_row:
  assumes "sortable collate k a" "sortable collate k b"
  shows "comes_before collate k d a b \<longleftrightarrow> row_before collate k d a b"
proof (cases "k = ByInstrument")
  case True
  have "consistent_collation collate" using assms(1) by (simp add: sortable_def)
  then show ?thesis
    by (cases d) (simp_all add: True row_before_def comes_before_instrument consistent_collation_def)
qed (use assms comes_before_value in \<open>simp add: row_before_def numericValue_column\<close>)

interpretation perf_order: weak_order "sortable collate k" "comes_before collate k d"
  for collate k d
proof (unfold_locales)
  fix a b c
  assume a: "sortable collate k a" and b: "sortable collate k b"
  have con: "consistent_collation collate" using a by (simp add: sortable_def)
  show "\<not> comes_before collate k d a a"
  proof (cases "k = ByInstrument")
    case True
    have "\<not> collate s s < 0 \<and> \<not> 0 < collate s s" for s
      using con unfolding consistent_collation_def by (metis less_asym)
    with True show ?thesis by (simp add: comes_before_instrument)
  next
    case False
    then show ?thesis
      using comes_before_value [OF a a] by (auto simp: value_before_def split: option.splits)
  qed
  show "\<not> comes_before collate k d b a" if "comes_before collate k d a b"
  proof (cases "k = ByInstrument")
    case True
    with that con show ?thesis
      unfolding consistent_collation_def True comes_before_instrument
      by (metis less_asym)
  next
    case False
    with that show ?thesis
      using comes_before_value [OF a b] comes_before_value [OF b a] js_lt_asym
      by (auto simp: value_before_def split: option.splits if_splits)
  qed
  assume c: "sortable collate k c" and ac: "comes_before collate k d a c"
  show "comes_before collate k d a b \<or> comes_before collate k d b c"
  proof (cases "k = ByInstrument")
    case True
    with ac con show ?thesis
      unfolding consistent_collation_def True comes_before_instrument by (cases d) (simp, metis)+
  next
    case False
    have fin: "\<And>r n. r \<in> {a, b, c} \<Longrightarrow> numericValue r k = Some n \<Longrightarrow> is_finite n"
      using a b c by (auto simp: sortable_def)
    from ac False show ?thesis
      using comes_before_value [OF a b] comes_before_value [OF b c] comes_before_value [OF a c]
        fin [of a] fin [of b] fin [of c]
      by (auto simp: value_before_def js_lt_finite split: option.splits if_splits)
  qed
qed

section \<open>Facts about the parts\<close>

lemma sorted_none_last:
  assumes "sorted_wrt (\<lambda>a b. \<not> value_before d (f b) (f a)) xs"
  shows "\<exists>vs ns. xs = vs @ ns \<and> (\<forall>r \<in> set vs. f r \<noteq> None) \<and> (\<forall>r \<in> set ns. f r = None)"
  using assms
proof (induction xs)
  case (Cons x xs)
  then obtain vs ns where IH: "xs = vs @ ns" "\<forall>r \<in> set vs. f r \<noteq> None" "\<forall>r \<in> set ns. f r = None"
    by auto
  show ?case
  proof (cases "f x")
    case None
    have "\<forall>r \<in> set xs. f r = None"
      using Cons.prems None by (auto simp: value_before_def split: option.splits)
    with None have "x # xs = [] @ (x # xs) \<and> (\<forall>r \<in> set (x # xs). f r = None)" by simp
    then show ?thesis by fastforce
  next
    case (Some v)
    then have "x # xs = (x # vs) @ ns \<and> (\<forall>r \<in> set (x # vs). f r \<noteq> None)" using IH by simp
    with IH(3) show ?thesis by blast
  qed
qed simp

lemma totals_step_complete:
  "ta_cb_complete (totals_step acc r) \<longrightarrow> ta_cb_complete acc \<and> rr_avg_cost r \<noteq> None"
  by (auto simp: totals_step_def totals_realized_def totals_cost_def totals_value_def Let_def
      split: option.splits)

lemma totals_fold_complete:
  "ta_cb_complete (foldl totals_step acc rows) \<Longrightarrow> \<forall>r \<in> set rows. rr_avg_cost r \<noteq> None"
proof (induction rows rule: rev_induct)
  case (snoc r rows)
  then show ?case using totals_step_complete [of "foldl totals_step acc rows" r] by auto
qed simp

lemma closed_aggregate_no_cost:
  "ah_status (aggregateGroup g) = ClosedRow \<Longrightarrow> ah_avg_cost (aggregateGroup g) = None"
  by (auto simp: aggregateGroup_def Let_def weighted_avg_cost_def cost_loop_def split: if_splits)

definition demo_row_of :: "jstring \<Rightarrow> jstring option \<Rightarrow> RenderRow" where
  "demo_row_of i v = (of_aggregated (aggregateGroup demo_closed))
     \<lparr> rr_instrument_id := i, rr_instrument_symbol := i, rr_twrr := v \<rparr>"

definition demo_collate :: "jstring \<Rightarrow> jstring \<Rightarrow> int" where
  "demo_collate a b = (if js_str_lt a b then - 1 else if js_str_lt b a then 1 else 0)"

lemma demo_collate_consistent: "consistent_collation demo_collate"
proof -
  have as: "js_str_lt a b \<Longrightarrow> \<not> js_str_lt b a" for a b
    using js_str_lt_trans [of a b a] by auto
  have neg: "demo_collate a b < 0 \<longleftrightarrow> js_str_lt a b" and pos: "0 < demo_collate a b \<longleftrightarrow> js_str_lt b a" for a b
    using as [of a b] by (auto simp: demo_collate_def)
  have "js_str_lt a b \<or> js_str_lt b c" if "js_str_lt a c" for a b c
    using that js_str_lt_linear [of a b] js_str_lt_trans [of b a c] by auto
  then show ?thesis by (simp add: consistent_collation_def neg pos)
qed

section \<open>Properties\<close>

lemma ordered_by_cong:
  assumes "\<And>a b. a \<in> set xs \<Longrightarrow> b \<in> set xs \<Longrightarrow> lt a b = lt' a b"
  shows "ordered_by lt xs = ordered_by lt' xs"
  unfolding ordered_by_def using assms by (auto intro: sorted_wrt_mono_rel [rotated])

lemma peers_cong:
  assumes "a \<in> set rows" "set xs = set rows" "\<And>a b. a \<in> set rows \<Longrightarrow> b \<in> set rows \<Longrightarrow> lt a b = lt' a b"
  shows "peers lt a xs = peers lt' a xs"
  unfolding peers_def using assms by (intro filter_cong) auto



text \<open>
  Missing values come last in both directions.  Sorted by a numeric column, the rows with a
  value precede the rows without.
\<close>

theorem missing_values_last:
  assumes "\<forall>r \<in> set rows. sortable collate k r" "k \<noteq> ByInstrument"
  shows "\<exists>vs ns. sortedRows collate k d rows = vs @ ns
    \<and> (\<forall>r \<in> set vs. numericValue r k \<noteq> None) \<and> (\<forall>r \<in> set ns. numericValue r k = None)"
proof (rule sorted_none_last [where d = d])
  have o: "ordered_by (comes_before collate k d) (sortedRows collate k d rows)"
    using perf_order.ordered_sort [of rows collate k d] assms by (simp add: sortedRows_def)
  show "sorted_wrt (\<lambda>a b. \<not> value_before d (numericValue b k) (numericValue a k)) (sortedRows collate k d rows)"
    by (rule sorted_wrt_mono_rel [OF _ o [unfolded ordered_by_def]])
      (use assms in \<open>auto simp: comes_before_value sortedRows_def\<close>)
qed

theorem missing_values_last_witness:
  "\<exists>vs ns. sortedRows demo_collate ByTwrr Asc [demo_row_of ''a'' None, demo_row_of ''b'' (Some ''0.2'')] = vs @ ns
     \<and> list_all (\<lambda>r. numericValue r ByTwrr \<noteq> None) vs \<and> list_all (\<lambda>r. numericValue r ByTwrr = None) ns"
proof -
  have "is_finite (str_to_number ''0.2'')" by code_simp
  then have "\<forall>r \<in> set [demo_row_of ''a'' None, demo_row_of ''b'' (Some ''0.2'')]. sortable demo_collate ByTwrr r"
    using demo_collate_consistent by (simp add: sortable_def numericValue_def demo_row_of_def)
  from missing_values_last [OF this, of Asc] show ?thesis unfolding list_all_iff by simp
qed

text \<open>
  One row per instrument.  Unless the table drills into an account, the keys of its rows are
  pairwise different, in whatever order they are shown.
\<close>

theorem row_keys_distinct:
  assumes "\<not> is_account_filter (pp_filterBy p)"
  shows "distinct (map row_key (table_rows lower collate p q st))"
proof -
  let ?data = "applyFilterBy lower (nullish (raw_data p q) []) (pp_filterBy p)"
  let ?rows = "map of_aggregated (aggregateHoldingsByInstrument ?data)"
  have "map row_key ?rows = map ah_instrument_id (aggregateHoldingsByInstrument ?data)"
    by (simp add: row_key_def of_aggregated_def o_def)
  moreover have "map ah_instrument_id (aggregateHoldingsByInstrument ?data) =
      first_seen (map ph_instrument_id ?data)"
    using hd_rows_of by (auto simp: aggregate_as_map aggregateGroup_def Let_def o_def intro: map_idI)
  ultimately have "distinct (map row_key ?rows)" by simp
  moreover have "mset (map row_key (table_rows lower collate p q st)) = mset (map row_key ?rows)"
    using assms by (simp add: table_rows_def sortedRows_def displayRows_def multiset.map_comp)
  ultimately show ?thesis by (metis mset_eq_imp_distinct_iff)
qed

definition demo_props :: PerfTableProps where
  "demo_props =
     \<lparr> pp_rows = None, pp_mode = OpenMode, pp_filterBy = None, pp_respectExcludeClosed = True,
       pp_showTotals = True, pp_timeframe = Some TFCustom, pp_from = Some ''2024-01-01'',
       pp_to = Some ''2024-02-01'', pp_perf_param = None, pp_exclude_param = None,
       pp_currency = EUR, pp_tagFilter = Some ''a&b'' \<rparr>"

theorem row_keys_distinct_witness:
  "distinct (map row_key (table_rows (\<lambda>s. s) demo_collate demo_props (QueryData (Some demo_holdings)) initial_sort))"
  using row_keys_distinct [of demo_props] by (simp add: demo_props_def)

text \<open>
  A closed instrument blanks the totals.  As soon as one instrument of the slice is closed,
  the totals row has no cost basis and no return, because the aggregate of a closed instrument
  carries no cost.
\<close>

theorem closed_row_blanks_totals:
  assumes "\<not> is_account_filter f" "g \<in> set (aggregateHoldingsByInstrument rows)" "ah_status g = ClosedRow"
    and "totals True (sortedRows collate k d (displayRows f rows)) = Some t"
  shows "tt_cost_basis t = None \<and> tt_percent_return t = None"
proof -
  let ?rows = "sortedRows collate k d (displayRows f rows)"
  have "ah_avg_cost g = None"
    using assms(2,3) closed_aggregate_no_cost by (auto simp: aggregate_as_map)
  then have "of_aggregated g \<in> set ?rows" "rr_avg_cost (of_aggregated g) = None"
    using assms(1,2) by (auto simp: sortedRows_def displayRows_def of_aggregated_def)
  then have "\<not> ta_cb_complete (totals_loop ?rows)"
    using totals_fold_complete unfolding totals_loop_def by (metis (no_types, lifting))
  then show ?thesis using assms(4) by (auto simp: totals_def Let_def split: if_splits)
qed

theorem closed_row_blanks_totals_witness:
  "\<exists>t. totals True (sortedRows demo_collate ByTwrr Desc (displayRows None demo_closed)) = Some t
     \<and> tt_cost_basis t = None"
proof -
  have agg: "aggregateHoldingsByInstrument demo_closed = [aggregateGroup demo_closed]"
    by (simp add: aggregate_as_map rows_of_def demo_closed_def demo_holding_def first_seen_def)
  have st: "ah_status (aggregateGroup demo_closed) = ClosedRow"
    by (simp add: aggregateGroup_def Let_def open_rows_def is_open_def demo_closed_def)
  obtain t where t: "totals True (sortedRows demo_collate ByTwrr Desc (displayRows None demo_closed)) = Some t"
    by (simp add: totals_def Let_def sortedRows_def displayRows_def agg)
  have "\<not> is_account_filter None" by simp
  from closed_row_blanks_totals [OF this _ st t] show ?thesis using t agg by auto
qed

text \<open>
  No request without its dates.  Whenever the table asks for rows in the custom timeframe,
  its URL carries both dates; and a custom timeframe that is not ready shows the prompt instead.
\<close>

theorem custom_range_complete:
  assumes "pp_rows p = None" "table_timeframe p = TFCustom"
  shows "if perf_query_enabled p
    then \<exists>f t. pp_from p = Some f \<and> pp_to p = Some t
      \<and> timeframeQuery p @ customQuery p = ''&timeframe=custom&from='' @ f @ ''&to='' @ t
    else PerfTable lower collate p q st = CustomRangeEmptyView"
  using assms by (auto simp: perf_query_enabled_def customDatesReady_def customQuery_def
      timeframeQuery_def PerfTable_def Let_def)

theorem custom_range_complete_witness:
  "timeframeQuery demo_props @ customQuery demo_props = ''&timeframe=custom&from=2024-01-01&to=2024-02-01''"
  using custom_range_complete [of demo_props]
  by (simp add: demo_props_def table_timeframe_def nullish_def perf_query_enabled_def customDatesReady_def)

end
