(* ===== verification/Api.thy ===== *)
theory Api
  imports Uri
begin

text \<open>
  The client of the back end (\<open>lib/api-client.ts\<close>), the recovery from a dead session
  (\<open>lib/session-expiry.ts\<close>) and the texts made of errors (\<open>lib/api-error-message.ts\<close>,
  \<open>errorDetail\<close> of \<open>ProviderKeyStep.tsx\<close>).  What the network answers is an argument: a
  \<open>fetch\<close> either fails with an exception or yields a response.
\<close>

section \<open>Responses and exceptions\<close>

text \<open>
  \<open>body_text\<close> is \<open>None\<close> when reading the body fails, and \<open>failure\<close> the message of the
  exception the engine raises when the body cannot be read or is not JSON.
\<close>

record http_response =
  status :: nat
  status_text :: jstring
  body_text :: "jstring option"
  failure :: jstring

datatype fetch_outcome = FetchFailed jstring | Responded http_response

definition response_ok :: "http_response \<Rightarrow> bool" where
  "response_ok r \<longleftrightarrow> 200 \<le> status r \<and> status r \<le> 299"

definition text_response :: "nat \<Rightarrow> jstring \<Rightarrow> fetch_outcome" where
  "text_response n b = Responded \<lparr>status = n, status_text = [], body_text = Some b, failure = []\<rparr>"

text \<open>What a \<open>catch\<close> sees: an \<open>ApiError\<close>, another \<open>Error\<close>, or a thrown value that is none.\<close>

datatype thrown = ApiErr nat jstring | OtherErr jstring | NotAnError

definition error_message :: "thrown \<Rightarrow> jstring option" where
  "error_message e =
     (case e of
        ApiErr n d \<Rightarrow> Some (''API '' @ show_digits (int n) @ '': '' @ d)
      | OtherErr m \<Rightarrow> Some m
      | NotAnError \<Rightarrow> None)"

definition truthy :: "json \<Rightarrow> bool" where
  "truthy v =
     (case v of JNull \<Rightarrow> False | JBool b \<Rightarrow> b | JNum n \<Rightarrow> n \<noteq> NaN \<and> num_val n \<noteq> 0 \<or> n \<in> {PInf, NInf}
      | JStr s \<Rightarrow> s \<noteq> [] | JArr _ \<Rightarrow> True | JObj _ \<Rightarrow> True)"

section \<open>apiFetch\<close>

record request_init =
  http_method :: "jstring option"
  init_headers :: "(jstring, jstring) jsmap option"
  init_body :: "jstring option"

record request =
  req_url :: jstring
  req_method :: "jstring option"
  req_credentials :: jstring
  req_headers :: "(jstring, jstring) jsmap"
  req_body :: "jstring option"

text \<open>The request: the caller's headers are spread over the content type.\<close>

definition api_request :: "jstring \<Rightarrow> jstring \<Rightarrow> request_init \<Rightarrow> request" where
  "api_request base path init =
     \<lparr>req_url = base @ path, req_method = http_method init, req_credentials = ''include'',
      req_headers = fold (\<lambda>(k, v). jm_set k v) (nullish (init_headers init) [])
        [(''Content-Type'', ''application/json'')],
      req_body = init_body init\<rparr>"

definition isAuthPath :: "jstring \<Rightarrow> bool" where
  "isAuthPath path \<longleftrightarrow> starts_with path ''/api/auth/''"

text \<open>
  The result, and whether the call starts the recovery from a dead session.  \<open>None\<close> is the
  \<open>undefined\<close> of an empty answer.
\<close>

definition apiFetch :: "bool \<Rightarrow> jstring \<Rightarrow> fetch_outcome \<Rightarrow> (thrown + json option) \<times> bool" where
  "apiFetch browser path out =
     (case out of
        FetchFailed m \<Rightarrow> (Inl (OtherErr m), False)
      | Responded r \<Rightarrow>
          if \<not> response_ok r then
            (Inl (ApiErr (status r) (case body_text r of Some t \<Rightarrow> t | None \<Rightarrow> status_text r)),
             status r = 401 \<and> browser \<and> \<not> isAuthPath path)
          else if status r = 204 then (Inr None, False)
          else (case body_text r of
                  None \<Rightarrow> Inl (OtherErr (failure r))
                | Some t \<Rightarrow> (case json_parse t of None \<Rightarrow> Inl (OtherErr (failure r)) | Some v \<Rightarrow> Inr (Some v)),
                False))"

section \<open>Recovery from a dead session\<close>

datatype expiry_effect = LogoutSent | NavigateTo jstring

record expiry_state =
  inFlight :: bool
  logout_open :: bool
  effects :: "expiry_effect list"

definition page_loaded :: expiry_state where
  "page_loaded = \<lparr>inFlight = False, logout_open = False, effects = []\<rparr>"

text \<open>\<open>handleSessionExpired\<close> up to its \<open>await\<close>, and from where the logout has settled either way.\<close>

definition expire_start :: "expiry_state \<Rightarrow> expiry_state" where
  "expire_start st =
     (if inFlight st then st
      else st\<lparr>inFlight := True, logout_open := True, effects := effects st @ [LogoutSent]\<rparr>)"

definition login_url :: "jstring \<Rightarrow> jstring \<Rightarrow> jstring" where
  "login_url pathname search =
     ''/login'' @ (if pathname = ''/login'' then [] else ''?next='' @ encodeURIComponent (pathname @ search))"

definition expire_finish :: "jstring \<Rightarrow> jstring \<Rightarrow> expiry_state \<Rightarrow> expiry_state" where
  "expire_finish pathname search st =
     st\<lparr>logout_open := False, effects := effects st @ [NavigateTo (login_url pathname search)]\<rparr>"

text \<open>
  The page as it runs: calls settle in any order, each possibly starting the recovery; the logout
  settles once, wherever the user has got to by then.
\<close>

inductive expiry_step :: "expiry_state \<Rightarrow> expiry_state \<Rightarrow> bool" where
  call_settles: "expiry_step st (if snd (apiFetch True path out) then expire_start st else st)"
| logout_settles: "logout_open st \<Longrightarrow> expiry_step st (expire_finish pathname search st)"

inductive expiry_reach :: "expiry_state \<Rightarrow> bool" where
  init: "expiry_reach page_loaded"
| step: "expiry_reach st \<Longrightarrow> expiry_step st st' \<Longrightarrow> expiry_reach st'"

lemmas expiry_defs = expire_start_def expire_finish_def page_loaded_def

definition expiry_phase :: "expiry_state \<Rightarrow> bool" where
  "expiry_phase st \<longleftrightarrow>
     (\<not> inFlight st \<and> \<not> logout_open st \<and> effects st = [])
     \<or> (inFlight st \<and> logout_open st \<and> effects st = [LogoutSent])
     \<or> (inFlight st \<and> \<not> logout_open st \<and> (\<exists>p s. effects st = [LogoutSent, NavigateTo (login_url p s)]))"

inductive_cases expiry_stepE: "expiry_step st st'"

lemma expiry_phase_step: "expiry_phase st \<Longrightarrow> expiry_step st st' \<Longrightarrow> expiry_phase st'"
  by (elim expiry_stepE) (auto simp: expiry_phase_def expiry_defs)

lemma expiry_reach_phase: "expiry_reach st \<Longrightarrow> expiry_phase st"
proof (induction rule: expiry_reach.induct)
  case init
  then show ?case by (simp add: expiry_phase_def page_loaded_def)
qed (rule expiry_phase_step)

text \<open>
  C12: A burst of rejected calls sends one logout and navigates once.  Whatever order calls and the
  logout settle in, at most one logout request and one navigation happen on a page, the navigation
  follows the logout, and once a call outside the authentication endpoints is answered 401 the
  page has either navigated to the login form already or does so when the logout settles.
\<close>
theorem one_logout_one_redirect:
  assumes "expiry_reach st"
  shows "(effects st = [] \<or> effects st = [LogoutSent]
      \<or> (\<exists>p s. effects st = [LogoutSent, NavigateTo (login_url p s)]))
    \<and> snd (apiFetch True path (Responded r)) = (status r = 401 \<and> \<not> isAuthPath path)
    \<and> ((logout_open (expire_start st)
        \<and> effects (expire_finish pathname search (expire_start st))
          = [LogoutSent, NavigateTo (login_url pathname search)])
      \<or> (\<exists>p s. effects (expire_start st) = [LogoutSent, NavigateTo (login_url p s)]))"
proof -
  have "snd (apiFetch True path (Responded r)) = (status r = 401 \<and> \<not> isAuthPath path)"
    by (auto simp: apiFetch_def response_ok_def)
  then show ?thesis
    using expiry_reach_phase [OF assms] by (auto simp: expiry_phase_def expiry_defs)
qed

definition answer_401 :: fetch_outcome where
  "answer_401 = text_response 401 ''{}''"

text \<open>Two rejected calls, then the logout: the page ends at the login form with its own address.\<close>

lemma burst_reach:
  "expiry_reach (expire_finish ''/track'' ''?tag=a'' (expire_start (expire_start page_loaded)))"
proof -
  have 401: "snd (apiFetch True ''/api/x'' answer_401)" by code_simp
  have 1: "expiry_reach (expire_start page_loaded)"
    using expiry_reach.step [OF expiry_reach.init call_settles [of _ "''/api/x''" answer_401]] 401 by simp
  then have 2: "expiry_reach (expire_start (expire_start page_loaded))"
    using expiry_reach.step [OF 1 call_settles [of _ "''/api/x''" answer_401]] 401 by simp
  show ?thesis
    by (rule expiry_reach.step [OF 2 logout_settles]) (simp add: expiry_defs)
qed

theorem one_logout_one_redirect_witness:
  "effects (expire_finish ''/track'' ''?tag=a'' (expire_start (expire_start page_loaded)))
    = [LogoutSent, NavigateTo ''/login?next=%2Ftrack%3Ftag%3Da'']
   \<and> snd (apiFetch True ''/api/perf'' (text_response 401 []))
   \<and> \<not> logout_open (expire_start (expire_finish ''/track'' ''?tag=a'' (expire_start (expire_start page_loaded))))"
proof -
  have "login_url ''/track'' ''?tag=a'' = ''/login?next=%2Ftrack%3Ftag%3Da''" by code_simp
  moreover have "\<not> isAuthPath ''/api/perf''" by code_simp
  ultimately show ?thesis
    using one_logout_one_redirect [OF burst_reach, of "''/api/perf''"
      "\<lparr>status = 401, status_text = [], body_text = Some [], failure = []\<rparr>"]
    by (simp add: expiry_defs text_response_def)
qed

section \<open>Texts of errors\<close>

definition nonblank_str :: "json option \<Rightarrow> jstring option" where
  "nonblank_str v =
     (case v of Some (JStr s) \<Rightarrow> if js_trim s \<noteq> [] then Some s else None | _ \<Rightarrow> None)"

definition body_detail :: "json \<Rightarrow> jstring option" where
  "body_detail parsed =
     (case nonblank_str (member ''detail'' parsed) of Some s \<Rightarrow> Some s
      | None \<Rightarrow> (case member ''detail'' parsed of
                   Some (JArr (d # ds)) \<Rightarrow> nonblank_str (member ''msg'' d) | _ \<Rightarrow> None))"

definition extractApiErrorMessage :: "thrown \<Rightarrow> jstring \<Rightarrow> jstring" where
  "extractApiErrorMessage err fallback =
     (case err of
        ApiErr n d \<Rightarrow>
          (case Option.bind (json_parse d) body_detail of
             Some s \<Rightarrow> s
           | None \<Rightarrow> nullish (Option.bind (error_message err) or_null) fallback)
      | OtherErr m \<Rightarrow> nullish (or_null m) fallback
      | NotAnError \<Rightarrow> fallback)"

definition errorDetail :: "thrown \<Rightarrow> jstring" where
  "errorDetail err =
     (case err of
        ApiErr n d \<Rightarrow>
          (case json_parse d of
             Some v \<Rightarrow> (case member ''detail'' v of Some (JStr s) \<Rightarrow> s | _ \<Rightarrow> d)
           | None \<Rightarrow> d)
      | OtherErr m \<Rightarrow> m
      | NotAnError \<Rightarrow> ''Something went wrong'')"

lemma error_message_nonempty: "error_message (ApiErr n d) = Some m \<Longrightarrow> m \<noteq> []"
  by (auto simp: error_message_def)

text \<open>
  An error of the back end is shown as its own sentence.  Where the body is JSON with a
  \<open>detail\<close> that is a text with more than white space in it, both unwrapping functions show that
  text; where it is the list of a failed validation, the first message is shown; in every other
  case the caller's text is the message of the exception, which names the status, so no \<open>ApiError\<close>
  is ever shown as an empty text.
\<close>
theorem error_text_unwrapped:
  assumes "json_parse body = Some v"
  shows "(nonblank_str (member ''detail'' v) = Some s
      \<longrightarrow> extractApiErrorMessage (ApiErr n body) fb = s \<and> errorDetail (ApiErr n body) = s)
    \<and> (member ''detail'' v = Some (JArr (d # ds)) \<and> nonblank_str (member ''msg'' d) = Some s
      \<longrightarrow> extractApiErrorMessage (ApiErr n body) fb = s)
    \<and> (body_detail v = None
      \<longrightarrow> extractApiErrorMessage (ApiErr n body) fb = ''API '' @ show_digits (int n) @ '': '' @ body)
    \<and> extractApiErrorMessage (ApiErr n body) fb \<noteq> []"
  using assms
  by (auto simp: extractApiErrorMessage_def errorDetail_def body_detail_def nonblank_str_def error_message_def
      js_trim_def trim_start_def trim_end_def or_null_def split: option.splits json.splits list.splits if_splits)

theorem error_text_unwrapped_witness:
  "extractApiErrorMessage (ApiErr 409 (stringify (JObj [(''detail'', JStr ''Exists'')]))) ''x'' = ''Exists''"
proof -
  have "json_parse (stringify (JObj [(''detail'', JStr ''Exists'')])) = Some (JObj [(''detail'', JStr ''Exists'')])"
    by code_simp
  moreover have "nonblank_str (member ''detail'' (JObj [(''detail'', JStr ''Exists'')])) = Some ''Exists''"
    by code_simp
  ultimately show ?thesis using error_text_unwrapped [of "stringify (JObj [(''detail'', JStr ''Exists'')])"] by blast
qed

end
