(* ===== verification/View.thy ===== *)
theory View
  imports Prelude
begin

text \<open>
  What a component renders, without its styling: texts, alerts, inputs and the controls that trigger
  events.  The events a user can trigger are those of the controls that are not disabled, which ties
  the guards of the step relations to what is on screen.
\<close>

datatype 'e ui =
    Txt jstring
  | Heading jstring
  | Alert jstring
  | Status jstring
  | Input jstring jstring bool bool
  | Choice jstring jstring "(jstring \<times> jstring) list" bool
  | Control jstring bool 'e
  | Toggle jstring bool bool 'e
  | Anchor jstring jstring
  | Busy
  | Section "'e ui list"

text \<open>
  \<open>Input label text secret disabled\<close>, \<open>Choice label current options disabled\<close>, \<open>Control label disabled event\<close>,
  \<open>Toggle label checked disabled event\<close>, \<open>Anchor label address\<close>; \<open>Busy\<close> is a skeleton.
\<close>

fun control_events :: "'e ui \<Rightarrow> 'e list" where
  "control_events (Control l d e) = (if d then [] else [e])"
| "control_events (Toggle l c d e) = (if d then [] else [e])"
| "control_events (Section us) = concat (map control_events us)"
| "control_events _ = []"

definition on_offer :: "'e ui list \<Rightarrow> 'e list" where
  "on_offer us = concat (map control_events us)"

fun alerts_of :: "'e ui \<Rightarrow> jstring list" where
  "alerts_of (Alert s) = [s]"
| "alerts_of (Section us) = concat (map alerts_of us)"
| "alerts_of _ = []"

definition alerts :: "'e ui list \<Rightarrow> jstring list" where
  "alerts us = concat (map alerts_of us)"

text \<open>\<open>{cond ? ... : null}\<close> and \<open>{cond && ...}\<close>.\<close>

definition only_if :: "bool \<Rightarrow> 'e ui list \<Rightarrow> 'e ui list" where
  "only_if c us = (if c then us else [])"

definition alert_of :: "jstring option \<Rightarrow> 'e ui list" where
  "alert_of err = (case Option.bind err or_null of Some s \<Rightarrow> [Alert s] | None \<Rightarrow> [])"

text \<open>The message shown under a field: the first one reported for it.\<close>

definition field_alert :: "(jstring \<times> jstring) list \<Rightarrow> jstring \<Rightarrow> 'e ui list" where
  "field_alert errs name = (case find (\<lambda>e. fst e = name) errs of Some e \<Rightarrow> [Alert (snd e)] | None \<Rightarrow> [])"

named_theorems ui_simps \<open>what a rendered list on_offer and reports\<close>

lemma offers_simps [ui_simps]:
  "on_offer [] = []" "on_offer (u # us) = control_events u @ on_offer us" "on_offer (us @ vs) = on_offer us @ on_offer vs"
  by (simp_all add: on_offer_def)

lemma alerts_simps [ui_simps]:
  "alerts [] = []" "alerts (u # us) = alerts_of u @ alerts us" "alerts (us @ vs) = alerts us @ alerts vs"
  by (simp_all add: alerts_def)

lemma offers_only_if [ui_simps]: "on_offer (only_if c us) = (if c then on_offer us else [])"
  by (simp add: only_if_def on_offer_def)

lemma alerts_only_if [ui_simps]: "alerts (only_if c us) = (if c then alerts us else [])"
  by (simp add: only_if_def alerts_def)

lemma offers_alert [ui_simps]: "on_offer (alert_of e) = []"
  by (cases "Option.bind e or_null") (simp_all add: alert_of_def on_offer_def)

lemma alerts_alert [ui_simps]: "alerts (alert_of e) = (case Option.bind e or_null of Some s \<Rightarrow> [s] | None \<Rightarrow> [])"
  by (cases "Option.bind e or_null") (simp_all add: alert_of_def alerts_def)

lemma offers_map [ui_simps]: "on_offer (map f xs) = concat (map (\<lambda>x. control_events (f x)) xs)"
  by (simp add: on_offer_def comp_def)

lemma offers_section [ui_simps]: "control_events (Section us) = on_offer us"
  by (simp add: on_offer_def)

lemma alerts_section [ui_simps]: "alerts_of (Section us) = alerts us"
  by (simp add: alerts_def)

lemma offers_field [ui_simps]: "on_offer (field_alert errs n) = []"
  by (cases "find (\<lambda>e. fst e = n) errs") (simp_all add: field_alert_def on_offer_def)

lemma alerts_field [ui_simps]:
  "alerts (field_alert errs n) = (case find (\<lambda>e. fst e = n) errs of Some e \<Rightarrow> [snd e] | None \<Rightarrow> [])"
  by (cases "find (\<lambda>e. fst e = n) errs") (simp_all add: field_alert_def alerts_def)

declare control_events.simps(3) [simp del] alerts_of.simps(2) [simp del]

end
