(* ===== verification/NetWorth.thy ===== *)
theory NetWorth
  imports Prefs PerfTable Api View
begin

text \<open>
  The net worth chart: the request it makes, the data it hands to the chart library, the HTML of its
  tooltip, the notes on gaps (\<open>NetWorthChart.tsx\<close>, \<open>lib/chart-utils.ts\<close>) and the section around
  it with its switches, its filter and its views (\<open>NetWorthSection.tsx\<close>).  A date is a value of
  a type of its own: \<open>local_day\<close> reads its local year, month from 0 and day, and the date library
  writes it.
\<close>

section \<open>Chart helpers\<close>

definition pad2 :: "int \<Rightarrow> jstring" where
  "pad2 n = (let s = show_digits n in replicate (2 - length s) CHR ''0'' @ s)"

definition toIsoDate :: "int \<times> int \<times> int \<Rightarrow> jstring" where
  "toIsoDate d = (case d of (y, m, day) \<Rightarrow> show_int y @ ''-'' @ pad2 (m + 1) @ ''-'' @ pad2 day)"

definition escapeHtml :: "jstring \<Rightarrow> jstring" where
  "escapeHtml s =
     replace_all CHR 0x27 ''&#39;''
       (replace_all CHR 0x22 ''&quot;''
         (replace_all CHR 0x3E ''&gt;'' (replace_all CHR 0x3C ''&lt;'' (replace_all CHR 0x26 ''&amp;'' s))))"

text \<open>The five replacements one after the other are one pass over the text.\<close>

definition entity :: "char \<Rightarrow> jstring" where
  "entity c =
     (if c = CHR 0x26 then ''&amp;'' else if c = CHR 0x3C then ''&lt;'' else if c = CHR 0x3E then ''&gt;''
      else if c = CHR 0x22 then ''&quot;'' else if c = CHR 0x27 then ''&#39;'' else [c])"

lemma replace_all_simps [simp]:
  "replace_all c r [] = []" "replace_all c r (x # s) = (if x = c then r else [x]) @ replace_all c r s"
  "replace_all c r (s @ t) = replace_all c r s @ replace_all c r t"
  by (simp_all add: replace_all_def)

lemma escapeHtml_pass: "escapeHtml s = concat (map entity s)"
proof (induction s)
  case (Cons c s)
  then show ?case by (simp add: escapeHtml_def entity_def)
qed (simp add: escapeHtml_def)

text \<open>What a browser shows for a text with these five entities.\<close>

fun html_text :: "jstring \<Rightarrow> jstring" where
  "html_text [] = []"
| "html_text (c # s) =
     (if c = CHR 0x26
      then (if starts_with s ''amp;'' then CHR 0x26 # html_text (drop 4 s)
            else if starts_with s ''lt;'' then CHR 0x3C # html_text (drop 3 s)
            else if starts_with s ''gt;'' then CHR 0x3E # html_text (drop 3 s)
            else if starts_with s ''quot;'' then CHR 0x22 # html_text (drop 5 s)
            else if starts_with s ''#39;'' then CHR 0x27 # html_text (drop 4 s)
            else c # html_text s)
      else c # html_text s)"

lemma html_text_entity: "html_text (entity c @ s) = c # html_text s"
  by (simp add: entity_def starts_with_def)

lemma html_text_escape: "html_text (escapeHtml s @ t) = s @ html_text t"
  unfolding escapeHtml_pass by (induction s) (simp_all add: html_text_entity del: html_text.simps)

text \<open>The characters that open or close a tag or an attribute.\<close>

definition markup :: "jstring \<Rightarrow> jstring" where
  "markup s = filter (\<lambda>c. c \<in> {CHR 0x3C, CHR 0x3E, CHR 0x22, CHR 0x27}) s"

lemma markup_append [simp]: "markup (s @ t) = markup s @ markup t"
  by (simp add: markup_def)

lemma markup_Cons [simp]:
  "markup (c # s) = (if c \<in> {CHR 0x3C, CHR 0x3E, CHR 0x22, CHR 0x27} then [c] else []) @ markup s" "markup [] = []"
  by (simp_all add: markup_def)

lemma markup_concat: "markup (concat xs) = concat (map markup xs)"
  by (induction xs) (simp_all add: markup_def)

lemma markup_escape [simp]: "markup (escapeHtml s) = []"
proof -
  have "markup (entity c) = []" for c by (simp add: entity_def)
  then show ?thesis by (simp add: escapeHtml_pass markup_concat comp_def)
qed

section \<open>The request\<close>

record 'date nw_props =
  nw_timeframe :: Timeframe
  nw_from :: "'date option"
  nw_to :: "'date option"
  nw_showTransactions :: bool
  nw_showCostBasis :: bool
  nw_showYields :: bool
  nw_instrumentIds :: "jstring list"
  nw_tagFilter :: "jstring option"
  nw_hasParentBackfill :: bool

text \<open>\<open>URLSearchParams.set\<close> on names that are not there yet, and \<open>append\<close>, add at the end.\<close>

definition networth_params ::
  "('date \<Rightarrow> int \<times> int \<times> int) \<Rightarrow> currency \<Rightarrow> jstring list \<Rightarrow> 'date nw_props \<Rightarrow> (jstring \<times> jstring) list" where
  "networth_params local_day cur ids p =
     [(''timeframe'', timeframe_text (nw_timeframe p)), (''currency'', currency_text cur)]
     @ (case (nw_timeframe p, nw_from p, nw_to p) of
          (TFCustom, Some f, Some t) \<Rightarrow> [(''from'', toIsoDate (local_day f)), (''to'', toIsoDate (local_day t))]
        | _ \<Rightarrow> [])
     @ map (\<lambda>i. (''instrument_id'', i)) ids
     @ (if nw_showCostBasis p then [(''include_cost_basis'', ''true'')] else [])
     @ (case Option.bind (nw_tagFilter p) or_null of Some t \<Rightarrow> [(''tag'', t)] | None \<Rightarrow> [])"

definition buildQueryUrl ::
  "('date \<Rightarrow> int \<times> int \<times> int) \<Rightarrow> currency \<Rightarrow> jstring list \<Rightarrow> 'date nw_props \<Rightarrow> jstring" where
  "buildQueryUrl local_day cur ids p = ''/api/networth?'' @ query_text (networth_params local_day cur ids p)"

definition stableIds :: "'date nw_props \<Rightarrow> jstring list" where
  "stableIds p = sort_by js_str_lt (nw_instrumentIds p)"

definition networth_url :: "('date \<Rightarrow> int \<times> int \<times> int) \<Rightarrow> currency \<Rightarrow> 'date nw_props \<Rightarrow> jstring" where
  "networth_url local_day cur p = buildQueryUrl local_day cur (stableIds p) p"

text \<open>The key the answer is cached under.\<close>

record nw_key =
  key_timeframe :: Timeframe
  key_currency :: currency
  key_from :: "jstring option"
  key_to :: "jstring option"
  key_ids :: "jstring list"
  key_cost :: bool
  key_tag :: "jstring option"

definition networth_key :: "('date \<Rightarrow> int \<times> int \<times> int) \<Rightarrow> currency \<Rightarrow> 'date nw_props \<Rightarrow> nw_key" where
  "networth_key local_day cur p =
     \<lparr>key_timeframe = nw_timeframe p, key_currency = cur,
      key_from = map_option (\<lambda>d. toIsoDate (local_day d)) (nw_from p),
      key_to = map_option (\<lambda>d. toIsoDate (local_day d)) (nw_to p),
      key_ids = stableIds p, key_cost = nw_showCostBasis p, key_tag = nw_tagFilter p\<rparr>"

definition networth_enabled :: "'date nw_props \<Rightarrow> bool" where
  "networth_enabled p \<longleftrightarrow> nw_timeframe p \<noteq> TFCustom \<or> (nw_from p \<noteq> None \<and> nw_to p \<noteq> None)"

interpretation id_order: weak_order "\<lambda>_. True" js_str_lt
proof
  show "\<not> js_str_lt a a" for a by simp
  show "\<not> js_str_lt b a" if "js_str_lt a b" for a b using that js_str_lt_trans [of a b a] by auto
  show "js_str_lt a b \<or> js_str_lt b c" if "js_str_lt a c" for a b c
    using that js_str_lt_linear [of a b] js_str_lt_trans [of b a c] by auto
qed

lemma id_peers: "peers js_str_lt a xs = replicate (count_list xs a) a"
proof (induction xs)
  case (Cons x xs)
  have "(\<not> js_str_lt a x \<and> \<not> js_str_lt x a) = (x = a)" using js_str_lt_linear by auto
  then show ?case using Cons by (simp add: peers_Cons)
qed (simp add: peers_def)

lemma sorted_ids_unique:
  assumes "mset xs = mset ys"
  shows "sort_by js_str_lt xs = sort_by js_str_lt ys"
proof (rule id_order.ordered_unique)
  show "peers js_str_lt a (sort_by js_str_lt xs) = peers js_str_lt a (sort_by js_str_lt ys)" for a
  proof -
    have "count_list (sort_by js_str_lt xs) a = count_list (sort_by js_str_lt ys) a"
      using assms by (metis count_mset mset_sort_by)
    then show ?thesis by (simp add: id_peers)
  qed
qed (simp_all add: id_order.ordered_sort)

lemma key_decides_request:
  assumes "networth_key local_day cur r = networth_key local_day cur' s"
  shows "networth_url local_day cur r = networth_url local_day cur' s"
proof -
  have "networth_params local_day cur (stableIds r) r = networth_params local_day cur' (stableIds s) s"
    using assms
    by (cases "nw_from r"; cases "nw_from s"; cases "nw_to r"; cases "nw_to s")
      (auto simp: networth_key_def networth_params_def split: Timeframe.splits)
  then show ?thesis by (simp add: networth_url_def buildQueryUrl_def)
qed

text \<open>
  The order in which instruments were picked does not matter.  Two views that select the same
  instruments, in whatever order, and agree otherwise send the same request under the same key, so
  that the second is answered from the cache of the first.
\<close>
theorem networth_request_by_key:
  assumes "mset (nw_instrumentIds p) = mset (nw_instrumentIds q)"
    and "p\<lparr>nw_instrumentIds := []\<rparr> = q\<lparr>nw_instrumentIds := []\<rparr>"
  shows "networth_key local_day cur p = networth_key local_day cur q
    \<and> networth_url local_day cur p = networth_url local_day cur q"
proof -
  have "stableIds p = stableIds q" using sorted_ids_unique [OF assms(1)] by (simp add: stableIds_def)
  then have "networth_key local_day cur p = networth_key local_day cur q"
    using assms(2) by (cases p; cases q) (simp add: networth_key_def)
  then show ?thesis using key_decides_request by blast
qed

definition picked :: "jstring list \<Rightarrow> (int \<times> int \<times> int) nw_props" where
  "picked ids = \<lparr>nw_timeframe = TFCustom, nw_from = Some (2024, 0, 31), nw_to = Some (2024, 11, 1),
     nw_showTransactions = True, nw_showCostBasis = True, nw_showYields = False, nw_instrumentIds = ids,
     nw_tagFilter = Some ''core'', nw_hasParentBackfill = False\<rparr>"

theorem networth_request_by_key_witness:
  "networth_url id EUR (picked [''b'', ''a'']) = networth_url id EUR (picked [''a'', ''b''])"
  using networth_request_by_key [of "picked [''b'', ''a'']" "picked [''a'', ''b'']" id EUR]
  by (simp add: picked_def add_mset_commute)

section \<open>What the chart draws\<close>

record NetWorthPoint =
  pt_date :: jstring
  pt_value :: jstring

record NetWorthMarker =
  mk_date :: jstring
  mk_type :: jstring
  mk_instrument_id :: "jstring option"
  mk_symbol :: "jstring option"
  mk_instrument_type :: "jstring option"
  mk_display_decimals :: "nat option"
  mk_quantity :: "jstring option"
  mk_value :: jstring
  mk_count :: int

record NetWorthResponse =
  nr_points :: "NetWorthPoint list"
  nr_markers :: "NetWorthMarker list"
  nr_aggregation :: jstring
  nr_warnings :: "jstring list"
  nr_cost_basis :: "NetWorthPoint list option"

definition line_data :: "NetWorthPoint list \<Rightarrow> (jstring \<times> jsnum) list" where
  "line_data ps = map (\<lambda>p. (pt_date p, str_to_number (pt_value p))) ps"

definition hasCostBasis :: "bool \<Rightarrow> NetWorthResponse \<Rightarrow> bool" where
  "hasCostBasis showCostBasis r \<longleftrightarrow> showCostBasis \<and> nullish (nr_cost_basis r) [] \<noteq> []"

definition costBasisLine :: "bool \<Rightarrow> NetWorthResponse \<Rightarrow> (jstring \<times> jsnum) list" where
  "costBasisLine showCostBasis r = (if hasCostBasis showCostBasis r then line_data (nullish (nr_cost_basis r) []) else [])"

text \<open>A map built from entries keeps the last value of a key.\<close>

definition by_date :: "(jstring \<times> jsnum) list \<Rightarrow> jstring \<Rightarrow> jsnum option" where
  "by_date entries = map_of (rev entries)"

definition visibleMarkers :: "bool \<Rightarrow> bool \<Rightarrow> NetWorthMarker list \<Rightarrow> NetWorthMarker list" where
  "visibleMarkers showTransactions showYields ms =
     (if showTransactions then if showYields then ms else filter (\<lambda>m. mk_type m \<noteq> ''yield'') ms else [])"

definition markersByDate :: "NetWorthMarker list \<Rightarrow> (jstring, NetWorthMarker list) jsmap" where
  "markersByDate ms = foldl (\<lambda>acc m. jm_set (mk_date m) (nullish (jm_get acc (mk_date m)) [] @ [m]) acc) [] ms"

datatype mark_kind = BuyMark | SellMark | YieldMark

definition mark_kind_of :: "NetWorthMarker \<Rightarrow> mark_kind" where
  "mark_kind_of m = (if mk_type m = ''buy'' then BuyMark else if mk_type m = ''sell'' then SellMark else YieldMark)"

record mark_point =
  mp_kind :: mark_kind
  mp_date :: jstring
  mp_y :: jsnum

definition markPoint :: "NetWorthPoint list \<Rightarrow> NetWorthMarker \<Rightarrow> mark_point" where
  "markPoint ps m =
     \<lparr>mp_kind = mark_kind_of m, mp_date = mk_date m,
      mp_y = (case find (\<lambda>p. pt_date p = mk_date m) ps of Some p \<Rightarrow> str_to_number (pt_value p) | None \<Rightarrow> Num 0)\<rparr>"

text \<open>The data of the option; its colours, fonts and paddings are left out.\<close>

record chart_option =
  co_line :: "(jstring \<times> jsnum) list"
  co_cost :: "(jstring \<times> jsnum) list"
  co_marks :: "mark_point list"
  co_legend :: "jstring list option"
  co_top :: int
  co_minInterval :: "int option"

definition chart_option_of :: "'date nw_props \<Rightarrow> NetWorthResponse \<Rightarrow> chart_option" where
  "chart_option_of p r =
     \<lparr>co_line = line_data (nr_points r), co_cost = costBasisLine (nw_showCostBasis p) r,
      co_marks = map (markPoint (nr_points r)) (visibleMarkers (nw_showTransactions p) (nw_showYields p) (nr_markers r)),
      co_legend = (if hasCostBasis (nw_showCostBasis p) r then Some [''Cost basis'', ''Portfolio value''] else None),
      co_top = (if hasCostBasis (nw_showCostBasis p) r then 32 else 24),
      co_minInterval = (if nw_timeframe p = TFAll then Some (28 * 24 * 60 * 60 * 1000) else None)\<rparr>"

definition axis_format :: "Timeframe \<Rightarrow> jstring" where
  "axis_format tf = (if tf = TFAll then ''MMMM yyyy'' else ''dd MMMM'')"

lemma markers_of_date: "nullish (jm_get (markersByDate ms) d) [] = filter (\<lambda>m. mk_date m = d) ms"
proof (induction ms rule: rev_induct)
  case (snoc m ms)
  then show ?case by (auto simp: markersByDate_def jm_get_set nullish_def)
qed (simp add: markersByDate_def)

text \<open>Every marker on screen sits on the line whenever its date has a point.\<close>

lemma mark_on_line:
  assumes "distinct (map pt_date ps)" "p \<in> set ps" "pt_date p = mk_date m"
  shows "(mp_date (markPoint ps m), mp_y (markPoint ps m)) \<in> set (line_data ps)"
proof -
  have "find (\<lambda>q. pt_date q = mk_date m) ps = Some p"
    using assms
  proof (induction ps)
    case (Cons q ps)
    then show ?case by (cases "pt_date q = mk_date m") (force simp: image_iff)+
  qed simp
  then show ?thesis using assms(2,3) by (force simp: markPoint_def line_data_def)
qed

section \<open>The tooltip\<close>

definition POSITIVE :: jstring where "POSITIVE = ''#16A34A''"
definition NEGATIVE :: jstring where "NEGATIVE = ''#DC2626''"
definition ACCENT :: jstring where "ACCENT = ''#262626''"
definition MUTED :: jstring where "MUTED = ''#737373''"
definition LINE_BLUE :: jstring where "LINE_BLUE = ''#0EA5E9''"

definition dq :: jstring where "dq = [CHR 0x22]"

definition html_div :: "jstring \<Rightarrow> jstring \<Rightarrow> jstring" where
  "html_div style content = ''<div style='' @ dq @ style @ dq @ ''>'' @ content @ ''</div>''"

definition colored :: "jstring \<Rightarrow> jstring \<Rightarrow> jstring" where
  "colored colour sign = ''<span style='' @ dq @ ''color:'' @ colour @ dq @ ''>'' @ sign @ ''</span>''"

definition black_square :: jstring where "black_square = [CHR 0xE2, CHR 0x96, CHR 0xA0]"
definition white_square :: jstring where "white_square = [CHR 0xE2, CHR 0x96, CHR 0xA1]"
definition black_circle :: jstring where "black_circle = [CHR 0xE2, CHR 0x97, CHR 0x8F]"

text \<open>The quantity of a marker, left out when it is missing, zero or no finite number.\<close>

definition marker_quantity :: "NetWorthMarker \<Rightarrow> jstring" where
  "marker_quantity m =
     (case map_option str_to_number (mk_quantity m) of
        Some n \<Rightarrow>
          if is_finite n \<and> \<not> js_eq n (Num 0)
          then escapeHtml (formatQuantity (SNum n) (decimalsFor (mk_instrument_type m) (mk_display_decimals m)))
          else []
      | None \<Rightarrow> [])"

definition marker_line :: "currency \<Rightarrow> NetWorthMarker \<Rightarrow> jstring" where
  "marker_line cur m =
     (let symbolStr = escapeHtml (nullish (mk_symbol m) em_dash);
          qty = marker_quantity m;
          val = formatMoney (SStr (mk_value m)) cur;
          line = (\<lambda>colour sign text. html_div ''display:flex;gap:6px;align-items:center;''
            (colored colour sign @ ''<span>'' @ text @ '' = '' @ val @ ''</span>''));
          qtyText = (if qty \<noteq> [] then '' '' @ qty else [])
      in case mark_kind_of m of
           BuyMark \<Rightarrow> line POSITIVE black_square (''Buy '' @ symbolStr @ qtyText)
         | SellMark \<Rightarrow> line NEGATIVE white_square (''Sell '' @ symbolStr @ qtyText)
         | YieldMark \<Rightarrow> line MUTED black_circle
             (''Yield: '' @ show_int (mk_count m) @ '' accrual'' @ (if mk_count m = 1 then [] else ''s'') @ '' ''
              @ (if symbolStr \<noteq> em_dash then symbolStr else [])))"

text \<open>What the chart library says is under the pointer: a label of the axis and a point of a series.\<close>

record tip_param =
  tp_label :: "jstring option"
  tp_date :: "jstring option"
  tp_num :: "jsnum option"

definition cost_rows :: "currency \<Rightarrow> jsnum option \<Rightarrow> jsnum option \<Rightarrow> jstring" where
  "cost_rows cur portVal costVal =
     (let costStr = (case costVal of Some c \<Rightarrow> formatMoney (SNum c) cur | None \<Rightarrow> em_dash);
          gapStr = (case (portVal, costVal) of (Some v, Some c) \<Rightarrow> formatMoney (SNum (js_sub v c)) cur | _ \<Rightarrow> em_dash)
      in html_div (''margin-top:4px;font-size:14px;color:'' @ LINE_BLUE @ '';'')
           (black_circle @ '' Cost basis: '' @ escapeHtml costStr)
         @ html_div (''font-size:14px;font-weight:600;color:'' @ ACCENT @ '';'') (''Gap: '' @ escapeHtml gapStr))"

definition marker_block :: "jstring \<Rightarrow> jstring" where
  "marker_block ls =
     (if ls \<noteq> [] then html_div ''margin-top:6px;display:flex;flex-direction:column;gap:4px;'' ls else [])"

definition nw_tooltip ::
  "(jstring \<Rightarrow> jstring) \<Rightarrow> currency \<Rightarrow> 'date nw_props \<Rightarrow> NetWorthResponse \<Rightarrow> tip_param option \<Rightarrow> jstring" where
  "nw_tooltip long_date cur p r first =
     (case first of None \<Rightarrow> []
      | Some f \<Rightarrow>
          let iso = nullish (tp_date f) [];
              dateLabel = (if iso \<noteq> [] then long_date iso else escapeHtml (nullish (tp_label f) []));
              portVal = by_date (line_data (nr_points r)) iso;
              total = (case portVal of Some v \<Rightarrow> formatMoney (SNum v) cur
                | None \<Rightarrow> (case tp_num f of Some v \<Rightarrow> formatMoney (SNum v) cur | None \<Rightarrow> []));
              costRows = (if hasCostBasis (nw_showCostBasis p) r
                then cost_rows cur portVal (by_date (costBasisLine (nw_showCostBasis p) r) iso) else []);
              sameDay = nullish (jm_get (markersByDate
                (visibleMarkers (nw_showTransactions p) (nw_showYields p) (nr_markers r))) iso) [];
              lines = concat (map (marker_line cur) sameDay)
          in html_div (''font-size:12px;color:'' @ MUTED @ '';'') dateLabel
             @ html_div (''font-size:16px;font-weight:600;color:'' @ ACCENT @ '';'') (escapeHtml total)
             @ costRows
             @ marker_block lines)"

lemma marker_line_markup: "markup (marker_line cur (m\<lparr>mk_symbol := s\<rparr>)) = markup (marker_line cur m)"
proof -
  have "marker_quantity (m\<lparr>mk_symbol := s\<rparr>) = marker_quantity m" "mark_kind_of (m\<lparr>mk_symbol := s\<rparr>) = mark_kind_of m"
    by (simp_all add: marker_quantity_def mark_kind_of_def split: option.split)
  then show ?thesis
    by (cases "mark_kind_of m") (simp_all add: marker_line_def Let_def html_div_def)
qed

lemma marker_line_nonempty: "marker_line cur m \<noteq> []"
  by (cases "mark_kind_of m") (simp_all add: marker_line_def Let_def html_div_def)

definition rename_markers :: "(NetWorthMarker \<Rightarrow> jstring option) \<Rightarrow> NetWorthMarker list \<Rightarrow> NetWorthMarker list" where
  "rename_markers f ms = map (\<lambda>m. m\<lparr>mk_symbol := f m\<rparr>) ms"

lemma rename_visible: "visibleMarkers a b (rename_markers f ms) = rename_markers f (visibleMarkers a b ms)"
  by (simp add: visibleMarkers_def rename_markers_def filter_map comp_def)

lemma rename_same_day:
  "filter (\<lambda>m. mk_date m = d) (rename_markers f ms) = rename_markers f (filter (\<lambda>m. mk_date m = d) ms)"
  by (simp add: rename_markers_def filter_map comp_def)

lemma rename_lines:
  "markup (concat (map (marker_line cur) (rename_markers f ms))) = markup (concat (map (marker_line cur) ms))"
  "concat (map (marker_line cur) ms) = [] \<longleftrightarrow> ms = []"
  by (induction ms) (simp_all add: rename_markers_def marker_line_markup marker_line_nonempty)

lemma rename_block:
  "markup (marker_block (concat (map (marker_line cur) (rename_markers f ms))))
     = markup (marker_block (concat (map (marker_line cur) ms)))"
proof -
  have div: "markup (html_div s a) = markup (html_div s b)" if "markup a = markup b" for s a b
    using that by (simp add: html_div_def)
  have "concat (map (marker_line cur) (rename_markers f ms)) = [] \<longleftrightarrow> concat (map (marker_line cur) ms) = []"
    unfolding rename_lines(2) by (simp add: rename_markers_def)
  then show ?thesis
    unfolding marker_block_def using div [OF rename_lines(1) [of cur f ms]] by (simp del: concat_eq_Nil_conv)
qed

text \<open>
  C25: A name cannot inject markup into the tooltip.  Whatever the symbols of the instruments are, the
  tooltip has the same tags and attributes, and a symbol that is written into it is shown by the
  browser exactly as it is.
\<close>
theorem tooltip_symbol_safe:
  "markup (nw_tooltip long_date cur p (r\<lparr>nr_markers := rename_markers f (nr_markers r)\<rparr>) first)
      = markup (nw_tooltip long_date cur p r first)
    \<and> html_text (escapeHtml s @ t) = s @ html_text t"
proof -
  have "markup (nw_tooltip long_date cur p (r\<lparr>nr_markers := rename_markers f (nr_markers r)\<rparr>) first)
      = markup (nw_tooltip long_date cur p r first)"
  proof (cases first)
    case (Some x)
    have cost: "hasCostBasis b (r\<lparr>nr_markers := ms\<rparr>) = hasCostBasis b r"
      "costBasisLine b (r\<lparr>nr_markers := ms\<rparr>) = costBasisLine b r" for b ms
      by (simp_all add: hasCostBasis_def costBasisLine_def)
    show ?thesis
      by (simp add: Some nw_tooltip_def Let_def markers_of_date rename_visible rename_same_day rename_block cost)
  qed (simp add: nw_tooltip_def)
  then show ?thesis using html_text_escape by blast
qed

section \<open>Gaps in the data\<close>

definition missing_price :: "jstring \<Rightarrow> (jstring \<times> jstring) option" where
  "missing_price w =
     (if starts_with w ''missing_price:''
      then (case js_split CHR '':'' w of [a, i, d] \<Rightarrow> Some (i, d) | _ \<Rightarrow> None) else None)"

definition missing_fx :: "jstring \<Rightarrow> jstring option" where
  "missing_fx w =
     (if starts_with w ''missing_price:'' then None
      else if starts_with w ''missing_fx:'' then Some (drop (length ''missing_fx:'') w) else None)"

definition missingPriceDates :: "jstring list \<Rightarrow> jstring list" where
  "missingPriceDates ws = first_seen (map snd (List.map_filter missing_price ws))"

definition missingPriceInstruments :: "jstring list \<Rightarrow> jstring list" where
  "missingPriceInstruments ws = first_seen (map fst (List.map_filter missing_price ws))"

definition missingFxDates :: "jstring list \<Rightarrow> jstring list" where
  "missingFxDates ws = first_seen (List.map_filter missing_fx ws)"

text \<open>\<open>collate\<close> is \<open>localeCompare\<close>; instruments are given as pairs of id and symbol.\<close>

definition affectedLinks ::
  "(jstring \<Rightarrow> jstring \<Rightarrow> int) \<Rightarrow> bool \<Rightarrow> (jstring \<times> jstring) list option \<Rightarrow> jstring list \<Rightarrow> (jstring \<times> jstring) list" where
  "affectedLinks collate hasParent instruments ws =
     (if hasParent then []
      else sort_by (\<lambda>a b. collate (snd a) (snd b) < 0)
        (map (\<lambda>i. (i, nullish (map_of (rev (nullish instruments [])) i) ''?'')) (missingPriceInstruments ws)))"

definition days_text :: "nat \<Rightarrow> jstring" where
  "days_text n = show_digits (int n) @ '' day'' @ (if n = 1 then [] else ''s'')"

definition gap_notes :: "bool \<Rightarrow> (jstring \<times> jstring) list \<Rightarrow> jstring list \<Rightarrow> unit ui list" where
  "gap_notes hasParent links ws =
     (let np = length (missingPriceDates ws); nf = length (missingFxDates ws)
      in only_if (0 < np)
           ([Txt (days_text np @ '' with no market price''
               @ (if hasParent then '' '' @ em_dash @ '' try the Backfill button above.'' else []))]
            @ only_if (\<not> hasParent \<and> links \<noteq> [])
                (Txt ('' '' @ em_dash @ '' Backfill: '') # map (\<lambda>(i, s). Anchor s (''/holdings/i/'' @ i)) links))
         @ only_if (0 < nf) [Txt (days_text nf @ '' missing EUR/USD FX rate.'')])"

text \<open>What stands in the place of the chart; the failed view also offers to read again.\<close>

datatype nw_view =
    NwLoading | NwFailed jstring | NwPickRange | NwEmpty
  | NwChart "unit ui list" jstring chart_option

definition NetWorthChart ::
  "(jstring \<Rightarrow> jstring \<Rightarrow> int) \<Rightarrow> 'date nw_props \<Rightarrow> (jstring \<times> jstring) list option \<Rightarrow> bool \<Rightarrow> thrown option
    \<Rightarrow> NetWorthResponse option \<Rightarrow> nw_view" where
  "NetWorthChart collate p instruments isLoading err data =
     (if isLoading then NwLoading
      else case err of
        Some e \<Rightarrow> NwFailed (''Could not load net worth chart. '' @ nullish (error_message e) ''Unknown error'')
      | None \<Rightarrow>
          if nw_timeframe p = TFCustom \<and> (nw_from p = None \<or> nw_to p = None) then NwPickRange
          else case data of None \<Rightarrow> NwEmpty
          | Some r \<Rightarrow>
              if nr_points r = [] then NwEmpty
              else NwChart
                (gap_notes (nw_hasParentBackfill p)
                  (affectedLinks collate (nw_hasParentBackfill p) instruments (nr_warnings r)) (nr_warnings r))
                (''Net worth chart from '' @ pt_date (hd (nr_points r)) @ '' to '' @ pt_date (last (nr_points r)))
                (chart_option_of p r))"

end
