(* ===== verification/NetSection.thy ===== *)
theory NetSection
  imports NetWorth
begin

text \<open>
  The sections that own a timeframe: the toggle with its custom range
  (\<open>timeframe-toggle.tsx\<close>), the list of instruments a chart is narrowed to
  (\<open>instrument-multi-select.tsx\<close>), the net worth section with its stored switches and filter
  (\<open>NetWorthSection.tsx\<close>) and the performance section.  A date is a value of an ordered type.
\<close>

section \<open>The timeframe toggle\<close>

text \<open>What the parent has committed, and the toggle's own popover with its two draft dates.\<close>

record 'date range_picker =
  rp_timeframe :: Timeframe
  rp_from :: "'date option"
  rp_to :: "'date option"
  rp_open :: bool
  rp_draftFrom :: "'date option"
  rp_draftTo :: "'date option"

definition first_range :: "'date range_picker" where
  "first_range = \<lparr>rp_timeframe = TF1y, rp_from = None, rp_to = None, rp_open = False, rp_draftFrom = None, rp_draftTo = None\<rparr>"

text \<open>\<open>Pill None\<close> is the empty value the toggle group reports when the active pill is pressed again.\<close>

datatype 'date range_event =
    Pill "Timeframe option"
  | Popover bool
  | PickFrom "'date option"
  | PickTo "'date option"
  | ApplyRange
  | CancelRange

definition handleValueChange :: "Timeframe option \<Rightarrow> 'date range_picker \<Rightarrow> 'date range_picker" where
  "handleValueChange chosen st =
     (case chosen of
        None \<Rightarrow> st
      | Some TFCustom \<Rightarrow>
          st\<lparr>rp_draftFrom := rp_from st, rp_draftTo := rp_to st, rp_open := True, rp_timeframe := TFCustom\<rparr>
      | Some tf \<Rightarrow> st\<lparr>rp_open := False, rp_timeframe := tf\<rparr>)"

definition applyRange :: "('date :: linorder) range_picker \<Rightarrow> 'date range_picker" where
  "applyRange st =
     (case (rp_draftFrom st, rp_draftTo st) of
        (Some f, Some t) \<Rightarrow>
          if t < f then st
          else st\<lparr>rp_from := Some f, rp_to := Some t, rp_timeframe := TFCustom, rp_open := False\<rparr>
      | _ \<Rightarrow> st)"

definition cancelRange :: "'date range_picker \<Rightarrow> 'date range_picker" where
  "cancelRange st = st\<lparr>rp_draftFrom := rp_from st, rp_draftTo := rp_to st, rp_open := False\<rparr>"

definition apply_disabled :: "('date :: linorder) range_picker \<Rightarrow> bool" where
  "apply_disabled st \<longleftrightarrow>
     rp_draftFrom st = None \<or> rp_draftTo st = None
     \<or> (case (rp_draftFrom st, rp_draftTo st) of (Some f, Some t) \<Rightarrow> t < f | _ \<Rightarrow> False)"

fun range_do :: "('date :: linorder) range_event \<Rightarrow> 'date range_picker \<Rightarrow> 'date range_picker" where
  "range_do (Pill c) st = handleValueChange c st"
| "range_do (Popover b) st = st\<lparr>rp_open := b\<rparr>"
| "range_do (PickFrom d) st = st\<lparr>rp_draftFrom := d\<rparr>"
| "range_do (PickTo d) st = st\<lparr>rp_draftTo := d\<rparr>"
| "range_do ApplyRange st = applyRange st"
| "range_do CancelRange st = cancelRange st"

text \<open>The days the two calendars let the user choose; a second press on the chosen day clears it.\<close>

definition from_pickable :: "('date :: linorder) range_picker \<Rightarrow> 'date option \<Rightarrow> bool" where
  "from_pickable st d \<longleftrightarrow> (case (d, rp_draftTo st) of (Some x, Some t) \<Rightarrow> x \<le> t | _ \<Rightarrow> True)"

definition to_pickable :: "('date :: linorder) range_picker \<Rightarrow> 'date option \<Rightarrow> bool" where
  "to_pickable st d \<longleftrightarrow> (case (d, rp_draftFrom st) of (Some x, Some f) \<Rightarrow> f \<le> x | _ \<Rightarrow> True)"

definition pill :: "'date range_picker \<Rightarrow> Timeframe \<Rightarrow> jstring \<Rightarrow> 'date range_event ui" where
  "pill st tf label =
     Toggle label (rp_timeframe st = tf) False (Pill (if rp_timeframe st = tf then None else Some tf))"

definition TimeframeToggle :: "(Timeframe \<times> jstring) list \<Rightarrow> ('date :: linorder) range_picker \<Rightarrow> 'date range_event ui list" where
  "TimeframeToggle presets st =
     map (\<lambda>(tf, label). pill st tf label) presets @ [pill st TFCustom ''Custom'']
     @ only_if (rp_open st)
         [Txt ''From'', Txt ''To'', Control ''Cancel'' False CancelRange,
          Control ''Apply range'' (apply_disabled st) ApplyRange]"

text \<open>
  What can happen: a control on screen, a day chosen in an open popover, or the popover opened or
  closed by a press outside or on its pill.
\<close>

inductive range_step :: "('date :: linorder) range_picker \<Rightarrow> 'date range_picker \<Rightarrow> bool" where
  range_press: "e \<in> set (on_offer (TimeframeToggle TIMEFRAME_PRESETS st)) \<Longrightarrow> range_step st (range_do e st)"
| range_popover: "range_step st (range_do (Popover b) st)"
| range_from: "rp_open st \<Longrightarrow> from_pickable st d \<Longrightarrow> range_step st (range_do (PickFrom d) st)"
| range_to: "rp_open st \<Longrightarrow> to_pickable st d \<Longrightarrow> range_step st (range_do (PickTo d) st)"

definition ordered_dates :: "('date :: linorder) option \<Rightarrow> 'date option \<Rightarrow> bool" where
  "ordered_dates f t \<longleftrightarrow> (case (f, t) of (Some x, Some y) \<Rightarrow> x \<le> y | _ \<Rightarrow> True)"

text \<open>The range is chosen as a whole, and neither it nor the draft is ever the wrong way round.\<close>

definition range_ok :: "('date :: linorder) range_picker \<Rightarrow> bool" where
  "range_ok st \<longleftrightarrow>
     (rp_from st = None \<longleftrightarrow> rp_to st = None) \<and> ordered_dates (rp_from st) (rp_to st)
     \<and> ordered_dates (rp_draftFrom st) (rp_draftTo st)"

lemma range_ok_first: "range_ok first_range"
  by (simp add: range_ok_def first_range_def ordered_dates_def)

lemma range_ok_do:
  assumes "range_ok st"
    and "\<And>d. e = PickFrom d \<Longrightarrow> from_pickable st d" and "\<And>d. e = PickTo d \<Longrightarrow> to_pickable st d"
  shows "range_ok (range_do e st)"
proof (cases e)
  case (Pill c)
  then show ?thesis using assms(1)
    by (auto simp: handleValueChange_def range_ok_def split: option.splits Timeframe.splits)
next
  case (PickFrom d)
  then show ?thesis using assms(1) assms(2) [OF PickFrom]
    by (auto simp: range_ok_def ordered_dates_def from_pickable_def split: option.splits)
next
  case (PickTo d)
  then show ?thesis using assms(1) assms(3) [OF PickTo]
    by (auto simp: range_ok_def ordered_dates_def to_pickable_def split: option.splits)
next
  case ApplyRange
  then show ?thesis using assms(1)
    by (auto simp: applyRange_def range_ok_def ordered_dates_def split: option.splits)
qed (use assms(1) in \<open>auto simp: cancelRange_def range_ok_def\<close>)

lemma offered_no_days:
  "e \<in> set (on_offer (TimeframeToggle presets st)) \<Longrightarrow> e \<noteq> PickFrom d \<and> e \<noteq> PickTo d"
  by (auto simp: TimeframeToggle_def ui_simps pill_def split: if_splits)

lemma range_ok_step: "range_step st st' \<Longrightarrow> range_ok st \<Longrightarrow> range_ok st'"
  by (induction rule: range_step.induct) (auto intro!: range_ok_do dest: offered_no_days simp del: range_do.simps)

text \<open>So the third reason to disable the button never arises.\<close>

lemma apply_disabled_ok: "range_ok st \<Longrightarrow> apply_disabled st \<longleftrightarrow> rp_draftFrom st = None \<or> rp_draftTo st = None"
  by (auto simp: apply_disabled_def range_ok_def ordered_dates_def split: option.splits)

text \<open>The subtitle and the empty state go by the committed range.\<close>

definition range_subtitle :: "(jstring \<Rightarrow> 'date \<Rightarrow> jstring) \<Rightarrow> 'date range_picker \<Rightarrow> jstring option" where
  "range_subtitle fmt st =
     (case (rp_timeframe st, rp_from st, rp_to st) of
        (TFCustom, Some f, Some t) \<Rightarrow> Some (formatDateRange fmt f t)
      | _ \<Rightarrow> None)"

section \<open>The instruments of a chart\<close>

record pick_item =
  it_id :: jstring
  it_symbol :: jstring
  it_name :: jstring

definition multi_filtered ::
  "(jstring \<Rightarrow> jstring \<Rightarrow> int) \<Rightarrow> (jstring \<Rightarrow> jstring) \<Rightarrow> pick_item list \<Rightarrow> jstring \<Rightarrow> pick_item list" where
  "multi_filtered collate lower items query =
     (let q = lower (js_trim query)
      in filter (\<lambda>i. q = [] \<or> sublist q (lower (it_symbol i)) \<or> sublist q (lower (it_name i)))
           (sort_by (\<lambda>a b. collate (it_symbol a) (it_symbol b) < 0) items))"

definition triggerLabel :: "pick_item list \<Rightarrow> jstring list \<Rightarrow> jstring" where
  "triggerLabel items chosen =
     (case chosen of
        [] \<Rightarrow> ''All instruments''
      | [i] \<Rightarrow> (case find (\<lambda>x. it_id x = i) items of Some x \<Rightarrow> it_symbol x | None \<Rightarrow> ''1 selected'')
      | _ \<Rightarrow> show_digits (int (length chosen)) @ '' selected'')"

definition toggle_id :: "jstring \<Rightarrow> jstring list \<Rightarrow> jstring list" where
  "toggle_id i chosen = (if i \<in> set chosen then filter (\<lambda>v. v \<noteq> i) chosen else chosen @ [i])"

text \<open>An event is the next selection.\<close>

definition InstrumentMultiSelect ::
  "(jstring \<Rightarrow> jstring \<Rightarrow> int) \<Rightarrow> (jstring \<Rightarrow> jstring) \<Rightarrow> pick_item list option \<Rightarrow> jstring \<Rightarrow> jstring list
    \<Rightarrow> jstring list ui list" where
  "InstrumentMultiSelect collate lower data query chosen =
     (let items = nullish data []; shown = multi_filtered collate lower items query
      in [Txt (triggerLabel items chosen), Input (''Search instruments'' @ ellipsis) query False False]
         @ (if shown = []
            then [Txt (if query \<noteq> [] then ''No instruments match '' @ dq @ query @ dq @ ''.'' else ''No instruments to filter.'')]
            else map (\<lambda>i. Toggle (it_symbol i @ '' '' @ it_name i) (it_id i \<in> set chosen) False (toggle_id (it_id i) chosen)) shown)
         @ [Control ''Clear'' (chosen = []) []])"

lemma toggle_id_twice: "distinct chosen \<Longrightarrow> set (toggle_id i (toggle_id i chosen)) = set chosen"
  by (auto simp: toggle_id_def)

lemma toggle_id_distinct: "distinct chosen \<Longrightarrow> distinct (toggle_id i chosen)"
  by (simp add: toggle_id_def)

lemma multi_filtered_all: "mset (multi_filtered collate lower items []) = mset items" if "lower [] = []"
  using that by (simp add: multi_filtered_def js_trim_def trim_start_def trim_end_def mset_sort_by)

section \<open>The net worth section\<close>

datatype ChartViewMode = ValueView | PriceView

record nw_section_props =
  sp_heading :: jstring
  sp_instrumentId :: "jstring option"
  sp_hasPriceChart :: bool

record 'date nw_section =
  ns_range :: "'date range_picker"
  ns_viewMode :: ChartViewMode
  ns_browser :: browser
  ns_instruments :: "(jstring \<times> jstring) list option"

definition stored :: "jstring \<Rightarrow> browser \<Rightarrow> jstring option" where
  "stored key b = readCookie True key (cookies b)"

definition showTransactions :: "browser \<Rightarrow> bool" where
  "showTransactions b \<longleftrightarrow> stored ''flowfolio.nwShowTransactions'' b \<noteq> Some ''0''"

definition showCostBasis :: "browser \<Rightarrow> bool" where
  "showCostBasis b \<longleftrightarrow> stored ''flowfolio.nwShowCostBasis'' b = Some ''1''"

definition showYields :: "browser \<Rightarrow> bool" where
  "showYields b \<longleftrightarrow> stored ''flowfolio.nwShowYields'' b = Some ''1''"

definition set_switch :: "jstring \<Rightarrow> bool \<Rightarrow> browser \<Rightarrow> browser" where
  "set_switch key on_flag b = setValue key (Some (if on_flag then ''1'' else ''0'')) b"

definition filterIds :: "browser \<Rightarrow> jstring list" where
  "filterIds b = parseIds (stored ''flowfolio.instrumentFilter.networth'' b)"

definition showFilterPill :: "nw_section_props \<Rightarrow> bool" where
  "showFilterPill p \<longleftrightarrow> Option.bind (sp_instrumentId p) or_null = None"

definition validFilterIds :: "'date nw_section \<Rightarrow> jstring list" where
  "validFilterIds st =
     (case ns_instruments st of
        Some is \<Rightarrow> sanitizeInstrumentFilter (filterIds (ns_browser st)) (set (map fst is))
      | None \<Rightarrow> filterIds (ns_browser st))"

text \<open>The effect that runs when the list of instruments or the stored filter has changed.\<close>

definition self_heal :: "'date nw_section \<Rightarrow> 'date nw_section" where
  "self_heal st =
     (if ns_instruments st = None then st
      else if length (validFilterIds st) \<noteq> length (filterIds (ns_browser st))
      then st\<lparr>ns_browser := setInstrumentFilter (validFilterIds st) (ns_browser st)\<rparr>
      else st)"

definition effectiveIds :: "nw_section_props \<Rightarrow> 'date nw_section \<Rightarrow> jstring list" where
  "effectiveIds p st =
     (case Option.bind (sp_instrumentId p) or_null of Some i \<Rightarrow> [i] | None \<Rightarrow> validFilterIds st)"

definition isPriceMode :: "nw_section_props \<Rightarrow> 'date nw_section \<Rightarrow> bool" where
  "isPriceMode p st \<longleftrightarrow> sp_hasPriceChart p \<and> ns_viewMode st = PriceView"

definition cbDisabled :: "nw_section_props \<Rightarrow> 'date nw_section \<Rightarrow> bool" where
  "cbDisabled p st \<longleftrightarrow> isPriceMode p st"

definition yieldsDisabled :: "nw_section_props \<Rightarrow> 'date nw_section \<Rightarrow> bool" where
  "yieldsDisabled p st \<longleftrightarrow> \<not> showTransactions (ns_browser st) \<or> isPriceMode p st"

definition chart_props :: "nw_section_props \<Rightarrow> 'date nw_section \<Rightarrow> 'date nw_props" where
  "chart_props p st =
     \<lparr>nw_timeframe = rp_timeframe (ns_range st), nw_from = rp_from (ns_range st), nw_to = rp_to (ns_range st),
      nw_showTransactions = showTransactions (ns_browser st), nw_showCostBasis = showCostBasis (ns_browser st),
      nw_showYields = showYields (ns_browser st), nw_instrumentIds = effectiveIds p st,
      nw_tagFilter = tagFilter_of (stored ''flowfolio.tagFilter'' (ns_browser st)),
      nw_hasParentBackfill = (Option.bind (sp_instrumentId p) or_null \<noteq> None)\<rparr>"

datatype section_event =
    SwTransactions bool
  | SwCostBasis bool
  | SwYields bool
  | ChartView "ChartViewMode option"
  | ChosenIds "jstring list"

fun section_do :: "section_event \<Rightarrow> 'date nw_section \<Rightarrow> 'date nw_section" where
  "section_do (SwTransactions on_flag) st = st\<lparr>ns_browser := set_switch ''flowfolio.nwShowTransactions'' on_flag (ns_browser st)\<rparr>"
| "section_do (SwCostBasis on_flag) st = st\<lparr>ns_browser := set_switch ''flowfolio.nwShowCostBasis'' on_flag (ns_browser st)\<rparr>"
| "section_do (SwYields on_flag) st = st\<lparr>ns_browser := set_switch ''flowfolio.nwShowYields'' on_flag (ns_browser st)\<rparr>"
| "section_do (ChartView v) st = (case v of None \<Rightarrow> st | Some m \<Rightarrow> st\<lparr>ns_viewMode := m\<rparr>)"
| "section_do (ChosenIds ids) st = st\<lparr>ns_browser := setInstrumentFilter ids (ns_browser st)\<rparr>"

definition chart_view_item :: "'date nw_section \<Rightarrow> ChartViewMode \<Rightarrow> jstring \<Rightarrow> section_event ui" where
  "chart_view_item st m label =
     Toggle label (ns_viewMode st = m) False (ChartView (if ns_viewMode st = m then None else Some m))"

definition section_controls :: "nw_section_props \<Rightarrow> 'date nw_section \<Rightarrow> section_event ui list" where
  "section_controls p st =
     (let tx = showTransactions (ns_browser st); cb = showCostBasis (ns_browser st); yl = showYields (ns_browser st)
      in only_if (sp_hasPriceChart p)
           [chart_view_item st ValueView ''Holding value'', chart_view_item st PriceView ''Price per unit'']
         @ [Toggle ''Show transaction markers'' tx False (SwTransactions (\<not> tx)),
            Toggle ''Show cost basis line'' cb (cbDisabled p st) (SwCostBasis (\<not> cb)),
            Toggle ''Show yield markers'' yl (yieldsDisabled p st) (SwYields (\<not> yl))])"

text \<open>Below the controls: the chart the parent supplies, or the net worth chart.\<close>

datatype 'date section_body =
    PriceSlot Timeframe "'date option" "'date option" bool
  | ValueChart "'date nw_props"

record 'date section_view =
  sv_heading :: jstring
  sv_subtitle :: "jstring option"
  sv_controls :: "section_event ui list"
  sv_filter :: "jstring list ui list"
  sv_range :: "'date range_event ui list"
  sv_body :: "'date section_body"

definition NetWorthSection ::
  "(jstring \<Rightarrow> jstring \<Rightarrow> int) \<Rightarrow> (jstring \<Rightarrow> jstring) \<Rightarrow> (jstring \<Rightarrow> 'date \<Rightarrow> jstring)
    \<Rightarrow> pick_item list option \<Rightarrow> jstring \<Rightarrow> nw_section_props \<Rightarrow> ('date :: linorder) nw_section \<Rightarrow> 'date section_view" where
  "NetWorthSection collate lower fmt held query p st =
     \<lparr>sv_heading = sp_heading p, sv_subtitle = range_subtitle fmt (ns_range st), sv_controls = section_controls p st,
      sv_filter = only_if (showFilterPill p) (InstrumentMultiSelect collate lower held query (validFilterIds st)),
      sv_range = TimeframeToggle TIMEFRAME_PRESETS (ns_range st),
      sv_body =
        (if isPriceMode p st
         then PriceSlot (rp_timeframe (ns_range st)) (rp_from (ns_range st)) (rp_to (ns_range st)) (showTransactions (ns_browser st))
         else ValueChart (chart_props p st))\<rparr>"

definition PerformanceSection :: "(jstring \<Rightarrow> 'date \<Rightarrow> jstring) \<Rightarrow> ('date :: linorder) range_picker
    \<Rightarrow> (jstring \<times> jstring option) \<times> 'date range_event ui list \<times> (Timeframe \<times> 'date option \<times> 'date option)" where
  "PerformanceSection fmt st =
     ((''Performance'', range_subtitle fmt st), TimeframeToggle TIMEFRAME_PRESETS st,
      (rp_timeframe st, rp_from st, rp_to st))"

text \<open>The steps of the section: its controls, its filter, its range, the list
  of instruments coming in, another component storing a preference, and the effect.\<close>

inductive section_step :: "nw_section_props \<Rightarrow> ('date :: linorder) nw_section \<Rightarrow> 'date nw_section \<Rightarrow> bool" for p where
  section_press: "e \<in> set (on_offer (section_controls p st)) \<Longrightarrow> section_step p st (section_do e st)"
| section_choose: "showFilterPill p \<Longrightarrow> section_step p st (section_do (ChosenIds ids) st)"
| section_range: "range_step (ns_range st) r \<Longrightarrow> section_step p st (st\<lparr>ns_range := r\<rparr>)"
| section_instruments: "showFilterPill p \<Longrightarrow> section_step p st (st\<lparr>ns_instruments := Some is\<rparr>)"
| section_other: "section_step p st (st\<lparr>ns_browser := setValue key v (ns_browser st)\<rparr>)"
| section_effect: "section_step p st (self_heal st)"

definition section_first :: "browser \<Rightarrow> 'date nw_section" where
  "section_first b = \<lparr>ns_range = first_range, ns_viewMode = ValueView, ns_browser = b, ns_instruments = None\<rparr>"

inductive section_reach :: "nw_section_props \<Rightarrow> ('date :: linorder) nw_section \<Rightarrow> bool" for p where
  section_mounted: "section_reach p (section_first b)"
| section_next: "section_reach p st \<Longrightarrow> section_step p st st' \<Longrightarrow> section_reach p st'"

lemma section_do_range [simp]: "ns_range (section_do e st) = ns_range st"
  by (cases e) (auto split: option.splits)

lemma section_range_ok: "section_reach p st \<Longrightarrow> range_ok (ns_range st)"
proof (induction rule: section_reach.induct)
  case (section_mounted b)
  then show ?case by (simp add: section_first_def range_ok_first)
next
  case (section_next st st')
  from section_next.hyps(2) show ?case
  proof cases
    case (section_range r)
    then show ?thesis using section_next.IH range_ok_step by simp
  qed (use section_next.IH in \<open>auto simp: self_heal_def\<close>)
qed

text \<open>
  A custom range is never sent by halves or the wrong way round.  Whatever the user presses and
  picks, the chart of the section asks for a custom range only with both dates, the first not
  after the second, and sends them; for the fixed timeframes it sends no dates, although a range
  picked before is kept.
\<close>
theorem custom_request_dates:
  assumes "section_reach p st" "networth_enabled (chart_props p st)"
  shows "let sent = networth_params local_day cur ids (chart_props p st) in if rp_timeframe (ns_range st) = TFCustom
    then \<exists>f t. rp_from (ns_range st) = Some f \<and> rp_to (ns_range st) = Some t \<and> f \<le> t
      \<and> (''from'', toIsoDate (local_day f)) \<in> set sent \<and> (''to'', toIsoDate (local_day t)) \<in> set sent
    else ''from'' \<notin> fst ` set sent \<and> ''to'' \<notin> fst ` set sent"
proof (cases "rp_timeframe (ns_range st) = TFCustom")
  case True
  then obtain f t where "rp_from (ns_range st) = Some f" "rp_to (ns_range st) = Some t"
    using assms(2) by (auto simp: networth_enabled_def chart_props_def)
  with True section_range_ok [OF assms(1)] show ?thesis
    by (simp add: Let_def networth_params_def chart_props_def range_ok_def ordered_dates_def)
next
  case False
  then show ?thesis
    by (auto simp: Let_def networth_params_def chart_props_def split: Timeframe.splits option.splits if_splits)
qed

section \<open>Stored preferences\<close>

lemma switch_storable: "list_all (\<lambda>k. pref_ok k ''1'' \<and> pref_ok k ''0'') PREF_KEYS"
  by code_simp

lemma switch_kept:
  assumes "jar_ok (cookies b)" "key \<in> set PREF_KEYS"
  shows "stored key (set_switch key on_flag b) = Some (if on_flag then ''1'' else ''0'')"
  using assms switch_storable pref_slot.read_put [OF pref_slot_cookie [OF assms(2)] assms(1)]
  by (auto simp: stored_def set_switch_def setValue_def list_all_iff)

lemma switches_kept:
  assumes "jar_ok (cookies b)"
  shows "showTransactions (set_switch ''flowfolio.nwShowTransactions'' on_flag b) = on_flag"
    "showCostBasis (set_switch ''flowfolio.nwShowCostBasis'' on_flag b) = on_flag"
    "showYields (set_switch ''flowfolio.nwShowYields'' on_flag b) = on_flag"
  using switch_kept [OF assms]
  by (simp_all add: showTransactions_def showCostBasis_def showYields_def PREF_KEYS_def)

lemma filterIds_set:
  assumes "jar_ok (cookies b)"
    and "pref_ok ''flowfolio.instrumentFilter.networth'' (stringify (JArr (map JStr (first_seen ids))))"
  shows "filterIds (setInstrumentFilter ids b) = first_seen ids"
  using cookie_ids.ids_kept [OF assms] by (simp add: filterIds_def stored_def setInstrumentFilter_def setValue_def)

lemma sanitize_all:
  "length (sanitizeInstrumentFilter ids known) = length ids \<longleftrightarrow> set ids \<subseteq> known"
proof (cases "set ids \<subseteq> known")
  case True
  then show ?thesis by (auto simp: sanitizeInstrumentFilter_def subset_iff)
next
  case False
  then obtain i where "i \<in> set ids" "i \<notin> known" by auto
  then have "length (sanitizeInstrumentFilter ids known) < length ids"
    unfolding sanitizeInstrumentFilter_def by (rule length_filter_less)
  with False show ?thesis by simp
qed

text \<open>
  C26: A stale filter heals itself.  Once the list of instruments is known, the effect leaves in the
  store exactly the ids of the filter that still exist, changes nothing about what the chart shows,
  and has nothing left to do when it runs again.
\<close>
theorem filter_self_heals:
  assumes "jar_ok (cookies (ns_browser st))" "ns_instruments st = Some known"
    and "pref_ok ''flowfolio.instrumentFilter.networth'' (stringify (JArr (map JStr (first_seen (validFilterIds st)))))"
  shows "set (filterIds (ns_browser (self_heal st))) = set (filterIds (ns_browser st)) \<inter> fst ` set known
    \<and> set (effectiveIds p (self_heal st)) = set (effectiveIds p st)
    \<and> self_heal (self_heal st) = self_heal st"
proof (cases "set (filterIds (ns_browser st)) \<subseteq> fst ` set known")
  case True
  then have "self_heal st = st"
    using assms(2) by (simp add: self_heal_def validFilterIds_def sanitize_all)
  with True show ?thesis by auto
next
  case False
  let ?v = "validFilterIds st"
  have st': "self_heal st = st\<lparr>ns_browser := setInstrumentFilter ?v (ns_browser st)\<rparr>"
    using False assms(2) by (simp add: self_heal_def validFilterIds_def sanitize_all)
  have ids: "filterIds (ns_browser (self_heal st)) = first_seen ?v"
    using filterIds_set [OF assms(1,3)] by (simp add: st')
  have known: "ns_instruments (self_heal st) = Some known" using assms(2) by (simp add: st')
  have v: "set ?v = set (filterIds (ns_browser st)) \<inter> fst ` set known"
    using assms(2) by (auto simp: validFilterIds_def sanitizeInstrumentFilter_def)
  have "length (validFilterIds (self_heal st)) = length (filterIds (ns_browser (self_heal st)))"
    "set (validFilterIds (self_heal st)) = set ?v"
    using v by (auto simp: validFilterIds_def known ids sanitize_all sanitizeInstrumentFilter_def)
  then show ?thesis
    using v ids by (auto simp: self_heal_def [of "self_heal st"] effectiveIds_def split: option.split)
qed

definition demo_section :: "int nw_section" where
  "demo_section = (section_first (setInstrumentFilter [''gone'', ''kept''] empty_browser))
     \<lparr>ns_instruments := Some [(''kept'', ''K''), (''new'', ''N'')]\<rparr>"

theorem filter_self_heals_witness:
  "set (filterIds (ns_browser (self_heal demo_section))) = {''kept''}"
proof -
  have "jar_ok (cookies (ns_browser demo_section))" "validFilterIds demo_section = [''kept'']"
    "ns_instruments demo_section = Some [(''kept'', ''K''), (''new'', ''N'')]"
    "filterIds (ns_browser demo_section) = [''gone'', ''kept'']" by code_simp+
  moreover have "pref_ok ''flowfolio.instrumentFilter.networth'' (stringify (JArr (map JStr (first_seen [''kept'']))))"
    by code_simp
  ultimately show ?thesis using filter_self_heals [of demo_section] by auto
qed

definition demo_range :: "int range_picker" where
  "demo_range = range_do ApplyRange (range_do (PickTo (Some 5)) (range_do (PickFrom (Some 3))
     (range_do (Pill (Some TFCustom)) first_range)))"

lemma demo_range_reached:
  "section_reach \<lparr>sp_heading = ''Net worth'', sp_instrumentId = None, sp_hasPriceChart = False\<rparr>
     ((section_first empty_browser)\<lparr>ns_range := demo_range\<rparr>)"
proof -
  let ?p = "\<lparr>sp_heading = ''Net worth'', sp_instrumentId = None, sp_hasPriceChart = False\<rparr>"
  let ?at = "\<lambda>r. (section_first empty_browser :: int nw_section)\<lparr>ns_range := r\<rparr>"
  let ?r1 = "range_do (Pill (Some TFCustom)) (first_range :: int range_picker)"
  let ?r2 = "range_do (PickFrom (Some 3)) ?r1"
  let ?r3 = "range_do (PickTo (Some 5)) ?r2"
  have next_range: "section_reach ?p (?at r')" if "section_reach ?p (?at r)" "range_step r r'" for r r'
    using section_next [OF that(1) section_range, of r'] that(2) by simp
  have "section_reach ?p (?at first_range)"
    using section_mounted [of ?p empty_browser] by (simp add: section_first_def)
  moreover have "range_step first_range ?r1"
    by (rule range_press) (simp add: TimeframeToggle_def first_range_def pill_def ui_simps)
  moreover have "range_step ?r1 ?r2"
    by (rule range_from) (simp_all add: handleValueChange_def first_range_def from_pickable_def)
  moreover have "range_step ?r2 ?r3"
    by (rule range_to) (simp_all add: handleValueChange_def first_range_def to_pickable_def)
  moreover have "range_step ?r3 (range_do ApplyRange ?r3)"
    by (rule range_press)
      (simp add: TimeframeToggle_def handleValueChange_def first_range_def apply_disabled_def ui_simps)
  ultimately show ?thesis unfolding demo_range_def using next_range by meson
qed

theorem custom_request_dates_witness:
  "(''from'', toIsoDate (2024, 0, 3)) \<in> set (networth_params (\<lambda>d. (2024, 0, d)) EUR []
     (chart_props \<lparr>sp_heading = ''Net worth'', sp_instrumentId = None, sp_hasPriceChart = False\<rparr>
       ((section_first empty_browser)\<lparr>ns_range := demo_range\<rparr>)))"
proof -
  have "rp_timeframe demo_range = TFCustom" "rp_from demo_range = Some 3" "rp_to demo_range = Some 5" by code_simp+
  then show ?thesis
    using custom_request_dates [OF demo_range_reached, of "\<lambda>d. (2024, 0, d)" EUR "[]"]
    by (simp add: networth_enabled_def chart_props_def Let_def)
qed

end
