(* ===== verification/PriceChart.thy ===== *)
theory PriceChart
  imports NetSection
begin

text \<open>
  The price chart of an instrument (\<open>holdings/i/[id]/InstrumentPriceChart.tsx\<close>): the part of the
  price history it draws, the currency of its axis, the trades it marks and the ones it leaves out,
  and the tooltip that lists each trade under the nearest point of the line.  Instants
  (\<open>new Date(d).getTime()\<close>) are given by \<open>time_of\<close>, the day a number of days ago by \<open>days_ago\<close>.
\<close>

record PriceQuote =
  pq_date :: jstring
  pq_price :: jstring
  pq_currency :: currency
  pq_fetched_at :: jstring

record price_txn =
  pt_txn_id :: jstring
  pt_txn_date :: jstring
  pt_quantity :: jstring
  pt_unit_price :: "jstring option"
  pt_price_currency :: "currency option"
  pt_instrument_type :: "jstring option"
  pt_display_decimals :: "nat option"
  pt_deleted_at :: "jstring option"

record 'date price_props =
  pc_instrumentId :: jstring
  pc_baseCurrency :: currency
  pc_instrumentType :: jstring
  pc_displayDecimals :: "nat option"
  pc_timeframe :: Timeframe
  pc_from :: "'date option"
  pc_to :: "'date option"
  pc_showTransactions :: bool
  pc_displayCurrency :: currency

section \<open>The slice of the history\<close>

definition day_count :: "Timeframe \<Rightarrow> int" where
  "day_count tf = (if tf = TF1m then 30 else if tf = TF3m then 90 else 365)"

definition filterByTimeframe ::
  "('date \<Rightarrow> int \<times> int \<times> int) \<Rightarrow> (int \<Rightarrow> 'date) \<Rightarrow> ('r \<Rightarrow> jstring) \<Rightarrow> Timeframe \<Rightarrow> 'date option \<Rightarrow> 'date option
    \<Rightarrow> 'r list \<Rightarrow> 'r list" where
  "filterByTimeframe local_day days_ago date_of tf from to rows =
     (if tf = TFAll then rows
      else if tf = TFCustom
      then (case (from, to) of
              (Some f, Some t) \<Rightarrow>
                filter (\<lambda>r. \<not> js_str_lt (date_of r) (toIsoDate (local_day f))
                  \<and> \<not> js_str_lt (toIsoDate (local_day t)) (date_of r)) rows
            | _ \<Rightarrow> rows)
      else filter (\<lambda>r. \<not> js_str_lt (date_of r) (toIsoDate (local_day (days_ago (day_count tf))))) rows)"

definition custom_iso :: "('date \<Rightarrow> int \<times> int \<times> int) \<Rightarrow> Timeframe \<Rightarrow> 'date option \<Rightarrow> jstring option" where
  "custom_iso local_day tf d = (if tf = TFCustom then map_option (\<lambda>x. toIsoDate (local_day x)) d else None)"

definition historyUrl :: "('date \<Rightarrow> int \<times> int \<times> int) \<Rightarrow> 'date price_props \<Rightarrow> jstring" where
  "historyUrl local_day p =
     ''/api/prices/'' @ pc_instrumentId p @ ''/history?'' @ query_text
       ([(''timeframe'', timeframe_text (pc_timeframe p))]
        @ (case (custom_iso local_day (pc_timeframe p) (pc_from p), custom_iso local_day (pc_timeframe p) (pc_to p)) of
             (Some f, Some t) \<Rightarrow> [(''from'', f), (''to'', t)]
           | _ \<Rightarrow> []))"

definition history_enabled :: "'date price_props \<Rightarrow> bool" where
  "history_enabled p \<longleftrightarrow> pc_timeframe p \<noteq> TFCustom \<or> (pc_from p \<noteq> None \<and> pc_to p \<noteq> None)"

text \<open>The first quote of each date, in the order of the dates.\<close>

definition quotes_by_date :: "PriceQuote list \<Rightarrow> (jstring, PriceQuote) jsmap" where
  "quotes_by_date qs = foldl (\<lambda>m q. if jm_has m (pq_date q) then m else jm_set (pq_date q) q m) [] qs"

definition dedupedAll :: "(jstring \<Rightarrow> jstring \<Rightarrow> int) \<Rightarrow> PriceQuote list \<Rightarrow> PriceQuote list" where
  "dedupedAll collate qs = sort_by (\<lambda>a b. collate (pq_date a) (pq_date b) < 0) (jm_values (quotes_by_date qs))"

definition currency_counts :: "PriceQuote list \<Rightarrow> (currency, int) jsmap" where
  "currency_counts qs = foldl (\<lambda>m q. jm_set (pq_currency q) (nullish (jm_get m (pq_currency q)) 0 + 1) m) [] qs"

definition dominant_step :: "currency \<times> int \<Rightarrow> currency \<times> int \<Rightarrow> currency \<times> int" where
  "dominant_step best entry = (if snd best < snd entry then entry else best)"

definition chartCurrency :: "currency \<Rightarrow> PriceQuote list \<Rightarrow> currency" where
  "chartCurrency base qs =
     (let counts = currency_counts qs
      in fst (foldl dominant_step (base, nullish (jm_get counts base) (- 1)) counts))"

text \<open>The trades that can be placed on the axis, and how many cannot.\<close>

definition priced_txns :: "price_txn list \<Rightarrow> price_txn list" where
  "priced_txns ts = filter (\<lambda>t. Option.bind (pt_deleted_at t) or_null = None \<and> pt_unit_price t \<noteq> None \<and> pt_price_currency t \<noteq> None) ts"

definition outside_line :: "PriceQuote list \<Rightarrow> price_txn \<Rightarrow> bool" where
  "outside_line line t \<longleftrightarrow>
     line \<noteq> [] \<and> pq_date (hd line) \<noteq> [] \<and> pq_date (last line) \<noteq> []
     \<and> (js_str_lt (pt_txn_date t) (pq_date (hd line)) \<or> js_str_lt (pq_date (last line)) (pt_txn_date t))"

record price_data =
  pd_history :: "PriceQuote list"
  pd_txns :: "price_txn list"
  pd_currency :: currency
  pd_dropped :: nat
  pd_outOfRange :: nat

definition price_data_of ::
  "('date \<Rightarrow> int \<times> int \<times> int) \<Rightarrow> (int \<Rightarrow> 'date) \<Rightarrow> (jstring \<Rightarrow> jstring \<Rightarrow> int) \<Rightarrow> 'date price_props
    \<Rightarrow> price_txn list option \<Rightarrow> PriceQuote list option \<Rightarrow> price_data" where
  "price_data_of local_day days_ago collate p txns raw =
     (case raw of
        None \<Rightarrow> \<lparr>pd_history = [], pd_txns = [], pd_currency = pc_baseCurrency p, pd_dropped = 0, pd_outOfRange = 0\<rparr>
      | Some qs \<Rightarrow>
          let deduped = dedupedAll collate qs; ccy = chartCurrency (pc_baseCurrency p) deduped;
              line = filterByTimeframe local_day days_ago pq_date (pc_timeframe p) (pc_from p) (pc_to p)
                (filter (\<lambda>q. pq_currency q = ccy) deduped);
              priced = priced_txns (nullish txns []);
              inWindow = filterByTimeframe local_day days_ago pt_txn_date (pc_timeframe p) (pc_from p) (pc_to p)
                (filter (\<lambda>t. pt_price_currency t = Some ccy) priced)
          in \<lparr>pd_history = line, pd_txns = filter (\<lambda>t. \<not> outside_line line t) inWindow, pd_currency = ccy,
              pd_dropped = length (filter (\<lambda>t. pt_price_currency t \<noteq> Some ccy) priced),
              pd_outOfRange = length (filter (outside_line line) inWindow)\<rparr>)"

section \<open>Marks and tooltip\<close>

definition showCostLine :: "'date price_props \<Rightarrow> price_data \<Rightarrow> jsnum option \<Rightarrow> bool" where
  "showCostLine p d avg \<longleftrightarrow> pc_displayCurrency p = pd_currency d \<and> avg \<noteq> None"

definition price_mark :: "price_txn \<Rightarrow> mark_point option" where
  "price_mark t =
     (let qty = str_to_number (pt_quantity t);
          y = (case pt_unit_price t of Some u \<Rightarrow> str_to_number u | None \<Rightarrow> Num 0)
      in if \<not> is_finite y \<or> js_eq qty (Num 0) then None
         else Some \<lparr>mp_kind = (if js_lt (Num 0) qty then BuyMark else SellMark), mp_date = pt_txn_date t, mp_y = y\<rparr>)"

text \<open>The date of the line nearest to a trade; the first of several.\<close>

definition nearer :: "(jstring \<Rightarrow> int) \<Rightarrow> jstring \<Rightarrow> jstring \<Rightarrow> jstring \<Rightarrow> jstring" where
  "nearer time_of d best cand = (if \<bar>time_of cand - time_of d\<bar> < \<bar>time_of best - time_of d\<bar> then cand else best)"

definition snapToLineDate :: "(jstring \<Rightarrow> int) \<Rightarrow> jstring list \<Rightarrow> jstring \<Rightarrow> jstring" where
  "snapToLineDate time_of lineDates d =
     (case lineDates of [] \<Rightarrow> d | b # rest \<Rightarrow> foldl (nearer time_of d) b rest)"

definition txByDate :: "(jstring \<Rightarrow> int) \<Rightarrow> bool \<Rightarrow> price_data \<Rightarrow> (jstring, price_txn list) jsmap" where
  "txByDate time_of show d =
     (if show
      then foldl (\<lambda>m t. let key = snapToLineDate time_of (map pq_date (pd_history d)) (pt_txn_date t)
                        in jm_set key (nullish (jm_get m key) [] @ [t]) m) [] (pd_txns d)
      else [])"

definition price_line_data :: "price_data \<Rightarrow> (jstring \<times> jsnum) list" where
  "price_line_data d = map (\<lambda>q. (pq_date q, str_to_number (pq_price q))) (pd_history d)"

definition trade_line :: "(jstring \<Rightarrow> jstring) \<Rightarrow> 'date price_props \<Rightarrow> price_data \<Rightarrow> jstring \<Rightarrow> price_txn \<Rightarrow> jstring" where
  "trade_line short_date p d shown t =
     (let qty = str_to_number (pt_quantity t); buyish = js_lt (Num 0) qty;
          dec = decimalsFor (Some (nullish (pt_instrument_type t) (pc_instrumentType p)))
            (case pt_display_decimals t of Some n \<Rightarrow> Some n | None \<Rightarrow> pc_displayDecimals p);
          qtyStr = escapeHtml (formatQuantity (SNum (js_abs qty)) dec);
          unitStr = escapeHtml (formatMoney
            (SNum (case pt_unit_price t of Some u \<Rightarrow> str_to_number u | None \<Rightarrow> Num 0)) (pd_currency d));
          dateStr = (if pt_txn_date t \<noteq> shown
            then '' <span style='' @ dq @ ''color:'' @ MUTED @ '';font-size:12px;'' @ dq @ ''>(''
                 @ escapeHtml (short_date (pt_txn_date t)) @ '')</span>''
            else [])
      in html_div ''display:flex;gap:6px;align-items:center;''
           (colored (if buyish then POSITIVE else NEGATIVE) (if buyish then black_square else white_square)
            @ ''<span>'' @ (if buyish then ''Buy'' else ''Sell'') @ '' '' @ qtyStr @ '' @ '' @ unitStr @ dateStr @ ''</span>''))"

definition price_tooltip ::
  "(jstring \<Rightarrow> jstring) \<Rightarrow> (jstring \<Rightarrow> jstring) \<Rightarrow> (jstring \<Rightarrow> int) \<Rightarrow> 'date price_props \<Rightarrow> price_data
    \<Rightarrow> tip_param option \<Rightarrow> jstring" where
  "price_tooltip long_date short_date time_of p d first =
     (case first of None \<Rightarrow> []
      | Some f \<Rightarrow>
          let iso = nullish (tp_date f) [];
              dateLabel = (if iso \<noteq> [] then long_date iso else escapeHtml (nullish (tp_label f) []));
              priceStr = (case by_date (price_line_data d) iso of
                Some v \<Rightarrow> formatMoney (SNum v) (pd_currency d) | None \<Rightarrow> []);
              sameDay = nullish (jm_get (txByDate time_of (pc_showTransactions p) d) iso) []
          in html_div (''font-size:12px;color:'' @ MUTED @ '';'') dateLabel
             @ html_div (''font-size:16px;font-weight:600;color:'' @ ACCENT @ '';'') (escapeHtml priceStr)
             @ marker_block (concat (map (trade_line short_date p d iso) sameDay)))"

record price_option =
  po_line :: "(jstring \<times> jsnum) list"
  po_avg :: "jsnum option"
  po_marks :: "mark_point list"
  po_legend :: "jstring list option"
  po_top :: int
  po_minInterval :: "int option"

definition price_option_of :: "'date price_props \<Rightarrow> jsnum option \<Rightarrow> price_data \<Rightarrow> price_option option" where
  "price_option_of p avg d =
     (if pd_history d = [] then None
      else Some
        \<lparr>po_line = price_line_data d, po_avg = (if showCostLine p d avg then avg else None),
         po_marks = (if pc_showTransactions p then List.map_filter price_mark (pd_txns d) else []),
         po_legend = (if showCostLine p d avg then Some [''Avg cost'', ''Price''] else None),
         po_top = (if showCostLine p d avg then 32 else 24),
         po_minInterval = (if pc_timeframe p = TFAll then Some (28 * 24 * 60 * 60 * 1000) else None)\<rparr>)"

definition count_transactions :: "nat \<Rightarrow> jstring" where
  "count_transactions n = show_digits (int n) @ '' transaction'' @ (if n = 1 then [] else ''s'')"

definition price_notes :: "price_data \<Rightarrow> jstring list" where
  "price_notes d =
     (if 0 < pd_dropped d
      then [count_transactions (pd_dropped d) @ '' omitted '' @ em_dash @ '' priced in the other currency.''] else [])
     @ (if 0 < pd_outOfRange d
        then [count_transactions (pd_outOfRange d) @ '' outside the price-history range '' @ em_dash
              @ '' backfill more history to plot '' @ (if pd_outOfRange d = 1 then ''it'' else ''them'') @ ''.''] else [])"

datatype price_view = PcLoading | PcFailed | PcNoHistory | PcChart "jstring list" "price_option option"

definition InstrumentPriceChart ::
  "'date price_props \<Rightarrow> jsnum option \<Rightarrow> bool \<Rightarrow> bool \<Rightarrow> PriceQuote list option \<Rightarrow> price_data \<Rightarrow> price_view" where
  "InstrumentPriceChart p avg isLoading isError raw d =
     (if isLoading then PcLoading
      else if isError then PcFailed
      else if nullish raw [] = [] then PcNoHistory
      else PcChart (price_notes d) (price_option_of p avg d))"

text \<open>The average cost the reference line is drawn at: that of the instrument's rows.\<close>

definition chart_avg_cost :: "jstring \<Rightarrow> PerfHoldingRow list option \<Rightarrow> jsnum option" where
  "chart_avg_cost i rows =
     Option.bind rows (\<lambda>rs. ia_weighted_avg_cost (aggregateInstrument (filter (\<lambda>r. ph_instrument_id r = i) rs)))"

section \<open>The currency of the axis\<close>

definition quote_count :: "PriceQuote list \<Rightarrow> currency \<Rightarrow> int" where
  "quote_count qs c = int (length (filter (\<lambda>q. pq_currency q = c) qs))"

lemma counts_are_counts:
  "jm_get (currency_counts qs) c = (if quote_count qs c = 0 then None else Some (quote_count qs c))"
  "jm_wf (currency_counts qs)"
proof (induction qs rule: rev_induct)
  case (snoc q qs)
  have step: "currency_counts (qs @ [q]) =
      jm_set (pq_currency q) (nullish (jm_get (currency_counts qs) (pq_currency q)) 0 + 1) (currency_counts qs)"
    by (simp add: currency_counts_def)
  { case 1 show ?case using snoc by (auto simp: step quote_count_def nullish_def) next
    case 2 show ?case using snoc by (simp add: step) }
qed (simp_all add: currency_counts_def quote_count_def)

lemma dominant_fold:
  "let r = foldl dominant_step b es in snd b \<le> snd r \<and> (\<forall>e \<in> set es. snd e \<le> snd r) \<and> (r = b \<or> r \<in> set es \<and> snd b < snd r)"
proof (induction es arbitrary: b)
  case (Cons e es)
  have "dominant_step b e = (if snd b < snd e then e else b)" by (simp add: dominant_step_def)
  then show ?case using Cons.IH [of "if snd b < snd e then e else b"]
    by (cases "snd b < snd e") (auto simp: Let_def)
qed simp

text \<open>
  The axis is in the currency most quotes are in.  No currency has more quotes than the one the
  chart chooses, and unless that is the base currency of the instrument, it has strictly more of
  them, so that a tie never moves the axis away from the base currency.
\<close>
theorem chart_currency_dominant:
  "quote_count qs c \<le> quote_count qs (chartCurrency base qs)
    \<and> (chartCurrency base qs = base \<or> quote_count qs base < quote_count qs (chartCurrency base qs))"
proof -
  let ?m = "currency_counts qs" and ?b = "(base, nullish (jm_get (currency_counts qs) base) (- 1))"
  define r where "r = foldl dominant_step ?b ?m"
  have r: "snd ?b \<le> snd r" "\<forall>e \<in> set ?m. snd e \<le> snd r" "r = ?b \<or> r \<in> set ?m \<and> snd ?b < snd r"
    using dominant_fold [of ?b ?m] by (simp_all add: Let_def r_def)
  have entry: "(a, n) \<in> set ?m \<longleftrightarrow> n = quote_count qs a \<and> n \<noteq> 0" for a n
    using counts_are_counts [of qs] map_of_eq_Some_iff [of ?m a n]
    by (cases "quote_count qs a = 0") (auto simp: jm_get_def jm_wf_def)
  have pos: "0 \<le> quote_count qs a" for a by (simp add: quote_count_def)
  have cc: "chartCurrency base qs = fst r" by (simp add: chartCurrency_def Let_def r_def)
  have base: "snd ?b = (if quote_count qs base = 0 then - 1 else quote_count qs base)"
    using counts_are_counts(1) [of qs base] by (simp add: nullish_def)
  have le: "quote_count qs a \<le> snd r \<or> quote_count qs a = 0" for a using r(2) entry [of a "quote_count qs a"] by auto
  show ?thesis
  proof (cases "r = ?b")
    case True
    then show ?thesis using le [of c] base pos [of base] by (auto simp: cc split: if_splits)
  next
    case False
    then have "r \<in> set ?m" "snd ?b < snd r" using r(3) by auto
    then have "snd r = quote_count qs (fst r)" "0 < snd r" using entry [of "fst r" "snd r"] pos [of "fst r"] by auto
    then show ?thesis using le [of c] pos [of base] base \<open>snd ?b < snd r\<close> by (auto simp: cc split: if_splits)
  qed
qed

section \<open>Every trade under its nearest point\<close>

lemma snap_fold:
  "let r = foldl (nearer time_of d) b rest
   in r \<in> insert b (set rest) \<and> (\<forall>c \<in> insert b (set rest). \<bar>time_of r - time_of d\<bar> \<le> \<bar>time_of c - time_of d\<bar>)"
proof (induction rest arbitrary: b)
  case (Cons c rest)
  let ?b = "if \<bar>time_of c - time_of d\<bar> < \<bar>time_of b - time_of d\<bar> then c else b"
  have "nearer time_of d b c = ?b" by (simp add: nearer_def)
  then show ?case using Cons.IH [of ?b]
    by (cases "\<bar>time_of c - time_of d\<bar> < \<bar>time_of b - time_of d\<bar>") (auto simp: Let_def)
qed simp

lemma snap_nearest:
  assumes "lineDates \<noteq> []"
  shows "snapToLineDate time_of lineDates d \<in> set lineDates"
    "c \<in> set lineDates \<Longrightarrow> \<bar>time_of (snapToLineDate time_of lineDates d) - time_of d\<bar> \<le> \<bar>time_of c - time_of d\<bar>"
  using assms snap_fold [of time_of d "hd lineDates" "tl lineDates"]
  by (cases lineDates; auto simp: snapToLineDate_def Let_def)+

lemma txs_of_date:
  "nullish (jm_get (txByDate time_of True d) day) [] =
     filter (\<lambda>t. snapToLineDate time_of (map pq_date (pd_history d)) (pt_txn_date t) = day) (pd_txns d)"
proof -
  define key where "key t = snapToLineDate time_of (map pq_date (pd_history d)) (pt_txn_date t)" for t :: price_txn
  have "nullish (jm_get (foldl (\<lambda>m t. jm_set (key t) (nullish (jm_get m (key t)) [] @ [t]) m) [] ts) day) []
      = filter (\<lambda>t. key t = day) ts" for ts
    by (induction ts rule: rev_induct) (auto simp: nullish_def split: option.splits)
  from this [of "pd_txns d"] show ?thesis unfolding txByDate_def key_def Let_def by simp
qed

lemma mset_by_keys:
  "distinct ks \<Longrightarrow>
    mset (concat (map (\<lambda>k. filter (\<lambda>x. f x = k) xs) ks)) = mset (filter (\<lambda>x. f x \<in> set ks) xs)"
proof (induction ks)
  case (Cons k ks)
  then have "k \<notin> set ks" by simp
  then have "mset (filter (\<lambda>x. f x = k) xs) + mset (filter (\<lambda>x. f x \<in> set ks) xs)
      = mset (filter (\<lambda>x. f x \<in> set (k # ks)) xs)"
    by (induction xs) auto
  then show ?case using Cons by simp
qed simp

lemma quotes_keyed: "jm_wf (quotes_by_date qs)" "\<forall>(k, q) \<in> set (quotes_by_date qs). pq_date q = k"
proof (induction qs rule: rev_induct)
  case (snoc q qs)
  have step: "quotes_by_date (qs @ [q]) = (if jm_has (quotes_by_date qs) (pq_date q) then quotes_by_date qs
      else jm_set (pq_date q) q (quotes_by_date qs))"
    by (simp add: quotes_by_date_def)
  { case 1 show ?case using snoc by (simp add: step) next
    case 2
    have "set (jm_set k v m) \<subseteq> insert (k, v) (set m)" for k v and m :: "(jstring, PriceQuote) jsmap"
      by (induction m) (auto split: if_splits)
    from this [of "pq_date q" q "quotes_by_date qs"] show ?case using snoc(2) by (auto simp: step) }
qed (simp_all add: quotes_by_date_def)

lemma deduped_dates: "distinct (map pq_date (dedupedAll collate qs))"
proof -
  have "map pq_date (jm_values (quotes_by_date qs)) = map fst (quotes_by_date qs)"
    using quotes_keyed(2) [of qs] by (auto simp: jm_values_def)
  then have "distinct (map pq_date (jm_values (quotes_by_date qs)))"
    using quotes_keyed(1) [of qs] by (simp add: jm_wf_def)
  moreover have "mset (map pq_date (dedupedAll collate qs)) = mset (map pq_date (jm_values (quotes_by_date qs)))"
    by (simp add: dedupedAll_def mset_sort_by)
  ultimately show ?thesis by (metis mset_eq_imp_distinct_iff)
qed

lemma filterByTimeframe_filter:
  "\<exists>P. filterByTimeframe local_day days_ago date_of tf from to rows = filter P rows"
proof -
  have "\<exists>P. rows = filter P rows" by (rule exI [of _ "\<lambda>_. True"]) simp
  then show ?thesis unfolding filterByTimeframe_def by (auto split: option.split)
qed

lemma line_dates:
  "distinct (map pq_date (pd_history (price_data_of local_day days_ago collate p txns raw)))"
proof (cases raw)
  case (Some qs)
  have "distinct (map pq_date (filterByTimeframe local_day days_ago pq_date tf f t rows))"
    if "distinct (map pq_date rows)" for tf f t and rows :: "PriceQuote list"
    using filterByTimeframe_filter [of local_day days_ago pq_date tf f t rows] that distinct_map_filter by metis
  then show ?thesis by (simp add: price_data_of_def Some Let_def deduped_dates distinct_map_filter)
qed (simp add: price_data_of_def)

text \<open>
  C27: No trade is lost from the tooltips.  With the transactions switched on, the lists under the
  points of the line hold every trade the chart kept, each of them once, and each under a point
  that no other point of the line is nearer to.
\<close>
theorem trades_in_tooltips:
  assumes "pd_history (price_data_of local_day days_ago collate p txns raw) \<noteq> []"
  shows "let d = price_data_of local_day days_ago collate p txns raw;
             listed = (\<lambda>q. nullish (jm_get (txByDate time_of True d) (pq_date q)) [])
         in mset (concat (map listed (pd_history d))) = mset (pd_txns d)
           \<and> (\<forall>q \<in> set (pd_history d). \<forall>t \<in> set (listed q). \<forall>r \<in> set (pd_history d).
                \<bar>time_of (pq_date q) - time_of (pt_txn_date t)\<bar> \<le> \<bar>time_of (pq_date r) - time_of (pt_txn_date t)\<bar>)"
proof -
  define d where "d = price_data_of local_day days_ago collate p txns raw"
  let ?dates = "map pq_date (pd_history d)"
  let ?key = "\<lambda>t. snapToLineDate time_of ?dates (pt_txn_date t)"
  have ne: "?dates \<noteq> []" and dist: "distinct ?dates" using assms line_dates by (simp_all add: d_def)
  have "mset (concat (map (\<lambda>k. filter (\<lambda>t. ?key t = k) (pd_txns d)) ?dates)) = mset (filter (\<lambda>t. ?key t \<in> set ?dates) (pd_txns d))"
    by (rule mset_by_keys [OF dist])
  also have "filter (\<lambda>t. ?key t \<in> set ?dates) (pd_txns d) = pd_txns d"
    by (intro filter_True ballI snap_nearest(1) ne)
  finally have "mset (concat (map (\<lambda>q. filter (\<lambda>t. ?key t = pq_date q) (pd_txns d)) (pd_history d))) = mset (pd_txns d)"
    by (simp add: comp_def)
  moreover have "\<bar>time_of (pq_date q) - time_of (pt_txn_date t)\<bar> \<le> \<bar>time_of (pq_date r) - time_of (pt_txn_date t)\<bar>"
    if "?key t = pq_date q" "r \<in> set (pd_history d)" for q r t
    using snap_nearest(2) [OF ne, of "pq_date r" time_of "pt_txn_date t"] that by simp
  ultimately show ?thesis unfolding d_def [symmetric] by (auto simp: Let_def txs_of_date)
qed


definition demo_quote :: "jstring \<Rightarrow> PriceQuote" where
  "demo_quote d = \<lparr>pq_date = d, pq_price = ''10.5'', pq_currency = EUR, pq_fetched_at = ''t''\<rparr>"

definition demo_trade :: "jstring \<Rightarrow> price_txn" where
  "demo_trade qty = \<lparr>pt_txn_id = ''x'', pt_txn_date = ''2025-02-20'', pt_quantity = qty, pt_unit_price = Some ''10'',
     pt_price_currency = Some EUR, pt_instrument_type = None, pt_display_decimals = None, pt_deleted_at = None\<rparr>"

definition demo_price_props :: "(int \<times> int \<times> int) price_props" where
  "demo_price_props = \<lparr>pc_instrumentId = ''i'', pc_baseCurrency = EUR, pc_instrumentType = ''fund'', pc_displayDecimals = Some 2,
     pc_timeframe = TFAll, pc_from = None, pc_to = None, pc_showTransactions = True, pc_displayCurrency = EUR\<rparr>"

definition demo_price_data :: price_data where
  "demo_price_data = price_data_of id (\<lambda>_. (2025, 0, 1)) (\<lambda>a b. if js_str_lt a b then - 1 else 1) demo_price_props
     (Some [demo_trade ''2'']) (Some [demo_quote ''2025-03-31'', demo_quote ''2025-03-31'', demo_quote ''2024-12-31''])"

definition demo_time :: "jstring \<Rightarrow> int" where
  "demo_time d = (if d = ''2024-12-31'' then 0 else if d = ''2025-02-20'' then 51 else 90)"

theorem trades_in_tooltips_witness:
  "map pq_date (pd_history demo_price_data) = [''2024-12-31'', ''2025-03-31'']
    \<and> mset (concat (map (\<lambda>q. nullish (jm_get (txByDate demo_time True demo_price_data) (pq_date q)) []) (pd_history demo_price_data)))
        = {#demo_trade ''2''#}"
proof -
  have dates: "map pq_date (pd_history demo_price_data) = [''2024-12-31'', ''2025-03-31'']"
    and txns: "pd_txns demo_price_data = [demo_trade ''2'']" by code_simp+
  from dates have "pd_history demo_price_data \<noteq> []" by auto
  note kept = trades_in_tooltips [OF this [unfolded demo_price_data_def], where time_of = demo_time,
      folded demo_price_data_def]
  show ?thesis using kept dates by (simp add: Let_def txns)
qed

text \<open>Every priced trade in the window is drawn, counted as out of range, or counted as left out.\<close>

lemma trades_accounted:
  assumes d: "d = price_data_of local_day days_ago collate p (Some ts) (Some qs)" and "pc_timeframe p = TFAll"
  shows "length (pd_txns d) + pd_outOfRange d + pd_dropped d = length (priced_txns ts)"
proof -
  have split: "length (filter P xs) + length (filter (\<lambda>x. \<not> P x) xs) = length xs" for P and xs :: "price_txn list"
    by (rule sum_length_filter_compl)
  show ?thesis
    using split [of "\<lambda>t. pt_price_currency t = Some (pd_currency d)" "priced_txns ts"]
      split [of "outside_line (pd_history d)" "filter (\<lambda>t. pt_price_currency t = Some (pd_currency d)) (priced_txns ts)"]
    by (simp add: d price_data_of_def assms(2) Let_def filterByTimeframe_def nullish_def)
qed

text \<open>
  A row that is neither a purchase nor a sale is listed as a sale.  A transaction of quantity zero
  has no mark on the line, but the tooltip of the point it falls under lists it as a sale of
  nothing at its unit price.
\<close>
theorem zero_quantity_sale:
  assumes "js_eq (str_to_number (pt_quantity t)) (Num 0)"
  shows "price_mark t = None
    \<and> sublist (''<span>Sell '' @ escapeHtml (formatQuantity (SNum (js_abs (str_to_number (pt_quantity t))))
          (decimalsFor (Some (nullish (pt_instrument_type t) (pc_instrumentType p)))
            (case pt_display_decimals t of Some n \<Rightarrow> Some n | None \<Rightarrow> pc_displayDecimals p))))
        (trade_line short_date p d shown t)"
proof -
  let ?q = "escapeHtml (formatQuantity (SNum (js_abs (str_to_number (pt_quantity t))))
      (decimalsFor (Some (nullish (pt_instrument_type t) (pc_instrumentType p)))
        (case pt_display_decimals t of Some n \<Rightarrow> Some n | None \<Rightarrow> pc_displayDecimals p)))"
  have sale: "\<not> js_lt (Num 0) (str_to_number (pt_quantity t))"
    using assms by (cases "str_to_number (pt_quantity t)") (auto simp: js_eq_def)
  obtain rest where "trade_line short_date p d shown t
      = (''<div style='' @ dq @ ''display:flex;gap:6px;align-items:center;'' @ dq @ ''>'' @ colored NEGATIVE white_square)
        @ (''<span>Sell '' @ ?q) @ rest"
    by (simp add: trade_line_def Let_def html_div_def sale)
  then have "sublist (''<span>Sell '' @ ?q) (trade_line short_date p d shown t)"
    unfolding sublist_def by blast
  then show ?thesis using assms by (simp add: price_mark_def)
qed

theorem zero_quantity_sale_witness:
  "price_mark (demo_trade ''0.000'') = None"
proof -
  have "js_eq (str_to_number (pt_quantity (demo_trade ''0.000''))) (Num 0)" by code_simp
  then show ?thesis using zero_quantity_sale by blast
qed

text \<open>
  Before a custom range is picked, the net worth chart asks for one, but the price chart, whose
  request is not sent either, says that no price has ever been recorded.
\<close>

lemma unpicked_range_messages:
  assumes "pc_timeframe p = TFCustom" "pc_from p = None"
    and "nw_timeframe q = TFCustom" "nw_from q = None"
  shows "\<not> history_enabled p" "\<not> networth_enabled q"
    "InstrumentPriceChart p avg False False None d = PcNoHistory"
    "NetWorthChart collate q instruments False None None = NwPickRange"
  using assms by (simp_all add: history_enabled_def networth_enabled_def InstrumentPriceChart_def nullish_def NetWorthChart_def)

end
