(* ===== verification/Session.thy ===== *)
theory Session
  imports Api View
begin

text \<open>
  Entering the application: the routing decision of \<open>middleware.ts\<close>, the login form
  (\<open>app/login/page.tsx\<close>) and the first-run wizard (\<open>app/setup/page.tsx\<close> with
  \<open>components/setup/ProviderKeyStep.tsx\<close>).
\<close>

section \<open>The middleware\<close>

text \<open>
  The server's answers are a function of the origin asked and the path; a \<open>FetchFailed\<close> covers an
  origin that is no URL.
\<close>

type_synonym network = "jstring \<Rightarrow> jstring \<Rightarrow> fetch_outcome"

record page_request =
  url_origin :: jstring
  pathname :: jstring
  search :: jstring
  has_session :: bool

text \<open>The value of a member of the JSON body of a good answer; every failure is \<open>None\<close>.\<close>

definition status_member :: "jstring \<Rightarrow> fetch_outcome \<Rightarrow> json option" where
  "status_member k out =
     (case out of FetchFailed _ \<Rightarrow> None
      | Responded r \<Rightarrow>
          if \<not> response_ok r then None
          else Option.bind (Option.bind (body_text r) json_parse) (member k))"

definition fetchClaimed :: "jstring option \<Rightarrow> network \<Rightarrow> page_request \<Rightarrow> bool option" where
  "fetchClaimed env net req =
     (case status_member ''claimed'' (net (nullish env (url_origin req)) ''/api/setup/status'') of
        Some (JBool b) \<Rightarrow> Some b | _ \<Rightarrow> None)"

definition isClaimedOrUnknown :: "jstring option \<Rightarrow> network \<Rightarrow> page_request \<Rightarrow> bool" where
  "isClaimedOrUnknown env net req = nullish (fetchClaimed env net req) True"

definition isClaimedStrict :: "jstring option \<Rightarrow> network \<Rightarrow> page_request \<Rightarrow> bool" where
  "isClaimedStrict env net req \<longleftrightarrow> fetchClaimed env net req = Some True"

definition fetchDemo :: "jstring option \<Rightarrow> network \<Rightarrow> page_request \<Rightarrow> bool" where
  "fetchDemo env net req \<longleftrightarrow>
     status_member ''demo'' (net (nullish env (url_origin req)) ''/api/config'') = Some (JBool True)"

text \<open>A redirect goes to a path and a query on the origin of the request.\<close>

datatype decision = Next | Redirect jstring jstring

text \<open>The decision, and the paths that were fetched to make it.\<close>

definition middleware :: "jstring option \<Rightarrow> network \<Rightarrow> page_request \<Rightarrow> decision \<times> jstring list" where
  "middleware env net req =
     (if pathname req = ''/setup'' then
        (if isClaimedStrict env net req then Redirect ''/login'' [] else Next, [''/api/setup/status''])
      else if pathname req = ''/login'' then
        (if has_session req then (Redirect ''/track'' [], [])
         else (if fetchDemo env net req then Redirect ''/api/auth/demo-login'' [] else Next, [''/api/config'']))
      else if pathname req = ''/'' then (Redirect ''/track'' [], [])
      else if \<not> has_session req then
        (if \<not> isClaimedOrUnknown env net req then Redirect ''/setup'' []
         else Redirect ''/login'' (''?next='' @ form_encode (pathname req @ search req)),
         [''/api/setup/status''])
      else (Next, []))"

text \<open>
  The matcher: the middleware runs on \<open>/\<close> followed by anything that does not start with one of the
  listed prefixes and has no dot.  In the pattern of a prefix a dot stands for any character.
\<close>

fun prefix_match :: "jstring \<Rightarrow> jstring \<Rightarrow> bool" where
  "prefix_match [] s = True"
| "prefix_match (p # ps) [] = False"
| "prefix_match (p # ps) (c # s) = ((p = CHR ''.'' \<or> p = c) \<and> prefix_match ps s)"

definition matcher :: "jstring \<Rightarrow> bool" where
  "matcher path =
     (case path of [] \<Rightarrow> False
      | c # r \<Rightarrow>
          c = CHR ''/'' \<and> CHR ''.'' \<notin> set r
          \<and> \<not> list_ex (\<lambda>p. prefix_match p r)
                [''api'', ''_next/static'', ''_next/image'', ''favicon.ico'', ''robots.txt'', ''sitemap.xml'',
                 ''manifest.webmanifest''])"

text \<open>
  A browser follows redirects: the page it ends at, the redirects it took, or \<open>None\<close> when the
  fuel runs out.  A path the matcher leaves out is served by another part.
\<close>

fun follow :: "nat \<Rightarrow> jstring option \<Rightarrow> network \<Rightarrow> page_request \<Rightarrow> (jstring \<times> jstring) option" where
  "follow 0 env net req = None"
| "follow (Suc n) env net req =
     (if \<not> matcher (pathname req) then Some (pathname req, search req)
      else case fst (middleware env net req) of
             Next \<Rightarrow> Some (pathname req, search req)
           | Redirect p q \<Rightarrow> follow n env net (req\<lparr>pathname := p, search := q\<rparr>))"

lemma matcher_routes:
  "matcher ''/setup''" "matcher ''/login''" "matcher ''/track''" "matcher ''/''"
  "\<not> matcher ''/api/auth/demo-login''"
  by code_simp+

lemma claimed_same_origin:
  "fetchClaimed env net (req\<lparr>pathname := p, search := q\<rparr>) = fetchClaimed env net req"
  "fetchDemo env net (req\<lparr>pathname := p, search := q\<rparr>) = fetchDemo env net req"
  by (simp_all add: fetchClaimed_def fetchDemo_def)

lemmas middleware_defs = middleware_def isClaimedStrict_def isClaimedOrUnknown_def claimed_same_origin matcher_routes

text \<open>Where a browser ends: stated without redirects.\<close>

definition landing :: "jstring option \<Rightarrow> network \<Rightarrow> page_request \<Rightarrow> jstring \<times> jstring" where
  "landing env net req =
     (let claimed = fetchClaimed env net req;
          login = (\<lambda>q. if fetchDemo env net req then (''/api/auth/demo-login'', []) else (''/login'', q));
          entry = (\<lambda>p s. if claimed = Some False then (''/setup'', [])
                          else login (''?next='' @ form_encode (p @ s)))
      in if \<not> matcher (pathname req) then (pathname req, search req)
         else if pathname req = ''/setup'' then
           (if claimed = Some True then (if has_session req then (''/track'', []) else login [])
            else (''/setup'', search req))
         else if pathname req = ''/login'' then
           (if has_session req then (''/track'', []) else login (search req))
         else if pathname req = ''/'' then
           (if has_session req then (''/track'', []) else entry ''/track'' [])
         else if has_session req then (pathname req, search req)
         else entry (pathname req) (search req))"

lemma follow_step: "fst (middleware env net req) = Redirect p q \<Longrightarrow> matcher (pathname req) \<Longrightarrow>
    follow (Suc n) env net req = follow n env net (req\<lparr>pathname := p, search := q\<rparr>)"
  by simp

lemma follow_track: "has_session req \<Longrightarrow> pathname req = ''/track'' \<Longrightarrow>
    follow (Suc n) env net req = Some (''/track'', search req)"
  by (simp add: middleware_defs)

lemma follow_login: "pathname req = ''/login'' \<Longrightarrow>
    follow (Suc (Suc n)) env net req =
      Some (if has_session req then (''/track'', [])
            else if fetchDemo env net req then (''/api/auth/demo-login'', []) else (''/login'', search req))"
  by (simp add: middleware_defs)

lemma follow_entry: "\<not> has_session req \<Longrightarrow> pathname req \<notin> {''/setup'', ''/login'', ''/''} \<Longrightarrow>
    matcher (pathname req) \<Longrightarrow>
    follow (Suc (Suc (Suc n))) env net req =
      Some (if fetchClaimed env net req = Some False then (''/setup'', [])
            else if fetchDemo env net req then (''/api/auth/demo-login'', [])
            else (''/login'', ''?next='' @ form_encode (pathname req @ search req)))"
  by (cases "fetchClaimed env net req") (auto simp: middleware_defs)

text \<open>
  C13: No redirect loop: from every request, with and without a session and whatever the
  status endpoints answer, at most three redirects lead to a page, and it is the page that the
  declarative routing table names.
\<close>
theorem redirects_terminate: "follow (Suc (Suc (Suc (Suc n)))) env net req = Some (landing env net req)"
proof -
  consider "\<not> matcher (pathname req)" | "pathname req = ''/setup''" | "pathname req = ''/login''"
    | "pathname req = ''/''" | "matcher (pathname req)" "pathname req \<notin> {''/setup'', ''/login'', ''/''}"
    by blast
  then show ?thesis
  proof cases
    case 2
    show ?thesis
    proof (cases "fetchClaimed env net req = Some True")
      case True
      then have "fst (middleware env net req) = Redirect ''/login'' []" using 2 by (simp add: middleware_defs)
      then show ?thesis
        using True 2 by (simp add: follow_step matcher_routes follow_login landing_def claimed_same_origin Let_def
            del: follow.simps)
    next
      case False
      then show ?thesis using 2 by (simp add: middleware_defs landing_def)
    qed
  next
    case 4
    then have "fst (middleware env net req) = Redirect ''/track'' []" by (simp add: middleware_defs)
    then show ?thesis
      using 4 by (cases "has_session req")
        (simp_all add: follow_step matcher_routes follow_track follow_entry landing_def claimed_same_origin Let_def
          del: follow.simps)
  next
    case 5
    then show ?thesis
      by (cases "has_session req") (auto simp: follow_entry landing_def Let_def middleware_def simp del: follow.simps,
        simp add: middleware_def)
  qed (auto simp: landing_def follow_login Let_def matcher_routes simp del: follow.simps, simp)
qed

text \<open>
  When the wizard opens.  A redirect to \<open>/setup\<close> happens only without a session and when the
  status was read and says the instance is unclaimed; an unknown status sends a visitor to the
  login form, and never locks a fresh install out of \<open>/setup\<close> itself; a request with a session is
  decided without asking the server, unless it is for \<open>/setup\<close>.
\<close>
theorem setup_gate:
  "(fst (middleware env net req) = Redirect ''/setup'' []
      \<longleftrightarrow> \<not> has_session req \<and> pathname req \<notin> {''/setup'', ''/login'', ''/''}
        \<and> fetchClaimed env net req = Some False)
   \<and> (pathname req = ''/setup'' \<and> fetchClaimed env net req \<noteq> Some True \<longrightarrow> fst (middleware env net req) = Next)
   \<and> (has_session req \<and> pathname req \<noteq> ''/setup'' \<longrightarrow> snd (middleware env net req) = [])"
  by (cases "fetchClaimed env net req") (auto simp: middleware_defs)

definition dead_network :: network where
  "dead_network base path = FetchFailed ''refused''"

theorem setup_gate_witness:
  "fst (middleware None dead_network
      \<lparr>url_origin = ''http://h'', pathname = ''/setup'', search = [], has_session = False\<rparr>) = Next
   \<and> snd (middleware None dead_network
      \<lparr>url_origin = ''http://h'', pathname = ''/track'', search = [], has_session = True\<rparr>) = []"
  using setup_gate [of None dead_network
      "\<lparr>url_origin = ''http://h'', pathname = ''/setup'', search = [], has_session = False\<rparr>"]
    setup_gate [of None dead_network
      "\<lparr>url_origin = ''http://h'', pathname = ''/track'', search = [], has_session = True\<rparr>"]
  by (simp add: fetchClaimed_def status_member_def dead_network_def)

section \<open>The login form\<close>

text \<open>The target after a login: a path of this origin, by the guard of the code.\<close>

definition safeNext :: "jstring option \<Rightarrow> jstring" where
  "safeNext nxt =
     (case nxt of
        Some n \<Rightarrow> if n \<noteq> [] \<and> starts_with n ''/'' \<and> \<not> starts_with n ''//'' then n else ''/''
      | None \<Rightarrow> ''/'')"

datatype login_call = PasswordCall | CodeCall

record login_state =
  submit_error :: "jstring option"
  submitting :: bool
  preAuthToken :: "json option"
  password_field :: jstring
  code_field :: jstring
  pending :: "login_call option"
  posted :: "(jstring \<times> jstring) list"
  replaced :: "jstring list"

definition login_init :: login_state where
  "login_init = \<lparr>submit_error = None, submitting = False, preAuthToken = None, password_field = [],
     code_field = [], pending = None, posted = [], replaced = []\<rparr>"

definition redirectAfterLogin :: "jstring option \<Rightarrow> login_state \<Rightarrow> login_state" where
  "redirectAfterLogin nxt st = st\<lparr>replaced := replaced st @ [safeNext nxt]\<rparr>"

text \<open>A submission passes the schema when the field is not empty; then the call is made.\<close>

definition submit_password :: "login_state \<Rightarrow> login_state" where
  "submit_password st =
     (if password_field st = [] then st
      else st\<lparr>submit_error := None, submitting := True, pending := Some PasswordCall,
        posted := posted st @ [(''/api/auth/login'', stringify (JObj [(''password'', JStr (password_field st))]))]\<rparr>)"

definition login_failure :: "jstring \<Rightarrow> thrown \<Rightarrow> jstring" where
  "login_failure invalid err =
     (case err of ApiErr n d \<Rightarrow> if n = 401 then invalid else nullish (error_message err) ''Login failed''
      | _ \<Rightarrow> nullish (error_message err) ''Login failed'')"

definition twofa_token :: "json option \<Rightarrow> json option" where
  "twofa_token response =
     (case response of None \<Rightarrow> None
      | Some v \<Rightarrow>
          if member ''twofa_required'' v = Some (JStr ''true'')
          then (case member ''pre_auth_token'' v of Some t \<Rightarrow> if truthy t then Some t else None | None \<Rightarrow> None)
          else None)"

definition password_answer :: "jstring option \<Rightarrow> thrown + json option \<Rightarrow> login_state \<Rightarrow> login_state" where
  "password_answer nxt res st =
     (let st = st\<lparr>pending := None\<rparr>
      in case res of
           Inr response \<Rightarrow>
             (case twofa_token response of
                Some t \<Rightarrow> st\<lparr>preAuthToken := Some t, submitting := False\<rparr>
              | None \<Rightarrow> redirectAfterLogin nxt st)
         | Inl err \<Rightarrow>
             st\<lparr>submit_error := Some (login_failure ''Invalid password'' err), password_field := [],
               submitting := False\<rparr>)"

definition submit_code :: "login_state \<Rightarrow> login_state" where
  "submit_code st =
     (if code_field st = [] then st
      else st\<lparr>submit_error := None, submitting := True, pending := Some CodeCall,
        posted := posted st @ [(''/api/auth/login/2fa'',
          stringify (JObj [(''pre_auth_token'', nullish (preAuthToken st) JNull), (''code'', JStr (code_field st))]))]\<rparr>)"

definition code_answer :: "jstring option \<Rightarrow> thrown + json option \<Rightarrow> login_state \<Rightarrow> login_state" where
  "code_answer nxt res st =
     (let st = st\<lparr>pending := None\<rparr>
      in case res of
           Inr _ \<Rightarrow> redirectAfterLogin nxt st
         | Inl err \<Rightarrow>
             st\<lparr>submit_error := Some (login_failure ''Invalid code'' err), code_field := [], submitting := False\<rparr>)"

text \<open>
  The form as it runs: the code form is shown as soon as there is a token; the button is disabled
  while submitting, and the browser then submits no form.
\<close>

inductive login_step :: "jstring option \<Rightarrow> login_state \<Rightarrow> login_state \<Rightarrow> bool" for nxt where
  type_password: "preAuthToken st = None \<Longrightarrow> login_step nxt st (st\<lparr>password_field := s\<rparr>)"
| type_code: "preAuthToken st \<noteq> None \<Longrightarrow> login_step nxt st (st\<lparr>code_field := s\<rparr>)"
| press_sign_in: "preAuthToken st = None \<Longrightarrow> \<not> submitting st \<Longrightarrow> login_step nxt st (submit_password st)"
| press_verify: "preAuthToken st \<noteq> None \<Longrightarrow> \<not> submitting st \<Longrightarrow> login_step nxt st (submit_code st)"
| password_settles: "pending st = Some PasswordCall \<Longrightarrow>
    login_step nxt st (password_answer nxt (fst (apiFetch True ''/api/auth/login'' out)) st)"
| code_settles: "pending st = Some CodeCall \<Longrightarrow>
    login_step nxt st (code_answer nxt (fst (apiFetch True ''/api/auth/login/2fa'' out)) st)"

inductive login_reach :: "jstring option \<Rightarrow> login_state \<Rightarrow> bool" for nxt where
  init: "login_reach nxt login_init"
| step: "login_reach nxt st \<Longrightarrow> login_step nxt st st' \<Longrightarrow> login_reach nxt st'"

inductive_cases login_stepE: "login_step nxt st st'"

lemmas login_defs = submit_password_def submit_code_def password_answer_def code_answer_def
  redirectAfterLogin_def login_init_def

definition login_inv :: "jstring option \<Rightarrow> login_state \<Rightarrow> bool" where
  "login_inv nxt st \<longleftrightarrow>
     ((pending st = None \<and> replaced st = [] \<and> \<not> submitting st)
      \<or> (pending st \<noteq> None \<and> replaced st = [] \<and> submitting st)
      \<or> (pending st = None \<and> replaced st = [safeNext nxt] \<and> submitting st))
     \<and> (pending st = Some PasswordCall \<longrightarrow> preAuthToken st = None)
     \<and> (pending st = Some CodeCall \<longrightarrow> preAuthToken st \<noteq> None)"

lemma login_inv_step: "login_inv nxt st \<Longrightarrow> login_step nxt st st' \<Longrightarrow> login_inv nxt st'"
  by (elim login_stepE) (auto simp: login_inv_def login_defs Let_def split: sum.splits option.splits)

lemma login_reach_inv: "login_reach nxt st \<Longrightarrow> login_inv nxt st"
proof (induction rule: login_reach.induct)
  case init
  then show ?case by (simp add: login_inv_def login_init_def)
qed (rule login_inv_step)

text \<open>The calls of the login form never start the recovery from a dead session.\<close>

lemma login_never_expires:
  "snd (apiFetch b ''/api/auth/login'' out) = False" "snd (apiFetch b ''/api/auth/login/2fa'' out) = False"
proof -
  have "isAuthPath ''/api/auth/login''" "isAuthPath ''/api/auth/login/2fa''" by code_simp+
  then show "snd (apiFetch b ''/api/auth/login'' out) = False"
    "snd (apiFetch b ''/api/auth/login/2fa'' out) = False"
    by (simp_all add: apiFetch_def split: fetch_outcome.split)
qed

text \<open>
  C14: The login form leaves the page at most once, to the guarded target and no other, and only
  after a call succeeded; while a call is under way or the page is being left no second one can
  be made.  Whatever error a call ends with, the form stays, shows why, empties its field and opens
  again, and a failed code keeps the token, so another can be tried.  A password that is accepted
  leaves, unless the back end asks for a second factor and hands out a token: then the form stays and
  asks for the code.  No other step leaves the page.
\<close>
theorem login_leaves_once:
  assumes "login_reach nxt st"
  shows "replaced st \<in> {[], [safeNext nxt]}
    \<and> submitting st = (pending st \<noteq> None \<or> replaced st \<noteq> [])
    \<and> (pending st = Some CodeCall \<longrightarrow>
        (let st' = code_answer nxt (Inl err) st in
          replaced st' = [] \<and> \<not> submitting st' \<and> code_field st' = []
          \<and> submit_error st' = Some (if \<exists>d. err = ApiErr 401 d then ''Invalid code'' else nullish (error_message err) ''Login failed'')
          \<and> preAuthToken st' = preAuthToken st \<and> preAuthToken st' \<noteq> None)
        \<and> replaced (code_answer nxt (Inr v) st) = [safeNext nxt])
    \<and> (pending st = Some PasswordCall \<longrightarrow>
        (let st' = password_answer nxt (Inl err) st in
          replaced st' = [] \<and> \<not> submitting st' \<and> password_field st' = [] \<and> preAuthToken st' = None
          \<and> submit_error st' = Some (if \<exists>d. err = ApiErr 401 d then ''Invalid password'' else nullish (error_message err) ''Login failed''))
        \<and> (let st' = password_answer nxt (Inr v) st;
               asks = (\<lambda>t. \<exists>body. v = Some body \<and> member ''twofa_required'' body = Some (JStr ''true'')
                 \<and> member ''pre_auth_token'' body = Some t \<and> truthy t)
           in (\<forall>t. asks t \<longrightarrow> replaced st' = [] \<and> \<not> submitting st' \<and> preAuthToken st' = Some t)
              \<and> ((\<nexists>t. asks t) \<longrightarrow> replaced st' = [safeNext nxt])))
    \<and> (\<forall>st'. login_step nxt st st' \<and> replaced st' \<noteq> replaced st \<longrightarrow>
        (\<exists>w. pending st = Some PasswordCall \<and> st' = password_answer nxt (Inr w) st
           \<or> pending st = Some CodeCall \<and> st' = code_answer nxt (Inr w) st))"
proof -
  have inv: "login_inv nxt st" by (rule login_reach_inv [OF assms])
  have leaves: "\<exists>w. pending st = Some PasswordCall \<and> st' = password_answer nxt (Inr w) st
       \<or> pending st = Some CodeCall \<and> st' = code_answer nxt (Inr w) st"
    if "login_step nxt st st'" "replaced st' \<noteq> replaced st" for st'
    using that(1)
  proof cases
    case (password_settles out)
    then show ?thesis
      using that(2) by (cases "fst (apiFetch True ''/api/auth/login'' out)") (auto simp: password_answer_def Let_def)
  next
    case (code_settles out)
    then show ?thesis
      using that(2) by (cases "fst (apiFetch True ''/api/auth/login/2fa'' out)") (auto simp: code_answer_def Let_def)
  qed (use that(2) in \<open>auto simp: submit_password_def submit_code_def split: if_splits\<close>)
  have failure: "login_failure m err = (if \<exists>d. err = ApiErr 401 d then m else nullish (error_message err) ''Login failed'')" for m
    by (cases err) (auto simp: login_failure_def)
  have token: "twofa_token v = Some t \<longleftrightarrow> (\<exists>body. v = Some body \<and> member ''twofa_required'' body = Some (JStr ''true'')
      \<and> member ''pre_auth_token'' body = Some t \<and> truthy t)" for t
    by (auto simp: twofa_token_def split: option.splits)
  have asked: "(\<forall>t. twofa_token v = Some t \<longrightarrow> replaced (password_answer nxt (Inr v) st) = []
        \<and> \<not> submitting (password_answer nxt (Inr v) st) \<and> preAuthToken (password_answer nxt (Inr v) st) = Some t)
      \<and> ((\<nexists>t. twofa_token v = Some t) \<longrightarrow> replaced (password_answer nxt (Inr v) st) = [safeNext nxt])"
    if "pending st = Some PasswordCall"
    using inv that by (auto simp: login_inv_def password_answer_def redirectAfterLogin_def Let_def split: option.splits)
  show ?thesis
    using inv leaves asked unfolding Let_def token [symmetric]
    by (intro conjI impI) (auto simp: login_inv_def login_defs failure Let_def)
qed

lemma reach_signed_in:
  "login_reach nxt (submit_password (login_init\<lparr>password_field := ''pw''\<rparr>))"
proof -
  have 1: "login_reach nxt (login_init\<lparr>password_field := ''pw''\<rparr>)"
    by (rule login_reach.step [OF login_reach.init type_password]) (simp add: login_init_def)
  show ?thesis by (rule login_reach.step [OF 1 press_sign_in]) (simp_all add: login_init_def)
qed

theorem login_leaves_once_witness:
  "submitting (submit_password (login_init\<lparr>password_field := ''pw''\<rparr>))
   \<and> submit_error (password_answer None (Inl (ApiErr 401 [])) (submit_password (login_init\<lparr>password_field := ''pw''\<rparr>)))
      = Some ''Invalid password''"
  using login_leaves_once [OF reach_signed_in [of None], of "ApiErr 401 []"]
  by (simp add: Let_def submit_password_def login_init_def)

text \<open>
  Whether the browser leaves the origin for a reference: it names a host, or it starts with a scheme.
  Some references with the scheme of the page stay, such as \<open>https:x\<close>; they are counted as leaving.
\<close>

definition scheme_char :: "char \<Rightarrow> bool" where
  "scheme_char c \<longleftrightarrow> c \<in> set ''abcdefghijklmnopqrstuvwxyzABCDEFGHIJKLMNOPQRSTUVWXYZ0123456789+-.''"

definition names_scheme :: "jstring \<Rightarrow> bool" where
  "names_scheme s =
     (case dropWhile scheme_char (url_clean s) of
        [] \<Rightarrow> False
      | c # t \<Rightarrow> c = CHR '':'' \<and> hd (url_clean s) \<in> set ''abcdefghijklmnopqrstuvwxyzABCDEFGHIJKLMNOPQRSTUVWXYZ'')"

definition leaves_origin :: "jstring \<Rightarrow> bool" where
  "leaves_origin s \<longleftrightarrow> names_host s \<or> names_scheme s"

lemma slash_no_scheme: "\<not> names_scheme (CHR ''/'' # s)"
  by (simp add: names_scheme_def url_clean_def scheme_char_def)

text \<open>
  C15: Where a login may lead.  A target without backslashes, tabs and line breaks stays on this
  origin: a path is kept, and an absolute address or one that names a host is replaced by the start
  page.  With a backslash the guard does not hold: the URL standard reads it as a slash, and
  every \<open>next\<close> that starts with a slash and a backslash names a host of its own.
\<close>
theorem login_target_origin:
  "(list_all (\<lambda>c. c \<notin> {CHR 0x5C, CHR 0x09, CHR 0x0A, CHR 0x0D}) n \<longrightarrow>
      \<not> leaves_origin (safeNext (Some n)) \<and> (leaves_origin n \<longrightarrow> safeNext (Some n) = ''/''))
   \<and> (names_scheme n \<longrightarrow> safeNext (Some n) = ''/'')
   \<and> (starts_with n ''/'' \<and> \<not> starts_with n ''//'' \<longrightarrow> safeNext (Some n) = n)
   \<and> leaves_origin (safeNext (Some (CHR ''/'' # CHR 0x5C # h)))
   \<and> \<not> leaves_origin (safeNext None)"
proof -
  have root: "\<not> leaves_origin ''/''" by code_simp
  have stays: "\<not> leaves_origin (safeNext (Some n))" if h: "list_all (\<lambda>c. c \<notin> {CHR 0x5C, CHR 0x09, CHR 0x0A, CHR 0x0D}) n"
  proof (cases "n \<noteq> [] \<and> starts_with n ''/'' \<and> \<not> starts_with n ''//''")
    case True
    then obtain t where t: "n = CHR ''/'' # t" "\<not> starts_with t ''/''" by (cases n) auto
    have "filter (\<lambda>c. c \<notin> {CHR 0x09, CHR 0x0A, CHR 0x0D}) t = t"
      using h t by (auto simp: list_all_iff filter_id_conv)
    then have "url_clean n = CHR ''/'' # t" using t(1) by (simp add: url_clean_def)
    then have "\<not> names_host n" using t h by (cases t) (auto simp: names_host_def url_slash_def)
    then show ?thesis using True slash_no_scheme [of t] t by (simp add: leaves_origin_def safeNext_def)
  qed (auto simp: safeNext_def root)
  have path: "safeNext (Some n) = n \<or> safeNext (Some n) = ''/''" by (simp add: safeNext_def)
  have "safeNext (Some n) = ''/''" if "names_scheme n"
    using that slash_no_scheme by (cases n) (auto simp: safeNext_def starts_with_def)
  moreover have "safeNext (Some n) = n" if "starts_with n ''/''" "\<not> starts_with n ''//''"
    using that by (cases n) (auto simp: safeNext_def starts_with_def)
  moreover have "url_clean (CHR ''/'' # CHR 0x5C # h)
      = CHR ''/'' # CHR 0x5C # filter (\<lambda>c. c \<notin> {CHR 0x09, CHR 0x0A, CHR 0x0D}) h"
    by (simp add: url_clean_def)
  then have "leaves_origin (safeNext (Some (CHR ''/'' # CHR 0x5C # h)))"
    by (simp add: safeNext_def leaves_origin_def names_host_def url_slash_def)
  moreover have "\<not> leaves_origin (safeNext None)" using root by (simp add: safeNext_def)
  ultimately show ?thesis using stays path by metis
qed

theorem login_target_origin_witness:
  "\<not> leaves_origin (safeNext (Some ''/track?tag=a'')) \<and> safeNext (Some ''https://evil.com'') = ''/''
   \<and> leaves_origin (safeNext (Some (CHR ''/'' # CHR 0x5C # ''evil.com'')))"
proof -
  have "list_all (\<lambda>c. c \<notin> {CHR 0x5C, CHR 0x09, CHR 0x0A, CHR 0x0D}) ''/track?tag=a''"
    "names_scheme ''https://evil.com''" by code_simp+
  then show ?thesis
    using login_target_origin [of "''/track?tag=a''"] login_target_origin [of "''https://evil.com''"]
      login_target_origin [of _ "''evil.com''"] by blast
qed

lemma next_name: "form_decode ''next'' = ''next''"
  by code_simp

lemma next_param:
  assumes "valid_utf8 v"
  shows "search_param ''next'' (''?next='' @ encodeURIComponent v) = Some v"
    and "search_param ''next'' (''?next='' @ form_encode v) = Some v"
  using uri.param_alone [OF assms, of "''next''"] form.param_alone [OF assms, of "''next''"]
  by (simp_all add: next_name)

text \<open>
  C16: A visitor who is sent to the login form comes back.  Both ways there, the redirect of the
  middleware and the recovery from a dead session, carry the address in \<open>next\<close>, and the login
  form reads exactly that address and leaves to it.
\<close>
theorem return_to_page:
  assumes "valid_utf8 (p @ s)" and "starts_with p ''/''" and "\<not> starts_with (p @ s) ''//''"
    and "p \<notin> {''/setup'', ''/login'', ''/''}"
    and "pathname req = p" "search req = s" "\<not> has_session req" "fetchClaimed env net req \<noteq> Some False"
  shows "\<exists>q q'. fst (middleware env net req) = Redirect ''/login'' q \<and> login_url p s = ''/login'' @ q'
    \<and> safeNext (search_param ''next'' q) = p @ s \<and> safeNext (search_param ''next'' q') = p @ s"
proof -
  let ?q = "''?next='' @ form_encode (p @ s)" and ?q' = "''?next='' @ encodeURIComponent (p @ s)"
  have "fst (middleware env net req) = Redirect ''/login'' ?q"
    using assms by (cases "fetchClaimed env net req") (auto simp: middleware_defs)
  moreover have "login_url p s = ''/login'' @ ?q'" using assms(4) by (simp add: login_url_def)
  moreover have "safeNext (Some (p @ s)) = p @ s"
    using assms(2,3) by (cases p) (auto simp: safeNext_def starts_with_def)
  ultimately show ?thesis using next_param [OF assms(1)] by (intro exI [of _ ?q] exI [of _ ?q']) simp
qed

theorem return_to_page_witness:
  "safeNext (search_param ''next'' (''?next='' @ form_encode ''/holdings?q=a b'')) = ''/holdings?q=a b''"
proof -
  have "valid_utf8 (''/holdings'' @ ''?q=a b'')" by code_simp
  moreover have "fst (middleware None dead_network
      \<lparr>url_origin = [], pathname = ''/holdings'', search = ''?q=a b'', has_session = False\<rparr>)
    = Redirect ''/login'' (''?next='' @ form_encode ''/holdings?q=a b'')"
    by (simp add: middleware_defs fetchClaimed_def status_member_def dead_network_def)
  ultimately show ?thesis
    using return_to_page [of "''/holdings''" "''?q=a b''"
        "\<lparr>url_origin = [], pathname = ''/holdings'', search = ''?q=a b'', has_session = False\<rparr>" None dead_network]
    by (auto simp: fetchClaimed_def status_member_def dead_network_def)
qed

section \<open>The first-run wizard\<close>

record WizardProvider =
  provider_id :: jstring
  label :: jstring
  blurb :: jstring
  free_tier :: jstring
  register_url :: jstring
  optional :: bool

record KeysResponse =
  demo :: bool
  key_providers :: "WizardProvider list"

datatype phase = PasswordPhase | WizardPhase

text \<open>The step form of the provider on screen; a provider with another id starts it afresh.\<close>

record step_form =
  key_value :: jstring
  key_error :: "jstring option"
  saving :: bool

definition fresh_form :: step_form where
  "fresh_form = \<lparr>key_value = [], key_error = None, saving = False\<rparr>"

record setup_state =
  setup_error :: "jstring option"
  setup_submitting :: bool
  phase :: phase
  providers :: "WizardProvider list"
  wizard_step :: nat
  step_form :: step_form
  password_values :: "jstring \<times> jstring"
  routed :: "jstring list"

definition setup_init :: setup_state where
  "setup_init = \<lparr>setup_error = None, setup_submitting = False, phase = PasswordPhase, providers = [],
     wizard_step = 0, step_form = fresh_form, password_values = ([], []), routed = []\<rparr>"

text \<open>The schema: lengths are counted in UTF-16 units.\<close>

definition setup_schema :: "jstring \<Rightarrow> jstring \<Rightarrow> bool" where
  "setup_schema password confirm \<longleftrightarrow> 8 \<le> js_length password \<and> 1 \<le> js_length confirm \<and> password = confirm"

definition finish :: "setup_state \<Rightarrow> setup_state" where
  "finish st = st\<lparr>routed := routed st @ [''/track'']\<rparr>"

definition advance :: "setup_state \<Rightarrow> setup_state" where
  "advance st =
     (if wizard_step st + 1 < length (providers st)
      then st\<lparr>wizard_step := wizard_step st + 1,
        step_form := (if provider_id (providers st ! (wizard_step st + 1)) = provider_id (providers st ! wizard_step st)
                      then step_form st else fresh_form)\<rparr>
      else finish st)"

text \<open>A submission that passes the schema, and what the two calls it makes in turn may answer.\<close>

definition setup_submit :: "setup_state \<Rightarrow> setup_state" where
  "setup_submit st =
     (if setup_schema (fst (password_values st)) (snd (password_values st))
      then st\<lparr>setup_error := None, setup_submitting := True\<rparr> else st)"

definition setup_failure :: "thrown \<Rightarrow> setup_state \<Rightarrow> setup_state" where
  "setup_failure err st =
     (case err of
        ApiErr n d \<Rightarrow>
          if n = 409
          then st\<lparr>setup_error := Some (''This instance has already been set up '' @ em_dash @ '' redirecting to sign in''),
                  routed := routed st @ [''/login'']\<rparr>
          else st\<lparr>setup_error := Some (nullish (error_message err) ''Setup failed''),
                  password_values := ([], []), setup_submitting := False\<rparr>
      | _ \<Rightarrow> st\<lparr>setup_error := Some (nullish (error_message err) ''Setup failed''),
              password_values := ([], []), setup_submitting := False\<rparr>)"

definition setup_answer :: "(thrown + unit) \<Rightarrow> (thrown + KeysResponse) \<Rightarrow> setup_state \<Rightarrow> setup_state" where
  "setup_answer claim keys st =
     (case claim of
        Inl err \<Rightarrow> setup_failure err st
      | Inr _ \<Rightarrow>
          (case keys of
             Inl err \<Rightarrow> setup_failure err st
           | Inr k \<Rightarrow>
               if demo k \<or> key_providers k = [] then finish st
               else st\<lparr>providers := key_providers k, wizard_step := 0, step_form := fresh_form,
                       phase := WizardPhase, setup_submitting := False\<rparr>))"

text \<open>The step form: the trimmed key is tested and stored; a failure keeps the step.\<close>

definition key_request :: "WizardProvider \<Rightarrow> jstring \<Rightarrow> jstring \<times> jstring" where
  "key_request p v = (''/api/keys/'' @ provider_id p, stringify (JObj [(''value'', JStr (js_trim v))]))"

definition submit_key :: "setup_state \<Rightarrow> setup_state" where
  "submit_key st = st\<lparr>step_form := (step_form st)\<lparr>key_error := None, saving := True\<rparr>\<rparr>"

definition key_answer :: "(thrown + unit) \<Rightarrow> setup_state \<Rightarrow> setup_state" where
  "key_answer res st =
     (let st = st\<lparr>step_form := (step_form st)\<lparr>saving := False\<rparr>\<rparr>
      in case res of Inr _ \<Rightarrow> advance st
         | Inl err \<Rightarrow> st\<lparr>step_form := (step_form st)\<lparr>key_error := Some (errorDetail err)\<rparr>\<rparr>)"

inductive setup_step :: "setup_state \<Rightarrow> setup_state \<Rightarrow> bool" where
  type_passwords: "phase st = PasswordPhase \<Longrightarrow> setup_step st (st\<lparr>password_values := v\<rparr>)"
| press_set: "phase st = PasswordPhase \<Longrightarrow> \<not> setup_submitting st \<Longrightarrow> setup_step st (setup_submit st)"
| claim_settles: "phase st = PasswordPhase \<Longrightarrow> setup_submitting st \<Longrightarrow> routed st = [] \<Longrightarrow>
    setup_step st (setup_answer claim keys st)"
| type_key: "phase st = WizardPhase \<Longrightarrow> \<not> saving (step_form st) \<Longrightarrow>
    setup_step st (st\<lparr>step_form := (step_form st)\<lparr>key_value := s\<rparr>\<rparr>)"
| press_save: "phase st = WizardPhase \<Longrightarrow> \<not> saving (step_form st) \<Longrightarrow> setup_step st (submit_key st)"
| key_settles: "phase st = WizardPhase \<Longrightarrow> saving (step_form st) \<Longrightarrow> setup_step st (key_answer res st)"
| press_skip: "phase st = WizardPhase \<Longrightarrow> \<not> saving (step_form st) \<Longrightarrow> setup_step st (advance st)"
| press_skip_all: "phase st = WizardPhase \<Longrightarrow> setup_step st (finish st)"

inductive setup_reach :: "setup_state \<Rightarrow> bool" where
  init: "setup_reach setup_init"
| step: "setup_reach st \<Longrightarrow> setup_step st st' \<Longrightarrow> setup_reach st'"

inductive_cases setup_stepE: "setup_step st st'"

lemmas setup_defs = setup_submit_def setup_answer_def setup_failure_def submit_key_def key_answer_def
  advance_def finish_def

definition wizard_inv :: "setup_state \<Rightarrow> bool" where
  "wizard_inv st \<longleftrightarrow> (phase st = WizardPhase \<longrightarrow> wizard_step st < length (providers st))"

lemma wizard_inv_step: "wizard_inv st \<Longrightarrow> setup_step st st' \<Longrightarrow> wizard_inv st'"
  by (elim setup_stepE) (auto simp: wizard_inv_def setup_defs Let_def split: sum.splits thrown.splits)

lemma setup_reach_inv: "setup_reach st \<Longrightarrow> wizard_inv st"
proof (induction rule: setup_reach.induct)
  case init
  then show ?case by (simp add: wizard_inv_def setup_init_def)
qed (rule wizard_inv_step)

text \<open>What is done with the provider on screen: its key is typed, sent and stored, or it is skipped.\<close>

datatype wizard_choice = KeySaved jstring | ProviderSkipped

fun wizard_choose :: "wizard_choice \<Rightarrow> setup_state \<Rightarrow> setup_state" where
  "wizard_choose (KeySaved v) st = key_answer (Inr ()) (submit_key (st\<lparr>step_form := (step_form st)\<lparr>key_value := v\<rparr>\<rparr>))"
| "wizard_choose ProviderSkipped st = advance st"

lemma choose_step:
  "providers (wizard_choose c st) = providers st
   \<and> wizard_step (wizard_choose c st)
       = (if wizard_step st + 1 < length (providers st) then wizard_step st + 1 else wizard_step st)
   \<and> routed (wizard_choose c st)
       = (if wizard_step st + 1 < length (providers st) then routed st else routed st @ [''/track''])"
  by (cases c) (simp_all add: key_answer_def submit_key_def advance_def finish_def Let_def)

lemma choose_many:
  assumes "wizard_step st = 0" "length cs < length (providers st)"
  shows "wizard_step (fold wizard_choose cs st) = length cs \<and> providers (fold wizard_choose cs st) = providers st
    \<and> routed (fold wizard_choose cs st) = routed st"
  using assms(2) by (induction cs rule: rev_induct) (auto simp: assms(1) choose_step)

text \<open>
  C17: The wizard shows every provider once.  There is a provider on screen whenever the wizard is;
  the wizard opens on the first, and whatever keys are stored and whichever providers are skipped,
  the choices lead through all of them in order and the last leads to the application.  A call that
  fails keeps its provider and what was typed, leaves the form usable and shows an error, the
  sentence of the back end where its answer has one.
\<close>
theorem wizard_visits_all:
  assumes "setup_reach st" and "phase st = WizardPhase"
  shows "wizard_step st < length (providers st)
    \<and> (wizard_step st = 0 \<and> length cs = length (providers st) \<longrightarrow>
        map (\<lambda>k. providers st ! wizard_step (fold wizard_choose (take k cs) st)) [0 ..< length (providers st)] = providers st
        \<and> routed (fold wizard_choose (butlast cs) st) = routed st
        \<and> routed (fold wizard_choose cs st) = routed st @ [''/track''])
    \<and> (let st' = key_answer (Inl err) (submit_key st) in
        wizard_step st' = wizard_step st \<and> providers st' = providers st \<and> routed st' = routed st
        \<and> key_value (step_form st') = key_value (step_form st) \<and> \<not> saving (step_form st')
        \<and> key_error (step_form st') \<noteq> None
        \<and> (\<forall>n d j m. err = ApiErr n d \<and> json_parse d = Some j \<and> member ''detail'' j = Some (JStr m) \<longrightarrow>
             key_error (step_form st') = Some m))"
proof -
  have inv: "wizard_step st < length (providers st)"
    using setup_reach_inv [OF assms(1)] assms(2) by (simp add: wizard_inv_def)
  have walk: "map (\<lambda>k. providers st ! wizard_step (fold wizard_choose (take k cs) st)) [0 ..< length (providers st)] = providers st"
    if "wizard_step st = 0" "length cs = length (providers st)"
    using that choose_many [of st "take k cs" for k] by (intro nth_equalityI) simp_all
  have ends: "routed (fold wizard_choose (butlast cs) st) = routed st
      \<and> routed (fold wizard_choose cs st) = routed st @ [''/track'']"
    if "wizard_step st = 0" "length cs = length (providers st)"
  proof -
    have "cs \<noteq> []" using inv that(2) by auto
    then obtain cs' c where c: "cs = cs' @ [c]" by (cases cs rule: rev_cases) auto
    then show ?thesis using choose_many [of st cs'] that choose_step [of c "fold wizard_choose cs' st"] by simp
  qed
  show ?thesis
    using inv walk ends by (auto simp: key_answer_def submit_key_def errorDetail_def Let_def)
qed

definition two_keys :: KeysResponse where
  "two_keys = \<lparr>demo = False, key_providers =
     map (\<lambda>i. \<lparr>provider_id = i, label = i, blurb = [], free_tier = [], register_url = [], optional = False\<rparr>)
       [''twelvedata'', ''finnhub'']\<rparr>"

definition wizard_open :: setup_state where
  "wizard_open = setup_answer (Inr ()) (Inr two_keys)
     (setup_submit (setup_init\<lparr>password_values := (''longenough'', ''longenough'')\<rparr>))"

lemma wizard_open_reach: "setup_reach wizard_open"
proof -
  have 1: "setup_reach (setup_init\<lparr>password_values := (''longenough'', ''longenough'')\<rparr>)"
    by (rule setup_reach.step [OF setup_reach.init type_passwords]) (simp add: setup_init_def)
  have 2: "setup_reach (setup_submit (setup_init\<lparr>password_values := (''longenough'', ''longenough'')\<rparr>))"
    by (rule setup_reach.step [OF 1 press_set]) (simp_all add: setup_init_def)
  have "setup_schema ''longenough'' ''longenough''" by code_simp
  then show ?thesis
    unfolding wizard_open_def
    by (intro setup_reach.step [OF 2 claim_settles]) (simp_all add: setup_init_def setup_submit_def)
qed

theorem wizard_visits_all_witness:
  "routed (fold wizard_choose [KeySaved ''k'', ProviderSkipped] wizard_open) = [''/track'']
   \<and> wizard_step (key_answer (Inl (OtherErr ''offline'')) (submit_key wizard_open)) = 0"
proof -
  have "phase wizard_open = WizardPhase" "wizard_step wizard_open = 0" "providers wizard_open = key_providers two_keys"
    "length (key_providers two_keys) = 2" "routed wizard_open = []"
    by (simp_all add: wizard_open_def setup_answer_def two_keys_def setup_submit_def setup_init_def)
  then show ?thesis
    using wizard_visits_all [OF wizard_open_reach, of "[KeySaved ''k'', ProviderSkipped]" "OtherErr ''offline''"]
    by (simp add: Let_def del: fold_simps)
qed

section \<open>What the two pages show\<close>

datatype login_event = SignIn | Verify

definition page_title :: "jstring \<Rightarrow> 'e ui list" where
  "page_title subtitle = [Heading ''Flowfolio'', Txt subtitle]"

definition login_view :: "login_state \<Rightarrow> login_event ui list" where
  "login_view st =
     page_title ''Sign in to continue''
     @ (if preAuthToken st \<noteq> None
        then [Input ''Authentication code'' (code_field st) False False] @ alert_of (submit_error st)
          @ [Control (if submitting st then ''Verifying'' @ ellipsis else ''Verify'') (submitting st) Verify]
        else [Input ''Password'' (password_field st) True False] @ alert_of (submit_error st)
          @ [Control (if submitting st then ''Signing in'' @ ellipsis else ''Sign in'') (submitting st) SignIn])"

datatype setup_event = SetPassword | SaveKey | SkipKey | SkipAll

definition ProviderKeyStep :: "WizardProvider \<Rightarrow> nat \<Rightarrow> nat \<Rightarrow> step_form \<Rightarrow> setup_event ui list" where
  "ProviderKeyStep p stepIndex steps f =
     [Txt (''Step '' @ show_digits (int stepIndex + 1) @ '' of '' @ show_digits (int steps)),
      Heading (label p)]
     @ only_if (optional p) [Txt ''(optional)'']
     @ [Txt (blurb p), Txt (free_tier p), Anchor ''Get a key'' (register_url p),
        Input (if optional p then ''Paste a key, or leave empty to skip'' else ''Paste your API key'')
          (key_value f) True (saving f)]
     @ alert_of (key_error f)
     @ [Control (if saving f then ''Saving'' @ ellipsis else ''Save'') (saving f) SaveKey,
        Control ''Skip'' (saving f) SkipKey]"

definition setup_view :: "setup_state \<Rightarrow> setup_event ui list" where
  "setup_view st =
     (if phase st = WizardPhase
      then page_title (''Add API keys to fetch live prices. Skip any you do not have, you''
             @ '' can add the rest later in Settings.'')
        @ ProviderKeyStep (providers st ! wizard_step st) (wizard_step st) (length (providers st)) (step_form st)
        @ [Control ''Skip all and finish'' False SkipAll]
      else page_title ''Choose a password to secure your Flowfolio instance''
        @ [Heading ''Set your password'', Input ''Password'' (fst (password_values st)) True False,
           Input ''Confirm password'' (snd (password_values st)) True False]
        @ alert_of (setup_error st)
        @ [Control (if setup_submitting st then ''Setting up'' @ ellipsis else ''Set password'')
             (setup_submitting st) SetPassword])"

lemmas page_views = login_view_def setup_view_def page_title_def ProviderKeyStep_def

text \<open>The steps a user can take are the ones the page offers.\<close>

lemma login_offers:
  "SignIn \<in> set (on_offer (login_view st)) \<longleftrightarrow> preAuthToken st = None \<and> \<not> submitting st"
  "Verify \<in> set (on_offer (login_view st)) \<longleftrightarrow> preAuthToken st \<noteq> None \<and> \<not> submitting st"
  by (auto simp: page_views ui_simps)

lemma setup_offers:
  "SetPassword \<in> set (on_offer (setup_view st)) \<longleftrightarrow> phase st = PasswordPhase \<and> \<not> setup_submitting st"
  "SaveKey \<in> set (on_offer (setup_view st)) \<longleftrightarrow> phase st = WizardPhase \<and> \<not> saving (step_form st)"
  "SkipKey \<in> set (on_offer (setup_view st)) \<longleftrightarrow> phase st = WizardPhase \<and> \<not> saving (step_form st)"
  "SkipAll \<in> set (on_offer (setup_view st)) \<longleftrightarrow> phase st = WizardPhase"
  by (cases "phase st"; auto simp: page_views ui_simps)+

lemma login_reports_failure:
  assumes "login_failure invalid err \<noteq> []"
  shows "alerts (login_view (st\<lparr>submit_error := Some (login_failure invalid err)\<rparr>)) = [login_failure invalid err]"
  using assms by (simp add: page_views ui_simps or_null_def)

end
