(* ===== verification/FormKit.thy ===== *)
theory FormKit
  imports Api Format
begin

text \<open>
  What the transaction forms share: the pieces of their schemas, the handlers of the quantity and
  instrument fields, the query keys a saved transaction makes stale
  (\<open>PORTFOLIO_CACHE_KEYS\<close>), the rate field (\<open>FxRateField.tsx\<close>) and the effects their
  mutations have.
\<close>

section \<open>Schemas\<close>

text \<open>\<open>/^\d{4}-\d{2}-\d{2}$/\<close>.\<close>

definition date_shape :: "jstring \<Rightarrow> bool" where
  "date_shape s \<longleftrightarrow>
     length s = 10 \<and> s ! 4 = CHR ''-'' \<and> s ! 7 = CHR ''-''
     \<and> list_all is_digit (take 4 s) \<and> list_all is_digit (take 2 (drop 5 s)) \<and> list_all is_digit (drop 8 s)"

type_synonym field_error = "jstring \<times> jstring"

definition check :: "jstring \<Rightarrow> jstring \<Rightarrow> bool \<Rightarrow> field_error list" where
  "check name message good = (if good then [] else [(name, message)])"

definition check_decimal :: "jstring \<Rightarrow> jstring \<Rightarrow> field_error list" where
  "check_decimal name s = (case decimalField True None s of Inl m \<Rightarrow> [(name, m)] | Inr _ \<Rightarrow> [])"

definition decimal_value :: "jstring \<Rightarrow> jstring" where
  "decimal_value s = (case decimalField True None s of Inl _ \<Rightarrow> s | Inr t \<Rightarrow> t)"

lemma check_Nil [simp]: "check n m b = [] \<longleftrightarrow> b"
  by (simp add: check_def)

lemma check_decimal_Nil [simp]: "check_decimal n s = [] \<longleftrightarrow> decimalField True None s = Inr (decimal_value s)"
  by (auto simp: check_decimal_def decimal_value_def split: sum.splits)

section \<open>Fields\<close>

text \<open>Leaving the quantity field: the trimmed text is formatted, an empty one stays.\<close>

definition quantity_blur :: "jstring \<Rightarrow> jstring" where
  "quantity_blur typed = (let raw = js_trim typed in if raw \<noteq> [] then formatQuantity (SStr raw) 8 else typed)"

text \<open>The quantity an edit starts with.\<close>

definition quantity_default :: "jstring option \<Rightarrow> jstring" where
  "quantity_default q = (case Option.bind q or_null of Some s \<Rightarrow> formatQuantity (SStr s) 8 | None \<Rightarrow> [])"

definition CREATE_NEW_INSTRUMENT :: jstring where
  "CREATE_NEW_INSTRUMENT = ''__create_new_instrument__''"

record Account =
  acc_id :: jstring
  acc_name :: jstring

record Instrument =
  ins_id :: jstring
  ins_symbol :: jstring
  ins_name :: jstring

definition symbol_or :: "jstring \<Rightarrow> Instrument list \<Rightarrow> jstring \<Rightarrow> jstring" where
  "symbol_or word instruments i =
     (case find (\<lambda>x. ins_id x = i) instruments of Some x \<Rightarrow> ins_symbol x | None \<Rightarrow> word)"

text \<open>A field as it is rendered: its label, its lock, the options of a select.\<close>

record field_view =
  fv_name :: jstring
  fv_label :: jstring
  fv_hint :: "jstring option"
  fv_disabled :: bool
  fv_options :: "(jstring \<times> jstring) list option"

definition plain_field :: "jstring \<Rightarrow> jstring \<Rightarrow> field_view" where
  "plain_field name l = \<lparr>fv_name = name, fv_label = l, fv_hint = None, fv_disabled = False, fv_options = None\<rparr>"

definition locked_select :: "jstring \<Rightarrow> jstring \<Rightarrow> bool \<Rightarrow> (jstring \<times> jstring) list \<Rightarrow> field_view" where
  "locked_select name l locked opts =
     \<lparr>fv_name = name, fv_label = l,
      fv_hint = (if locked
                 then Some (l @ '' can'' @ [apostrophe] @ ''t be changed '' @ em_dash @ '' delete and re-create to switch.'')
                 else None),
      fv_disabled = locked, fv_options = Some opts\<rparr>"

definition select_field :: "jstring \<Rightarrow> jstring \<Rightarrow> (jstring \<times> jstring) list \<Rightarrow> field_view" where
  "select_field name l opts = (plain_field name l)\<lparr>fv_options := Some opts\<rparr>"

definition account_options :: "Account list \<Rightarrow> (jstring \<times> jstring) list" where
  "account_options accounts = map (\<lambda>a. (acc_id a, acc_name a)) accounts"

definition instrument_options :: "Instrument list \<Rightarrow> (jstring \<times> jstring) list" where
  "instrument_options instruments =
     map (\<lambda>i. (ins_id i, ins_symbol i @ '' '' @ em_dash @ '' '' @ ins_name i)) instruments
     @ [(CREATE_NEW_INSTRUMENT, ''New instrument'' @ ellipsis)]"

definition currency_options :: "(jstring \<times> jstring) list" where
  "currency_options = [(''EUR'', ''EUR''), (''USD'', ''USD'')]"

section \<open>Effects\<close>

datatype success_payload =
    QtyPayload jstring jstring
  | SpendPayload jstring jstring "jstring option"
  | TradePayload jstring jstring jstring jstring

datatype form_effect =
    ToastSuccess jstring | ToastError jstring | Invalidate jstring | ResetForm
  | CallOnSuccess success_payload | CallOnClose

definition invalidatePortfolioCache :: "form_effect list" where
  "invalidatePortfolioCache = map Invalidate PORTFOLIO_CACHE_KEYS"

text \<open>An object literal: members that are \<open>undefined\<close> are not written.\<close>

definition json_obj :: "(jstring \<times> json option) list \<Rightarrow> json" where
  "json_obj ms = JObj (List.map_filter (\<lambda>(k, v). map_option (\<lambda>x. (k, x)) v) ms)"

definition str_or_null :: "jstring \<Rightarrow> json" where
  "str_or_null s = (if s = [] then JNull else JStr s)"

record api_call =
  call_method :: jstring
  call_path :: jstring
  call_body :: json

definition txn_call :: "jstring option \<Rightarrow> json \<Rightarrow> api_call" where
  "txn_call txnId body =
     (case Option.bind txnId or_null of
        Some i \<Rightarrow> \<lparr>call_method = ''PUT'', call_path = ''/api/transactions/'' @ i, call_body = body\<rparr>
      | None \<Rightarrow> \<lparr>call_method = ''POST'', call_path = ''/api/transactions'', call_body = body\<rparr>)"

definition is_edit :: "jstring option \<Rightarrow> bool" where
  "is_edit txnId \<longleftrightarrow> Option.bind txnId or_null \<noteq> None"

definition submit_label :: "bool \<Rightarrow> bool \<Rightarrow> jstring \<Rightarrow> jstring" where
  "submit_label is_pending edit create_label =
     (if is_pending then ''Saving...'' else if edit then ''Save changes'' else create_label)"

section \<open>The rate field\<close>

text \<open>
  \<open>fx_data\<close> is what the rate query has for the date on screen: the rate, once it has arrived.
  Effects run after a render: re-arming on a new date first, then the prefill.
\<close>

record FxRateResponse =
  rate_date :: jstring
  rate :: jstring

record fx_state =
  fx_date :: jstring
  fx_value :: jstring
  userTouched :: bool
  fx_data :: "FxRateResponse option"
  lastPrefill :: jstring

definition fx_prefill :: "fx_state \<Rightarrow> fx_state" where
  "fx_prefill st =
     (case fx_data st of
        Some r \<Rightarrow> if userTouched st then st else st\<lparr>fx_value := rate r, lastPrefill := rate r\<rparr>
      | None \<Rightarrow> st)"

definition fx_mount :: "jstring \<Rightarrow> jstring \<Rightarrow> FxRateResponse option \<Rightarrow> fx_state" where
  "fx_mount date stored cached =
     fx_prefill \<lparr>fx_date = date, fx_value = stored, userTouched = False, fx_data = cached, lastPrefill = []\<rparr>"

definition fx_arrives :: "FxRateResponse \<Rightarrow> fx_state \<Rightarrow> fx_state" where
  "fx_arrives res st = fx_prefill (st\<lparr>fx_data := Some res\<rparr>)"

definition handleInputChange :: "jstring \<Rightarrow> fx_state \<Rightarrow> fx_state" where
  "handleInputChange s st = st\<lparr>userTouched := True, fx_value := s\<rparr>"

definition handleReset :: "fx_state \<Rightarrow> fx_state" where
  "handleReset st =
     (case fx_data st of
        Some r \<Rightarrow> fx_prefill (st\<lparr>userTouched := False, fx_value := rate r, lastPrefill := rate r\<rparr>)
      | None \<Rightarrow> st)"

text \<open>A new date: the query of that date may have its rate already.\<close>

definition fx_date_change :: "jstring \<Rightarrow> FxRateResponse option \<Rightarrow> fx_state \<Rightarrow> fx_state" where
  "fx_date_change date cached st =
     (if date = fx_date st then st
      else fx_prefill (st\<lparr>fx_date := date, userTouched := False, fx_data := cached\<rparr>))"

datatype fx_event = FxArrives FxRateResponse | FxTypes jstring | FxReset | FxDate jstring "FxRateResponse option"

fun fx_step :: "fx_event \<Rightarrow> fx_state \<Rightarrow> fx_state" where
  "fx_step (FxArrives r) st = fx_arrives r st"
| "fx_step (FxTypes s) st = handleInputChange s st"
| "fx_step FxReset st = handleReset st"
| "fx_step (FxDate d c) st = fx_date_change d c st"

definition fx_run :: "fx_event list \<Rightarrow> fx_state \<Rightarrow> fx_state" where
  "fx_run es st = foldl (\<lambda>s e. fx_step e s) st es"

text \<open>The note under the field, and whether it offers the published rate again.\<close>

definition fx_note :: "bool \<Rightarrow> fx_state \<Rightarrow> jstring \<times> bool" where
  "fx_note isError st =
     (if isError then (''Could not fetch ECB rate for '' @ fx_date st @ ''. Enter the rate manually below.'', False)
      else case fx_data st of
             Some r \<Rightarrow> (''ECB published rate for '' @ rate_date r @ ''. Override if your broker applied a different rate.'',
                       userTouched st)
           | None \<Rightarrow> (''Fetching ECB rate'' @ ellipsis, False))"

lemmas fx_defs = fx_prefill_def fx_mount_def fx_arrives_def handleInputChange_def handleReset_def fx_date_change_def

text \<open>The untouched field shows the published rate, as soon as there is one.\<close>

definition fx_inv :: "fx_state \<Rightarrow> bool" where
  "fx_inv st \<longleftrightarrow> (\<forall>r. fx_data st = Some r \<longrightarrow> \<not> userTouched st \<longrightarrow> fx_value st = rate r)"

lemma fx_inv_mount: "fx_inv (fx_mount date stored cached)"
  by (cases cached) (simp_all add: fx_inv_def fx_defs)

lemma fx_inv_step: "fx_inv st \<Longrightarrow> fx_inv (fx_step e st)"
  by (cases e) (auto simp: fx_inv_def fx_defs split: option.splits)

lemma fx_inv_run: "fx_inv st \<Longrightarrow> fx_inv (fx_run es st)"
  unfolding fx_run_def by (induction es arbitrary: st) (simp_all add: fx_inv_step)

lemma fx_typed_kept:
  "userTouched st \<Longrightarrow> list_all (\<lambda>e. case e of FxArrives _ \<Rightarrow> True | _ \<Rightarrow> False) es \<Longrightarrow>
    fx_value (fx_run es st) = fx_value st \<and> userTouched (fx_run es st)"
  unfolding fx_run_def
proof (induction es arbitrary: st)
  case (Cons e es)
  then obtain r where e: "e = FxArrives r" by (cases e) auto
  have "userTouched (fx_step e st)" "fx_value (fx_step e st) = fx_value st"
    using Cons.prems(1) by (simp_all add: e fx_defs)
  then show ?case using Cons by simp
qed simp

text \<open>
  The rate field.  While untouched it shows the published rate of the date as soon as that is
  known; a rate the user typed is not overwritten by one that arrives; a new date or a reset gives
  the published rate back.  The rate stored with a transaction that is edited counts as untouched:
  the published one replaces it as soon as it arrives.
\<close>
theorem fx_field_rates:
  "(let st = fx_run es (fx_mount date stored cached) in
      fx_data st = Some r \<and> \<not> userTouched st \<longrightarrow> fx_value st = rate r)
   \<and> (list_all (\<lambda>e. case e of FxArrives _ \<Rightarrow> True | _ \<Rightarrow> False) es' \<longrightarrow>
      fx_value (fx_run (FxTypes s # es') st0) = s)
   \<and> (d \<noteq> fx_date st0 \<longrightarrow> fx_value (fx_run [FxTypes s, FxDate d None, FxArrives r] st0) = rate r)
   \<and> fx_value (fx_run [FxArrives r] (fx_mount date stored None)) = rate r"
proof -
  have "fx_value st = rate r" if "st = fx_run es (fx_mount date stored cached)" "fx_data st = Some r" "\<not> userTouched st" for st
    using fx_inv_run [OF fx_inv_mount, of es date stored cached] that by (simp add: fx_inv_def)
  moreover have "fx_value (fx_run (FxTypes s # es') st0) = s"
    if "list_all (\<lambda>e. case e of FxArrives _ \<Rightarrow> True | _ \<Rightarrow> False) es'"
  proof -
    have "fx_value (fx_run es' (handleInputChange s st0)) = fx_value (handleInputChange s st0)"
      using that by (intro fx_typed_kept [THEN conjunct1]) (simp_all add: handleInputChange_def)
    then show ?thesis by (simp add: fx_run_def handleInputChange_def)
  qed
  ultimately show ?thesis by (simp add: Let_def) (simp add: fx_run_def fx_defs)
qed

definition ecb_rate :: FxRateResponse where
  "ecb_rate = \<lparr>rate_date = ''2024-05-03'', rate = ''1.0512''\<rparr>"

theorem fx_field_rates_witness:
  "fx_value (fx_run [FxArrives ecb_rate] (fx_mount ''2024-05-03'' ''1.10'' None)) = ''1.0512''
   \<and> fx_value (fx_run [FxTypes ''1.08'', FxArrives ecb_rate] (fx_mount ''2024-05-03'' ''1.10'' None)) = ''1.08''"
  using fx_field_rates [of "[]" "''2024-05-03''" "''1.10''" None ecb_rate "[FxArrives ecb_rate]" "''1.08''"
      "fx_mount ''2024-05-03'' ''1.10'' None"]
  by (simp add: ecb_rate_def)

end
