(* ===== verification/TxnForms.thy ===== *)
theory TxnForms
  imports FormKit
begin

text \<open>
  The forms for a buy or a sell (\<open>TxnForm.tsx\<close>), a spend (\<open>SpendForm.tsx\<close>) and a yield
  (\<open>YieldForm.tsx\<close>): defaults, schema, handlers, the call they make and the effects of its
  outcome, and the fields they render.
\<close>

section \<open>Buy and sell\<close>

datatype txn_type = Buy | Sell

definition txn_type_text :: "txn_type \<Rightarrow> jstring" where
  "txn_type_text t = (case t of Buy \<Rightarrow> ''buy'' | Sell \<Rightarrow> ''sell'')"

record TxnValues =
  tv_account_id :: jstring
  tv_instrument_id :: jstring
  tv_txn_type :: txn_type
  tv_date :: jstring
  tv_quantity :: jstring
  tv_unit_price :: jstring
  tv_price_currency :: currency
  tv_fx_rate_to_eur :: jstring
  tv_fee_eur :: jstring
  tv_notes :: jstring

text \<open>What the opener hands over: each value may be missing.\<close>

record TxnInitial =
  ti_account_id :: "jstring option"
  ti_instrument_id :: "jstring option"
  ti_txn_type :: "txn_type option"
  ti_date :: "jstring option"
  ti_quantity :: "jstring option"
  ti_unit_price :: "jstring option"
  ti_price_currency :: "currency option"
  ti_fx_rate_to_eur :: "jstring option"
  ti_fee_eur :: "jstring option"
  ti_notes :: "jstring option"

definition txn_defaults :: "jstring \<Rightarrow> TxnInitial \<Rightarrow> TxnValues" where
  "txn_defaults today i =
     \<lparr>tv_account_id = nullish (ti_account_id i) [], tv_instrument_id = nullish (ti_instrument_id i) [],
      tv_txn_type = nullish (ti_txn_type i) Buy, tv_date = nullish (ti_date i) today,
      tv_quantity = quantity_default (ti_quantity i), tv_unit_price = nullish (ti_unit_price i) [],
      tv_price_currency = nullish (ti_price_currency i) EUR, tv_fx_rate_to_eur = nullish (ti_fx_rate_to_eur i) [],
      tv_fee_eur = nullish (ti_fee_eur i) ''0'', tv_notes = nullish (ti_notes i) []\<rparr>"

definition txn_schema :: "TxnValues \<Rightarrow> field_error list + TxnValues" where
  "txn_schema v =
     (let errs = check ''account_id'' ''Pick an account'' (tv_account_id v \<noteq> [])
           @ check ''instrument_id'' ''Pick an instrument'' (tv_instrument_id v \<noteq> [])
           @ check ''date'' ''Invalid date'' (date_shape (tv_date v))
           @ check_decimal ''quantity'' (tv_quantity v)
           @ check_decimal ''unit_price'' (tv_unit_price v)
           @ check ''notes'' ''Max 500 characters'' (js_length (tv_notes v) \<le> 500)
      in if errs \<noteq> [] then Inl errs
         else Inr (v\<lparr>tv_quantity := decimal_value (tv_quantity v), tv_unit_price := decimal_value (tv_unit_price v)\<rparr>))"

definition txn_body :: "TxnValues \<Rightarrow> json" where
  "txn_body v =
     json_obj
       [(''account_id'', Some (JStr (tv_account_id v))), (''instrument_id'', Some (JStr (tv_instrument_id v))),
        (''txn_type'', Some (JStr (txn_type_text (tv_txn_type v)))), (''date'', Some (JStr (tv_date v))),
        (''quantity'', Some (JStr (tv_quantity v))), (''unit_price'', Some (JStr (tv_unit_price v))),
        (''price_currency'', Some (JStr (currency_text (tv_price_currency v)))),
        (''fee_eur'', Some (JStr (nullish (or_null (tv_fee_eur v)) ''0''))),
        (''notes'', Some (str_or_null (tv_notes v))),
        (''fx_rate_to_eur'',
          if tv_price_currency v = USD \<and> tv_fx_rate_to_eur v \<noteq> [] then Some (JStr (tv_fx_rate_to_eur v)) else None)]"

definition txn_success :: "jstring option \<Rightarrow> Instrument list \<Rightarrow> bool \<Rightarrow> TxnValues \<Rightarrow> form_effect list" where
  "txn_success txnId instruments suppressInnerToast v =
     (if suppressInnerToast then []
      else [ToastSuccess (if is_edit txnId then ''Changes saved.'' else ''Transaction added.'')])
     @ invalidatePortfolioCache
     @ (if is_edit txnId then [] else [ResetForm])
     @ [CallOnSuccess (QtyPayload (tv_quantity v) (symbol_or ''transaction'' instruments (tv_instrument_id v)))]"

definition could_not_save :: "thrown \<Rightarrow> form_effect list" where
  "could_not_save err = [ToastError (''Could not save. '' @ nullish (error_message err) ''undefined'')]"

record TxnState =
  tx_values :: TxnValues
  createOpen :: bool
  isPending :: bool
  tx_errors :: "field_error list"
  tx_calls :: "api_call list"
  tx_effects :: "form_effect list"

definition txn_open :: "jstring \<Rightarrow> TxnInitial \<Rightarrow> TxnState" where
  "txn_open today i =
     \<lparr>tx_values = txn_defaults today i, createOpen = False, isPending = False, tx_errors = [], tx_calls = [], tx_effects = []\<rparr>"

text \<open>The handlers: picking an instrument or the entry for a new one, the currency, the quantity.\<close>

definition pick_instrument :: "jstring \<Rightarrow> TxnState \<Rightarrow> TxnState" where
  "pick_instrument i st =
     (if i = CREATE_NEW_INSTRUMENT then st\<lparr>createOpen := True\<rparr>
      else st\<lparr>tx_values := (tx_values st)\<lparr>tv_instrument_id := i\<rparr>\<rparr>)"

definition instrument_created :: "Instrument \<Rightarrow> TxnState \<Rightarrow> TxnState" where
  "instrument_created i st = st\<lparr>tx_values := (tx_values st)\<lparr>tv_instrument_id := ins_id i\<rparr>\<rparr>"

definition pick_currency :: "currency \<Rightarrow> TxnState \<Rightarrow> TxnState" where
  "pick_currency c st =
     (let v = tx_values st;
          v' = (if c \<noteq> tv_price_currency v then v\<lparr>tv_fx_rate_to_eur := []\<rparr> else v)
      in st\<lparr>tx_values := v'\<lparr>tv_price_currency := c\<rparr>\<rparr>)"

definition blur_quantity :: "TxnState \<Rightarrow> TxnState" where
  "blur_quantity st = st\<lparr>tx_values := (tx_values st)\<lparr>tv_quantity := quantity_blur (tv_quantity (tx_values st))\<rparr>\<rparr>"

definition rate_changed :: "jstring \<Rightarrow> TxnState \<Rightarrow> TxnState" where
  "rate_changed r st = st\<lparr>tx_values := (tx_values st)\<lparr>tv_fx_rate_to_eur := r\<rparr>\<rparr>"

definition txn_submit :: "jstring option \<Rightarrow> TxnState \<Rightarrow> TxnState" where
  "txn_submit txnId st =
     (case txn_schema (tx_values st) of
        Inl errs \<Rightarrow> st\<lparr>tx_errors := errs\<rparr>
      | Inr v \<Rightarrow> st\<lparr>tx_errors := [], isPending := True, tx_calls := tx_calls st @ [txn_call txnId (txn_body v)]\<rparr>)"

definition txn_settle ::
  "jstring option \<Rightarrow> Instrument list \<Rightarrow> bool \<Rightarrow> TxnValues \<Rightarrow> TxnValues \<Rightarrow> thrown + json option \<Rightarrow> TxnState \<Rightarrow> TxnState" where
  "txn_settle txnId instruments suppress defaults submitted res st =
     (case res of
        Inl err \<Rightarrow> st\<lparr>isPending := False, tx_effects := tx_effects st @ could_not_save err\<rparr>
      | Inr _ \<Rightarrow>
          st\<lparr>isPending := False,
             tx_values := (if is_edit txnId then tx_values st else defaults),
             tx_effects := tx_effects st @ txn_success txnId instruments suppress submitted\<rparr>)"

definition txn_fields :: "jstring option \<Rightarrow> bool \<Rightarrow> Account list \<Rightarrow> Instrument list \<Rightarrow> TxnState \<Rightarrow> field_view list" where
  "txn_fields txnId hideTypeSelect accounts instruments st =
     (if hideTypeSelect then []
      else [locked_select ''txn_type'' ''Type'' (is_edit txnId) [(''buy'', ''Buy''), (''sell'', ''Sell'')]])
     @ [plain_field ''date'' ''Date'',
        locked_select ''account_id'' ''Account'' (is_edit txnId) (account_options accounts),
        locked_select ''instrument_id'' ''Instrument'' (is_edit txnId) (instrument_options instruments),
        plain_field ''quantity'' ''Quantity'', plain_field ''unit_price'' ''Unit price'',
        select_field ''price_currency'' ''Currency'' currency_options]
     @ (if tv_price_currency (tx_values st) = USD
        then [plain_field ''fx_rate_to_eur'' ''FX rate (EUR base, USD per 1 EUR)''] else [])
     @ [plain_field ''fee_eur'' ''Fee (EUR)'', plain_field ''notes'' ''Notes'']"

text \<open>The buttons: a way out where the opener gives one, and the submit button with its lock.\<close>

definition txn_buttons :: "jstring option \<Rightarrow> bool \<Rightarrow> bool \<Rightarrow> (jstring \<times> bool) list" where
  "txn_buttons txnId has_cancel is_pending =
     (if has_cancel then [(''Cancel'', False)] else [])
     @ [(submit_label is_pending (is_edit txnId) ''Save transaction'', is_pending)]"

section \<open>Spend\<close>

record SpendValues =
  sv_account_id :: jstring
  sv_instrument_id :: jstring
  sv_date :: jstring
  sv_quantity :: jstring
  sv_unit_price :: jstring
  sv_price_currency :: currency
  sv_fx_rate_to_eur :: jstring
  sv_notes :: jstring

record SpendInitial =
  si_account_id :: "jstring option"
  si_instrument_id :: "jstring option"
  si_date :: "jstring option"
  si_quantity :: "jstring option"
  si_unit_price :: "jstring option"
  si_price_currency :: "currency option"
  si_fx_rate_to_eur :: "jstring option"
  si_notes :: "jstring option"

definition spend_defaults :: "jstring \<Rightarrow> SpendInitial \<Rightarrow> SpendValues" where
  "spend_defaults today i =
     \<lparr>sv_account_id = nullish (si_account_id i) [], sv_instrument_id = nullish (si_instrument_id i) [],
      sv_date = nullish (si_date i) today, sv_quantity = quantity_default (si_quantity i),
      sv_unit_price = nullish (si_unit_price i) [], sv_price_currency = nullish (si_price_currency i) EUR,
      sv_fx_rate_to_eur = nullish (si_fx_rate_to_eur i) [], sv_notes = nullish (si_notes i) []\<rparr>"

text \<open>The length of the notes has no message of its own: \<open>default_too_big\<close> is the library's.\<close>

definition spend_schema :: "jstring \<Rightarrow> SpendValues \<Rightarrow> field_error list + SpendValues" where
  "spend_schema default_too_big v =
     (let errs = check ''account_id'' ''Required'' (sv_account_id v \<noteq> [])
           @ check ''instrument_id'' ''Required'' (sv_instrument_id v \<noteq> [])
           @ check ''date'' ''Invalid date'' (date_shape (sv_date v))
           @ check_decimal ''quantity'' (sv_quantity v)
           @ check_decimal ''unit_price'' (sv_unit_price v)
           @ check ''notes'' default_too_big (js_length (sv_notes v) \<le> 500)
      in if errs \<noteq> [] then Inl errs
         else Inr (v\<lparr>sv_quantity := decimal_value (sv_quantity v), sv_unit_price := decimal_value (sv_unit_price v)\<rparr>))"

definition spend_body :: "SpendValues \<Rightarrow> json" where
  "spend_body v =
     json_obj
       [(''account_id'', Some (JStr (sv_account_id v))), (''instrument_id'', Some (JStr (sv_instrument_id v))),
        (''date'', Some (JStr (sv_date v))), (''quantity'', Some (JStr (sv_quantity v))),
        (''unit_price'', Some (JStr (sv_unit_price v))),
        (''price_currency'', Some (JStr (currency_text (sv_price_currency v)))),
        (''fx_rate_to_eur'', if sv_fx_rate_to_eur v = [] then None else Some (JStr (sv_fx_rate_to_eur v))),
        (''notes'', Some (JStr (sv_notes v))), (''txn_type'', Some (JStr ''spend''))]"

definition spend_success :: "jstring option \<Rightarrow> Instrument list \<Rightarrow> bool \<Rightarrow> SpendValues \<Rightarrow> form_effect list" where
  "spend_success txnId instruments suppressInnerToast v =
     (if suppressInnerToast then []
      else [ToastSuccess ((if is_edit txnId then ''Spend updated '' else ''Spend recorded '') @ em_dash @ '' ''
              @ sv_quantity v @ '' '' @ symbol_or ''spend'' instruments (sv_instrument_id v) @ ''.'')])
     @ invalidatePortfolioCache
     @ [ResetForm,
        CallOnSuccess (SpendPayload (sv_quantity v) (currency_text (sv_price_currency v)) (or_null (sv_notes v))),
        CallOnClose]"

definition spend_failure :: "jstring option \<Rightarrow> thrown \<Rightarrow> form_effect list" where
  "spend_failure txnId err =
     [ToastError ((if is_edit txnId then ''Could not update spend. '' else ''Could not record spend. '')
        @ nullish (error_message err) ''undefined'' @ ''.'')]"

text \<open>The currency select of this form changes the currency and nothing else.\<close>

definition spend_pick_currency :: "currency \<Rightarrow> SpendValues \<Rightarrow> SpendValues" where
  "spend_pick_currency c v = v\<lparr>sv_price_currency := c\<rparr>"

definition spend_blur_quantity :: "SpendValues \<Rightarrow> SpendValues" where
  "spend_blur_quantity v = v\<lparr>sv_quantity := quantity_blur (sv_quantity v)\<rparr>"

definition spend_fields :: "jstring option \<Rightarrow> Account list \<Rightarrow> Instrument list \<Rightarrow> SpendValues \<Rightarrow> field_view list" where
  "spend_fields txnId accounts instruments v =
     [locked_select ''account_id'' ''Account'' (is_edit txnId) (account_options accounts),
      locked_select ''instrument_id'' ''Instrument'' (is_edit txnId) (instrument_options instruments),
      plain_field ''date'' ''Date'', plain_field ''quantity'' ''Quantity spent'',
      plain_field ''unit_price'' ''Market price at spend'',
      select_field ''price_currency'' ''Currency'' currency_options]
     @ (if sv_price_currency v = USD then [plain_field ''fx_rate_to_eur'' ''FX rate (USD per 1 EUR)''] else [])
     @ [plain_field ''notes'' ''Notes'']"

definition spend_buttons :: "jstring option \<Rightarrow> bool \<Rightarrow> (jstring \<times> bool) list" where
  "spend_buttons txnId is_pending =
     [(''Cancel'', False), (submit_label is_pending (is_edit txnId) ''Save spend'', is_pending)]"

datatype chrome = SheetChrome | InlineChrome

text \<open>What surrounds the form: nothing inline, a sheet with a title otherwise.\<close>

definition spend_frame :: "chrome \<Rightarrow> bool \<Rightarrow> jstring option \<Rightarrow> (bool \<times> jstring option)" where
  "spend_frame chrome open_flag txnId =
     (case chrome of
        InlineChrome \<Rightarrow> (open_flag, None)
      | SheetChrome \<Rightarrow> (open_flag, Some (if is_edit txnId then ''Edit spend'' else ''Add spend'')))"

section \<open>Yield\<close>

record YieldValues =
  yv_account_id :: jstring
  yv_instrument_id :: jstring
  yv_date :: jstring
  yv_quantity :: jstring
  yv_notes :: jstring

record YieldInitial =
  yi_account_id :: "jstring option"
  yi_instrument_id :: "jstring option"
  yi_date :: "jstring option"
  yi_quantity :: "jstring option"
  yi_notes :: "jstring option"

definition yield_defaults :: "jstring \<Rightarrow> YieldInitial \<Rightarrow> YieldValues" where
  "yield_defaults today i =
     \<lparr>yv_account_id = nullish (yi_account_id i) [], yv_instrument_id = nullish (yi_instrument_id i) [],
      yv_date = nullish (yi_date i) today, yv_quantity = quantity_default (yi_quantity i),
      yv_notes = nullish (yi_notes i) []\<rparr>"

definition yield_schema :: "YieldValues \<Rightarrow> field_error list + YieldValues" where
  "yield_schema v =
     (let errs = check ''account_id'' ''Pick an account'' (yv_account_id v \<noteq> [])
           @ check ''instrument_id'' ''Pick an instrument'' (yv_instrument_id v \<noteq> [])
           @ check ''date'' ''Invalid date'' (date_shape (yv_date v))
           @ check_decimal ''quantity'' (yv_quantity v)
           @ check ''notes'' ''Max 500 characters'' (js_length (yv_notes v) \<le> 500)
      in if errs \<noteq> [] then Inl errs else Inr (v\<lparr>yv_quantity := decimal_value (yv_quantity v)\<rparr>))"

definition yield_body :: "YieldValues \<Rightarrow> json" where
  "yield_body v =
     json_obj
       [(''account_id'', Some (JStr (yv_account_id v))), (''instrument_id'', Some (JStr (yv_instrument_id v))),
        (''txn_type'', Some (JStr ''yield'')), (''date'', Some (JStr (yv_date v))),
        (''quantity'', Some (JStr (yv_quantity v))), (''notes'', Some (str_or_null (yv_notes v)))]"

definition yield_success :: "jstring option \<Rightarrow> Instrument list \<Rightarrow> bool \<Rightarrow> YieldValues \<Rightarrow> form_effect list" where
  "yield_success txnId instruments suppressInnerToast v =
     (let symbol = symbol_or ''yield'' instruments (yv_instrument_id v)
      in (if suppressInnerToast then []
          else [ToastSuccess ((if is_edit txnId then ''Yield updated '' else ''Yield added '') @ em_dash @ '' ''
                  @ yv_quantity v @ '' '' @ symbol)])
         @ invalidatePortfolioCache
         @ [CallOnSuccess (QtyPayload (yv_quantity v) symbol)])"

definition yield_blur_quantity :: "YieldValues \<Rightarrow> YieldValues" where
  "yield_blur_quantity v = v\<lparr>yv_quantity := quantity_blur (yv_quantity v)\<rparr>"

definition yield_fields :: "jstring option \<Rightarrow> Account list \<Rightarrow> Instrument list \<Rightarrow> field_view list" where
  "yield_fields txnId accounts instruments =
     [locked_select ''account_id'' ''Account'' (is_edit txnId) (account_options accounts),
      locked_select ''instrument_id'' ''Instrument'' (is_edit txnId) (instrument_options instruments),
      plain_field ''date'' ''Date'', plain_field ''quantity'' ''Quantity'', plain_field ''notes'' ''Notes'']"

section \<open>What a quantity becomes\<close>

lemma trim_digits: "0 \<le> n \<Longrightarrow> js_trim (show_digits n) = show_digits n"
proof (rule js_trim_plain)
  assume "0 \<le> n"
  then show "list_all plain_char (show_digits n)"
    using show_digits_digits [of n] is_digit_plain by (auto simp: list_all_iff)
qed

lemma blur_field: "0 \<le> n \<Longrightarrow> decimalField True None (quantity_blur (show_digits n)) = quantity_field (show_digits n)"
  by (simp add: quantity_blur_def trim_digits quantity_field_def Let_def)

lemma decimal_value_Inr: "decimalField True None s = Inr t \<Longrightarrow> decimal_value s = t"
  by (simp add: decimal_value_def)

lemma schema_quantity:
  assumes "txn_schema (v\<lparr>tv_quantity := ''1''\<rparr>) = Inr w"
  shows "decimalField True None q = Inr t \<Longrightarrow> txn_schema (v\<lparr>tv_quantity := q\<rparr>) = Inr (w\<lparr>tv_quantity := t\<rparr>)"
    and "decimalField True None q = Inl m \<Longrightarrow> txn_schema (v\<lparr>tv_quantity := q\<rparr>) = Inl [(''quantity'', m)]"
proof -
  have ok: "check ''account_id'' ''Pick an account'' (tv_account_id v \<noteq> []) = []"
      "check ''instrument_id'' ''Pick an instrument'' (tv_instrument_id v \<noteq> []) = []"
      "check ''date'' ''Invalid date'' (date_shape (tv_date v)) = []"
      "check_decimal ''unit_price'' (tv_unit_price v) = []"
      "check ''notes'' ''Max 500 characters'' (js_length (tv_notes v) \<le> 500) = []"
      and w: "w = v\<lparr>tv_quantity := decimal_value ''1'', tv_unit_price := decimal_value (tv_unit_price v)\<rparr>"
    using assms unfolding txn_schema_def Let_def by (auto split: if_splits simp del: check_Nil check_decimal_Nil)
  show "txn_schema (v\<lparr>tv_quantity := q\<rparr>) = Inr (w\<lparr>tv_quantity := t\<rparr>)" if "decimalField True None q = Inr t"
  proof -
    have "check_decimal ''quantity'' q = []" using that by (simp add: decimal_value_Inr)
    then show ?thesis using ok that
      by (simp add: txn_schema_def w decimal_value_Inr del: check_Nil check_decimal_Nil)
  qed
  show "txn_schema (v\<lparr>tv_quantity := q\<rparr>) = Inl [(''quantity'', m)]" if "decimalField True None q = Inl m"
  proof -
    have "check_decimal ''quantity'' q = [(''quantity'', m)]" using that by (simp add: check_decimal_def)
    then show ?thesis using ok by (simp add: txn_schema_def del: check_Nil check_decimal_Nil)
  qed
qed

lemma digits_field:
  assumes "0 < n"
  shows "decimalField True None (show_digits n) = Inr (show_digits n)"
proof -
  have d: "list_all is_digit (show_digits n)" using assms by (simp add: show_digits_digits)
  have "decimalField True None (dec_text (show_digits n) CHR ''.'' []) =
    Inr (normalizeDecimalInput (dec_text (show_digits n) CHR ''.'' []))"
    using d assms by (intro decimal_field_of_text) (auto simp: digits_val_show)
  moreover have "normalizeDecimalInput ('''' @ dec_text (show_digits n) CHR ''.'' []) = canon False (show_digits n) []"
    using normalize_text [of "''''" "show_digits n" "[]" "CHR ''.''"] d by simp
  moreover have "strip_leading_zeros (show_digits n) = show_digits n"
    using show_digits_hd [OF assms] by (cases "show_digits n") (auto simp: strip_leading_zeros_def)
  ultimately show ?thesis
    using show_digits_hd [OF assms]
    by (auto simp: dec_text_def canon_def canon_int_def strip_trailing_zeros_def Let_def)
qed

text \<open>
  A whole quantity, typed and left.  With the other fields valid, a quantity below 1000 is
  submitted as typed, whether or not the field was left.  Once the field was left, a quantity of
  1000 to 999999 is submitted as a thousandth of what was typed, since the grouping comma written by
  the formatter is read back as the decimal separator, and a larger one is rejected; the same holds
  of the stored quantity an edit starts with.  Without leaving the field every quantity is submitted
  as typed.
\<close>
theorem quantity_after_blur:
  assumes "txn_schema (v\<lparr>tv_quantity := ''1''\<rparr>) = Inr w" and "0 < n"
  shows "txn_schema (v\<lparr>tv_quantity := show_digits n\<rparr>) = Inr (w\<lparr>tv_quantity := show_digits n\<rparr>)
    \<and> quantity_default (Some (show_digits n)) = quantity_blur (show_digits n)
    \<and> (n < 1000 \<longrightarrow>
        txn_schema (v\<lparr>tv_quantity := quantity_blur (show_digits n)\<rparr>) = Inr (w\<lparr>tv_quantity := show_digits n\<rparr>))
    \<and> (1000 \<le> n \<and> n < 1000000 \<longrightarrow>
        (\<exists>t. txn_schema (v\<lparr>tv_quantity := quantity_blur (show_digits n)\<rparr>) = Inr (w\<lparr>tv_quantity := t\<rparr>)
          \<and> dec_value t = of_int n / 1000))
    \<and> (1000000 \<le> n \<and> n \<le> 2 ^ 53 \<longrightarrow>
        txn_schema (v\<lparr>tv_quantity := quantity_blur (show_digits n)\<rparr>) = Inl [(''quantity'', ''Enter a valid number'')])"
proof -
  have "0 \<le> n" using assms(2) by simp
  note field = blur_field [OF this]
  have "quantity_default (Some (show_digits n)) = quantity_blur (show_digits n)"
    using assms(2) by (simp add: quantity_default_def quantity_blur_def trim_digits or_null_def Let_def)
  moreover have "txn_schema (v\<lparr>tv_quantity := quantity_blur (show_digits n)\<rparr>) = Inr (w\<lparr>tv_quantity := show_digits n\<rparr>)"
    if "n < 1000"
    using schema_quantity(1) [OF assms(1)] quantity_field_small [OF assms(2) that] field by simp
  moreover have "\<exists>t. txn_schema (v\<lparr>tv_quantity := quantity_blur (show_digits n)\<rparr>) = Inr (w\<lparr>tv_quantity := t\<rparr>)
      \<and> dec_value t = of_int n / 1000" if "1000 \<le> n" "n < 1000000"
    using schema_quantity(1) [OF assms(1)] quantity_field_thousands [OF that] field by auto
  moreover have "txn_schema (v\<lparr>tv_quantity := quantity_blur (show_digits n)\<rparr>)
      = Inl [(''quantity'', ''Enter a valid number'')]" if "1000000 \<le> n" "n \<le> 2 ^ 53"
    using schema_quantity(2) [OF assms(1)] quantity_field_millions [OF that] field by simp
  ultimately show ?thesis
    using schema_quantity(1) [OF assms(1) digits_field [OF assms(2)]] by blast
qed

definition a_buy :: TxnValues where
  "a_buy = \<lparr>tv_account_id = ''a1'', tv_instrument_id = ''i1'', tv_txn_type = Buy, tv_date = ''2024-05-03'',
     tv_quantity = ''1'', tv_unit_price = ''10'', tv_price_currency = EUR, tv_fx_rate_to_eur = [],
     tv_fee_eur = ''0'', tv_notes = []\<rparr>"

lemma a_buy_valid: "txn_schema a_buy = Inr a_buy"
proof -
  have "decimalField True None ''1'' = Inr ''1''" "decimalField True None ''10'' = Inr ''10''"
    using digits_field [of 1] digits_field [of 10] by (simp_all add: show_digits.simps)
  moreover have "date_shape ''2024-05-03''" by code_simp
  ultimately show ?thesis
    by (simp add: a_buy_def txn_schema_def decimal_value_Inr)
qed

theorem quantity_after_blur_witness:
  "\<exists>t. txn_schema (a_buy\<lparr>tv_quantity := quantity_blur ''1500''\<rparr>) = Inr (a_buy\<lparr>tv_quantity := t\<rparr>)
     \<and> dec_value t = 3 / 2"
proof -
  have "a_buy\<lparr>tv_quantity := ''1''\<rparr> = a_buy" by (simp add: a_buy_def)
  then have "txn_schema (a_buy\<lparr>tv_quantity := ''1''\<rparr>) = Inr a_buy" by (simp add: a_buy_valid)
  moreover have "show_digits 1500 = ''1500''" by code_simp
  ultimately show ?thesis using quantity_after_blur [of a_buy a_buy 1500] by simp
qed

section \<open>The rate in the request\<close>

text \<open>
  C19: A change of the currency and the stored rate.  The form for buys and sells drops the rate when
  the currency changes, so its request carries none and the server locks the right one; picking the
  same currency again changes nothing; and no request for an amount in euros carries a rate.  The
  form for spends keeps the rate and sends it whatever the currency is.
\<close>
theorem currency_flip_rate:
  "(c \<noteq> tv_price_currency (tx_values st) \<longrightarrow>
      member ''fx_rate_to_eur'' (txn_body (tx_values (pick_currency c st))) = None)
   \<and> (c = tv_price_currency (tx_values st) \<longrightarrow> pick_currency c st = st)
   \<and> (tv_price_currency v = EUR \<longrightarrow> member ''fx_rate_to_eur'' (txn_body v) = None)
   \<and> (sv_fx_rate_to_eur s \<noteq> [] \<longrightarrow>
      member ''fx_rate_to_eur'' (spend_body (spend_pick_currency c s)) = Some (JStr (sv_fx_rate_to_eur s)))"
  by (simp add: pick_currency_def Let_def txn_body_def spend_body_def spend_pick_currency_def json_obj_def
      List.map_filter_simps member_def)

definition a_spend :: SpendValues where
  "a_spend = \<lparr>sv_account_id = ''a1'', sv_instrument_id = ''i1'', sv_date = ''2024-05-03'', sv_quantity = ''1'',
     sv_unit_price = ''10'', sv_price_currency = USD, sv_fx_rate_to_eur = ''1.08'', sv_notes = []\<rparr>"

theorem currency_flip_rate_witness:
  "member ''fx_rate_to_eur'' (spend_body (spend_pick_currency EUR a_spend)) = Some (JStr ''1.08'')
   \<and> member ''fx_rate_to_eur''
      (txn_body (tx_values (pick_currency EUR
        \<lparr>tx_values = a_buy\<lparr>tv_price_currency := USD, tv_fx_rate_to_eur := ''1.08''\<rparr>, createOpen = False,
         isPending = False, tx_errors = [], tx_calls = [], tx_effects = []\<rparr>))) = None"
  using currency_flip_rate [of EUR "\<lparr>tx_values = a_buy\<lparr>tv_price_currency := USD, tv_fx_rate_to_eur := ''1.08''\<rparr>,
      createOpen = False, isPending = False, tx_errors = [], tx_calls = [], tx_effects = []\<rparr>" a_buy a_spend]
  by (simp add: a_spend_def)

end
