(* ===== verification/TradeForm.thy ===== *)
theory TradeForm
  imports TxnForms
begin

text \<open>
  The form for a trade (\<open>TradeForm.tsx\<close>): two legs, created by one call and edited by two calls
  whose outcomes are reported leg by leg.
\<close>

section \<open>Data\<close>

record LegValues =
  lv_account_id :: jstring
  lv_instrument_id :: jstring
  lv_quantity :: jstring
  lv_unit_price :: jstring
  lv_price_currency :: currency
  lv_fx_rate_to_eur :: jstring

record TradeValues =
  sold :: LegValues
  received :: LegValues
  tr_date :: jstring
  tr_fee_eur :: jstring
  tr_notes :: jstring

record TradeInitial =
  init_values :: TradeValues
  soldLegId :: jstring
  receivedLegId :: jstring

definition blank_leg :: LegValues where
  "blank_leg = \<lparr>lv_account_id = [], lv_instrument_id = [], lv_quantity = [], lv_unit_price = [],
     lv_price_currency = EUR, lv_fx_rate_to_eur = []\<rparr>"

definition hydrate_leg :: "LegValues \<Rightarrow> LegValues" where
  "hydrate_leg l = l\<lparr>lv_quantity := formatQuantity (SStr (lv_quantity l)) 8\<rparr>"

definition trade_defaults :: "jstring \<Rightarrow> TradeInitial option \<Rightarrow> TradeValues" where
  "trade_defaults today i =
     (case i of
        Some x \<Rightarrow> (init_values x)\<lparr>sold := hydrate_leg (sold (init_values x)),
                     received := hydrate_leg (received (init_values x))\<rparr>
      | None \<Rightarrow> \<lparr>sold = blank_leg, received = blank_leg, tr_date = today, tr_fee_eur = [], tr_notes = []\<rparr>)"

definition isEditMode :: "jstring option \<Rightarrow> TradeInitial option \<Rightarrow> bool" where
  "isEditMode txnId i \<longleftrightarrow> is_edit txnId \<and> i \<noteq> None"

section \<open>Schema\<close>

definition leg_errors :: "jstring \<Rightarrow> LegValues \<Rightarrow> field_error list" where
  "leg_errors pre l =
     check (pre @ ''.account_id'') ''Required'' (lv_account_id l \<noteq> [])
     @ check (pre @ ''.instrument_id'') ''Required'' (lv_instrument_id l \<noteq> [])
     @ check_decimal (pre @ ''.quantity'') (lv_quantity l)
     @ check_decimal (pre @ ''.unit_price'') (lv_unit_price l)"

definition leg_parsed :: "LegValues \<Rightarrow> LegValues" where
  "leg_parsed l = l\<lparr>lv_quantity := decimal_value (lv_quantity l), lv_unit_price := decimal_value (lv_unit_price l)\<rparr>"

text \<open>The refinement on the pair runs only when the fields themselves are valid.\<close>

definition trade_schema :: "jstring \<Rightarrow> TradeValues \<Rightarrow> field_error list + TradeValues" where
  "trade_schema default_too_big v =
     (let errs = leg_errors ''sold'' (sold v) @ leg_errors ''received'' (received v)
           @ check ''date'' ''Invalid date'' (date_shape (tr_date v))
           @ check ''notes'' default_too_big (js_length (tr_notes v) \<le> 500)
      in if errs \<noteq> [] then Inl errs
         else if lv_instrument_id (sold v) = lv_instrument_id (received v)
         then Inl [(''received.instrument_id'', ''Sold and received instruments must differ.'')]
         else Inr (v\<lparr>sold := leg_parsed (sold v), received := leg_parsed (received v)\<rparr>))"

section \<open>Requests\<close>

text \<open>The body of one leg of an edit: the fee lands on the sold leg.\<close>

definition leg_payload :: "TradeValues \<Rightarrow> LegValues \<Rightarrow> jstring \<Rightarrow> json" where
  "leg_payload v l fee =
     json_obj
       [(''date'', Some (JStr (tr_date v))), (''quantity'', Some (JStr (lv_quantity l))),
        (''unit_price'', Some (JStr (lv_unit_price l))),
        (''price_currency'', Some (JStr (currency_text (lv_price_currency l)))),
        (''fx_rate_to_eur'', Some (str_or_null (lv_fx_rate_to_eur l))),
        (''fee_eur'', Some (JStr fee)), (''notes'', Some (str_or_null (tr_notes v)))]"

definition edit_calls :: "TradeInitial \<Rightarrow> TradeValues \<Rightarrow> api_call \<times> api_call" where
  "edit_calls i v =
     (\<lparr>call_method = ''PUT'', call_path = ''/api/transactions/'' @ soldLegId i,
       call_body = leg_payload v (sold v) (nullish (or_null (tr_fee_eur v)) ''0'')\<rparr>,
      \<lparr>call_method = ''PUT'', call_path = ''/api/transactions/'' @ receivedLegId i,
       call_body = leg_payload v (received v) ''0''\<rparr>)"

definition leg_create :: "LegValues \<Rightarrow> json \<Rightarrow> json" where
  "leg_create l fee =
     json_obj
       [(''account_id'', Some (JStr (lv_account_id l))), (''instrument_id'', Some (JStr (lv_instrument_id l))),
        (''quantity'', Some (JStr (lv_quantity l))), (''unit_price'', Some (JStr (lv_unit_price l))),
        (''price_currency'', Some (JStr (currency_text (lv_price_currency l)))),
        (''fx_rate_to_eur'', Some (str_or_null (lv_fx_rate_to_eur l))), (''fee_eur'', Some fee)]"

definition create_call :: "TradeValues \<Rightarrow> api_call" where
  "create_call v =
     \<lparr>call_method = ''POST'', call_path = ''/api/trades'',
      call_body = json_obj
        [(''sold'', Some (leg_create (sold v) (str_or_null (tr_fee_eur v)))),
         (''received'', Some (leg_create (received v) JNull)),
         (''date'', Some (JStr (tr_date v))), (''notes'', Some (str_or_null (tr_notes v)))]\<rparr>"

section \<open>Outcomes\<close>

datatype EditMutationResult =
    both_ok "json option" "json option"
  | sold_ok_received_failed "json option" thrown
  | sold_failed_received_ok "json option" thrown
  | both_failed thrown thrown

definition edit_result :: "thrown + json option \<Rightarrow> thrown + json option \<Rightarrow> EditMutationResult" where
  "edit_result soldResult receivedResult =
     (case soldResult of
        Inr s \<Rightarrow> (case receivedResult of Inr r \<Rightarrow> both_ok s r | Inl e \<Rightarrow> sold_ok_received_failed s e)
      | Inl e \<Rightarrow> (case receivedResult of Inr r \<Rightarrow> sold_failed_received_ok r e | Inl e' \<Rightarrow> both_failed e e'))"

text \<open>What the mutation resolves to: the union of an edit, or the raw response of a creation.\<close>

datatype trade_data = EditData EditMutationResult | CreateData "json option"

definition message_text :: "thrown \<Rightarrow> jstring" where
  "message_text e = nullish (error_message e) ''undefined''"

definition trade_payload :: "Instrument list \<Rightarrow> TradeValues \<Rightarrow> success_payload" where
  "trade_payload instruments v =
     TradePayload (lv_quantity (sold v)) (symbol_or ''sold'' instruments (lv_instrument_id (sold v)))
       (lv_quantity (received v)) (symbol_or ''received'' instruments (lv_instrument_id (received v)))"

definition trade_updated_text :: "Instrument list \<Rightarrow> TradeValues \<Rightarrow> jstring" where
  "trade_updated_text instruments v =
     ''Trade updated '' @ em_dash @ '' '' @ lv_quantity (sold v) @ '' ''
     @ symbol_or ''sold'' instruments (lv_instrument_id (sold v)) @ '' '' @ right_arrow @ '' ''
     @ lv_quantity (received v) @ '' '' @ symbol_or ''received'' instruments (lv_instrument_id (received v))"

definition edit_success :: "Instrument list \<Rightarrow> bool \<Rightarrow> TradeValues \<Rightarrow> EditMutationResult \<Rightarrow> form_effect list" where
  "edit_success instruments suppress v result =
     (case result of
        both_failed e e' \<Rightarrow>
          [ToastError (''Could not save trade. Sold: '' @ message_text e @ ''. Received: '' @ message_text e' @ ''.'')]
      | sold_ok_received_failed _ _ \<Rightarrow>
          ToastError (''Sold leg saved; received leg failed '' @ em_dash @ '' retry the received leg.'')
          # invalidatePortfolioCache
      | sold_failed_received_ok _ _ \<Rightarrow>
          ToastError (''Received leg saved; sold leg failed '' @ em_dash @ '' retry the sold leg.'')
          # invalidatePortfolioCache
      | both_ok _ _ \<Rightarrow>
          (if suppress then [] else [ToastSuccess (trade_updated_text instruments v)])
          @ invalidatePortfolioCache
          @ [CallOnSuccess (trade_payload instruments v), CallOnClose])"

text \<open>
  A response of the server that has a member \<open>kind\<close> would be taken for the outcome of an edit; the
  value decides the branch, and \<open>both_failed\<close> then fails on the missing error, which the mutation
  reports with the engine's message.
\<close>

definition foreign_kind :: "Instrument list \<Rightarrow> bool \<Rightarrow> TradeValues \<Rightarrow> jstring \<Rightarrow> json \<Rightarrow> form_effect list" where
  "foreign_kind instruments suppress v type_error k =
     (if k = JStr ''both_failed'' then [ToastError (''Could not save. '' @ type_error)]
      else if k = JStr ''sold_ok_received_failed''
      then ToastError (''Sold leg saved; received leg failed '' @ em_dash @ '' retry the received leg.'')
        # invalidatePortfolioCache
      else if k = JStr ''sold_failed_received_ok''
      then ToastError (''Received leg saved; sold leg failed '' @ em_dash @ '' retry the sold leg.'')
        # invalidatePortfolioCache
      else if k = JStr ''both_ok'' then edit_success instruments suppress v (both_ok None None)
      else invalidatePortfolioCache)"

definition create_success :: "Instrument list \<Rightarrow> bool \<Rightarrow> TradeValues \<Rightarrow> form_effect list" where
  "create_success instruments suppress v =
     (if suppress then []
      else [ToastSuccess (''Trade recorded '' @ em_dash @ '' ''
              @ symbol_or ''sold'' instruments (lv_instrument_id (sold v)) @ '' '' @ right_arrow @ '' ''
              @ symbol_or ''received'' instruments (lv_instrument_id (received v)) @ ''.'')])
     @ [ResetForm] @ invalidatePortfolioCache
     @ [CallOnSuccess (trade_payload instruments v), CallOnClose]"

definition trade_success :: "jstring \<Rightarrow> Instrument list \<Rightarrow> bool \<Rightarrow> TradeValues \<Rightarrow> trade_data \<Rightarrow> form_effect list" where
  "trade_success type_error instruments suppress v data =
     (case data of
        EditData result \<Rightarrow> edit_success instruments suppress v result
      | CreateData response \<Rightarrow>
          (case Option.bind response (member ''kind'') of
             Some k \<Rightarrow> foreign_kind instruments suppress v type_error k
           | None \<Rightarrow> create_success instruments suppress v))"

section \<open>Fields\<close>

datatype leg_side = SoldSide | ReceivedSide

definition side_prefix :: "leg_side \<Rightarrow> jstring" where
  "side_prefix s = (case s of SoldSide \<Rightarrow> ''sold'' | ReceivedSide \<Rightarrow> ''received'')"

definition leg_of :: "leg_side \<Rightarrow> TradeValues \<Rightarrow> LegValues" where
  "leg_of s v = (case s of SoldSide \<Rightarrow> sold v | ReceivedSide \<Rightarrow> received v)"

definition set_leg :: "leg_side \<Rightarrow> LegValues \<Rightarrow> TradeValues \<Rightarrow> TradeValues" where
  "set_leg s l v = (case s of SoldSide \<Rightarrow> v\<lparr>sold := l\<rparr> | ReceivedSide \<Rightarrow> v\<lparr>received := l\<rparr>)"

text \<open>Picking an instrument on a leg; \<open>createOpenFor\<close> says which leg asked for a new one.\<close>

definition leg_pick_instrument ::
  "leg_side \<Rightarrow> bool \<Rightarrow> jstring \<Rightarrow> TradeValues \<times> leg_side option \<Rightarrow> TradeValues \<times> leg_side option" where
  "leg_pick_instrument s locked i st =
     (case st of (v, createOpenFor) \<Rightarrow>
        if locked then st
        else if i = CREATE_NEW_INSTRUMENT then (v, Some s)
        else (set_leg s ((leg_of s v)\<lparr>lv_instrument_id := i\<rparr>) v, createOpenFor))"

definition trade_instrument_created ::
  "Instrument \<Rightarrow> TradeValues \<times> leg_side option \<Rightarrow> TradeValues \<times> leg_side option" where
  "trade_instrument_created i st =
     (case st of (v, createOpenFor) \<Rightarrow>
        case createOpenFor of
          Some s \<Rightarrow> (set_leg s ((leg_of s v)\<lparr>lv_instrument_id := ins_id i\<rparr>) v, createOpenFor)
        | None \<Rightarrow> st)"

definition leg_blur_quantity :: "leg_side \<Rightarrow> TradeValues \<Rightarrow> TradeValues" where
  "leg_blur_quantity s v = set_leg s ((leg_of s v)\<lparr>lv_quantity := quantity_blur (lv_quantity (leg_of s v))\<rparr>) v"

definition LegFields :: "leg_side \<Rightarrow> Account list \<Rightarrow> Instrument list \<Rightarrow> bool \<Rightarrow> TradeValues \<Rightarrow> field_view list" where
  "LegFields s accounts instruments locked v =
     (let p = side_prefix s
      in [(select_field (p @ ''.account_id'') ''Account'' (account_options accounts))\<lparr>fv_disabled := locked\<rparr>,
          (select_field (p @ ''.instrument_id'') ''Instrument''
             (if locked then map (\<lambda>i. (ins_id i, ins_symbol i @ '' '' @ em_dash @ '' '' @ ins_name i)) instruments
              else instrument_options instruments))\<lparr>fv_disabled := locked\<rparr>,
          plain_field (p @ ''.quantity'') ''Quantity'', plain_field (p @ ''.unit_price'') ''Unit price'',
          select_field (p @ ''.price_currency'') ''Currency'' currency_options]
         @ (if lv_price_currency (leg_of s v) = USD
            then [plain_field (p @ ''.fx_rate_to_eur'') ''FX rate (USD per 1 EUR)''] else []))"

definition trade_fields :: "Account list \<Rightarrow> Instrument list \<Rightarrow> bool \<Rightarrow> TradeValues \<Rightarrow> field_view list" where
  "trade_fields accounts instruments locked v =
     [plain_field ''date'' ''Date''] @ LegFields SoldSide accounts instruments locked v
     @ LegFields ReceivedSide accounts instruments locked v
     @ [plain_field ''fee_eur'' ''Fee (EUR)'', plain_field ''notes'' ''Notes'']"

definition trade_buttons :: "bool \<Rightarrow> bool \<Rightarrow> (jstring \<times> bool) list" where
  "trade_buttons edit is_pending = [(''Cancel'', False), (submit_label is_pending edit ''Save trade'', is_pending)]"

section \<open>Editing both legs\<close>

definition closes :: "form_effect list \<Rightarrow> bool" where
  "closes es \<longleftrightarrow> CallOnClose \<in> set es"

definition invalidates :: "form_effect list \<Rightarrow> bool" where
  "invalidates es \<longleftrightarrow> set invalidatePortfolioCache \<subseteq> set es"

definition notifies :: "form_effect list \<Rightarrow> bool" where
  "notifies es \<longleftrightarrow> (\<exists>p. CallOnSuccess p \<in> set es)"

definition error_toasts :: "form_effect list \<Rightarrow> nat" where
  "error_toasts es = length (filter (\<lambda>e. case e of ToastError _ \<Rightarrow> True | _ \<Rightarrow> False) es)"

lemma cache_effects [simp]:
  "CallOnClose \<notin> set invalidatePortfolioCache" "CallOnSuccess p \<notin> set invalidatePortfolioCache"
  "Invalidate ''perf'' \<in> set invalidatePortfolioCache"
  "filter (\<lambda>e. case e of ToastError _ \<Rightarrow> True | _ \<Rightarrow> False) invalidatePortfolioCache = []"
  by (simp_all add: invalidatePortfolioCache_def PORTFOLIO_CACHE_KEYS_def)

definition both_saved :: "thrown + json option \<Rightarrow> thrown + json option \<Rightarrow> bool" where
  "both_saved s r \<longleftrightarrow> \<not> isl s \<and> \<not> isl r"

definition saved :: "thrown + json option \<Rightarrow> thrown + json option \<Rightarrow> bool" where
  "saved s r \<longleftrightarrow> \<not> (isl s \<and> isl r)"

definition shown_toasts :: "form_effect list \<Rightarrow> form_effect list" where
  "shown_toasts es = filter (\<lambda>e. case e of ToastError _ \<Rightarrow> True | ToastSuccess _ \<Rightarrow> True | _ \<Rightarrow> False) es"

definition known_symbol :: "Instrument list \<Rightarrow> jstring \<Rightarrow> jstring \<Rightarrow> jstring" where
  "known_symbol instruments i word = (case map_of (map (\<lambda>x. (ins_id x, ins_symbol x)) instruments) i of Some s \<Rightarrow> s | None \<Rightarrow> word)"

lemma symbol_known: "symbol_or word instruments i = known_symbol instruments i word"
  by (induction instruments) (auto simp: symbol_or_def known_symbol_def)

lemma no_cache_shown_toast [simp]: "shown_toasts invalidatePortfolioCache = []"
  by (simp add: shown_toasts_def invalidatePortfolioCache_def PORTFOLIO_CACHE_KEYS_def)

lemma shown_toasts_simps [simp]:
  "shown_toasts [] = []" "shown_toasts (es @ es') = shown_toasts es @ shown_toasts es'" "shown_toasts (ToastError m # es) = ToastError m # shown_toasts es"
  "shown_toasts (ToastSuccess m # es) = ToastSuccess m # shown_toasts es" "shown_toasts (CallOnSuccess p # es) = shown_toasts es"
  "shown_toasts (CallOnClose # es) = shown_toasts es"
  by (simp_all add: shown_toasts_def)

text \<open>
  C20: The edit of a trade reports what happened to each leg.  The two calls go to the two legs, each
  with the numbers of its leg, the fee on the sold one.  Exactly one message is shown: when one leg was
  saved, the one that names the leg that failed as the one to retry; when neither was, the errors of
  both; when both were, the new trade, unless the opener shows it.  The caches are refreshed exactly
  when a leg was saved; the drawer closes and the opener is told of the trade exactly when both were.
\<close>

theorem edit_outcomes:
  "(let es = edit_success instruments suppress v (edit_result s r);
        sold_symbol = known_symbol instruments (lv_instrument_id (sold v)) ''sold'';
        received_symbol = known_symbol instruments (lv_instrument_id (received v)) ''received''
    in invalidates es = saved s r \<and> closes es = both_saved s r \<and> notifies es = both_saved s r
       \<and> (both_saved s r \<longrightarrow>
           CallOnSuccess (TradePayload (lv_quantity (sold v)) sold_symbol (lv_quantity (received v)) received_symbol) \<in> set es)
       \<and> shown_toasts es =
           (case (s, r) of
              (Inl e, Inl e') \<Rightarrow> [ToastError (''Could not save trade. Sold: '' @ message_text e @ ''. Received: ''
                   @ message_text e' @ ''.'')]
            | (Inr _, Inl _) \<Rightarrow> [ToastError (''Sold leg saved; received leg failed '' @ em_dash @ '' retry the received leg.'')]
            | (Inl _, Inr _) \<Rightarrow> [ToastError (''Received leg saved; sold leg failed '' @ em_dash @ '' retry the sold leg.'')]
            | (Inr _, Inr _) \<Rightarrow> if suppress then [] else
                [ToastSuccess (''Trade updated '' @ em_dash @ '' '' @ lv_quantity (sold v) @ '' '' @ sold_symbol @ '' ''
                   @ right_arrow @ '' '' @ lv_quantity (received v) @ '' '' @ received_symbol)]))
   \<and> list_all (\<lambda>(c, leg_id, l, fee). call_method c = ''PUT'' \<and> call_path c = ''/api/transactions/'' @ leg_id
        \<and> member ''quantity'' (call_body c) = Some (JStr (lv_quantity l))
        \<and> member ''unit_price'' (call_body c) = Some (JStr (lv_unit_price l))
        \<and> member ''price_currency'' (call_body c) = Some (JStr (currency_text (lv_price_currency l)))
        \<and> member ''fx_rate_to_eur'' (call_body c) = Some (if lv_fx_rate_to_eur l = [] then JNull else JStr (lv_fx_rate_to_eur l))
        \<and> member ''date'' (call_body c) = Some (JStr (tr_date v)) \<and> member ''fee_eur'' (call_body c) = Some (JStr fee))
      [(fst (edit_calls i v), soldLegId i, sold v, if tr_fee_eur v = [] then ''0'' else tr_fee_eur v),
       (snd (edit_calls i v), receivedLegId i, received v, ''0'')]"
proof -
  have ne: "\<not> set invalidatePortfolioCache \<subseteq> {ToastError m}" for m
    by (simp add: invalidatePortfolioCache_def PORTFOLIO_CACHE_KEYS_def)
  have body: "member ''quantity'' (leg_payload v l f) = Some (JStr (lv_quantity l))"
    "member ''unit_price'' (leg_payload v l f) = Some (JStr (lv_unit_price l))"
    "member ''price_currency'' (leg_payload v l f) = Some (JStr (currency_text (lv_price_currency l)))"
    "member ''fx_rate_to_eur'' (leg_payload v l f) = Some (if lv_fx_rate_to_eur l = [] then JNull else JStr (lv_fx_rate_to_eur l))"
    "member ''date'' (leg_payload v l f) = Some (JStr (tr_date v))"
    "member ''fee_eur'' (leg_payload v l f) = Some (JStr f)" for l f
    by (simp_all add: leg_payload_def json_obj_def List.map_filter_simps member_def str_or_null_def)
  have fee: "nullish (or_null t) ''0'' = (if t = [] then ''0'' else t)" for t by (simp add: or_null_def)
  have outcome: "invalidates (edit_success instruments suppress v (edit_result s r)) = saved s r"
    "closes (edit_success instruments suppress v (edit_result s r)) = both_saved s r"
    "notifies (edit_success instruments suppress v (edit_result s r)) = both_saved s r"
    by (cases s; cases r;
        auto simp: edit_result_def edit_success_def invalidates_def closes_def notifies_def ne saved_def both_saved_def subset_insertI)+
  show ?thesis
    unfolding Let_def edit_calls_def fee
    by (simp add: outcome body)
      (cases s; cases r; simp add: edit_result_def edit_success_def both_saved_def trade_payload_def trade_updated_text_def symbol_known)
qed

theorem edit_outcomes_witness:
  "shown_toasts (edit_success [] True (trade_defaults [] None) (edit_result (Inl (OtherErr ''offline'')) (Inl (ApiErr 422 ''bad''))))
    = [ToastError ''Could not save trade. Sold: offline. Received: API 422: bad.'']"
proof -
  have m: "message_text (OtherErr ''offline'') = ''offline''" "message_text (ApiErr 422 ''bad'') = ''API 422: bad''"
    by code_simp+
  show ?thesis
    using edit_outcomes [of "[]" True "trade_defaults [] None" "Inl (OtherErr ''offline'')" "Inl (ApiErr 422 ''bad'')"]
    unfolding Let_def by (simp add: m)
qed

text \<open>Creating a trade tells the opener, resets the form and closes, once.\<close>

lemma create_outcome:
  "closes (create_success instruments suppress v)" "invalidates (create_success instruments suppress v)"
  "error_toasts (create_success instruments suppress v) = 0"
  by (auto simp: create_success_def closes_def invalidates_def error_toasts_def)

end
