(* ===== verification/AddTxn.thy ===== *)
theory AddTxn
  imports TradeForm
begin

text \<open>
  Adding a transaction from anywhere: the provider's state (\<open>AddTxnProvider.tsx\<close>), the type picker
  (\<open>AddTxnPicker.tsx\<close>) and the sheet that hosts the forms (\<open>AddTxnFormSheet.tsx\<close>).
\<close>

section \<open>The provider\<close>

datatype AddTxnFormType = BuyForm | SellForm | TradeForm | SpendForm | YieldForm

datatype AddTxnState = Idle | Picker | FormOpen AddTxnFormType

datatype Action = OPEN_PICKER | OPEN_FORM AddTxnFormType | CLOSE

fun reducer :: "AddTxnState \<Rightarrow> Action \<Rightarrow> AddTxnState" where
  "reducer _ OPEN_PICKER = Picker"
| "reducer _ (OPEN_FORM t) = FormOpen t"
| "reducer _ CLOSE = Idle"

text \<open>The trigger to focus again is the one registered last.\<close>

record add_txn =
  flow :: AddTxnState
  triggerRef :: "nat option"
  focused :: "nat option"
  handedOff :: bool
  focusedIndex :: nat
  toasts :: "(bool \<times> jstring) list"
  stale :: "jstring list"

definition dispatch :: "Action \<Rightarrow> add_txn \<Rightarrow> add_txn" where
  "dispatch a st = st\<lparr>flow := reducer (flow st) a\<rparr>"

definition registerTrigger :: "nat option \<Rightarrow> add_txn \<Rightarrow> add_txn" where
  "registerTrigger el st = st\<lparr>triggerRef := el\<rparr>"

section \<open>The picker\<close>

definition ROWS :: "(AddTxnFormType \<times> jstring \<times> jstring) list" where
  "ROWS =
     [(BuyForm, ''Buy'', ''Purchased shares, units, or coins.''),
      (SellForm, ''Sell'', ''Sold shares, units, or coins. FIFO matches lots.''),
      (TradeForm, ''Trade'', ''Swapped one holding for another in a single move.''),
      (SpendForm, ''Spend'', ''Used a holding to pay for something (real-world outflow).''),
      (YieldForm, ''Yield'', ''Received yield outside the APY-accrual job (manual entry).'')]"

text \<open>Opening the picker: the hand-off mark is cleared and the first row gets the focus.\<close>

definition picker_opened :: "add_txn \<Rightarrow> add_txn" where
  "picker_opened st = st\<lparr>handedOff := False, focusedIndex := 0\<rparr>"

definition openTypePicker :: "add_txn \<Rightarrow> add_txn" where
  "openTypePicker st =
     (let st' = dispatch OPEN_PICKER st in if flow st = Picker then st' else picker_opened st')"

datatype key = ArrowDown | ArrowUp | HomeKey | EndKey | OtherKey

definition handleKeyDown :: "key \<Rightarrow> add_txn \<Rightarrow> add_txn" where
  "handleKeyDown k st =
     (let i = focusedIndex st; n = length ROWS
      in case k of
           ArrowDown \<Rightarrow> st\<lparr>focusedIndex := (i + 1) mod n\<rparr>
         | ArrowUp \<Rightarrow> st\<lparr>focusedIndex := (i + n - 1) mod n\<rparr>
         | HomeKey \<Rightarrow> st\<lparr>focusedIndex := 0\<rparr>
         | EndKey \<Rightarrow> st\<lparr>focusedIndex := n - 1\<rparr>
         | OtherKey \<Rightarrow> st)"

definition row_focus :: "nat \<Rightarrow> add_txn \<Rightarrow> add_txn" where
  "row_focus i st = st\<lparr>focusedIndex := i\<rparr>"

definition row_click :: "AddTxnFormType \<Rightarrow> add_txn \<Rightarrow> add_txn" where
  "row_click t st = dispatch (OPEN_FORM t) (st\<lparr>handedOff := True\<rparr>)"

text \<open>The dialogs give the focus back when they close; the picker only when it was dismissed.\<close>

definition picker_close_focus :: "add_txn \<Rightarrow> add_txn" where
  "picker_close_focus st = (if handedOff st then st else st\<lparr>focused := triggerRef st\<rparr>)"

definition sheet_close_focus :: "add_txn \<Rightarrow> add_txn" where
  "sheet_close_focus st = st\<lparr>focused := triggerRef st\<rparr>"

definition handleOpenChange :: "bool \<Rightarrow> add_txn \<Rightarrow> add_txn" where
  "handleOpenChange o_flag st = (if o_flag then st else dispatch CLOSE st)"

section \<open>The sheet\<close>

definition TITLE_BY_TYPE :: "AddTxnFormType \<Rightarrow> jstring" where
  "TITLE_BY_TYPE t =
     (case t of BuyForm \<Rightarrow> ''Add buy'' | SellForm \<Rightarrow> ''Add sell'' | TradeForm \<Rightarrow> ''Add trade''
      | SpendForm \<Rightarrow> ''Add spend'' | YieldForm \<Rightarrow> ''Add yield'')"

definition DESCRIPTION_BY_TYPE :: "AddTxnFormType \<Rightarrow> jstring" where
  "DESCRIPTION_BY_TYPE t =
     (case t of
        BuyForm \<Rightarrow> ''Record a buy. Cost basis updates automatically.''
      | SellForm \<Rightarrow> ''Record a sell. FIFO matches against your lots.''
      | TradeForm \<Rightarrow> ''Swap one holding for another. Fee is stored in EUR.''
      | SpendForm \<Rightarrow> ''Use a holding to pay for something. Cost basis is consumed FIFO.''
      | YieldForm \<Rightarrow> ''Record yield received outside the APY-accrual job.'')"

definition sheet_heading :: "add_txn \<Rightarrow> jstring \<times> jstring" where
  "sheet_heading st =
     (case flow st of FormOpen t \<Rightarrow> (TITLE_BY_TYPE t, DESCRIPTION_BY_TYPE t) | _ \<Rightarrow> ([], []))"

text \<open>The message for the payload of a form; a form gives the payload of its kind only.\<close>

definition success_message :: "AddTxnFormType \<Rightarrow> success_payload \<Rightarrow> jstring" where
  "success_message t p =
     (case p of
        QtyPayload q s \<Rightarrow>
          (case t of BuyForm \<Rightarrow> ''Buy added '' | SellForm \<Rightarrow> ''Sell added '' | _ \<Rightarrow> ''Yield added '')
          @ em_dash @ '' '' @ q @ '' '' @ s
      | TradePayload sq ss rq rs \<Rightarrow>
          ''Trade added '' @ em_dash @ '' '' @ sq @ '' '' @ ss @ '' '' @ right_arrow @ '' '' @ rq @ '' '' @ rs
      | SpendPayload a c _ \<Rightarrow> ''Spend added '' @ em_dash @ '' '' @ a @ '' '' @ c)"

definition handleSuccess :: "AddTxnFormType \<Rightarrow> success_payload \<Rightarrow> add_txn \<Rightarrow> add_txn" where
  "handleSuccess t p st =
     (let st' = st\<lparr>toasts := toasts st @ [(True, success_message t p)]\<rparr>
      in if t \<in> {BuyForm, SellForm, YieldForm} then dispatch CLOSE st' else st')"

text \<open>What an effect of the hosted form does to the sheet; resetting the form is its own affair.\<close>

fun run_effect :: "AddTxnFormType \<Rightarrow> add_txn \<Rightarrow> form_effect \<Rightarrow> add_txn" where
  "run_effect t st (ToastSuccess m) = st\<lparr>toasts := toasts st @ [(True, m)]\<rparr>"
| "run_effect t st (ToastError m) = st\<lparr>toasts := toasts st @ [(False, m)]\<rparr>"
| "run_effect t st (Invalidate k) = st\<lparr>stale := stale st @ [k]\<rparr>"
| "run_effect t st ResetForm = st"
| "run_effect t st (CallOnSuccess p) = handleSuccess t p st"
| "run_effect t st CallOnClose = dispatch CLOSE st"

definition run_effects :: "AddTxnFormType \<Rightarrow> form_effect list \<Rightarrow> add_txn \<Rightarrow> add_txn" where
  "run_effects t es st = foldl (run_effect t) st es"

lemma run_effects_append: "run_effects t (es @ es') st = run_effects t es' (run_effects t es st)"
  by (simp add: run_effects_def)

lemma run_effects_simps [simp]: "run_effects t [] st = st"
  "run_effects t (e # es) st = run_effects t es (run_effect t st e)"
  by (simp_all add: run_effects_def)

section \<open>What the sheet relies on\<close>

text \<open>
  The contract of a hosted form: with its own message suppressed, a success refreshes the caches,
  tells the sheet once and then closes if it is a form that closes itself.
\<close>

definition quiet_effect :: "form_effect \<Rightarrow> bool" where
  "quiet_effect e = (case e of Invalidate _ \<Rightarrow> True | ResetForm \<Rightarrow> True | _ \<Rightarrow> False)"

definition keys_of :: "form_effect list \<Rightarrow> jstring list" where
  "keys_of es = List.map_filter (\<lambda>e. case e of Invalidate k \<Rightarrow> Some k | _ \<Rightarrow> None) es"

definition self_closing :: "AddTxnFormType \<Rightarrow> bool" where
  "self_closing t \<longleftrightarrow> t \<in> {TradeForm, SpendForm}"

locale hosted_form =
  fixes t :: AddTxnFormType
    and success :: "'v \<Rightarrow> form_effect list"
    and payload :: "'v \<Rightarrow> success_payload"
    and before :: "'v \<Rightarrow> form_effect list"
  assumes shape: "success v = before v @ [CallOnSuccess (payload v)] @ (if self_closing t then [CallOnClose] else [])"
    and before_quiet: "list_all quiet_effect (before v)"
    and before_keys: "keys_of (before v) = PORTFOLIO_CACHE_KEYS"
begin

lemma run_quiet: "list_all quiet_effect es \<Longrightarrow> run_effects t es st = st\<lparr>stale := stale st @ keys_of es\<rparr>"
proof (induction es arbitrary: st)
  case (Cons e es)
  then show ?case
    by (cases e) (auto simp: quiet_effect_def keys_of_def List.map_filter_simps)
qed (simp add: keys_of_def List.map_filter_simps)

lemma success_run:
  "run_effects t (success v) st =
    st\<lparr>flow := Idle, toasts := toasts st @ [(True, success_message t (payload v))],
       stale := stale st @ PORTFOLIO_CACHE_KEYS\<rparr>"
  unfolding shape run_effects_append run_quiet [OF before_quiet] before_keys
  by (cases t) (simp_all add: handleSuccess_def dispatch_def self_closing_def Let_def)

end

lemma cache_quiet: "list_all quiet_effect invalidatePortfolioCache" "keys_of invalidatePortfolioCache = PORTFOLIO_CACHE_KEYS"
  by (simp_all add: invalidatePortfolioCache_def PORTFOLIO_CACHE_KEYS_def quiet_effect_def keys_of_def List.map_filter_simps)

lemma keys_append: "keys_of (xs @ ys) = keys_of xs @ keys_of ys"
  by (simp add: keys_of_def List.map_filter_def)

lemma keys_reset: "keys_of [] = []" "keys_of (ResetForm # es) = keys_of es" "quiet_effect ResetForm"
  by (simp_all add: keys_of_def List.map_filter_simps quiet_effect_def)

lemmas hosted_simps = self_closing_def is_edit_def cache_quiet keys_append keys_reset

interpretation buy: hosted_form BuyForm "txn_success None ins True"
  "\<lambda>v. QtyPayload (tv_quantity v) (symbol_or ''transaction'' ins (tv_instrument_id v))"
  "\<lambda>_. invalidatePortfolioCache @ [ResetForm]" for ins
  by unfold_locales (simp_all add: txn_success_def hosted_simps)

interpretation sell: hosted_form SellForm "txn_success None ins True"
  "\<lambda>v. QtyPayload (tv_quantity v) (symbol_or ''transaction'' ins (tv_instrument_id v))"
  "\<lambda>_. invalidatePortfolioCache @ [ResetForm]" for ins
  by unfold_locales (simp_all add: txn_success_def hosted_simps)

interpretation yield_host: hosted_form YieldForm "yield_success None ins True"
  "\<lambda>v. QtyPayload (yv_quantity v) (symbol_or ''yield'' ins (yv_instrument_id v))"
  "\<lambda>_. invalidatePortfolioCache" for ins
  by unfold_locales (simp_all add: yield_success_def hosted_simps Let_def)

interpretation spend_host: hosted_form SpendForm "spend_success None ins True"
  "\<lambda>v. SpendPayload (sv_quantity v) (currency_text (sv_price_currency v)) (or_null (sv_notes v))"
  "\<lambda>_. invalidatePortfolioCache @ [ResetForm]" for ins
  by unfold_locales (simp_all add: spend_success_def hosted_simps)

interpretation trade_host: hosted_form TradeForm "create_success ins True" "trade_payload ins"
  "\<lambda>_. [ResetForm] @ invalidatePortfolioCache" for ins
  by unfold_locales (simp_all add: create_success_def hosted_simps)

text \<open>
  C21: One message and a closed sheet.  Whichever of the five forms is hosted, a success shows
  exactly one message, the canonical one of its type, marks every portfolio query stale and leaves
  the sheet closed; a failure shows one error and leaves everything else as it was, so the form
  stays open with what was typed.
\<close>
theorem add_flow_outcomes:
  "run_effects BuyForm (txn_success None ins True v) st =
      st\<lparr>flow := Idle, stale := stale st @ PORTFOLIO_CACHE_KEYS, toasts := toasts st @
        [(True, ''Buy added '' @ em_dash @ '' '' @ tv_quantity v @ '' '' @ symbol_or ''transaction'' ins (tv_instrument_id v))]\<rparr>
   \<and> run_effects SellForm (txn_success None ins True v) st =
      st\<lparr>flow := Idle, stale := stale st @ PORTFOLIO_CACHE_KEYS, toasts := toasts st @
        [(True, ''Sell added '' @ em_dash @ '' '' @ tv_quantity v @ '' '' @ symbol_or ''transaction'' ins (tv_instrument_id v))]\<rparr>
   \<and> run_effects YieldForm (yield_success None ins True y) st =
      st\<lparr>flow := Idle, stale := stale st @ PORTFOLIO_CACHE_KEYS, toasts := toasts st @
        [(True, ''Yield added '' @ em_dash @ '' '' @ yv_quantity y @ '' '' @ symbol_or ''yield'' ins (yv_instrument_id y))]\<rparr>
   \<and> run_effects SpendForm (spend_success None ins True s) st =
      st\<lparr>flow := Idle, stale := stale st @ PORTFOLIO_CACHE_KEYS, toasts := toasts st @
        [(True, ''Spend added '' @ em_dash @ '' '' @ sv_quantity s @ '' '' @ currency_text (sv_price_currency s))]\<rparr>
   \<and> run_effects TradeForm (create_success ins True d) st =
      st\<lparr>flow := Idle, stale := stale st @ PORTFOLIO_CACHE_KEYS, toasts := toasts st @
        [(True, success_message TradeForm (trade_payload ins d))]\<rparr>
   \<and> run_effects t (could_not_save err) st =
      st\<lparr>toasts := toasts st @ [(False, ''Could not save. '' @ nullish (error_message err) ''undefined'')]\<rparr>"
  by (simp add: buy.success_run sell.success_run yield_host.success_run spend_host.success_run
      trade_host.success_run success_message_def could_not_save_def)

section \<open>Focus and keyboard of the picker\<close>

definition press_keys :: "key list \<Rightarrow> add_txn \<Rightarrow> add_txn" where
  "press_keys ks st = foldl (\<lambda>s k. handleKeyDown k s) st ks"

lemma key_in_range: "focusedIndex st < 5 \<Longrightarrow> focusedIndex (handleKeyDown k st) < 5"
  by (cases k) (simp_all add: handleKeyDown_def ROWS_def Let_def)

lemma press_keys_state: "flow (press_keys ks st) = flow st \<and> handedOff (press_keys ks st) = handedOff st
    \<and> triggerRef (press_keys ks st) = triggerRef st
    \<and> (focusedIndex st < 5 \<longrightarrow> focusedIndex (press_keys ks st) < 5)"
  unfolding press_keys_def
proof (induction ks arbitrary: st)
  case (Cons k ks)
  have "flow (handleKeyDown k st) = flow st \<and> handedOff (handleKeyDown k st) = handedOff st
      \<and> triggerRef (handleKeyDown k st) = triggerRef st"
    by (cases k) (simp_all add: handleKeyDown_def Let_def)
  with Cons key_in_range [of st k] show ?case by auto
qed simp

lemma arrow_inverse: "focusedIndex st < 5 \<Longrightarrow> handleKeyDown ArrowUp (handleKeyDown ArrowDown st) = st"
proof -
  assume "focusedIndex st < 5"
  then have "focusedIndex st \<in> {0, 1, 2, 3, 4}" by auto
  then show ?thesis by (auto simp: handleKeyDown_def ROWS_def Let_def)
qed

text \<open>
  The picker and the focus.  However many keys are pressed after it opened, the focused row is
  one of the five; up undoes down, wrapping around; choosing a row opens its form and leaves the
  focus to it, while dismissing the picker closes the flow and gives the focus back to the trigger
  registered last.
\<close>
theorem picker_focus:
  assumes "flow st \<noteq> Picker"
  shows "let p = press_keys ks (openTypePicker st) in
    flow p = Picker \<and> focusedIndex p < length ROWS
    \<and> handleKeyDown ArrowUp (handleKeyDown ArrowDown p) = p
    \<and> flow (picker_close_focus (row_click t p)) = FormOpen t
    \<and> focused (picker_close_focus (row_click t p)) = focused p
    \<and> flow (picker_close_focus (handleOpenChange False p)) = Idle
    \<and> focused (picker_close_focus (handleOpenChange False p)) = triggerRef st"
proof -
  have open_state: "flow (openTypePicker st) = Picker" "focusedIndex (openTypePicker st) = 0"
    "\<not> handedOff (openTypePicker st)" "triggerRef (openTypePicker st) = triggerRef st"
    using assms by (simp_all add: openTypePicker_def dispatch_def picker_opened_def Let_def)
  define p where "p = press_keys ks (openTypePicker st)"
  have p: "flow p = Picker" "focusedIndex p < 5" "\<not> handedOff p" "triggerRef p = triggerRef st"
    using press_keys_state [of ks "openTypePicker st"] open_state by (simp_all add: p_def)
  have "length ROWS = 5" by (simp add: ROWS_def)
  then show ?thesis
    using p arrow_inverse [OF p(2)]
    by (simp add: p_def [symmetric] Let_def picker_close_focus_def row_click_def dispatch_def handleOpenChange_def)
qed

definition closed_flow :: add_txn where
  "closed_flow = \<lparr>flow = Idle, triggerRef = Some 7, focused = None, handedOff = True, focusedIndex = 3,
     toasts = [], stale = []\<rparr>"

theorem picker_focus_witness:
  "focused (picker_close_focus (handleOpenChange False (press_keys [ArrowUp, ArrowUp] (openTypePicker closed_flow))))
    = Some 7"
  using picker_focus [of closed_flow "[ArrowUp, ArrowUp]"] by (simp add: closed_flow_def Let_def)

end
