(* ===== verification/Ledger.thy ===== *)
theory Ledger
  imports AddTxn View
begin

text \<open>
  The ledger: the list of transactions with its filters and rows (\<open>TxnList.tsx\<close>,
  \<open>TxnRowActions.tsx\<close>, the two switches), deleting one (\<open>DeleteConfirmDialog.tsx\<close>) and
  editing one (\<open>EditTxnDialog.tsx\<close>, \<open>lib/transactions.ts\<close>).
\<close>

section \<open>Transactions\<close>

record Transaction =
  tx_id :: jstring
  tx_txn_type :: jstring
  tx_account_id :: jstring
  tx_account_name :: "jstring option"
  tx_instrument_id :: jstring
  tx_instrument_symbol :: "jstring option"
  tx_instrument_type :: "jstring option"
  tx_display_decimals :: "nat option"
  tx_date :: jstring
  tx_quantity :: jstring
  tx_unit_price :: "jstring option"
  tx_price_currency :: "currency option"
  tx_fx_rate_to_eur :: "jstring option"
  tx_fee_eur :: "jstring option"
  tx_notes :: "jstring option"
  tx_deleted_at :: "jstring option"
  tx_trade_pair_id :: "jstring option"
  tx_lot_alloc_count :: "int option"
  tx_cost_basis_eur :: "jstring option"

definition isAutoAccrualYield :: "Transaction \<Rightarrow> bool" where
  "isAutoAccrualYield t \<longleftrightarrow>
     tx_txn_type t = ''yield'' \<and> starts_with (nullish (tx_notes t) []) ''auto-accrual ''"

section \<open>The switches in the address\<close>

definition show_deleted_checked :: "jstring \<Rightarrow> bool" where
  "show_deleted_checked search \<longleftrightarrow> search_param ''deleted'' search = Some ''1''"

definition show_deleted_change :: "bool \<Rightarrow> jstring \<Rightarrow> jstring" where
  "show_deleted_change on_flag search =
     ''?'' @ query_text ((if on_flag then set_param ''deleted'' ''1'' else delete_param ''deleted'') (query_pairs search))"

definition show_yield_checked :: "jstring \<Rightarrow> bool" where
  "show_yield_checked search \<longleftrightarrow> search_param ''hide_yield'' search \<noteq> Some ''1''"

definition show_yield_change :: "bool \<Rightarrow> jstring \<Rightarrow> jstring" where
  "show_yield_change on_flag search =
     ''?'' @ query_text ((if on_flag then delete_param ''hide_yield'' else set_param ''hide_yield'' ''1'') (query_pairs search))"

section \<open>The list\<close>

definition include_deleted :: "jstring \<Rightarrow> bool" where
  "include_deleted search \<longleftrightarrow> search_param ''deleted'' search = Some ''1''"

definition hide_yield :: "jstring \<Rightarrow> bool" where
  "hide_yield search \<longleftrightarrow> search_param ''hide_yield'' search = Some ''1''"

definition list_instrument :: "jstring option \<Rightarrow> jstring \<Rightarrow> jstring option" where
  "list_instrument prop_id search =
     (case prop_id of Some i \<Rightarrow> Some i | None \<Rightarrow> search_param ''instrument_id'' search)"

definition list_url :: "jstring option \<Rightarrow> jstring \<Rightarrow> jstring" where
  "list_url prop_id search =
     ''/api/transactions?include_deleted='' @ (if include_deleted search then ''true'' else ''false'')
     @ (case Option.bind (list_instrument prop_id search) or_null of Some i \<Rightarrow> ''&instrument_id='' @ i | None \<Rightarrow> [])"

definition visibleRows :: "jstring \<Rightarrow> Transaction list \<Rightarrow> Transaction list" where
  "visibleRows search data = filter (\<lambda>r. \<not> (hide_yield search \<and> tx_txn_type r = ''yield'')) data"

text \<open>The partners of trades: rows grouped by pair, then each row's partner from its group.\<close>

definition pair_of :: "Transaction \<Rightarrow> jstring option" where
  "pair_of r = Option.bind (tx_trade_pair_id r) or_null"

definition pair_step :: "(jstring, Transaction list) jsmap \<Rightarrow> Transaction \<Rightarrow> (jstring, Transaction list) jsmap" where
  "pair_step byPair r =
     (case pair_of r of
        None \<Rightarrow> byPair
      | Some p \<Rightarrow> (case jm_get byPair p of Some g \<Rightarrow> jm_set p (g @ [r]) byPair | None \<Rightarrow> jm_set p [r] byPair))"

definition partner_step :: "Transaction list \<Rightarrow> (jstring, jstring option) jsmap \<Rightarrow> Transaction \<Rightarrow> (jstring, jstring option) jsmap" where
  "partner_step g result r =
     (case find (\<lambda>t. tx_id t \<noteq> tx_id r) g of
        Some t \<Rightarrow> jm_set (tx_id r) (tx_instrument_symbol t) result
      | None \<Rightarrow> result)"

definition group_partners :: "(jstring, jstring option) jsmap \<Rightarrow> Transaction list \<Rightarrow> (jstring, jstring option) jsmap" where
  "group_partners result g = (if length g < 2 then result else foldl (partner_step g) result g)"

definition tradePairSymbols :: "Transaction list \<Rightarrow> (jstring, jstring option) jsmap" where
  "tradePairSymbols rows = foldl group_partners [] (jm_values (foldl pair_step [] rows))"

definition pairedSymbol :: "Transaction list \<Rightarrow> Transaction \<Rightarrow> jstring option" where
  "pairedSymbol rows r =
     (if pair_of r = None then None
      else Option.bind (Option.bind (jm_get (tradePairSymbols rows) (tx_id r)) (\<lambda>s. s)) or_null)"

text \<open>Why the list is empty.\<close>

definition plural :: "nat \<Rightarrow> jstring" where
  "plural n = (if n = 1 then [] else ''s'')"

definition middle_dot :: jstring where "middle_dot = [CHR 0xC2, CHR 0xB7]"

definition hidden_explanation :: "jstring \<Rightarrow> Transaction list \<Rightarrow> jstring" where
  "hidden_explanation search data =
     (let hiddenYield = length (filter (\<lambda>r. tx_txn_type r = ''yield'') data);
          hiddenDeleted = length (filter (\<lambda>r. tx_deleted_at r \<noteq> None) data);
          clauses =
            (if hide_yield search \<and> 0 < hiddenYield
             then [''Show yield is off '' @ em_dash @ '' '' @ show_digits (int hiddenYield) @ '' yield row''
                   @ plural hiddenYield @ '' hidden.''] else [])
            @ (if \<not> include_deleted search \<and> 0 < hiddenDeleted
               then [''Show deleted is off '' @ em_dash @ '' '' @ show_digits (int hiddenDeleted) @ '' deleted row''
                     @ plural hiddenDeleted @ '' hidden.''] else [])
      in if clauses \<noteq> [] then js_join ('' '' @ middle_dot @ '' '') clauses
         else ''All transactions are hidden by your current filters.'')"

text \<open>The notes of a daily accrual show as a badge and the rest; \<open>/^auto-accrual\s+/\<close>.\<close>

definition accrual_note :: "jstring \<Rightarrow> jstring option" where
  "accrual_note s =
     (let rest = drop (length ''auto-accrual'') s
      in if starts_with s ''auto-accrual'' \<and> strip_one ws_units rest \<noteq> None then Some (trim_start rest) else None)"

datatype row_action = EditAction | DisabledEdit | DeleteAction | HistoryAction

definition row_actions :: "jstring \<Rightarrow> bool \<Rightarrow> row_action list" where
  "row_actions txnType deleted =
     (if deleted then [] else [if txnType = ''adjustment'' then DisabledEdit else EditAction, DeleteAction])
     @ [HistoryAction]"

text \<open>The buttons of a row: icons with a name on a large screen, a menu on a small one.\<close>

definition action_label :: "bool \<Rightarrow> row_action \<Rightarrow> jstring" where
  "action_label isDesktop a =
     (case a of
        EditAction \<Rightarrow> ''Edit transaction''
      | DisabledEdit \<Rightarrow> if isDesktop then ''Edit transaction (disabled)'' else ''Edit transaction''
      | DeleteAction \<Rightarrow> ''Delete transaction''
      | HistoryAction \<Rightarrow> ''View audit history'')"

definition row_menu :: "bool \<Rightarrow> jstring \<Rightarrow> bool \<Rightarrow> row_action ui list" where
  "row_menu isDesktop txnType deleted =
     map (\<lambda>a. Control (action_label isDesktop a) (a = DisabledEdit) a) (row_actions txnType deleted)"

definition ledger_columns :: "jstring list" where
  "ledger_columns =
     [''Date'', ''Account'', ''Instrument'', ''Type'', ''Qty'', ''Price'', ''FX'', ''Notes'', ''Actions'']"

record ledger_row =
  lr_key :: jstring
  lr_deleted :: bool
  lr_date :: jstring
  lr_account :: jstring
  lr_symbol :: "jstring option"
  lr_type :: jstring
  lr_paired :: "jstring option"
  lr_quantity :: jstring
  lr_price :: jstring
  lr_fx :: jstring
  lr_badge :: bool
  lr_notes :: jstring
  lr_actions :: "row_action list"

definition desktop_row :: "Transaction list \<Rightarrow> Transaction \<Rightarrow> ledger_row" where
  "desktop_row rows r =
     (let notes = nullish (tx_notes r) [];
          accrual = (if tx_txn_type r = ''yield'' then accrual_note notes else None)
      in \<lparr>lr_key = tx_id r, lr_deleted = (tx_deleted_at r \<noteq> None), lr_date = tx_date r,
          lr_account = nullish (tx_account_name r) (tx_account_id r), lr_symbol = tx_instrument_symbol r,
          lr_type = tx_txn_type r, lr_paired = pairedSymbol rows r,
          lr_quantity = formatQuantity (SStr (tx_quantity r))
            (decimalsFor (tx_instrument_type r) (tx_display_decimals r)),
          lr_price = (case tx_price_currency r of
              Some c \<Rightarrow> formatMoney (case tx_unit_price r of Some p \<Rightarrow> SStr p | None \<Rightarrow> SNum (Num 0)) c
            | None \<Rightarrow> em_dash),
          lr_fx = nullish (tx_fx_rate_to_eur r) em_dash,
          lr_badge = (accrual \<noteq> None), lr_notes = nullish accrual notes,
          lr_actions = row_actions (tx_txn_type r) (tx_deleted_at r \<noteq> None)\<rparr>)"

text \<open>The card of a row on a small screen: its last line.\<close>

definition mobile_amount :: "Transaction \<Rightarrow> jstring" where
  "mobile_amount r =
     formatQuantity (SStr (tx_quantity r)) (decimalsFor (tx_instrument_type r) (tx_display_decimals r))
     @ (case tx_price_currency r of
          Some c \<Rightarrow> '' @ '' @ formatMoney (case tx_unit_price r of Some p \<Rightarrow> SStr p | None \<Rightarrow> SNum (Num 0)) c
        | None \<Rightarrow> [])"

record ledger_card =
  lc_key :: jstring
  lc_deleted :: bool
  lc_symbol :: "jstring option"
  lc_type :: jstring
  lc_paired :: "jstring option"
  lc_date :: jstring
  lc_account :: jstring
  lc_amount :: jstring
  lc_actions :: "row_action list"

definition mobile_card :: "Transaction list \<Rightarrow> Transaction \<Rightarrow> ledger_card" where
  "mobile_card rows r =
     \<lparr>lc_key = tx_id r, lc_deleted = (tx_deleted_at r \<noteq> None), lc_symbol = tx_instrument_symbol r,
      lc_type = tx_txn_type r, lc_paired = pairedSymbol rows r, lc_date = tx_date r,
      lc_account = nullish (tx_account_name r) (tx_account_id r), lc_amount = mobile_amount r,
      lc_actions = row_actions (tx_txn_type r) (tx_deleted_at r \<noteq> None)\<rparr>"

text \<open>A row and its card show the same transaction.\<close>

lemma card_matches_row:
  "lc_key (mobile_card rows r) = lr_key (desktop_row rows r)"
  "lc_paired (mobile_card rows r) = lr_paired (desktop_row rows r)"
  "lc_account (mobile_card rows r) = lr_account (desktop_row rows r)"
  "lc_actions (mobile_card rows r) = lr_actions (desktop_row rows r)"
  "starts_with (lc_amount (mobile_card rows r)) (lr_quantity (desktop_row rows r))"
  by (simp_all add: mobile_card_def desktop_row_def Let_def mobile_amount_def starts_with_def)

lemma deleted_row_offers:
  "on_offer (row_menu d ty True) = [HistoryAction]"
  "DisabledEdit \<notin> set (on_offer (row_menu d ty del))"
  by (auto simp: row_menu_def row_actions_def ui_simps)

datatype ledger_view =
    LedgerLoading | LedgerError jstring | LedgerEmpty | LedgerHidden jstring | LedgerRows "ledger_row list"

record ledger_query =
  lq_data :: "Transaction list option"
  lq_loading :: bool
  lq_error :: "thrown option"

definition TxnList :: "jstring \<Rightarrow> ledger_query \<Rightarrow> ledger_view" where
  "TxnList search q =
     (if lq_loading q then LedgerLoading
      else case lq_error q of
        Some e \<Rightarrow> LedgerError (''Could not load transactions. '' @ message_text e)
      | None \<Rightarrow>
          (let data = nullish (lq_data q) []; rows = visibleRows search data
           in if data = [] then LedgerEmpty
              else if rows = [] then LedgerHidden (hidden_explanation search data)
              else LedgerRows (map (desktop_row rows) rows)))"

text \<open>Only the branch on screen counts rows; the other virtualizer is given none.\<close>

definition virtual_counts :: "bool \<Rightarrow> nat \<Rightarrow> nat \<times> nat" where
  "virtual_counts isDesktop rowCount = (if isDesktop then (rowCount, 0) else (0, rowCount))"

record ledger_state =
  editTxnId :: "jstring option"
  editDrawerOpen :: bool
  historyTxnId :: "jstring option"
  deleteTxn :: "Transaction option"
  rowTrigger :: "nat option"

definition openEdit :: "jstring \<Rightarrow> nat \<Rightarrow> ledger_state \<Rightarrow> ledger_state" where
  "openEdit i el st = st\<lparr>rowTrigger := Some el, editTxnId := Some i, editDrawerOpen := True\<rparr>"

definition closeEditDrawer :: "ledger_state \<Rightarrow> ledger_state" where
  "closeEditDrawer st = st\<lparr>editDrawerOpen := False, editTxnId := None\<rparr>"

section \<open>Deleting\<close>

definition fifoPreview :: "Transaction \<Rightarrow> jstring" where
  "fifoPreview t =
     (let n = nullish (tx_lot_alloc_count t) 0; s = (if n = 1 then [] else ''s'')
      in if tx_txn_type t = ''buy'' then ''Deleting will recompute '' @ show_int n @ '' sell allocation'' @ s @ ''.''
         else if tx_txn_type t = ''sell'' \<or> tx_txn_type t = ''spend''
         then ''Deleting will release '' @ show_int n @ '' consumed buy lot'' @ s @ ''.''
         else if tx_txn_type t = ''yield'' \<or> tx_txn_type t = ''adjustment''
         then ''Deleting removes ''
           @ formatMoney (case tx_cost_basis_eur t of Some c \<Rightarrow> SStr c | None \<Rightarrow> SNum (Num 0)) EUR
           @ '' from cost basis history.''
         else [])"

definition linkedTradeSymbol :: "Transaction \<Rightarrow> Transaction list \<Rightarrow> jstring option" where
  "linkedTradeSymbol t allTransactions =
     (if pair_of t = None then None
      else case find (\<lambda>x. tx_id x \<noteq> tx_id t \<and> tx_trade_pair_id x = tx_trade_pair_id t) allTransactions of
             Some p \<Rightarrow> Option.bind (tx_instrument_symbol p) or_null
           | None \<Rightarrow> None)"

definition partnerType :: "Transaction \<Rightarrow> jstring" where
  "partnerType t = (if tx_txn_type t = ''sell'' then ''buy'' else ''sell'')"

definition delete_lines :: "Transaction \<Rightarrow> Transaction list \<Rightarrow> jstring list" where
  "delete_lines t allTransactions =
     [''This will mark the transaction deleted and recompute FIFO allocations.'']
     @ (if fifoPreview t \<noteq> [] then [fifoPreview t] else [])
     @ (case linkedTradeSymbol t allTransactions of
          Some s \<Rightarrow> [''Linked trade '' @ em_dash @ '' the paired '' @ partnerType t @ '' of '' @ s @ '' will also be deleted.'']
        | None \<Rightarrow> [])
     @ [''Soft-deleted transactions stay on file with full history but are excluded from analytics. Toggle''
        @ '' Show deleted in the ledger to view them.'']"

definition delete_call :: "Transaction \<Rightarrow> jstring \<times> jstring" where
  "delete_call t = (''DELETE'', ''/api/transactions/'' @ tx_id t)"

definition delete_effects :: "thrown + json option \<Rightarrow> form_effect list" where
  "delete_effects res =
     (case res of
        Inr _ \<Rightarrow> [ToastSuccess ''Transaction deleted.''] @ invalidatePortfolioCache @ [CallOnClose]
      | Inl e \<Rightarrow> [ToastError (''Could not delete transaction. '' @ message_text e @ ''.'')])"

datatype delete_event = CancelDelete | ConfirmDelete

definition delete_dialog :: "bool \<Rightarrow> Transaction option \<Rightarrow> Transaction list \<Rightarrow> delete_event ui list" where
  "delete_dialog is_pending txn allTransactions =
     (case txn of
        None \<Rightarrow> []
      | Some t \<Rightarrow>
          [Heading ''Delete this transaction?''] @ map Txt (delete_lines t allTransactions)
          @ [Control ''Cancel'' False CancelDelete,
             Control (if is_pending then ''Deleting...'' else ''Delete'') is_pending ConfirmDelete])"

section \<open>Partners of trades\<close>

text \<open>The reference: search the whole list for another row of the same pair.\<close>

definition partner_spec :: "Transaction list \<Rightarrow> Transaction \<Rightarrow> Transaction option" where
  "partner_spec rows r =
     (if pair_of r = None then None else find (\<lambda>t. tx_id t \<noteq> tx_id r \<and> pair_of t = pair_of r) rows)"

definition pair_rows :: "jstring \<Rightarrow> Transaction list \<Rightarrow> Transaction list" where
  "pair_rows p rows = filter (\<lambda>r. pair_of r = Some p) rows"

lemma pair_fold:
  "jm_wf (foldl pair_step [] rows)
    \<and> jm_get (foldl pair_step [] rows) p = (if pair_rows p rows = [] then None else Some (pair_rows p rows))"
proof (induction rows arbitrary: p rule: rev_induct)
  case (snoc r rows)
  have wf: "jm_wf (foldl pair_step [] rows)" using snoc by blast
  show ?case
  proof (cases "pair_of r")
    case None
    then show ?thesis using snoc by (simp add: pair_step_def pair_rows_def)
  next
    case (Some k)
    have get: "jm_get (foldl pair_step [] rows) k = (if pair_rows k rows = [] then None else Some (pair_rows k rows))"
      using snoc by blast
    then have step: "pair_step (foldl pair_step [] rows) r = jm_set k (pair_rows k rows @ [r]) (foldl pair_step [] rows)"
      using Some by (simp add: pair_step_def)
    show ?thesis using snoc.IH [of p] wf Some by (simp add: step) (auto simp: pair_rows_def)
  qed
qed (simp add: pair_rows_def)

lemma group_values:
  "g \<in> set (jm_values (foldl pair_step [] rows)) \<longleftrightarrow> (\<exists>p. g = pair_rows p rows \<and> g \<noteq> [])"
  using jm_values_get [OF conjunct1 [OF pair_fold], of g rows] pair_fold [of rows] by auto

definition partner_in :: "Transaction list \<Rightarrow> Transaction \<Rightarrow> Transaction option" where
  "partner_in g r = find (\<lambda>t. tx_id t \<noteq> tx_id r) g"

lemma partner_fold:
  assumes "distinct (map tx_id rs)"
  shows "jm_get (foldl (partner_step g) m rs) i =
    (case find (\<lambda>r. tx_id r = i) rs of
       Some r \<Rightarrow> (case partner_in g r of Some t \<Rightarrow> Some (tx_instrument_symbol t) | None \<Rightarrow> jm_get m i)
     | None \<Rightarrow> jm_get m i)"
  using assms
proof (induction rs arbitrary: m)
  case (Cons r rs)
  have "find (\<lambda>s. tx_id s = tx_id r) rs = None"
    using Cons.prems by (auto simp: find_None_iff) (metis image_eqI)
  then show ?case
    using Cons by (auto simp: partner_step_def partner_in_def split: option.splits)
qed simp

lemma find_filter: "find P (filter Q xs) = find (\<lambda>x. Q x \<and> P x) xs"
  by (induction xs) auto

lemma short_group: "length g < 2 \<Longrightarrow> r \<in> set g \<Longrightarrow> partner_in g r = None"
  by (cases g; cases "tl g") (auto simp: partner_in_def)

lemma group_partners_get:
  assumes "distinct (map tx_id g)" "r \<in> set g"
  shows "jm_get (group_partners m g) (tx_id r) =
    (case partner_in g r of Some t \<Rightarrow> Some (tx_instrument_symbol t) | None \<Rightarrow> jm_get m (tx_id r))"
proof -
  have "find (\<lambda>s. tx_id s = tx_id r) g = Some r"
    using assms by (induction g) auto
  then show ?thesis
    using assms short_group by (auto simp: group_partners_def partner_fold split: option.splits)
qed

lemma group_partners_other:
  assumes "distinct (map tx_id g)" "\<And>s. s \<in> set g \<Longrightarrow> tx_id s \<noteq> i"
  shows "jm_get (group_partners m g) i = jm_get m i"
proof -
  have "find (\<lambda>s. tx_id s = i) g = None" using assms(2) by (auto simp: find_None_iff)
  then show ?thesis using assms(1) by (simp add: group_partners_def partner_fold)
qed

lemma groups_fold:
  assumes "distinct gs" "\<And>g. g \<in> set gs \<Longrightarrow> distinct (map tx_id g)"
    and "\<And>g s. g \<in> set gs \<Longrightarrow> s \<in> set g \<Longrightarrow> tx_id s = tx_id r \<Longrightarrow> g = g0 \<and> s = r"
    and "g0 \<in> set gs" "r \<in> set g0"
  shows "jm_get (foldl group_partners m gs) (tx_id r) =
    (case partner_in g0 r of Some t \<Rightarrow> Some (tx_instrument_symbol t) | None \<Rightarrow> jm_get m (tx_id r))"
proof -
  have other: "jm_get (foldl group_partners m hs) (tx_id r) = jm_get m (tx_id r)"
    if "set hs \<subseteq> set gs" "g0 \<notin> set hs" for m hs
    using that
  proof (induction hs arbitrary: m)
    case (Cons h hs)
    have "tx_id s \<noteq> tx_id r" if "s \<in> set h" for s using assms(3) [of h s] that Cons.prems by auto
    then have "jm_get (group_partners m h) (tx_id r) = jm_get m (tx_id r)"
      using Cons.prems assms(2) [of h] by (intro group_partners_other) auto
    then show ?case using Cons by simp
  qed simp
  obtain as bs where gs: "gs = as @ g0 # bs" "g0 \<notin> set as" "g0 \<notin> set bs"
    using assms(1,4) by (metis distinct.simps(2) distinct_append not_distinct_conv_prefix split_list_first)
  have "jm_get (foldl group_partners m gs) (tx_id r)
      = jm_get (group_partners (foldl group_partners m as) g0) (tx_id r)"
    using other [of bs "group_partners (foldl group_partners m as) g0"] gs by auto
  also have "\<dots> = (case partner_in g0 r of Some t \<Rightarrow> Some (tx_instrument_symbol t)
      | None \<Rightarrow> jm_get (foldl group_partners m as) (tx_id r))"
    using assms(2,4,5) by (intro group_partners_get) auto
  also have "jm_get (foldl group_partners m as) (tx_id r) = jm_get m (tx_id r)"
    using other [of as m] gs by auto
  finally show ?thesis .
qed

lemma distinct_values: "distinct (jm_values (foldl pair_step [] rows))"
proof -
  let ?m = "foldl pair_step [] rows"
  have wf: "jm_wf ?m" using pair_fold by blast
  have "v = pair_rows k rows \<and> v \<noteq> []" if "(k, v) \<in> set ?m" for k v
  proof -
    have "jm_get ?m k = Some v" using that wf by (simp add: jm_get_def jm_wf_def)
    then show ?thesis using pair_fold [of rows k] by (auto split: if_splits)
  qed
  then have val: "v = pair_rows k rows" "v \<noteq> []" if "(k, v) \<in> set ?m" for k v using that by blast+
  have "inj_on snd (set ?m)"
  proof (rule inj_onI)
    fix x y assume xy: "x \<in> set ?m" "y \<in> set ?m" "snd x = snd y"
    obtain k v where x: "x = (k, v)" by (cases x)
    obtain l w where y: "y = (l, w)" by (cases y)
    have "v = pair_rows k rows" "v \<noteq> []" "v = pair_rows l rows"
      using val [of k v] val [of l w] xy by (auto simp: x y)
    then obtain t where "t \<in> set (pair_rows k rows)" "t \<in> set (pair_rows l rows)"
      by (metis last_in_set)
    then have "k = l" by (auto simp: pair_rows_def)
    then show "x = y" using xy by (simp add: x y)
  qed
  moreover have "distinct ?m" using wf by (simp add: jm_wf_def distinct_map)
  ultimately show ?thesis by (simp add: jm_values_def distinct_map)
qed

lemma tradePairSymbols_get:
  assumes "distinct (map tx_id rows)" "r \<in> set rows" "pair_of r = Some p"
  shows "jm_get (tradePairSymbols rows) (tx_id r) = map_option tx_instrument_symbol (partner_in (pair_rows p rows) r)"
proof -
  let ?gs = "jm_values (foldl pair_step [] rows)"
  have in_g: "r \<in> set (pair_rows p rows)" using assms by (simp add: pair_rows_def)
  have "jm_get (foldl group_partners [] ?gs) (tx_id r) =
    (case partner_in (pair_rows p rows) r of Some t \<Rightarrow> Some (tx_instrument_symbol t) | None \<Rightarrow> jm_get [] (tx_id r))"
  proof (rule groups_fold)
    show "distinct ?gs" by (rule distinct_values)
    show "distinct (map tx_id g)" if "g \<in> set ?gs" for g
    proof -
      obtain k where "g = pair_rows k rows" using \<open>g \<in> set ?gs\<close> group_values by blast
      then show ?thesis using assms(1) by (simp add: pair_rows_def distinct_map_filter)
    qed
    show "g = pair_rows p rows \<and> s = r" if "g \<in> set ?gs" "s \<in> set g" "tx_id s = tx_id r" for g s
    proof -
      obtain k where g: "g = pair_rows k rows" using \<open>g \<in> set ?gs\<close> group_values by blast
      then have s: "s \<in> set rows" "pair_of s = Some k" using \<open>s \<in> set g\<close> by (auto simp: pair_rows_def)
      then have "s = r" using assms(1,2) \<open>tx_id s = tx_id r\<close> by (auto simp: distinct_map inj_on_def)
      then show ?thesis using s assms(3) g by simp
    qed
    show "pair_rows p rows \<in> set ?gs" using group_values in_g by force
    show "r \<in> set (pair_rows p rows)" by (rule in_g)
  qed
  then show ?thesis by (simp add: tradePairSymbols_def split: option.split)
qed

text \<open>
  C22: The single pass finds the partner of every trade.  For rows with distinct ids the symbol shown
  beside a row is that of the first other row with the same pair id, as a search of the whole list
  for each row would find it, and rows without a pair or whose partner is not listed show none.
\<close>
theorem paired_symbol_spec:
  assumes "distinct (map tx_id rows)" and "r \<in> set rows"
  shows "pairedSymbol rows r = Option.bind (Option.bind (partner_spec rows r) tx_instrument_symbol) or_null"
proof (cases "pair_of r")
  case None
  then show ?thesis by (simp add: pairedSymbol_def partner_spec_def)
next
  case (Some p)
  have "partner_in (pair_rows p rows) r = partner_spec rows r"
    using Some by (simp add: partner_in_def pair_rows_def find_filter partner_spec_def conj_commute)
  then show ?thesis
    using Some tradePairSymbols_get [OF assms Some] by (cases "partner_spec rows r") (simp_all add: pairedSymbol_def)
qed


definition a_leg :: "jstring \<Rightarrow> jstring \<Rightarrow> jstring \<Rightarrow> jstring \<Rightarrow> Transaction" where
  "a_leg i ty sy q = \<lparr>tx_id = i, tx_txn_type = ty, tx_account_id = ''a1'', tx_account_name = None,
     tx_instrument_id = sy, tx_instrument_symbol = Some sy, tx_instrument_type = None, tx_display_decimals = None,
     tx_date = ''2024-05-03'', tx_quantity = q, tx_unit_price = Some ''10'', tx_price_currency = Some EUR,
     tx_fx_rate_to_eur = Some ''1'', tx_fee_eur = Some ''0'', tx_notes = None, tx_deleted_at = None,
     tx_trade_pair_id = Some ''p1'', tx_lot_alloc_count = None, tx_cost_basis_eur = None\<rparr>"

theorem paired_symbol_spec_witness:
  "pairedSymbol [a_leg ''1'' ''sell'' ''BTC'' ''-1'', a_leg ''2'' ''buy'' ''ETH'' ''12''] (a_leg ''2'' ''buy'' ''ETH'' ''12'')
    = Some ''BTC''"
  using paired_symbol_spec [of "[a_leg ''1'' ''sell'' ''BTC'' ''-1'', a_leg ''2'' ''buy'' ''ETH'' ''12'']"
      "a_leg ''2'' ''buy'' ''ETH'' ''12''"]
  by (simp add: a_leg_def partner_spec_def pair_of_def or_null_def)

section \<open>Editing\<close>

text \<open>The data the dialog has: the transaction once loaded, the lists, and the cached ledgers.\<close>

record edit_data =
  txnData :: "Transaction option"
  ed_loading :: bool
  accounts :: "Account list"
  instruments :: "Instrument list"
  cached_lists :: "Transaction list option list"

datatype dialog_mode = EditMode | CreateMode

definition symbolFor :: "Instrument list \<Rightarrow> jstring \<Rightarrow> jstring option \<Rightarrow> jstring" where
  "symbolFor ins i fallback = (case find (\<lambda>x. ins_id x = i) ins of Some x \<Rightarrow> ins_symbol x | None \<Rightarrow> nullish fallback [])"

definition account_name :: "Account list \<Rightarrow> jstring \<Rightarrow> jstring" where
  "account_name accs i = (case find (\<lambda>a. acc_id a = i) accs of Some a \<Rightarrow> acc_name a | None \<Rightarrow> i)"

definition isTrade :: "Transaction option \<Rightarrow> bool" where
  "isTrade d \<longleftrightarrow> (case d of Some t \<Rightarrow> tx_trade_pair_id t \<noteq> None | None \<Rightarrow> False)"

definition isAutoAccrual :: "Transaction option \<Rightarrow> bool" where
  "isAutoAccrual d \<longleftrightarrow> (case d of Some t \<Rightarrow> \<not> isTrade d \<and> isAutoAccrualYield t | None \<Rightarrow> False)"

definition isManualYield :: "Transaction option \<Rightarrow> bool" where
  "isManualYield d \<longleftrightarrow>
     (case d of Some t \<Rightarrow> \<not> isTrade d \<and> tx_txn_type t = ''yield'' \<and> \<not> isAutoAccrual d | None \<Rightarrow> False)"

definition isSpend :: "Transaction option \<Rightarrow> bool" where
  "isSpend d \<longleftrightarrow> (case d of Some t \<Rightarrow> \<not> isTrade d \<and> tx_txn_type t = ''spend'' | None \<Rightarrow> False)"

definition isBuy :: "Transaction option \<Rightarrow> bool" where
  "isBuy d \<longleftrightarrow> d \<noteq> None \<and> \<not> isTrade d \<and> \<not> isAutoAccrual d \<and> \<not> isManualYield d \<and> \<not> isSpend d"

text \<open>The other leg, searched in the cached lists one after the other.\<close>

fun find_partner :: "Transaction \<Rightarrow> Transaction list option list \<Rightarrow> Transaction option" where
  "find_partner t [] = None"
| "find_partner t (None # ls) = find_partner t ls"
| "find_partner t (Some txns # ls) =
     (case find (\<lambda>x. tx_trade_pair_id x = tx_trade_pair_id t \<and> tx_id x \<noteq> tx_id t) txns of
        Some p \<Rightarrow> Some p | None \<Rightarrow> find_partner t ls)"

definition pairedLeg :: "edit_data \<Rightarrow> Transaction option" where
  "pairedLeg d = (case txnData d of Some t \<Rightarrow> if isTrade (txnData d) then find_partner t (cached_lists d) else None | None \<Rightarrow> None)"

definition soldLeg :: "edit_data \<Rightarrow> Transaction option" where
  "soldLeg d =
     (case txnData d of None \<Rightarrow> None
      | Some t \<Rightarrow>
          if tx_txn_type t = ''sell'' then Some t
          else (case pairedLeg d of
                  Some p \<Rightarrow> if tx_txn_type p = ''sell'' then Some p
                            else if js_lt (str_to_number (tx_quantity t)) (Num 0) then Some t else Some p
                | None \<Rightarrow> if js_lt (str_to_number (tx_quantity t)) (Num 0) then Some t else None))"

definition receivedLeg :: "edit_data \<Rightarrow> Transaction option" where
  "receivedLeg d =
     (case txnData d of None \<Rightarrow> None
      | Some t \<Rightarrow>
          if tx_txn_type t = ''buy'' \<and> tx_trade_pair_id t \<noteq> None then Some t
          else (case pairedLeg d of
                  Some p \<Rightarrow> if tx_txn_type p = ''buy'' then Some p
                            else if js_lt (Num 0) (str_to_number (tx_quantity t)) then Some t else Some p
                | None \<Rightarrow> if js_lt (Num 0) (str_to_number (tx_quantity t)) then Some t else None))"

definition TITLE_BY_TYPE_EDIT :: "(jstring \<times> jstring) list" where
  "TITLE_BY_TYPE_EDIT =
     [(''buy'', ''Edit buy''), (''sell'', ''Edit sell''), (''spend'', ''Edit spend''), (''yield'', ''Edit yield'')]"

definition DESC_BY_TYPE_EDIT :: "(jstring \<times> jstring) list" where
  "DESC_BY_TYPE_EDIT =
     [(''buy'', ''Edits are recorded in history. Cost basis recalculates automatically.''),
      (''sell'', ''Edits are recorded in history. Cost basis recalculates automatically.''),
      (''spend'', ''Edits are recorded in history. Cost basis recalculates automatically.''),
      (''yield'', ''Edits are recorded in history.'')]"

definition dialog_title :: "dialog_mode \<Rightarrow> Transaction option \<Rightarrow> jstring" where
  "dialog_title m d =
     (if m = CreateMode then ''Add buy''
      else if isTrade d then ''Edit trade''
      else if isAutoAccrual d then ''Yield details''
      else case d of Some t \<Rightarrow> nullish (map_of TITLE_BY_TYPE_EDIT (tx_txn_type t)) ''Edit transaction''
           | None \<Rightarrow> ''Edit transaction'')"

definition dialog_description :: "dialog_mode \<Rightarrow> Transaction option \<Rightarrow> jstring option" where
  "dialog_description m d =
     (if m = CreateMode then Some ''Edits are recorded in history. Cost basis recalculates automatically.''
      else if isTrade d then Some ''Edits are recorded in history. FIFO recalculates on the sold leg.''
      else if isAutoAccrual d then None
      else case d of Some t \<Rightarrow> map_of DESC_BY_TYPE_EDIT (tx_txn_type t) | None \<Rightarrow> None)"

definition upper :: "char \<Rightarrow> char" where
  "upper c = (if 97 \<le> (of_char c :: nat) \<and> (of_char c :: nat) \<le> 122 then char_of ((of_char c :: nat) - 32) else c)"

definition capitalize :: "jstring \<Rightarrow> jstring" where
  "capitalize s = (case s of [] \<Rightarrow> [] | c # t \<Rightarrow> upper c # t)"

definition chipText :: "edit_data \<Rightarrow> jstring" where
  "chipText d =
     (case txnData d of None \<Rightarrow> []
      | Some t \<Rightarrow>
          js_join ('' '' @ middle_dot @ '' '')
            (filter (\<lambda>s. s \<noteq> [])
              [capitalize (tx_txn_type t), account_name (accounts d) (tx_account_id t),
               symbolFor (instruments d) (tx_instrument_id t) (tx_instrument_symbol t), tx_date t]))"

definition leg_chip :: "edit_data \<Rightarrow> Transaction \<Rightarrow> jstring" where
  "leg_chip d t =
     symbolFor (instruments d) (tx_instrument_id t) (tx_instrument_symbol t) @ '' '' @ middle_dot @ '' ''
     @ account_name (accounts d) (tx_account_id t)"

datatype chip_view = NewBuyChip | ChipSkeleton | TradeChips jstring jstring | TextChip jstring

definition chip :: "dialog_mode \<Rightarrow> edit_data \<Rightarrow> chip_view" where
  "chip m d =
     (if m = CreateMode then NewBuyChip
      else if txnData d = None then ChipSkeleton
      else case (isTrade (txnData d), soldLeg d, receivedLeg d) of
             (True, Some s, Some r) \<Rightarrow> TradeChips (leg_chip d s) (leg_chip d r)
           | (True, _, _) \<Rightarrow> ChipSkeleton
           | (False, _, _) \<Rightarrow> TextChip (chipText d))"

text \<open>What each form is opened with.\<close>

definition leg_initial :: "Transaction \<Rightarrow> LegValues" where
  "leg_initial t =
     \<lparr>lv_account_id = tx_account_id t, lv_instrument_id = tx_instrument_id t,
      lv_quantity = number_to_str (js_abs (str_to_number (tx_quantity t))),
      lv_unit_price = nullish (tx_unit_price t) [], lv_price_currency = nullish (tx_price_currency t) EUR,
      lv_fx_rate_to_eur = nullish (tx_fx_rate_to_eur t) []\<rparr>"

definition trade_initial :: "Transaction \<Rightarrow> Transaction \<Rightarrow> TradeInitial" where
  "trade_initial s r =
     \<lparr>init_values = \<lparr>sold = leg_initial s, received = leg_initial r, tr_date = tx_date s,
        tr_fee_eur = nullish (tx_fee_eur s) ''0'', tr_notes = nullish (tx_notes s) []\<rparr>,
      soldLegId = tx_id s, receivedLegId = tx_id r\<rparr>"

definition yield_initial :: "Transaction \<Rightarrow> YieldInitial" where
  "yield_initial t =
     \<lparr>yi_account_id = Some (tx_account_id t), yi_instrument_id = Some (tx_instrument_id t), yi_date = Some (tx_date t),
      yi_quantity = Some (tx_quantity t), yi_notes = Some (nullish (tx_notes t) [])\<rparr>"

definition spend_initial :: "Transaction \<Rightarrow> SpendInitial" where
  "spend_initial t =
     \<lparr>si_account_id = Some (tx_account_id t), si_instrument_id = Some (tx_instrument_id t), si_date = Some (tx_date t),
      si_quantity = Some (tx_quantity t), si_unit_price = tx_unit_price t,
      si_price_currency = Some (nullish (tx_price_currency t) EUR),
      si_fx_rate_to_eur = Some (nullish (tx_fx_rate_to_eur t) []), si_notes = Some (nullish (tx_notes t) [])\<rparr>"

definition buy_initial :: "Transaction \<Rightarrow> TxnInitial" where
  "buy_initial t =
     \<lparr>ti_account_id = Some (tx_account_id t), ti_instrument_id = Some (tx_instrument_id t), ti_txn_type = Some Buy,
      ti_date = Some (tx_date t), ti_quantity = Some (tx_quantity t), ti_unit_price = tx_unit_price t,
      ti_price_currency = Some (nullish (tx_price_currency t) EUR),
      ti_fx_rate_to_eur = Some (nullish (tx_fx_rate_to_eur t) []),
      ti_fee_eur = Some (nullish (tx_fee_eur t) ''0''), ti_notes = Some (nullish (tx_notes t) [])\<rparr>"

datatype dialog_body =
    BodySkeleton | BodyCreate | BodyNothing | BodyTrade TradeInitial | BodyBanner | BodyYield YieldInitial
  | BodySpend SpendInitial | BodyBuy TxnInitial

definition body :: "dialog_mode \<Rightarrow> edit_data \<Rightarrow> dialog_body" where
  "body m d =
     (if m = EditMode \<and> ed_loading d then BodySkeleton
      else if m = CreateMode then BodyCreate
      else case txnData d of None \<Rightarrow> BodyNothing
      | Some t \<Rightarrow>
          if isTrade (txnData d)
          then (case (soldLeg d, receivedLeg d) of (Some s, Some r) \<Rightarrow> BodyTrade (trade_initial s r) | _ \<Rightarrow> BodySkeleton)
          else if isAutoAccrual (txnData d) then BodyBanner
          else if isManualYield (txnData d) then BodyYield (yield_initial t)
          else if isSpend (txnData d) then BodySpend (spend_initial t)
          else if isBuy (txnData d) then BodyBuy (buy_initial t)
          else BodyNothing)"

datatype edit_kind = EditBuy | EditSpend | EditYield

definition edit_message :: "dialog_mode \<Rightarrow> edit_kind \<Rightarrow> success_payload \<Rightarrow> jstring" where
  "edit_message m k p =
     (let verb = (if m = CreateMode then ''created'' else ''updated'');
          tail = (case p of QtyPayload q s \<Rightarrow> q @ '' '' @ s | SpendPayload a c _ \<Rightarrow> a @ '' '' @ c
                  | TradePayload _ _ _ _ \<Rightarrow> [])
      in (case k of EditBuy \<Rightarrow> ''Buy '' | EditSpend \<Rightarrow> ''Spend '' | EditYield \<Rightarrow> ''Yield '')
         @ verb @ '' '' @ em_dash @ '' '' @ tail)"

definition edit_handleSuccess :: "dialog_mode \<Rightarrow> edit_kind \<Rightarrow> success_payload \<Rightarrow> form_effect list" where
  "edit_handleSuccess m k p = [ToastSuccess (edit_message m k p)] @ invalidatePortfolioCache @ [CallOnClose]"

definition apy_source_url :: "Transaction \<Rightarrow> jstring" where
  "apy_source_url t = ''/holdings/i/'' @ tx_instrument_id t @ ''?tab=apy&account='' @ tx_account_id t"

section \<open>What the edit dialog guarantees\<close>

lemma find_partner_Some:
  assumes "find_partner t ls = Some u"
  shows "tx_trade_pair_id u = tx_trade_pair_id t" "tx_id u \<noteq> tx_id t" "\<exists>l. Some l \<in> set ls \<and> u \<in> set l"
  using assms
proof (induction t ls rule: find_partner.induct)
  case (3 t txns ls)
  { case 1 then show ?case using 3 by (auto split: option.splits simp: find_Some_iff)
  next case 2 then show ?case using 3 by (auto split: option.splits simp: find_Some_iff)
  next case 3 then show ?case using "3.IH" by (fastforce split: option.splits simp: find_Some_iff) }
qed auto

lemma find_partner_unique:
  assumes "Some l \<in> set ls" "u \<in> set l" "tx_trade_pair_id u = tx_trade_pair_id t" "tx_id u \<noteq> tx_id t"
    and "\<And>l v. Some l \<in> set ls \<Longrightarrow> v \<in> set l \<Longrightarrow> tx_trade_pair_id v = tx_trade_pair_id t \<Longrightarrow> v = t \<or> v = u"
  shows "find_partner t ls = Some u"
proof (cases "find_partner t ls")
  case None
  then show ?thesis using assms(1-4)
  proof (induction t ls rule: find_partner.induct)
    case (3 t txns ls)
    show ?case
    proof (cases "txns = l")
      case True
      then show ?thesis using "3.prems" by (auto split: option.splits simp: find_None_iff)
    next
      case False
      then show ?thesis using 3 by (auto split: option.splits)
    qed
  qed auto
next
  case (Some v)
  then show ?thesis using find_partner_Some [OF Some] assms(5) by blast
qed

text \<open>
  The edit dialog opens the same trade from either leg.  When the cached lists hold both legs of
  a pair and no third row of it, opening the sold leg and opening the received leg give the trade
  form the same initial values, with the sale as the sold side and the purchase as the received
  side, under the same title.
\<close>
theorem edit_either_leg:
  assumes "tx_txn_type s = ''sell''" and "tx_txn_type b = ''buy''"
    and "tx_trade_pair_id s = Some p" and "tx_trade_pair_id b = Some p" and "tx_id s \<noteq> tx_id b"
    and "Some l \<in> set (cached_lists d)" and "s \<in> set l" and "b \<in> set l"
    and "\<And>l v. Some l \<in> set (cached_lists d) \<Longrightarrow> v \<in> set l \<Longrightarrow> tx_trade_pair_id v = Some p \<Longrightarrow> v = s \<or> v = b"
    and "\<not> ed_loading d"
  shows "body EditMode (d\<lparr>txnData := Some s\<rparr>) = BodyTrade (trade_initial s b)
    \<and> body EditMode (d\<lparr>txnData := Some b\<rparr>) = BodyTrade (trade_initial s b)
    \<and> dialog_title EditMode (Some s) = dialog_title EditMode (Some b)
    \<and> chip EditMode (d\<lparr>txnData := Some s\<rparr>) = chip EditMode (d\<lparr>txnData := Some b\<rparr>)"
proof -
  have sb: "find_partner s (cached_lists d) = Some b"
    using assms by (intro find_partner_unique [of l]) auto
  have bs: "find_partner b (cached_lists d) = Some s"
    using assms by (intro find_partner_unique [of l]) auto
  note defs = soldLeg_def receivedLeg_def pairedLeg_def isTrade_def assms(1-4,10) sb bs
  show ?thesis
    by (simp add: body_def dialog_title_def chip_def leg_chip_def defs)
qed

definition a_pair :: edit_data where
  "a_pair = \<lparr>txnData = None, ed_loading = False, accounts = [], instruments = [],
     cached_lists = [None, Some [a_leg ''1'' ''sell'' ''BTC'' ''-1'', a_leg ''2'' ''buy'' ''ETH'' ''12'']]\<rparr>"

theorem edit_either_leg_witness:
  "body EditMode (a_pair\<lparr>txnData := Some (a_leg ''2'' ''buy'' ''ETH'' ''12'')\<rparr>)
    = BodyTrade (trade_initial (a_leg ''1'' ''sell'' ''BTC'' ''-1'') (a_leg ''2'' ''buy'' ''ETH'' ''12''))"
proof -
  have 9: "v = a_leg ''1'' ''sell'' ''BTC'' ''-1'' \<or> v = a_leg ''2'' ''buy'' ''ETH'' ''12''"
    if "Some l \<in> set (cached_lists a_pair)" "v \<in> set l" for l v
    using that by (auto simp: a_pair_def)
  show ?thesis
    using edit_either_leg [of "a_leg ''1'' ''sell'' ''BTC'' ''-1''" "a_leg ''2'' ''buy'' ''ETH'' ''12''" "''p1''"
        "[a_leg ''1'' ''sell'' ''BTC'' ''-1'', a_leg ''2'' ''buy'' ''ETH'' ''12'']" a_pair] 9
    by (simp add: a_pair_def a_leg_def)
qed

text \<open>
  Exactly one branch applies to a loaded transaction: the order of the tests makes them disjoint.
\<close>

lemma edit_branches:
  "[isTrade (Some t), isAutoAccrual (Some t), isManualYield (Some t), isSpend (Some t), isBuy (Some t)]
    \<in> {[True, False, False, False, False], [False, True, False, False, False], [False, False, True, False, False],
       [False, False, False, True, False], [False, False, False, False, True]}"
proof -
  have "\<not> (tx_txn_type t = ''yield'' \<and> tx_txn_type t = ''spend'')" by auto
  moreover have "isAutoAccrualYield t \<Longrightarrow> tx_txn_type t = ''yield''" by (simp add: isAutoAccrualYield_def)
  ultimately show ?thesis
    by (cases "tx_trade_pair_id t"; cases "isAutoAccrualYield t"; cases "tx_txn_type t = ''yield''";
        cases "tx_txn_type t = ''spend''")
      (simp_all add: isTrade_def isAutoAccrual_def isManualYield_def isSpend_def isBuy_def)
qed

lemma edit_never_blank: "\<not> ed_loading d \<Longrightarrow> txnData d = Some t \<Longrightarrow> body EditMode d \<noteq> BodyNothing"
  using edit_branches [of t] by (auto simp: body_def split: option.splits)

text \<open>
  A trade whose partner is in no cached list shows the skeleton for as long as it stays that way.
\<close>

lemma edit_trade_unresolved:
  assumes "txnData d = Some t" "tx_trade_pair_id t \<noteq> None" "tx_txn_type t = ''sell''"
    and "find_partner t (cached_lists d) = None" "\<not> js_lt (Num 0) (str_to_number (tx_quantity t))" "\<not> ed_loading d"
  shows "body EditMode d = BodySkeleton"
  using assms by (simp add: body_def isTrade_def soldLeg_def receivedLeg_def pairedLeg_def split: option.split)

text \<open>
  Editing a spend.  Spends are stored with a negative quantity, and the dialog hands the stored
  quantity to the spend form as it is, so the quantity field starts with a minus sign and the form as
  opened does not pass its own validation, whatever else it holds.
\<close>
theorem spend_edit_rejected:
  assumes "txnData d = Some t" and "body EditMode d = BodySpend i"
    and "is_finite (str_to_number (tx_quantity t))" and "js_lt (str_to_number (tx_quantity t)) (Num 0)"
  shows "\<exists>errs. spend_schema too_big (spend_defaults today i) = Inl errs
    \<and> (''quantity'', ''Enter a valid number'') \<in> set errs"
proof -
  have q: "si_quantity i = Some (tx_quantity t)"
    using assms(1,2) by (auto simp: body_def spend_initial_def split: if_splits option.splits)
  have ne: "tx_quantity t \<noteq> []"
  proof
    assume "tx_quantity t = []"
    moreover have "str_to_number [] = Num 0" by code_simp
    ultimately show False using assms(4) by simp
  qed
  obtain x where x: "str_to_number (tx_quantity t) = Num x" "x < 0"
    using assms(3,4) by (cases "str_to_number (tx_quantity t)") auto
  have "formatQuantity (SStr (tx_quantity t)) 8 = ''-'' @ fixed_text 0 8 (- x)"
    using x by (simp add: formatQuantity_def intl_decimal_def sign_auto_def)
  then have "\<not> decimal_shape (quantity_default (Some (tx_quantity t)))"
    using ne by (simp add: quantity_default_def or_null_def decimal_shape_def span_digits_def is_digit_def)
  then have "check_decimal ''quantity'' (sv_quantity (spend_defaults today i)) = [(''quantity'', ''Enter a valid number'')]"
    by (simp add: check_decimal_def decimalField_def spend_defaults_def q)
  then show ?thesis by (simp add: spend_schema_def Let_def)
qed

definition loaded_spend :: edit_data where
  "loaded_spend = a_pair\<lparr>txnData := Some (a_leg ''3'' ''spend'' ''EUR'' ''-5'' \<lparr>tx_trade_pair_id := None\<rparr>)\<rparr>"

theorem spend_edit_rejected_witness:
  "\<exists>errs. spend_schema '''' (spend_defaults ''2024-05-03'' (spend_initial (the (txnData loaded_spend)))) = Inl errs
    \<and> (''quantity'', ''Enter a valid number'') \<in> set errs"
proof -
  let ?t = "a_leg ''3'' ''spend'' ''EUR'' ''-5'' \<lparr>tx_trade_pair_id := None\<rparr>"
  have "txnData loaded_spend = Some ?t" by (simp add: loaded_spend_def)
  moreover have "body EditMode loaded_spend = BodySpend (spend_initial ?t)"
    by (simp add: loaded_spend_def a_pair_def a_leg_def body_def isTrade_def isAutoAccrual_def isManualYield_def isSpend_def
        isAutoAccrualYield_def)
  moreover have "str_to_number (tx_quantity ?t) = Num (- 5)" by (simp add: a_leg_def) code_simp
  ultimately show ?thesis
    using spend_edit_rejected [of loaded_spend ?t "spend_initial ?t" "''''" "''2024-05-03''"] by simp
qed

end
