(* ===== verification/Instruments.thy ===== *)
theory Instruments
  imports FormKit View
begin

text \<open>
  Instruments: where prices come from (\<open>lib/instrument-eligibility.ts\<close>), creating one
  (\<open>CreateInstrumentForm.tsx\<close>, \<open>useCreateInstrument.ts\<close>), editing one
  (\<open>InstrumentForm.tsx\<close>, \<open>InstrumentFormDialog.tsx\<close>, \<open>useUpdateInstrument.ts\<close>), the list
  (\<open>InstrumentList.tsx\<close>) and fetching price history (\<open>Backfill*.tsx\<close>).
\<close>

section \<open>Price sources\<close>

datatype InstrumentType = Stock | Etf | Fund | Crypto | Stablecoin | Cash | Metal

datatype PriceSource = Finnhub | Coingecko | Ft | Manual | Na

datatype price_mode = AutomaticMode | ManualMode

definition INSTRUMENT_TYPES :: "InstrumentType list" where
  "INSTRUMENT_TYPES = [Stock, Etf, Fund, Crypto, Stablecoin, Cash, Metal]"

definition PRICE_SOURCES :: "PriceSource list" where
  "PRICE_SOURCES = [Finnhub, Coingecko, Ft, Manual, Na]"

definition type_text :: "InstrumentType \<Rightarrow> jstring" where
  "type_text t =
     (case t of Stock \<Rightarrow> ''stock'' | Etf \<Rightarrow> ''etf'' | Fund \<Rightarrow> ''fund'' | Crypto \<Rightarrow> ''crypto''
      | Stablecoin \<Rightarrow> ''stablecoin'' | Cash \<Rightarrow> ''cash'' | Metal \<Rightarrow> ''metal'')"

definition source_text :: "PriceSource \<Rightarrow> jstring" where
  "source_text s =
     (case s of Finnhub \<Rightarrow> ''finnhub'' | Coingecko \<Rightarrow> ''coingecko'' | Ft \<Rightarrow> ''ft'' | Manual \<Rightarrow> ''manual''
      | Na \<Rightarrow> ''na'')"

definition canHaveManualNav :: "jstring \<Rightarrow> bool" where
  "canHaveManualNav price_source \<longleftrightarrow> price_source = ''manual'' \<or> price_source = ''ft''"

definition canHaveApy :: "jstring \<Rightarrow> bool" where
  "canHaveApy instrument_type \<longleftrightarrow>
     instrument_type = ''cash'' \<or> instrument_type = ''stablecoin'' \<or> instrument_type = ''crypto''"

definition AUTOMATIC_SOURCE_BY_TYPE :: "InstrumentType \<Rightarrow> PriceSource option" where
  "AUTOMATIC_SOURCE_BY_TYPE t =
     (case t of Stock \<Rightarrow> Some Finnhub | Etf \<Rightarrow> Some Finnhub | Fund \<Rightarrow> Some Ft | Crypto \<Rightarrow> Some Coingecko
      | Stablecoin \<Rightarrow> Some Coingecko | Cash \<Rightarrow> Some Na | Metal \<Rightarrow> None)"

definition automaticSourceFor :: "InstrumentType \<Rightarrow> PriceSource option" where
  "automaticSourceFor t = AUTOMATIC_SOURCE_BY_TYPE t"

text \<open>Which of the two modes the form offers: automatic, manual.\<close>

definition priceModeOptionsFor :: "InstrumentType \<Rightarrow> bool \<times> bool" where
  "priceModeOptionsFor t =
     (if t = Cash then (True, False) else if t = Metal then (False, True) else (True, True))"

definition resolvePriceSource :: "InstrumentType \<Rightarrow> price_mode \<Rightarrow> jstring + PriceSource" where
  "resolvePriceSource t mode =
     (if mode = AutomaticMode
      then (case AUTOMATIC_SOURCE_BY_TYPE t of
              None \<Rightarrow> Inl (type_text t @ '' has no automatic price source'')
            | Some s \<Rightarrow> Inr s)
      else if t = Cash then Inl ''cash has no manual mode'' else Inr Manual)"

definition mode_offered :: "InstrumentType \<Rightarrow> price_mode \<Rightarrow> bool" where
  "mode_offered t mode \<longleftrightarrow>
     (case mode of AutomaticMode \<Rightarrow> fst (priceModeOptionsFor t) | ManualMode \<Rightarrow> snd (priceModeOptionsFor t))"

text \<open>The edit form works on the texts of the server; a type it does not know has manual prices.\<close>

definition type_of_text :: "jstring \<Rightarrow> InstrumentType option" where
  "type_of_text s = find (\<lambda>t. type_text t = s) INSTRUMENT_TYPES"

definition allowedSourcesFor :: "jstring \<Rightarrow> PriceSource list" where
  "allowedSourcesFor s =
     (if s = ''cash'' then [Na]
      else if s = ''metal'' then [Manual]
      else case Option.bind (type_of_text s) AUTOMATIC_SOURCE_BY_TYPE of
             Some auto \<Rightarrow> [auto, Manual] | None \<Rightarrow> [Manual])"

lemma type_texts [simp]:
  "type_of_text (type_text t) = Some t" "type_text t = type_text u \<longleftrightarrow> t = u"
  by (cases t; cases u; simp add: type_of_text_def type_text_def INSTRUMENT_TYPES_def)+

lemma source_texts [simp]: "source_text s = source_text u \<longleftrightarrow> s = u"
  by (cases s; cases u; simp add: source_text_def)

lemmas price_rules = resolvePriceSource_def mode_offered_def priceModeOptionsFor_def AUTOMATIC_SOURCE_BY_TYPE_def
  allowedSourcesFor_def automaticSourceFor_def

lemma known_types: "t \<in> set INSTRUMENT_TYPES"
  by (cases t) (simp_all add: INSTRUMENT_TYPES_def)

text \<open>
  The two forms agree on where prices may come from.  For every type, the mode buttons of the
  create form are those that resolve to a source, and the sources they resolve to are the ones the
  edit form lists for that type.
\<close>
lemma source_rules_agree:
  "(mode_offered t mode \<longleftrightarrow> (\<exists>s. resolvePriceSource t mode = Inr s))
    \<and> (s \<in> set (allowedSourcesFor (type_text t)) \<longleftrightarrow> (\<exists>mode. resolvePriceSource t mode = Inr s))"
proof -
  have "(\<exists>mode. resolvePriceSource t mode = Inr s)
      \<longleftrightarrow> resolvePriceSource t AutomaticMode = Inr s \<or> resolvePriceSource t ManualMode = Inr s"
    by (metis price_mode.exhaust)
  moreover have "mode_offered t mode \<longleftrightarrow> (\<exists>s. resolvePriceSource t mode = Inr s)"
    by (cases t; cases mode) (simp_all add: price_rules)
  moreover have "s \<in> set (allowedSourcesFor (type_text t))
      \<longleftrightarrow> resolvePriceSource t AutomaticMode = Inr s \<or> resolvePriceSource t ManualMode = Inr s"
    by (cases t) (auto simp: price_rules type_text_def type_of_text_def INSTRUMENT_TYPES_def)
  ultimately show ?thesis by blast
qed

section \<open>Creating an instrument\<close>

definition PROVIDER_LABEL :: "PriceSource \<Rightarrow> jstring" where
  "PROVIDER_LABEL s =
     (case s of Finnhub \<Rightarrow> ''Finnhub'' | Coingecko \<Rightarrow> ''CoinGecko'' | Ft \<Rightarrow> ''FT.com'' | Manual \<Rightarrow> ''Manual''
      | Na \<Rightarrow> ''N/A'')"

definition providerLabel :: "PriceSource option \<Rightarrow> jstring" where
  "providerLabel s = (case s of None \<Rightarrow> ''Manual'' | Some x \<Rightarrow> PROVIDER_LABEL x)"

record CreateValues =
  cv_symbol :: jstring
  cv_name :: jstring
  cv_instrument_type :: InstrumentType
  cv_base_currency :: jstring
  cv_price_mode :: price_mode
  cv_initial_price :: jstring
  cv_ticker_override :: jstring
  cv_display_decimals :: jstring

record InstrumentResponse =
  ir_id :: jstring
  ir_symbol :: jstring
  ir_name :: jstring
  ir_instrument_type :: jstring
  ir_base_currency :: jstring
  ir_price_source :: jstring
  ir_risk_level :: jstring
  ir_ticker_override :: "jstring option"
  ir_display_decimals :: "nat option"

text \<open>\<open>Number.isInteger(n) && n >= 0 && n <= 12\<close>.\<close>

definition decimals_ok :: "jsnum \<Rightarrow> bool" where
  "decimals_ok n = (case n of Num q \<Rightarrow> of_int \<lfloor>q\<rfloor> = q \<and> 0 \<le> q \<and> q \<le> 12 | NegZero \<Rightarrow> True | _ \<Rightarrow> False)"

definition price_field :: "jstring \<Rightarrow> jstring + jstring" where
  "price_field s = decimalField True (Some ''Use a positive number, e.g. 13.00'') s"

text \<open>
  The schema.  \<open>too_long\<close> is the library's message for a limit, and \<open>union_error\<close> what it reports
  when neither case of the price fits, given the message of the first.
\<close>

definition create_schema ::
  "(nat \<Rightarrow> jstring) \<Rightarrow> (jstring \<Rightarrow> jstring) \<Rightarrow> CreateValues \<Rightarrow> field_error list + CreateValues" where
  "create_schema too_long union_error v =
     (let sy = js_trim (cv_symbol v); nm = js_trim (cv_name v); cur = js_trim (cv_base_currency v);
          tick = js_trim (cv_ticker_override v); dd = js_trim (cv_display_decimals v);
          errs = check ''symbol'' ''Required'' (sy \<noteq> []) @ check ''symbol'' (too_long 32) (js_length sy \<le> 32)
            @ check ''name'' ''Required'' (nm \<noteq> []) @ check ''name'' (too_long 120) (js_length nm \<le> 120)
            @ check ''base_currency'' ''Required'' (cur \<noteq> []) @ check ''base_currency'' (too_long 8) (js_length cur \<le> 8)
            @ (case price_field (cv_initial_price v) of
                 Inr _ \<Rightarrow> [] | Inl m \<Rightarrow> check ''initial_price'' (union_error m) (cv_initial_price v = []))
            @ check ''ticker_override'' (too_long 64) (js_length tick \<le> 64)
            @ check ''display_decimals'' (too_long 3) (js_length dd \<le> 3)
            @ check ''display_decimals'' ''Must be an integer between 0 and 12''
                (dd = [] \<or> decimals_ok (str_to_number dd))
      in if errs \<noteq> [] then Inl errs
         else Inr (v\<lparr>cv_symbol := sy, cv_name := nm, cv_base_currency := cur,
           cv_initial_price := (case price_field (cv_initial_price v) of Inr p \<Rightarrow> p | Inl _ \<Rightarrow> cv_initial_price v),
           cv_ticker_override := tick, cv_display_decimals := dd\<rparr>))"

definition optional_text :: "jstring \<Rightarrow> json option" where
  "optional_text s = (if s = [] then None else Some (JStr s))"

definition optional_number :: "jstring \<Rightarrow> json option" where
  "optional_number s = (if s = [] then None else Some (JNum (str_to_number s)))"

definition create_instrument_call :: "CreateValues \<Rightarrow> PriceSource \<Rightarrow> api_call" where
  "create_instrument_call v src =
     \<lparr>call_method = ''POST'', call_path = ''/api/instruments'',
      call_body = json_obj
        [(''symbol'', Some (JStr (cv_symbol v))), (''name'', Some (JStr (cv_name v))),
         (''instrument_type'', Some (JStr (type_text (cv_instrument_type v)))),
         (''base_currency'', Some (JStr (cv_base_currency v))),
         (''price_source'', Some (JStr (source_text src))),
         (''ticker_override'', optional_text (cv_ticker_override v)),
         (''display_decimals'', optional_number (cv_display_decimals v))]\<rparr>"

definition price_call :: "jstring \<Rightarrow> InstrumentResponse \<Rightarrow> CreateValues \<Rightarrow> api_call" where
  "price_call today inst v =
     \<lparr>call_method = ''POST'', call_path = ''/api/prices/manual'',
      call_body = JObj
        [(''instrument_id'', JStr (ir_id inst)), (''date'', JStr today), (''price'', JStr (cv_initial_price v)),
         (''currency'', JStr (cv_base_currency v)), (''note'', JNull)]\<rparr>"

text \<open>The cached list: a new instrument is added at once unless it is there, then refetched.\<close>

definition cache_created :: "InstrumentResponse \<Rightarrow> InstrumentResponse list option \<Rightarrow> InstrumentResponse list option" where
  "cache_created inst old =
     (case old of None \<Rightarrow> Some [inst]
      | Some xs \<Rightarrow> if list_ex (\<lambda>i. ir_id i = ir_id inst) xs then old else Some (xs @ [inst]))"

datatype create_effect = InvalidateKey "jstring list" | CreatedInstrument InstrumentResponse

text \<open>
  \<open>cs_pending\<close> are the values of the creation in flight, \<open>cs_pricing\<close> the first prices in flight:
  the button is disabled by the former only.
\<close>

record create_state =
  cs_values :: CreateValues
  cs_errors :: "field_error list"
  cs_serverError :: "jstring option"
  cs_pending :: "CreateValues option"
  cs_pricing :: "InstrumentResponse list"
  cs_cache :: "InstrumentResponse list option"
  cs_calls :: "api_call list"
  cs_effects :: "create_effect list"

definition create_defaults :: CreateValues where
  "create_defaults =
     \<lparr>cv_symbol = [], cv_name = [], cv_instrument_type = Stock, cv_base_currency = ''EUR'',
      cv_price_mode = AutomaticMode, cv_initial_price = [], cv_ticker_override = [], cv_display_decimals = []\<rparr>"

definition create_open :: "InstrumentResponse list option \<Rightarrow> create_state" where
  "create_open cached =
     \<lparr>cs_values = create_defaults, cs_errors = [], cs_serverError = None, cs_pending = None, cs_pricing = [],
      cs_cache = cached, cs_calls = [], cs_effects = []\<rparr>"

text \<open>Another type resets the mode, in an effect that runs before the next event.\<close>

definition choose_type :: "InstrumentType \<Rightarrow> create_state \<Rightarrow> create_state" where
  "choose_type t st =
     (let v = cs_values st; (auto, man) = priceModeOptionsFor t;
          m = (if auto then AutomaticMode else if man then ManualMode else cv_price_mode v)
      in if t = cv_instrument_type v then st
         else st\<lparr>cs_values := v\<lparr>cv_instrument_type := t, cv_price_mode := m\<rparr>\<rparr>)"

definition show_toggle :: "create_state \<Rightarrow> bool" where
  "show_toggle st = (let (auto, man) = priceModeOptionsFor (cv_instrument_type (cs_values st)) in auto \<and> man)"

definition choose_mode :: "price_mode \<Rightarrow> create_state \<Rightarrow> create_state" where
  "choose_mode m st = st\<lparr>cs_values := (cs_values st)\<lparr>cv_price_mode := m\<rparr>\<rparr>"

definition press_save :: "(nat \<Rightarrow> jstring) \<Rightarrow> (jstring \<Rightarrow> jstring) \<Rightarrow> create_state \<Rightarrow> create_state" where
  "press_save too_long union_error st =
     (case create_schema too_long union_error (cs_values st) of
        Inl errs \<Rightarrow> st\<lparr>cs_errors := errs\<rparr>
      | Inr v \<Rightarrow>
          (case resolvePriceSource (cv_instrument_type v) (cv_price_mode v) of
             Inl m \<Rightarrow> st\<lparr>cs_errors := [], cs_serverError := Some m\<rparr>
           | Inr src \<Rightarrow>
               st\<lparr>cs_errors := [], cs_serverError := None, cs_pending := Some v,
                  cs_calls := cs_calls st @ [create_instrument_call v src]\<rparr>))"

definition create_settles :: "jstring \<Rightarrow> thrown + InstrumentResponse \<Rightarrow> create_state \<Rightarrow> create_state" where
  "create_settles today res st =
     (case cs_pending st of
        None \<Rightarrow> st
      | Some v \<Rightarrow>
          (case res of
             Inl err \<Rightarrow> st\<lparr>cs_pending := None,
               cs_serverError := Some (extractApiErrorMessage err ''Could not create instrument.'')\<rparr>
           | Inr inst \<Rightarrow>
               let st = st\<lparr>cs_pending := None, cs_cache := cache_created inst (cs_cache st),
                 cs_effects := cs_effects st @ [InvalidateKey [''instruments'']]\<rparr>
               in if cv_price_mode v = ManualMode \<and> cv_initial_price v \<noteq> []
                  then st\<lparr>cs_pricing := cs_pricing st @ [inst], cs_calls := cs_calls st @ [price_call today inst v]\<rparr>
                  else st\<lparr>cs_effects := cs_effects st @ [CreatedInstrument inst]\<rparr>))"

definition price_settles :: "nat \<Rightarrow> thrown + unit \<Rightarrow> create_state \<Rightarrow> create_state" where
  "price_settles k res st =
     (if length (cs_pricing st) \<le> k then st
      else let inst = cs_pricing st ! k;
               st = st\<lparr>cs_pricing := take k (cs_pricing st) @ drop (Suc k) (cs_pricing st)\<rparr>
           in (case res of
                 Inl err \<Rightarrow> st\<lparr>cs_serverError :=
                   Some (nullish (error_message err) ''Instrument created, but the price could not be saved.'')\<rparr>
               | Inr _ \<Rightarrow> st\<lparr>cs_effects := cs_effects st @ [InvalidateKey [''nav-history'', ir_id inst]]
                   @ map (\<lambda>k. InvalidateKey [k]) PORTFOLIO_CACHE_KEYS @ [CreatedInstrument inst]\<rparr>))"

datatype create_event = ChooseMode price_mode | SaveInstrument | CancelCreate

definition create_view :: "create_state \<Rightarrow> create_event ui list" where
  "create_view st =
     (let v = cs_values st; errs = cs_errors st; t = cv_instrument_type v
      in [Input ''Symbol'' (cv_symbol v) False False] @ field_alert errs ''symbol''
       @ [Input ''Name'' (cv_name v) False False] @ field_alert errs ''name''
       @ [Choice ''Type'' (type_text t) (map (\<lambda>t. (type_text t, instrumentTypeLabel (type_text t))) INSTRUMENT_TYPES) False]
       @ field_alert errs ''instrument_type''
       @ [Input ''Base currency'' (cv_base_currency v) False False] @ field_alert errs ''base_currency''
       @ [Txt ''Pricing'']
       @ (if show_toggle st
          then [Control (''Automatic ('' @ providerLabel (automaticSourceFor t) @ '')'') False (ChooseMode AutomaticMode),
                Control ''Manual'' False (ChooseMode ManualMode)]
          else [Txt (if t = Cash then ''Cash holdings have no price (quantity in base currency).''
                     else ''Metal prices must be entered manually.'')])
       @ field_alert errs ''price_mode''
       @ only_if (cv_price_mode v = ManualMode)
           ([Input (''Initial NAV / price (optional)''
               @ (if cv_base_currency v \<noteq> [] then '' ('' @ cv_base_currency v @ '')'' else []))
               (cv_initial_price v) False False] @ field_alert errs ''initial_price'')
       @ [Input ''Ticker override (optional)'' (cv_ticker_override v) False False] @ field_alert errs ''ticker_override''
       @ [Input ''Display decimals (optional)'' (cv_display_decimals v) False False] @ field_alert errs ''display_decimals''
       @ (case cs_serverError st of Some m \<Rightarrow> [Alert m] | None \<Rightarrow> [])
       @ [Control (if cs_pending st \<noteq> None then ''Saving...'' else ''Save instrument'') (cs_pending st \<noteq> None) SaveInstrument,
          Control ''Cancel'' False CancelCreate])"

section \<open>What the create form guarantees\<close>

inductive create_step ::
  "(nat \<Rightarrow> jstring) \<Rightarrow> (jstring \<Rightarrow> jstring) \<Rightarrow> jstring \<Rightarrow> create_state \<Rightarrow> create_state \<Rightarrow> bool"
  for too_long union_error today where
  types: "v' = (cs_values st)\<lparr>cv_symbol := a, cv_name := b, cv_base_currency := c, cv_initial_price := p,
      cv_ticker_override := t, cv_display_decimals := d\<rparr> \<Longrightarrow>
    create_step too_long union_error today st (st\<lparr>cs_values := v'\<rparr>)"
| chooses_type: "create_step too_long union_error today st (choose_type t st)"
| chooses_mode: "ChooseMode m \<in> set (on_offer (create_view st)) \<Longrightarrow>
    create_step too_long union_error today st (choose_mode m st)"
| saves: "SaveInstrument \<in> set (on_offer (create_view st)) \<Longrightarrow>
    create_step too_long union_error today st (press_save too_long union_error st)"
| created: "cs_pending st \<noteq> None \<Longrightarrow> create_step too_long union_error today st (create_settles today res st)"
| priced: "create_step too_long union_error today st (price_settles k ans st)"

inductive create_reach ::
  "(nat \<Rightarrow> jstring) \<Rightarrow> (jstring \<Rightarrow> jstring) \<Rightarrow> jstring \<Rightarrow> create_state \<Rightarrow> bool"
  for too_long union_error today where
  init: "create_reach too_long union_error today (create_open cached)"
| step: "create_reach too_long union_error today st \<Longrightarrow> create_step too_long union_error today st st' \<Longrightarrow>
    create_reach too_long union_error today st'"

text \<open>A creation request the backend's rule on types and sources accepts.\<close>

definition source_fits :: "api_call \<Rightarrow> bool" where
  "source_fits c \<longleftrightarrow>
     (call_path c = ''/api/instruments'' \<longrightarrow>
       (\<exists>t s. s \<in> set (allowedSourcesFor (type_text t))
         \<and> member ''instrument_type'' (call_body c) = Some (JStr (type_text t))
         \<and> member ''price_source'' (call_body c) = Some (JStr (source_text s))))"

definition create_inv :: "create_state \<Rightarrow> bool" where
  "create_inv st \<longleftrightarrow>
     mode_offered (cv_instrument_type (cs_values st)) (cv_price_mode (cs_values st))
     \<and> (\<forall>c \<in> set (cs_calls st). source_fits c)"

lemma create_call_fits:
  assumes "resolvePriceSource (cv_instrument_type v) m = Inr src"
  shows "source_fits (create_instrument_call v src)"
proof -
  have "src \<in> set (allowedSourcesFor (type_text (cv_instrument_type v)))"
    using source_rules_agree [of "cv_instrument_type v" m src] assms by blast
  moreover have "member ''instrument_type'' (call_body (create_instrument_call v src))
      = Some (JStr (type_text (cv_instrument_type v)))"
    "member ''price_source'' (call_body (create_instrument_call v src)) = Some (JStr (source_text src))"
    by (cases "optional_text (cv_ticker_override v)"; cases "optional_number (cv_display_decimals v)";
        simp add: create_instrument_call_def json_obj_def member_def List.map_filter_simps)+
  ultimately show ?thesis by (auto simp: source_fits_def)
qed

lemma schema_keeps:
  assumes "create_schema too_long union_error v = Inr w"
  shows "cv_instrument_type w = cv_instrument_type v" "cv_price_mode w = cv_price_mode v"
  using assms by (auto simp: create_schema_def Let_def split: if_splits)

lemma toggle_modes: "show_toggle st \<Longrightarrow> mode_offered (cv_instrument_type (cs_values st)) m"
  by (auto simp: show_toggle_def mode_offered_def split: price_mode.splits)

lemma press_save_inv:
  assumes "create_inv st"
  shows "create_inv (press_save too_long union_error st)"
proof (cases "create_schema too_long union_error (cs_values st)")
  case (Inr w)
  note keeps = schema_keeps [OF Inr]
  show ?thesis
  proof (cases "resolvePriceSource (cv_instrument_type w) (cv_price_mode w)")
    case (Inr src)
    then have "source_fits (create_instrument_call w src)" by (rule create_call_fits)
    then show ?thesis using assms \<open>create_schema _ _ _ = Inr w\<close> Inr by (auto simp: create_inv_def press_save_def)
  qed (use assms Inr in \<open>auto simp: create_inv_def press_save_def\<close>)
qed (use assms in \<open>auto simp: create_inv_def press_save_def\<close>)

lemma settle_inv:
  assumes "create_inv st"
  shows "create_inv (create_settles today res st)" "create_inv (price_settles k ans st)"
proof -
  have price: "source_fits (price_call today inst v)" for inst v
    by (simp add: source_fits_def price_call_def)
  show "create_inv (create_settles today res st)"
    using assms price by (auto simp: create_inv_def create_settles_def Let_def split: option.splits sum.splits)
  show "create_inv (price_settles k ans st)"
    using assms by (auto simp: create_inv_def price_settles_def Let_def split: sum.splits)
qed

lemma choose_inv:
  assumes "create_inv st"
  shows "create_inv (choose_type t st)"
  using assms by (cases t) (auto simp: create_inv_def choose_type_def priceModeOptionsFor_def mode_offered_def Let_def)

lemma offered_modes: "ChooseMode m \<in> set (on_offer (create_view st)) \<Longrightarrow> show_toggle st"
  by (auto simp: create_view_def ui_simps Let_def split: if_splits option.splits)

lemma create_step_inv:
  assumes "create_step too_long union_error today st st'" "create_inv st"
  shows "create_inv st'"
  using assms(1)
proof (cases rule: create_step.cases)
  case (types v' a b c p t d)
  then show ?thesis using assms(2) by (simp add: create_inv_def)
next
  case (chooses_mode m)
  then show ?thesis using assms(2) toggle_modes [of st m] offered_modes [of m st]
    by (simp add: create_inv_def choose_mode_def)
qed (use assms(2) in \<open>simp_all add: press_save_inv settle_inv choose_inv\<close>)

lemma create_reach_inv: "create_reach too_long union_error today st \<Longrightarrow> create_inv st"
proof (induction rule: create_reach.induct)
  case (init cached)
  then show ?case
    by (simp add: create_inv_def create_open_def create_defaults_def mode_offered_def priceModeOptionsFor_def)
qed (rule create_step_inv)

text \<open>
  C23: The create form never asks for a source its type does not allow.  However the user types,
  switches types and modes, saves and retries, and whatever the server answers, every instrument
  that is posted has a source the rules list for its type, and the mode on screen is one the type
  has, so resolving the source cannot fail.
\<close>
theorem create_sources_valid:
  assumes "create_reach too_long union_error today st"
  shows "(\<exists>s. resolvePriceSource (cv_instrument_type (cs_values st)) (cv_price_mode (cs_values st)) = Inr s)
    \<and> (\<forall>c. c \<in> set (cs_calls st) \<longrightarrow> source_fits c)"
  using create_reach_inv [OF assms] source_rules_agree by (auto simp: create_inv_def)

lemma create_message: "press_save too_long union_error st = (case create_schema too_long union_error (cs_values st) of
    Inl errs \<Rightarrow> st\<lparr>cs_errors := errs\<rparr>
  | Inr w \<Rightarrow> (case resolvePriceSource (cv_instrument_type w) (cv_price_mode w) of
      Inl m \<Rightarrow> st\<lparr>cs_errors := [], cs_serverError := Some m\<rparr>
    | Inr src \<Rightarrow> st\<lparr>cs_errors := [], cs_serverError := None, cs_pending := Some w,
        cs_calls := cs_calls st @ [create_instrument_call w src]\<rparr>))"
  by (simp add: press_save_def)

text \<open>
  A first price that fails is not retried.  After the instrument was created and writing its
  price failed, the form stays open with its values, and saving again posts the creation of the same
  instrument a second time; no further request for the price is made.
\<close>
theorem price_retry_creates_again:
  assumes "create_schema too_long union_error (cs_values st) = Inr v" and "resolvePriceSource (cv_instrument_type v) ManualMode = Inr src"
    and "cv_price_mode v = ManualMode" and "cv_initial_price v \<noteq> []"
    and "cs_pending st = Some v" and "cs_pricing st = []"
    and "st2 = price_settles 0 (Inl err) (create_settles today (Inr inst) st)"
  shows "cs_calls (press_save too_long union_error st2)
      = cs_calls st @ [price_call today inst v, create_instrument_call v src]
    \<and> cs_values st2 = cs_values st \<and> cs_effects st2 = cs_effects st @ [InvalidateKey [''instruments'']]
    \<and> SaveInstrument \<in> set (on_offer (create_view st2))"
proof -
  have st2: "st2 = st\<lparr>cs_pending := None, cs_cache := cache_created inst (cs_cache st),
      cs_effects := cs_effects st @ [InvalidateKey [''instruments'']], cs_calls := cs_calls st @ [price_call today inst v],
      cs_serverError := Some (nullish (error_message err) ''Instrument created, but the price could not be saved.'')\<rparr>"
    using assms(3-7) by (simp add: create_settles_def price_settles_def Let_def)
  have "SaveInstrument \<in> set (on_offer (create_view st2))"
    unfolding st2 by (simp add: create_view_def ui_simps Let_def)
  moreover have "cs_calls (press_save too_long union_error st2)
      = cs_calls st @ [price_call today inst v, create_instrument_call v src]"
    using assms(1-3) by (simp add: st2 press_save_def)
  ultimately show ?thesis by (simp add: st2)
qed

definition a_fund :: CreateValues where
  "a_fund = create_defaults\<lparr>cv_symbol := ''VWCE'', cv_name := ''World'', cv_instrument_type := Fund,
     cv_price_mode := ManualMode, cv_initial_price := ''13,50''\<rparr>"

definition no_message :: "nat \<Rightarrow> jstring" where
  "no_message n = ''Too long''"

definition same_message :: "jstring \<Rightarrow> jstring" where
  "same_message m = m"

definition fund_response :: InstrumentResponse where
  "fund_response = \<lparr>ir_id = ''i1'', ir_symbol = ''VWCE'', ir_name = ''World'', ir_instrument_type = ''fund'',
     ir_base_currency = ''EUR'', ir_price_source = ''manual'', ir_risk_level = ''Medium'',
     ir_ticker_override = None, ir_display_decimals = None\<rparr>"

lemma a_fund_parsed:
  "create_schema no_message same_message a_fund = Inr (a_fund\<lparr>cv_initial_price := ''13.5''\<rparr>)"
  by code_simp

theorem create_sources_valid_witness:
  "\<exists>s. resolvePriceSource Metal (cv_price_mode (cs_values (choose_type Metal (create_open None)))) = Inr s"
proof -
  have "create_reach no_message same_message [] (choose_type Metal (create_open None))"
    by (rule create_reach.step [OF create_reach.init create_step.chooses_type])
  then show ?thesis
    using create_sources_valid [of no_message same_message "[]" "choose_type Metal (create_open None)"]
    by (simp add: choose_type_def create_open_def create_defaults_def priceModeOptionsFor_def)
qed

definition fund_saving :: create_state where
  "fund_saving = (create_open None)\<lparr>cs_values := a_fund, cs_pending := Some (a_fund\<lparr>cv_initial_price := ''13.5''\<rparr>)\<rparr>"

definition price_refused :: create_state where
  "price_refused =
     price_settles 0 (Inl (ApiErr 500 ''down'')) (create_settles ''2024-05-03'' (Inr fund_response) fund_saving)"

theorem price_retry_creates_again_witness:
  "cs_calls (press_save no_message same_message price_refused)
    = [price_call ''2024-05-03'' fund_response (a_fund\<lparr>cv_initial_price := ''13.5''\<rparr>),
       create_instrument_call (a_fund\<lparr>cv_initial_price := ''13.5''\<rparr>) Manual]"
  using price_retry_creates_again [of no_message same_message fund_saving "a_fund\<lparr>cv_initial_price := ''13.5''\<rparr>"
      Manual price_refused "ApiErr 500 ''down''" "''2024-05-03''" fund_response] a_fund_parsed
  by (simp add: resolvePriceSource_def a_fund_def create_defaults_def create_open_def fund_saving_def price_refused_def)

lemma price_field_Nil: "price_field [] = Inl ''Use a positive number, e.g. 13.00''"
  by code_simp

text \<open>
  A price the form no longer shows blocks it in silence.  When the text typed as first price is
  no valid number and the user then switches to automatic prices, saving sends nothing and no message
  appears anywhere, although every field on screen is valid; in manual mode the message is shown.
\<close>
theorem hidden_price_blocks:
  assumes "create_schema too_long union_error (v\<lparr>cv_initial_price := []\<rparr>) = Inr w"
    and "price_field (cv_initial_price v) = Inl m" and "cv_initial_price v \<noteq> []"
    and "cs_values st = v" and "cs_serverError st = None"
  shows "cs_calls (press_save too_long union_error st) = cs_calls st
    \<and> alerts (create_view (press_save too_long union_error st))
        = (if cv_price_mode v = AutomaticMode then [] else [union_error m])"
proof -
  have "create_schema too_long union_error v = Inl [(''initial_price'', union_error m)]"
    using assms(1-3) by (simp add: create_schema_def Let_def check_def price_field_Nil split: if_splits)
  then have st: "press_save too_long union_error st = st\<lparr>cs_errors := [(''initial_price'', union_error m)]\<rparr>"
    using assms(4) by (simp add: press_save_def)
  show ?thesis
    using assms(4,5) by (cases "cv_price_mode v") (auto simp: st create_view_def ui_simps Let_def)
qed

definition fund_switched :: CreateValues where
  "fund_switched = a_fund\<lparr>cv_initial_price := ''abc'', cv_price_mode := AutomaticMode\<rparr>"

theorem hidden_price_blocks_witness:
  "alerts (create_view (press_save no_message same_message ((create_open None)\<lparr>cs_values := fund_switched\<rparr>))) = []"
proof -
  have "create_schema no_message same_message (fund_switched\<lparr>cv_initial_price := []\<rparr>)
      = Inr (fund_switched\<lparr>cv_initial_price := []\<rparr>)"
    by code_simp
  moreover have "price_field (cv_initial_price fund_switched) = Inl ''Use a positive number, e.g. 13.00''" by code_simp
  moreover have "cv_initial_price fund_switched \<noteq> []" "cv_price_mode fund_switched = AutomaticMode"
    by (simp_all add: fund_switched_def)
  ultimately show ?thesis
    using hidden_price_blocks [of no_message same_message fund_switched _ _ "(create_open None)\<lparr>cs_values := fund_switched\<rparr>"]
    by (simp add: create_open_def)
qed

section \<open>Editing an instrument\<close>

definition RISK_LEVELS :: "jstring list" where
  "RISK_LEVELS = [''High'', ''Medium'', ''Low'', ''Liquid'']"

record InstrumentFormValues =
  fv_iname :: jstring
  fv_instrument_type :: jstring
  fv_base_currency :: jstring
  fv_price_source :: jstring
  fv_risk_level :: jstring
  fv_ticker_override :: jstring
  fv_display_decimals :: jstring

record edit_state =
  es_values :: InstrumentFormValues
  es_touched_name :: bool
  es_touched_decimals :: bool
  es_pending :: bool

definition edit_defaults :: "InstrumentResponse \<Rightarrow> InstrumentFormValues" where
  "edit_defaults i =
     \<lparr>fv_iname = ir_name i, fv_instrument_type = ir_instrument_type i, fv_base_currency = ir_base_currency i,
      fv_price_source = ir_price_source i, fv_risk_level = ir_risk_level i,
      fv_ticker_override = nullish (ir_ticker_override i) [],
      fv_display_decimals = (case ir_display_decimals i of None \<Rightarrow> [] | Some n \<Rightarrow> show_digits (int n))\<rparr>"

definition edit_open :: "InstrumentResponse \<Rightarrow> edit_state" where
  "edit_open i = \<lparr>es_values = edit_defaults i, es_touched_name = False, es_touched_decimals = False, es_pending = False\<rparr>"

definition ddIsValid :: "InstrumentFormValues \<Rightarrow> bool" where
  "ddIsValid v =
     (let raw = js_trim (fv_display_decimals v) in raw = [] \<or> (list_all is_digit raw \<and> digits_val raw \<le> 12))"

definition canSubmit :: "edit_state \<Rightarrow> bool" where
  "canSubmit st \<longleftrightarrow> js_trim (fv_iname (es_values st)) \<noteq> [] \<and> ddIsValid (es_values st) \<and> \<not> es_pending st"

definition handleTypeChange :: "jstring \<Rightarrow> InstrumentFormValues \<Rightarrow> InstrumentFormValues" where
  "handleTypeChange t v =
     (let allowed = map source_text (allowedSourcesFor t)
      in v\<lparr>fv_instrument_type := t,
           fv_price_source := (if fv_price_source v \<in> set allowed then fv_price_source v else hd allowed)\<rparr>)"

text \<open>Pressing the button: every field counts as touched; the values go out when they are good.\<close>

definition edit_press :: "edit_state \<Rightarrow> edit_state \<times> InstrumentFormValues option" where
  "edit_press st =
     (st\<lparr>es_touched_name := True, es_touched_decimals := True\<rparr>,
      if canSubmit st then Some (es_values st) else None)"

text \<open>The request: the empty ticker and blank decimals are left out.\<close>

definition update_call :: "InstrumentResponse \<Rightarrow> InstrumentFormValues \<Rightarrow> api_call" where
  "update_call i v =
     \<lparr>call_method = ''PUT'', call_path = ''/api/instruments/'' @ encodeURIComponent (ir_id i),
      call_body = json_obj
        [(''symbol'', Some (JStr (ir_symbol i))), (''name'', Some (JStr (js_trim (fv_iname v)))),
         (''instrument_type'', Some (JStr (fv_instrument_type v))),
         (''base_currency'', Some (JStr (fv_base_currency v))),
         (''price_source'', Some (JStr (fv_price_source v))), (''risk_level'', Some (JStr (fv_risk_level v))),
         (''ticker_override'', optional_text (js_trim (fv_ticker_override v))),
         (''display_decimals'', optional_number (js_trim (fv_display_decimals v)))]\<rparr>"

definition cache_updated :: "InstrumentResponse \<Rightarrow> InstrumentResponse list option \<Rightarrow> InstrumentResponse list option" where
  "cache_updated u old = map_option (map (\<lambda>i. if ir_id i = ir_id u then u else i)) old"

datatype update_effect =
    UpdateToast jstring | UpdateFailed jstring | PatchList InstrumentResponse | PatchDetail InstrumentResponse
  | Refetch "jstring list" | CloseDialog

definition update_outcome :: "thrown + InstrumentResponse \<Rightarrow> update_effect list" where
  "update_outcome res =
     (case res of
        Inl err \<Rightarrow> [UpdateFailed (''Could not update instrument. '' @ nullish (error_message err) ''undefined'')]
      | Inr u \<Rightarrow>
          [PatchList u, PatchDetail u, Refetch [''instruments''], Refetch [''instrument'', ir_id u],
           UpdateToast (''Instrument '' @ [CHR 0x22] @ ir_name u @ [CHR 0x22] @ '' updated.''), CloseDialog])"

datatype edit_event = SaveEdit | CancelEdit

definition edit_view :: "InstrumentResponse \<Rightarrow> edit_state \<Rightarrow> edit_event ui list" where
  "edit_view i st =
     (let v = es_values st
      in [Heading ''Edit instrument'',
          Txt (''Update this instrument'' @ [CHR 0xE2, CHR 0x80, CHR 0x99] @ ''s metadata. Symbol and ID are read-only.''),
          Txt ''Symbol'', Txt (ir_symbol i), Txt ''ID'', Txt (ir_id i),
          Input ''Name'' (fv_iname v) False False]
       @ only_if (es_touched_name st \<and> js_trim (fv_iname v) = []) [Alert ''Name is required.'']
       @ [Choice ''Type'' (fv_instrument_type v)
            (map (\<lambda>t. (type_text t, instrumentTypeLabel (type_text t))) INSTRUMENT_TYPES) False,
          Choice ''Price source'' (fv_price_source v)
            (map (\<lambda>s. (source_text s, priceSourceLabel (source_text s))) (allowedSourcesFor (fv_instrument_type v))) False,
          Choice ''Base currency'' (fv_base_currency v) currency_options False,
          Choice ''Risk level'' (fv_risk_level v) (map (\<lambda>r. (r, r)) RISK_LEVELS) False]
       @ only_if (fv_instrument_type v \<noteq> ir_instrument_type i)
           [Txt ''Changing the type may have reset your price source. Confirm before saving.'']
       @ [Input ''Ticker override'' (fv_ticker_override v) False False,
          Input ''Display decimals'' (fv_display_decimals v) False False]
       @ only_if (es_touched_decimals st \<and> \<not> ddIsValid v)
           [Alert ''Must be a whole number between 0 and 12 (or blank to inherit).'']
       @ [Control ''Cancel'' (es_pending st) CancelEdit,
          Control (if es_pending st then ''Saving'' @ ellipsis else ''Save changes'') (\<not> canSubmit st) SaveEdit])"

text \<open>What the user can change: the type, the source among those listed, and the free texts.\<close>

datatype form_change =
    ChangeType jstring | ChangeSource PriceSource | ChangeRisk jstring | ChangeCurrency jstring
  | ChangeName jstring | ChangeTicker jstring | ChangeDecimals jstring

fun apply_change :: "form_change \<Rightarrow> InstrumentFormValues \<Rightarrow> InstrumentFormValues" where
  "apply_change (ChangeType t) v = handleTypeChange t v"
| "apply_change (ChangeSource s) v =
     (if s \<in> set (allowedSourcesFor (fv_instrument_type v)) then v\<lparr>fv_price_source := source_text s\<rparr> else v)"
| "apply_change (ChangeRisk r) v = v\<lparr>fv_risk_level := r\<rparr>"
| "apply_change (ChangeCurrency c) v = v\<lparr>fv_base_currency := c\<rparr>"
| "apply_change (ChangeName n) v = v\<lparr>fv_iname := n\<rparr>"
| "apply_change (ChangeTicker t) v = v\<lparr>fv_ticker_override := t\<rparr>"
| "apply_change (ChangeDecimals d) v = v\<lparr>fv_display_decimals := d\<rparr>"

definition source_listed :: "InstrumentFormValues \<Rightarrow> bool" where
  "source_listed v \<longleftrightarrow> fv_price_source v \<in> source_text ` set (allowedSourcesFor (fv_instrument_type v))"

lemma allowed_nonempty [simp]: "allowedSourcesFor t \<noteq> []"
  by (simp add: allowedSourcesFor_def split: option.split)

lemma type_change_listed: "source_listed (handleTypeChange t v)"
  using hd_in_set [OF allowed_nonempty, of t]
  by (auto simp: source_listed_def handleTypeChange_def Let_def hd_map)

lemma change_listed: "source_listed v \<Longrightarrow> source_listed (apply_change c v)"
  by (cases c) (auto simp: type_change_listed, auto simp: source_listed_def)

text \<open>
  The edit form keeps the source within the rules.  From a stored source that fits its type, or
  from any other once the type was changed, no sequence of changes leads to a source the form does
  not list for the type on screen.
\<close>
theorem edit_source_listed:
  assumes "source_listed v \<or> (\<exists>t. ChangeType t \<in> set cs)"
  shows "source_listed (fold apply_change cs v)"
  using assms
proof (induction cs arbitrary: v)
  case (Cons c cs)
  show ?case
  proof (cases "source_listed (apply_change c v)")
    case True
    then show ?thesis using Cons.IH by simp
  next
    case False
    then have "\<not> source_listed v" "\<And>t. c \<noteq> ChangeType t" using change_listed type_change_listed by auto
    then show ?thesis using Cons by auto
  qed
qed auto

theorem edit_source_listed_witness:
  "source_listed (fold apply_change [ChangeType ''metal'', ChangeName ''Gold'', ChangeSource Finnhub]
    (edit_defaults (fund_response\<lparr>ir_price_source := ''ft''\<rparr>)))"
  by (rule edit_source_listed) simp

text \<open>Opening the form and saving at once sends the stored instrument back.\<close>

definition instrument_body :: "InstrumentResponse \<Rightarrow> json" where
  "instrument_body i =
     json_obj
       [(''symbol'', Some (JStr (ir_symbol i))), (''name'', Some (JStr (ir_name i))),
        (''instrument_type'', Some (JStr (ir_instrument_type i))), (''base_currency'', Some (JStr (ir_base_currency i))),
        (''price_source'', Some (JStr (ir_price_source i))), (''risk_level'', Some (JStr (ir_risk_level i))),
        (''ticker_override'', Option.bind (ir_ticker_override i) optional_text),
        (''display_decimals'', map_option (\<lambda>n. JNum (Num (of_nat n))) (ir_display_decimals i))]"

lemma trim_show: "js_trim (show_digits (int n)) = show_digits (int n)"
  using show_digits_digits [of "int n"] is_digit_plain by (intro js_trim_plain) (auto simp: list_all_iff)

lemma edit_roundtrip:
  assumes "js_trim (ir_name i) = ir_name i"
    and "\<And>t. ir_ticker_override i = Some t \<Longrightarrow> js_trim t = t"
    and "\<And>n. ir_display_decimals i = Some n \<Longrightarrow> n \<le> 12"
  shows "call_body (update_call i (edit_defaults i)) = instrument_body i"
proof -
  have ticker: "optional_text (js_trim (nullish (ir_ticker_override i) [])) = Option.bind (ir_ticker_override i) optional_text"
    using assms(2) js_trim_plain [of "[]"] by (cases "ir_ticker_override i") (auto simp: optional_text_def)
  have "optional_number (js_trim (fv_display_decimals (edit_defaults i)))
      = map_option (\<lambda>n. JNum (Num (of_nat n))) (ir_display_decimals i)"
  proof (cases "ir_display_decimals i")
    case (Some n)
    then have "str_to_number (show_digits (int n)) = Num (of_nat n)"
      using assms(3) str_to_number_digits [of "int n"] by simp
    then show ?thesis using Some
      by (simp add: edit_defaults_def trim_show optional_number_def)
  qed (simp add: edit_defaults_def optional_number_def js_trim_plain [of "[]"])
  then show ?thesis
    using assms(1) ticker by (simp add: update_call_def instrument_body_def edit_defaults_def)
qed

section \<open>The cached list\<close>

definition cache_deleted :: "jstring \<Rightarrow> InstrumentResponse list option \<Rightarrow> InstrumentResponse list option" where
  "cache_deleted d old = map_option (filter (\<lambda>i. ir_id i \<noteq> d)) old"

datatype cache_change = CacheCreated InstrumentResponse | CacheUpdated InstrumentResponse | CacheDeleted jstring

fun change_cache :: "cache_change \<Rightarrow> InstrumentResponse list option \<Rightarrow> InstrumentResponse list option" where
  "change_cache (CacheCreated i) c = cache_created i c"
| "change_cache (CacheUpdated i) c = cache_updated i c"
| "change_cache (CacheDeleted d) c = cache_deleted d c"

definition cached :: "InstrumentResponse list option \<Rightarrow> jstring \<Rightarrow> InstrumentResponse option" where
  "cached c i = Option.bind c (find (\<lambda>x. ir_id x = i))"

definition cache_distinct :: "InstrumentResponse list option \<Rightarrow> bool" where
  "cache_distinct c \<longleftrightarrow> (case c of None \<Rightarrow> True | Some xs \<Rightarrow> distinct (map ir_id xs))"

lemma updated_ids: "map ir_id (map (\<lambda>i. if ir_id i = ir_id u then u else i) xs) = map ir_id xs"
  by simp

lemma cache_keeps_distinct: "cache_distinct c \<Longrightarrow> cache_distinct (change_cache ch c)"
  by (cases ch; cases c)
    (auto simp: cache_distinct_def cache_created_def cache_updated_def cache_deleted_def list_ex_iff
        distinct_map_filter comp_def if_distrib [of ir_id] cong: if_cong)

lemma find_append: "find P (xs @ ys) = (case find P xs of Some x \<Rightarrow> Some x | None \<Rightarrow> find P ys)"
  by (induction xs) auto

text \<open>The reference: a map from ids to instruments.\<close>

lemma cached_change:
  "cached (change_cache (CacheCreated n) c) i = (if i = ir_id n \<and> cached c i = None then Some n else cached c i)"
  "cached (change_cache (CacheUpdated n) c) i = (if i = ir_id n \<and> cached c i \<noteq> None then Some n else cached c i)"
  "cached (change_cache (CacheDeleted d) c) i = (if i = d then None else cached c i)"
proof -
  show "cached (change_cache (CacheCreated n) c) i = (if i = ir_id n \<and> cached c i = None then Some n else cached c i)"
  proof (cases c)
    case (Some xs)
    show ?thesis
    proof (cases "find (\<lambda>x. ir_id x = ir_id n) xs")
      case None
      then have "\<not> list_ex (\<lambda>x. ir_id x = ir_id n) xs" by (auto simp: find_None_iff list_ex_iff)
      then show ?thesis using Some None
        by (cases "find (\<lambda>x. ir_id x = i) xs") (auto simp: cached_def cache_created_def find_append)
    next
      case (Some x)
      then have "list_ex (\<lambda>x. ir_id x = ir_id n) xs" by (auto simp: find_Some_iff list_ex_iff)
      then show ?thesis using Some \<open>c = Some xs\<close> by (auto simp: cached_def cache_created_def)
    qed
  qed (simp add: cached_def cache_created_def)
  show "cached (change_cache (CacheUpdated n) c) i = (if i = ir_id n \<and> cached c i \<noteq> None then Some n else cached c i)"
  proof (cases c)
    case (Some xs)
    have "find (\<lambda>x. ir_id x = i) (map (\<lambda>x. if ir_id x = ir_id n then n else x) xs)
        = (if i = ir_id n \<and> find (\<lambda>x. ir_id x = i) xs \<noteq> None then Some n else find (\<lambda>x. ir_id x = i) xs)"
      by (induction xs) auto
    then show ?thesis using Some by (auto simp: cached_def cache_updated_def)
  qed (simp add: cached_def cache_updated_def)
  show "cached (change_cache (CacheDeleted d) c) i = (if i = d then None else cached c i)"
  proof (cases c)
    case (Some xs)
    have "find (\<lambda>x. ir_id x = i) (filter (\<lambda>x. ir_id x \<noteq> d) xs) = (if i = d then None else find (\<lambda>x. ir_id x = i) xs)"
      by (induction xs) auto
    then show ?thesis using Some by (simp add: cached_def cache_deleted_def)
  qed (simp add: cached_def cache_deleted_def)
qed

text \<open>
  What a change means on a map: a created instrument is entered unless its id is there already, an
  updated one replaces what is there, a deleted id goes.
\<close>

fun map_change :: "cache_change \<Rightarrow> (jstring \<rightharpoonup> InstrumentResponse) \<Rightarrow> (jstring \<rightharpoonup> InstrumentResponse)" where
  "map_change (CacheCreated n) m = (if ir_id n \<in> dom m then m else m(ir_id n \<mapsto> n))"
| "map_change (CacheUpdated n) m = (if ir_id n \<in> dom m then m(ir_id n \<mapsto> n) else m)"
| "map_change (CacheDeleted d) m = m(d := None)"

fun changed_id :: "cache_change \<Rightarrow> jstring" where
  "changed_id (CacheCreated n) = ir_id n"
| "changed_id (CacheUpdated n) = ir_id n"
| "changed_id (CacheDeleted d) = d"

lemma cached_map: "cached (change_cache ch c) = map_change ch (cached c)"
proof (cases ch)
  case (CacheCreated n)
  then show ?thesis using cached_change(1) [of n c] by (auto simp: fun_eq_iff dom_def simp del: change_cache.simps)
next
  case (CacheUpdated n)
  then show ?thesis using cached_change(2) [of n c] by (auto simp: fun_eq_iff dom_def simp del: change_cache.simps)
next
  case (CacheDeleted d)
  then show ?thesis using cached_change(3) [of d c] by (auto simp: fun_eq_iff simp del: change_cache.simps)
qed

lemma change_keeps_others:
  "filter (\<lambda>x. ir_id x \<noteq> changed_id ch) (nullish (change_cache ch c) []) = filter (\<lambda>x. ir_id x \<noteq> changed_id ch) (nullish c [])"
proof -
  have "filter (\<lambda>x. ir_id x \<noteq> ir_id n) (map (\<lambda>x. if ir_id x = ir_id n then n else x) xs) = filter (\<lambda>x. ir_id x \<noteq> ir_id n) xs" for n xs
    by (induction xs) auto
  then show ?thesis by (cases ch; cases c) (auto simp: cache_created_def cache_updated_def cache_deleted_def)
qed

text \<open>
  C24: The cached list behaves as a map from ids to instruments.  Whatever answers arrive and in
  whatever order, looking an id up in the list gives what a map that took the same changes gives, so
  a change touches the instrument it is about and no other; no id is listed twice, and the other
  instruments keep their place.  An instrument that was just created can be looked up at once, before
  the refetch, so that a form that selects it finds its option.
\<close>
theorem instrument_cache_map:
  assumes "cache_distinct c"
  shows "cached (fold change_cache chs c) = fold map_change chs (cached c)
    \<and> cache_distinct (fold change_cache chs c)
    \<and> filter (\<lambda>x. ir_id x \<noteq> changed_id ch) (nullish (fold change_cache (chs @ [ch]) c) [])
        = filter (\<lambda>x. ir_id x \<noteq> changed_id ch) (nullish (fold change_cache chs c) [])
    \<and> cached (fold change_cache (chs @ [CacheCreated n]) c) (ir_id n) \<noteq> None
    \<and> cached (fold change_cache (chs @ [CacheDeleted d]) c) d = None"
proof -
  have "cached (fold change_cache chs c) = fold map_change chs (cached c)" for chs
    by (induction chs arbitrary: c) (simp_all add: cached_map del: change_cache.simps)
  moreover have "cache_distinct (fold change_cache chs c)"
    using assms by (induction chs arbitrary: c) (simp_all add: cache_keeps_distinct del: change_cache.simps)
  moreover have "cached (fold change_cache (chs @ [CacheCreated n]) c) (ir_id n) \<noteq> None"
    using cached_change(1) [of n "fold change_cache chs c" "ir_id n"] by auto
  moreover have "cached (fold change_cache (chs @ [CacheDeleted d]) c) d = None"
    using cached_change(3) [of d "fold change_cache chs c" d] by simp
  ultimately show ?thesis by (simp add: change_keeps_others del: change_cache.simps)
qed

theorem instrument_cache_map_witness:
  "cached (fold change_cache [CacheDeleted ''i1'', CacheCreated fund_response] (Some [fund_response])) ''i1'' \<noteq> None
   \<and> filter (\<lambda>x. ir_id x \<noteq> ''i2'') (nullish (fold change_cache [CacheDeleted ''i2''] (Some [fund_response])) []) = [fund_response]"
  using instrument_cache_map [of "Some [fund_response]" "[CacheDeleted ''i1'']" "CacheDeleted ''i2''" fund_response]
    instrument_cache_map [of "Some [fund_response]" "[]" "CacheDeleted ''i2''" fund_response]
  by (simp add: cache_distinct_def fund_response_def)

section \<open>Price history\<close>

record BackfillResponse =
  bf_status :: jstring
  bf_inserted_prices :: "int option"
  bf_inserted_fx_rates :: "int option"

datatype toast = InfoToast jstring | OkToast jstring | WarnToast jstring | ErrorToast jstring

definition count_text :: "int \<Rightarrow> jstring \<Rightarrow> jstring" where
  "count_text n word = show_int n @ '' '' @ word @ (if n = 1 then [] else ''s'')"

definition backfilled_text :: "int \<Rightarrow> int \<Rightarrow> jstring" where
  "backfilled_text inserted fx =
     (if 0 < inserted
      then ''Backfilled '' @ count_text inserted ''price''
        @ (if 0 < fx then '' and '' @ count_text fx ''FX rate'' else []) @ ''.''
      else ''No new prices '' @ em_dash @ '' history was already complete.'')"

definition parseDetail :: "jstring \<Rightarrow> jstring option" where
  "parseDetail raw =
     (case Option.bind (json_parse raw) (member ''detail'') of Some (JStr s) \<Rightarrow> Some s | _ \<Rightarrow> None)"

text \<open>The answer to a backfill of one instrument: the toast, and the keys to refetch.\<close>

definition backfill_success :: "jstring list list \<Rightarrow> BackfillResponse \<Rightarrow> toast \<times> jstring list list" where
  "backfill_success keys r =
     (if bf_status r = ''no_transactions''
      then (InfoToast (''Nothing to backfill '' @ em_dash @ '' record a transaction first.''), [])
      else if bf_status r = ''manual_history_required''
      then (InfoToast ''This price source requires manual NAV entries.'', [])
      else (OkToast (backfilled_text (nullish (bf_inserted_prices r) 0) (nullish (bf_inserted_fx_rates r) 0)), keys))"

definition list_backfill_keys :: "jstring \<Rightarrow> jstring list list" where
  "list_backfill_keys i = [[''instrument'', i], [''networth''], [''holdings'']]"

definition button_backfill_keys :: "jstring \<Rightarrow> jstring list list" where
  "button_backfill_keys i = [[''networth''], [''nav-history'', i], [''holdings''], [''instrument'', i]]"

definition failed_with :: "jstring \<Rightarrow> thrown \<Rightarrow> jstring" where
  "failed_with pre err = pre @ '' failed. '' @ nullish (error_message err) ''undefined''"

definition list_failure :: "jstring \<Rightarrow> thrown \<Rightarrow> toast" where
  "list_failure pre err =
     ErrorToast (case err of ApiErr n d \<Rightarrow> nullish (parseDetail d) (failed_with pre err) | _ \<Rightarrow> failed_with pre err)"

definition button_failure :: "thrown \<Rightarrow> toast" where
  "button_failure err =
     ErrorToast (case err of
         ApiErr n d \<Rightarrow>
           if n = 429 then nullish (parseDetail d) (''Rate limited '' @ em_dash @ '' try again later.'')
           else failed_with ''Backfill'' err
       | _ \<Rightarrow> failed_with ''Backfill'' err)"

record BulkBackfillResponse =
  bb_total_inserted_prices :: int
  bb_total_inserted_fx_rates :: int
  bb_rate_limited_count :: int

definition bulk_success :: "BulkBackfillResponse \<Rightarrow> toast \<times> jstring list list" where
  "bulk_success r =
     (let head = backfilled_text (bb_total_inserted_prices r) (bb_total_inserted_fx_rates r);
          rl = bb_rate_limited_count r
      in (if 0 < rl
          then WarnToast (head @ '' '' @ show_int rl @ '' instrument'' @ (if rl = 1 then '' was'' else ''s were'')
                 @ '' rate-limited '' @ em_dash @ '' try again in a few minutes.'')
          else OkToast head,
          map (\<lambda>k. [k]) PORTFOLIO_CACHE_KEYS @ [[''nav-history''], [''instruments''], [''instrument'']]))"

definition bulk_failure :: "thrown \<Rightarrow> toast" where
  "bulk_failure err = ErrorToast (failed_with ''Bulk backfill'' err)"

record BackfillPreview =
  eligible_count :: int
  synthetic_count :: int
  earliest_first_txn_date :: "jstring option"
  estimated_api_calls :: int

datatype confirm_mode =
    SingleConfirm jstring "jstring option" int
  | BulkConfirm "BackfillPreview option" bool bool

datatype confirm_event = CancelBackfill | BackfillNow

text \<open>\<open>day_text\<close> is the formatting of a date by the date library.\<close>

definition backfill_range :: "(jstring \<Rightarrow> jstring) \<Rightarrow> jstring option \<Rightarrow> jstring" where
  "backfill_range day_text earliest =
     (case earliest of
        None \<Rightarrow> ''From your first transaction through today''
      | Some d \<Rightarrow> ''From '' @ day_text d @ '' through today'')"

definition detail_lines :: "jstring \<Rightarrow> jstring \<Rightarrow> int \<Rightarrow> 'e ui list" where
  "detail_lines dates affects calls =
     [Txt (''Date range: '' @ dates), Txt (''Affects: '' @ affects),
      Txt (''External calls: ~'' @ count_text calls ''API call'' @ ''. Well within free-tier limits.'')]"

definition SingleDetail :: "(jstring \<Rightarrow> jstring) \<Rightarrow> jstring \<Rightarrow> jstring option \<Rightarrow> int \<Rightarrow> 'e ui list" where
  "SingleDetail day_text sy earliest calls =
     detail_lines (backfill_range day_text earliest) (''1 instrument '' @ em_dash @ '' '' @ sy) calls"

definition BulkDetail :: "(jstring \<Rightarrow> jstring) \<Rightarrow> BackfillPreview option \<Rightarrow> bool \<Rightarrow> bool \<Rightarrow> 'e ui list" where
  "BulkDetail day_text preview isLoading isError =
     (if isError then [Txt (''Could not load preview '' @ em_dash @ '' refresh the page and try again.'')]
      else case preview of
        None \<Rightarrow> [Txt (''Loading summary'' @ ellipsis)]
      | Some p \<Rightarrow>
          if isLoading then [Txt (''Loading summary'' @ ellipsis)]
          else detail_lines (backfill_range day_text (earliest_first_txn_date p))
            (count_text (eligible_count p) ''instrument''
             @ (if 0 < synthetic_count p
                then '' '' @ em_dash @ '' '' @ count_text (synthetic_count p) ''synthetic fund''
                  @ '' will be skipped automatically (manual NAV entries required)'' else []))
            (estimated_api_calls p))"

definition action_disabled :: "confirm_mode \<Rightarrow> bool \<Rightarrow> bool" where
  "action_disabled m is_pending \<longleftrightarrow>
     is_pending \<or> (case m of SingleConfirm _ _ _ \<Rightarrow> False | BulkConfirm _ loading failed \<Rightarrow> loading \<or> failed)"

definition BackfillConfirmDialog :: "(jstring \<Rightarrow> jstring) \<Rightarrow> confirm_mode \<Rightarrow> bool \<Rightarrow> confirm_event ui list" where
  "BackfillConfirmDialog day_text m is_pending =
     [Heading ''Backfill price history?'',
      Txt (case m of
          SingleConfirm sy _ _ \<Rightarrow> ''This fetches daily price history for '' @ sy
            @ '' from your stock/crypto price provider and stores it locally. No data is sent anywhere else.''
        | BulkConfirm _ _ _ \<Rightarrow> ''This fetches daily price history for every eligible instrument from your''
            @ '' stock/crypto price providers and stores it locally.'')]
     @ (case m of
          SingleConfirm sy earliest calls \<Rightarrow> SingleDetail day_text sy earliest calls
        | BulkConfirm preview loading failed \<Rightarrow> BulkDetail day_text preview loading failed)
     @ [Txt ''This can take up to 30 seconds.'', Control ''Cancel'' is_pending CancelBackfill,
        Control ''Backfill now'' (action_disabled m is_pending) BackfillNow]"

definition backfill_badge :: "jstring option \<Rightarrow> jstring option" where
  "backfill_badge s =
     (if s = Some ''pending'' \<or> s = Some ''running'' then Some (''Backfilling history'' @ ellipsis) else None)"

lemma no_detail_events [ui_simps]:
  "on_offer (SingleDetail day_text sy e c) = []" "on_offer (BulkDetail day_text p l f) = []"
  by (simp_all add: SingleDetail_def BulkDetail_def detail_lines_def ui_simps split: option.split)

text \<open>A backfill can be confirmed only when its summary is there and none is running.\<close>

lemma confirm_offered:
  "BackfillNow \<in> set (on_offer (BackfillConfirmDialog day_text m p)) \<longleftrightarrow> \<not> action_disabled m p"
  "p \<Longrightarrow> on_offer (BackfillConfirmDialog day_text m p) = []"
  by (cases m; simp add: BackfillConfirmDialog_def ui_simps action_disabled_def)+

section \<open>The list\<close>

definition MANUAL_PRICE_SOURCES :: "jstring list" where
  "MANUAL_PRICE_SOURCES = [''ft'', ''manual'', ''na'']"

definition fold_case :: "char \<Rightarrow> char" where
  "fold_case c = (if 97 \<le> (of_char c :: nat) \<and> (of_char c :: nat) \<le> 122 then char_of ((of_char c :: nat) - 32) else c)"

text \<open>\<open>/^(TEST-AUTO|AUTO|...)-/i\<close>.\<close>

definition test_fixture_symbol :: "jstring \<Rightarrow> bool" where
  "test_fixture_symbol s \<longleftrightarrow>
     list_ex (\<lambda>p. starts_with (map fold_case s) (p @ ''-''))
       [''TEST-AUTO'', ''AUTO'', ''DBG2'', ''DBG'', ''RST'', ''INST'', ''MNT'', ''CNT'', ''TG'', ''TIM'', ''TEST'']"

definition isHidden :: "InstrumentResponse \<Rightarrow> bool" where
  "isHidden i \<longleftrightarrow> test_fixture_symbol (ir_symbol i) \<and> ir_price_source i = ''na''"

definition visibleInstruments :: "bool \<Rightarrow> InstrumentResponse list option \<Rightarrow> InstrumentResponse list" where
  "visibleInstruments showHidden data =
     (case data of None \<Rightarrow> [] | Some xs \<Rightarrow> if showHidden then xs else filter (\<lambda>i. \<not> isHidden i) xs)"

definition hiddenCount :: "InstrumentResponse list option \<Rightarrow> nat" where
  "hiddenCount data = length (filter isHidden (nullish data []))"

record list_state =
  ls_createOpen :: bool
  ls_deleteTarget :: "InstrumentResponse option"
  ls_backfillTarget :: "InstrumentResponse option"
  ls_showHidden :: bool
  ls_backfilling :: bool
  ls_deleting :: bool

datatype list_event =
    AddInstrument | ToggleHidden | ViewDetail jstring | AskBackfill InstrumentResponse | AskDelete InstrumentResponse
  | CancelDeletion | ConfirmDeletion | RetryList

definition toolbar :: "list_state \<Rightarrow> nat \<Rightarrow> list_event ui list" where
  "toolbar st hidden =
     [Toggle ''Show hidden test instruments'' (ls_showHidden st) False ToggleHidden]
     @ only_if (0 < hidden \<and> \<not> ls_showHidden st) [Txt (''('' @ show_digits (int hidden) @ '' hidden)'')]
     @ [Control ''Add instrument'' False AddInstrument]"

definition instrument_row :: "list_state \<Rightarrow> InstrumentResponse \<Rightarrow> list_event ui" where
  "instrument_row st i =
     Section
       ([Anchor (ir_symbol i) (''/holdings/i/'' @ ir_id i), Txt (ir_name i), Txt (ir_instrument_type i),
         Txt (ir_base_currency i), Txt (priceSourceLabel (ir_price_source i)),
         Control ''View detail'' False (ViewDetail (ir_id i))]
        @ only_if (ir_price_source i \<notin> set MANUAL_PRICE_SOURCES)
            [Control ''Backfill prices'' (ls_backfilling st) (AskBackfill i)]
        @ [Control ''Delete instrument'' False (AskDelete i)])"

definition instrument_card :: "InstrumentResponse \<Rightarrow> list_event ui" where
  "instrument_card i =
     Section
       [Anchor (ir_symbol i) (''/holdings/i/'' @ ir_id i), Txt (ir_instrument_type i), Txt (ir_name i),
        Txt (ir_base_currency i @ '' '' @ [CHR 0xC2, CHR 0xB7] @ '' '' @ priceSourceLabel (ir_price_source i))]"

definition delete_instrument_dialog :: "list_state \<Rightarrow> list_event ui list" where
  "delete_instrument_dialog st =
     (case ls_deleteTarget st of
        None \<Rightarrow> []
      | Some i \<Rightarrow>
          [Heading ''Delete instrument?'',
           Txt (''This permanently removes '' @ ir_symbol i @ '' ('' @ ir_name i @ ''). Deletion is blocked if any''
             @ '' transactions still reference this instrument '' @ em_dash @ '' delete those transactions first.''),
           Control ''Cancel'' (ls_deleting st) CancelDeletion,
           Control (if ls_deleting st then ''Deleting'' @ ellipsis else ''Delete'') (ls_deleting st) ConfirmDeletion])"

text \<open>The page: loading, failed, empty, or the rows; the large-screen table is shown here.\<close>

definition InstrumentList :: "bool \<Rightarrow> thrown option \<Rightarrow> InstrumentResponse list option \<Rightarrow> list_state \<Rightarrow> list_event ui list" where
  "InstrumentList isLoading err data st =
     (if isLoading then [Busy]
      else case err of
        Some e \<Rightarrow> [Txt (''Could not load instruments. '' @ nullish (error_message e) ''undefined''),
                   Control ''Retry'' False RetryList]
      | None \<Rightarrow>
          (if nullish data [] = []
           then toolbar st (hiddenCount data)
             @ [Heading ''No instruments yet'',
                Txt (''Add the stocks, ETFs, funds, crypto, or stablecoins you hold so you can record''
                  @ '' transactions against them.''),
                Control ''Add instrument'' False AddInstrument]
           else toolbar st (hiddenCount data) @ map (instrument_row st) (visibleInstruments (ls_showHidden st) data)
             @ delete_instrument_dialog st))"

definition delete_instrument_outcome :: "jstring \<Rightarrow> thrown + unit \<Rightarrow> list_state \<Rightarrow> list_state \<times> toast \<times> cache_change option" where
  "delete_instrument_outcome d res st =
     (case res of
        Inl err \<Rightarrow> (st\<lparr>ls_deleting := False\<rparr>, list_failure ''Delete'' err, None)
      | Inr _ \<Rightarrow> (st\<lparr>ls_deleting := False, ls_deleteTarget := None\<rparr>, OkToast ''Instrument deleted.'', Some (CacheDeleted d)))"

definition confirm_backfill :: "list_state \<Rightarrow> list_state \<times> jstring option" where
  "confirm_backfill st =
     (case ls_backfillTarget st of
        None \<Rightarrow> (st, None)
      | Some i \<Rightarrow> (st\<lparr>ls_backfillTarget := None, ls_backfilling := True\<rparr>, Some (''/api/instruments/'' @ ir_id i @ ''/backfill'')))"

lemma rows_offer:
  "AskBackfill i \<in> set (on_offer [instrument_row st i])
    \<longleftrightarrow> ir_price_source i \<notin> set MANUAL_PRICE_SOURCES \<and> \<not> ls_backfilling st"
  "AskDelete i \<in> set (on_offer [instrument_row st i])"
  by (auto simp: instrument_row_def ui_simps)

text \<open>Hiding test fixtures loses nothing: the toggle brings back exactly the rows that were counted.\<close>

lemma hidden_accounting:
  "length (visibleInstruments False data) + hiddenCount data = length (visibleInstruments True data)"
  "set (visibleInstruments True data) = set (visibleInstruments False data) \<union> {i \<in> set (nullish data []). isHidden i}"
  using sum_length_filter_compl [of isHidden "nullish data []"]
  by (auto simp: visibleInstruments_def hiddenCount_def nullish_def split: option.splits)

text \<open>Priced instruments are never hidden, whatever their symbol.\<close>

lemma priced_visible: "ir_price_source i \<noteq> ''na'' \<Longrightarrow> i \<in> set xs \<Longrightarrow> i \<in> set (visibleInstruments b (Some xs))"
  by (simp add: visibleInstruments_def isHidden_def)

end
