(* ===== verification/Settings.thy ===== *)
theory Settings
  imports Api View
begin

text \<open>
  The settings page's own forms: the password and two-factor blocks
  (\<open>settings/SecuritySection.tsx\<close>), the API keys of the data sources
  (\<open>settings/DataSourcesSection.tsx\<close>), and the update panel with the banner and the comparison of
  versions they rest on (\<open>settings/SoftwareUpdatesSection.tsx\<close>, \<open>update/*\<close>, \<open>lib/update-status.ts\<close>).
  A request that is under way, and how the last one ended, is a value of \<open>mutation\<close>.
\<close>

datatype mutation = MIdle | MPending | MFailed thrown | MDone

definition mutation_error :: "mutation \<Rightarrow> thrown option" where
  "mutation_error m = (case m of MFailed e \<Rightarrow> Some e | _ \<Rightarrow> None)"

definition settled :: "thrown + 'a \<Rightarrow> mutation" where
  "settled r = (case r of Inl e \<Rightarrow> MFailed e | Inr _ \<Rightarrow> MDone)"

text \<open>The text of a failure, with a text of its own for one status.\<close>

definition status_message :: "nat \<Rightarrow> jstring \<Rightarrow> jstring \<Rightarrow> thrown \<Rightarrow> jstring" where
  "status_message code own fallback err =
     (case err of ApiErr n d \<Rightarrow> if n = code then own else extractApiErrorMessage err fallback
      | _ \<Rightarrow> extractApiErrorMessage err fallback)"

section \<open>The password form\<close>

record pw_values =
  current_password :: jstring
  new_password :: jstring
  pw_confirm :: jstring

definition pw_schema :: "pw_values \<Rightarrow> (jstring \<times> jstring) list" where
  "pw_schema v =
     (if current_password v = [] then [(''current_password'', ''Current password is required'')] else [])
     @ (if js_length (new_password v) < 8 then [(''new_password'', ''At least 8 characters'')] else [])
     @ (if pw_confirm v = [] then [(''confirm'', ''Confirm your new password'')] else [])
     @ (if new_password v = pw_confirm v then [] else [(''confirm'', ''Passwords do not match'')])"

definition pw_empty :: pw_values where
  "pw_empty = \<lparr>current_password = [], new_password = [], pw_confirm = []\<rparr>"

record pw_state =
  pw_form :: pw_values
  pw_errors :: "(jstring \<times> jstring) list"
  pw_submitted :: bool
  pw_mutation :: mutation
  pw_posted :: "(jstring \<times> jstring) list"

definition pw_first :: pw_state where
  "pw_first = \<lparr>pw_form = pw_empty, pw_errors = [], pw_submitted = False, pw_mutation = MIdle, pw_posted = []\<rparr>"

definition pw_body :: "pw_values \<Rightarrow> json" where
  "pw_body v = JObj [(''current_password'', JStr (current_password v)), (''new_password'', JStr (new_password v))]"

datatype pw_field = CurrentPassword | NewPassword | ConfirmPassword

fun pw_field_name :: "pw_field \<Rightarrow> jstring" where
  "pw_field_name CurrentPassword = ''current_password''"
| "pw_field_name NewPassword = ''new_password''"
| "pw_field_name ConfirmPassword = ''confirm''"

fun pw_put :: "pw_field \<Rightarrow> jstring \<Rightarrow> pw_values \<Rightarrow> pw_values" where
  "pw_put CurrentPassword s v = v\<lparr>current_password := s\<rparr>"
| "pw_put NewPassword s v = v\<lparr>new_password := s\<rparr>"
| "pw_put ConfirmPassword s v = v\<lparr>pw_confirm := s\<rparr>"

text \<open>After the first submission a change validates its own field again.\<close>

definition pw_type :: "pw_field \<Rightarrow> jstring \<Rightarrow> pw_state \<Rightarrow> pw_state" where
  "pw_type f s st =
     (let v = pw_put f s (pw_form st)
      in st\<lparr>pw_form := v,
            pw_errors := (if pw_submitted st
              then filter (\<lambda>e. fst e \<noteq> pw_field_name f) (pw_errors st) @ filter (\<lambda>e. fst e = pw_field_name f) (pw_schema v)
              else pw_errors st)\<rparr>)"

definition pw_submit :: "pw_state \<Rightarrow> pw_state" where
  "pw_submit st =
     (if pw_schema (pw_form st) \<noteq> [] then st\<lparr>pw_errors := pw_schema (pw_form st), pw_submitted := True\<rparr>
      else st\<lparr>pw_errors := [], pw_submitted := True, pw_mutation := MPending,
              pw_posted := pw_posted st @ [(current_password (pw_form st), new_password (pw_form st))]\<rparr>)"

definition pw_settle :: "thrown + unit \<Rightarrow> pw_state \<Rightarrow> pw_state" where
  "pw_settle r st = st\<lparr>pw_form := pw_empty, pw_errors := [], pw_submitted := False, pw_mutation := settled r\<rparr>"

definition pw_message :: "mutation \<Rightarrow> jstring option" where
  "pw_message m =
     map_option (status_message 401 ''Current password is incorrect'' ''Could not update password'') (mutation_error m)"

datatype security_event = SubmitPassword

definition SecuritySection :: "bool \<Rightarrow> pw_state \<Rightarrow> security_event ui list" where
  "SecuritySection demo st =
     only_if (\<not> demo)
       ([Heading ''Security'', Txt ''Change the password used to sign in.'',
         Input ''Current password'' (current_password (pw_form st)) True False]
        @ field_alert (pw_errors st) ''current_password''
        @ [Input ''New password'' (new_password (pw_form st)) True False]
        @ field_alert (pw_errors st) ''new_password''
        @ [Input ''Confirm new password'' (pw_confirm (pw_form st)) True False]
        @ field_alert (pw_errors st) ''confirm''
        @ alert_of (pw_message (pw_mutation st))
        @ only_if (pw_mutation st = MDone) [Status ''Password updated'']
        @ [Control (if pw_mutation st = MPending then ''Updating'' @ ellipsis else ''Update password'')
             (pw_mutation st = MPending) SubmitPassword])"

inductive pw_step :: "pw_state \<Rightarrow> pw_state \<Rightarrow> bool" where
  pw_typing: "pw_step st (pw_type f s st)"
| pw_submitting: "SubmitPassword \<in> set (on_offer (SecuritySection demo st)) \<Longrightarrow> pw_step st (pw_submit st)"
| pw_settling: "pw_mutation st = MPending \<Longrightarrow> pw_step st (pw_settle r st)"

inductive pw_reach :: "pw_state \<Rightarrow> bool" where
  pw_start: "pw_reach pw_first"
| pw_next: "pw_reach st \<Longrightarrow> pw_step st st' \<Longrightarrow> pw_reach st'"

lemma pw_schema_ok:
  "pw_schema v = [] \<longleftrightarrow> current_password v \<noteq> [] \<and> 8 \<le> js_length (new_password v) \<and> new_password v = pw_confirm v"
  by (auto simp: pw_schema_def js_length_def)

lemma pw_posted_valid:
  "pw_reach st \<Longrightarrow> (a, b) \<in> set (pw_posted st) \<Longrightarrow> a \<noteq> [] \<and> 8 \<le> js_length b"
proof (induction rule: pw_reach.induct)
  case (pw_next st st')
  from pw_next.hyps(2) show ?case
  proof cases
    case (pw_submitting demo)
    then show ?thesis using pw_next.IH pw_next.prems by (auto simp: pw_submit_def pw_schema_ok split: if_splits)
  qed (use pw_next.IH pw_next.prems in \<open>auto simp: pw_type_def Let_def pw_settle_def\<close>)
qed (simp add: pw_first_def)

text \<open>One answer at a time: the form offers nothing while a request is under way.\<close>

lemma pw_offers: "SubmitPassword \<in> set (on_offer (SecuritySection demo st)) \<longleftrightarrow> \<not> demo \<and> pw_mutation st \<noteq> MPending"
  by (auto simp: SecuritySection_def ui_simps)


section \<open>Two-factor authentication\<close>

record TotpSetup =
  totp_secret :: jstring
  totp_uri :: jstring
  totp_qr :: jstring

text \<open>
  \<open>tw_known\<close> is the status last read, \<open>tw_loading\<close> whether the first reading is under way;
  \<open>tw_refetches\<close> counts the readings asked for after a success.
\<close>

record twofa_state =
  tw_known :: "bool option"
  tw_loading :: bool
  tw_enrollment :: "TotpSetup option"
  tw_code :: jstring
  tw_disabling :: bool
  tw_password :: jstring
  tw_setup :: mutation
  tw_enable :: mutation
  tw_disable :: mutation
  tw_refetches :: nat
  tw_codes :: "jstring list"
  tw_passwords :: "jstring list"

definition twofa_first :: twofa_state where
  "twofa_first = \<lparr>tw_known = None, tw_loading = True, tw_enrollment = None, tw_code = [], tw_disabling = False,
     tw_password = [], tw_setup = MIdle, tw_enable = MIdle, tw_disable = MIdle, tw_refetches = 0,
     tw_codes = [], tw_passwords = []\<rparr>"

text \<open>A reading settles; a failed one keeps what was known.  Asking again shows the loading text only when nothing is known.\<close>

definition status_settles :: "thrown + bool \<Rightarrow> twofa_state \<Rightarrow> twofa_state" where
  "status_settles r st =
     (case r of Inr b \<Rightarrow> st\<lparr>tw_known := Some b, tw_loading := False\<rparr> | Inl _ \<Rightarrow> st\<lparr>tw_loading := False\<rparr>)"

definition invalidate_status :: "twofa_state \<Rightarrow> twofa_state" where
  "invalidate_status st = st\<lparr>tw_refetches := tw_refetches st + 1, tw_loading := (tw_known st = None)\<rparr>"

definition code_of_input :: "jstring \<Rightarrow> jstring" where
  "code_of_input typed = take 6 (filter is_digit typed)"

datatype twofa_event =
    StartSetup | ConfirmCode | CancelEnrollment | StartDisable | ConfirmDisable | CancelDisable

definition cancelEnrollment :: "twofa_state \<Rightarrow> twofa_state" where
  "cancelEnrollment st = st\<lparr>tw_enrollment := None, tw_code := [], tw_enable := MIdle\<rparr>"

definition cancelDisable :: "twofa_state \<Rightarrow> twofa_state" where
  "cancelDisable st = st\<lparr>tw_disabling := False, tw_password := [], tw_disable := MIdle\<rparr>"

fun twofa_do :: "twofa_event \<Rightarrow> twofa_state \<Rightarrow> twofa_state" where
  "twofa_do StartSetup st = st\<lparr>tw_setup := MPending\<rparr>"
| "twofa_do ConfirmCode st = st\<lparr>tw_enable := MPending, tw_codes := tw_codes st @ [tw_code st]\<rparr>"
| "twofa_do CancelEnrollment st = cancelEnrollment st"
| "twofa_do StartDisable st = st\<lparr>tw_disabling := True\<rparr>"
| "twofa_do ConfirmDisable st = st\<lparr>tw_disable := MPending, tw_passwords := tw_passwords st @ [tw_password st]\<rparr>"
| "twofa_do CancelDisable st = cancelDisable st"

definition setup_settles :: "thrown + TotpSetup \<Rightarrow> twofa_state \<Rightarrow> twofa_state" where
  "setup_settles r st =
     (case r of
        Inr e \<Rightarrow> st\<lparr>tw_setup := MDone, tw_enrollment := Some e, tw_code := []\<rparr>
      | Inl err \<Rightarrow> st\<lparr>tw_setup := MFailed err\<rparr>)"

definition enable_settles :: "thrown + unit \<Rightarrow> twofa_state \<Rightarrow> twofa_state" where
  "enable_settles r st =
     (case r of
        Inr _ \<Rightarrow> (invalidate_status st)\<lparr>tw_enable := MDone, tw_enrollment := None, tw_code := []\<rparr>
      | Inl err \<Rightarrow> st\<lparr>tw_enable := MFailed err\<rparr>)"

definition disable_settles :: "thrown + unit \<Rightarrow> twofa_state \<Rightarrow> twofa_state" where
  "disable_settles r st =
     (case r of
        Inr _ \<Rightarrow> (invalidate_status st)\<lparr>tw_disable := MDone, tw_disabling := False, tw_password := []\<rparr>
      | Inl err \<Rightarrow> st\<lparr>tw_disable := MFailed err\<rparr>)"

definition setup_message :: "mutation \<Rightarrow> jstring option" where
  "setup_message m =
     map_option (\<lambda>e. extractApiErrorMessage e ''Could not start two-factor setup'') (mutation_error m)"

definition enable_message :: "mutation \<Rightarrow> jstring option" where
  "enable_message m = map_option (status_message 400 ''Invalid code'' ''Could not confirm the code'') (mutation_error m)"

definition disable_message :: "mutation \<Rightarrow> jstring option" where
  "disable_message m =
     map_option (status_message 401 ''Password is incorrect'' ''Could not disable two-factor authentication'')
       (mutation_error m)"

definition twofa_enabled :: "twofa_state \<Rightarrow> bool" where
  "twofa_enabled st = nullish (tw_known st) False"

definition status_text :: "twofa_state \<Rightarrow> jstring" where
  "status_text st =
     (if tw_loading st then ''Checking status'' @ ellipsis
      else ''Currently '' @ (if twofa_enabled st then ''on'' else ''off'') @ ''.'')"

definition enrollment_form :: "TotpSetup \<Rightarrow> twofa_state \<Rightarrow> twofa_event ui list" where
  "enrollment_form e st =
     [Anchor ''Scan this QR code with your authenticator app'' (totp_qr e), Txt ''Or enter this key manually:'',
      Txt (totp_secret e), Input ''6-digit code'' (tw_code st) False (tw_enable st = MPending)]
     @ alert_of (enable_message (tw_enable st))
     @ [Control (if tw_enable st = MPending then ''Confirming'' @ ellipsis else ''Confirm'')
          (tw_enable st = MPending \<or> tw_code st = []) ConfirmCode,
        Control ''Cancel'' (tw_enable st = MPending) CancelEnrollment]"

definition disable_form :: "twofa_state \<Rightarrow> twofa_event ui list" where
  "disable_form st =
     [Input ''Confirm your password'' (tw_password st) True (tw_disable st = MPending)]
     @ alert_of (disable_message (tw_disable st))
     @ [Control (if tw_disable st = MPending then ''Disabling'' @ ellipsis else ''Confirm disable'')
          (tw_disable st = MPending \<or> tw_password st = []) ConfirmDisable,
        Control ''Cancel'' (tw_disable st = MPending) CancelDisable]"

definition TwoFactorAuth :: "twofa_state \<Rightarrow> twofa_event ui list" where
  "TwoFactorAuth st =
     [Heading ''Two-factor authentication'', Txt (status_text st)]
     @ only_if (\<not> tw_loading st \<and> \<not> twofa_enabled st \<and> tw_enrollment st = None)
         [Control (if tw_setup st = MPending then ''Preparing'' @ ellipsis else ''Enable'') (tw_setup st = MPending) StartSetup]
     @ alert_of (setup_message (tw_setup st))
     @ (case tw_enrollment st of Some e \<Rightarrow> enrollment_form e st | None \<Rightarrow> [])
     @ only_if (twofa_enabled st \<and> \<not> tw_disabling st) [Control ''Disable'' False StartDisable]
     @ only_if (tw_disabling st) (disable_form st)"

inductive twofa_step :: "twofa_state \<Rightarrow> twofa_state \<Rightarrow> bool" where
  twofa_press: "e \<in> set (on_offer (TwoFactorAuth st)) \<Longrightarrow> twofa_step st (twofa_do e st)"
| twofa_type_code: "tw_enrollment st \<noteq> None \<Longrightarrow> tw_enable st \<noteq> MPending \<Longrightarrow>
    twofa_step st (st\<lparr>tw_code := code_of_input typed\<rparr>)"
| twofa_type_password: "tw_disabling st \<Longrightarrow> tw_disable st \<noteq> MPending \<Longrightarrow> twofa_step st (st\<lparr>tw_password := typed\<rparr>)"
| twofa_status: "twofa_step st (status_settles r st)"
| twofa_setup: "tw_setup st = MPending \<Longrightarrow> twofa_step st (setup_settles s st)"
| twofa_enable: "tw_enable st = MPending \<Longrightarrow> twofa_step st (enable_settles u st)"
| twofa_disable: "tw_disable st = MPending \<Longrightarrow> twofa_step st (disable_settles u st)"

inductive twofa_reach :: "twofa_state \<Rightarrow> bool" where
  twofa_start: "twofa_reach twofa_first"
| twofa_next: "twofa_reach st \<Longrightarrow> twofa_step st st' \<Longrightarrow> twofa_reach st'"

lemma twofa_offers:
  "StartSetup \<in> set (on_offer (TwoFactorAuth st)) \<longleftrightarrow>
     \<not> tw_loading st \<and> \<not> twofa_enabled st \<and> tw_enrollment st = None \<and> tw_setup st \<noteq> MPending"
  "ConfirmCode \<in> set (on_offer (TwoFactorAuth st)) \<longleftrightarrow>
     tw_enrollment st \<noteq> None \<and> tw_enable st \<noteq> MPending \<and> tw_code st \<noteq> []"
  "CancelEnrollment \<in> set (on_offer (TwoFactorAuth st)) \<longleftrightarrow> tw_enrollment st \<noteq> None \<and> tw_enable st \<noteq> MPending"
  "StartDisable \<in> set (on_offer (TwoFactorAuth st)) \<longleftrightarrow> twofa_enabled st \<and> \<not> tw_disabling st"
  "ConfirmDisable \<in> set (on_offer (TwoFactorAuth st)) \<longleftrightarrow>
     tw_disabling st \<and> tw_disable st \<noteq> MPending \<and> tw_password st \<noteq> []"
  "CancelDisable \<in> set (on_offer (TwoFactorAuth st)) \<longleftrightarrow> tw_disabling st \<and> tw_disable st \<noteq> MPending"
  by (cases "tw_enrollment st"; auto simp: TwoFactorAuth_def enrollment_form_def disable_form_def ui_simps split: if_splits)+

definition code_ok :: "jstring \<Rightarrow> bool" where
  "code_ok c \<longleftrightarrow> length c \<le> 6 \<and> list_all is_digit c"

lemma code_ok_input: "code_ok (code_of_input typed)"
  by (auto simp: code_ok_def code_of_input_def list_all_iff dest: in_set_takeD)

definition twofa_ok :: "twofa_state \<Rightarrow> bool" where
  "twofa_ok st \<longleftrightarrow>
     code_ok (tw_code st)
     \<and> (tw_enrollment st = None \<longrightarrow> tw_code st = [] \<and> tw_enable st \<noteq> MPending)
     \<and> (\<not> tw_disabling st \<longrightarrow> tw_password st = [] \<and> tw_disable st \<noteq> MPending)
     \<and> list_all (\<lambda>c. c \<noteq> [] \<and> code_ok c) (tw_codes st) \<and> [] \<notin> set (tw_passwords st)"

lemma twofa_ok_press:
  assumes "twofa_ok st" "e \<in> set (on_offer (TwoFactorAuth st))"
  shows "twofa_ok (twofa_do e st)"
  using assms
  by (cases e) (auto simp: twofa_offers twofa_ok_def cancelEnrollment_def cancelDisable_def code_ok_def)

lemma twofa_ok_reach: "twofa_reach st \<Longrightarrow> twofa_ok st"
proof (induction rule: twofa_reach.induct)
  case twofa_start
  then show ?case by (simp add: twofa_ok_def twofa_first_def code_ok_def)
next
  case (twofa_next st st')
  from twofa_next.hyps(2) show ?case
  proof cases
    case (twofa_press e)
    then show ?thesis using twofa_ok_press twofa_next.IH by simp
  next
    case (twofa_type_code typed)
    then show ?thesis using twofa_next.IH code_ok_input by (auto simp: twofa_ok_def)
  next
    case (twofa_setup s)
    then show ?thesis using twofa_next.IH by (cases s) (auto simp: twofa_ok_def setup_settles_def code_ok_def)
  next
    case (twofa_enable u)
    then show ?thesis using twofa_next.IH
      by (cases u) (auto simp: twofa_ok_def enable_settles_def invalidate_status_def code_ok_def)
  next
    case (twofa_disable u)
    then show ?thesis using twofa_next.IH
      by (cases u) (auto simp: twofa_ok_def disable_settles_def invalidate_status_def)
  qed (use twofa_next.IH in \<open>auto simp: twofa_ok_def status_settles_def split: sum.splits\<close>)
qed


text \<open>
  C28: Nothing malformed is sent, and nothing secret is left behind.  Every code the two-factor block
  posts has one to six digits, every password it posts to turn the protection off has been typed,
  and a password or code is kept only while its form is open.
\<close>
theorem twofa_requests_checked:
  assumes "twofa_reach st"
  shows "list_all (\<lambda>c. c \<noteq> [] \<and> length c \<le> 6 \<and> list_all is_digit c) (tw_codes st)
    \<and> [] \<notin> set (tw_passwords st)
    \<and> (tw_disabling st \<or> tw_password st = []) \<and> (tw_enrollment st \<noteq> None \<or> tw_code st = [])"
  using twofa_ok_reach [OF assms] by (auto simp: twofa_ok_def code_ok_def)

definition demo_setup :: TotpSetup where
  "demo_setup = \<lparr>totp_secret = ''JBSWY3DP'', totp_uri = ''otpauth://totp/x'', totp_qr = ''data:image/svg''\<rparr>"

definition demo_confirming :: twofa_state where
  "demo_confirming = twofa_do ConfirmCode
     ((setup_settles (Inr demo_setup) (twofa_do StartSetup (status_settles (Inr False) twofa_first)))
        \<lparr>tw_code := code_of_input ''123 4567''\<rparr>)"

lemma demo_confirming_reached: "twofa_reach demo_confirming"
proof -
  let ?a = "status_settles (Inr False) twofa_first"
  let ?b = "twofa_do StartSetup ?a"
  let ?c = "setup_settles (Inr demo_setup) ?b"
  let ?d = "?c\<lparr>tw_code := code_of_input ''123 4567''\<rparr>"
  have a: "twofa_reach ?a" using twofa_next [OF twofa_start twofa_status] .
  have b: "twofa_reach ?b"
    by (rule twofa_next [OF a twofa_press])
      (simp add: twofa_offers twofa_first_def status_settles_def twofa_enabled_def nullish_def)
  have c: "twofa_reach ?c" by (rule twofa_next [OF b twofa_setup]) simp
  have d: "twofa_reach ?d"
    by (rule twofa_next [OF c twofa_type_code]) (simp_all add: setup_settles_def status_settles_def twofa_first_def)
  have "code_of_input ''123 4567'' = ''123456''" by code_simp
  then show ?thesis
    unfolding demo_confirming_def
    by (intro twofa_next [OF d twofa_press]) (simp add: twofa_offers setup_settles_def status_settles_def twofa_first_def)
qed

theorem twofa_requests_checked_witness:
  "tw_codes demo_confirming = [''123456''] \<and> list_all (\<lambda>c. c \<noteq> [] \<and> length c \<le> 6 \<and> list_all is_digit c) (tw_codes demo_confirming)"
  using twofa_requests_checked [OF demo_confirming_reached] by (auto simp: demo_confirming_def code_of_input_def is_digit_def
      setup_settles_def status_settles_def twofa_first_def)

text \<open>
  An unknown status is shown as off.  When the status could not be read, or was read before the
  protection was turned on and is being read again, the block says that two-factor authentication
  is off and offers to enable it.
\<close>
theorem twofa_unknown_shown_off:
  "twofa_reach (status_settles (Inl err) twofa_first)
    \<and> status_text (status_settles (Inl err) twofa_first) = ''Currently off.''
    \<and> StartSetup \<in> set (on_offer (TwoFactorAuth (status_settles (Inl err) twofa_first)))
    \<and> twofa_reach (enable_settles (Inr ()) demo_confirming)
    \<and> status_text (enable_settles (Inr ()) demo_confirming) = ''Currently off.''
    \<and> StartSetup \<in> set (on_offer (TwoFactorAuth (enable_settles (Inr ()) demo_confirming)))"
proof -
  have pending: "tw_enable demo_confirming = MPending" "tw_known demo_confirming = Some False"
    "tw_setup demo_confirming = MDone"
    by (simp_all add: demo_confirming_def setup_settles_def status_settles_def)
  have "twofa_reach (enable_settles (Inr ()) demo_confirming)"
    using twofa_next [OF demo_confirming_reached twofa_enable] pending by simp
  moreover have "twofa_reach (status_settles (Inl err) twofa_first)"
    using twofa_next [OF twofa_start twofa_status] .
  ultimately show ?thesis
    using pending
    by (simp add: twofa_offers status_text_def twofa_enabled_def nullish_def status_settles_def enable_settles_def
        invalidate_status_def twofa_first_def)
qed

section \<open>The keys of the data sources\<close>

record key_provider =
  kp_id :: jstring
  kp_label :: jstring
  kp_blurb :: jstring
  kp_free_tier :: jstring
  kp_register_url :: jstring
  kp_optional :: bool
  kp_configured :: bool
  kp_masked :: "jstring option"

record KeyList =
  keys_demo :: bool
  keys_providers :: "key_provider list"

definition KEYLESS_SOURCES :: "(jstring \<times> jstring) list" where
  "KEYLESS_SOURCES =
     [(''Binance'', ''Primary crypto price history (backfill). Public API, no auth.''),
      (''Frankfurter (ECB)'', ''EUR/USD FX rates, sourced from the ECB.''),
      (''FT.com'', ''European funds, ETFs, and metals (NAV tear-sheet scrape).'')]"

text \<open>A row; \<open>kr_puts\<close> and \<open>kr_deletes\<close> are the requests it has made, \<open>kr_reloads\<close> the times it asked for the list again.\<close>

record key_row =
  kr_editing :: bool
  kr_value :: jstring
  kr_error :: "jstring option"
  kr_save :: mutation
  kr_clear :: mutation
  kr_puts :: "jstring list"
  kr_deletes :: nat
  kr_reloads :: nat

definition key_row_first :: key_row where
  "key_row_first = \<lparr>kr_editing = False, kr_value = [], kr_error = None, kr_save = MIdle, kr_clear = MIdle,
     kr_puts = [], kr_deletes = 0, kr_reloads = 0\<rparr>"

definition key_busy :: "key_row \<Rightarrow> bool" where
  "key_busy r \<longleftrightarrow> kr_save r = MPending \<or> kr_clear r = MPending"

definition openEditor :: "key_row \<Rightarrow> key_row" where
  "openEditor r = r\<lparr>kr_value := [], kr_error := None, kr_editing := True\<rparr>"

definition cancelEditor :: "key_row \<Rightarrow> key_row" where
  "cancelEditor r = r\<lparr>kr_editing := False, kr_value := [], kr_error := None\<rparr>"

definition submit_key_row :: "key_row \<Rightarrow> key_row" where
  "submit_key_row r = r\<lparr>kr_error := None, kr_save := MPending, kr_puts := kr_puts r @ [js_trim (kr_value r)]\<rparr>"

definition save_settles :: "thrown + unit \<Rightarrow> key_row \<Rightarrow> key_row" where
  "save_settles a r =
     (case a of
        Inr _ \<Rightarrow> r\<lparr>kr_save := MDone, kr_reloads := kr_reloads r + 1, kr_editing := False, kr_value := [], kr_error := None\<rparr>
      | Inl err \<Rightarrow> r\<lparr>kr_save := MFailed err, kr_error := Some (errorDetail err)\<rparr>)"

definition clear_settles :: "thrown + unit \<Rightarrow> key_row \<Rightarrow> key_row" where
  "clear_settles a r =
     (case a of
        Inr _ \<Rightarrow> r\<lparr>kr_clear := MDone, kr_reloads := kr_reloads r + 1\<rparr>
      | Inl err \<Rightarrow> r\<lparr>kr_clear := MFailed err\<rparr>)"

datatype key_event = EditKey | CancelKey | SaveKeyRow | ClearKeyRow

fun key_do :: "key_event \<Rightarrow> key_row \<Rightarrow> key_row" where
  "key_do EditKey r = openEditor r"
| "key_do CancelKey r = cancelEditor r"
| "key_do SaveKeyRow r = submit_key_row r"
| "key_do ClearKeyRow r = r\<lparr>kr_clear := MPending, kr_deletes := kr_deletes r + 1\<rparr>"

definition ProviderRow :: "key_provider \<Rightarrow> key_row \<Rightarrow> key_event ui list" where
  "ProviderRow p r =
     [Txt (kp_label p)] @ only_if (kp_optional p) [Txt ''(optional)'']
     @ [Txt (kp_blurb p @ '' '' @ kp_free_tier p), Anchor ''Get a key'' (kp_register_url p),
        Txt (case Option.bind (kp_masked p) or_null of
               Some k \<Rightarrow> if kp_configured p then k else ''Not set'' | None \<Rightarrow> ''Not set'')]
     @ (if kr_editing r
        then [Input (if kp_optional p then ''Paste a key, or leave empty to clear'' else ''Paste your API key'')
                (kr_value r) True (key_busy r),
              Control (if kr_save r = MPending then ''Saving'' @ ellipsis else ''Save'') (key_busy r) SaveKeyRow,
              Control ''Cancel'' (key_busy r) CancelKey]
             @ alert_of (kr_error r)
        else [Control (if kp_configured p then ''Replace'' else ''Add key'') (key_busy r) EditKey]
             @ only_if (kp_configured p)
                 [Control (if kr_clear r = MPending then ''Clearing'' @ ellipsis else ''Clear'') (key_busy r) ClearKeyRow])"

definition KeylessSources :: "key_event ui list" where
  "KeylessSources =
     [Heading ''No key needed'',
      Txt (''Flowfolio also fetches from these free sources automatically '' @ em_dash @ '' nothing to configure.'')]
     @ concat (map (\<lambda>(l, b). [Txt l, Txt b, Txt ''No key'']) KEYLESS_SOURCES)"

definition DemoNotice :: "key_provider list \<Rightarrow> key_event ui list" where
  "DemoNotice ps =
     Txt (''API keys are disabled in demo mode. Run your own Flowfolio instance to ''
          @ ''connect live price and FX data.'')
     # concat (map (\<lambda>p. [Txt (kp_label p), Txt (kp_blurb p)]) ps)"

definition DataSourcesSection ::
  "bool \<Rightarrow> KeyList option \<Rightarrow> (jstring \<Rightarrow> key_row) \<Rightarrow> key_event ui list" where
  "DataSourcesSection isLoading data row =
     [Heading ''Data sources and API keys'',
      Txt (''Price and FX providers Flowfolio fetches from. Keys are stored on your server ''
           @ ''and never shown in full.'')]
     @ (if isLoading then [Busy, Busy, Busy]
        else case data of
          None \<Rightarrow> [Txt (''Couldn'' @ [CHR 0x27] @ ''t load API keys. Refresh the page to try again.'')]
        | Some d \<Rightarrow>
            if keys_demo d then DemoNotice (keys_providers d)
            else map (\<lambda>p. Section (ProviderRow p (row (kp_id p)))) (keys_providers d))
     @ KeylessSources"

inductive key_step :: "key_row \<Rightarrow> key_row \<Rightarrow> bool" where
  key_press: "e \<in> set (on_offer (ProviderRow p r)) \<Longrightarrow> key_step r (key_do e r)"
| key_type: "kr_editing r \<Longrightarrow> \<not> key_busy r \<Longrightarrow> key_step r (r\<lparr>kr_value := typed\<rparr>)"
| key_saved: "kr_save r = MPending \<Longrightarrow> key_step r (save_settles a r)"
| key_cleared: "kr_clear r = MPending \<Longrightarrow> key_step r (clear_settles a r)"

inductive key_reach :: "key_row \<Rightarrow> bool" where
  key_start: "key_reach key_row_first"
| key_next: "key_reach r \<Longrightarrow> key_step r r' \<Longrightarrow> key_reach r'"

lemma key_offers:
  "EditKey \<in> set (on_offer (ProviderRow p r)) \<longleftrightarrow> \<not> kr_editing r \<and> \<not> key_busy r"
  "CancelKey \<in> set (on_offer (ProviderRow p r)) \<longleftrightarrow> kr_editing r \<and> \<not> key_busy r"
  "SaveKeyRow \<in> set (on_offer (ProviderRow p r)) \<longleftrightarrow> kr_editing r \<and> \<not> key_busy r"
  "ClearKeyRow \<in> set (on_offer (ProviderRow p r)) \<longleftrightarrow> \<not> kr_editing r \<and> kp_configured p \<and> \<not> key_busy r"
  by (auto simp: ProviderRow_def ui_simps split: if_splits)

definition key_row_ok :: "key_row \<Rightarrow> bool" where
  "key_row_ok r \<longleftrightarrow>
     (kr_editing r \<or> kr_value r = [] \<and> kr_error r = None \<and> kr_save r \<noteq> MPending)
     \<and> (kr_clear r = MPending \<longrightarrow> \<not> kr_editing r)
     \<and> list_all (\<lambda>v. js_trim v = v) (kr_puts r)"

lemma key_row_ok_press:
  assumes "key_row_ok r" "e \<in> set (on_offer (ProviderRow p r))"
  shows "key_row_ok (key_do e r)"
  using assms
  by (cases e) (auto simp: key_offers key_row_ok_def openEditor_def cancelEditor_def submit_key_row_def key_busy_def js_trim_twice)

lemma key_row_ok_reach: "key_reach r \<Longrightarrow> key_row_ok r"
proof (induction rule: key_reach.induct)
  case key_start
  then show ?case by (simp add: key_row_ok_def key_row_first_def)
next
  case (key_next r r')
  from key_next.hyps(2) show ?case
  proof cases
    case (key_press e p)
    then show ?thesis using key_row_ok_press key_next.IH by simp
  qed (use key_next.IH in \<open>auto simp: key_row_ok_def save_settles_def clear_settles_def key_busy_def split: sum.splits\<close>)
qed


text \<open>
  A key is never put back into its input, and a refused key is kept for correction.  An editor
  that is closed holds no text and no message, so that it always opens empty; every value sent is
  trimmed; and a failed save leaves the editor open with what was typed, shows the reason, and does
  not ask for the list again.
\<close>
theorem key_editor_safe:
  assumes "key_reach r"
  shows "(kr_editing r \<or> kr_value r = [] \<and> kr_error r = None)
    \<and> kr_value (key_do EditKey r) = [] \<and> list_all (\<lambda>v. js_trim v = v) (kr_puts r)
    \<and> (kr_save r \<noteq> MPending \<or>
        save_settles (Inl err) r = r\<lparr>kr_save := MFailed err, kr_error := Some (errorDetail err)\<rparr> \<and> kr_editing r)"
  using key_row_ok_reach [OF assms] by (auto simp: key_row_ok_def openEditor_def save_settles_def)

definition demo_key_row :: key_row where
  "demo_key_row = key_do SaveKeyRow ((key_do EditKey key_row_first)\<lparr>kr_value := '' abc ''\<rparr>)"

definition demo_provider :: key_provider where
  "demo_provider = \<lparr>kp_id = ''p'', kp_label = ''P'', kp_blurb = ''b'', kp_free_tier = ''f'', kp_register_url = ''u'',
     kp_optional = False, kp_configured = False, kp_masked = None\<rparr>"

theorem key_editor_safe_witness:
  "kr_puts demo_key_row = [''abc''] \<and> list_all (\<lambda>v. js_trim v = v) (kr_puts demo_key_row) \<and> kr_editing demo_key_row"
proof -
  let ?a = "key_do EditKey key_row_first"
  have a: "key_reach ?a"
    by (rule key_next [OF key_start key_press [of _ demo_provider]]) (simp add: key_offers key_row_first_def key_busy_def)
  have b: "key_reach (?a\<lparr>kr_value := '' abc ''\<rparr>)"
    by (rule key_next [OF a key_type]) (simp_all add: openEditor_def key_row_first_def key_busy_def)
  have "key_reach demo_key_row"
    unfolding demo_key_row_def
    by (rule key_next [OF b key_press [of _ demo_provider]]) (simp add: key_offers openEditor_def key_row_first_def key_busy_def)
  moreover have "kr_puts demo_key_row = [''abc'']" "kr_save demo_key_row = MPending" by code_simp+
  ultimately show ?thesis using key_editor_safe [of demo_key_row] by auto
qed

text \<open>
  A clear that fails changes nothing the user sees: the row looks as it did before the button was
  pressed.
\<close>

lemma clear_failure_silent:
  assumes "key_reach r" "kr_clear r = MPending"
  shows "ProviderRow p (clear_settles (Inl err) r) = ProviderRow p (r\<lparr>kr_clear := MIdle\<rparr>)"
    "alerts (ProviderRow p (clear_settles (Inl err) r)) = []"
proof -
  have "\<not> kr_editing r" "kr_save r \<noteq> MPending"
    using key_row_ok_reach [OF assms(1)] assms(2) by (auto simp: key_row_ok_def)
  then show "ProviderRow p (clear_settles (Inl err) r) = ProviderRow p (r\<lparr>kr_clear := MIdle\<rparr>)"
    "alerts (ProviderRow p (clear_settles (Inl err) r)) = []"
    by (simp_all add: clear_settles_def ProviderRow_def key_busy_def ui_simps)
qed

text \<open>
  A password is changed only as the user confirmed it.  Every change the form posts carries the
  current password and a new one of at least eight characters; while an answer is awaited the
  button is off; and once it has come, whatever it is, the form keeps no password.
\<close>
theorem password_change_checked:
  assumes "pw_reach st"
  shows "list_all (\<lambda>(old, fresh). old \<noteq> [] \<and> 8 \<le> js_length fresh) (pw_posted st)
    \<and> (SubmitPassword \<in> set (on_offer (SecuritySection False st))) = (pw_mutation st \<noteq> MPending)
    \<and> pw_form (pw_settle r st) = pw_empty
    \<and> (\<forall>v. pw_posted (pw_submit (st\<lparr>pw_form := v\<rparr>)) = pw_posted st \<or> pw_confirm v = new_password v)"
  using pw_posted_valid [OF assms] by (auto simp: list_all_iff pw_settle_def pw_submit_def pw_schema_ok pw_offers)

definition demo_password :: pw_state where
  "demo_password = pw_submit (pw_type ConfirmPassword ''longenough''
     (pw_type NewPassword ''longenough'' (pw_type CurrentPassword ''old'' pw_first)))"

theorem password_change_checked_witness:
  "pw_posted demo_password = [(''old'', ''longenough'')] \<and> pw_form (pw_settle (Inr ()) demo_password) = pw_empty"
proof -
  have typed: "pw_reach (pw_type f s st)" if "pw_reach st" for f s st using pw_next [OF that pw_typing] .
  have "pw_reach demo_password"
    unfolding demo_password_def
    by (rule pw_next [OF typed [OF typed [OF typed [OF pw_start]]] pw_submitting [of False]])
      (simp add: pw_offers pw_type_def Let_def pw_first_def)
  moreover have "pw_posted demo_password = [(''old'', ''longenough'')]" by code_simp
  ultimately show ?thesis using password_change_checked [of demo_password "Inr ()"] by simp
qed

end
