(* ===== verification/Updates.thy ===== *)
theory Updates
  imports Api Format View StableSort
begin

text \<open>
  Release versions and the notice of a new one: the comparison (\<open>lib/update-status.ts\<close>), the banner
  with its optimistic dismissal (\<open>update/UpdateBanner.tsx\<close>, \<open>UpdateBannerProvider.tsx\<close>) and the panel
  of the settings page (\<open>settings/SoftwareUpdatesSection.tsx\<close>).
\<close>

section \<open>Versions\<close>

definition withV :: "jstring \<Rightarrow> jstring" where
  "withV v = (case v of c # _ \<Rightarrow> if is_digit c then CHR ''v'' # v else v | [] \<Rightarrow> v)"

definition bare_version :: "jstring \<Rightarrow> jstring" where
  "bare_version v = (case v of c # s \<Rightarrow> if c = CHR ''v'' \<or> c = CHR ''V'' then s else v | [] \<Rightarrow> v)"

definition parseVersion :: "jstring \<Rightarrow> jsnum list option" where
  "parseVersion v =
     (let ps = js_split CHR ''.'' (bare_version v)
      in if list_all (\<lambda>p. p \<noteq> [] \<and> list_all is_digit p) ps then Some (map str_to_number ps) else None)"

text \<open>The loop over both lists up to the longer one, a missing part being zero.\<close>

fun newer_from :: "jsnum list \<Rightarrow> jsnum list \<Rightarrow> bool" where
  "newer_from [] [] = False"
| "newer_from (x # xs) [] = (if js_eq x (Num 0) then newer_from xs [] else js_lt (Num 0) x)"
| "newer_from [] (y # ys) = (if js_eq (Num 0) y then newer_from [] ys else js_lt y (Num 0))"
| "newer_from (x # xs) (y # ys) = (if js_eq x y then newer_from xs ys else js_lt y x)"

definition isNewerVersion :: "jstring \<Rightarrow> jstring \<Rightarrow> bool" where
  "isNewerVersion latest current =
     (case (parseVersion latest, parseVersion current) of
        (Some a, Some b) \<Rightarrow> newer_from a b
      | _ \<Rightarrow> False)"

record update_status =
  us_current_version :: jstring
  us_latest_version :: "jstring option"
  us_update_available :: bool
  us_release_notes_url :: "jstring option"
  us_dismissed :: bool
  us_last_checked :: "jstring option"
  us_check_failed :: bool
  us_is_dev :: bool

definition updateActionable :: "update_status \<Rightarrow> bool" where
  "updateActionable s \<longleftrightarrow>
     \<not> us_check_failed s \<and> \<not> us_is_dev s
     \<and> (case us_latest_version s of Some l \<Rightarrow> isNewerVersion l (us_current_version s) | None \<Rightarrow> False)"

text \<open>A part of a version by its place.\<close>

definition part :: "jsnum list \<Rightarrow> nat \<Rightarrow> jsnum" where
  "part xs i = (if i < length xs then xs ! i else Num 0)"

lemma part_simps [simp]: "part [] i = Num 0" "part (x # xs) 0 = x" "part (x # xs) (Suc i) = part xs i"
  by (simp_all add: part_def)

text \<open>The numbers a run of digits can denote: exact or rounded, none is below zero.\<close>

definition version_num :: "jsnum \<Rightarrow> bool" where
  "version_num x \<longleftrightarrow> x = PInf \<or> (\<exists>q. x = Num q \<and> 0 \<le> q)"

lemma version_num_cases: "version_num x \<Longrightarrow> version_num y \<Longrightarrow> js_eq x y \<longleftrightarrow> x = y"
  "version_num x \<Longrightarrow> version_num y \<Longrightarrow> x \<noteq> y \<Longrightarrow> js_lt x y \<or> js_lt y x" "version_num (Num 0)"
  by (auto simp: version_num_def js_eq_def)

definition first_difference :: "jsnum list \<Rightarrow> jsnum list \<Rightarrow> nat \<Rightarrow> bool" where
  "first_difference xs ys i \<longleftrightarrow> js_lt (part ys i) (part xs i) \<and> (\<forall>j < i. part xs j = part ys j)"

lemma first_difference_Suc:
  "(\<exists>i. first_difference xs ys i) \<longleftrightarrow>
     (if part xs 0 = part ys 0 then \<exists>i. first_difference (tl xs) (tl ys) i else js_lt (part ys 0) (part xs 0))"
proof -
  have shift: "part zs (Suc i) = part (tl zs) i" for zs i by (cases zs) simp_all
  have suc: "first_difference xs ys (Suc i) \<longleftrightarrow> part xs 0 = part ys 0 \<and> first_difference (tl xs) (tl ys) i" for i
    by (auto simp: first_difference_def shift less_Suc_eq_0_disj)
  have zero: "first_difference xs ys 0 \<longleftrightarrow> js_lt (part ys 0) (part xs 0)" by (simp add: first_difference_def)
  have "(\<exists>i. first_difference xs ys i) \<longleftrightarrow> first_difference xs ys 0 \<or> (\<exists>i. first_difference xs ys (Suc i))"
    by (metis not0_implies_Suc)
  then show ?thesis by (auto simp: suc zero)
qed

lemma newer_first_difference:
  "list_all version_num xs \<Longrightarrow> list_all version_num ys \<Longrightarrow> newer_from xs ys \<longleftrightarrow> (\<exists>i. first_difference xs ys i)"
proof (induction xs ys rule: newer_from.induct)
  case 1
  then show ?case by (simp add: first_difference_def)
next
  case (2 x xs)
  then show ?case using first_difference_Suc [of "x # xs" "[]"] version_num_cases(1) [of x "Num 0"] version_num_cases(3) by simp
next
  case (3 y ys)
  then show ?case using first_difference_Suc [of "[]" "y # ys"] version_num_cases(1) [of "Num 0" y] version_num_cases(3) by auto
next
  case (4 x xs y ys)
  then show ?case using first_difference_Suc [of "x # xs" "y # ys"] version_num_cases(1) [of x y] by simp
qed

lemma version_part: "list_all version_num xs \<Longrightarrow> version_num (part xs i)"
  by (simp add: part_def list_all_length version_num_cases(3))

lemma newer_split:
  assumes "list_all version_num xs" "list_all version_num ys" "list_all version_num zs" "newer_from zs xs"
  shows "newer_from ys xs \<or> newer_from zs ys"
proof -
  obtain i where i: "js_lt (part xs i) (part zs i)" "\<And>j. j < i \<Longrightarrow> part zs j = part xs j"
    using newer_first_difference [OF assms(3,1)] assms(4) by (auto simp: first_difference_def)
  define differs where "differs k \<longleftrightarrow> part ys k \<noteq> part xs k \<or> part ys k \<noteq> part zs k" for k
  define k where "k = (LEAST k. differs k)"
  have at_i: "differs i" using i(1) by (auto simp: differs_def)
  have k: "part ys k \<noteq> part xs k \<or> part ys k \<noteq> part zs k"
    using LeastI [of differs, OF at_i] by (simp add: k_def differs_def)
  have below: "part ys j = part xs j" "part ys j = part zs j" if "j < k" for j
    using not_less_Least [OF that [unfolded k_def]] by (auto simp: differs_def)
  have ki: "k \<le> i" using Least_le [of differs, OF at_i] by (simp add: k_def)
  have vs: "version_num (part xs k)" "version_num (part ys k)" "version_num (part zs k)"
    using assms(1-3) version_part by blast+
  have "part xs k = part zs k \<or> js_lt (part xs k) (part zs k)" using i ki by (cases "k = i") auto
  then have "js_lt (part xs k) (part ys k) \<or> js_lt (part ys k) (part zs k)"
    using k version_num_cases(2) [OF vs(1,2)] version_num_cases(2) [OF vs(2,3)] js_lt_trans by metis
  then show ?thesis
    using below newer_first_difference assms(1-3) by (auto simp: first_difference_def)
qed

lemma newer_irrefl: "list_all version_num xs \<Longrightarrow> \<not> newer_from xs xs"
  by (simp add: newer_first_difference first_difference_def)

lemma newer_asym:
  assumes "list_all version_num xs" "list_all version_num ys" "newer_from xs ys"
  shows "\<not> newer_from ys xs"
proof
  assume "newer_from ys xs"
  with assms obtain i j where ij: "first_difference xs ys i" "first_difference ys xs j"
    using newer_first_difference by blast
  then show False
    by (cases i j rule: linorder_cases) (auto simp: first_difference_def dest: js_lt_asym)
qed


lemma version_num_double: "0 \<le> q \<Longrightarrow> version_num (to_double q)"
  using round_pos_nonneg [of q] by (auto simp: to_double_def Let_def version_num_def)

lemma digits_number:
  assumes "p \<noteq> []" "list_all is_digit p"
  shows "str_to_number p = to_double (of_int (digits_val p))"
proof -
  have "str_to_number (dec_text p CHR ''.'' []) = to_double (dec_value (dec_text p CHR ''.'' []))"
    using assms by (intro str_to_number_text) auto
  moreover have "dec_value (dec_text p CHR ''.'' []) = of_int (digits_val p)"
    using assms dec_value_text [of "''''" p "CHR ''.''" "[]"] digits_val_nonneg [OF assms(2)]
    by (simp add: sign_val_def)
  ultimately show ?thesis by (simp add: dec_text_def)
qed

lemma parsed_nums: "parseVersion v = Some xs \<Longrightarrow> list_all version_num xs"
  by (auto simp: parseVersion_def Let_def list_all_iff digits_number version_num_double digits_val_nonneg split: if_splits)

text \<open>Versions that can be read, the older before the newer.\<close>

definition older :: "jstring \<Rightarrow> jstring \<Rightarrow> bool" where
  "older a b \<longleftrightarrow> isNewerVersion b a"

interpretation version_order: weak_order "\<lambda>v. parseVersion v \<noteq> None" older
proof
  fix a b c
  assume "parseVersion a \<noteq> None" "parseVersion b \<noteq> None"
  then obtain xs ys where ab: "parseVersion a = Some xs" "parseVersion b = Some ys" by blast
  note nums = ab [THEN parsed_nums]
  show "\<not> older a a" by (simp add: older_def isNewerVersion_def ab newer_irrefl nums)
  show "\<not> older b a" if "older a b"
    using that newer_asym [OF nums] by (auto simp: older_def isNewerVersion_def ab)
  show "older a b \<or> older b c" if known: "parseVersion c \<noteq> None" and "older a c"
  proof -
    obtain zs where c: "parseVersion c = Some zs" using known by blast
    then show ?thesis
      using that(2) newer_split [OF nums parsed_nums [OF c]] by (simp add: older_def isNewerVersion_def ab)
  qed
qed

text \<open>
  "Newer" is a strict order.  No version is newer than itself, of two versions at most one is
  newer than the other, and what is newer than a newer version is newer; a label that is no
  dotted number is neither newer nor older than anything.
\<close>
theorem newer_strict_order:
  "\<not> isNewerVersion a a \<and> \<not> (isNewerVersion a b \<and> isNewerVersion b a)
    \<and> (\<not> (isNewerVersion a b \<and> isNewerVersion b c) \<or> isNewerVersion a c)
    \<and> (parseVersion a \<noteq> None \<or> \<not> isNewerVersion a b \<and> \<not> isNewerVersion b a)"
proof -
  have known: "parseVersion x \<noteq> None \<and> parseVersion y \<noteq> None" if "isNewerVersion x y" for x y
    using that by (auto simp: isNewerVersion_def split: option.splits)
  show ?thesis
    using version_order.irrefl [of a] version_order.asym [of a b] version_order.lt_trans [of c b a]
      known [of a a] known [of a b] known [of b a] known [of b c]
    unfolding older_def by blast
qed

theorem newer_strict_order_witness:
  "isNewerVersion ''1.10'' ''1.2'' \<and> \<not> isNewerVersion ''1.2'' ''1.10'' \<and> \<not> isNewerVersion ''dev'' ''1.2''"
proof -
  have "isNewerVersion ''1.10'' ''1.2''" "parseVersion ''dev'' = None" by code_simp+
  then show ?thesis
    using newer_strict_order [of "''1.10''" "''1.2''" "''1.2''"] newer_strict_order [of "''dev''" "''1.2''" "''1.2''"] by blast
qed

text \<open>The text of a version with parts \<open>ps\<close>.\<close>

definition version_text :: "bool \<Rightarrow> int list \<Rightarrow> jstring" where
  "version_text with_v ps = (if with_v then ''v'' else []) @ js_join ''.'' (map show_digits ps)"

definition int_part :: "int list \<Rightarrow> nat \<Rightarrow> int" where
  "int_part ps i = (if i < length ps then ps ! i else 0)"

lemma split_version:
  assumes "ps \<noteq> []" "list_all (\<lambda>n. 0 \<le> n) ps"
  shows "js_split CHR ''.'' (js_join ''.'' (map show_digits ps)) = map show_digits ps"
  using assms
proof (induction ps)
  case (Cons n ps)
  have dot: "CHR ''.'' \<notin> set (show_digits n)"
    using show_digits_digits [of n] Cons.prems by (auto simp: list_all_iff is_digit_def)
  show ?case
  proof (cases ps)
    case Nil
    then show ?thesis using js_split_none [OF dot] by simp
  next
    case (Cons m ms)
    then show ?thesis using Cons.IH Cons.prems js_split_append [OF dot] by simp
  qed
qed simp


lemma bare_version_text:
  assumes "ps \<noteq> []" "list_all (\<lambda>n. 0 \<le> n) ps"
  shows "bare_version (version_text with_v ps) = js_join ''.'' (map show_digits ps)"
proof (cases with_v)
  case False
  obtain n ms where ps: "ps = n # ms" using assms(1) by (cases ps) auto
  then have n: "0 \<le> n" using assms(2) by simp
  have "list_all is_digit (show_digits n)" "show_digits n \<noteq> []" using n show_digits_digits by simp_all
  then obtain c s where c: "show_digits n = c # s" "is_digit c" by (cases "show_digits n") auto
  then have "c \<noteq> CHR ''v''" "c \<noteq> CHR ''V''" by (auto simp: is_digit_def)
  moreover have "\<exists>t. js_join ''.'' (map show_digits ps) = c # t" by (cases ms) (simp_all add: ps c)
  ultimately show ?thesis using False by (auto simp: bare_version_def version_text_def)
qed (simp add: bare_version_def version_text_def)

lemma parse_version_text:
  assumes "ps \<noteq> []" "list_all (\<lambda>n. 0 \<le> n \<and> n \<le> 2 ^ 53) ps"
  shows "parseVersion (version_text with_v ps) = Some (map (\<lambda>n. Num (of_int n)) ps)"
proof -
  have nn: "list_all (\<lambda>n. 0 \<le> n) ps" using assms(2) by (auto simp: list_all_iff)
  have "list_all (\<lambda>p. p \<noteq> [] \<and> list_all is_digit p) (map show_digits ps)"
    using nn show_digits_digits by (auto simp: list_all_iff)
  moreover have "map str_to_number (map show_digits ps) = map (\<lambda>n. Num (of_int n)) ps"
    using assms(2) str_to_number_digits by (auto simp: list_all_iff)
  ultimately show ?thesis
    by (simp add: parseVersion_def Let_def bare_version_text [OF assms(1) nn] split_version [OF assms(1) nn])
qed

lemma part_nums: "part (map (\<lambda>n. Num (of_int n)) ps) i = Num (of_int (int_part ps i))"
  by (simp add: part_def int_part_def)

text \<open>
  Versions are compared part by part.  For releases written as dotted numbers, with or without
  the leading "v", one is newer exactly when at the first place where they differ its number is the
  larger one, missing parts counting as zero: "1.10" is newer than "1.9", and "1.2" is not newer
  than "1.2.0".
\<close>
theorem newer_by_parts:
  assumes "as \<noteq> []" "bs \<noteq> []" "list_all (\<lambda>n. 0 \<le> n \<and> n \<le> 2 ^ 53) as" "list_all (\<lambda>n. 0 \<le> n \<and> n \<le> 2 ^ 53) bs"
  shows "isNewerVersion (version_text v as) (version_text w bs)
    \<longleftrightarrow> (\<exists>i. int_part bs i < int_part as i \<and> (\<forall>j < i. int_part as j = int_part bs j))"
proof -
  have "list_all version_num (map (\<lambda>n. Num (of_int n)) ps)" if "list_all (\<lambda>n. 0 \<le> n \<and> n \<le> 2 ^ 53) ps" for ps
    using that by (auto simp: list_all_iff version_num_def)
  then show ?thesis
    using assms by (simp add: isNewerVersion_def parse_version_text newer_first_difference first_difference_def part_nums)
qed

theorem newer_by_parts_witness:
  "isNewerVersion ''v1.10'' ''1.9.7'' \<and> \<not> isNewerVersion ''1.2'' ''v1.2.0''"
proof -
  have texts: "version_text True [1, 10] = ''v1.10''" "version_text False [1, 9, 7] = ''1.9.7''"
    "version_text False [1, 2] = ''1.2''" "version_text True [1, 2, 0] = ''v1.2.0''" by code_simp+
  have "\<exists>i. int_part [1, 9, 7] i < int_part [1, 10] i \<and> (\<forall>j < i. int_part [1, 10] j = int_part [1, 9, 7] j)"
    by (rule exI [of _ 1]) (simp add: int_part_def)
  moreover have "\<not> int_part [1, 2, 0] i < int_part [1, 2] i" for i
    by (auto simp: int_part_def less_Suc_eq numeral_2_eq_2 numeral_3_eq_3)
  ultimately show ?thesis
    using newer_by_parts [of "[1, 10]" "[1, 9, 7]" True False] newer_by_parts [of "[1, 2]" "[1, 2, 0]" False True]
    unfolding texts by simp
qed


section \<open>The banner\<close>

text \<open>\<open>dismissed\<close> is the version hidden for the session, \<open>bn_puts\<close> the dismissals sent.\<close>

record banner_state =
  bn_dismissed :: "jstring option"
  bn_puts :: "jstring list"
  bn_reloads :: nat

definition dismiss_update :: "jstring \<Rightarrow> banner_state \<Rightarrow> banner_state" where
  "dismiss_update v st = st\<lparr>bn_dismissed := Some v, bn_puts := bn_puts st @ [v]\<rparr>"

text \<open>Whether the request was accepted or not, the status is read again.\<close>

definition dismiss_settles :: "thrown + unit \<Rightarrow> banner_state \<Rightarrow> banner_state" where
  "dismiss_settles r st = st\<lparr>bn_reloads := bn_reloads st + 1\<rparr>"

definition UpdateBanner :: "bool \<Rightarrow> update_status option \<Rightarrow> banner_state \<Rightarrow> jstring ui list" where
  "UpdateBanner demo data st =
     (case data of
        Some d \<Rightarrow>
          (case Option.bind (us_latest_version d) or_null of
             Some latest \<Rightarrow>
               only_if (\<not> demo \<and> us_update_available d \<and> bn_dismissed st \<noteq> Some latest)
                 ([Heading ''Update available'', Control ''Dismiss update notice'' False latest,
                   Txt (''Flowfolio '' @ withV latest @ '' is ready. You'' @ [CHR 0x27] @ ''re on ''
                        @ withV (us_current_version d) @ ''.'')]
                  @ (case Option.bind (us_release_notes_url d) or_null of
                       Some u \<Rightarrow> [Anchor ''View release notes'' u] | None \<Rightarrow> [])
                  @ [Anchor ''Update in Settings'' ''/settings#software-updates''])
           | None \<Rightarrow> [])
      | None \<Rightarrow> [])"

text \<open>
  A dismissed version stays away for the session, whatever the server answers; a newer release
  brings the banner back.
\<close>

lemma dismissed_hidden:
  assumes "us_latest_version d = Some l"
  shows "UpdateBanner demo (Some d) (dismiss_settles r (dismiss_update l st)) = []"
  using assms by (simp add: UpdateBanner_def dismiss_settles_def dismiss_update_def only_if_def split: option.split)

lemma next_release_shown:
  assumes "us_latest_version d = Some l" "l \<noteq> []" "l \<noteq> v" "us_update_available d"
  shows "l \<in> set (on_offer (UpdateBanner False (Some d) (dismiss_settles r (dismiss_update v st))))"
  using assms by (simp add: UpdateBanner_def dismiss_settles_def dismiss_update_def or_null_def ui_simps)

section \<open>The panel of the settings page\<close>

definition lastCheckedLabel :: "(jstring \<Rightarrow> jstring option) \<Rightarrow> jstring option \<Rightarrow> jstring option" where
  "lastCheckedLabel since iso_text =
     (case Option.bind iso_text or_null of
        None \<Rightarrow> None
      | Some i \<Rightarrow> map_option (\<lambda>d. ''Last checked '' @ d @ ''.'') (since i))"

definition StatusLine :: "(jstring \<Rightarrow> jstring option) \<Rightarrow> update_status \<Rightarrow> bool \<Rightarrow> unit ui list" where
  "StatusLine since d updateAvailable =
     (let current = withV (us_current_version d); latest = Option.bind (us_latest_version d) or_null
      in if us_is_dev d
         then Txt (''Development build ('' @ current @ ''). Update by pulling the latest source and rebuilding.'')
              # (case latest of Some l \<Rightarrow> [Txt (''Latest release: '' @ withV l @ ''.'')] | None \<Rightarrow> [])
         else if us_check_failed d
         then [Txt (''Couldn'' @ [CHR 0x27] @ ''t check for updates. We'' @ [CHR 0x27] @ ''ll try again automatically. You''
                    @ [CHR 0x27] @ ''re on '' @ current @ ''.'')]
         else case (updateAvailable, latest) of
           (True, Some l) \<Rightarrow>
             Txt (''Flowfolio '' @ withV l @ '' is available. You'' @ [CHR 0x27] @ ''re on '' @ current @ ''.'')
             # (case Option.bind (us_release_notes_url d) or_null of
                  Some u \<Rightarrow> [Anchor ''View release notes'' u] | None \<Rightarrow> [])
         | _ \<Rightarrow>
             Txt (''You'' @ [CHR 0x27] @ ''re on the latest version ('' @ current @ '').'')
             # (case lastCheckedLabel since (us_last_checked d) of Some t \<Rightarrow> [Txt t] | None \<Rightarrow> []))"

datatype panel_event = CheckForUpdates

definition SoftwareUpdatesSection ::
  "(jstring \<Rightarrow> jstring option) \<Rightarrow> bool \<Rightarrow> bool \<Rightarrow> bool \<Rightarrow> update_status option
    \<Rightarrow> unit ui list \<times> panel_event ui list \<times> unit ui list" where
  "SoftwareUpdatesSection since demo isLoading checking data =
     (if demo then ([], [], [])
      else
        let available = (case data of Some d \<Rightarrow> updateActionable d | None \<Rightarrow> False)
        in (Heading ''Software updates''
            # (if isLoading then [Busy]
               else case data of
                 Some d \<Rightarrow> StatusLine since d available
               | None \<Rightarrow> [Txt (''Couldn'' @ [CHR 0x27] @ ''t load update status. Refresh the page to try again.'')]),
            [Control (if checking then ''Checking'' @ ellipsis else ''Check for updates'') checking CheckForUpdates],
            (case data of
               Some d \<Rightarrow>
                 (case Option.bind (us_latest_version d) or_null of
                    Some l \<Rightarrow> only_if available
                      [Txt (''Flowfolio '' @ withV l @ '' is ready. Update your container to upgrade. ''
                            @ ''Your data volume and settings are preserved.''),
                       Txt ''docker compose pull && docker compose up -d'',
                       Txt (''On Portainer, open the stack and choose Pull and redeploy.'')]
                  | None \<Rightarrow> [])
             | None \<Rightarrow> [])))"

text \<open>What a successful check for updates asks for again.\<close>

definition check_settles :: "thrown + unit \<Rightarrow> jstring list" where
  "check_settles r = (case r of Inr _ \<Rightarrow> [''update-status''] | Inl _ \<Rightarrow> [])"

text \<open>The instructions are shown only where there is something to install.\<close>

lemma instructions_only_when_newer:
  assumes "snd (snd (SoftwareUpdatesSection since demo isLoading checking (Some d))) \<noteq> []"
  shows "\<not> us_is_dev d \<and> \<not> us_check_failed d
    \<and> (\<exists>l. us_latest_version d = Some l \<and> isNewerVersion l (us_current_version d))"
  using assms by (auto simp: SoftwareUpdatesSection_def Let_def only_if_def updateActionable_def split: option.splits if_splits)

text \<open>
  An unknown release counts as the latest.  While no release is known at all, or its tag is no
  version the comparison can read, the panel says that the running version is the latest one.
\<close>
theorem unknown_release_claims_latest:
  assumes "case us_latest_version d of None \<Rightarrow> True | Some l \<Rightarrow> parseVersion l = None"
    and "\<not> us_is_dev d" "\<not> us_check_failed d"
  shows "Txt (''You'' @ [CHR 0x27] @ ''re on the latest version ('' @ withV (us_current_version d) @ '').'')
    \<in> set (fst (SoftwareUpdatesSection since False False checking (Some d)))"
proof -
  have "\<not> updateActionable d"
    using assms(1) by (auto simp: updateActionable_def isNewerVersion_def split: option.splits)
  then show ?thesis using assms(2,3) by (simp add: SoftwareUpdatesSection_def StatusLine_def Let_def)
qed

definition demo_status :: "jstring option \<Rightarrow> update_status" where
  "demo_status latest = \<lparr>us_current_version = ''1.2.0'', us_latest_version = latest, us_update_available = False,
     us_release_notes_url = None, us_dismissed = False, us_last_checked = None, us_check_failed = False, us_is_dev = False\<rparr>"

theorem unknown_release_claims_latest_witness:
  "Txt (''You'' @ [CHR 0x27] @ ''re on the latest version (v1.2.0).'')
    \<in> set (fst (SoftwareUpdatesSection (\<lambda>_. None) False False False (Some (demo_status None))))"
proof -
  have "withV ''1.2.0'' = ''v1.2.0''" by code_simp
  then show ?thesis
    using unknown_release_claims_latest [of "demo_status None" "\<lambda>_. None" False] by (simp add: demo_status_def)
qed

end
