(* ===== verification/Tags.thy ===== *)
theory Tags
  imports FormKit Prefs View StableSort
begin

text \<open>
  Tags: the manager with its creation form and its deletion dialog (\<open>tags/TagsManager.tsx\<close>), the
  editor of the tags of one holding (\<open>tags/HoldingTagsEditor.tsx\<close>), the section that lists them
  (\<open>tags/HoldingTagsSection.tsx\<close>, \<open>tags/TagChip.tsx\<close>) and the filter in the header
  (\<open>header/TagFilterChip.tsx\<close>).  What a callback does is a list of effects in the order it does them.
\<close>

record Tag =
  tag_id :: jstring
  tag_name :: jstring
  tag_holdings :: int

datatype tag_effect =
    TagOk jstring | TagFailed jstring | TagNote jstring
  | TagInvalidate "jstring list" | FilterBy "jstring option" | CloseConfirm | OpenManager

definition quoted :: "jstring \<Rightarrow> jstring" where
  "quoted s = CHR 0x22 # s @ [CHR 0x22]"

definition portfolio_effects :: "tag_effect list" where
  "portfolio_effects = map (\<lambda>k. TagInvalidate [k]) PORTFOLIO_CACHE_KEYS"

definition thrown_text :: "thrown \<Rightarrow> jstring" where
  "thrown_text err = nullish (error_message err) ''undefined''"

text \<open>\<open>collate\<close> is \<open>localeCompare\<close>.\<close>

definition tags_by_name :: "(jstring \<Rightarrow> jstring \<Rightarrow> int) \<Rightarrow> Tag list \<Rightarrow> Tag list" where
  "tags_by_name collate tags = sort_by (\<lambda>a b. collate (tag_name a) (tag_name b) < 0) tags"

section \<open>Deleting a tag\<close>

definition cascadeBody :: "Tag \<Rightarrow> jstring" where
  "cascadeBody t =
     (if 0 < tag_holdings t
      then ''This will detach it from '' @ show_int (tag_holdings t) @ '' holdings. Tag deletions cannot be undone.''
      else ''This will detach it from any holdings it is applied to. Tag deletions cannot be undone.'')"

definition delete_tag_call :: "Tag \<Rightarrow> jstring" where
  "delete_tag_call t = ''/api/tags/'' @ tag_id t"

definition clear_filter :: "jstring option \<Rightarrow> Tag \<Rightarrow> tag_effect list" where
  "clear_filter tagFilter t = (if tagFilter = Some (tag_name t) then [FilterBy None] else [])"

definition delete_success :: "jstring option \<Rightarrow> Tag \<Rightarrow> tag_effect list" where
  "delete_success tagFilter t =
     clear_filter tagFilter t
     @ map (\<lambda>k. TagInvalidate [k])
         [''tags'', ''instrument-holdings'', ''perf'', ''networth'', ''allocation'', ''contributions-bars'',
          ''contributions-overlay'', ''closed'', ''realized'']
     @ [TagOk (''Tag '' @ quoted (tag_name t) @ '' deleted.''), CloseConfirm]"

definition delete_error :: "jstring option \<Rightarrow> Tag \<Rightarrow> thrown \<Rightarrow> tag_effect list" where
  "delete_error tagFilter t err =
     (if (case err of ApiErr n _ \<Rightarrow> n = 404 | _ \<Rightarrow> False)
      then clear_filter tagFilter t
           @ [TagInvalidate [''tags''], TagNote (''Tag '' @ quoted (tag_name t) @ '' was already removed.''), CloseConfirm]
      else [TagFailed (''Could not delete tag. '' @ thrown_text err @ ''.'')])"

definition delete_tag_effects :: "jstring option \<Rightarrow> Tag \<Rightarrow> thrown + unit \<Rightarrow> tag_effect list" where
  "delete_tag_effects tagFilter t r =
     (case r of Inr _ \<Rightarrow> delete_success tagFilter t | Inl err \<Rightarrow> delete_error tagFilter t err)"

section \<open>The manager\<close>

record tags_manager =
  mg_open :: bool
  mg_name :: jstring
  mg_error :: "jstring option"
  mg_creating :: "jstring option"
  mg_confirm :: "Tag option"
  mg_deleting :: "Tag list"
  mg_posted :: "jstring list"
  mg_effects :: "tag_effect list"

definition manager_first :: tags_manager where
  "manager_first = \<lparr>mg_open = False, mg_name = [], mg_error = None, mg_creating = None, mg_confirm = None, mg_deleting = [],
     mg_posted = [], mg_effects = []\<rparr>"

definition name_range_text :: jstring where
  "name_range_text = ''Enter a name between 1 and 64 characters.''"

definition submit_tag :: "tags_manager \<Rightarrow> tags_manager" where
  "submit_tag st =
     (let trimmed = js_trim (mg_name st)
      in if js_length trimmed = 0 \<or> 64 < js_length trimmed then st\<lparr>mg_error := Some name_range_text\<rparr>
         else st\<lparr>mg_error := None, mg_creating := Some trimmed, mg_posted := mg_posted st @ [trimmed]\<rparr>)"

definition create_tag_error :: "thrown \<Rightarrow> tags_manager \<Rightarrow> tags_manager" where
  "create_tag_error err st =
     (let failed = st\<lparr>mg_creating := None,
        mg_effects := mg_effects st @ [TagFailed (''Could not create tag. '' @ thrown_text err @ ''.'')]\<rparr>
      in case err of
           ApiErr n _ \<Rightarrow>
             if n = 409
             then st\<lparr>mg_creating := None, mg_error := Some (''A tag named '' @ quoted (js_trim (mg_name st)) @ '' already exists.'')\<rparr>
             else if n = 422 then st\<lparr>mg_creating := None, mg_error := Some name_range_text\<rparr>
             else failed
         | _ \<Rightarrow> failed)"

definition create_tag_settles :: "thrown + Tag \<Rightarrow> tags_manager \<Rightarrow> tags_manager" where
  "create_tag_settles r st =
     (case r of
        Inr t \<Rightarrow> st\<lparr>mg_creating := None, mg_name := [], mg_error := None,
          mg_effects := mg_effects st @ [TagInvalidate [''tags''], TagOk (''Tag '' @ quoted (tag_name t) @ '' created.'')]\<rparr>
      | Inl err \<Rightarrow> create_tag_error err st)"

text \<open>The dialog may be closed and another one opened while a deletion is under way; its answer closes_confirm the one that is open.\<close>

definition delete_settles :: "jstring option \<Rightarrow> Tag \<Rightarrow> thrown + unit \<Rightarrow> tags_manager \<Rightarrow> tags_manager" where
  "delete_settles tagFilter t r st =
     (let es = delete_tag_effects tagFilter t r
      in st\<lparr>mg_deleting := remove1 t (mg_deleting st), mg_effects := mg_effects st @ es,
           mg_confirm := (if CloseConfirm \<in> set es then None else mg_confirm st)\<rparr>)"

datatype manager_event = CreateTag | AskDelete Tag | ConfirmDelete | CancelDelete | CloseManager

fun manager_do :: "manager_event \<Rightarrow> tags_manager \<Rightarrow> tags_manager" where
  "manager_do CreateTag st = submit_tag st"
| "manager_do (AskDelete t) st = st\<lparr>mg_confirm := Some t\<rparr>"
| "manager_do ConfirmDelete st =
     (case mg_confirm st of Some t \<Rightarrow> st\<lparr>mg_deleting := mg_deleting st @ [t]\<rparr> | None \<Rightarrow> st)"
| "manager_do CancelDelete st = st\<lparr>mg_confirm := None\<rparr>"
| "manager_do CloseManager st = st\<lparr>mg_open := False\<rparr>"

definition DeleteTagConfirm :: "Tag \<Rightarrow> bool \<Rightarrow> manager_event ui list" where
  "DeleteTagConfirm t isPending =
     [Heading (''Delete tag '' @ quoted (tag_name t) @ ''?''), Txt (cascadeBody t),
      Control ''Cancel'' False CancelDelete, Control ''Delete tag'' isPending ConfirmDelete]"

definition tag_list :: "Tag list \<Rightarrow> manager_event ui list" where
  "tag_list ts =
     (if ts = [] then [Txt ''No tags yet. Create one above to start tagging holdings.'']
      else concat (map (\<lambda>t. [Txt (tag_name t), Control (''Delete tag '' @ tag_name t) False (AskDelete t)]) ts))"

definition TagsManager :: "(jstring \<Rightarrow> jstring \<Rightarrow> int) \<Rightarrow> Tag list option \<Rightarrow> tags_manager \<Rightarrow> manager_event ui list" where
  "TagsManager collate data st =
     only_if (mg_open st)
       ([Heading ''Manage tags'', Txt ''Tags filter every dashboard when applied from the header chip.'',
         Input ''New tag name'' (mg_name st) False False, Control ''Create tag'' (mg_creating st \<noteq> None) CreateTag,
         (case mg_error st of Some e \<Rightarrow> Alert e | None \<Rightarrow> Txt (''Tag names are 1'' @ en_dash @ ''64 characters.''))]
        @ tag_list (tags_by_name collate (nullish data []))
        @ [Control ''Close'' False CloseManager])
     @ (case mg_confirm st of Some t \<Rightarrow> DeleteTagConfirm t (t \<in> set (mg_deleting st)) | None \<Rightarrow> [])"

text \<open>\<open>maxLength\<close> limits what can be typed to 64 units.\<close>

inductive manager_step :: "tags_manager \<Rightarrow> tags_manager \<Rightarrow> bool" where
  manager_press: "e \<in> set (on_offer (TagsManager collate data st)) \<Longrightarrow> manager_step st (manager_do e st)"
| manager_open: "manager_step st (st\<lparr>mg_open := True\<rparr>)"
| manager_type: "mg_open st \<Longrightarrow> js_length typed \<le> 64 \<Longrightarrow> manager_step st (st\<lparr>mg_name := typed\<rparr>)"
| manager_created: "mg_creating st \<noteq> None \<Longrightarrow> manager_step st (create_tag_settles r st)"
| manager_deleted: "t \<in> set (mg_deleting st) \<Longrightarrow> manager_step st (delete_settles tagFilter t u st)"

inductive manager_reach :: "tags_manager \<Rightarrow> bool" where
  manager_start: "manager_reach manager_first"
| manager_next: "manager_reach st \<Longrightarrow> manager_step st st' \<Longrightarrow> manager_reach st'"

section \<open>The tags of a holding\<close>

record tag_editor =
  ed_open :: bool
  ed_query :: jstring
  ed_creating :: "jstring list"
  ed_applying :: "Tag list"
  ed_calls :: "(jstring \<times> jstring \<times> jstring) list"
  ed_effects :: "tag_effect list"

definition editor_first :: tag_editor where
  "editor_first = \<lparr>ed_open = False, ed_query = [], ed_creating = [], ed_applying = [], ed_calls = [], ed_effects = []\<rparr>"

definition holding_tags_path :: "jstring \<Rightarrow> jstring \<Rightarrow> jstring" where
  "holding_tags_path accountId instrumentId = ''/api/holdings/'' @ accountId @ ''/'' @ instrumentId @ ''/tags''"

definition attach_call :: "jstring \<Rightarrow> jstring \<Rightarrow> jstring \<Rightarrow> jstring \<times> jstring \<times> jstring" where
  "attach_call a i tagId = (''POST'', holding_tags_path a i, stringify (JObj [(''tag_id'', JStr tagId)]))"

definition detach_call :: "jstring \<Rightarrow> jstring \<Rightarrow> jstring \<Rightarrow> jstring \<times> jstring \<times> jstring" where
  "detach_call a i tagId = (''DELETE'', holding_tags_path a i @ ''/'' @ tagId, [])"

definition create_tag_call :: "jstring \<Rightarrow> jstring \<times> jstring \<times> jstring" where
  "create_tag_call tagName = (''POST'', ''/api/tags'', stringify (JObj [(''name'', JStr tagName)]))"

definition tags_changed :: "jstring \<Rightarrow> tag_effect list" where
  "tags_changed i = TagInvalidate [''tags''] # TagInvalidate [''instrument-holdings'', i] # portfolio_effects"

definition attach_effects :: "jstring \<Rightarrow> thrown + unit \<Rightarrow> tag_effect list" where
  "attach_effects i r =
     (case r of
        Inr _ \<Rightarrow> tags_changed i
      | Inl err \<Rightarrow>
          if (case err of ApiErr n _ \<Rightarrow> n = 422 | _ \<Rightarrow> False)
          then [TagFailed ''Could not attach tag. Holding or tag was removed.'']
          else [TagFailed (''Could not attach tag. '' @ thrown_text err @ ''.'')])"

definition detach_effects :: "jstring \<Rightarrow> thrown + unit \<Rightarrow> tag_effect list" where
  "detach_effects i r =
     (case r of
        Inr _ \<Rightarrow> tags_changed i
      | Inl err \<Rightarrow> [TagFailed (''Could not remove tag. '' @ thrown_text err @ ''.'')])"

text \<open>The error of a creation, or of the attachment after it; \<open>q\<close> is the text of the search field.\<close>

definition inline_error :: "jstring \<Rightarrow> thrown \<Rightarrow> tag_effect list" where
  "inline_error q err =
     (if (case err of ApiErr n _ \<Rightarrow> n = 409 | _ \<Rightarrow> False)
      then [TagFailed (''A tag named '' @ quoted (js_trim q) @ '' already exists. Click it in the list above to attach.''),
            TagInvalidate [''tags'']]
      else [TagFailed (''Could not create or attach tag. '' @ thrown_text err @ ''.'')])"

definition lower_includes :: "(jstring \<Rightarrow> jstring) \<Rightarrow> jstring \<Rightarrow> jstring \<Rightarrow> bool" where
  "lower_includes lower q s \<longleftrightarrow> sublist (lower q) (lower s)"

definition filtered_tags :: "(jstring \<Rightarrow> jstring) \<Rightarrow> Tag list \<Rightarrow> jstring \<Rightarrow> Tag list" where
  "filtered_tags lower allTags q =
     (if js_length (js_trim q) = 0 then allTags
      else filter (\<lambda>t. lower_includes lower (js_trim q) (tag_name t)) allTags)"

definition showInlineCreate :: "Tag list \<Rightarrow> jstring \<Rightarrow> bool" where
  "showInlineCreate allTags q \<longleftrightarrow> 1 \<le> js_length (js_trim q) \<and> find (\<lambda>t. tag_name t = js_trim q) allTags = None"

definition canSubmitInlineCreate :: "Tag list \<Rightarrow> jstring \<Rightarrow> bool" where
  "canSubmitInlineCreate allTags q \<longleftrightarrow> showInlineCreate allTags q \<and> js_length (js_trim q) \<le> 64"

datatype editor_event = ToggleEditor | ToggleTag jstring | CreateInline | ManageTags

record holding =
  ho_account :: jstring
  ho_account_name :: jstring
  ho_instrument :: jstring
  ho_tags :: "Tag list"

fun editor_do :: "holding \<Rightarrow> editor_event \<Rightarrow> tag_editor \<Rightarrow> tag_editor" where
  "editor_do h ToggleEditor st = st\<lparr>ed_open := \<not> ed_open st\<rparr>"
| "editor_do h (ToggleTag i) st =
     st\<lparr>ed_calls := ed_calls st @
        [if i \<in> tag_id ` set (ho_tags h) then detach_call (ho_account h) (ho_instrument h) i
         else attach_call (ho_account h) (ho_instrument h) i]\<rparr>"
| "editor_do h CreateInline st =
     st\<lparr>ed_creating := ed_creating st @ [js_trim (ed_query st)], ed_calls := ed_calls st @ [create_tag_call (js_trim (ed_query st))]\<rparr>"
| "editor_do h ManageTags st = st\<lparr>ed_open := False, ed_effects := ed_effects st @ [OpenManager]\<rparr>"

definition HoldingTagsEditor :: "(jstring \<Rightarrow> jstring) \<Rightarrow> jstring \<Rightarrow> holding \<Rightarrow> Tag list \<Rightarrow> tag_editor \<Rightarrow> editor_event ui list" where
  "HoldingTagsEditor lower symbol h allTags st =
     (let q = js_trim (ed_query st)
      in Control ''Add tag'' False ToggleEditor # only_if (ed_open st)
        ([Heading (''Tags for '' @ symbol @ '' in '' @ ho_account_name h), Input ''Search or create tag'' (ed_query st) False False]
         @ (if allTags = [] \<and> js_length q = 0
            then [Txt ''No tags yet. Type a name and press Enter to create.'']
            else map (\<lambda>t. Toggle (tag_name t) (tag_id t \<in> tag_id ` set (ho_tags h)) False (ToggleTag (tag_id t)))
                   (filtered_tags lower allTags (ed_query st))
              @ only_if (showInlineCreate allTags (ed_query st))
                  [Control (''Press Enter to create '' @ quoted q) (\<not> canSubmitInlineCreate allTags (ed_query st)) CreateInline])
         @ [Control (''Manage all tags'' @ ellipsis) False ManageTags]))"

definition inline_created :: "jstring \<Rightarrow> holding \<Rightarrow> jstring \<Rightarrow> thrown + Tag \<Rightarrow> tag_editor \<Rightarrow> tag_editor" where
  "inline_created q h tagName r st =
     (let st' = st\<lparr>ed_creating := remove1 tagName (ed_creating st)\<rparr>
      in case r of
           Inr t \<Rightarrow> st'\<lparr>ed_applying := ed_applying st @ [t],
             ed_calls := ed_calls st @ [attach_call (ho_account h) (ho_instrument h) (tag_id t)]\<rparr>
         | Inl err \<Rightarrow> st'\<lparr>ed_effects := ed_effects st @ inline_error q err\<rparr>)"

definition inline_applied :: "jstring \<Rightarrow> holding \<Rightarrow> Tag \<Rightarrow> thrown + unit \<Rightarrow> tag_editor \<Rightarrow> tag_editor" where
  "inline_applied q h t r st =
     (let st' = st\<lparr>ed_applying := remove1 t (ed_applying st)\<rparr>
      in case r of
           Inr _ \<Rightarrow> st'\<lparr>ed_query := [], ed_effects := ed_effects st @ tags_changed (ho_instrument h)
             @ [TagOk (''Tag '' @ quoted (tag_name t) @ '' created and applied.'')]\<rparr>
         | Inl err \<Rightarrow> st'\<lparr>ed_effects := ed_effects st @ inline_error q err\<rparr>)"

text \<open>
  The text a late error names is the one in the field when the component last rendered for that
  request: the present one when no other request is under way, possibly an earlier one otherwise.
\<close>

inductive editor_step :: "jstring \<Rightarrow> jstring \<Rightarrow> tag_editor \<Rightarrow> tag_editor \<Rightarrow> bool" for a i where
  editor_press: "ho_account h = a \<Longrightarrow> ho_instrument h = i \<Longrightarrow>
    e \<in> set (on_offer (HoldingTagsEditor lower symbol h allTags st)) \<Longrightarrow> editor_step a i st (editor_do h e st)"
| editor_enter: "ed_open st \<Longrightarrow> ho_account h = a \<Longrightarrow> ho_instrument h = i \<Longrightarrow>
    canSubmitInlineCreate allTags (ed_query st) \<Longrightarrow> editor_step a i st (editor_do h CreateInline st)"
| editor_type: "ed_open st \<Longrightarrow> js_length typed \<le> 64 \<Longrightarrow> editor_step a i st (st\<lparr>ed_query := typed\<rparr>)"
| editor_created: "ho_account h = a \<Longrightarrow> ho_instrument h = i \<Longrightarrow> n \<in> set (ed_creating st) \<Longrightarrow>
    q = ed_query st \<or> 1 < length (ed_creating st @ map tag_name (ed_applying st)) \<Longrightarrow>
    editor_step a i st (inline_created q h n r st)"
| editor_applied: "ho_account h = a \<Longrightarrow> ho_instrument h = i \<Longrightarrow> t \<in> set (ed_applying st) \<Longrightarrow>
    q = ed_query st \<or> 1 < length (ed_creating st @ map tag_name (ed_applying st)) \<Longrightarrow>
    editor_step a i st (inline_applied q h t u st)"

inductive editor_reach :: "jstring \<Rightarrow> jstring \<Rightarrow> tag_editor \<Rightarrow> bool" for a i where
  editor_start: "editor_reach a i editor_first"
| editor_next: "editor_reach a i st \<Longrightarrow> editor_step a i st st' \<Longrightarrow> editor_reach a i st'"

section \<open>The section and the filter\<close>

definition tag_chip_label :: "jstring \<Rightarrow> bool \<Rightarrow> jstring option \<Rightarrow> jstring option \<Rightarrow> jstring" where
  "tag_chip_label n removable symbol account =
     (case (Option.bind symbol or_null, Option.bind account or_null) of
        (Some s, Some a) \<Rightarrow> if removable then ''Remove tag '' @ n @ '' from '' @ s @ '' in '' @ a else ''Remove tag '' @ n
      | _ \<Rightarrow> ''Remove tag '' @ n)"

definition TagChip :: "jstring \<Rightarrow> bool \<Rightarrow> jstring option \<Rightarrow> jstring option \<Rightarrow> 'e \<Rightarrow> 'e ui list" where
  "TagChip n removable symbol account e =
     [Txt n] @ only_if removable [Control (tag_chip_label n removable symbol account) False e]"

text \<open>
  \<open>detach\<close> makes an event of the call that detaches a tag from a pair of account and instrument; its
  answer has the effects \<open>detach_effects\<close>.  \<open>editor\<close> is the \<open>HoldingTagsEditor\<close> of a pair, given the
  symbol and the list of all tags.
\<close>

definition HoldingTagsSection ::
  "(jstring \<times> jstring \<times> jstring \<Rightarrow> 'e) \<Rightarrow> (jstring \<Rightarrow> holding \<Rightarrow> Tag list \<Rightarrow> 'e ui list) \<Rightarrow> bool
    \<Rightarrow> holding list option \<Rightarrow> jstring option \<Rightarrow> Tag list option \<Rightarrow> 'e ui list" where
  "HoldingTagsSection detach editor isLoading holdings symbol tagsData =
     (if isLoading then [Busy]
      else case nullish holdings [] of
        [] \<Rightarrow> [Txt (''You don'' @ [CHR 0x27] @ ''t currently hold this instrument in any account. Tags attach to a (account, ''
                  @ ''instrument) pair and appear once you record a transaction for it.'')]
      | hs \<Rightarrow> concat (map (\<lambda>h. Txt (''Held in: '' @ ho_account_name h)
            # concat (map (\<lambda>t. TagChip (tag_name t) True (Some (nullish symbol [])) (Some (ho_account_name h))
                (detach (detach_call (ho_account h) (ho_instrument h) (tag_id t)))) (ho_tags h))
            @ editor (nullish symbol []) h (nullish tagsData [])) hs))"

definition TagFilterChip :: "(jstring \<Rightarrow> jstring \<Rightarrow> int) \<Rightarrow> bool \<Rightarrow> jstring option \<Rightarrow> Tag list option \<Rightarrow> tag_effect ui list" where
  "TagFilterChip collate isOpen tagFilter data =
     Txt (nullish tagFilter ''All tags'')
     # only_if isOpen
         ([Control ''All tags'' False (FilterBy None)]
          @ map (\<lambda>t. Control (tag_name t) False (FilterBy (Some (tag_name t)))) (tags_by_name collate (nullish data []))
          @ [Control (''Manage tags'' @ ellipsis) False OpenManager])"

section \<open>Properties\<close>

lemma offers_tag_list [ui_simps]: "on_offer (tag_list ts) = map AskDelete ts"
proof -
  have "on_offer (concat (map (\<lambda>t. [Txt (tag_name t), Control (''Delete tag '' @ tag_name t) False (AskDelete t)]) us)) = map AskDelete us"
    for us :: "Tag list"
    by (induction us) (simp_all add: ui_simps)
  then show ?thesis by (simp add: tag_list_def ui_simps)
qed

lemma manager_offers:
  "CreateTag \<in> set (on_offer (TagsManager collate data st)) \<longleftrightarrow> mg_open st \<and> mg_creating st = None"
  "ConfirmDelete \<in> set (on_offer (TagsManager collate data st)) \<longleftrightarrow>
     (\<exists>t. mg_confirm st = Some t \<and> t \<notin> set (mg_deleting st))"
  by (cases "mg_error st"; auto simp: TagsManager_def DeleteTagConfirm_def ui_simps split: option.split)+

definition tag_name_ok :: "jstring \<Rightarrow> bool" where
  "tag_name_ok n \<longleftrightarrow> js_trim n = n \<and> 1 \<le> js_length n \<and> js_length n \<le> 64"

definition manager_ok :: "tags_manager \<Rightarrow> bool" where
  "manager_ok st \<longleftrightarrow> list_all tag_name_ok (mg_posted st) \<and> (\<forall>n. mg_creating st = Some n \<longrightarrow> tag_name_ok n)"

lemma manager_ok_do: "manager_ok st \<Longrightarrow> manager_ok (manager_do e st)"
  by (cases e) (auto simp: manager_ok_def submit_tag_def Let_def tag_name_ok_def js_trim_twice split: option.split)

lemma manager_ok_reach: "manager_reach st \<Longrightarrow> manager_ok st"
proof (induction rule: manager_reach.induct)
  case (manager_next st st')
  from manager_next.hyps(2) show ?case
  proof cases
    case (manager_press e collate data)
    then show ?thesis using manager_ok_do manager_next.IH by simp
  qed (use manager_next.IH in \<open>auto simp: manager_ok_def create_tag_settles_def create_tag_error_def delete_settles_def Let_def
      split: sum.splits thrown.splits\<close>)
qed (simp add: manager_ok_def manager_first_def)

text \<open>The calls an editor may make: only for its own holding, and with checked names.\<close>

definition editor_call_ok :: "jstring \<Rightarrow> jstring \<Rightarrow> jstring \<times> jstring \<times> jstring \<Rightarrow> bool" where
  "editor_call_ok a i c \<longleftrightarrow>
     (\<exists>t. c = attach_call a i t \<or> c = detach_call a i t) \<or> (\<exists>n. c = create_tag_call n \<and> tag_name_ok n)"

lemma editor_offers:
  "CreateInline \<in> set (on_offer (HoldingTagsEditor lower symbol h allTags st)) \<Longrightarrow> canSubmitInlineCreate allTags (ed_query st)"
  by (auto simp: HoldingTagsEditor_def Let_def ui_simps split: if_splits)

lemma can_submit_ok: "canSubmitInlineCreate allTags q \<Longrightarrow> tag_name_ok (js_trim q)"
  by (simp add: canSubmitInlineCreate_def showInlineCreate_def tag_name_ok_def js_trim_twice)

lemma editor_calls_ok: "editor_reach a i st \<Longrightarrow> list_all (editor_call_ok a i) (ed_calls st)"
proof (induction rule: editor_reach.induct)
  case (editor_next st st')
  from editor_next.hyps(2) show ?case
  proof cases
    case (editor_press h e lower symbol allTags)
    then show ?thesis using editor_next.IH editor_offers can_submit_ok
      by (cases e) (fastforce simp: editor_call_ok_def)+
  next
    case (editor_enter h allTags)
    then show ?thesis using editor_next.IH can_submit_ok by (auto simp: editor_call_ok_def)
  qed (use editor_next.IH in \<open>auto simp: editor_call_ok_def inline_created_def inline_applied_def Let_def split: sum.splits\<close>)
qed (simp add: editor_first_def)

text \<open>
  A tag is created only under a checked name, and a holding's editor touches that holding only.
  Every name the manager posts is trimmed and between 1 and 64 characters long, one at a time; and
  every request of an editor attaches or detaches a tag of its own pair of account and instrument or
  creates a tag under such a name.
\<close>
theorem tag_requests_checked:
  assumes "manager_reach m" "editor_reach a i ed"
  shows "list_all tag_name_ok (mg_posted m)
    \<and> (CreateTag \<in> set (on_offer (TagsManager collate data m))) = (mg_open m \<and> mg_creating m = None)
    \<and> list_all (editor_call_ok a i) (ed_calls ed)"
  using manager_ok_reach [OF assms(1)] editor_calls_ok [OF assms(2)] by (simp add: manager_ok_def manager_offers)

definition demo_manager :: tags_manager where
  "demo_manager = manager_do CreateTag (manager_first\<lparr>mg_open := True, mg_name := '' core ''\<rparr>)"

definition demo_pair :: holding where
  "demo_pair = \<lparr>ho_account = ''a'', ho_account_name = ''A'', ho_instrument = ''i'', ho_tags = []\<rparr>"

definition demo_editor :: tag_editor where
  "demo_editor = editor_do demo_pair CreateInline (editor_first\<lparr>ed_open := True, ed_query := ''core''\<rparr>)"

lemma core_short: "js_length ''core'' \<le> 64"
  by code_simp

lemma demo_editor_reached: "editor_reach ''a'' ''i'' demo_editor"
proof -
  have "editor_reach ''a'' ''i'' (editor_do demo_pair ToggleEditor editor_first)"
    by (rule editor_next [OF editor_start editor_press [where symbol = "[]" and allTags = "[]"]])
      (simp_all add: demo_pair_def HoldingTagsEditor_def Let_def ui_simps)
  then have "editor_reach ''a'' ''i'' (editor_first\<lparr>ed_open := True\<rparr>)"
    by (simp add: editor_first_def)
  from editor_next [OF this editor_type [where typed = "''core''"]] core_short
  have "editor_reach ''a'' ''i'' (editor_first\<lparr>ed_open := True, ed_query := ''core''\<rparr>)"
    by simp
  moreover have "canSubmitInlineCreate [] ''core''" by code_simp
  ultimately show ?thesis
    unfolding demo_editor_def
    by (intro editor_next [OF _ editor_enter [where allTags = "[]"]]) (simp_all add: demo_pair_def)
qed

lemma demo_editor_open: "ed_open demo_editor"
  by (simp add: demo_editor_def)

theorem tag_requests_checked_witness:
  "mg_posted demo_manager = [''core''] \<and> tag_name_ok ''core'' \<and> list_all (editor_call_ok ''a'' ''i'') (ed_calls demo_editor)"
proof -
  have a: "manager_reach (manager_first\<lparr>mg_open := True\<rparr>)"
    by (rule manager_next [OF manager_start manager_open])
  have b: "manager_reach ((manager_first\<lparr>mg_open := True\<rparr>)\<lparr>mg_name := '' core ''\<rparr>)"
  proof (rule manager_next [OF a manager_type])
    show "js_length '' core '' \<le> 64" by code_simp
  qed simp
  have "manager_reach demo_manager"
    unfolding demo_manager_def using manager_next [OF b manager_press [where e = CreateTag and data = None]]
    by (simp add: manager_offers manager_first_def)
  moreover have "mg_posted demo_manager = [''core'']" by code_simp
  ultimately show ?thesis
    using tag_requests_checked [OF _ demo_editor_reached, of demo_manager] by auto
qed

text \<open>The effects on the stored filter, in their order.\<close>

fun apply_filter :: "tag_effect \<Rightarrow> browser \<Rightarrow> browser" where
  "apply_filter (FilterBy t) b = setTagFilter t b"
| "apply_filter _ b = b"

definition active_filter :: "browser \<Rightarrow> jstring option" where
  "active_filter b = tagFilter_of (readCookie True ''flowfolio.tagFilter'' (cookies b))"

lemma clear_active: "jar_ok (cookies b) \<Longrightarrow> active_filter (setTagFilter None b) = None"
  using cookie_tag.tag_kept [of "cookies b" None]
  by (simp add: active_filter_def setTagFilter_def setValue_def)

definition closes_confirm :: "tag_effect list \<Rightarrow> bool" where
  "closes_confirm es \<longleftrightarrow> CloseConfirm \<in> set es"

lemma fold_no_filter: "list_all (\<lambda>e. \<forall>t. e \<noteq> FilterBy t) es \<Longrightarrow> fold apply_filter es b = b"
proof (induction es arbitrary: b)
  case (Cons e es)
  then show ?case by (cases e) auto
qed simp

text \<open>
  C29: A deleted tag does not stay the filter.  When a deletion succeeds, or the back end answers 404
  because the tag is gone already, a filter on that tag is cleared and any other filter is kept, the
  dialog closes, and only then the list of tags is asked for again, after a success with the figures
  the filter selects.  Any other error, whatever its status, shows a message and changes nothing: the
  filter stays and so does the dialog.
\<close>
theorem deleted_tag_not_filtering:
  assumes "jar_ok (cookies b)" and es_def: "es = delete_tag_effects (active_filter b) t r"
  shows "(if r = Inr () \<or> (\<exists>d. r = Inl (ApiErr 404 d))
     then active_filter (fold apply_filter es b)
         = (if active_filter b = Some (tag_name t) then None else active_filter b)
       \<and> FilterBy None \<notin> set (dropWhile (\<lambda>e. \<forall>k. e \<noteq> TagInvalidate k) es)
       \<and> TagInvalidate [''tags''] \<in> set es \<and> closes_confirm es
       \<and> (r = Inr () \<longrightarrow> (\<forall>k \<in> {''perf'', ''networth'', ''allocation'', ''closed'', ''realized''}. TagInvalidate [k] \<in> set es))
     else (\<exists>m. es = [TagFailed m]) \<and> active_filter (fold apply_filter es b) = active_filter b)"
proof -
  have quiet: "fold apply_filter (clear_filter f t @ es') b = fold apply_filter (clear_filter f t) b"
    if "list_all (\<lambda>e. \<forall>u. e \<noteq> FilterBy u) es'" for f es'
    using that by (simp add: fold_no_filter)
  have cleared: "active_filter (fold apply_filter (clear_filter (active_filter b) t) b)
      = (if active_filter b = Some (tag_name t) then None else active_filter b)"
    using clear_active [OF assms(1)] by (simp add: clear_filter_def)
  show ?thesis
  proof (cases r)
    case (Inr u)
    then show ?thesis
      using cleared by (simp add: es_def delete_tag_effects_def delete_success_def closes_confirm_def quiet fold_no_filter)
        (auto simp: clear_filter_def)
  next
    case (Inl err)
    then show ?thesis
      using cleared by (cases err) (auto simp: es_def delete_tag_effects_def delete_error_def closes_confirm_def quiet fold_no_filter clear_filter_def)
  qed
qed

theorem deleted_tag_not_filtering_witness:
  "active_filter (fold apply_filter (delete_tag_effects (Some ''core'') \<lparr>tag_id = ''1'', tag_name = ''core'', tag_holdings = 2\<rparr> (Inr ()))
     (setTagFilter (Some ''core'') empty_browser)) = None
   \<and> active_filter (fold apply_filter (delete_tag_effects (Some ''core'') \<lparr>tag_id = ''1'', tag_name = ''core'', tag_holdings = 2\<rparr>
       (Inl (ApiErr 500 []))) (setTagFilter (Some ''core'') empty_browser)) = Some ''core''"
proof -
  have jar: "jar_ok (cookies (setTagFilter (Some ''core'') empty_browser))" by code_simp
  have "active_filter (setTagFilter (Some ''core'') empty_browser) = Some ''core''" by code_simp
  then show ?thesis
    using deleted_tag_not_filtering [OF jar refl, where t = "\<lparr>tag_id = ''1'', tag_name = ''core'', tag_holdings = 2\<rparr>" and r = "Inr ()"]
      deleted_tag_not_filtering [OF jar refl, where t = "\<lparr>tag_id = ''1'', tag_name = ''core'', tag_holdings = 2\<rparr>" and r = "Inl (ApiErr 500 [])"]
    by simp
qed

text \<open>
  A tag whose attachment fails stays unknown to the editor.  When the tag was created but could
  not be attached, the list of tags is not asked for again, so that pressing Enter once more sends
  the creation again, which the back end refuses.
\<close>
lemma orphan_tag_unknown:
  assumes "canSubmitInlineCreate allTags (ed_query st)" "js_trim (ed_query st) = tag_name t"
    and "case err of ApiErr n _ \<Rightarrow> n \<noteq> 409 | _ \<Rightarrow> True"
    and failed: "failed = inline_applied (ed_query st) h t (Inl err)
    (inline_created (ed_query st) h (tag_name t) (Inr t) (editor_do h CreateInline st))"
  shows "TagInvalidate k \<in> set (ed_effects failed) \<Longrightarrow> TagInvalidate k \<in> set (ed_effects st)"
    "canSubmitInlineCreate allTags (ed_query failed)"
    "ed_calls (editor_do h CreateInline failed) =
       ed_calls st @ [create_tag_call (tag_name t), attach_call (ho_account h) (ho_instrument h) (tag_id t), create_tag_call (tag_name t)]"
  using assms
  by (auto simp: inline_applied_def inline_created_def inline_error_def Let_def split: thrown.splits)

text \<open>
  Pressing Enter twice creates twice: the second creation is refused after the first has emptied the
  field, and the message then names no tag.
\<close>

lemma double_enter:
  assumes "t = \<lparr>tag_id = ''1'', tag_name = ''core'', tag_holdings = 0\<rparr>"
    and "st = inline_created [] demo_pair ''core'' (Inl (ApiErr 409 d))
      (inline_applied ''core'' demo_pair t (Inr ())
        (inline_created ''core'' demo_pair ''core'' (Inr t) (editor_do demo_pair CreateInline demo_editor)))"
  shows "editor_reach ''a'' ''i'' st"
    "TagFailed (''A tag named '' @ quoted [] @ '' already exists. Click it in the list above to attach.'') \<in> set (ed_effects st)"
proof -
  let ?b = "editor_do demo_pair CreateInline demo_editor"
  let ?c = "inline_created ''core'' demo_pair ''core'' (Inr t) ?b"
  let ?d = "inline_applied ''core'' demo_pair t (Inr ()) ?c"
  have q: "ed_query demo_editor = ''core''" "ed_creating demo_editor = [''core'']" "ed_applying demo_editor = []"
    "js_trim ''core'' = ''core''" by code_simp+
  have "canSubmitInlineCreate [] ''core''" by code_simp
  then have b: "editor_reach ''a'' ''i'' ?b"
    by (intro editor_next [OF demo_editor_reached editor_enter [where allTags = "[]"]]) (simp_all add: demo_pair_def q demo_editor_open)
  have c: "editor_reach ''a'' ''i'' ?c"
    by (rule editor_next [OF b editor_created]) (simp_all add: demo_pair_def q)
  have d: "editor_reach ''a'' ''i'' ?d"
    by (rule editor_next [OF c editor_applied]) (simp_all add: demo_pair_def q inline_created_def)
  show "editor_reach ''a'' ''i'' st"
    unfolding assms(2)
    by (rule editor_next [OF d editor_created]) (simp_all add: demo_pair_def q inline_created_def inline_applied_def)
  have "js_trim [] = []" by code_simp
  then show "TagFailed (''A tag named '' @ quoted [] @ '' already exists. Click it in the list above to attach.'') \<in> set (ed_effects st)"
    unfolding assms(2) by (simp add: inline_created_def [of "[]"] Let_def inline_error_def)
qed

end
