(* ===== verification/Closed.thy ===== *)
theory Closed
  imports PerfTable View Api
begin

text \<open>
  The table of closed positions (\<open>closed/ClosedPositionsTable.tsx\<close> and \<open>closed/LastClosePriceCell.tsx\<close>).
  It is a component of its own that repeats the performance table in its closed mode; the section on
  properties makes that relation precise.
\<close>

record ClosedPosition =
  cp_account_id :: jstring
  cp_account_name :: jstring
  cp_instrument_id :: jstring
  cp_instrument_symbol :: jstring
  cp_instrument_name :: jstring
  cp_instrument_type :: jstring
  cp_display_decimals :: "nat option"
  cp_quantity :: jstring
  cp_avg_cost :: "jstring option"
  cp_last_close :: "jstring option"
  cp_last_close_date :: "jstring option"
  cp_percent_return :: "jstring option"
  cp_realized_eur :: "jstring option"
  cp_twrr :: "jstring option"
  cp_twrr_annualized :: bool
  cp_twrr_window_days :: "int option"

datatype ClosedKey = CInstrument | CQuantity | CAvgCost | CLastClose | CPercentReturn | CRealized | CTwrr

definition CLOSED_SORT_LABELS :: "ClosedKey \<Rightarrow> jstring" where
  "CLOSED_SORT_LABELS k =
     (case k of CInstrument \<Rightarrow> ''Instrument'' | CQuantity \<Rightarrow> ''Qty'' | CAvgCost \<Rightarrow> ''Avg cost''
      | CLastClose \<Rightarrow> ''Last close'' | CPercentReturn \<Rightarrow> ''% return'' | CRealized \<Rightarrow> ''Realized'' | CTwrr \<Rightarrow> ''TWRR'')"

definition closed_numericValue :: "ClosedPosition \<Rightarrow> ClosedKey \<Rightarrow> jsnum option" where
  "closed_numericValue row key =
     map_option str_to_number
       (case key of
          CInstrument \<Rightarrow> None
        | CQuantity \<Rightarrow> Some (cp_quantity row)
        | CAvgCost \<Rightarrow> cp_avg_cost row
        | CLastClose \<Rightarrow> cp_last_close row
        | CPercentReturn \<Rightarrow> cp_percent_return row
        | CRealized \<Rightarrow> cp_realized_eur row
        | CTwrr \<Rightarrow> cp_twrr row)"

text \<open>\<open>collate\<close> is \<open>a.localeCompare(b, "en")\<close>.\<close>

definition closed_compareRows ::
  "(jstring \<Rightarrow> jstring \<Rightarrow> int) \<Rightarrow> ClosedPosition \<Rightarrow> ClosedPosition \<Rightarrow> ClosedKey \<Rightarrow> SortDir \<Rightarrow> jsnum" where
  "closed_compareRows collate a b sortKey sortDir =
     (if sortKey = CInstrument then
        let result = Num (of_int (collate (cp_instrument_symbol a) (cp_instrument_symbol b)))
        in if sortDir = Asc then result else js_neg result
      else case (closed_numericValue a sortKey, closed_numericValue b sortKey) of
        (None, None) \<Rightarrow> Num 0
      | (None, Some bv) \<Rightarrow> Num 1
      | (Some av, None) \<Rightarrow> Num (- 1)
      | (Some av, Some bv) \<Rightarrow>
          let result = js_sub av bv in if sortDir = Asc then result else js_neg result)"

definition closed_sortedRows ::
  "(jstring \<Rightarrow> jstring \<Rightarrow> int) \<Rightarrow> ClosedKey \<Rightarrow> SortDir \<Rightarrow> ClosedPosition list \<Rightarrow> ClosedPosition list" where
  "closed_sortedRows collate k d rows =
     sort_by (\<lambda>a b. js_lt (closed_compareRows collate a b k d) (Num 0)) rows"

section \<open>State, request and cells\<close>

definition closed_first_sort :: "ClosedKey \<times> SortDir" where
  "closed_first_sort = (CTwrr, Desc)"

definition closed_toggleSort :: "ClosedKey \<Rightarrow> ClosedKey \<times> SortDir \<Rightarrow> ClosedKey \<times> SortDir" where
  "closed_toggleSort nextKey st =
     (let (sortKey, sortDir) = st
      in if nextKey = sortKey then (sortKey, if sortDir = Asc then Desc else Asc)
         else (nextKey, if nextKey = CInstrument then Asc else Desc))"

definition closed_url :: "currency \<Rightarrow> jstring option \<Rightarrow> jstring" where
  "closed_url cur tagFilter =
     ''/api/closed?currency='' @ currency_text cur
     @ (case Option.bind tagFilter or_null of None \<Rightarrow> '''' | Some t \<Rightarrow> ''&tag='' @ encodeURIComponent t)"

text \<open>\<open>day_text\<close> is the en-GB text of a date, \<open>05 Jan 2026\<close>.\<close>

definition LastClosePriceCell :: "(jstring \<Rightarrow> jstring) \<Rightarrow> jstring option \<Rightarrow> jstring option \<Rightarrow> currency \<Rightarrow> jstring list" where
  "LastClosePriceCell day_text v closedAt cur =
     (case Option.bind v or_null of Some s \<Rightarrow> formatMoney (SStr s) cur | None \<Rightarrow> em_dash)
     # (case Option.bind closedAt or_null of Some d \<Rightarrow> [''Closed '' @ day_text d] | None \<Rightarrow> [])"

definition closed_twrrHeader :: "ClosedPosition list \<Rightarrow> jstring" where
  "closed_twrrHeader rows =
     (if list_all (\<lambda>r. case cp_twrr_window_days r of Some n \<Rightarrow> 365 \<le> n | None \<Rightarrow> False) rows
      then ''TWRR (annualized)'' else ''TWRR (hold window)'')"

section \<open>The component\<close>

datatype closed_event = SortColumn ClosedKey | ChooseSort ClosedKey SortDir | RetryClosed

text \<open>\<open>refetch\<close> sends the request of the query again; it does not touch the order.\<close>

fun closed_do :: "closed_event \<Rightarrow> ClosedKey \<times> SortDir \<Rightarrow> ClosedKey \<times> SortDir" where
  "closed_do (SortColumn k) st = closed_toggleSort k st"
| "closed_do (ChooseSort k d) st = (k, d)"
| "closed_do RetryClosed st = st"

definition closed_quantity :: "ClosedPosition \<Rightarrow> jstring" where
  "closed_quantity row =
     formatQuantity (SStr (cp_quantity row)) (decimalsFor (Some (cp_instrument_type row)) (cp_display_decimals row))"

definition closed_row :: "(jstring \<Rightarrow> jstring) \<Rightarrow> currency \<Rightarrow> ClosedPosition \<Rightarrow> 'e ui list" where
  "closed_row day_text cur row =
     [Anchor (cp_instrument_symbol row) (''/holdings/i/'' @ cp_instrument_id row), Txt (cp_instrument_name row),
      Txt (closed_quantity row), Txt (money_or_dash (cp_avg_cost row) cur)]
     @ map Txt (LastClosePriceCell day_text (cp_last_close row) (cp_last_close_date row) cur)
     @ [Txt (snd (PercentCell (map_option SStr (cp_percent_return row)))),
        Txt (money_or_dash (cp_realized_eur row) cur),
        Txt (snd (TwrrCell (map_option SStr (cp_twrr row))))]"

definition closed_card :: "(jstring \<Rightarrow> jstring) \<Rightarrow> currency \<Rightarrow> jstring \<Rightarrow> ClosedPosition \<Rightarrow> 'e ui list" where
  "closed_card day_text cur header row =
     [Anchor (cp_instrument_symbol row) (''/holdings/i/'' @ cp_instrument_id row),
      Txt (snd (PercentCell (map_option SStr (cp_percent_return row)))), Txt (cp_instrument_name row),
      Txt (closed_quantity row), Txt ''@'', Txt (money_or_dash (cp_avg_cost row) cur)]
     @ map Txt (LastClosePriceCell day_text (cp_last_close row) (cp_last_close_date row) cur)
     @ [Txt ''Realized: '', Txt (money_or_dash (cp_realized_eur row) cur),
        Txt (header @ '': ''), Txt (snd (TwrrCell (map_option SStr (cp_twrr row))))]"

definition closed_columns :: "jstring \<Rightarrow> (ClosedKey \<times> jstring) list" where
  "closed_columns header =
     [(CInstrument, ''Instrument''), (CQuantity, ''Qty''), (CAvgCost, ''Avg cost''), (CLastClose, ''Last close''),
      (CPercentReturn, ''% return''), (CRealized, ''Realized''), (CTwrr, header)]"

definition closed_mobile_options :: "((ClosedKey \<times> SortDir) \<times> jstring) list" where
  "closed_mobile_options =
     [((CTwrr, Desc), ''Sort: '' @ CLOSED_SORT_LABELS CTwrr @ '' '' @ down_arrow),
      ((CTwrr, Asc), ''Sort: '' @ CLOSED_SORT_LABELS CTwrr @ '' '' @ up_arrow),
      ((CPercentReturn, Desc), ''Sort: '' @ CLOSED_SORT_LABELS CPercentReturn @ '' '' @ down_arrow),
      ((CAvgCost, Desc), ''Sort: '' @ CLOSED_SORT_LABELS CAvgCost @ '' '' @ down_arrow),
      ((CInstrument, Asc), ''Sort: Name A-Z'')]"

datatype closed_query = ClosedLoading | ClosedFailed thrown | ClosedData "ClosedPosition list option"

text \<open>The wide table and the cards are both rendered; the width of the screen hides one of them.\<close>

definition ClosedPositionsTable ::
  "(jstring \<Rightarrow> jstring) \<Rightarrow> (jstring \<Rightarrow> jstring \<Rightarrow> int) \<Rightarrow> currency \<Rightarrow> closed_query \<Rightarrow> ClosedKey \<times> SortDir \<Rightarrow> closed_event ui list" where
  "ClosedPositionsTable day_text collate cur q st =
     (case q of
        ClosedLoading \<Rightarrow> [Busy, Busy, Busy]
      | ClosedFailed err \<Rightarrow>
          [Alert (''Could not load closed positions. '' @ nullish (error_message err) ''Unknown error''),
           Control ''Retry'' False RetryClosed]
      | ClosedData rows \<Rightarrow>
          let sorted = closed_sortedRows collate (fst st) (snd st) (nullish rows []);
              header = closed_twrrHeader sorted
          in if sorted = []
             then [Heading ''No closed positions yet'', Txt ''Holdings stay here once their quantity drops to zero.'']
             else
               [Section (map (\<lambda>(k, label). Toggle label (k = fst st) False (SortColumn k)) (closed_columns header)
                  @ concat (map (closed_row day_text cur) sorted)),
                Section (map (\<lambda>(o', label). Toggle label (o' = st) False (ChooseSort (fst o') (snd o'))) closed_mobile_options
                  @ concat (map (closed_card day_text cur header) sorted))])"

section \<open>The closed mode of the performance table\<close>

text \<open>A closed position as a row of the performance table, and its columns as the columns there.\<close>

definition as_render :: "ClosedPosition \<Rightarrow> RenderRow" where
  "as_render r =
     \<lparr> rr_account_id = Some (cp_account_id r), rr_instrument_id = cp_instrument_id r,
       rr_instrument_symbol = cp_instrument_symbol r, rr_instrument_name = cp_instrument_name r,
       rr_instrument_type = cp_instrument_type r, rr_display_decimals = cp_display_decimals r,
       rr_quantity = cp_quantity r, rr_avg_cost = cp_avg_cost r, rr_current_price = None,
       rr_current_price_fetched_at = None, rr_percent_return = cp_percent_return r,
       rr_realized_eur = cp_realized_eur r, rr_twrr = cp_twrr r, rr_status = None,
       rr_last_close = cp_last_close r, rr_twrr_window_days = cp_twrr_window_days r \<rparr>"

fun as_key :: "ClosedKey \<Rightarrow> SortKey" where
  "as_key CInstrument = ByInstrument"
| "as_key CQuantity = ByQuantity"
| "as_key CAvgCost = ByAvgCost"
| "as_key CLastClose = ByCurrentPrice"
| "as_key CPercentReturn = ByPercentReturn"
| "as_key CRealized = ByRealized"
| "as_key CTwrr = ByTwrr"

lemma as_key_inj [simp]: "as_key a = as_key b \<longleftrightarrow> a = b"
  by (cases a; cases b) simp_all

lemma as_key_instrument [simp]: "as_key k = ByInstrument \<longleftrightarrow> k = CInstrument"
  by (cases k) simp_all

lemma numericValue_as_render [simp]: "numericValue (as_render r) (as_key k) = closed_numericValue r k"
  by (cases k) (simp_all add: numericValue_def closed_numericValue_def as_render_def)

lemma compareRows_as_render:
  "compareRows collate (as_render a) (as_render b) (as_key k) d = closed_compareRows collate a b k d"
  by (simp add: compareRows_def closed_compareRows_def) (simp add: as_render_def)

lemma closed_sorted_as_perf:
  "map as_render (closed_sortedRows collate k d rows) = sortedRows collate (as_key k) d (map as_render rows)"
  unfolding closed_sortedRows_def sortedRows_def comes_before_def
  by (rule map_sort_by) (simp add: compareRows_as_render)

lemma closed_header_as_perf:
  "rows \<noteq> [] \<Longrightarrow> closed_twrrHeader rows = twrrHeader ClosedMode tf (map as_render rows)"
  by (simp add: closed_twrrHeader_def twrrHeader_def list_all_iff as_render_def nullish_def split: option.split)

definition closed_props :: "currency \<Rightarrow> jstring option \<Rightarrow> PerfTableProps" where
  "closed_props cur tagFilter =
     \<lparr> pp_rows = None, pp_mode = ClosedMode, pp_filterBy = None, pp_respectExcludeClosed = False,
       pp_showTotals = False, pp_timeframe = Some TFAll, pp_from = None, pp_to = None, pp_perf_param = None,
       pp_exclude_param = Some ''1'', pp_currency = cur, pp_tagFilter = tagFilter \<rparr>"

text \<open>
  The table of closed positions agrees with the closed mode of the performance table.  Read as
  rows of that table, its rows come in the order that table sorts them in, whatever the column and
  direction; clicking a header changes both alike; the request is the same; and so are the heading of
  the return column and every cell but those of the realized gain and of the last close.
\<close>
theorem closed_table_as_performance:
  "map as_render (closed_sortedRows collate k d rows) = sortedRows collate (as_key k) d (map as_render rows)
   \<and> map_prod as_key (\<lambda>x. x) (closed_do (SortColumn k') (k, d)) = toggleSort (as_key k') (as_key k, d)
   \<and> map_prod as_key (\<lambda>x. x) closed_first_sort = initial_sort
   \<and> closed_url cur tag = perf_url (closed_props cur tag)
   \<and> (rows = [] \<or> closed_twrrHeader rows = twrrHeader ClosedMode tf (map as_render rows))
   \<and> list_all (\<lambda>r. let v = perfRowView ClosedMode cur (as_render r)
        in \<exists>price realized. closed_row day_text cur r =
             [Anchor (pv_symbol v) (pv_href v), Txt (pv_name v), Txt (pv_quantity v), Txt (pv_avg_cost v)] @ price
             @ [Txt (snd (pv_percent v)), realized, Txt (snd (pv_twrr v))]) rows"
proof (intro conjI)
  show "map_prod as_key (\<lambda>x. x) (closed_do (SortColumn k') (k, d)) = toggleSort (as_key k') (as_key k, d)"
    by (simp add: closed_toggleSort_def toggleSort_def)
  show "map_prod as_key (\<lambda>x. x) closed_first_sort = initial_sort"
    by (simp add: closed_first_sort_def initial_sort_def)
  show "closed_url cur tag = perf_url (closed_props cur tag)"
    by (simp add: closed_url_def perf_url_def closed_props_def timeframeQuery_def customQuery_def table_timeframe_def includeClosed_def)
  show "rows = [] \<or> closed_twrrHeader rows = twrrHeader ClosedMode tf (map as_render rows)"
    using closed_header_as_perf by blast
  show "list_all (\<lambda>r. let v = perfRowView ClosedMode cur (as_render r)
        in \<exists>price realized. closed_row day_text cur r =
             [Anchor (pv_symbol v) (pv_href v), Txt (pv_name v), Txt (pv_quantity v), Txt (pv_avg_cost v)] @ price
             @ [Txt (snd (pv_percent v)), realized, Txt (snd (pv_twrr v))]) rows"
    by (auto simp: list_all_iff perfRowView_def closed_row_def closed_quantity_def as_render_def)
qed (rule closed_sorted_as_perf)

end
