(* ===== verification/Queries.thy ===== *)
theory Queries
  imports Uri
begin

text \<open>
  Queries as the router and \<open>URLSearchParams\<close> exchange them: writing the pairs of a query and reading
  them back gives the same pairs, so that a component that sets or removes one parameter leaves the
  others as they were.
\<close>

section \<open>Decoded text is well formed\<close>

lemma utf8_conts_again: "utf8_conts k lo hi s = (cs, True, r) \<Longrightarrow> utf8_conts k lo hi (cs @ t) = (cs, True, t)"
  by (induction k lo hi s arbitrary: cs r rule: utf8_conts.induct) (auto split: if_splits prod.splits)

lemma valid_replacement: "valid_utf8 (replacement_char @ t) = valid_utf8 t"
  by (simp add: replacement_char_def valid_utf8.simps(2) utf8_lead_def numeral_2_eq_2)

lemma valid_utf8_decode: "valid_utf8 (utf8_decode s)"
proof (induction s rule: utf8_decode.induct)
  case (2 c s)
  show ?case
  proof (cases "utf8_lead (of_char c)")
    case None
    then show ?thesis using "2.IH"(1) by (simp add: utf8_decode.simps(2) valid_replacement)
  next
    case (Some l)
    obtain k lo hi where l: "l = (k, lo, hi)" by (cases l)
    obtain cs ok r where c: "utf8_conts k lo hi s = (cs, ok, r)" by (cases "utf8_conts k lo hi s")
    have "valid_utf8 (utf8_decode r)" using "2.IH"(2) Some l c by simp
    then show ?thesis
      using Some l c utf8_conts_again [of k lo hi s cs r "utf8_decode r"]
      by (cases ok) (simp_all add: utf8_decode.simps(2) valid_replacement valid_utf8.simps(2))
  qed
qed simp

lemma valid_form_decode: "valid_utf8 (form_decode s)"
  by (simp add: form_decode_def valid_utf8_decode)

definition valid_pairs :: "(jstring \<times> jstring) list \<Rightarrow> bool" where
  "valid_pairs ps \<longleftrightarrow> list_all (\<lambda>p. valid_utf8 (fst p) \<and> valid_utf8 (snd p)) ps"

lemma valid_query_pairs: "valid_pairs (query_pairs q)"
  unfolding valid_pairs_def list_all_iff query_pairs_def set_map ball_simps(9) query_pair_def fst_conv snd_conv
  by (simp only: valid_form_decode) simp

lemma valid_set_param: "valid_pairs ps \<Longrightarrow> valid_utf8 k \<Longrightarrow> valid_utf8 v \<Longrightarrow> valid_pairs (set_param k v ps)"
proof (induction ps)
  case (Cons p ps)
  have "valid_pairs (filter (\<lambda>q. fst q \<noteq> k) ps)"
    using Cons.prems(1) by (simp add: valid_pairs_def list_all_iff)
  then show ?case using Cons by (cases "fst p = k") (simp_all add: valid_pairs_def)
qed (simp add: valid_pairs_def)

lemma valid_delete_param: "valid_pairs ps \<Longrightarrow> valid_pairs (delete_param k ps)"
  by (auto simp: valid_pairs_def list_all_iff delete_param_def)

section \<open>Written and read back\<close>

text \<open>An encoding whose texts also hold none of the other characters a query is read by.\<close>

locale pair_encoding = query_encoding +
  assumes no_eq: "CHR ''='' \<notin> set (enc s)"
    and no_question: "\<not> starts_with (enc s) ''?''"
begin

definition pair_text :: "jstring \<times> jstring \<Rightarrow> jstring" where
  "pair_text p = enc (fst p) @ ''='' @ enc (snd p)"

lemma pair_back:
  assumes "valid_utf8 (fst p)" "valid_utf8 (snd p)"
  shows "query_pair (pair_text p) = p"
proof -
  have "takeWhile (\<lambda>c. c \<noteq> CHR ''='') (pair_text p) = enc (fst p)"
    "dropWhile (\<lambda>c. c \<noteq> CHR ''='') (pair_text p) = ''='' @ enc (snd p)"
    using no_eq by (auto simp: pair_text_def takeWhile_append dropWhile_append)
  then show ?thesis using assms by (simp add: query_pair_def decode_enc)
qed

lemma pair_no_amp: "CHR ''&'' \<notin> set (pair_text p)"
  using no_amp by (simp add: pair_text_def)

lemma split_pairs: "js_split (CHR ''&'') (js_join ''&'' (map pair_text (p # ps))) = map pair_text (p # ps)"
proof (induction ps arbitrary: p)
  case Nil
  then show ?case using js_split_none [OF pair_no_amp] by simp
next
  case (Cons q ps)
  then show ?case using js_split_append [OF pair_no_amp] by simp
qed

lemma pairs_back:
  assumes "valid_pairs ps"
  shows "query_pairs (js_join ''&'' (map pair_text ps)) = ps"
proof (cases ps)
  case Nil
  then show ?thesis by (simp add: query_pairs_def)
next
  case (Cons p qs)
  have "\<not> starts_with (js_join ''&'' (map pair_text ps)) ''?''"
    using no_question [of "fst p"] Cons by (cases qs; cases "enc (fst p)") (simp_all add: pair_text_def)
  moreover have "filter (\<lambda>x. x \<noteq> []) (map pair_text ps) = map pair_text ps"
    by (simp add: filter_id_conv pair_text_def)
  moreover have "map query_pair (map pair_text ps) = ps"
    using assms by (simp add: map_idI valid_pairs_def list_all_iff pair_back)
  ultimately show ?thesis
    using split_pairs [of p qs] Cons by (simp add: query_pairs_def)
qed

end

lemma hex_digit_not: "n < 16 \<Longrightarrow> hex_digit n \<noteq> CHR ''='' \<and> hex_digit n \<noteq> CHR ''?''"
proof -
  have "\<forall>n \<in> set [0 ..< 16]. hex_digit n \<noteq> CHR ''='' \<and> hex_digit n \<noteq> CHR ''?''" by code_simp
  then show "n < 16 \<Longrightarrow> ?thesis" by simp
qed

lemma form_byte_not: "CHR ''='' \<notin> set (form_encode_byte c) \<and> CHR ''?'' \<notin> set (form_encode_byte c)"
proof (cases "form_unreserved c")
  case True
  have "\<not> form_unreserved (CHR ''='')" "\<not> form_unreserved (CHR ''?'')" by code_simp+
  then have "c \<noteq> CHR ''=''" "c \<noteq> CHR ''?''" using True by auto
  then show ?thesis using True by (auto simp: form_encode_byte_def)
next
  case False
  then show ?thesis
    using hex_digit_not [of "of_char c div 16"] hex_digit_not [of "of_char c mod 16"] of_char_div16 [of c]
    by (auto simp: form_encode_byte_def dest: sym)
qed

interpretation form_pair: pair_encoding form_encode
proof
  show "CHR ''='' \<notin> set (form_encode s)" for s
    using form_byte_not by (auto simp: form_encode_def)
  show "\<not> starts_with (form_encode s) ''?''" for s
  proof -
    have "CHR ''?'' \<notin> set (form_encode s)" using form_byte_not by (auto simp: form_encode_def)
    then show ?thesis by (cases "form_encode s") auto
  qed
qed

lemma query_roundtrip: "valid_pairs ps \<Longrightarrow> query_pairs (query_text ps) = ps"
proof -
  assume "valid_pairs ps"
  moreover have "query_text ps = js_join ''&'' (map form_pair.pair_text ps)"
    by (simp add: query_text_def form_pair.pair_text_def [abs_def] case_prod_unfold)
  ultimately show ?thesis by (simp add: form_pair.pairs_back)
qed

section \<open>One parameter set or removed\<close>

lemma set_param_get: "map_of (set_param k v ps) n = (if n = k then Some v else map_of ps n)"
proof (induction ps)
  case (Cons p ps)
  have "map_of (filter (\<lambda>q. fst q \<noteq> k) ps) n = (if n = k then None else map_of ps n)"
    by (induction ps) auto
  with Cons show ?case by auto
qed simp

lemma delete_param_get: "map_of (delete_param k ps) n = (if n = k then None else map_of ps n)"
  by (induction ps) (auto simp: delete_param_def)

lemma search_param_set:
  assumes "valid_utf8 k" "valid_utf8 v"
  shows "search_param n (query_text (set_param k v (query_pairs q))) = (if n = k then Some v else search_param n q)"
  using assms by (simp add: search_param_def query_roundtrip valid_set_param valid_query_pairs set_param_get)

lemma search_param_delete:
  "search_param n (query_text (delete_param k (query_pairs q))) = (if n = k then None else search_param n q)"
  by (simp add: search_param_def query_roundtrip valid_delete_param valid_query_pairs delete_param_get)

text \<open>A query never starts with a question mark of its own: \<open>?\<close> in front is dropped when it is read.\<close>

lemma query_pairs_marked: "query_pairs (CHR ''?'' # q) = query_pairs q" if "\<not> starts_with q ''?''"
  using that by (simp add: query_pairs_def)

lemma query_text_unmarked: "\<not> starts_with (query_text ps) ''?''"
proof (cases ps)
  case (Cons p qs)
  obtain k v where p: "p = (k, v)" by (cases p)
  have "\<not> starts_with (form_encode k) ''?''" using form_pair.no_question .
  then show ?thesis using Cons p by (cases qs; cases "form_encode k") (simp_all add: query_text_def)
qed (simp add: query_text_def)

end
