(* ===== verification/Analytics.thy ===== *)
theory Analytics
  imports PerfTable View Api Queries NetWorth
begin

text \<open>
  The analytics page (\<open>app/(app)/compare/page.tsx\<close>): the totals of realized gains
  (\<open>analytics/KpiStrip.tsx\<close>), the allocation charts with the table a click on a slice opens
  (\<open>analytics/AllocationPie.tsx\<close>, \<open>analytics/AllocationDrill.tsx\<close>), the switch that leaves closed
  positions out (\<open>compare/ExcludeClosedToggle.tsx\<close>) and the bars of contributions per period
  (\<open>contributions/ContributionBars.tsx\<close>).
\<close>

definition tag_part :: "jstring option \<Rightarrow> jstring" where
  "tag_part tagFilter = (case Option.bind tagFilter or_null of None \<Rightarrow> '''' | Some t \<Rightarrow> ''&tag='' @ encodeURIComponent t)"

datatype 'r answer = AnswerLoading | AnswerFailed thrown | AnswerData 'r

definition failure_text :: "thrown \<Rightarrow> jstring" where
  "failure_text err = nullish (error_message err) ''Unknown error''"

section \<open>Realized totals\<close>

definition realized_url :: "currency \<Rightarrow> jstring option \<Rightarrow> jstring" where
  "realized_url cur tagFilter = ''/api/realized?currency='' @ currency_text cur @ tag_part tagFilter"

definition KpiCard :: "jstring \<Rightarrow> jstring option \<Rightarrow> currency \<Rightarrow> jstring \<times> cell" where
  "KpiCard label v cur =
     (label, (directionalColor (map_option SStr v),
       case v of None \<Rightarrow> em_dash | Some s \<Rightarrow> formatSignedMoney (SStr s) cur))"

text \<open>The totals, lifetime and this year; each may be missing.  A card is its label, colour and text.\<close>

datatype kpi_view = KpiLoading | KpiFailed | KpiCards "jstring option" "(jstring \<times> cell) list"

definition KpiStrip :: "currency \<Rightarrow> (jstring option \<times> jstring option) answer \<Rightarrow> kpi_view" where
  "KpiStrip cur q =
     (case q of
        AnswerLoading \<Rightarrow> KpiLoading
      | AnswerFailed err \<Rightarrow> KpiFailed
      | AnswerData (lifetime, thisYear) \<Rightarrow>
          KpiCards (if lifetime = None \<and> thisYear = None
              then Some ''Realized gains appear here once you record a sell or spend.'' else None)
            [KpiCard ''Realized total (lifetime)'' lifetime cur, KpiCard ''Realized this year'' thisYear cur])"

section \<open>Allocation charts\<close>

datatype Dimension = ByType | ByRisk | ByAccount | ByBanked

fun dimension_text :: "Dimension \<Rightarrow> jstring" where
  "dimension_text ByType = ''type''"
| "dimension_text ByRisk = ''risk''"
| "dimension_text ByAccount = ''account''"
| "dimension_text ByBanked = ''banked''"

record AllocationSlice =
  sl_label :: jstring
  sl_value :: jstring
  sl_percent :: jstring

record AllocationResponse =
  al_total :: jstring
  al_slices :: "AllocationSlice list"

definition allocation_url :: "Dimension \<Rightarrow> currency \<Rightarrow> jstring option \<Rightarrow> jstring" where
  "allocation_url d cur tagFilter =
     ''/api/allocation?dimension='' @ dimension_text d @ ''&currency='' @ currency_text cur @ tag_part tagFilter"

definition slice_name :: "Dimension \<Rightarrow> jstring \<Rightarrow> jstring" where
  "slice_name d label = (if d = ByType then instrumentTypeLabel label else label)"

record pie_datum =
  pd_name :: jstring
  pd_value :: jsnum
  pd_faded :: bool

definition pie_datum_of :: "Dimension \<Rightarrow> AllocationSlice \<Rightarrow> pie_datum" where
  "pie_datum_of d s =
     \<lparr>pd_name = slice_name d (sl_label s), pd_value = str_to_number (sl_value s), pd_faded = (sl_label s = ''Sin clasificar'')\<rparr>"

definition pie_tooltip :: "currency \<Rightarrow> jstring \<Rightarrow> jsnum \<Rightarrow> jsnum \<Rightarrow> jstring" where
  "pie_tooltip cur name v percent =
     name @ '': '' @ formatMoney (SNum v) cur @ '' ('' @ number_to_str percent @ ''%)''"

definition pie_aria :: "Dimension \<Rightarrow> AllocationResponse option \<Rightarrow> jstring" where
  "pie_aria d data =
     (case data of
        None \<Rightarrow> ''Allocation by '' @ dimension_text d @ '' loading''
      | Some r \<Rightarrow>
          let (label, percent) = (case al_slices r of [] \<Rightarrow> ([], ''0'') | s # _ \<Rightarrow> (sl_label s, sl_percent s))
          in ''Allocation by '' @ dimension_text d @ '': '' @ label @ '' '' @ percent @ ''% leading'')"

text \<open>The chart: its description, the text in its middle, and its slices.\<close>

datatype pie_view =
    PieLoading | PieFailed jstring | PieEmpty
  | PieChart jstring "jstring \<times> jstring" "pie_datum list"

definition AllocationPie :: "Dimension \<Rightarrow> currency \<Rightarrow> AllocationResponse option answer \<Rightarrow> pie_view" where
  "AllocationPie d cur q =
     (case q of
        AnswerLoading \<Rightarrow> PieLoading
      | AnswerFailed err \<Rightarrow> PieFailed (''Could not load allocation data. '' @ failure_text err)
      | AnswerData None \<Rightarrow> PieEmpty
      | AnswerData (Some r) \<Rightarrow>
          if al_slices r = [] then PieEmpty
          else PieChart (pie_aria d (Some r)) (formatMoney (SStr (al_total r)) cur, ''Total'') (map (pie_datum_of d) (al_slices r)))"

definition pie_slices :: "pie_view \<Rightarrow> pie_datum list" where
  "pie_slices v = (case v of PieChart a t ds \<Rightarrow> ds | _ \<Rightarrow> [])"

text \<open>A click counts on the series only, not on the legend.\<close>

definition handleClick :: "(jstring \<Rightarrow> 's \<Rightarrow> 's) \<Rightarrow> jstring \<Rightarrow> jstring \<Rightarrow> 's \<Rightarrow> 's" where
  "handleClick onSliceClick componentType name st = (if componentType \<noteq> ''series'' then st else onSliceClick name st)"

section \<open>The page\<close>

definition PIES :: "(Dimension \<times> jstring) list" where
  "PIES = [(ByType, ''By type''), (ByRisk, ''By risk''), (ByAccount, ''By account''), (ByBanked, ''By banked / non-banked'')]"

text \<open>
  The listener of a chart is the one made when the chart became ready, with the slice drilled then:
  \<open>an_bound\<close>, \<open>None\<close> for a chart not ready yet.
\<close>

record analytics =
  an_drilled :: "(Dimension \<times> jstring) option"
  an_bound :: "(Dimension, (Dimension \<times> jstring) option) jsmap"

definition analytics_first :: analytics where
  "analytics_first = \<lparr>an_drilled = None, an_bound = []\<rparr>"

definition handleSliceClick :: "(Dimension \<times> jstring) option \<Rightarrow> Dimension \<Rightarrow> jstring \<Rightarrow> analytics \<Rightarrow> analytics" where
  "handleSliceClick drilledSlice d label st =
     (if drilledSlice = Some (d, label) then st\<lparr>an_drilled := None\<rparr> else st\<lparr>an_drilled := Some (d, label)\<rparr>)"

definition handleChartReady :: "Dimension \<Rightarrow> analytics \<Rightarrow> analytics" where
  "handleChartReady d st = st\<lparr>an_bound := jm_set d (an_drilled st) (an_bound st)\<rparr>"

inductive analytics_step :: "analytics \<Rightarrow> analytics \<Rightarrow> bool" where
  chart_ready: "analytics_step st (handleChartReady d st)"
| slice_click: "jm_get (an_bound st) d = Some captured \<Longrightarrow> x \<in> set (pie_slices (AllocationPie d cur q)) \<Longrightarrow>
    analytics_step st (handleClick (handleSliceClick captured d) component (pd_name x) st)"
| drill_close: "analytics_step st (st\<lparr>an_drilled := None\<rparr>)"

inductive analytics_reach :: "analytics \<Rightarrow> bool" where
  analytics_start: "analytics_reach analytics_first"
| analytics_next: "analytics_reach st \<Longrightarrow> analytics_step st st' \<Longrightarrow> analytics_reach st'"

definition slice_filter :: "Dimension \<Rightarrow> jstring \<Rightarrow> FilterBy" where
  "slice_filter d v =
     (case d of ByType \<Rightarrow> FilterType v | ByRisk \<Rightarrow> FilterRisk v | ByAccount \<Rightarrow> FilterAccount v | ByBanked \<Rightarrow> FilterBanked v)"

text \<open>What the drill hands to the table; the query of the page supplies the two parameters.\<close>

definition drill_props :: "Dimension \<Rightarrow> jstring \<Rightarrow> currency \<Rightarrow> jstring option \<Rightarrow> jstring \<Rightarrow> PerfTableProps" where
  "drill_props d sliceLabel cur tagFilter query =
     \<lparr> pp_rows = None, pp_mode = OpenMode, pp_filterBy = Some (slice_filter d sliceLabel), pp_respectExcludeClosed = True,
       pp_showTotals = True, pp_timeframe = None, pp_from = None, pp_to = None,
       pp_perf_param = search_param ''perf'' query, pp_exclude_param = search_param ''excludeClosed'' query,
       pp_currency = cur, pp_tagFilter = tagFilter \<rparr>"

definition AllocationDrill ::
  "(jstring \<Rightarrow> jstring) \<Rightarrow> (jstring \<Rightarrow> jstring \<Rightarrow> int) \<Rightarrow> Dimension \<Rightarrow> jstring \<Rightarrow> currency \<Rightarrow> jstring option \<Rightarrow> jstring
    \<Rightarrow> PerfQuery \<Rightarrow> SortKey \<times> SortDir \<Rightarrow> jstring \<times> jstring \<times> PerfView" where
  "AllocationDrill lower collate d sliceLabel cur tagFilter query q order =
     (''Holdings '' @ em_dash @ '' '' @ sliceLabel, ''Showing holdings for '' @ dimension_text d,
      PerfTable lower collate (drill_props d sliceLabel cur tagFilter query) q order)"

section \<open>Leaving closed positions out\<close>

definition exclude_checked :: "jstring \<Rightarrow> bool" where
  "exclude_checked query \<longleftrightarrow> search_param ''excludeClosed'' query = Some ''1''"

definition exclude_query :: "bool \<Rightarrow> jstring \<Rightarrow> jstring" where
  "exclude_query checked query =
     query_text (if checked then set_param ''excludeClosed'' ''1'' (query_pairs query)
                 else delete_param ''excludeClosed'' (query_pairs query))"

text \<open>The address the router is sent to.\<close>

definition ExcludeClosedToggle :: "bool \<Rightarrow> jstring \<Rightarrow> jstring \<Rightarrow> jstring" where
  "ExcludeClosedToggle checked pathname query =
     (let qs = exclude_query checked query in if qs \<noteq> [] then pathname @ ''?'' @ qs else pathname)"

section \<open>Contributions per period\<close>

datatype Period = PerMonth | PerYear

fun period_text :: "Period \<Rightarrow> jstring" where
  "period_text PerMonth = ''month''"
| "period_text PerYear = ''year''"

record ContributionBucket =
  cb_period_start :: jstring
  cb_deposits :: jstring
  cb_spendings :: jstring
  cb_realized_gains :: jstring
  cb_yield_amount :: jstring

definition contributions_url :: "Period \<Rightarrow> currency \<Rightarrow> jstring option \<Rightarrow> jstring" where
  "contributions_url p cur tagFilter =
     ''/api/contributions?period='' @ period_text p @ ''&currency='' @ currency_text cur @ tag_part tagFilter"

text \<open>Choosing the period that is chosen already deselects it, which changes nothing.\<close>

definition PeriodToggle :: "Period option \<Rightarrow> Period \<Rightarrow> Period" where
  "PeriodToggle chosen current = (case chosen of None \<Rightarrow> current | Some p \<Rightarrow> p)"

text \<open>
  An instant is counted in minutes since the epoch.  \<open>parseISO\<close> of a date alone is midnight of the
  browser, \<open>offset\<close> minutes ahead of universal time; \<open>day\<close> counts the days of a date,
  \<open>year\<close> gives the year of a day, \<open>month_label\<close> the local \<open>MMMM yyyy\<close> of an instant.
\<close>

definition parse_iso :: "int \<Rightarrow> (jstring \<Rightarrow> int) \<Rightarrow> jstring \<Rightarrow> int" where
  "parse_iso offset day iso_date = day iso_date * 1440 - offset"

definition utc_year :: "(int \<Rightarrow> int) \<Rightarrow> int \<Rightarrow> int" where
  "utc_year year t = year (t div 1440)"

definition bar_categories ::
  "int \<Rightarrow> (jstring \<Rightarrow> int) \<Rightarrow> (int \<Rightarrow> int) \<Rightarrow> (int \<Rightarrow> jstring) \<Rightarrow> Period \<Rightarrow> ContributionBucket list \<Rightarrow> jstring list" where
  "bar_categories offset day year month_label period buckets =
     map (\<lambda>b. let d = parse_iso offset day (cb_period_start b)
        in if period = PerYear then show_int (utc_year year d) else month_label d) buckets"

definition bar_series :: "ContributionBucket list \<Rightarrow> (jstring \<times> jsnum list) list" where
  "bar_series buckets =
     [(''Deposits'', map (\<lambda>b. str_to_number (cb_deposits b)) buckets),
      (''Spendings'', map (\<lambda>b. js_neg (str_to_number (cb_spendings b))) buckets),
      (''Realized gains'', map (\<lambda>b. str_to_number (cb_realized_gains b)) buckets),
      (''Yield'', map (\<lambda>b. str_to_number (cb_yield_amount b)) buckets)]"

definition CHART_REALIZED :: jstring where "CHART_REALIZED = ''#D97706''"

text \<open>The values the tooltip collects from the bars under the pointer.\<close>

record bar_sums =
  bs_deposits :: jsnum
  bs_spendings :: jsnum
  bs_realized :: jsnum
  bs_yield :: jsnum

definition bar_sums_first :: bar_sums where
  "bar_sums_first = \<lparr>bs_deposits = Num 0, bs_spendings = Num 0, bs_realized = Num 0, bs_yield = Num 0\<rparr>"

definition bar_collect :: "jstring option \<times> jsnum option \<Rightarrow> bar_sums \<Rightarrow> bar_sums" where
  "bar_collect p acc =
     (let v = nullish (snd p) (Num 0)
      in if fst p = Some ''Deposits'' then acc\<lparr>bs_deposits := v\<rparr>
         else if fst p = Some ''Spendings'' then acc\<lparr>bs_spendings := js_abs v\<rparr>
         else if fst p = Some ''Realized gains'' then acc\<lparr>bs_realized := v\<rparr>
         else if fst p = Some ''Yield'' then acc\<lparr>bs_yield := v\<rparr>
         else acc)"

definition net_change :: "bar_sums \<Rightarrow> jsnum" where
  "net_change b = js_add (js_add (js_sub (bs_deposits b) (bs_spendings b)) (bs_realized b)) (bs_yield b)"

definition bar_sign :: "jsnum \<Rightarrow> jstring" where
  "bar_sign v = (if js_le (Num 0) v then ''+'' else '''')"

definition nbsp :: "nat \<Rightarrow> jstring" where
  "nbsp n = concat (replicate n ''&nbsp;'')"

definition bar_line :: "jstring \<Rightarrow> jstring \<Rightarrow> jstring \<Rightarrow> jstring" where
  "bar_line style colour text =
     html_div style (colored colour black_square @ ''<span>'' @ text @ ''</span>'')"

definition bars_tooltip :: "currency \<Rightarrow> (jstring option \<times> jsnum option) list \<Rightarrow> jstring \<Rightarrow> jstring" where
  "bars_tooltip cur params periodLabel =
     (if params = [] then []
      else
        let b = fold bar_collect params bar_sums_first;
            money = (\<lambda>v. formatMoney (SNum v) cur)
        in html_div (''font-size:12px;color:'' @ MUTED @ '';'') periodLabel
           @ bar_line ''margin-top:4px;display:flex;gap:8px;'' POSITIVE
               (''Deposits'' @ nbsp 8 @ bar_sign (bs_deposits b) @ money (bs_deposits b))
           @ bar_line ''display:flex;gap:8px;'' NEGATIVE (''Spendings'' @ nbsp 6 @ minus_sign @ money (bs_spendings b))
           @ bar_line ''display:flex;gap:8px;'' CHART_REALIZED
               (''Realized gains'' @ nbsp 1 @ bar_sign (bs_realized b) @ money (bs_realized b))
           @ bar_line ''display:flex;gap:8px;'' MUTED (''Yield'' @ nbsp 11 @ bar_sign (bs_yield b) @ money (bs_yield b))
           @ html_div (''margin-top:6px;font-weight:600;font-size:14px;color:'' @ ACCENT @ '';'')
               (''Net change'' @ nbsp 5 @ bar_sign (net_change b) @ money (net_change b)))"

datatype bars_view =
    BarsLoading | BarsFailed jstring | BarsEmpty | BarsChart jstring "jstring list" "(jstring \<times> jsnum list) list"

definition ContributionBars ::
  "(ContributionBucket list \<Rightarrow> jstring list) \<Rightarrow> Period \<Rightarrow> ContributionBucket list option answer \<Rightarrow> bars_view" where
  "ContributionBars categories period q =
     (case q of
        AnswerLoading \<Rightarrow> BarsLoading
      | AnswerFailed err \<Rightarrow> BarsFailed (''Could not load contributions chart. '' @ failure_text err)
      | AnswerData data \<Rightarrow>
          (case nullish data [] of
             [] \<Rightarrow> BarsEmpty
           | buckets \<Rightarrow> BarsChart (''Contributions per '' @ period_text period @ '' from '' @ hd (categories buckets)
                 @ '' to '' @ last (categories buckets)) (categories buckets) (bar_series buckets)))"

section \<open>Properties\<close>

text \<open>The label the back end gives a row of holdings under a dimension (\<open>services/allocation.py\<close>).\<close>

definition row_label :: "Dimension \<Rightarrow> PerfHoldingRow \<Rightarrow> jstring" where
  "row_label d r =
     (case d of ByType \<Rightarrow> ph_instrument_type r | ByRisk \<Rightarrow> nullish (ph_risk_level r) []
      | ByAccount \<Rightarrow> ph_account_name r | ByBanked \<Rightarrow> if ph_is_banked r then ''Banked'' else ''Non-banked'')"

definition same_label :: "Dimension \<Rightarrow> jstring \<Rightarrow> jstring \<Rightarrow> bool" where
  "same_label d a b \<longleftrightarrow> (if d \<in> {ByType, ByRisk} then map ascii_lower a = map ascii_lower b else a = b)"

lemma lower_upper: "ascii_lower (ascii_upper c) = ascii_lower c"
proof (cases "97 \<le> (of_char c :: int) \<and> (of_char c :: int) \<le> 122")
  case True
  then have "(of_char (char_of ((of_char c :: int) - 32)) :: int) = of_char c - 32"
    by (simp add: of_char_of)
  with True show ?thesis
    by (simp add: ascii_upper_def ascii_lower_def)
next
  case False
  then have "ascii_upper c = c" by (auto simp: ascii_upper_def Let_def)
  then show ?thesis by simp
qed

lemma lower_type_label: "map ascii_lower (instrumentTypeLabel t) = map ascii_lower t"
proof (cases "map_of INSTRUMENT_TYPE_LABEL t")
  case None
  then show ?thesis
    by (cases t) (simp_all add: instrumentTypeLabel_def lower_upper)
next
  case (Some l)
  have "\<forall>p \<in> set INSTRUMENT_TYPE_LABEL. map ascii_lower (snd p) = map ascii_lower (fst p)" by code_simp
  moreover have "(t, l) \<in> set INSTRUMENT_TYPE_LABEL" using Some by (rule map_of_SomeD)
  ultimately show ?thesis using Some by (force simp: instrumentTypeLabel_def)
qed

lemma slice_filter_label:
  "filter_matches (map ascii_lower) (slice_filter d (slice_name d label)) r \<longleftrightarrow> same_label d (row_label d r) label"
  by (cases d) (auto simp: filter_matches_def slice_filter_def slice_name_def same_label_def row_label_def lower_type_label)

lemma drilled_from_chart:
  "analytics_reach st \<Longrightarrow> an_drilled st = Some (d, s) \<Longrightarrow> jm_get (an_bound st) d \<noteq> None"
proof (induction arbitrary: d s rule: analytics_reach.induct)
  case (analytics_next st st')
  from analytics_next.hyps(2) show ?case
  proof cases
    case (slice_click d' captured x cur q component)
    then show ?thesis
      using analytics_next.prems analytics_next.IH by (auto simp: handleClick_def handleSliceClick_def split: if_splits)
  qed (use analytics_next in \<open>auto simp: handleChartReady_def\<close>)
qed (simp add: analytics_first_def)

lemma pie_slices_response:
  "pie_slices (AllocationPie d cur (AnswerData (Some resp))) = map (pie_datum_of d) (al_slices resp)"
  by (simp add: pie_slices_def AllocationPie_def)


definition demo_allocation :: AllocationResponse where
  "demo_allocation = \<lparr>al_total = ''10'', al_slices = [\<lparr>sl_label = ''etf'', sl_value = ''10'', sl_percent = ''1''\<rparr>]\<rparr>"


lemma exclude_names: "valid_utf8 ''excludeClosed''" "valid_utf8 ''1''"
  by code_simp+

lemma exclude_params:
  "search_param n (exclude_query checked query) =
     (if n = ''excludeClosed'' then (if checked then Some ''1'' else None) else search_param n query)"
  by (simp add: exclude_query_def search_param_set search_param_delete exclude_names)

text \<open>
  C31: The switch reaches the table through the address.  After the switch was set, it shows what was
  chosen, every other parameter of the address is what it was, setting it back leaves no trace of it,
  and the table of a slice asks for closed positions exactly when they are not left out.
\<close>
theorem exclude_switch:
  "exclude_checked (exclude_query checked query) = checked
   \<and> (\<lambda>n. search_param n (exclude_query checked query))
       = (\<lambda>n. search_param n query)(''excludeClosed'' := if checked then Some ''1'' else None)
   \<and> query_pairs (exclude_query False (exclude_query checked query)) = delete_param ''excludeClosed'' (query_pairs query)
   \<and> perf_url (drill_props d s cur tagFilter (exclude_query checked query))
       = perf_url ((drill_props d s cur tagFilter query)\<lparr>pp_respectExcludeClosed := False\<rparr>)
         @ (if checked then [] else ''&include_closed=1'')"
proof (intro conjI)
  show "exclude_checked (exclude_query checked query) = checked"
    by (simp add: exclude_checked_def exclude_params)
  show "(\<lambda>n. search_param n (exclude_query checked query))
      = (\<lambda>n. search_param n query)(''excludeClosed'' := if checked then Some ''1'' else None)"
    by (auto simp: exclude_params)
  have gone: "delete_param k (set_param k v ps) = delete_param k ps" for k v :: jstring and ps
    by (induction ps) (auto simp: delete_param_def)
  have "delete_param k (delete_param k ps) = delete_param k ps" for k :: jstring and ps :: "(jstring \<times> jstring) list"
    by (simp add: delete_param_def)
  then show "query_pairs (exclude_query False (exclude_query checked query)) = delete_param ''excludeClosed'' (query_pairs query)"
    by (cases checked) (simp_all add: exclude_query_def query_roundtrip valid_delete_param valid_set_param valid_query_pairs
        exclude_names gone)
  show "perf_url (drill_props d s cur tagFilter (exclude_query checked query))
      = perf_url ((drill_props d s cur tagFilter query)\<lparr>pp_respectExcludeClosed := False\<rparr>)
        @ (if checked then [] else ''&include_closed=1'')"
    by (simp add: perf_url_def drill_props_def includeClosed_def exclude_params timeframeQuery_def customQuery_def table_timeframe_def)
qed

text \<open>
  The year under a bar is a year early east of Greenwich.  Where local time is ahead of universal
  time, local midnight of the first of January lies in the old year.
\<close>
lemma year_label_early:
  assumes "0 < offset" "offset \<le> 840" "year (day (cb_period_start b) - 1) = year (day (cb_period_start b)) - 1"
  shows "bar_categories offset day year month_label PerYear [b] = [show_int (year (day (cb_period_start b)) - 1)]"
proof -
  have "day (cb_period_start b) * 1440 - offset = (1440 - offset) + (day (cb_period_start b) - 1) * 1440" by simp
  moreover have "(1440 - offset) div 1440 = 0" using assms(1,2) by (simp add: div_pos_pos_trivial)
  ultimately have "(day (cb_period_start b) * 1440 - offset) div 1440 = day (cb_period_start b) - 1"
    by (simp only: div_mult_self1)
  then show ?thesis using assms(3) by (simp add: bar_categories_def utc_year_def parse_iso_def)
qed

text \<open>The four bars of a bucket, as the chart hands them to the tooltip.\<close>

definition bars_at :: "nat \<Rightarrow> ContributionBucket list \<Rightarrow> (jstring option \<times> jsnum option) list" where
  "bars_at i buckets = map (\<lambda>(name, vs). (Some name, Some (vs ! i))) (bar_series buckets)"

text \<open>
  The tooltip of a bar adds up its bucket.  From the four bars of a period, in whatever order the
  chart lists them, the tooltip recovers the deposits, the gains, the yield and, although its bar
  hangs below the axis, the amount spent without its sign, and takes only that from their sum.
\<close>
theorem bars_tooltip_bucket:
  assumes "i < length buckets" "mset params = mset (bars_at i buckets)"
  shows "let b = buckets ! i; n = (\<lambda>f. str_to_number (f b)); got = fold bar_collect params bar_sums_first
    in got = \<lparr>bs_deposits = n cb_deposits, bs_spendings = js_abs (n cb_spendings),
              bs_realized = n cb_realized_gains, bs_yield = n cb_yield_amount\<rparr>
       \<and> net_change got = js_add (js_add (js_sub (n cb_deposits) (js_abs (n cb_spendings))) (n cb_realized_gains)) (n cb_yield_amount)"
proof -
  have neg: "js_abs (js_neg x) = js_abs x" for x by (cases x) auto
  have comm: "bar_collect p \<circ> bar_collect q = bar_collect q \<circ> bar_collect p"
    if "fst p \<noteq> fst q" for p q :: "jstring option \<times> jsnum option"
    using that by (auto simp: bar_collect_def Let_def fun_eq_iff)
  have "distinct (map fst (bars_at i buckets))"
    by (simp add: bars_at_def bar_series_def)
  moreover have "set params = set (bars_at i buckets)"
    using assms(2) by (metis set_mset_mset)
  ultimately have "bar_collect p \<circ> bar_collect q = bar_collect q \<circ> bar_collect p"
    if "p \<in> set params" "q \<in> set params" for p q
    using that comm [of p q] by (cases "p = q") (auto simp: distinct_map inj_on_def)
  from fold_multiset_equiv [OF this assms(2)]
  have "fold bar_collect params bar_sums_first = fold bar_collect (bars_at i buckets) bar_sums_first" by simp
  then show ?thesis
    using assms(1) by (simp add: bars_at_def bar_series_def bar_collect_def bar_sums_first_def neg net_change_def Let_def)
qed

theorem bars_tooltip_bucket_witness:
  "let b = \<lparr>cb_period_start = ''2024-01-01'', cb_deposits = ''5'', cb_spendings = ''2'', cb_realized_gains = ''1'', cb_yield_amount = ''0''\<rparr>
   in net_change (fold bar_collect (rev (bars_at 0 [b])) bar_sums_first)
        = js_add (js_add (js_sub (str_to_number ''5'') (js_abs (str_to_number ''2''))) (str_to_number ''1'')) (str_to_number ''0'')"
  using bars_tooltip_bucket [of 0 "[\<lparr>cb_period_start = ''2024-01-01'', cb_deposits = ''5'', cb_spendings = ''2'',
      cb_realized_gains = ''1'', cb_yield_amount = ''0''\<rparr>]" "rev (bars_at 0 [\<lparr>cb_period_start = ''2024-01-01'', cb_deposits = ''5'',
      cb_spendings = ''2'', cb_realized_gains = ''1'', cb_yield_amount = ''0''\<rparr>])"]
  by (simp add: Let_def net_change_def)

end
