(* ===== verification/InstrumentPage.thy ===== *)
theory InstrumentPage
  imports PerfTable Instruments Tags Queries
begin

text \<open>
  The page of one instrument (\<open>app/(app)/holdings/i/[id]\<close>): its tabs, the overview with its header,
  the headline figures (\<open>InstrumentKpiBlock.tsx\<close>) and the breakdown per account
  (\<open>InstrumentAccountsTable.tsx\<close>), the history of manual prices (\<open>NavHistoryTab.tsx\<close>,
  \<open>forms/ManualNavForm.tsx\<close>) and of yield rates (\<open>ApyConfigTab.tsx\<close>, \<open>forms/ApyConfigForm.tsx\<close>).
\<close>

section \<open>The rows of the instrument\<close>

definition open_perf_url :: "currency \<Rightarrow> jstring" where
  "open_perf_url cur = ''/api/perf?currency='' @ currency_text cur @ ''&timeframe=all&include_closed=1''"

definition scoped_rows :: "jstring \<Rightarrow> PerfHoldingRow list \<Rightarrow> PerfHoldingRow list" where
  "scoped_rows instrumentId rows = filter (\<lambda>r. ph_instrument_id r = instrumentId) rows"

text \<open>The query of the rows: under way, failed, or its data, if any.\<close>

datatype perf_answer = RowsLoading | RowsFailed | RowsData "PerfHoldingRow list option"

section \<open>The headline figures\<close>

text \<open>\<open>x.toFixed(k)\<close>.\<close>

definition js_toFixed :: "nat \<Rightarrow> jsnum \<Rightarrow> jstring" where
  "js_toFixed k x =
     (case x of
        Num q \<Rightarrow>
          if 10 ^ 21 \<le> \<bar>q\<bar> then number_to_str x
          else let (i, f) = to_fixed k k \<bar>q\<bar> in (if q < 0 then ''-'' else []) @ dec_text i CHR ''.'' f
      | NegZero \<Rightarrow> (let (i, f) = to_fixed k k 0 in dec_text i CHR ''.'' f)
      | _ \<Rightarrow> number_to_str x)"

definition js_max :: "jsnum \<Rightarrow> jsnum \<Rightarrow> jsnum" where
  "js_max a b = (if a = NaN \<or> b = NaN then NaN else if js_lt a b then b else if js_lt b a then a else if a = NegZero then b else a)"

definition PER_UNIT_DIVISOR_FLOOR :: jsnum where
  "PER_UNIT_DIVISOR_FLOOR = to_double (1 / 1000000)"

definition plural_years :: "jstring \<Rightarrow> jstring" where
  "plural_years years = (if years = ''1.0'' then [] else ''s'')"

definition twrrHint :: "TwrrPick option \<Rightarrow> jstring option" where
  "twrrHint twrr =
     (case twrr of None \<Rightarrow> None
      | Some t \<Rightarrow>
          if tp_reason t = Some ''insufficient_history'' then Some (''Needs '' @ [CHR 0xE2, CHR 0x89, CHR 0xA5] @ ''7 days of history'')
          else if tp_reason t = Some ''missing_fx'' then Some ''Missing FX rate''
          else case tp_period_days t of
            None \<Rightarrow> None
          | Some d \<Rightarrow>
              if 365 \<le> d
              then let years = js_toFixed 1 (js_div (Num (of_int d)) (Num 365))
                   in Some (''Over '' @ years @ '' year'' @ plural_years years)
              else if 0 < d then Some (''Over '' @ show_int d @ '' days'')
              else None)"

record Quote =
  qu_price :: jstring
  qu_currency :: currency
  qu_fetched_at :: jstring

text \<open>A figure: its label, its text with the colour it is in, and the line below.\<close>

record Kpi =
  kp_label :: jstring
  kp_value :: cell
  kp_hint :: "cell option"
  kp_stale :: "jstring option"

definition plain_kpi :: "jstring \<Rightarrow> jstring \<Rightarrow> jstring option \<Rightarrow> Kpi" where
  "plain_kpi l v h = \<lparr>kp_label = l, kp_value = ([], v), kp_hint = map_option (\<lambda>t. ([], t)) h, kp_stale = None\<rparr>"

definition SignedMoney :: "jsnum \<Rightarrow> currency \<Rightarrow> cell" where
  "SignedMoney v cur = (directionalColor (Some (SNum v)), formatSignedMoney (SNum v) cur)"

definition muted_dash :: cell where
  "muted_dash = (''text-muted-foreground'', em_dash)"

definition quantity_kpi :: "InstrumentAggregate \<Rightarrow> nat \<Rightarrow> Kpi" where
  "quantity_kpi a decimals =
     plain_kpi ''Quantity held''
       (if ia_open_count a = 0 \<and> 0 < ia_closed_count a then ''0'' else formatQuantity (SNum (ia_total_quantity a)) decimals)
       (if 1 < ia_open_count a then Some (''Across '' @ show_digits (int (ia_open_count a)) @ '' accounts'')
        else if ia_open_count a = 1 then Some ''1 account''
        else if 0 < ia_closed_count a then Some ''All positions closed'' else None)"

definition per_unit :: "InstrumentAggregate \<Rightarrow> jsnum \<Rightarrow> jsnum" where
  "per_unit a value' = js_div value' (js_max (ia_total_quantity a) PER_UNIT_DIVISOR_FLOOR)"

definition price_kpi :: "InstrumentAggregate \<Rightarrow> currency \<Rightarrow> Quote option \<Rightarrow> Kpi" where
  "price_kpi a cur q =
     (case q of
        None \<Rightarrow> plain_kpi ''Current price'' em_dash (Some ''No quote yet'')
      | Some quote \<Rightarrow>
          (plain_kpi ''Current price'' (formatMoney (SStr (qu_price quote)) (qu_currency quote))
             (case ia_market_value a of
                Some v \<Rightarrow> if qu_currency quote \<noteq> cur then Some (formatMoney (SNum (per_unit a v)) cur @ '' per unit'') else None
              | None \<Rightarrow> None))\<lparr>kp_stale := Some (qu_fetched_at quote)\<rparr>)"

definition money_kpi :: "jsnum option \<Rightarrow> currency \<Rightarrow> jstring" where
  "money_kpi v cur = (case v of Some x \<Rightarrow> formatMoney (SNum x) cur | None \<Rightarrow> em_dash)"

definition value_kpi :: "InstrumentAggregate \<Rightarrow> currency \<Rightarrow> Kpi" where
  "value_kpi a cur =
     plain_kpi ''Market value'' (money_kpi (ia_market_value a) cur)
       (if ia_market_value a = None \<and> 0 < ia_open_count a then Some ''Awaiting price'' else None)"

definition cost_kpi :: "InstrumentAggregate \<Rightarrow> currency \<Rightarrow> Kpi" where
  "cost_kpi a cur =
     plain_kpi ''Average cost'' (money_kpi (ia_weighted_avg_cost a) cur)
       (if ia_weighted_avg_cost a \<noteq> None \<and> 1 < ia_open_count a then Some ''Weighted across accounts'' else None)"

definition pnl_kpis :: "InstrumentAggregate \<Rightarrow> currency \<Rightarrow> Kpi list" where
  "pnl_kpis a cur =
     [\<lparr>kp_label = ''Unrealized P&L'',
       kp_value = (case ia_unrealized a of Some v \<Rightarrow> SignedMoney v cur | None \<Rightarrow> muted_dash),
       kp_hint = map_option (\<lambda>p. (directionalColor (Some (SNum p)), formatPercent (SNum p) True)) (ia_unrealized_pct a),
       kp_stale = None\<rparr>,
      \<lparr>kp_label = ''Realized P&L'',
       kp_value = (case ia_realized_total a of Some v \<Rightarrow> SignedMoney v cur | None \<Rightarrow> muted_dash),
       kp_hint = Some ([], ''Lifetime, includes closed lots''), kp_stale = None\<rparr>]"

definition twrr_kpi :: "InstrumentAggregate \<Rightarrow> Kpi" where
  "twrr_kpi a =
     \<lparr>kp_label = (case ia_best_twrr a of Some t \<Rightarrow> if tp_annualized t then ''TWRR (annualized)'' else ''TWRR'' | None \<Rightarrow> ''TWRR''),
      kp_value = (case ia_best_twrr a of Some t \<Rightarrow> TwrrCell (map_option SStr (tp_value t)) | None \<Rightarrow> muted_dash),
      kp_hint = map_option (\<lambda>t. ([], t)) (twrrHint (ia_best_twrr a)), kp_stale = None\<rparr>"

datatype kpi_block = KpiBlockLoading | KpiBlockFailed | KpiBlockEmpty | KpiBlock "Kpi list"

definition InstrumentKpiBlock ::
  "jstring \<Rightarrow> jstring \<Rightarrow> nat option \<Rightarrow> currency \<Rightarrow> perf_answer \<Rightarrow> Quote option \<Rightarrow> kpi_block" where
  "InstrumentKpiBlock instrumentId instrumentType displayDecimals cur q quote =
     (case q of
        RowsLoading \<Rightarrow> KpiBlockLoading
      | RowsFailed \<Rightarrow> KpiBlockFailed
      | RowsData None \<Rightarrow> KpiBlockFailed
      | RowsData (Some rows) \<Rightarrow>
          let a = aggregateInstrument (scoped_rows instrumentId rows);
              decimals = decimalsFor (Some instrumentType) displayDecimals
          in if ia_open_count a = 0 \<and> ia_closed_count a = 0 then KpiBlockEmpty
             else KpiBlock ([quantity_kpi a decimals, price_kpi a cur quote, value_kpi a cur, cost_kpi a cur]
                    @ pnl_kpis a cur @ [twrr_kpi a]))"

section \<open>The breakdown per account\<close>

definition row_value :: "PerfHoldingRow \<Rightarrow> jsnum" where
  "row_value r =
     (case ph_current_price r of
        Some p \<Rightarrow> js_mul (toDisplayNumber (Some (ph_quantity r))) (toDisplayNumber (Some p))
      | None \<Rightarrow> Num 0)"

text \<open>Whether \<open>a\<close> goes before \<open>b\<close>: the comparator is negative.  \<open>collate\<close> is \<open>localeCompare\<close>.\<close>

definition account_compare :: "(jstring \<Rightarrow> jstring \<Rightarrow> int) \<Rightarrow> PerfHoldingRow \<Rightarrow> PerfHoldingRow \<Rightarrow> jsnum" where
  "account_compare collate a b =
     (if is_open a \<noteq> is_open b then (if is_open a then Num (- 1) else Num 1)
      else if is_open a then js_sub (row_value b) (row_value a)
      else Num (of_int (collate (ph_account_name a) (ph_account_name b))))"

definition account_before :: "(jstring \<Rightarrow> jstring \<Rightarrow> int) \<Rightarrow> PerfHoldingRow \<Rightarrow> PerfHoldingRow \<Rightarrow> bool" where
  "account_before collate a b \<longleftrightarrow> js_lt (account_compare collate a b) (Num 0)"

definition account_rows :: "(jstring \<Rightarrow> jstring \<Rightarrow> int) \<Rightarrow> jstring \<Rightarrow> PerfHoldingRow list option \<Rightarrow> PerfHoldingRow list" where
  "account_rows collate instrumentId rows =
     (case rows of None \<Rightarrow> [] | Some rs \<Rightarrow> sort_by (account_before collate) (scoped_rows instrumentId rs))"

record AccountRow =
  ar_key :: jstring
  ar_account :: jstring
  ar_closed :: bool
  ar_quantity :: jstring
  ar_avg_cost :: jstring
  ar_value :: jstring
  ar_percent :: cell
  ar_realized :: cell
  ar_twrr :: cell

definition account_row :: "currency \<Rightarrow> PerfHoldingRow \<Rightarrow> AccountRow" where
  "account_row cur r =
     (let closed = (ph_status r = Some ClosedRow)
      in \<lparr>ar_key = ph_account_id r @ ''::'' @ ph_instrument_id r, ar_account = ph_account_name r, ar_closed = closed,
          ar_quantity = (if closed then em_dash
            else formatQuantity (SStr (ph_quantity r)) (decimalsFor (Some (ph_instrument_type r)) (ph_display_decimals r))),
          ar_avg_cost = money_or_dash (ph_avg_cost r) cur,
          ar_value = (if ph_current_price r \<noteq> None \<and> \<not> closed then formatMoney (SNum (row_value r)) cur else em_dash),
          ar_percent = (if closed then muted_dash else PercentCell (map_option SStr (ph_percent_return r))),
          ar_realized = RealizedCell (ph_realized_eur r) cur,
          ar_twrr = (if closed then muted_dash else TwrrCell (map_option SStr (ph_twrr r)))\<rparr>)"

text \<open>The cards of a narrow screen leave out the return of a closed row.\<close>

definition account_card :: "currency \<Rightarrow> PerfHoldingRow \<Rightarrow> 'e ui list" where
  "account_card cur r =
     (let v = account_row cur r
      in [Txt (ar_account v)] @ only_if (ar_closed v) [Txt ''Closed''] @ only_if (\<not> ar_closed v) [Txt (snd (ar_percent v))]
         @ [Txt ''Qty: '', Txt (ar_quantity v), Txt ''Avg: '', Txt (ar_avg_cost v), Txt ''Market value: '', Txt (ar_value v),
            Txt ''Realized: '', Txt (snd (ar_realized v))]
         @ only_if (\<not> ar_closed v) [Txt ''TWRR: '', Txt (snd (ar_twrr v))])"

datatype accounts_view = AccountsLoading | AccountsFailed | AccountsHidden | AccountsTable "AccountRow list"

definition InstrumentAccountsTable ::
  "(jstring \<Rightarrow> jstring \<Rightarrow> int) \<Rightarrow> jstring \<Rightarrow> currency \<Rightarrow> perf_answer \<Rightarrow> accounts_view" where
  "InstrumentAccountsTable collate instrumentId cur q =
     (case q of
        RowsLoading \<Rightarrow> AccountsLoading
      | RowsFailed \<Rightarrow> AccountsFailed
      | RowsData data \<Rightarrow>
          let rows = account_rows collate instrumentId data
          in if rows = [] \<or> (length rows = 1 \<and> is_open (hd rows)) then AccountsHidden
             else AccountsTable (map (account_row cur) rows))"

section \<open>The order of the accounts\<close>

definition account_sortable :: "(jstring \<Rightarrow> jstring \<Rightarrow> int) \<Rightarrow> PerfHoldingRow \<Rightarrow> bool" where
  "account_sortable collate r \<longleftrightarrow> consistent_collation collate \<and> (is_open r \<longrightarrow> is_finite (row_value r))"

lemma wf_row_value: "wf_num (row_value r)"
  by (simp add: row_value_def wf_js_mul is_double_def to_double_def split: option.split)

text \<open>Open before closed, open ones by falling value, closed ones by name.\<close>

lemma account_before_iff:
  assumes "account_sortable collate a" "account_sortable collate b"
  shows "account_before collate a b \<longleftrightarrow>
    (if is_open a \<noteq> is_open b then is_open a
     else if is_open a then num_val (row_value b) < num_val (row_value a)
     else collate (ph_account_name a) (ph_account_name b) < 0)"
proof (cases "is_open a \<and> is_open b")
  case True
  then have "is_finite (row_value a)" "is_finite (row_value b)" using assms by (simp_all add: account_sortable_def)
  then show ?thesis
    using True js_sub_neg [of "row_value b" "row_value a"] wf_row_value
    by (simp add: account_before_def account_compare_def js_lt_finite)
next
  case False
  then show ?thesis by (auto simp: account_before_def account_compare_def)
qed

interpretation account_order: weak_order "account_sortable collate" "account_before collate" for collate
proof
  fix a b c
  assume a: "account_sortable collate a" and b: "account_sortable collate b"
  then have con: "consistent_collation collate" by (simp add: account_sortable_def)
  have asym: "collate s t < 0 \<Longrightarrow> \<not> collate t s < 0" for s t
    using con unfolding consistent_collation_def by (metis less_asym)
  show "\<not> account_before collate a a" using account_before_iff [OF a a] asym by auto
  show "\<not> account_before collate b a" if "account_before collate a b"
    using that account_before_iff [OF a b] account_before_iff [OF b a] asym by (auto split: if_splits)
  assume c: "account_sortable collate c" and ac: "account_before collate a c"
  have "collate s u < 0 \<Longrightarrow> collate s t < 0 \<or> collate t u < 0" for s t u
    using con unfolding consistent_collation_def by blast
  then show "account_before collate a b \<or> account_before collate b c"
    using ac account_before_iff [OF a b] account_before_iff [OF b c] account_before_iff [OF a c]
    by (auto split: if_splits)
qed

lemma open_first:
  "sorted_wrt (\<lambda>a b. P b \<longrightarrow> P a) xs \<Longrightarrow> xs = filter P xs @ filter (\<lambda>x. \<not> P x) xs"
proof (induction xs)
  case (Cons x xs)
  show ?case
  proof (cases "P x")
    case False
    then have "filter P xs = []" "filter (\<lambda>x. \<not> P x) xs = xs"
      using Cons.prems by (auto simp: filter_empty_conv filter_id_conv)
    with False show ?thesis by simp
  qed (use Cons in simp)
qed simp

text \<open>
  C32: The accounts of an instrument are those its headline counts.  The breakdown lists every row of
  the instrument once, first the open ones by falling market value, then the closed ones by the name
  of the account, and there are as many of each as the headline figures are computed from.
\<close>
theorem accounts_of_headline:
  assumes "list_all (account_sortable collate) (scoped_rows i rs)" and a_def: "a = aggregateInstrument (scoped_rows i rs)"
  shows "\<exists>os cs. account_rows collate i (Some rs) = os @ cs
    \<and> mset (os @ cs) = mset (scoped_rows i rs)
    \<and> list_all is_open os \<and> list_all (\<lambda>r. \<not> is_open r) cs
    \<and> sorted_wrt (\<lambda>r s. num_val (row_value s) \<le> num_val (row_value r)) os
    \<and> sorted_wrt (\<lambda>r s. collate (ph_account_name r) (ph_account_name s) \<le> 0) cs
    \<and> length os = ia_open_count a \<and> length cs = ia_closed_count a"
proof -
  let ?xs = "account_rows collate i (Some rs)"
  let ?os = "filter is_open ?xs" and ?cs = "filter (\<lambda>r. \<not> is_open r) ?xs"
  have dom: "\<forall>r \<in> set (scoped_rows i rs). account_sortable collate r" using assms(1) by (simp add: list_all_iff)
  have m: "mset ?xs = mset (scoped_rows i rs)" by (simp add: account_rows_def)
  then have s: "set ?xs = set (scoped_rows i rs)" by (metis set_mset_mset)
  have "ordered_by (account_before collate) ?xs"
    using account_order.ordered_sort [OF dom] by (simp add: account_rows_def)
  then have ord: "sorted_wrt (\<lambda>r s. \<not> account_before collate s r) ?xs" by (simp add: ordered_by_def)
  have ord': "sorted_wrt R (filter P ?xs)"
    if "\<And>r s. P r \<Longrightarrow> P s \<Longrightarrow> account_sortable collate r \<Longrightarrow> account_sortable collate s \<Longrightarrow> \<not> account_before collate s r \<Longrightarrow> R r s"
    for R P
    by (rule sorted_wrt_mono_rel [OF _ sorted_wrt_filter [OF ord]]) (use that dom s in auto)
  have "sorted_wrt (\<lambda>r s. is_open s \<longrightarrow> is_open r) (filter (\<lambda>_. True) ?xs)"
  proof (rule ord')
    fix r s assume "account_sortable collate r" "account_sortable collate s" "\<not> account_before collate s r"
    then show "is_open s \<longrightarrow> is_open r" using account_before_iff [of collate s r] by (auto split: if_splits)
  qed
  then have "sorted_wrt (\<lambda>r s. is_open s \<longrightarrow> is_open r) ?xs" by simp
  then have "?xs = ?os @ ?cs" by (rule open_first)
  moreover have "sorted_wrt (\<lambda>r s. num_val (row_value s) \<le> num_val (row_value r)) ?os"
    using account_before_iff by (intro ord') force
  moreover have "sorted_wrt (\<lambda>r s. collate (ph_account_name r) (ph_account_name s) \<le> 0) ?cs"
  proof (rule ord')
    fix r s assume "\<not> is_open r" "\<not> is_open s" "account_sortable collate r" "account_sortable collate s"
      "\<not> account_before collate s r"
    then have "\<not> collate (ph_account_name s) (ph_account_name r) < 0" "consistent_collation collate"
      using account_before_iff [of collate s r] by (auto simp: account_sortable_def)
    then show "collate (ph_account_name r) (ph_account_name s) \<le> 0"
      unfolding consistent_collation_def by (metis linorder_not_less)
  qed
  moreover have "length (filter P ?xs) = length (filter P (scoped_rows i rs))" for P
    using m by (metis mset_filter size_mset)
  then have "length ?os = ia_open_count a" "length ?cs = ia_closed_count a"
    by (simp_all add: a_def aggregateInstrument_def Let_def open_rows_def closed_rows_def is_open_def)
  ultimately show ?thesis using m by (intro exI [of _ ?os] exI [of _ ?cs]) (auto simp: list_all_iff)
qed

theorem accounts_of_headline_witness:
  "\<exists>os cs. account_rows demo_collate ''i1'' (Some demo_closed) = os @ cs
    \<and> length os = 0 \<and> length cs = ia_closed_count (aggregateInstrument (scoped_rows ''i1'' demo_closed))"
proof -
  have "list_all (account_sortable demo_collate) (scoped_rows ''i1'' demo_closed)"
    using demo_collate_consistent
    by (simp add: scoped_rows_def demo_closed_def demo_holding_def account_sortable_def is_open_def)
  from accounts_of_headline [OF this refl] obtain os cs where
    "account_rows demo_collate ''i1'' (Some demo_closed) = os @ cs"
    "length os = ia_open_count (aggregateInstrument (scoped_rows ''i1'' demo_closed))"
    "length cs = ia_closed_count (aggregateInstrument (scoped_rows ''i1'' demo_closed))"
    by blast
  moreover have "ia_open_count (aggregateInstrument (scoped_rows ''i1'' demo_closed)) = 0"
    by (simp add: scoped_rows_def demo_closed_def demo_holding_def aggregateInstrument_def Let_def open_rows_def is_open_def)
  ultimately show ?thesis by fastforce
qed

end
