(* ===== verification/NumberText.thy ===== *)
theory NumberText
  imports Format
begin

text \<open>
  \<open>String\<close> and \<open>Number\<close> are inverse on the numbers printed without an exponent: the digits found by
  \<open>String\<close> denote a decimal that rounds to the number, and \<open>Number\<close> reads exactly that decimal.  The
  forms that send the text of a number rest on this.
\<close>

lemma pow10_add: "pow10 (a + b) = pow10 a * pow10 b"
  by (simp add: pow10_powi power_int_add)

lemma pow10_nat: "pow10 (int n) = 10 ^ n"
  by (simp add: pow10_def)

lemma pow10_less_iff: "pow10 a < pow10 b \<longleftrightarrow> a < b"
  by (metis linorder_not_le power_int_increasing pow10_powi power_int_strict_increasing one_less_numeral_iff
      semiring_norm(76) one_le_numeral)

lemma pow10_shift: "pow10 (int k) * pow2 (- int k) = of_int (5 ^ k)"
proof -
  have "(10 :: rat) ^ k = 5 ^ k * 2 ^ k" by (simp flip: power_mult_distrib)
  then show ?thesis by (simp add: pow10_nat pow2_def)
qed

lemma show_digits_pow10:
  assumes "0 < x"
  shows "pow10 (int (length (show_digits x)) - 1) \<le> of_int x" "of_int x < pow10 (int (length (show_digits x)))"
proof -
  obtain k where k: "length (show_digits x) = Suc k"
    by (metis length_greater_0_conv show_digits_nonempty gr0_implies_Suc)
  have "10 ^ k \<le> x" using show_digits_length [OF assms] k by simp
  then have "(of_int (10 ^ k) :: rat) \<le> of_int x" by (simp only: of_int_le_iff)
  then show "pow10 (int (length (show_digits x)) - 1) \<le> of_int x" by (simp add: k pow10_nat)
  have "x < 10 ^ Suc k"
    using digits_val_bound [OF show_digits_digits, of x] assms k by (simp add: digits_val_show)
  then have "(of_int x :: rat) < of_int (10 ^ Suc k)" by (simp only: of_int_less_iff)
  then show "of_int x < pow10 (int (length (show_digits x)))"
    using pow10_nat [of "Suc k"] by (simp add: k)
qed

lemma dec_exponent_bounds:
  assumes "0 < q"
  shows "pow10 (dec_exponent q - 1) \<le> q" "q < pow10 (dec_exponent q)"
proof -
  obtain a b where ab: "quotient_of q = (a, b)" by (cases "quotient_of q")
  then have b: "0 < b" by (rule quotient_of_denom_pos)
  have q: "q = of_int a / of_int b" using ab by (rule quotient_of_div)
  with assms b have a: "0 < a" by (simp add: zero_less_divide_iff)
  let ?la = "int (length (show_digits a))" and ?lb = "int (length (show_digits b))"
  have rb: "(0 :: rat) < of_int b" using b by simp
  have "of_int a < pow10 ?la" by (rule show_digits_pow10 [OF a])
  also have "\<dots> = pow10 (?la - ?lb + 1) * pow10 (?lb - 1)" by (simp flip: pow10_add)
  also have "\<dots> \<le> pow10 (?la - ?lb + 1) * of_int b"
    using show_digits_pow10(1) [OF b] by (simp add: mult_left_mono)
  finally have hi: "q < pow10 (?la - ?lb + 1)" using rb by (simp add: q divide_less_eq)
  have "pow10 (?la - ?lb - 1) * of_int b \<le> pow10 (?la - ?lb - 1) * pow10 ?lb"
    using show_digits_pow10(2) [OF b] by (intro mult_left_mono) (auto simp: less_imp_le)
  also have "\<dots> = pow10 (?la - 1)" by (simp flip: pow10_add)
  also have "\<dots> \<le> of_int a" by (rule show_digits_pow10 [OF a])
  finally have lo: "pow10 (?la - ?lb - 1) \<le> q" using rb by (simp add: q le_divide_eq)
  show "pow10 (dec_exponent q - 1) \<le> q" "q < pow10 (dec_exponent q)"
    using hi lo by (auto simp: dec_exponent_def ab Let_def)
qed

text \<open>A digit sequence found for \<open>q\<close>: of the stated length, and rounding to \<open>q\<close>.\<close>

definition found :: "rat \<Rightarrow> int \<Rightarrow> int \<times> nat \<times> int \<Rightarrow> bool" where
  "found q n r \<longleftrightarrow>
     (case r of (s, k, n') \<Rightarrow>
        1 \<le> k \<and> 10 ^ (k - 1) \<le> s \<and> s < 10 ^ k \<and> to_double (of_int s * pow10 (n' - int k)) = Num q \<and> n \<le> n' \<and> n' \<le> n + 1)"

lemma candidate_found:
  assumes "pow10 (n - 1) \<le> q" "q < pow10 n" "1 \<le> k" "c \<in> set (digit_candidates q n k)"
  shows "found q n (if c = 10 ^ k then (10 ^ (k - 1), k, n + 1) else (c, k, n))"
proof -
  let ?sc = "pow10 (n - int k)"
  have sc: "0 < ?sc" by simp
  obtain j where j: "k = Suc j" using assms(3) by (cases k) auto
  have "pow10 (int k) * ?sc = pow10 n" by (simp flip: pow10_add)
  then have "q < 10 ^ k * ?sc" using assms(2) by (simp add: pow10_nat)
  then have "q / ?sc < of_int (10 ^ k)" by (simp add: pos_divide_less_eq)
  then have hi: "\<lfloor>q / ?sc\<rfloor> < 10 ^ k" by (simp only: floor_less_iff)
  have "pow10 (int j) * ?sc = pow10 (n - 1)" by (simp add: j flip: pow10_add)
  then have "10 ^ j * ?sc \<le> q" using assms(1) by (simp add: pow10_nat)
  then have "of_int (10 ^ j) \<le> q / ?sc" by (simp add: pos_le_divide_eq)
  then have lo: "10 ^ j \<le> \<lfloor>q / ?sc\<rfloor>" by (simp only: le_floor_iff)
  have c: "c = \<lfloor>q / ?sc\<rfloor> \<or> c = \<lfloor>q / ?sc\<rfloor> + 1" "to_double (of_int c * ?sc) = Num q"
    using assms(4) by (auto simp: digit_candidates_def Let_def split: if_splits)
  show ?thesis
  proof (cases "c = 10 ^ k")
    case True
    have "pow10 (n + 1 - int k) = pow10 1 * ?sc" by (simp add: algebra_simps flip: pow10_add)
    then have "of_int (10 ^ j) * pow10 (n + 1 - int k) = of_int c * ?sc" by (simp add: True j) (simp add: pow10_def)
    then have "to_double (of_int (10 ^ j) * pow10 (n + 1 - int k)) = Num q" using c(2) by (simp only:)
    then show ?thesis by (simp add: found_def True) (simp add: j)
  next
    case False
    then show ?thesis using c lo hi by (auto simp: found_def j)
  qed
qed

lemma candidates_exact:
  assumes "to_double q = Num q" "0 < q" "q = of_int m * pow2 (- int j)" "int k = n + int j"
  shows "digit_candidates q n k \<noteq> []"
proof -
  let ?N = "m * 5 ^ j"
  have sc: "n - int k = - int j" using assms(4) by simp
  have one: "pow10 (int j) * pow10 (- int j) = 1" by (simp add: pow10_def)
  have "q = of_int m * (pow10 (int j) * pow2 (- int j)) * pow10 (- int j)"
    using one by (simp add: assms(3) mult.assoc mult.commute [of "pow2 (- int j)"])
  then have exact: "q = of_int ?N * pow10 (- int j)" by (simp only: pow10_shift of_int_mult)
  then have N: "q / pow10 (- int j) = of_int ?N" by (metis nonzero_eq_divide_eq pow10_pos less_irrefl)
  have "0 < m" using assms(2,3) pow2_pos [of "- int j"] by (simp add: zero_less_mult_iff)
  then have "0 < ?N" by simp
  then show ?thesis
    unfolding digit_candidates_def sc Let_def N using exact assms(1) by (simp del: of_int_mult)
qed

lemma shortest_found:
  assumes "pow10 (n - 1) \<le> q" "q < pow10 n" "1 \<le> k" "digit_candidates q n k0 \<noteq> []" "k \<le> k0" "k0 < k + fuel"
  shows "found q n (shortest_digits fuel k q n)"
  using assms(3-6)
proof (induction fuel arbitrary: k)
  case (Suc fuel)
  show ?case
  proof (cases "digit_candidates q n k")
    case Nil
    then have "k \<noteq> k0" using Suc.prems(2) by auto
    then show ?thesis using Suc Nil by simp
  next
    case (Cons c cs)
    then show ?thesis using candidate_found [OF assms(1,2) Suc.prems(1), of c] by simp
  qed
qed simp


lemma layout_plain:
  assumes ds: "list_all is_digit ds" "ds \<noteq> []" and n: "- 6 < n" "n \<le> 21"
  shows "str_to_number (layout_number ds n) = to_double (of_int (digits_val ds) * pow10 (n - int (length ds)))"
proof -
  let ?k = "length ds"
  have read_text: "str_to_number (dec_text i CHR ''.'' f) = to_double (of_int (digits_val (i @ f)) / 10 ^ length f)"
    if "i \<noteq> []" "list_all is_digit i" "list_all is_digit f" for i f
    using that by (simp add: str_to_number_text dec_value_text [of "''''" i "CHR ''.''" f, simplified] sign_val_def)
  consider "int ?k \<le> n" | "0 < n" "n < int ?k" | "n \<le> 0" by linarith
  then show ?thesis
  proof cases
    case 1
    then have "layout_number ds n = dec_text (ds @ replicate (nat (n - int ?k)) CHR ''0'') CHR ''.'' []"
      using n by (simp add: layout_number_def dec_text_def)
    moreover have "pow10 (n - int ?k) = 10 ^ nat (n - int ?k)" using 1 by (simp add: pow10_def)
    moreover have digits_zero: "list_all is_digit (ds @ replicate (nat (n - int ?k)) CHR ''0'')"
      using ds by (auto simp: list_all_iff)
    ultimately show ?thesis
      using ds read_text [of "ds @ replicate (nat (n - int ?k)) CHR ''0''" "[]"] by (simp add: digits_val_append)
  next
    case 2
    then have "layout_number ds n = dec_text (take (nat n) ds) CHR ''.'' (drop (nat n) ds)"
      using n by (simp add: layout_number_def dec_text_def Let_def)
    moreover have "pow10 (n - int ?k) = 1 / 10 ^ length (drop (nat n) ds)"
      using 2 pow10_neg [of "length (drop (nat n) ds)"] by (simp add: of_nat_diff)
    moreover have "list_all is_digit (take (nat n) ds)" "list_all is_digit (drop (nat n) ds)"
      using ds by (auto simp: list_all_iff dest: in_set_takeD in_set_dropD)
    ultimately show ?thesis
      using 2 ds read_text [of "take (nat n) ds" "drop (nat n) ds"] by simp
  next
    case 3
    let ?f = "replicate (nat (- n)) CHR ''0'' @ ds"
    have "\<not> int ?k \<le> n" using 3 ds(2) by (cases ds) auto
    then have "layout_number ds n = dec_text ''0'' CHR ''.'' ?f"
      using 3 n ds(2) by (simp add: layout_number_def dec_text_def Let_def)
    moreover have "pow10 (n - int ?k) = 1 / 10 ^ length ?f"
      using 3 pow10_neg [of "length ?f"] by (simp add: of_nat_diff)
    moreover have "digits_val (''0'' @ ?f) = digits_val ds"
      using digits_val_append [of "replicate (Suc (nat (- n))) CHR ''0''" ds] by (simp del: replicate_Suc) (simp add: digits_val_append)
    moreover have "list_all is_digit ?f" using ds by (auto simp: list_all_iff)
    ultimately show ?thesis
      using ds read_text [of "''0''" ?f] by simp
  qed
qed

lemma exponent_range:
  assumes "pow10 (- 6) \<le> q" "q < pow10 20" "pow10 (n - 1) \<le> q" "q < pow10 n"
  shows "- 6 < n" "n \<le> 20"
proof -
  have "pow10 (- 6) < pow10 n" using assms(1,4) by linarith
  then show "- 6 < n" by (simp only: pow10_less_iff)
  have "pow10 (n - 1) < pow10 20" using assms(2,3) by linarith
  then have "n - 1 < 20" by (simp only: pow10_less_iff)
  then show "n \<le> 20" by simp
qed

lemma search_succeeds:
  assumes "is_double q" "0 < q" "pow10 (n - 1) \<le> q" "q < pow10 n" "- 6 < n" "n \<le> 20"
  shows "found q n (shortest_digits 1400 1 q n)"
proof -
  obtain m where "q = of_int m * pow2 (- 1074)" using is_double_multiple [OF assms(1)] by blast
  then have m: "q = of_int m * pow2 (- int 1074)" by (simp only: of_nat_numeral)
  have k: "int (nat (n + 1074)) = n + int 1074" using assms(5) by simp
  have "digit_candidates q n (nat (n + 1074)) \<noteq> []"
    using assms(1) by (intro candidates_exact [OF _ assms(2) m k]) (simp add: is_double_def)
  then show ?thesis
    using assms(5,6) by (intro shortest_found [OF assms(3,4), where ?k0.0 = "nat (n + 1074)"]) auto
qed

theorem number_text_back:
  assumes "is_double q" "pow10 (- 6) \<le> q" "q < pow10 20"
  shows "str_to_number (number_to_str (Num q)) = Num q"
proof -
  have q: "0 < q" using assms(2) pow10_pos [of "- 6"] by linarith
  let ?n = "dec_exponent q"
  note bounds = dec_exponent_bounds [OF q]
  note n = exponent_range [OF assms(2,3) bounds]
  obtain s k n' where r: "shortest_digits 1400 1 q ?n = (s, k, n')" by (rule prod_cases3)
  then have f: "found q ?n (s, k, n')" using search_succeeds [OF assms(1) q bounds n] by simp
  then have k: "1 \<le> k" "10 ^ (k - 1) \<le> s" "s < 10 ^ k" by (auto simp: found_def)
  have "0 < (10 :: int) ^ (k - 1)" by simp
  then have s: "0 < s" using k(2) by linarith
  have "k - 1 < length (show_digits s)" "length (show_digits s) \<le> k" using show_digits_len [OF s] k by auto
  then have "length (show_digits s) = k" using k(1) by linarith
  moreover have "number_to_str (Num q) = layout_number (show_digits s) n'"
    using q r by (simp add: pos_to_str_def)
  moreover have "- 6 < n'" "n' \<le> 21" using f n by (auto simp: found_def)
  ultimately show ?thesis
    using f s layout_plain [OF show_digits_digits, of s n'] by (simp add: found_def digits_val_show)
qed

section \<open>The error of rounding\<close>

lemma round_pos_near:
  assumes "0 < q"
  shows "\<bar>round_pos q - q\<bar> \<le> pow2 (ulp_exp q) / 2"
proof -
  let ?u = "pow2 (ulp_exp q)"
  have scaled: "\<bar>x\<bar> * ?u = \<bar>x * ?u\<bar>" for x by (simp add: abs_mult)
  have "\<bar>of_int (round_even (q / ?u)) - q / ?u\<bar> * ?u \<le> 1 / 2 * ?u"
    by (intro mult_right_mono round_even_near) simp
  moreover have "\<bar>of_int (round_even (q / ?u)) - q / ?u\<bar> * ?u = \<bar>round_pos q - q\<bar>"
    by (simp add: round_pos_def scaled left_diff_distrib)
  ultimately show ?thesis by simp
qed

lemma to_double_near:
  assumes "0 < q" "q < pow2 e" "0 \<le> e" "e < 1023"
  obtains a where "to_double q = Num a" "0 \<le> a" "\<bar>a - q\<bar> \<le> pow2 (e - 54)"
proof
  have l: "rat_log2 q < e" using assms(1,2) by (rule rat_log2_less)
  then have u: "ulp_exp q \<le> e - 53" using assms(3) by (simp add: ulp_exp_def)
  have nn: "0 \<le> round_pos q" using assms(1) by (simp add: round_pos_nonneg)
  have "round_pos q \<le> pow2 e" using u assms(2) by (intro round_pos_le_pow2) auto
  also have "\<dots> < pow2 1024" using assms(4) by simp
  finally have "rat_log2 (round_pos q) < 1024" if "0 < round_pos q" using that by (intro rat_log2_less)
  then show "to_double q = Num (round_pos q)" using assms(1) nn by (cases "round_pos q = 0") (auto simp: to_double_def Let_def)
  show "0 \<le> round_pos q" by (rule nn)
  have "pow2 (ulp_exp q) / 2 \<le> pow2 (e - 53) / 2" using u by simp
  moreover have "pow2 (e - 53) = 2 * pow2 (e - 54)" using pow2_Suc [of "e - 54"] by simp
  ultimately show "\<bar>round_pos q - q\<bar> \<le> pow2 (e - 54)" using round_pos_near [OF assms(1)] by simp
qed

text \<open>A percentage divided by a hundred and multiplied again is off by far less than a half.\<close>

lemma percent_near:
  assumes "1 \<le> n" "n \<le> 99"
  obtains a b where "js_div (Num (of_int n)) (Num 100) = Num a" "is_double a" "pow10 (- 6) \<le> a" "a < pow10 20"
    "js_mul (Num a) (Num 100) = Num b" "0 \<le> b" "\<bar>b - of_int n\<bar> < 1 / 2"
proof -
  let ?q = "of_int n / 100 :: rat"
  have q: "1 / 100 \<le> ?q" "?q < 1" using assms by simp_all
  obtain a where a: "to_double ?q = Num a" "0 \<le> a" "\<bar>a - ?q\<bar> \<le> pow2 (- 54)"
  proof (rule to_double_near [of ?q 0])
    show "?q < pow2 0" using q by (simp add: pow2_def)
  qed (use q in auto)
  have tiny: "pow2 (- 54) \<le> 1 / 1000" by (simp add: pow2_def)
  then have b: "9 / 1000 \<le> a" "a \<le> 1001 / 1000" using a(3) q by (simp_all add: abs_le_iff)
  obtain b where b': "to_double (a * 100) = Num b" "0 \<le> b" "\<bar>b - a * 100\<bar> \<le> pow2 (7 - 54)"
  proof (rule to_double_near [of "a * 100" 7])
    show "a * 100 < pow2 7" using b by (simp add: pow2_def)
  qed (use b in auto)
  have "\<bar>b - of_int n\<bar> \<le> \<bar>b - a * 100\<bar> + 100 * \<bar>a - ?q\<bar>"
    using abs_triangle_ineq [of "b - a * 100" "a * 100 - of_int n"] by (simp add: abs_if split: if_splits)
  also have "\<dots> \<le> pow2 (7 - 54) + 100 * pow2 (- 54)" by (intro add_mono mult_left_mono a(3) b'(3)) simp
  also have "\<dots> < 1 / 2" by (simp add: pow2_def)
  finally have near: "\<bar>b - of_int n\<bar> < 1 / 2" .
  show thesis
  proof (rule that)
    show "js_div (Num (of_int n)) (Num 100) = Num a" using a(1) assms by (simp add: js_div_def)
    show "is_double a" using wf_to_double [of ?q] a(1) by simp
    show "pow10 (- 6) \<le> a" "a < pow10 20" using b by (simp_all add: pow10_def)
    show "js_mul (Num a) (Num 100) = Num b" using b b' by (simp add: js_mul_def)
  qed (use b' near in auto)
qed


end
