(* ===== verification/InstrumentForms.thy ===== *)
theory InstrumentForms
  imports InstrumentPage FormKit NumberText
begin

text \<open>
  The two forms of the instrument page with the histories they are shown above, and the tabs they are
  in: manual prices (\<open>forms/ManualNavForm.tsx\<close>, \<open>NavHistoryTab.tsx\<close>) and yield rates
  (\<open>forms/ApyConfigForm.tsx\<close>, \<open>ApyConfigTab.tsx\<close>), \<open>InstrumentTabs.tsx\<close> and
  \<open>OverviewTab.tsx\<close>.  Both forms use the form library in the same way, which is modelled once.
\<close>

section \<open>A form with one request\<close>

datatype page_effect = PageOk jstring | PageError jstring | PageInvalidate "jstring list"

record 'v form =
  fm_values :: 'v
  fm_errors :: "field_error list"
  fm_submitted :: bool
  fm_pending :: "'v option"
  fm_posted :: "api_call list"
  fm_effects :: "page_effect list"

definition form_open :: "'v \<Rightarrow> 'v form" where
  "form_open v = \<lparr>fm_values = v, fm_errors = [], fm_submitted = False, fm_pending = None, fm_posted = [], fm_effects = []\<rparr>"

text \<open>Before the first submission a change is not checked; after it, the changed field is.\<close>

definition form_put :: "('v \<Rightarrow> field_error list + 'v) \<Rightarrow> jstring \<Rightarrow> ('v \<Rightarrow> 'v) \<Rightarrow> 'v form \<Rightarrow> 'v form" where
  "form_put schema name change st =
     (let v = change (fm_values st);
          news = (case schema v of Inl errs \<Rightarrow> filter (\<lambda>e. fst e = name) errs | Inr _ \<Rightarrow> [])
      in st\<lparr>fm_values := v,
           fm_errors := (if fm_submitted st then filter (\<lambda>e. fst e \<noteq> name) (fm_errors st) @ news else fm_errors st)\<rparr>)"

definition form_submit :: "('v \<Rightarrow> field_error list + 'v) \<Rightarrow> ('v \<Rightarrow> api_call) \<Rightarrow> 'v form \<Rightarrow> 'v form" where
  "form_submit schema call st =
     (case schema (fm_values st) of
        Inl errs \<Rightarrow> st\<lparr>fm_errors := errs, fm_submitted := True\<rparr>
      | Inr v \<Rightarrow> st\<lparr>fm_errors := [], fm_submitted := True, fm_pending := Some v, fm_posted := fm_posted st @ [call v]\<rparr>)"

text \<open>\<open>saved\<close> are the effects of a success, after which the form is reset; \<open>failed\<close> those of a failure with the errors it sets.\<close>

definition form_settles ::
  "('v \<Rightarrow> page_effect list) \<Rightarrow> (thrown \<Rightarrow> page_effect list \<times> field_error list) \<Rightarrow> 'v \<Rightarrow> thrown + unit \<Rightarrow> 'v form \<Rightarrow> 'v form" where
  "form_settles saved failed defaults r st =
     (case (r, fm_pending st) of
        (_, None) \<Rightarrow> st
      | (Inr _, Some v) \<Rightarrow>
          st\<lparr>fm_values := defaults, fm_errors := [], fm_submitted := False, fm_pending := None, fm_effects := fm_effects st @ saved v\<rparr>
      | (Inl err, Some v) \<Rightarrow>
          st\<lparr>fm_errors := filter (\<lambda>e. fst e \<notin> fst ` set (snd (failed err))) (fm_errors st) @ snd (failed err),
             fm_pending := None, fm_effects := fm_effects st @ fst (failed err)\<rparr>)"

text \<open>The button is disabled while a request is under way, which also keeps Enter from submitting.\<close>

inductive page_form_step ::
  "('v \<Rightarrow> field_error list + 'v) \<Rightarrow> ('v \<Rightarrow> api_call) \<Rightarrow> ('v \<Rightarrow> page_effect list) \<Rightarrow> (thrown \<Rightarrow> page_effect list \<times> field_error list)
    \<Rightarrow> 'v form \<Rightarrow> 'v form \<Rightarrow> bool"
  for schema call saved failed where
  form_type: "page_form_step schema call saved failed st (form_put schema name change st)"
| form_press: "fm_pending st = None \<Longrightarrow> page_form_step schema call saved failed st (form_submit schema call st)"
| form_answer: "page_form_step schema call saved failed st (form_settles saved failed defaults r st)"

inductive page_form_reach ::
  "('v \<Rightarrow> field_error list + 'v) \<Rightarrow> ('v \<Rightarrow> api_call) \<Rightarrow> ('v \<Rightarrow> page_effect list) \<Rightarrow> (thrown \<Rightarrow> page_effect list \<times> field_error list)
    \<Rightarrow> 'v form \<Rightarrow> bool"
  for schema call saved failed where
  form_start: "page_form_reach schema call saved failed (form_open v)"
| form_next: "page_form_reach schema call saved failed st \<Longrightarrow> page_form_step schema call saved failed st st' \<Longrightarrow>
    page_form_reach schema call saved failed st'"

text \<open>What a schema promises about the requests: whatever it lets through is a good request.\<close>

locale sound_form =
  fixes schema :: "'v \<Rightarrow> field_error list + 'v"
    and call :: "'v \<Rightarrow> api_call"
    and good :: "api_call \<Rightarrow> bool"
  assumes sound: "schema v = Inr w \<Longrightarrow> good (call w)"
begin

lemma posts_good: "page_form_reach schema call saved failed st \<Longrightarrow> list_all good (fm_posted st)"
proof (induction rule: page_form_reach.induct)
  case (form_next st st')
  from form_next.hyps(2) show ?case
  proof cases
    case form_press
    then show ?thesis using form_next.IH sound by (auto simp: form_submit_def split: sum.splits)
  next
    case (form_answer defaults r)
    then show ?thesis using form_next.IH by (auto simp: form_settles_def split: sum.splits option.splits)
  qed (use form_next.IH in \<open>simp add: form_put_def Let_def\<close>)
qed (simp add: form_open_def)

text \<open>A request that is under way is the last one sent, and no other is sent before its answer.\<close>

lemma pending_last: "page_form_reach schema call saved failed st \<Longrightarrow> fm_pending st = Some v \<Longrightarrow> \<exists>cs. fm_posted st = cs @ [call v]"
proof (induction arbitrary: v rule: page_form_reach.induct)
  case (form_next st st')
  from form_next.hyps(2) show ?case
  proof cases
    case form_press
    then show ?thesis using form_next by (auto simp: form_submit_def split: sum.splits)
  next
    case (form_answer defaults r)
    then show ?thesis using form_next by (auto simp: form_settles_def split: sum.splits option.splits)
  qed (use form_next in \<open>simp add: form_put_def Let_def\<close>)
qed (simp add: form_open_def)

end

section \<open>Manual prices\<close>

record NavValues =
  nv_date :: jstring
  nv_price :: jstring
  nv_note :: jstring

definition nav_defaults :: "jstring \<Rightarrow> NavValues" where
  "nav_defaults today = \<lparr>nv_date = today, nv_price = [], nv_note = []\<rparr>"

text \<open>\<open>too_long\<close> is the library's message for a limit.\<close>

definition nav_schema :: "(nat \<Rightarrow> jstring) \<Rightarrow> NavValues \<Rightarrow> field_error list + NavValues" where
  "nav_schema too_long v =
     (let price = decimalField True (Some ''Use a positive number, e.g. 13.00'') (nv_price v);
          errs = check ''date'' ''YYYY-MM-DD'' (date_shape (nv_date v))
            @ (case price of Inl m \<Rightarrow> [(''price'', m)] | Inr _ \<Rightarrow> [])
            @ check ''note'' (too_long 200) (js_length (nv_note v) \<le> 200)
      in case price of Inr p \<Rightarrow> if errs = [] then Inr (v\<lparr>nv_price := p\<rparr>) else Inl errs | Inl _ \<Rightarrow> Inl errs)"

definition nav_call :: "jstring \<Rightarrow> currency \<Rightarrow> NavValues \<Rightarrow> api_call" where
  "nav_call instrumentId base v =
     \<lparr>call_method = ''POST'', call_path = ''/api/prices/manual'',
      call_body = JObj [(''instrument_id'', JStr instrumentId), (''date'', JStr (nv_date v)), (''price'', JStr (nv_price v)),
        (''currency'', JStr (currency_text base)), (''note'', str_or_null (nv_note v))]\<rparr>"

definition portfolio_invalid :: "page_effect list" where
  "portfolio_invalid = map (\<lambda>k. PageInvalidate [k]) PORTFOLIO_CACHE_KEYS"

definition nav_saved :: "jstring \<Rightarrow> jstring \<Rightarrow> NavValues \<Rightarrow> page_effect list" where
  "nav_saved instrumentId instrumentName v =
     [PageOk (''NAV override saved for '' @ instrumentName @ '' on '' @ nv_date v @ ''.''),
      PageInvalidate [''nav-history'', instrumentId]] @ portfolio_invalid"

definition nav_failed :: "thrown \<Rightarrow> page_effect list \<times> field_error list" where
  "nav_failed err = ([PageError (''Could not save NAV override. '' @ thrown_text err)], [])"

definition ManualNavForm :: "currency \<Rightarrow> NavValues form \<Rightarrow> unit ui list" where
  "ManualNavForm base st =
     [Input ''Date'' (nv_date (fm_values st)) False False] @ field_alert (fm_errors st) ''date''
     @ [Input (''NAV ('' @ currency_text base @ '')'') (nv_price (fm_values st)) False False] @ field_alert (fm_errors st) ''price''
     @ [Input ''Note (optional)'' (nv_note (fm_values st)) False False] @ field_alert (fm_errors st) ''note''
     @ [Control (if fm_pending st \<noteq> None then ''Saving...'' else ''Save NAV override'') (fm_pending st \<noteq> None) ()]"

definition nav_history_url :: "jstring \<Rightarrow> jstring" where
  "nav_history_url instrumentId = ''/api/prices/'' @ instrumentId @ ''/history?source=manual&limit=50&order=desc''"

definition nav_delete_path :: "jstring \<Rightarrow> jstring" where
  "nav_delete_path quoteId = ''/api/prices/manual/'' @ quoteId"

definition nav_delete_effects :: "jstring \<Rightarrow> thrown + unit \<Rightarrow> page_effect list" where
  "nav_delete_effects instrumentId r =
     (case r of
        Inr _ \<Rightarrow> [PageOk ''NAV override deleted.'', PageInvalidate [''nav-history'', instrumentId], PageInvalidate [''holdings'']]
      | Inl err \<Rightarrow> [PageError (''Could not delete. '' @ thrown_text err)])"

record NavQuote =
  nq_id :: jstring
  nq_date :: jstring
  nq_price :: jstring
  nq_currency :: currency
  nq_fetched_at :: jstring

text \<open>\<open>saved_at\<close> is \<open>toLocaleString("en-GB")\<close> of an instant; an event is the id to delete.\<close>

definition nav_row :: "(jstring \<Rightarrow> jstring) \<Rightarrow> NavQuote \<Rightarrow> jstring ui list" where
  "nav_row saved_at q =
     [Txt (nq_date q), Txt (formatMoney (SStr (nq_price q)) (nq_currency q)), Txt (saved_at (nq_fetched_at q)),
      Control (''Delete NAV override for '' @ nq_date q) False (nq_id q)]"

definition nav_table :: "(jstring \<Rightarrow> jstring) \<Rightarrow> bool \<Rightarrow> NavQuote list option \<Rightarrow> jstring ui list" where
  "nav_table saved_at isLoading history =
     (if isLoading then [Busy]
      else case nullish history [] of
        [] \<Rightarrow> [Txt ''No manual NAV overrides yet. Add one when FT.com scraping fails for this fund.'']
      | qs \<Rightarrow> concat (map (nav_row saved_at) (take 5 qs)))"

text \<open>The tab: the form of the instrument once it is known, and the history below.\<close>

definition NavHistoryTab ::
  "(jstring \<Rightarrow> jstring) \<Rightarrow> currency option \<Rightarrow> NavValues form \<Rightarrow> bool \<Rightarrow> NavQuote list option \<Rightarrow> unit ui list \<times> jstring ui list" where
  "NavHistoryTab saved_at base st isLoading history =
     (case base of
        None \<Rightarrow> ([Busy], [])
      | Some b \<Rightarrow>
          ([Heading ''Add NAV override'', Txt ''Use this when FT.com scraping fails or to enter a fund FT does not cover.''] @ ManualNavForm b st,
           [Heading ''History''] @ nav_table saved_at isLoading history))"

section \<open>Yield rates\<close>

record ApyValues =
  av_account_id :: jstring
  av_apy_rate_pct :: jstring
  av_effective_from :: jstring

definition apy_defaults :: "jstring option \<Rightarrow> jstring \<Rightarrow> ApyValues" where
  "apy_defaults accountId today = \<lparr>av_account_id = nullish accountId [], av_apy_rate_pct = [], av_effective_from = today\<rparr>"

definition apy_in_range :: "jstring \<Rightarrow> bool" where
  "apy_in_range s \<longleftrightarrow> js_lt (Num 0) (str_to_number s) \<and> js_le (str_to_number s) (Num 100)"

definition apy_rate_field :: "jstring \<Rightarrow> jstring + jstring" where
  "apy_rate_field s =
     (case decimalField False (Some ''Enter a positive percentage, e.g. 2.37'') s of
        Inl m \<Rightarrow> Inl m
      | Inr t \<Rightarrow> if apy_in_range t then Inr t else Inl ''Between 0 (exclusive) and 100 (inclusive)'')"

definition apy_schema :: "ApyValues \<Rightarrow> field_error list + ApyValues" where
  "apy_schema v =
     (let rate = apy_rate_field (av_apy_rate_pct v);
          errs = check ''account_id'' ''Select an account'' (av_account_id v \<noteq> [])
            @ (case rate of Inl m \<Rightarrow> [(''apy_rate_pct'', m)] | Inr _ \<Rightarrow> [])
            @ check ''effective_from'' ''YYYY-MM-DD'' (date_shape (av_effective_from v))
      in case rate of Inr t \<Rightarrow> if errs = [] then Inr (v\<lparr>av_apy_rate_pct := t\<rparr>) else Inl errs | Inl _ \<Rightarrow> Inl errs)"

definition apy_call :: "jstring \<Rightarrow> ApyValues \<Rightarrow> api_call" where
  "apy_call instrumentId v =
     \<lparr>call_method = ''POST'', call_path = ''/api/apy-config'',
      call_body = JObj [(''account_id'', JStr (av_account_id v)), (''instrument_id'', JStr instrumentId),
        (''apy_rate'', JStr (number_to_str (js_div (str_to_number (av_apy_rate_pct v)) (Num 100)))),
        (''effective_from'', JStr (av_effective_from v)), (''compounding'', JStr ''daily_simple'')]\<rparr>"

definition apy_saved :: "jstring \<Rightarrow> ApyValues \<Rightarrow> page_effect list" where
  "apy_saved instrumentId v = [PageOk ''APY rate saved.'', PageInvalidate [''apy-config'', instrumentId]]"

definition apy_failed :: "thrown \<Rightarrow> page_effect list \<times> field_error list" where
  "apy_failed err =
     (let msg = nullish (error_message err) ''Unknown error''
      in ([PageError (''Could not save APY rate. '' @ msg)], [(''apy_rate_pct'', msg)]))"

definition ApyConfigForm :: "Account list \<Rightarrow> ApyValues form \<Rightarrow> unit ui list" where
  "ApyConfigForm accounts st =
     [Choice ''Account'' (av_account_id (fm_values st)) (account_options accounts) False] @ field_alert (fm_errors st) ''account_id''
     @ [Input ''APY (%)'' (av_apy_rate_pct (fm_values st)) False False,
        Txt ''Enter as percentage, e.g. 4.5 for 4.5% APY (max 100).''] @ field_alert (fm_errors st) ''apy_rate_pct''
     @ [Input ''Effective from'' (av_effective_from (fm_values st)) False False] @ field_alert (fm_errors st) ''effective_from''
     @ [Control (if fm_pending st \<noteq> None then ''Saving...'' else ''Save APY rate'') (fm_pending st \<noteq> None) ()]"

record ApyConfig =
  ac_id :: jstring
  ac_account_id :: jstring
  ac_apy_rate :: jstring
  ac_effective_from :: jstring
  ac_effective_to :: "jstring option"

text \<open>The row a link to an account scrolls to and highlights for a moment.\<close>

definition apy_pulse :: "jstring option \<Rightarrow> ApyConfig list option \<Rightarrow> jstring option" where
  "apy_pulse accountId configs =
     (case Option.bind accountId or_null of
        None \<Rightarrow> None
      | Some a \<Rightarrow> map_option ac_id (find (\<lambda>c. ac_account_id c = a) (nullish configs [])))"

definition apy_delete_path :: "jstring \<Rightarrow> jstring" where
  "apy_delete_path configId = ''/api/apy-config/'' @ configId"

definition apy_delete_effects :: "jstring \<Rightarrow> thrown + unit \<Rightarrow> page_effect list" where
  "apy_delete_effects instrumentId r =
     (case r of
        Inr _ \<Rightarrow> [PageOk ''APY config deleted.'', PageInvalidate [''apy-config'', instrumentId]]
      | Inl err \<Rightarrow>
          [PageError (if (case err of ApiErr n _ \<Rightarrow> n = 409 | _ \<Rightarrow> False)
             then ''APY rate is referenced by yield transactions. Close it via a new effective_from instead.''
             else ''Could not delete. '' @ thrown_text err)])"

definition accountName :: "Account list \<Rightarrow> jstring \<Rightarrow> jstring" where
  "accountName accounts i = (case find (\<lambda>a. acc_id a = i) accounts of Some a \<Rightarrow> acc_name a | None \<Rightarrow> i)"

definition apy_row :: "Account list \<Rightarrow> ApyConfig \<Rightarrow> jstring ui list" where
  "apy_row accounts c =
     [Txt (accountName accounts (ac_account_id c)), Txt (js_toFixed 4 (js_mul (str_to_number (ac_apy_rate c)) (Num 100)) @ ''%''),
      Txt (ac_effective_from c), Txt (nullish (ac_effective_to c) em_dash),
      Control (''Delete APY config from '' @ ac_effective_from c) False (ac_id c)]"

definition ApyConfigTab :: "Account list \<Rightarrow> ApyValues form \<Rightarrow> bool \<Rightarrow> ApyConfig list option \<Rightarrow> unit ui list \<times> jstring ui list" where
  "ApyConfigTab accounts st isLoading configs =
     ([Heading ''Add APY rate'', Txt (''Declare the annual yield rate the broker pays on this position. A new entry ''
         @ ''auto-closes the previous rate (effective_to set to the day before).'')] @ ApyConfigForm accounts st,
      Heading ''History'' #
        (if isLoading then [Busy]
         else case nullish configs [] of
           [] \<Rightarrow> [Txt ''No APY rates configured yet for this instrument.'']
         | cs \<Rightarrow> concat (map (apy_row accounts) cs)))"

section \<open>The tabs\<close>

datatype instrument_tab = OverviewOf | NavHistoryOf | ApyConfigOf

definition tab_flags :: "InstrumentResponse option \<Rightarrow> bool \<times> bool" where
  "tab_flags data =
     (case data of None \<Rightarrow> (False, False)
      | Some i \<Rightarrow> (canHaveManualNav (ir_price_source i), canHaveApy (ir_instrument_type i)))"

definition requestedTab :: "InstrumentResponse option \<Rightarrow> jstring \<Rightarrow> instrument_tab" where
  "requestedTab data query =
     (let (showNav, showApy) = tab_flags data; tabParam = search_param ''tab'' query
      in if tabParam = Some ''apy'' \<and> showApy then ApyConfigOf
         else if tabParam = Some ''nav-history'' \<and> showNav then NavHistoryOf
         else OverviewOf)"

text \<open>The tabs offered, none when there is only one, and the one that is open first.\<close>

definition InstrumentTabs :: "InstrumentResponse option \<Rightarrow> jstring \<Rightarrow> (instrument_tab \<times> jstring) list \<times> instrument_tab" where
  "InstrumentTabs data query =
     (let (showNav, showApy) = tab_flags data
      in if \<not> showNav \<and> \<not> showApy then ([], OverviewOf)
         else ([(OverviewOf, ''Overview'')] @ (if showNav then [(NavHistoryOf, ''NAV history'')] else [])
                @ (if showApy then [(ApyConfigOf, ''APY config'')] else []), requestedTab data query))"

section \<open>The overview\<close>

definition OVERVIEW_MANUAL_SOURCES :: "jstring list" where
  "OVERVIEW_MANUAL_SOURCES = [''ft'', ''manual'']"

text \<open>A tag attached to several holdings counts once.\<close>

definition tagCount :: "holding list option \<Rightarrow> nat" where
  "tagCount holdings = length (remdups (concat (map (\<lambda>h. map tag_id (ho_tags h)) (nullish holdings []))))"

record overview_header =
  oh_title :: jstring
  oh_badge :: "jstring option"
  oh_tags_label :: jstring
  oh_tags_badge :: "jstring option"
  oh_backfill_hidden :: bool
  oh_meta :: "jstring list"

definition overview_header_of :: "InstrumentResponse \<Rightarrow> jstring option \<Rightarrow> holding list option \<Rightarrow> overview_header" where
  "overview_header_of i backfillStatus holdings =
     (let n = tagCount holdings; digits = show_digits (int n)
      in \<lparr>oh_title = ir_name i, oh_badge = backfill_badge backfillStatus,
          oh_tags_label = (if 0 < n then ''Edit tags ('' @ digits @ '' attached)'' else ''Edit tags''),
          oh_tags_badge = (if 0 < n then Some digits else None),
          oh_backfill_hidden = (ir_price_source i \<in> set OVERVIEW_MANUAL_SOURCES),
          oh_meta = [ir_symbol i, instrumentTypeLabel (ir_instrument_type i), ir_base_currency i,
              priceSourceLabel (ir_price_source i), ''Risk: '' @ ir_risk_level i]
            @ (case Option.bind (ir_ticker_override i) or_null of Some t \<Rightarrow> [''Ticker: '' @ t] | None \<Rightarrow> [])\<rparr>)"

datatype overview_query = OverviewLoading | OverviewFailed | OverviewData "InstrumentResponse option"

datatype overview_view =
  OverviewBusy | OverviewMissing jstring | OverviewPage overview_header kpi_block accounts_view

definition OverviewTab ::
  "(jstring \<Rightarrow> jstring \<Rightarrow> int) \<Rightarrow> jstring \<Rightarrow> currency \<Rightarrow> overview_query \<Rightarrow> jstring option \<Rightarrow> holding list option
    \<Rightarrow> perf_answer \<Rightarrow> Quote option \<Rightarrow> overview_view" where
  "OverviewTab collate instrumentId cur q backfillStatus holdings rows quote =
     (case q of
        OverviewLoading \<Rightarrow> OverviewBusy
      | OverviewData (Some i) \<Rightarrow>
          OverviewPage (overview_header_of i backfillStatus holdings)
            (InstrumentKpiBlock instrumentId (ir_instrument_type i) (ir_display_decimals i) cur rows quote)
            (InstrumentAccountsTable collate instrumentId cur rows)
      | _ \<Rightarrow> OverviewMissing ''Could not load instrument.'')"

section \<open>Properties\<close>

definition nav_acceptable :: "NavValues \<Rightarrow> bool" where
  "nav_acceptable v \<longleftrightarrow> date_shape (nv_date v) \<and> js_length (nv_note v) \<le> 200
     \<and> decimal_shape (nv_price v) \<and> js_lt (Num 0) (to_double (dec_value (nv_price v)))"

definition nav_sends :: "jstring \<Rightarrow> currency \<Rightarrow> NavValues \<Rightarrow> api_call \<Rightarrow> bool" where
  "nav_sends instrumentId base v c \<longleftrightarrow>
     call_method c = ''POST'' \<and> call_path c = ''/api/prices/manual''
     \<and> member ''instrument_id'' (call_body c) = Some (JStr instrumentId)
     \<and> member ''date'' (call_body c) = Some (JStr (nv_date v))
     \<and> member ''currency'' (call_body c) = Some (JStr (currency_text base))
     \<and> member ''note'' (call_body c) = Some (if nv_note v = [] then JNull else JStr (nv_note v))
     \<and> (\<exists>p. member ''price'' (call_body c) = Some (JStr p) \<and> canonical_decimal p
          \<and> dec_value p = dec_value (nv_price v) \<and> 0 < dec_value p)"

definition apy_acceptable :: "ApyValues \<Rightarrow> bool" where
  "apy_acceptable v \<longleftrightarrow> av_account_id v \<noteq> [] \<and> date_shape (av_effective_from v) \<and> decimal_shape (av_apy_rate_pct v)
     \<and> js_lt (Num 0) (to_double (dec_value (av_apy_rate_pct v))) \<and> js_le (to_double (dec_value (av_apy_rate_pct v))) (Num 100)"

definition apy_sends :: "jstring \<Rightarrow> ApyValues \<Rightarrow> api_call \<Rightarrow> bool" where
  "apy_sends instrumentId v c \<longleftrightarrow>
     call_method c = ''POST'' \<and> call_path c = ''/api/apy-config''
     \<and> member ''account_id'' (call_body c) = Some (JStr (av_account_id v))
     \<and> member ''instrument_id'' (call_body c) = Some (JStr instrumentId)
     \<and> member ''effective_from'' (call_body c) = Some (JStr (av_effective_from v))
     \<and> (\<exists>p r. to_double (dec_value (av_apy_rate_pct v)) = Num p \<and> to_double (p / 100) = Num r \<and> 0 \<le> r \<and> r \<le> 1
          \<and> member ''apy_rate'' (call_body c) = Some (JStr (number_to_str (Num r)))
          \<and> (pow10 (- 6) \<le> r \<longrightarrow> str_to_number (number_to_str (Num r)) = Num r))"

text \<open>The rate a percentage is sent as lies between zero and one, and is read back as the number it is.\<close>

lemma to_double_one: "to_double 1 = Num 1"
  by code_simp

lemma apy_rate_sent:
  assumes "js_lt (Num 0) (to_double v)" "js_le (to_double v) (Num 100)"
  obtains p r where "to_double v = Num p" "to_double (p / 100) = Num r" "0 \<le> r" "r \<le> 1"
    "js_div (to_double v) (Num 100) = Num r" "pow10 (- 6) \<le> r \<longrightarrow> str_to_number (number_to_str (Num r)) = Num r"
proof -
  obtain p where p: "to_double v = Num p" "0 < p" "p \<le> 100"
    using assms by (cases "to_double v") (auto simp: js_le_def js_eq_def)
  then have div: "js_div (to_double v) (Num 100) = to_double (p / 100)" by (simp add: js_div_def)
  have low: "\<not> js_lt (to_double (p / 100)) (Num 0)"
    using to_double_mono [of 0 "p / 100"] p by (simp add: to_double_def)
  have high: "\<not> js_lt (Num 1) (to_double (p / 100))"
    using to_double_mono [of "p / 100" 1] p to_double_one by simp
  have "p / 100 < pow2 7" using p by (simp add: pow2_def)
  then obtain r where r: "to_double (p / 100) = Num r" "0 \<le> r"
    using to_double_near [of "p / 100" 7] p(2) by auto
  have "is_double r" using wf_to_double [of "p / 100"] r(1) by simp
  moreover have "r \<le> 1" using high r by simp
  then have "r < pow10 20" by (simp add: pow10_def)
  ultimately have "pow10 (- 6) \<le> r \<longrightarrow> str_to_number (number_to_str (Num r)) = Num r"
    using number_text_back by blast
  then show thesis using that [OF p(1) r] \<open>r \<le> 1\<close> div r(1) by simp
qed

lemma positive_field:
  "decimalField True msg s = Inr t \<longleftrightarrow>
     decimal_shape s \<and> js_lt (Num 0) (to_double (dec_value s)) \<and> t = normalizeDecimalInput s"
  "decimalField False msg s = Inr t \<longleftrightarrow> decimal_shape s \<and> t = normalizeDecimalInput s"
  by (auto simp: decimalField_def str_to_number_normalized Let_def)

lemma nav_schema_accepts:
  "nav_schema too_long v = Inr w \<longleftrightarrow> nav_acceptable v \<and> w = v\<lparr>nv_price := normalizeDecimalInput (nv_price v)\<rparr>"
proof (cases "decimalField True (Some ''Use a positive number, e.g. 13.00'') (nv_price v)")
  case (Inl m)
  then have "\<not> nav_acceptable v"
    using positive_field(1) [of "Some ''Use a positive number, e.g. 13.00''" "nv_price v" "normalizeDecimalInput (nv_price v)"]
    by (auto simp: nav_acceptable_def)
  then show ?thesis using Inl by (simp add: nav_schema_def Let_def)
next
  case (Inr t)
  then show ?thesis
    using positive_field(1) [of "Some ''Use a positive number, e.g. 13.00''" "nv_price v" t]
    by (auto simp: nav_schema_def nav_acceptable_def check_def Let_def)
qed

lemma apy_field:
  "apy_rate_field s = Inr t \<longleftrightarrow> decimal_shape s \<and> t = normalizeDecimalInput s
      \<and> js_lt (Num 0) (to_double (dec_value s)) \<and> js_le (to_double (dec_value s)) (Num 100)"
  by (cases "decimal_shape s")
    (auto simp: apy_rate_field_def decimalField_def apy_in_range_def str_to_number_normalized Let_def)

lemma apy_schema_accepts:
  "apy_schema v = Inr w \<longleftrightarrow> apy_acceptable v \<and> w = v\<lparr>av_apy_rate_pct := normalizeDecimalInput (av_apy_rate_pct v)\<rparr>"
proof (cases "apy_rate_field (av_apy_rate_pct v)")
  case (Inl m)
  then have "\<not> apy_acceptable v"
    using apy_field [of "av_apy_rate_pct v" "normalizeDecimalInput (av_apy_rate_pct v)"] by (simp add: apy_acceptable_def)
  then show ?thesis using Inl by (simp add: apy_schema_def Let_def)
next
  case (Inr t)
  note field = Inr [unfolded apy_field]
  show ?thesis
  proof (cases "av_account_id v \<noteq> [] \<and> date_shape (av_effective_from v)")
    case True
    then show ?thesis using Inr field by (auto simp: apy_schema_def apy_acceptable_def check_def Let_def)
  next
    case False
    then show ?thesis using Inr by (auto simp: apy_schema_def apy_acceptable_def check_def Let_def)
  qed
qed

text \<open>A schema refuses exactly what is not acceptable.\<close>

lemma schemas_refuse:
  "isl (nav_schema too_long v) \<longleftrightarrow> \<not> nav_acceptable v" "isl (apy_schema u) \<longleftrightarrow> \<not> apy_acceptable u"
  using nav_schema_accepts [of too_long v] apy_schema_accepts [of u]
  by (metis obj_sumE sum.disc(1,2))+

lemma nav_call_sends:
  assumes "nav_acceptable v"
  shows "nav_sends instrumentId base v (nav_call instrumentId base (v\<lparr>nv_price := normalizeDecimalInput (nv_price v)\<rparr>))"
proof -
  have "decimalField True None (nv_price v) = Inr (normalizeDecimalInput (nv_price v))"
    using assms by (simp add: nav_acceptable_def positive_field)
  from decimalField_Inr(2-4) [OF this] show ?thesis
    by (simp add: nav_sends_def nav_call_def member_def str_or_null_def)
qed

lemma apy_call_sends:
  assumes "apy_acceptable v"
  shows "apy_sends instrumentId v (apy_call instrumentId (v\<lparr>av_apy_rate_pct := normalizeDecimalInput (av_apy_rate_pct v)\<rparr>))"
proof -
  have v: "decimal_shape (av_apy_rate_pct v)" "js_lt (Num 0) (to_double (dec_value (av_apy_rate_pct v)))"
    "js_le (to_double (dec_value (av_apy_rate_pct v))) (Num 100)"
    using assms by (simp_all add: apy_acceptable_def)
  obtain p r where "to_double (dec_value (av_apy_rate_pct v)) = Num p" "to_double (p / 100) = Num r" "0 \<le> r" "r \<le> 1"
    "js_div (to_double (dec_value (av_apy_rate_pct v))) (Num 100) = Num r"
    "pow10 (- 6) \<le> r \<longrightarrow> str_to_number (number_to_str (Num r)) = Num r"
    by (rule apy_rate_sent [OF v(2,3)])
  then show ?thesis
    using v(1) by (simp add: apy_sends_def apy_call_def member_def str_to_number_normalized del: number_to_str.simps)
qed

text \<open>The forms as instances: what goes out was typed, acceptable, and sent as typed.\<close>

interpretation nav_form: sound_form "nav_schema too_long" "nav_call instrumentId base"
  "\<lambda>c. \<exists>v. nav_acceptable v \<and> nav_sends instrumentId base v c"
  for too_long instrumentId base
  by unfold_locales (auto simp: nav_schema_accepts nav_call_sends)

interpretation apy_form: sound_form apy_schema "apy_call instrumentId"
  "\<lambda>c. \<exists>v. apy_acceptable v \<and> apy_sends instrumentId v c" for instrumentId
  by unfold_locales (auto simp: apy_schema_accepts apy_call_sends)

text \<open>
  C33: Both forms of the instrument page send checked values only, and send what was typed.  Whatever is
  typed and however often the forms are sent, every manual price posted is the positive decimal typed, in
  canonical form and in the currency of the instrument, with a date and a short note; and every yield
  rate names an account and is the percentage typed, above 0 and at most 100, divided by a hundred, so
  a fraction between 0 and 1, in a text that reads back as that fraction from a millionth up.  A press of
  the button sends one request when the values are acceptable and none otherwise.
\<close>
theorem instrument_posts_valid:
  assumes "page_form_reach (nav_schema too_long) (nav_call instrumentId base) saved failed n"
    and "page_form_reach apy_schema (apy_call instrumentId) saved' failed' a"
  shows "list_all (\<lambda>c. \<exists>v. nav_acceptable v \<and> nav_sends instrumentId base v c) (fm_posted n)
    \<and> list_all (\<lambda>c. \<exists>v. apy_acceptable v \<and> apy_sends instrumentId v c) (fm_posted a)
    \<and> (let posted = fm_posted (form_submit (nav_schema too_long) (nav_call instrumentId base) n)
       in if nav_acceptable (fm_values n) then \<exists>c. posted = fm_posted n @ [c] \<and> nav_sends instrumentId base (fm_values n) c
          else posted = fm_posted n)
    \<and> (let posted = fm_posted (form_submit apy_schema (apy_call instrumentId) a)
       in if apy_acceptable (fm_values a) then \<exists>c. posted = fm_posted a @ [c] \<and> apy_sends instrumentId (fm_values a) c
          else posted = fm_posted a)
    \<and> (case fm_pending n of Some v \<Rightarrow> last (fm_posted n) = nav_call instrumentId base v | None \<Rightarrow> True)
    \<and> (case fm_pending a of Some v \<Rightarrow> last (fm_posted a) = apy_call instrumentId v | None \<Rightarrow> True)"
proof -
  have "case nav_schema too_long (fm_values n) of Inl _ \<Rightarrow> \<not> nav_acceptable (fm_values n)
      | Inr w \<Rightarrow> nav_acceptable (fm_values n) \<and> nav_sends instrumentId base (fm_values n) (nav_call instrumentId base w)"
    using nav_schema_accepts [of too_long "fm_values n"] nav_call_sends schemas_refuse(1) [of too_long "fm_values n"]
    by (auto split: sum.split)
  moreover have "case apy_schema (fm_values a) of Inl _ \<Rightarrow> \<not> apy_acceptable (fm_values a)
      | Inr w \<Rightarrow> apy_acceptable (fm_values a) \<and> apy_sends instrumentId (fm_values a) (apy_call instrumentId w)"
    using apy_schema_accepts [of "fm_values a"] apy_call_sends schemas_refuse(2) [of "fm_values a"]
    by (auto split: sum.split)
  ultimately show ?thesis
    using nav_form.posts_good [OF assms(1)] apy_form.posts_good [OF assms(2)]
      nav_form.pending_last [OF assms(1)] apy_form.pending_last [OF assms(2)]
    by (auto simp: form_submit_def Let_def split: option.split sum.splits)
qed

definition demo_nav :: NavValues where
  "demo_nav = \<lparr>nv_date = ''2024-01-02'', nv_price = ''13,50'', nv_note = []\<rparr>"

definition demo_apy :: ApyValues where
  "demo_apy = \<lparr>av_account_id = ''a'', av_apy_rate_pct = ''2.5'', av_effective_from = ''2024-01-02''\<rparr>"

definition demo_limit :: "nat \<Rightarrow> jstring" where
  "demo_limit n = ''Too long''"

theorem instrument_posts_valid_witness:
  "(\<exists>c. fm_posted (form_submit apy_schema (apy_call ''i'') (form_open demo_apy)) = [c] \<and> apy_sends ''i'' demo_apy c)
   \<and> (\<exists>c. fm_posted (form_submit (nav_schema demo_limit) (nav_call ''i'' EUR) (form_open demo_nav)) = [c] \<and> nav_sends ''i'' EUR demo_nav c)"
proof -
  have "nav_acceptable demo_nav" "apy_acceptable demo_apy" by code_simp+
  then show ?thesis
    using instrument_posts_valid [OF form_start [of "nav_schema demo_limit" _ "nav_saved ''i'' ''I''" nav_failed demo_nav]
        form_start [of apy_schema "apy_call ''i''" "apy_saved ''i''" apy_failed demo_apy], of EUR]
    by (simp add: Let_def form_open_def)
qed

text \<open>
  Deleting a manual price leaves the returns as they were: the query of the performance rows, which
  the headline and the breakdown show, is asked for again after a price was saved but not after one
  was deleted.
\<close>
lemma nav_delete_stale:
  "PageInvalidate [''perf''] \<in> set (nav_saved i name v)" "PageInvalidate [''perf''] \<notin> set (nav_delete_effects i r)"
  by (auto simp: nav_saved_def portfolio_invalid_def PORTFOLIO_CACHE_KEYS_def nav_delete_effects_def split: sum.split)

text \<open>Below a millionth the price per unit is the value of a millionth, not of a unit.\<close>

lemma per_unit_floored:
  assumes "ia_total_quantity a = Num q" "0 < q" "js_lt (Num q) PER_UNIT_DIVISOR_FLOOR"
  shows "per_unit a v = js_div v PER_UNIT_DIVISOR_FLOOR"
proof -
  have "PER_UNIT_DIVISOR_FLOOR \<noteq> NaN" by code_simp
  then show ?thesis using assms by (simp add: per_unit_def js_max_def)
qed

end
