(* ===== verification/Concentration.thy ===== *)
theory Concentration
  imports InstrumentForms NetWorth NumberText
begin

text \<open>
  The alert on holdings that take too large a share (\<open>concentration/ConcentrationBanner.tsx\<close> with its
  provider and \<open>MuteButton.tsx\<close>), and what the settings page holds about it: the threshold
  (\<open>settings/ConcentrationSettings.tsx\<close>), the silenced holdings (\<open>MutedHoldingsList.tsx\<close>) and the hint
  on risk levels (\<open>UnclassifiedHint.tsx\<close>).
\<close>

section \<open>The banner\<close>

record ConcentrationOffender =
  of_instrument_id :: jstring
  of_symbol :: jstring
  of_percent :: jstring

record ConcentrationResponse =
  cr_threshold :: jstring
  cr_offenders :: "ConcentrationOffender list"

text \<open>The state the provider keeps until the page is loaded again.\<close>

record banner =
  bn_expanded :: bool
  bn_dismissedKey :: "jstring option"

definition banner_first :: banner where
  "banner_first = \<lparr>bn_expanded = False, bn_dismissedKey = None\<rparr>"

definition times_hundred :: "nat \<Rightarrow> jstring \<Rightarrow> jstring" where
  "times_hundred k s = js_toFixed k (js_mul (str_to_number s) (Num 100))"

definition currentKey :: "ConcentrationOffender list \<Rightarrow> jstring" where
  "currentKey offenders = js_join '','' (sort_by js_str_lt (map of_instrument_id offenders))"

datatype banner_event = Review | DismissAlert jstring | Mute jstring jstring

definition banner_do :: "banner_event \<Rightarrow> banner \<Rightarrow> banner" where
  "banner_do e st =
     (case e of
        Review \<Rightarrow> st\<lparr>bn_expanded := \<not> bn_expanded st\<rparr>
      | DismissAlert k \<Rightarrow> st\<lparr>bn_dismissedKey := Some k\<rparr>
      | Mute _ _ \<Rightarrow> st)"

definition MuteButton :: "jstring set \<Rightarrow> jstring \<Rightarrow> jstring \<Rightarrow> banner_event ui" where
  "MuteButton muting i s = Control (''Mute '' @ s) (i \<in> muting) (Mute i s)"

definition mute_path :: "jstring \<Rightarrow> jstring" where
  "mute_path i = ''/api/concentration/mute/'' @ encodeURIComponent i"

definition mutes_invalid :: "page_effect list" where
  "mutes_invalid = [PageInvalidate [''concentration''], PageInvalidate [''concentration-mutes'']]"

definition mute_effects :: "jstring \<Rightarrow> thrown + unit \<Rightarrow> page_effect list" where
  "mute_effects s r =
     (case r of
        Inr _ \<Rightarrow> PageOk (''Concentration alert silenced for '' @ s @ ''. Manage muted holdings in Settings.'') # mutes_invalid
      | Inl err \<Rightarrow> [PageError (''Could not silence alert for '' @ s @ ''. '' @ thrown_text err)])"

definition single_banner :: "jstring set \<Rightarrow> jstring \<Rightarrow> jstring \<Rightarrow> ConcentrationOffender \<Rightarrow> banner_event ui list" where
  "single_banner muting key thresholdN o1 =
     [Txt (of_symbol o1 @ '' exceeds your '' @ thresholdN @ ''% concentration threshold ('' @ times_hundred 1 (of_percent o1) @ ''%).''),
      MuteButton muting (of_instrument_id o1) (of_symbol o1),
      Control ''Dismiss banner'' False (DismissAlert key)]"

definition offender_row :: "jstring set \<Rightarrow> ConcentrationOffender \<Rightarrow> banner_event ui list" where
  "offender_row muting o1 =
     [Txt (of_symbol o1), Txt (times_hundred 1 (of_percent o1) @ ''%''), MuteButton muting (of_instrument_id o1) (of_symbol o1)]"

definition multi_banner ::
  "jstring set \<Rightarrow> bool \<Rightarrow> jstring \<Rightarrow> jstring \<Rightarrow> ConcentrationOffender list \<Rightarrow> banner_event ui list" where
  "multi_banner muting expanded key thresholdN offenders =
     [Txt (show_int (int (length offenders)) @ '' holdings exceed your '' @ thresholdN @ ''% concentration threshold.''),
      Toggle ''Review'' expanded False Review, Control ''Dismiss banner'' False (DismissAlert key)]
     @ only_if expanded (concat (map (offender_row muting) offenders) @ [Anchor ''Manage threshold from Settings.'' ''/settings''])"

text \<open>\<open>muting\<close> are the instruments whose button waits for an answer.\<close>

definition ConcentrationBanner :: "jstring set \<Rightarrow> ConcentrationResponse option \<Rightarrow> banner \<Rightarrow> banner_event ui list" where
  "ConcentrationBanner muting data st =
     (case data of
        None \<Rightarrow> []
      | Some r \<Rightarrow>
          let offenders = cr_offenders r; thresholdN = times_hundred 0 (cr_threshold r); key = currentKey offenders
          in if offenders = [] \<or> bn_dismissedKey st = Some key then []
             else case offenders of
                    [o1] \<Rightarrow> single_banner muting key thresholdN o1
                  | _ \<Rightarrow> multi_banner muting (bn_expanded st) key thresholdN offenders)"

section \<open>The threshold\<close>

text \<open>\<open>Math.round\<close>: to the nearest whole number, halves upwards.\<close>

definition js_round :: "jsnum \<Rightarrow> jsnum" where
  "js_round x =
     (case x of
        Num q \<Rightarrow> (let n = round_half_up q in if n = 0 \<and> q < 0 then NegZero else Num (of_int n))
      | _ \<Rightarrow> x)"

text \<open>The form checks a number: what is no finite number, no whole number, or out of range is refused.\<close>

definition threshold_schema :: "jsnum \<Rightarrow> field_error list + jsnum" where
  "threshold_schema v =
     (let errs =
        (if \<not> is_finite v then [(''threshold'', ''Must be a number'')]
         else if of_int \<lfloor>num_val v\<rfloor> \<noteq> num_val v \<or> 2 ^ 53 \<le> \<bar>num_val v\<bar> then [(''threshold'', ''Must be a whole number'')]
         else if num_val v < 1 then [(''threshold'', ''Must be at least 1'')]
         else if 99 < num_val v then [(''threshold'', ''Must be at most 99'')]
         else [])
      in if errs = [] then Inr v else Inl errs)"

definition stored_threshold :: "jsnum \<Rightarrow> jstring" where
  "stored_threshold v = number_to_str (js_div v (Num 100))"

definition threshold_call :: "jsnum \<Rightarrow> api_call" where
  "threshold_call v =
     \<lparr>call_method = ''PUT'', call_path = ''/api/settings/concentration_threshold'',
      call_body = JObj [(''value'', JStr (stored_threshold v))]\<rparr>"

definition loaded_threshold :: "jstring \<Rightarrow> jsnum" where
  "loaded_threshold s = js_round (js_mul (str_to_number s) (Num 100))"

text \<open>The form starts with 25; every new answer of the settings query that has a threshold resets it.\<close>

definition threshold_first :: "jsnum form" where
  "threshold_first = form_open (Num 25)"

definition settings_arrive :: "jstring option \<Rightarrow> jsnum form \<Rightarrow> jsnum form" where
  "settings_arrive s st =
     (case Option.bind s or_null of
        None \<Rightarrow> st
      | Some t \<Rightarrow> st\<lparr>fm_values := loaded_threshold t, fm_errors := [], fm_submitted := False\<rparr>)"

definition threshold_settles :: "thrown + unit \<Rightarrow> jsnum form \<Rightarrow> jsnum form" where
  "threshold_settles r st =
     (case fm_pending st of
        None \<Rightarrow> st
      | Some v \<Rightarrow>
          st\<lparr>fm_pending := None,
             fm_effects := fm_effects st
               @ (case r of
                    Inr _ \<Rightarrow> [PageOk (''Threshold updated to '' @ number_to_str v @ ''%.''),
                      PageInvalidate [''concentration''], PageInvalidate [''settings'']]
                  | Inl err \<Rightarrow> [PageError (''Could not save threshold. '' @ thrown_text err @ ''.'')])\<rparr>)"

datatype threshold_event = SaveThreshold

definition ConcentrationSettings :: "int \<Rightarrow> jsnum form \<Rightarrow> threshold_event ui list" where
  "ConcentrationSettings muteCount st =
     [Heading ''Concentration alert'',
      Txt (''We'' @ [apostrophe] @ ''ll warn you on the dashboard when any holding exceeds this share of your net worth.''),
      Input ''Threshold (%)'' (if fm_values st = NaN then [] else number_to_str (fm_values st)) False False]
     @ field_alert (fm_errors st) ''threshold''
     @ [Control ''Save threshold'' (fm_pending st \<noteq> None) SaveThreshold]
     @ only_if (0 < muteCount)
         [Txt (''Currently silencing alerts for '' @ show_int muteCount @ '' '' @ (if muteCount = 1 then ''holding'' else ''holdings'')
            @ '' '' @ em_dash @ '' see Muted holdings below.'')]"

inductive threshold_step :: "jsnum form \<Rightarrow> jsnum form \<Rightarrow> bool" where
  threshold_type: "threshold_step st (form_put threshold_schema ''threshold'' (\<lambda>_. v) st)"
| threshold_load: "threshold_step st (settings_arrive s st)"
| threshold_save: "SaveThreshold \<in> set (on_offer (ConcentrationSettings muteCount st)) \<Longrightarrow>
    threshold_step st (form_submit threshold_schema threshold_call st)"
| threshold_answer: "threshold_step st (threshold_settles r st)"

inductive threshold_reach :: "jsnum form \<Rightarrow> bool" where
  threshold_start: "threshold_reach threshold_first"
| threshold_next: "threshold_reach st \<Longrightarrow> threshold_step st st' \<Longrightarrow> threshold_reach st'"

section \<open>Silenced holdings and risk levels\<close>

record MuteRow =
  mr_instrument_id :: jstring
  mr_symbol :: jstring
  mr_name :: jstring

definition unmute_effects :: "jstring \<Rightarrow> thrown + unit \<Rightarrow> page_effect list" where
  "unmute_effects s r =
     (case r of
        Inr _ \<Rightarrow> PageOk (s @ '' unmuted. Concentration alert may reappear if it still exceeds the threshold.'') # mutes_invalid
      | Inl err \<Rightarrow> [PageError (''Could not unmute '' @ s @ ''. '' @ thrown_text err @ ''.'')])"

text \<open>An event is the path of the \<open>DELETE\<close> request.\<close>

definition UnmuteButton :: "jstring set \<Rightarrow> MuteRow \<Rightarrow> jstring ui" where
  "UnmuteButton unmuting m = Control ''Unmute'' (mr_instrument_id m \<in> unmuting) (mute_path (mr_instrument_id m))"

definition MutedHoldingsList :: "jstring set \<Rightarrow> bool \<Rightarrow> MuteRow list option \<Rightarrow> jstring ui list" where
  "MutedHoldingsList unmuting isLoading data =
     Heading ''Muted holdings''
     # (if isLoading then [Txt (''Loading'' @ ellipsis)]
        else case nullish data [] of
          [] \<Rightarrow> [Txt ''No holdings are currently muted.'', Txt ''Mute a holding from the concentration banner on your dashboard.'']
        | ms \<Rightarrow> concat (map (\<lambda>m. [Txt (mr_symbol m), Txt (mr_name m), Txt ''muted'', UnmuteButton unmuting m]) ms))"

definition mediumCount :: "jstring option list option \<Rightarrow> int" where
  "mediumCount risk_levels = int (length (filter (\<lambda>l. l = Some ''Medium'') (nullish risk_levels [])))"

definition UnclassifiedHint :: "bool \<Rightarrow> jstring option list option \<Rightarrow> unit ui list" where
  "UnclassifiedHint isLoading risk_levels =
     Heading ''Risk classification''
     # (if isLoading then [Txt (''Loading'' @ ellipsis)]
        else if 0 < mediumCount risk_levels
        then [Alert (show_int (mediumCount risk_levels) @ '' instruments still need a risk classification.''),
              Txt (''Classified instruments give the Risk pie a meaningful breakdown. Open an instrument'' @ [apostrophe]
                @ ''s detail page to set its risk level (High / Medium / Low / Liquid).'')]
        else [Txt ''All instruments are classified.''])"
section \<open>Properties\<close>

lemma split_join: "xs \<noteq> [] \<Longrightarrow> \<forall>x \<in> set xs. c \<notin> set x \<Longrightarrow> js_split c (js_join [c] xs) = xs"
proof (induction xs rule: induct_list012)
  case (3 x y zs)
  then show ?case by (simp add: js_split_append)
qed (simp_all add: js_split_none)

lemma currentKey_iff:
  assumes "os \<noteq> []" "os' \<noteq> []" "\<forall>o1 \<in> set os \<union> set os'. CHR '','' \<notin> set (of_instrument_id o1)"
  shows "currentKey os = currentKey os' \<longleftrightarrow> mset (map of_instrument_id os) = mset (map of_instrument_id os')"
proof
  let ?s = "\<lambda>xs. sort_by js_str_lt (map of_instrument_id xs)"
  have ne: "?s os \<noteq> []" "?s os' \<noteq> []"
    using assms(1,2) length_sort_by [of js_str_lt "map of_instrument_id os"] length_sort_by [of js_str_lt "map of_instrument_id os'"]
    by (metis length_0_conv length_map)+
  assume "currentKey os = currentKey os'"
  then have "js_split CHR '','' (js_join '','' (?s os)) = js_split CHR '','' (js_join '','' (?s os'))"
    by (simp add: currentKey_def)
  then have "?s os = ?s os'" using assms(3) ne by (simp add: split_join)
  then show "mset (map of_instrument_id os) = mset (map of_instrument_id os')" by (metis mset_sort_by)
next
  assume "mset (map of_instrument_id os) = mset (map of_instrument_id os')"
  then have "sort_by js_str_lt (map of_instrument_id os) = sort_by js_str_lt (map of_instrument_id os')" by (rule sorted_ids_unique)
  then show "currentKey os = currentKey os'" by (simp only: currentKey_def)
qed

lemma offers_single: "on_offer (single_banner muting key t o1) = on_offer [MuteButton muting (of_instrument_id o1) (of_symbol o1)] @ [DismissAlert key]"
  by (simp add: single_banner_def ui_simps)

lemma offers_row: "DismissAlert k \<notin> set (on_offer (offender_row muting o1))"
  by (simp add: offender_row_def MuteButton_def ui_simps)

lemma offers_rows: "DismissAlert k \<notin> set (on_offer (concat (map (offender_row muting) os)))"
  by (induction os) (simp_all add: offers_row ui_simps)

lemma offers_dismiss:
  "DismissAlert k \<in> set (on_offer (ConcentrationBanner muting (Some r) st)) \<longleftrightarrow>
     cr_offenders r \<noteq> [] \<and> bn_dismissedKey st \<noteq> Some k \<and> k = currentKey (cr_offenders r)"
  using offers_rows offers_row
  by (cases "cr_offenders r"; cases "tl (cr_offenders r)")
    (auto simp: ConcentrationBanner_def Let_def offers_single multi_banner_def MuteButton_def ui_simps)

lemma banner_hidden:
  "ConcentrationBanner muting (Some r) st = [] \<longleftrightarrow> cr_offenders r = [] \<or> bn_dismissedKey st = Some (currentKey (cr_offenders r))"
  by (cases "cr_offenders r"; cases "tl (cr_offenders r)")
    (auto simp: ConcentrationBanner_def Let_def single_banner_def multi_banner_def)

text \<open>
  C34: Dismissing the alert silences exactly the holdings it was about.  Afterwards the banner stays
  hidden, in whatever order the holdings come, whatever their shares and the threshold have become,
  as long as the same ones are over the threshold, and it is back as soon as one joins or leaves.
\<close>
theorem banner_dismissal:
  assumes "DismissAlert k \<in> set (on_offer (ConcentrationBanner muting (Some r) st))"
    and "cr_offenders r' \<noteq> []"
    and "\<forall>o1 \<in> set (cr_offenders r) \<union> set (cr_offenders r'). CHR '','' \<notin> set (of_instrument_id o1)"
  shows "ConcentrationBanner muting' (Some r') (banner_do (DismissAlert k) st) = []
    \<longleftrightarrow> mset (map of_instrument_id (cr_offenders r')) = mset (map of_instrument_id (cr_offenders r))"
  using assms currentKey_iff [of "cr_offenders r" "cr_offenders r'"]
  by (auto simp: offers_dismiss banner_hidden banner_do_def)

definition offender :: "jstring \<Rightarrow> ConcentrationOffender" where
  "offender i = \<lparr>of_instrument_id = i, of_symbol = i, of_percent = ''0.3''\<rparr>"

theorem banner_dismissal_witness:
  "(let st = banner_do (DismissAlert ''a,b'') banner_first
    in ConcentrationBanner {} (Some \<lparr>cr_threshold = ''0.3'', cr_offenders = [offender ''a'', offender ''b'']\<rparr>) st = []
       \<and> ConcentrationBanner {} (Some \<lparr>cr_threshold = ''0.25'', cr_offenders = [offender ''b'']\<rparr>) st \<noteq> [])"
proof -
  let ?r = "\<lparr>cr_threshold = ''0.25'', cr_offenders = [offender ''b'', offender ''a'']\<rparr>"
  have "currentKey (cr_offenders ?r) = ''a,b''" by code_simp
  then have "DismissAlert ''a,b'' \<in> set (on_offer (ConcentrationBanner {} (Some ?r) banner_first))"
    by (simp add: offers_dismiss banner_first_def)
  from banner_dismissal [OF this, of "\<lparr>cr_threshold = ''0.3'', cr_offenders = [offender ''a'', offender ''b'']\<rparr>" "{}"]
    banner_dismissal [OF this, of "\<lparr>cr_threshold = ''0.25'', cr_offenders = [offender ''b'']\<rparr>" "{}"]
  show ?thesis by (simp add: offender_def Let_def)
qed

text \<open>The number on screen, and what a saved one becomes.\<close>

lemma toFixed_whole:
  assumes "0 \<le> b" "b < 10 ^ 21" "round_half_up b = n" "0 \<le> n"
  shows "js_toFixed 0 (Num b) = show_int n"
proof -
  have "pad_left (Suc 0) (show_digits n) = show_digits n" by (cases "show_digits n") (auto simp: pad_left_def)
  then show ?thesis using assms by (simp add: js_toFixed_def to_fixed_def dec_text_def show_int_def)
qed

lemma threshold_texts:
  assumes "1 \<le> n" "n \<le> 99"
  shows "loaded_threshold (stored_threshold (Num (of_int n))) = Num (of_int n)"
    "times_hundred 0 (stored_threshold (Num (of_int n))) = show_int n" "stored_threshold (Num (of_int n)) \<noteq> []"
    "str_to_number (stored_threshold (Num (of_int n))) = to_double (of_int n / 100)"
proof -
  obtain a b where ab: "js_div (Num (of_int n)) (Num 100) = Num a" "is_double a" "pow10 (- 6) \<le> a" "a < pow10 20"
    "js_mul (Num a) (Num 100) = Num b" "0 \<le> b" "\<bar>b - of_int n\<bar> < 1 / 2"
    using percent_near [OF assms] by blast
  have read: "str_to_number (stored_threshold (Num (of_int n))) = Num a"
    using number_text_back [OF ab(2-4)] ab(1) by (simp add: stored_threshold_def)
  then show "str_to_number (stored_threshold (Num (of_int n))) = to_double (of_int n / 100)"
    using ab(1) assms by (simp add: js_div_def)
  have r: "round_half_up b = n"
    unfolding round_half_up_def using ab(7) by (intro floor_unique) (auto simp: abs_if split: if_splits)
  show "loaded_threshold (stored_threshold (Num (of_int n))) = Num (of_int n)"
    using ab assms r by (simp add: loaded_threshold_def read js_round_def Let_def)
  have "(of_int n :: rat) \<le> 99" using assms(2) by simp
  then have "b < 100" using ab(7) by (simp add: abs_if split: if_splits)
  then have "b < 10 ^ 21" by simp
  then show "times_hundred 0 (stored_threshold (Num (of_int n))) = show_int n"
    using ab assms r by (simp add: times_hundred_def read toFixed_whole)
  have "str_to_number [] = Num 0" by code_simp
  moreover have "a \<noteq> 0" using ab(3) pow10_pos [of "- 6"] by linarith
  ultimately show "stored_threshold (Num (of_int n)) \<noteq> []" using read by (metis jsnum.inject)
qed

definition whole_percent :: "api_call \<Rightarrow> bool" where
  "whole_percent c \<longleftrightarrow> (\<exists>n. 1 \<le> n \<and> n \<le> 99 \<and> c = threshold_call (Num (of_int n)))"

lemma threshold_accepts:
  "threshold_schema v = Inr w \<longleftrightarrow> w = v \<and> (\<exists>n. 1 \<le> n \<and> n \<le> 99 \<and> v = Num (of_int n))"
proof
  assume s: "threshold_schema v = Inr w"
  then have "w = v" and v: "is_finite v" "of_int \<lfloor>num_val v\<rfloor> = num_val v" "1 \<le> num_val v" "num_val v \<le> 99"
    by (auto simp: threshold_schema_def Let_def split: if_splits)
  then have n: "v = Num (of_int \<lfloor>num_val v\<rfloor>)" by (cases v) auto
  have "1 \<le> \<lfloor>num_val v\<rfloor>" "\<lfloor>num_val v\<rfloor> \<le> 99" using v by (simp_all add: le_floor_iff)
  then show "w = v \<and> (\<exists>n. 1 \<le> n \<and> n \<le> 99 \<and> v = Num (of_int n))" using n \<open>w = v\<close> by metis
next
  assume "w = v \<and> (\<exists>n. 1 \<le> n \<and> n \<le> 99 \<and> v = Num (of_int n))"
  then obtain n :: int where n: "w = v" "1 \<le> n" "n \<le> 99" "v = Num (of_int n)" by blast
  moreover have "(1 :: rat) \<le> of_int n" "(of_int n :: rat) \<le> 99" using n(2,3) by simp_all
  ultimately show "threshold_schema v = Inr w" by (simp add: threshold_schema_def)
qed

lemma threshold_valid: "threshold_schema v = Inr w \<Longrightarrow> whole_percent (threshold_call w)"
  by (auto simp: threshold_accepts whole_percent_def)

interpretation threshold_form: sound_form threshold_schema threshold_call whole_percent
  by unfold_locales (rule threshold_valid)

lemma threshold_posts: "threshold_reach st \<Longrightarrow> list_all whole_percent (fm_posted st)"
proof (induction rule: threshold_reach.induct)
  case (threshold_next st st')
  from threshold_next.hyps(2) show ?case
  proof cases
    case threshold_save
    then show ?thesis using threshold_next.IH threshold_form.sound by (auto simp: form_submit_def split: sum.splits)
  qed (use threshold_next.IH in \<open>auto simp: form_put_def settings_arrive_def threshold_settles_def Let_def split: option.splits\<close>)
qed (simp add: threshold_first_def form_open_def)

lemma threshold_stays:
  assumes "1 \<le> n" "n \<le> 99"
  shows "\<exists>s. threshold_call (Num (of_int n)) =
      \<lparr>call_method = ''PUT'', call_path = ''/api/settings/concentration_threshold'', call_body = JObj [(''value'', JStr s)]\<rparr>
    \<and> str_to_number s = to_double (of_int n / 100)
    \<and> fm_values (settings_arrive (Some s) st) = Num (of_int n) \<and> times_hundred 0 s = show_int n"
  using threshold_texts [OF assms]
  by (intro exI [of _ "stored_threshold (Num (of_int n))"])
    (cases "stored_threshold (Num (of_int n))"; simp add: threshold_call_def settings_arrive_def or_null_def)

text \<open>
  C35: A threshold is saved as the percentage typed, and stays that percentage.  Pressing the button
  sends nothing unless the field holds a whole number from 1 to 99; then it sends one text, the hundredth
  of that very number in binary floating point, and when that text comes back from the back end the form
  holds the number that was typed and the banner shows it.  Whatever was sent before was such a text.
\<close>
theorem threshold_roundtrip:
  assumes "threshold_reach st"
  shows "(let st' = form_submit threshold_schema threshold_call st;
             sends = (\<lambda>n c s. c = \<lparr>call_method = ''PUT'', call_path = ''/api/settings/concentration_threshold'',
                  call_body = JObj [(''value'', JStr s)]\<rparr>
               \<and> str_to_number s = to_double (of_int n / 100)
               \<and> fm_values (settings_arrive (Some s) later) = Num (of_int n) \<and> times_hundred 0 s = show_int n)
         in (\<forall>n. 1 \<le> n \<and> n \<le> 99 \<and> fm_values st = Num (of_int n) \<longrightarrow>
              (\<exists>c s. fm_posted st' = fm_posted st @ [c] \<and> sends n c s))
            \<and> ((\<nexists>n. 1 \<le> n \<and> n \<le> 99 \<and> fm_values st = Num (of_int n)) \<longrightarrow> fm_posted st' = fm_posted st \<and> fm_errors st' \<noteq> [])
            \<and> list_all (\<lambda>c. \<exists>n s. 1 \<le> n \<and> n \<le> 99 \<and> sends n c s) (fm_posted st))"
proof -
  let ?sends = "\<lambda>n c s. c = \<lparr>call_method = ''PUT'', call_path = ''/api/settings/concentration_threshold'',
        call_body = JObj [(''value'', JStr s)]\<rparr> \<and> str_to_number s = to_double (of_int n / 100)
      \<and> fm_values (settings_arrive (Some s) later) = Num (of_int n) \<and> times_hundred 0 s = show_int n"
  have posts: "list_all (\<lambda>c. \<exists>n. 1 \<le> n \<and> n \<le> 99 \<and> c = threshold_call (Num (of_int n))) (fm_posted st)"
    using threshold_posts [OF assms] by (simp add: whole_percent_def [abs_def])
  have good: "fm_posted (form_submit threshold_schema threshold_call st) = fm_posted st @ [threshold_call (fm_values st)]"
    if "1 \<le> n" "n \<le> 99" "fm_values st = Num (of_int n)" for n
    using threshold_accepts [of "fm_values st" "fm_values st"] that by (auto simp: form_submit_def)
  have bad: "fm_posted (form_submit threshold_schema threshold_call st) = fm_posted st
      \<and> fm_errors (form_submit threshold_schema threshold_call st) \<noteq> []"
    if "\<nexists>n. 1 \<le> n \<and> n \<le> 99 \<and> fm_values st = Num (of_int n)"
  proof (cases "threshold_schema (fm_values st)")
    case (Inl errs)
    then have "errs \<noteq> []" by (auto simp: threshold_schema_def Let_def split: if_splits)
    then show ?thesis using Inl by (simp add: form_submit_def)
  qed (use that threshold_accepts in blast)
  show ?thesis
    unfolding Let_def
  proof (intro conjI allI impI)
    fix n assume n: "1 \<le> n \<and> n \<le> 99 \<and> fm_values st = Num (of_int n)"
    then obtain s where s: "?sends n (threshold_call (Num (of_int n))) s"
      using threshold_stays [of n later] by blast
    show "\<exists>c s. fm_posted (form_submit threshold_schema threshold_call st) = fm_posted st @ [c] \<and> ?sends n c s"
      using good [of n] n s by (intro exI [of _ "threshold_call (Num (of_int n))"] exI [of _ s]) simp
  next
    have "\<exists>n s. 1 \<le> n \<and> n \<le> 99 \<and> ?sends n c s" if "\<exists>n. 1 \<le> n \<and> n \<le> 99 \<and> c = threshold_call (Num (of_int n))" for c
      using that threshold_stays [of _ later] by blast
    then show "list_all (\<lambda>c. \<exists>n s. 1 \<le> n \<and> n \<le> 99 \<and> ?sends n c s) (fm_posted st)"
      using posts unfolding list_all_iff by blast
  qed (use bad in blast)+
qed

theorem threshold_roundtrip_witness:
  "\<exists>s. fm_posted (form_submit threshold_schema threshold_call (form_put threshold_schema ''threshold'' (\<lambda>_. Num 29) threshold_first))
      = [\<lparr>call_method = ''PUT'', call_path = ''/api/settings/concentration_threshold'', call_body = JObj [(''value'', JStr s)]\<rparr>]
    \<and> fm_values (settings_arrive (Some s) threshold_first) = Num 29 \<and> times_hundred 0 s = ''29''"
proof -
  let ?st = "form_put threshold_schema ''threshold'' (\<lambda>_. Num 29) threshold_first"
  have st: "threshold_reach ?st" by (rule threshold_next [OF threshold_start threshold_type])
  have v: "fm_values ?st = Num (of_int 29)" "fm_posted ?st = []"
    by (simp_all add: form_put_def threshold_first_def form_open_def Let_def)
  have "show_int 29 = ''29''" by code_simp
  then show ?thesis
    using threshold_roundtrip [OF st, where later = threshold_first] unfolding Let_def v(2)
    by (elim conjE allE [where x = 29]) (use v(1) in auto)
qed

text \<open>When the lists cannot be read, the page says that nothing is silenced and everything classified.\<close>

lemma failures_shown_as_empty:
  "MutedHoldingsList unmuting False None = MutedHoldingsList unmuting False (Some [])"
  "UnclassifiedHint False None = [Heading ''Risk classification'', Txt ''All instruments are classified.'']"
  by (simp_all add: MutedHoldingsList_def UnclassifiedHint_def mediumCount_def)

end
