(* ===== verification/Accounts.thy ===== *)
theory Accounts
  imports FormKit View Drift
begin

text \<open>
  The accounts on the settings page: the list (\<open>settings/AccountsSection.tsx\<close>), the dialog
  (\<open>AccountFormDialog.tsx\<close>) with its form (\<open>AccountForm.tsx\<close>), and the calls they make
  (\<open>lib/accounts-api.ts\<close>).
\<close>

section \<open>Accounts and calls\<close>

record AccountInput =
  ai_name :: jstring
  ai_account_type :: jstring
  ai_is_banked :: bool
  ai_currency :: jstring

record FullAccount = AccountInput +
  fa_id :: jstring
  fa_last_reconciled_date :: "jstring option"

definition account_body :: "AccountInput \<Rightarrow> json" where
  "account_body v =
     JObj [(''name'', JStr (ai_name v)), (''account_type'', JStr (ai_account_type v)), (''is_banked'', JBool (ai_is_banked v)),
       (''currency'', JStr (ai_currency v))]"

definition create_account_call :: "AccountInput \<Rightarrow> api_call" where
  "create_account_call v = \<lparr>call_method = ''POST'', call_path = ''/api/accounts'', call_body = account_body v\<rparr>"

definition update_account_call :: "jstring \<Rightarrow> AccountInput \<Rightarrow> api_call" where
  "update_account_call i v =
     \<lparr>call_method = ''PUT'', call_path = ''/api/accounts/'' @ encodeURIComponent i, call_body = account_body v\<rparr>"

datatype account_effect = AccountOk jstring | AccountFailed jstring | AccountInvalidate "jstring list"

text \<open>The callbacks of the hooks run in any case, those of the dialog while it is on screen.\<close>

definition hook_effects :: "thrown + FullAccount \<Rightarrow> account_effect list" where
  "hook_effects r = (case r of Inr _ \<Rightarrow> [AccountInvalidate [''accounts'']] | Inl _ \<Rightarrow> [])"

section \<open>The form\<close>

datatype account_dialog = DialogClosed | DialogCreate | DialogEdit FullAccount

definition EMPTY_ACCOUNT :: AccountInput where
  "EMPTY_ACCOUNT = \<lparr>ai_name = [], ai_account_type = [], ai_is_banked = True, ai_currency = ''EUR''\<rparr>"

definition account_defaults :: "account_dialog \<Rightarrow> AccountInput" where
  "account_defaults m = (case m of DialogEdit a \<Rightarrow> AccountInput.truncate a | _ \<Rightarrow> EMPTY_ACCOUNT)"

text \<open>
  \<open>as_pending\<close> is the call the dialog on screen waits for, \<open>as_orphans\<close> those of dialogs that
  have been closed since.
\<close>

record accounts_section =
  as_dialog :: account_dialog
  as_values :: AccountInput
  as_touched_name :: bool
  as_touched_type :: bool
  as_pending :: "api_call option"
  as_orphans :: "api_call list"
  as_posted :: "api_call list"
  as_effects :: "account_effect list"

definition accounts_first :: accounts_section where
  "accounts_first =
     \<lparr>as_dialog = DialogClosed, as_values = EMPTY_ACCOUNT, as_touched_name = False, as_touched_type = False, as_pending = None,
      as_orphans = [], as_posted = [], as_effects = []\<rparr>"

definition nameError :: "accounts_section \<Rightarrow> jstring option" where
  "nameError st = (if as_touched_name st \<and> js_trim (ai_name (as_values st)) = [] then Some ''Name is required.'' else None)"

definition typeError :: "accounts_section \<Rightarrow> jstring option" where
  "typeError st =
     (if as_touched_type st \<and> js_trim (ai_account_type (as_values st)) = [] then Some ''Account type is required.'' else None)"

definition account_canSubmit :: "accounts_section \<Rightarrow> bool" where
  "account_canSubmit st \<longleftrightarrow>
     js_trim (ai_name (as_values st)) \<noteq> [] \<and> js_trim (ai_account_type (as_values st)) \<noteq> [] \<and> as_pending st = None"

definition trimmed_input :: "AccountInput \<Rightarrow> AccountInput" where
  "trimmed_input v = v\<lparr>ai_name := js_trim (ai_name v), ai_account_type := js_trim (ai_account_type v)\<rparr>"

definition account_call :: "account_dialog \<Rightarrow> AccountInput \<Rightarrow> api_call" where
  "account_call m v = (case m of DialogEdit a \<Rightarrow> update_account_call (fa_id a) v | _ \<Rightarrow> create_account_call v)"

definition submit_account :: "accounts_section \<Rightarrow> accounts_section" where
  "submit_account st =
     (let st1 = st\<lparr>as_touched_name := True, as_touched_type := True\<rparr>
      in if \<not> account_canSubmit st then st1
         else let c = account_call (as_dialog st) (trimmed_input (as_values st))
              in st1\<lparr>as_pending := Some c, as_posted := as_posted st @ [c]\<rparr>)"

definition open_account_dialog :: "account_dialog \<Rightarrow> accounts_section \<Rightarrow> accounts_section" where
  "open_account_dialog m st =
     st\<lparr>as_dialog := m, as_values := account_defaults m, as_touched_name := False, as_touched_type := False, as_pending := None\<rparr>"

text \<open>Closing takes the dialog off the screen; a call it waits for goes on.\<close>

definition close_account_dialog :: "accounts_section \<Rightarrow> accounts_section" where
  "close_account_dialog st =
     st\<lparr>as_dialog := DialogClosed, as_pending := None,
        as_orphans := as_orphans st @ (case as_pending st of Some c \<Rightarrow> [c] | None \<Rightarrow> [])\<rparr>"

definition account_settles :: "thrown + FullAccount \<Rightarrow> accounts_section \<Rightarrow> accounts_section" where
  "account_settles r st =
     (let edit = (case as_dialog st of DialogEdit _ \<Rightarrow> True | _ \<Rightarrow> False)
      in case r of
           Inr a \<Rightarrow> st\<lparr>as_dialog := DialogClosed, as_pending := None,
             as_effects := as_effects st @ hook_effects r
               @ [AccountOk (''Account '' @ CHR 0x22 # ai_name a @ CHR 0x22 # '' '' @ (if edit then ''updated.'' else ''created.''))]\<rparr>
         | Inl err \<Rightarrow> st\<lparr>as_pending := None,
             as_effects := as_effects st @ hook_effects r
               @ [AccountFailed (''Could not '' @ (if edit then ''update'' else ''create'') @ '' account. ''
                    @ nullish (error_message err) ''undefined'')]\<rparr>)"

definition orphan_settles :: "api_call \<Rightarrow> thrown + FullAccount \<Rightarrow> accounts_section \<Rightarrow> accounts_section" where
  "orphan_settles c r st = st\<lparr>as_orphans := remove1 c (as_orphans st), as_effects := as_effects st @ hook_effects r\<rparr>"

section \<open>What is on screen\<close>

datatype account_event = AddAccount | EditAccount FullAccount | CancelAccount | SubmitAccount

definition AccountForm :: "bool \<Rightarrow> accounts_section \<Rightarrow> account_event ui list" where
  "AccountForm edit st =
     [Input ''Name'' (ai_name (as_values st)) False False] @ alert_of (nameError st)
     @ [Input ''Account type'' (ai_account_type (as_values st)) False False] @ alert_of (typeError st)
     @ [Choice ''Currency'' (ai_currency (as_values st)) currency_options False,
        Txt ''Banked account'', Txt ''Holds cash balances (vs. crypto-only / cold-storage).'',
        Control ''Cancel'' (as_pending st \<noteq> None) CancelAccount,
        Control (if as_pending st \<noteq> None then ''Saving'' @ ellipsis else if edit then ''Save changes'' else ''Add account'')
          (\<not> account_canSubmit st) SubmitAccount]"

definition AccountFormDialog :: "accounts_section \<Rightarrow> account_event ui list" where
  "AccountFormDialog st =
     (case as_dialog st of
        DialogClosed \<Rightarrow> []
      | DialogCreate \<Rightarrow>
          [Heading ''Add account'', Txt ''Create a new account to record transactions against.''] @ AccountForm False st
      | DialogEdit _ \<Rightarrow>
          [Heading ''Edit account'', Txt (''Update this account'' @ [apostrophe] @ ''s name, type, currency, or banked flag.'')]
          @ AccountForm True st)"

text \<open>A dialog on screen covers the list.\<close>

definition account_item :: "bool \<Rightarrow> FullAccount \<Rightarrow> account_event ui list" where
  "account_item covered a =
     [Txt (ai_name a), Txt (LastReconciledBadge (fa_last_reconciled_date a)), Control ''Edit'' covered (EditAccount a),
      Anchor ''Reconcile'' (''/reconcile?account='' @ fa_id a)]"

definition AccountsSection ::
  "bool \<Rightarrow> thrown option \<Rightarrow> FullAccount list option \<Rightarrow> accounts_section \<Rightarrow> account_event ui list" where
  "AccountsSection isLoading failed accounts st =
     (let covered = as_dialog st \<noteq> DialogClosed
      in [Heading ''Accounts'', Txt (''Reconcile each account against your broker'' @ [apostrophe] @ ''s reported quantities.''),
          Control ''Add account'' covered AddAccount]
         @ only_if isLoading [Busy, Busy, Busy]
         @ (case failed of Some err \<Rightarrow> [Alert (''Could not load accounts. '' @ nullish (error_message err) [])] | None \<Rightarrow> [])
         @ (case accounts of
              None \<Rightarrow> []
            | Some [] \<Rightarrow> [Txt ''No accounts yet. Click Add account to create your first one.'']
            | Some as \<Rightarrow> concat (map (account_item covered) as))
         @ AccountFormDialog st)"

fun account_do :: "account_event \<Rightarrow> accounts_section \<Rightarrow> accounts_section" where
  "account_do AddAccount st = open_account_dialog DialogCreate st"
| "account_do (EditAccount a) st = open_account_dialog (DialogEdit a) st"
| "account_do CancelAccount st = close_account_dialog st"
| "account_do SubmitAccount st = submit_account st"

text \<open>Enter in a field submits while the button is enabled; Escape closes the dialog at any time.\<close>

inductive accounts_step :: "accounts_section \<Rightarrow> accounts_section \<Rightarrow> bool" where
  accounts_press: "e \<in> set (on_offer (AccountsSection isLoading failed accounts st)) \<Longrightarrow> accounts_step st (account_do e st)"
| accounts_type: "as_dialog st \<noteq> DialogClosed \<Longrightarrow> accounts_step st (st\<lparr>as_values := v\<rparr>)"
| accounts_blur_name: "as_dialog st \<noteq> DialogClosed \<Longrightarrow> accounts_step st (st\<lparr>as_touched_name := True\<rparr>)"
| accounts_blur_type: "as_dialog st \<noteq> DialogClosed \<Longrightarrow> accounts_step st (st\<lparr>as_touched_type := True\<rparr>)"
| accounts_escape: "as_dialog st \<noteq> DialogClosed \<Longrightarrow> accounts_step st (close_account_dialog st)"
| accounts_answer: "as_pending st \<noteq> None \<Longrightarrow> accounts_step st (account_settles r st)"
| accounts_orphan: "c \<in> set (as_orphans st) \<Longrightarrow> accounts_step st (orphan_settles c r st)"

inductive accounts_reach :: "accounts_section \<Rightarrow> bool" where
  accounts_start: "accounts_reach accounts_first"
| accounts_next: "accounts_reach st \<Longrightarrow> accounts_step st st' \<Longrightarrow> accounts_reach st'"

section \<open>Properties\<close>

definition account_checked :: "api_call \<Rightarrow> bool" where
  "account_checked c \<longleftrightarrow>
     (\<exists>v m. c = account_call m v \<and> ai_name v \<noteq> [] \<and> js_trim (ai_name v) = ai_name v
        \<and> ai_account_type v \<noteq> [] \<and> js_trim (ai_account_type v) = ai_account_type v)"

definition accounts_ok :: "accounts_section \<Rightarrow> bool" where
  "accounts_ok st \<longleftrightarrow>
     list_all account_checked (as_posted st) \<and> (as_pending st \<noteq> None \<longrightarrow> as_dialog st \<noteq> DialogClosed)
     \<and> (\<forall>c. as_pending st = Some c \<longrightarrow> c \<in> set (as_posted st)) \<and> set (as_orphans st) \<subseteq> set (as_posted st)"

lemma trimmed_checked:
  "account_canSubmit st \<Longrightarrow> account_checked (account_call m (trimmed_input (as_values st)))"
  unfolding account_checked_def
  by (rule exI [of _ "trimmed_input (as_values st)"], rule exI [of _ m]) (simp add: trimmed_input_def account_canSubmit_def js_trim_twice)

lemma items_offer: "on_offer (concat (map (account_item b) as)) = (if b then [] else map EditAccount as)"
  by (induction as) (simp_all add: account_item_def ui_simps)

lemma section_offers:
  "on_offer (AccountsSection l f acs st) =
     (if as_dialog st = DialogClosed then AddAccount # map EditAccount (nullish acs [])
      else (if as_pending st = None then [CancelAccount] else []) @ (if account_canSubmit st then [SubmitAccount] else []))"
proof -
  have list: "on_offer (case acs of None \<Rightarrow> [] | Some [] \<Rightarrow> [Txt t] | Some as \<Rightarrow> concat (map (account_item b) as))
      = (if b then [] else map EditAccount (nullish acs []))" for t b
  proof (cases acs)
    case (Some as)
    then show ?thesis using items_offer [of b as] by (cases as) (simp_all add: ui_simps)
  qed (simp add: ui_simps)
  have "on_offer (case f of Some err \<Rightarrow> [Alert (g err)] | None \<Rightarrow> ([] :: account_event ui list)) = []" for g :: "thrown \<Rightarrow> jstring"
    by (cases f) (simp_all add: ui_simps)
  then show ?thesis
    by (cases "as_dialog st") (simp_all add: AccountsSection_def Let_def AccountFormDialog_def AccountForm_def ui_simps list)
qed

lemma accounts_ok_do:
  assumes "accounts_ok st" "e \<in> set (on_offer (AccountsSection l f acs st))"
  shows "accounts_ok (account_do e st)"
  using assms trimmed_checked [of st]
  by (cases e) (auto simp: section_offers accounts_ok_def open_account_dialog_def close_account_dialog_def submit_account_def Let_def
      split: if_splits option.splits)

lemma accounts_ok_reach: "accounts_reach st \<Longrightarrow> accounts_ok st"
proof (induction rule: accounts_reach.induct)
  case (accounts_next st st')
  from accounts_next.hyps(2) show ?case
  proof cases
    case (accounts_press e l f acs)
    then show ?thesis using accounts_ok_do accounts_next.IH by simp
  next
    case (accounts_orphan c r)
    then show ?thesis using accounts_next.IH set_remove1_subset [of c "as_orphans st"] by (auto simp: accounts_ok_def orphan_settles_def)
  qed (use accounts_next.IH in \<open>auto simp: accounts_ok_def close_account_dialog_def account_settles_def Let_def split: option.splits sum.splits\<close>)
qed (simp add: accounts_ok_def accounts_first_def)

text \<open>
  The calls are checked: whatever is typed and however the dialogs are used, an account is created or
  updated only under a trimmed name and type that are not empty, and while a dialog waits for its
  answer it sends no other call.
\<close>
theorem account_calls_checked:
  assumes "accounts_reach st"
  shows "list_all account_checked (as_posted st)"
    and "as_pending st \<noteq> None \<Longrightarrow> on_offer (AccountsSection l f acs st) = []"
  using accounts_ok_reach [OF assms] by (auto simp: accounts_ok_def section_offers account_canSubmit_def)

text \<open>
  A dialog that is closed while it saves tells the user nothing: neither a success nor a failure of
  the call is reported, since the callbacks belong to the dialog that is gone.
\<close>
lemma closed_dialog_silent:
  assumes "as_pending st = Some c"
  shows "c \<in> set (as_orphans (close_account_dialog st))"
    "as_effects (orphan_settles c (Inl err) (close_account_dialog st)) = as_effects st"
    "as_effects (orphan_settles c (Inr a) (close_account_dialog st)) = as_effects st @ [AccountInvalidate [''accounts'']]"
  using assms by (simp_all add: close_account_dialog_def orphan_settles_def hook_effects_def)

end
