(* ===== verification/Histories.thy ===== *)
theory Histories
  imports Ledger View
begin

text \<open>
  Two histories: the changes of a transaction (\<open>transactions/AuditHistoryModal.tsx\<close>) and the pages of
  exchange rates (\<open>fx/FxHistoryTable.tsx\<close>, \<open>fx/FxTimeframeSelect.tsx\<close>).
\<close>

section \<open>The changes of a transaction\<close>

record AuditEvent =
  ae_id :: jstring
  ae_edited :: bool
  ae_changed_at :: jstring
  ae_changed_fields :: "(jstring \<times> json \<times> json) list"

record AuditTransaction =
  at_symbol :: jstring
  at_txn_type :: jstring
  at_date :: jstring

definition FIELD_LABELS :: "(jstring \<times> jstring) list" where
  "FIELD_LABELS =
     [(''quantity'', ''Qty''), (''unit_price'', ''Unit price''), (''price_currency'', ''Currency''),
      (''fx_rate_to_eur'', ''FX rate (EUR base)''), (''fee_eur'', ''Fee''), (''notes'', ''Notes''), (''date'', ''Date'')]"

text \<open>\<open>String(v)\<close> of a parsed value.\<close>

fun json_String :: "json \<Rightarrow> jstring" where
  "json_String JNull = ''null''"
| "json_String (JBool b) = (if b then ''true'' else ''false'')"
| "json_String (JNum n) = number_to_str n"
| "json_String (JStr s) = s"
| "json_String (JArr vs) = js_join '','' (map (\<lambda>v. if v = JNull then [] else json_String v) vs)"
| "json_String (JObj _) = ''[object Object]''"

definition renderValue :: "jstring \<Rightarrow> json \<Rightarrow> jstring list" where
  "renderValue field v =
     (if v = JNull then [em_dash]
      else if field = ''quantity'' then [formatQuantity (SStr (json_String v)) 8]
      else if field = ''notes''
      then (case accrual_note (json_String v) of Some r \<Rightarrow> [''auto-accrual'', r] | None \<Rightarrow> [json_String v])
      else [json_String v])"

definition changed_field :: "jstring \<times> json \<times> json \<Rightarrow> unit ui" where
  "changed_field c =
     (case c of (field, was, now) \<Rightarrow>
        Section (Txt (nullish (map_of FIELD_LABELS field) field) # Txt ''changed from''
          # map Txt (renderValue field was) @ Txt ''to'' # map Txt (renderValue field now)))"

text \<open>\<open>show_time\<close> and \<open>show_day\<close> are \<open>toLocaleString\<close> and \<open>toLocaleDateString\<close> of an instant.\<close>

definition audit_event :: "(jstring \<Rightarrow> jstring) \<Rightarrow> (jstring \<Rightarrow> jstring) \<Rightarrow> AuditEvent \<Rightarrow> unit ui" where
  "audit_event show_time show_day e =
     Section
       ([Heading (if ae_edited e then ''Edited'' else ''Deleted''), Txt (show_time (ae_changed_at e))]
        @ (if ae_edited e then map changed_field (ae_changed_fields e)
           else [Txt (''Marked deleted on '' @ show_day (ae_changed_at e) @ ''.'')]))"

text \<open>The two requests of the dialog, made while it is about a transaction.\<close>

definition audit_urls :: "jstring option \<Rightarrow> jstring list" where
  "audit_urls txnId =
     (case Option.bind txnId or_null of
        Some i \<Rightarrow> [''/api/transactions/'' @ i @ ''/audit'', ''/api/transactions/'' @ i] | None \<Rightarrow> [])"

definition AuditHistoryModal ::
  "(jstring \<Rightarrow> jstring) \<Rightarrow> (jstring \<Rightarrow> jstring) \<Rightarrow> jstring option \<Rightarrow> bool \<Rightarrow> AuditEvent list option \<Rightarrow> AuditTransaction option
    \<Rightarrow> unit ui list" where
  "AuditHistoryModal show_time show_day txnId auditLoading auditEvents header =
     only_if (txnId \<noteq> None)
       ([Heading ''Transaction history'']
        @ (case header of Some t \<Rightarrow> [Txt (at_symbol t), Txt (at_txn_type t), Txt (at_date t)] | None \<Rightarrow> [])
        @ (if auditLoading then [Busy, Busy]
           else case nullish auditEvents [] of
             [] \<Rightarrow> [Txt ''No history yet. Edits and deletions will appear here.'']
           | es \<Rightarrow> map (audit_event show_time show_day) es)
        @ [Control ''Close'' False ()])"

section \<open>Exchange rates\<close>

datatype FxTimeframe = Fx1M | Fx3M | Fx1Y | FxAll

fun fx_timeframe_text :: "FxTimeframe \<Rightarrow> jstring" where
  "fx_timeframe_text Fx1M = ''1m''"
| "fx_timeframe_text Fx3M = ''3m''"
| "fx_timeframe_text Fx1Y = ''1y''"
| "fx_timeframe_text FxAll = ''all''"

definition FX_LABELS :: "(jstring \<times> jstring) list" where
  "FX_LABELS = [(''1m'', ''Last 1 month''), (''3m'', ''Last 3 months''), (''1y'', ''Last 1 year''), (''all'', ''All time'')]"

record FxRate =
  fr_id :: jstring
  fr_date :: jstring
  fr_rate :: jstring
  fr_source :: jstring
  fr_fetched_at :: int

definition PAGE_SIZE :: nat where
  "PAGE_SIZE = 50"

definition STALE_HOURS :: int where
  "STALE_HOURS = STALE_MS div (3600 * 1000)"

definition formatRelativeAgo :: "int \<Rightarrow> int \<Rightarrow> jstring" where
  "formatRelativeAgo now t =
     (let ms = now - t; minutes = ms div 60000; hours = minutes div 60
      in if ms < 60000 then ''just now''
         else if minutes < 60 then show_int minutes @ ''m ago''
         else if hours < STALE_HOURS then show_int hours @ ''h ago''
         else show_int (hours div 24) @ ''d ago'')"

record fx_history =
  fh_timeframe :: FxTimeframe
  fh_page :: nat
  fh_loading :: bool
  fh_error :: bool
  fh_data :: "FxRate list option"

definition fx_history_first :: fx_history where
  "fx_history_first = \<lparr>fh_timeframe = Fx3M, fh_page = 0, fh_loading = True, fh_error = False, fh_data = None\<rparr>"

definition fx_url :: "fx_history \<Rightarrow> jstring" where
  "fx_url st =
     ''/api/fx?timeframe='' @ fx_timeframe_text (fh_timeframe st) @ ''&limit='' @ show_int (int PAGE_SIZE) @ ''&offset=''
     @ show_int (int (fh_page st * PAGE_SIZE))"

datatype fx_history_event = FxPrevious | FxNext

definition fx_row :: "int \<Rightarrow> FxRate \<Rightarrow> 'e ui list" where
  "fx_row now r = [Txt (fr_date r), Txt (fr_rate r), Txt (priceSourceLabel (fr_source r)), Txt (formatRelativeAgo now (fr_fetched_at r))]"

definition fx_body :: "int \<Rightarrow> fx_history \<Rightarrow> 'e ui list" where
  "fx_body now st =
     (if fh_loading st then [Busy]
      else if fh_error st then [Txt ''Could not load FX history. Check the backend connection and try again.'']
      else case nullish (fh_data st) [] of
        [] \<Rightarrow> [Heading ''No FX rates yet'',
               Txt ''The daily refresh runs at 17:00 UTC. Rates will appear here once the cron has executed.'']
      | rs \<Rightarrow> map Txt [''Date'', ''Rate (USD per EUR)'', ''Source'', ''Fetched at''] @ concat (map (fx_row now) rs))"

definition FxTimeframeSelect :: "FxTimeframe \<Rightarrow> 'e ui" where
  "FxTimeframeSelect v = Choice [] (fx_timeframe_text v) FX_LABELS False"

definition FxHistoryTable :: "int \<Rightarrow> fx_history \<Rightarrow> fx_history_event ui list" where
  "FxHistoryTable now st =
     [FxTimeframeSelect (fh_timeframe st),
      Txt (''Page '' @ show_int (int (fh_page st) + 1)), Txt (show_int (int PAGE_SIZE) @ '' rows per page'')]
     @ fx_body now st
     @ [Control ''Previous'' (fh_page st = 0 \<or> fh_loading st) FxPrevious,
        Control ''Next'' ((case fh_data st of None \<Rightarrow> True | Some d \<Rightarrow> length d < PAGE_SIZE) \<or> fh_loading st) FxNext]"

text \<open>
  Another key: its page is in the cache already or is asked for.  \<open>rates\<close> is the table of the back
  end for each period, newest first, of which a request gets \<open>limit\<close> rows from \<open>offset\<close>.
\<close>

definition fx_page_rows :: "(FxTimeframe \<Rightarrow> FxRate list) \<Rightarrow> fx_history \<Rightarrow> FxRate list" where
  "fx_page_rows rates st = take PAGE_SIZE (drop (fh_page st * PAGE_SIZE) (rates (fh_timeframe st)))"

definition fx_key :: "(FxTimeframe \<Rightarrow> FxRate list) \<Rightarrow> bool \<Rightarrow> fx_history \<Rightarrow> fx_history" where
  "fx_key rates cached st =
     st\<lparr>fh_loading := \<not> cached, fh_error := False, fh_data := (if cached then Some (fx_page_rows rates st) else None)\<rparr>"

fun fx_press :: "fx_history_event \<Rightarrow> fx_history \<Rightarrow> fx_history" where
  "fx_press FxPrevious st = st\<lparr>fh_page := fh_page st - 1\<rparr>"
| "fx_press FxNext st = st\<lparr>fh_page := fh_page st + 1\<rparr>"

inductive fx_history_step :: "(FxTimeframe \<Rightarrow> FxRate list) \<Rightarrow> fx_history \<Rightarrow> fx_history \<Rightarrow> bool" for rates where
  fx_choose: "fx_history_step rates st (fx_key rates cached (st\<lparr>fh_timeframe := tf, fh_page := 0\<rparr>))"
| fx_turn: "e \<in> set (on_offer (FxHistoryTable now st)) \<Longrightarrow> fx_history_step rates st (fx_key rates cached (fx_press e st))"
| fx_loaded: "fx_history_step rates st (st\<lparr>fh_loading := False, fh_error := False, fh_data := Some (fx_page_rows rates st)\<rparr>)"
| fx_failed: "fx_history_step rates st (st\<lparr>fh_loading := False, fh_error := True\<rparr>)"

inductive fx_history_reach :: "(FxTimeframe \<Rightarrow> FxRate list) \<Rightarrow> fx_history \<Rightarrow> bool" for rates where
  fx_history_start: "fx_history_reach rates fx_history_first"
| fx_history_next: "fx_history_reach rates st \<Longrightarrow> fx_history_step rates st st' \<Longrightarrow> fx_history_reach rates st'"
section \<open>Properties\<close>

lemma fx_offers:
  "on_offer (FxHistoryTable now st) =
     (if fh_page st = 0 \<or> fh_loading st then [] else [FxPrevious])
     @ (if (case fh_data st of None \<Rightarrow> True | Some d \<Rightarrow> length d < PAGE_SIZE) \<or> fh_loading st then [] else [FxNext])"
proof -
  have rows: "on_offer (concat (map (fx_row now) rs)) = ([] :: fx_history_event list)" for rs
    by (induction rs) (simp_all add: fx_row_def ui_simps)
  have "on_offer (fx_body now st) = ([] :: fx_history_event list)"
    using rows [of "nullish (fh_data st) []"] by (cases "nullish (fh_data st) []") (simp_all add: fx_body_def ui_simps)
  then show ?thesis by (simp add: FxHistoryTable_def FxTimeframeSelect_def ui_simps)
qed

definition fx_ok :: "(FxTimeframe \<Rightarrow> FxRate list) \<Rightarrow> fx_history \<Rightarrow> bool" where
  "fx_ok rates st \<longleftrightarrow>
     fh_page st * PAGE_SIZE \<le> length (rates (fh_timeframe st)) \<and> (\<forall>d. fh_data st = Some d \<longrightarrow> d = fx_page_rows rates st)"

lemma full_page: "\<not> length (fx_page_rows rates st) < PAGE_SIZE \<longleftrightarrow> (fh_page st + 1) * PAGE_SIZE \<le> length (rates (fh_timeframe st))"
  by (auto simp: fx_page_rows_def PAGE_SIZE_def)

lemma fx_ok_step:
  assumes "fx_ok rates st" "fx_history_step rates st st'"
  shows "fx_ok rates st'"
  using assms(2)
proof cases
  case (fx_turn e now cached)
  show ?thesis
  proof (cases e)
    case FxPrevious
    have "(fh_page st - 1) * PAGE_SIZE \<le> fh_page st * PAGE_SIZE" by simp
    also have "\<dots> \<le> length (rates (fh_timeframe st))" using assms(1) by (simp add: fx_ok_def)
    finally show ?thesis using assms(1) fx_turn FxPrevious by (auto simp: fx_ok_def fx_key_def fx_page_rows_def)
  next
    case FxNext
    then have "\<not> length (fx_page_rows rates st) < PAGE_SIZE"
      using fx_turn(2) assms(1) by (auto simp: fx_offers fx_ok_def split: option.splits if_splits)
    then have "(fh_page st + 1) * PAGE_SIZE \<le> length (rates (fh_timeframe st))" by (simp only: full_page)
    then show ?thesis using fx_turn FxNext by (auto simp: fx_ok_def fx_key_def fx_page_rows_def)
  qed
qed (use assms(1) in \<open>auto simp: fx_ok_def fx_key_def fx_page_rows_def\<close>)

lemma fx_ok_reach: "fx_history_reach rates st \<Longrightarrow> fx_ok rates st"
proof (induction rule: fx_history_reach.induct)
  case fx_history_start
  show ?case by (simp add: fx_ok_def fx_history_first_def)
qed (rule fx_ok_step)

lemma pages_reached:
  "n * PAGE_SIZE \<le> length (rates tf) \<Longrightarrow>
    \<exists>st. fx_history_reach rates st \<and> fh_timeframe st = tf \<and> fh_page st = n \<and> \<not> fh_loading st \<and> fh_data st = Some (fx_page_rows rates st)
      \<and> \<not> fh_error st"
proof (induction n)
  case 0
  show ?case
    using fx_history_next [OF fx_history_start fx_choose [where cached = True and tf = tf]]
    by (intro exI conjI) (assumption | simp add: fx_key_def fx_page_rows_def)+
next
  case (Suc n)
  then obtain st where st: "fx_history_reach rates st" "fh_timeframe st = tf" "fh_page st = n" "\<not> fh_loading st"
    "fh_data st = Some (fx_page_rows rates st)" by auto
  then have "\<not> length (fx_page_rows rates st) < PAGE_SIZE" using Suc.prems by (simp add: full_page)
  then have "FxNext \<in> set (on_offer (FxHistoryTable 0 st))" using st by (simp add: fx_offers)
  from fx_history_next [OF st(1) fx_turn [OF this, where cached = True]] st(2,3)
  show ?case by (intro exI conjI) (assumption | simp add: fx_key_def fx_page_rows_def)+
qed

text \<open>
  Paging through the exchange rates shows every rate once.  In every reachable state the page on
  screen is the rows that belong to it and starts within the table; turning the pages from the first
  to the last concatenates to the whole table; and every page, and so every rate, can be reached.
\<close>
theorem fx_pages_partition:
  assumes "fx_history_reach rates st"
  shows "fh_page st * PAGE_SIZE \<le> length (rates (fh_timeframe st))
    \<and> (\<forall>d. fh_data st = Some d \<longrightarrow> d = take PAGE_SIZE (drop (fh_page st * PAGE_SIZE) (rates (fh_timeframe st))))
    \<and> concat (map (\<lambda>n. fx_page_rows rates (st\<lparr>fh_page := n\<rparr>)) [0 ..< length (rates (fh_timeframe st)) div PAGE_SIZE + 1])
        = rates (fh_timeframe st)
    \<and> (\<forall>k < length (rates tf). \<exists>s. fx_history_reach rates s \<and> fh_timeframe s = tf \<and> fh_page s = k div PAGE_SIZE
        \<and> (\<exists>d. fh_data s = Some d \<and> k mod PAGE_SIZE < length d \<and> d ! (k mod PAGE_SIZE) = rates tf ! k))"
proof -
  let ?rs = "rates (fh_timeframe st)"
  have pages: "concat (map (\<lambda>n. take PAGE_SIZE (drop (n * PAGE_SIZE) xs)) [0 ..< m]) = take (m * PAGE_SIZE) xs" for m and xs :: "FxRate list"
  proof (induction m)
    case (Suc m)
    then show ?case using take_add [of "m * PAGE_SIZE" PAGE_SIZE xs] by (simp add: add.commute)
  qed simp
  have "length ?rs \<le> (length ?rs div PAGE_SIZE + 1) * PAGE_SIZE" by (simp add: PAGE_SIZE_def)
  then have whole: "concat (map (\<lambda>n. fx_page_rows rates (st\<lparr>fh_page := n\<rparr>)) [0 ..< length ?rs div PAGE_SIZE + 1]) = ?rs"
    using pages [of ?rs "length ?rs div PAGE_SIZE + 1"] by (simp add: fx_page_rows_def del: upt_Suc)
  have "\<exists>s. fx_history_reach rates s \<and> fh_timeframe s = tf \<and> fh_page s = k div PAGE_SIZE
      \<and> (\<exists>d. fh_data s = Some d \<and> k mod PAGE_SIZE < length d \<and> d ! (k mod PAGE_SIZE) = rates tf ! k)" if k: "k < length (rates tf)" for k
  proof -
    have split: "k div PAGE_SIZE * PAGE_SIZE + k mod PAGE_SIZE = k" "k mod PAGE_SIZE < PAGE_SIZE" by (simp_all add: PAGE_SIZE_def)
    then have start: "k div PAGE_SIZE * PAGE_SIZE \<le> length (rates tf)"
      and len: "k mod PAGE_SIZE < length (rates tf) - k div PAGE_SIZE * PAGE_SIZE" using k by linarith+
    from start obtain s where s: "fx_history_reach rates s" "fh_timeframe s = tf" "fh_page s = k div PAGE_SIZE" "fh_data s = Some (fx_page_rows rates s)"
      using pages_reached by blast
    have "k mod PAGE_SIZE < length (fx_page_rows rates s) \<and> fx_page_rows rates s ! (k mod PAGE_SIZE) = rates tf ! k"
      using split start len s(2,3) by (simp add: fx_page_rows_def nth_drop)
    then show ?thesis using s by blast
  qed
  then show ?thesis using fx_ok_reach [OF assms] whole by (simp add: fx_ok_def fx_page_rows_def)
qed

definition some_rates :: "nat \<Rightarrow> FxRate list" where
  "some_rates n = map (\<lambda>k. \<lparr>fr_id = show_int (int k), fr_date = [], fr_rate = ''1.08'', fr_source = ''frankfurter'', fr_fetched_at = 0\<rparr>) [0 ..< n]"

theorem fx_pages_partition_witness:
  "\<exists>s. fx_history_reach (\<lambda>_. some_rates 120) s \<and> fh_timeframe s = FxAll \<and> fh_page s = 2
     \<and> (\<exists>d. fh_data s = Some d \<and> 15 < length d \<and> d ! 15 = some_rates 120 ! 115)"
proof -
  have "length (some_rates 120) = 120" by (simp add: some_rates_def)
  then show ?thesis
    using fx_pages_partition [OF fx_history_start, of "\<lambda>_. some_rates 120" FxAll] by (auto simp: PAGE_SIZE_def dest!: spec [of _ 115])
qed

text \<open>When the last page is full, the table offers one more, which says that there are no rates.\<close>

lemma full_last_page:
  assumes "length (rates tf) = n * PAGE_SIZE"
  shows "\<exists>st. fx_history_reach rates st \<and> fh_timeframe st = tf \<and> fh_page st = n \<and> fx_body now st =
    [Heading ''No FX rates yet'', Txt ''The daily refresh runs at 17:00 UTC. Rates will appear here once the cron has executed.'']"
proof -
  obtain st where "fx_history_reach rates st" "fh_timeframe st = tf" "fh_page st = n" "\<not> fh_loading st" "\<not> fh_error st"
    "fh_data st = Some (fx_page_rows rates st)"
    using pages_reached [of n rates tf] assms by auto
  moreover have "fx_page_rows rates st = []" using calculation assms by (simp add: fx_page_rows_def)
  ultimately show ?thesis by (intro exI [of _ st]) (simp add: fx_body_def)
qed

text \<open>A rate that is exactly two days old is shown in days.\<close>

lemma two_days_in_days: "formatRelativeAgo (t + STALE_MS) t = ''2d ago''" "formatRelativeAgo (t + STALE_MS - 1) t = ''47h ago''"
  by (simp_all add: formatRelativeAgo_def Let_def STALE_MS_def STALE_HOURS_def show_int_def show_digits.simps)

end
