(* ===== verification/Navigation.thy ===== *)
theory Navigation
  imports AddTxn Session Prefs View
begin

text \<open>
  Moving between the pages: the table of routes (\<open>lib/nav.ts\<close>) and the surfaces made from it
  (\<open>header/AppHeader.tsx\<close>, \<open>BottomTabBar.tsx\<close>, \<open>MoreSheet.tsx\<close>), the title of a page
  (\<open>MobileAppBar.tsx\<close>), signing out (\<open>UserMenu.tsx\<close>, \<open>LogoutButton.tsx\<close>), the buttons that start
  a transaction (\<open>AddButton.tsx\<close>, \<open>AddTxnFab.tsx\<close>), the tabs of the holdings pages
  (\<open>app/(app)/holdings\<close>), the currency switch and the banner of the demo.
\<close>

section \<open>Routes\<close>

datatype NavSurface = HeaderSurface | TabbarSurface | MoreSurface

record NavRoute =
  nr_href :: jstring
  nr_label :: jstring
  nr_key :: "jstring option"
  nr_icon :: bool
  nr_surfaces :: "NavSurface list"

definition NAV_ROUTES :: "NavRoute list" where
  "NAV_ROUTES =
     [\<lparr>nr_href = ''/track'', nr_label = ''Track'', nr_key = Some ''track'', nr_icon = True, nr_surfaces = [HeaderSurface, TabbarSurface]\<rparr>,
      \<lparr>nr_href = ''/compare'', nr_label = ''Compare'', nr_key = Some ''compare'', nr_icon = True, nr_surfaces = [HeaderSurface, TabbarSurface]\<rparr>,
      \<lparr>nr_href = ''/holdings'', nr_label = ''Holdings'', nr_key = None, nr_icon = True, nr_surfaces = [HeaderSurface, MoreSurface]\<rparr>,
      \<lparr>nr_href = ''/activity'', nr_label = ''Activity'', nr_key = Some ''activity'', nr_icon = True, nr_surfaces = [HeaderSurface, TabbarSurface]\<rparr>,
      \<lparr>nr_href = ''/instruments'', nr_label = ''Instruments'', nr_key = None, nr_icon = False, nr_surfaces = [MoreSurface]\<rparr>,
      \<lparr>nr_href = ''/settings'', nr_label = ''Settings'', nr_key = None, nr_icon = False, nr_surfaces = [MoreSurface]\<rparr>]"

definition navRoutesFor :: "NavSurface \<Rightarrow> NavRoute list" where
  "navRoutesFor surface = filter (\<lambda>r. surface \<in> set (nr_surfaces r)) NAV_ROUTES"

definition isRouteActive :: "jstring \<Rightarrow> jstring \<Rightarrow> bool" where
  "isRouteActive path href \<longleftrightarrow> path = href \<or> starts_with path (href @ ''/'')"

text \<open>A link with whether it is marked as the current one.\<close>

definition AppHeader :: "jstring \<Rightarrow> (jstring \<times> jstring \<times> bool) list" where
  "AppHeader path = map (\<lambda>r. (nr_label r, nr_href r, isRouteActive path (nr_href r))) (navRoutesFor HeaderSurface)"

definition isMoreActive :: "jstring \<Rightarrow> bool \<Rightarrow> bool" where
  "isMoreActive path moreOpen \<longleftrightarrow>
     moreOpen \<or> \<not> list_ex (\<lambda>route. path = route \<or> starts_with path (route @ ''/'')) [''/track'', ''/compare'', ''/activity'', ''/login'']"

definition BottomTabBar :: "jstring \<Rightarrow> bool \<Rightarrow> (jstring \<times> bool) list" where
  "BottomTabBar path moreOpen =
     map (\<lambda>r. (nr_label r, isRouteActive path (nr_href r))) (filter nr_icon (navRoutesFor TabbarSurface))
     @ [(''More'', isMoreActive path moreOpen)]"

text \<open>The links of the sheet; each of them also closes it.\<close>

definition MoreSheet :: "bool \<Rightarrow> (jstring \<times> jstring) list" where
  "MoreSheet isOpen = (if isOpen then map (\<lambda>r. (nr_label r, nr_href r)) (navRoutesFor MoreSurface) else [])"

definition ROUTE_TITLES :: "(jstring \<times> jstring) list" where
  "ROUTE_TITLES =
     [(''/track'', ''Track''), (''/compare'', ''Compare''), (''/holdings/active'', ''Active''), (''/holdings/closed'', ''Closed''),
      (''/holdings/i/'', ''Instrument''), (''/holdings'', ''Holdings''), (''/instruments'', ''Instruments''),
      (''/activity'', ''Activity''), (''/settings'', ''Settings''), (''/reconcile'', ''Reconcile'')]"

definition resolveTitle :: "jstring \<Rightarrow> jstring" where
  "resolveTitle path =
     (case find (\<lambda>(p, t). path = p \<or> starts_with path p) ROUTE_TITLES of Some (p, t) \<Rightarrow> t | None \<Rightarrow> ''Flowfolio'')"

text \<open>The layout of the holdings pages has neither heading nor tabs on the page of one instrument.\<close>

definition holdings_tab :: "jstring \<Rightarrow> jstring option" where
  "holdings_tab path =
     (if starts_with path ''/holdings/i/'' then None
      else Some (if path = ''/holdings'' \<or> path = ''/holdings/active'' then ''active''
                 else if path = ''/holdings/closed'' then ''closed'' else ''active''))"

definition HoldingsTabs :: "jstring \<Rightarrow> (jstring \<times> jstring \<times> bool) list" where
  "HoldingsTabs path =
     (case holdings_tab path of
        None \<Rightarrow> []
      | Some v \<Rightarrow> [(''Active'', ''/holdings/active'', v = ''active''), (''Closed'', ''/holdings/closed'', v = ''closed'')])"

definition HoldingsLayout :: "jstring \<Rightarrow> jstring list" where
  "HoldingsLayout path =
     (if starts_with path ''/holdings/i/'' then [] else ''Holdings'' # map fst (HoldingsTabs path))"

definition CurrencyChip :: "currency \<Rightarrow> currency ui list" where
  "CurrencyChip cur = map (\<lambda>c. Toggle (currency_text c) (cur = c) False c) [EUR, USD]"

definition DemoBanner :: "bool option \<Rightarrow> unit ui list" where
  "DemoBanner flag =
     only_if (flag = Some True)
       [Heading (''You'' @ [apostrophe] @ ''re exploring the Flowfolio demo''),
        Txt (''This is a synthetic sample portfolio, not real financial data. Add, edit, and explore freely '' @ em_dash
          @ '' the demo resets to its seed every few hours, so any changes are temporary.''),
        Anchor ''View Flowfolio on GitHub'' ''https://github.com/lukasbloom/flowfolio'']"

section \<open>Signing out\<close>

datatype logout_effect = ClearCache | PushRoute jstring | RefreshPage | Rejected thrown

text \<open>The \<open>finally\<close> runs either way; a failure is then thrown on, and nobody catches it.\<close>

definition handleLogout :: "thrown + unit \<Rightarrow> logout_effect list" where
  "handleLogout r =
     [ClearCache, PushRoute ''/login'', RefreshPage] @ (case r of Inl err \<Rightarrow> [Rejected err] | Inr _ \<Rightarrow> [])"

text \<open>What the browser asks for next; an answer without a failure has cleared the session cookie.\<close>

definition logout_request :: "thrown + unit \<Rightarrow> page_request \<Rightarrow> page_request" where
  "logout_request r req =
     req\<lparr>pathname := ''/login'', search := [], has_session := has_session req \<and> (case r of Inl _ \<Rightarrow> True | Inr _ \<Rightarrow> False)\<rparr>"

section \<open>The buttons that start a transaction\<close>

text \<open>
  The button of the header registers itself on a wide screen, the floating one on a narrow screen
  while the sheet is closed.  Each of them asks for the width of the screen on its own
  (\<open>lib/use-media-query.ts\<close>) and renders again when its own subscription is told of a change, so
  the two may render for the same change one after the other or in one commit.  When what an effect
  depends on has changed, its old clean-up runs before the new effect does; in one commit all clean-ups
  run before all effects.
\<close>

record screen =
  isDesktop :: bool
  moreOpen :: bool

definition ADD_TRIGGER :: nat where "ADD_TRIGGER = 0"

definition ADD_TRIGGER_FAB :: nat where "ADD_TRIGGER_FAB = 1"

definition AddButton_effect :: "screen \<Rightarrow> add_txn \<Rightarrow> add_txn" where
  "AddButton_effect s = (if \<not> isDesktop s then (\<lambda>st. st) else registerTrigger (Some ADD_TRIGGER))"

definition AddButton_cleanup :: "screen \<Rightarrow> add_txn \<Rightarrow> add_txn" where
  "AddButton_cleanup s = (if \<not> isDesktop s then (\<lambda>st. st) else registerTrigger None)"

definition AddTxnFab_effect :: "screen \<Rightarrow> add_txn \<Rightarrow> add_txn" where
  "AddTxnFab_effect s = (if isDesktop s \<or> moreOpen s then (\<lambda>st. st) else registerTrigger (Some ADD_TRIGGER_FAB))"

definition AddTxnFab_cleanup :: "screen \<Rightarrow> add_txn \<Rightarrow> add_txn" where
  "AddTxnFab_cleanup s = (if isDesktop s \<or> moreOpen s then (\<lambda>st. st) else registerTrigger None)"

text \<open>What the screen is, what each of the two last rendered for, and the flow they register with.\<close>

record triggers =
  on_screen :: screen
  header_saw :: screen
  fab_saw :: screen
  add_flow :: add_txn

definition triggers_mount :: "screen \<Rightarrow> add_txn \<Rightarrow> triggers" where
  "triggers_mount s f =
     \<lparr>on_screen = s, header_saw = s, fab_saw = s, add_flow = AddTxnFab_effect s (AddButton_effect s f)\<rparr>"

definition header_renders :: "triggers \<Rightarrow> triggers" where
  "header_renders t =
     (let s = on_screen t; s0 = header_saw t
      in t\<lparr>header_saw := s,
           add_flow := (if isDesktop s0 = isDesktop s then add_flow t else AddButton_effect s (AddButton_cleanup s0 (add_flow t)))\<rparr>)"

definition fab_renders :: "triggers \<Rightarrow> triggers" where
  "fab_renders t =
     (let s = on_screen t; s0 = fab_saw t
      in t\<lparr>fab_saw := s,
           add_flow := (if s0 = s then add_flow t else AddTxnFab_effect s (AddTxnFab_cleanup s0 (add_flow t)))\<rparr>)"

definition both_render :: "triggers \<Rightarrow> triggers" where
  "both_render t =
     (let s = on_screen t; header = (isDesktop (header_saw t) \<noteq> isDesktop s); fab = (fab_saw t \<noteq> s);
          f1 = (if header then AddButton_cleanup (header_saw t) (add_flow t) else add_flow t);
          f2 = (if fab then AddTxnFab_cleanup (fab_saw t) f1 else f1);
          f3 = (if header then AddButton_effect s f2 else f2)
      in t\<lparr>header_saw := s, fab_saw := s, add_flow := (if fab then AddTxnFab_effect s f3 else f3)\<rparr>)"

text \<open>The screen changes at any time, and what else the flow does leaves the registration alone.\<close>

inductive trigger_step :: "triggers \<Rightarrow> triggers \<Rightarrow> bool" where
  screen_changes: "trigger_step t (t\<lparr>on_screen := s\<rparr>)"
| header_told: "trigger_step t (header_renders t)"
| fab_told: "trigger_step t (fab_renders t)"
| both_told: "trigger_step t (both_render t)"
| flow_moves: "triggerRef f = triggerRef (add_flow t) \<Longrightarrow> trigger_step t (t\<lparr>add_flow := f\<rparr>)"

inductive trigger_reach :: "triggers \<Rightarrow> bool" where
  triggers_start: "triggerRef f = None \<Longrightarrow> trigger_reach (triggers_mount s f)"
| triggers_next: "trigger_reach t \<Longrightarrow> trigger_step t t' \<Longrightarrow> trigger_reach t'"

text \<open>The buttons on screen, as the elements they are.\<close>

definition AddButtons :: "screen \<Rightarrow> nat list" where
  "AddButtons s = (if isDesktop s then [ADD_TRIGGER] else if moreOpen s then [] else [ADD_TRIGGER_FAB])"

section \<open>Properties\<close>

lemma isMoreActive_routes:
  "isMoreActive path sheet \<longleftrightarrow> sheet \<or> \<not> list_ex (isRouteActive path) [''/track'', ''/compare'', ''/activity'', ''/login'']"
  by (simp add: isMoreActive_def isRouteActive_def)

text \<open>
  C36: The bar at the bottom of a narrow screen marks one destination.  A tab is marked on its own page
  and the pages below it, so on every page but the login form exactly one of the four items is marked,
  "More" on the pages that have no tab; on the login form, where the bar is not shown, none is.  While
  the sheet is open "More" is marked as well.
\<close>
theorem tab_bar_marks_one:
  "(let here = (\<lambda>p. path = p \<or> starts_with path (p @ ''/''))
    in map fst (BottomTabBar path sheet) = [''Track'', ''Compare'', ''Activity'', ''More'']
       \<and> list_all (\<lambda>(label, p). (label, here p) \<in> set (BottomTabBar path sheet))
           [(''Track'', ''/track''), (''Compare'', ''/compare''), (''Activity'', ''/activity'')]
       \<and> length (filter snd (BottomTabBar path False)) = (if here ''/login'' then 0 else 1))
    \<and> last (BottomTabBar path True) = (''More'', True)
    \<and> butlast (BottomTabBar path True) = butlast (BottomTabBar path False)"
proof -
  have tabs: "filter nr_icon (navRoutesFor TabbarSurface) = map ((!) NAV_ROUTES) [0, 1, 3]"
    by (simp add: navRoutesFor_def NAV_ROUTES_def)
  have apart: "\<not> (isRouteActive path (CHR ''/'' # a # s) \<and> isRouteActive path (CHR ''/'' # b # t))" if "a \<noteq> b" for a b s t
    using that by (cases path; cases "tl path") (auto simp: isRouteActive_def)
  have bar: "BottomTabBar path sh = [(''Track'', isRouteActive path ''/track''), (''Compare'', isRouteActive path ''/compare''),
      (''Activity'', isRouteActive path ''/activity''), (''More'', isMoreActive path sh)]" for sh
    by (simp add: BottomTabBar_def tabs NAV_ROUTES_def)
  have "length (filter snd (BottomTabBar path False)) = (if isRouteActive path ''/login'' then 0 else 1)"
    using apart [of "CHR ''t''" "CHR ''c''" "''rack''" "''ompare''"] apart [of "CHR ''t''" "CHR ''a''" "''rack''" "''ctivity''"]
      apart [of "CHR ''c''" "CHR ''a''" "''ompare''" "''ctivity''"] apart [of "CHR ''t''" "CHR ''l''" "''rack''" "''ogin''"]
      apart [of "CHR ''c''" "CHR ''l''" "''ompare''" "''ogin''"] apart [of "CHR ''a''" "CHR ''l''" "''ctivity''" "''ogin''"]
    by (auto simp: bar isMoreActive_routes)
  then show ?thesis
    unfolding Let_def isRouteActive_def [symmetric] by (simp add: bar isMoreActive_routes)
qed

text \<open>
  The title of a page is that of the longest matching entry.  The entries are searched in order,
  and whatever the path the first that matches is the longest that matches; a path that matches none
  gets the name of the program.
\<close>
theorem title_longest_prefix:
  "(\<exists>p t. (p, t) \<in> set ROUTE_TITLES \<and> starts_with path p \<and> resolveTitle path = t
      \<and> list_all (\<lambda>(q, u). length q \<le> length p) (filter (\<lambda>(q, u). starts_with path q) ROUTE_TITLES))
   \<or> resolveTitle path = ''Flowfolio'' \<and> list_all (\<lambda>(q, u). \<not> starts_with path q) ROUTE_TITLES"
proof -
  have pred: "(\<lambda>(p, t). path = p \<or> starts_with path p) = (\<lambda>x :: jstring \<times> jstring. starts_with path (fst x))"
    using starts_with_append [of path "[]"] by (auto simp: fun_eq_iff)
  note title = resolveTitle_def [of path, unfolded pred]
  show ?thesis
  proof (cases "find (\<lambda>x. starts_with path (fst x)) ROUTE_TITLES")
    case None
    then have "resolveTitle path = ''Flowfolio''" by (simp add: title)
    then show ?thesis using None by (auto simp: list_all_iff find_None_iff)
  next
    case (Some x)
    then obtain i where i: "i < length ROUTE_TITLES" "x = ROUTE_TITLES ! i" and whole: "starts_with path (fst x)"
      and before: "\<And>j. j < i \<Longrightarrow> \<not> starts_with path (fst (ROUTE_TITLES ! j))"
      by (auto simp: find_Some_iff)
    have order: "list_all (\<lambda>j. list_all (\<lambda>k. starts_with (fst (ROUTE_TITLES ! k)) (fst (ROUTE_TITLES ! j)) \<longrightarrow> k \<le> j)
        [0 ..< length ROUTE_TITLES]) [0 ..< length ROUTE_TITLES]"
      by code_simp
    have longest: "length q \<le> length (fst x)" if q: "(q, u) \<in> set ROUTE_TITLES" "starts_with path q" for q u
    proof (rule ccontr)
      assume "\<not> length q \<le> length (fst x)"
      obtain j where j: "j < length ROUTE_TITLES" "(q, u) = ROUTE_TITLES ! j" using q(1) by (metis in_set_conv_nth)
      obtain a b where "path = fst x @ a" "path = q @ b" using whole q(2) unfolding starts_with_iff by blast
      then have "fst x @ a = q @ b" by simp
      then have "starts_with q (fst x)"
        using \<open>\<not> length q \<le> length (fst x)\<close> by (auto simp: append_eq_append_conv2)
      moreover have "q = fst (ROUTE_TITLES ! j)" using j(2) by (metis fst_conv)
      ultimately have "j \<le> i" using order i j(1) by (simp add: list_all_iff)
      moreover have "j \<noteq> i" using \<open>\<not> length q \<le> length (fst x)\<close> i(2) j(2) by (metis fst_conv order_refl)
      ultimately show False using before [of j] j(2) q(2) by (metis fst_conv le_neq_implies_less)
    qed
    have "x \<in> set ROUTE_TITLES" using i by simp
    then show ?thesis
      using whole longest Some
      by (intro disjI1 exI [of _ "fst x"] exI [of _ "snd x"]) (auto simp: title list_all_iff split: prod.splits)
  qed
qed

definition owner :: "screen \<Rightarrow> nat option" where
  "owner s = (case AddButtons s of [] \<Rightarrow> None | b # _ \<Rightarrow> Some b)"

text \<open>Both buttons have rendered for the screen as it is.\<close>

definition both_seen :: "triggers \<Rightarrow> bool" where
  "both_seen t \<longleftrightarrow> isDesktop (header_saw t) = isDesktop (on_screen t) \<and> fab_saw t = on_screen t"

lemmas screen_defs = AddButton_effect_def AddButton_cleanup_def AddTxnFab_effect_def AddTxnFab_cleanup_def
  registerTrigger_def owner_def AddButtons_def ADD_TRIGGER_def ADD_TRIGGER_FAB_def

lemmas render_defs = triggers_mount_def header_renders_def fab_renders_def both_render_def

text \<open>What is registered belongs to a button that last rendered itself as the owner.\<close>

definition trigger_inv :: "triggers \<Rightarrow> bool" where
  "trigger_inv t \<longleftrightarrow>
     triggerRef (add_flow t) \<in> {None} \<union> (if isDesktop (header_saw t) then {Some ADD_TRIGGER} else {})
       \<union> (if isDesktop (fab_saw t) \<or> moreOpen (fab_saw t) then {} else {Some ADD_TRIGGER_FAB})"

lemma trigger_inv_step: "trigger_inv t \<Longrightarrow> trigger_step t t' \<Longrightarrow> trigger_inv t'"
  by (erule trigger_step.cases) (auto simp: trigger_inv_def render_defs screen_defs Let_def split: if_splits)

lemma trigger_reach_inv: "trigger_reach t \<Longrightarrow> trigger_inv t"
proof (induction rule: trigger_reach.induct)
  case (triggers_start f s)
  then show ?case by (auto simp: trigger_inv_def render_defs screen_defs)
qed (rule trigger_inv_step)

text \<open>
  C37: The focus never goes to a button that is hidden.  However the width of the screen and the sheet
  change, and in whatever order the two buttons render for it, once both have rendered at most one of
  them is on screen and what is registered is that one or nothing; both dialogs give the focus to what
  is registered when they are dismissed.  The button on screen is registered again when both render in
  one commit, and when the one that goes renders first; but when the button that comes renders first,
  the late clean-up of the other withdraws it, and no button gets the focus back.
\<close>
theorem trigger_on_screen:
  assumes "trigger_reach t" "both_seen t"
  shows "length (AddButtons (on_screen t)) \<le> 1
    \<and> triggerRef (add_flow t) \<in> {None, owner (on_screen t)}
    \<and> focused (picker_close_focus ((add_flow t)\<lparr>handedOff := False\<rparr>)) = triggerRef (add_flow t)
    \<and> focused (sheet_close_focus (add_flow t)) = triggerRef (add_flow t)
    \<and> (triggerRef (add_flow t) = owner (on_screen t) \<longrightarrow>
        triggerRef (add_flow (both_render (t\<lparr>on_screen := s\<rparr>))) = owner s
        \<and> (isDesktop s = isDesktop (on_screen t) \<longrightarrow> triggerRef (add_flow (fab_renders (t\<lparr>on_screen := s\<rparr>))) = owner s)
        \<and> (isDesktop s \<and> \<not> isDesktop (on_screen t) \<longrightarrow>
            triggerRef (add_flow (header_renders (fab_renders (t\<lparr>on_screen := s\<rparr>)))) = Some ADD_TRIGGER
            \<and> (\<not> moreOpen (on_screen t) \<longrightarrow>
                triggerRef (add_flow (fab_renders (header_renders (t\<lparr>on_screen := s\<rparr>)))) = None))
        \<and> (\<not> isDesktop s \<and> isDesktop (on_screen t) \<and> \<not> moreOpen s \<longrightarrow>
            triggerRef (add_flow (fab_renders (header_renders (t\<lparr>on_screen := s\<rparr>)))) = Some ADD_TRIGGER_FAB
            \<and> triggerRef (add_flow (header_renders (fab_renders (t\<lparr>on_screen := s\<rparr>)))) = None))"
proof -
  have inv: "trigger_inv t" by (rule trigger_reach_inv [OF assms(1)])
  have one: "length (AddButtons (on_screen t)) \<le> 1" by (simp add: AddButtons_def)
  have reg: "triggerRef (add_flow t) \<in> {None, owner (on_screen t)}"
    using inv assms(2) by (auto simp: trigger_inv_def both_seen_def owner_def AddButtons_def split: if_splits)
  have close: "focused (picker_close_focus ((add_flow t)\<lparr>handedOff := False\<rparr>)) = triggerRef (add_flow t)"
    "focused (sheet_close_focus (add_flow t)) = triggerRef (add_flow t)"
    by (simp_all add: picker_close_focus_def sheet_close_focus_def)
  obtain d m d' m' where screens: "on_screen t = \<lparr>isDesktop = d, moreOpen = m\<rparr>" "s = \<lparr>isDesktop = d', moreOpen = m'\<rparr>"
    by (cases "on_screen t"; cases s)
  then have saw: "isDesktop (header_saw t) = d" "fab_saw t = \<lparr>isDesktop = d, moreOpen = m\<rparr>"
    using assms(2) by (simp_all add: both_seen_def)
  have again: "triggerRef (add_flow (both_render (t\<lparr>on_screen := s\<rparr>))) = owner s"
      "isDesktop s = isDesktop (on_screen t) \<Longrightarrow> triggerRef (add_flow (fab_renders (t\<lparr>on_screen := s\<rparr>))) = owner s"
    if "triggerRef (add_flow t) = owner (on_screen t)"
    using that
    by (cases d; cases m; cases d'; cases m'; simp add: screens saw render_defs screen_defs Let_def)+
  have wide: "triggerRef (add_flow (header_renders (fab_renders (t\<lparr>on_screen := s\<rparr>)))) = Some ADD_TRIGGER"
      "\<not> moreOpen (on_screen t) \<Longrightarrow> triggerRef (add_flow (fab_renders (header_renders (t\<lparr>on_screen := s\<rparr>)))) = None"
    if "isDesktop s" "\<not> isDesktop (on_screen t)"
    using that by (cases m; simp add: screens saw render_defs screen_defs Let_def)+
  have narrow: "triggerRef (add_flow (fab_renders (header_renders (t\<lparr>on_screen := s\<rparr>)))) = Some ADD_TRIGGER_FAB"
      "triggerRef (add_flow (header_renders (fab_renders (t\<lparr>on_screen := s\<rparr>)))) = None"
    if "\<not> isDesktop s" "isDesktop (on_screen t)" "\<not> moreOpen s"
    using that by (cases m; simp add: screens saw render_defs screen_defs Let_def)+
  show ?thesis
    using one reg close by (intro conjI impI) (simp_all add: again wide narrow)
qed

definition narrow_screen :: screen where
  "narrow_screen = \<lparr>isDesktop = False, moreOpen = False\<rparr>"

definition flow_before :: add_txn where
  "flow_before = \<lparr>flow = Idle, triggerRef = None, focused = None, handedOff = False, focusedIndex = 0, toasts = [], stale = []\<rparr>"

theorem trigger_on_screen_witness:
  "triggerRef (add_flow (triggers_mount narrow_screen flow_before)) = Some ADD_TRIGGER_FAB
   \<and> triggerRef (add_flow (both_render ((triggers_mount narrow_screen flow_before)\<lparr>on_screen := narrow_screen\<lparr>isDesktop := True\<rparr>\<rparr>)))
      = Some ADD_TRIGGER
   \<and> triggerRef (add_flow (fab_renders (header_renders
        ((triggers_mount narrow_screen flow_before)\<lparr>on_screen := narrow_screen\<lparr>isDesktop := True\<rparr>\<rparr>)))) = None"
proof -
  have reach: "trigger_reach (triggers_mount narrow_screen flow_before)" by (rule triggers_start) (simp add: flow_before_def)
  have "both_seen (triggers_mount narrow_screen flow_before)" by code_simp
  moreover have "triggerRef (add_flow (triggers_mount narrow_screen flow_before)) = Some ADD_TRIGGER_FAB"
    "owner narrow_screen = Some ADD_TRIGGER_FAB" "owner (narrow_screen\<lparr>isDesktop := True\<rparr>) = Some ADD_TRIGGER" by code_simp+
  ultimately show ?thesis
    using trigger_on_screen [OF reach, of "narrow_screen\<lparr>isDesktop := True\<rparr>"]
    by (simp add: triggers_mount_def narrow_screen_def)
qed

text \<open>
  Signing out.  Where the browser ends: at the login form, or in a demo at a new session, when the
  call succeeded; when it failed the session is still there and the visitor is back at the tracker.
\<close>

lemma logout_lands:
  assumes "has_session req"
  shows "follow (Suc (Suc (Suc (Suc n)))) env net (logout_request r req) =
    Some (case r of
        Inr _ \<Rightarrow> if fetchDemo env net (logout_request r req) then (''/api/auth/demo-login'', []) else (''/login'', [])
      | Inl _ \<Rightarrow> (''/track'', []))"
  using assms follow_login [of "logout_request r req" "Suc (Suc n)" env net]
  by (auto simp: logout_request_def follow_track matcher_routes split: sum.splits simp del: follow.simps)

end
