(* ===== verification/Backfill.thy ===== *)
theory Backfill
  imports Instruments
begin

text \<open>
  The buttons that fetch price history: for one instrument (\<open>instruments/BackfillButton.tsx\<close>) and for
  all (\<open>settings/BackfillAllButton.tsx\<close>, in \<open>settings/PriceHistorySection.tsx\<close>).  Both ask in a
  dialog first, send one request, and report its answer; what the answers say is modelled with the
  instruments.
\<close>

section \<open>A button with its dialog\<close>

record backfill_control =
  bc_confirmOpen :: bool
  bc_pending :: bool
  bc_calls :: "jstring list"
  bc_toasts :: "toast list"
  bc_refetched :: "jstring list list"

definition backfill_first :: backfill_control where
  "backfill_first = \<lparr>bc_confirmOpen = False, bc_pending = False, bc_calls = [], bc_toasts = [], bc_refetched = []\<rparr>"

datatype backfill_event = OpenBackfill | InDialog confirm_event

definition BackfillButton ::
  "(jstring \<Rightarrow> jstring) \<Rightarrow> bool \<Rightarrow> jstring \<Rightarrow> confirm_mode \<Rightarrow> backfill_control \<Rightarrow> backfill_event ui list" where
  "BackfillButton day_text hidden title m st =
     only_if (\<not> hidden)
       ([Control title (bc_pending st) OpenBackfill]
        @ only_if (bc_confirmOpen st) (map (map_ui InDialog) (BackfillConfirmDialog day_text m (bc_pending st))))"

text \<open>The dialog of one instrument: its fallbacks for what the caller leaves out.\<close>

definition single_mode :: "jstring option \<Rightarrow> jstring option \<Rightarrow> int option \<Rightarrow> confirm_mode" where
  "single_mode sy earliest calls = SingleConfirm (nullish sy ''this instrument'') earliest (nullish calls 1)"

definition backfill_path :: "jstring \<Rightarrow> jstring" where
  "backfill_path instrumentId = ''/api/instruments/'' @ instrumentId @ ''/backfill''"

definition bulk_path :: jstring where
  "bulk_path = ''/api/instruments/backfill-all''"

text \<open>The summary of the dialog for all instruments is asked for while the dialog is open.\<close>

definition preview_request :: "backfill_control \<Rightarrow> jstring option" where
  "preview_request st = (if bc_confirmOpen st then Some ''/api/instruments/backfill-preview'' else None)"

fun backfill_do :: "jstring \<Rightarrow> backfill_event \<Rightarrow> backfill_control \<Rightarrow> backfill_control" where
  "backfill_do path OpenBackfill st = st\<lparr>bc_confirmOpen := True\<rparr>"
| "backfill_do path (InDialog CancelBackfill) st = st\<lparr>bc_confirmOpen := False\<rparr>"
| "backfill_do path (InDialog BackfillNow) st = st\<lparr>bc_confirmOpen := False, bc_pending := True, bc_calls := bc_calls st @ [path]\<rparr>"

definition backfill_settles :: "toast \<times> jstring list list \<Rightarrow> backfill_control \<Rightarrow> backfill_control" where
  "backfill_settles r st =
     st\<lparr>bc_pending := False, bc_toasts := bc_toasts st @ [fst r], bc_refetched := bc_refetched st @ snd r\<rparr>"

definition single_answer :: "jstring \<Rightarrow> thrown + BackfillResponse \<Rightarrow> toast \<times> jstring list list" where
  "single_answer i r = (case r of Inl err \<Rightarrow> (button_failure err, []) | Inr b \<Rightarrow> backfill_success (button_backfill_keys i) b)"

definition bulk_answer :: "thrown + BulkBackfillResponse \<Rightarrow> toast \<times> jstring list list" where
  "bulk_answer r = (case r of Inl err \<Rightarrow> (bulk_failure err, []) | Inr b \<Rightarrow> bulk_success b)"

definition BackfillAllButton :: "(jstring \<Rightarrow> jstring) \<Rightarrow> BackfillPreview option \<Rightarrow> bool \<Rightarrow> bool \<Rightarrow> backfill_control \<Rightarrow> backfill_event ui list" where
  "BackfillAllButton day_text preview isLoading isError st =
     BackfillButton day_text False ''Backfill all prices'' (BulkConfirm preview isLoading isError) st"

definition PriceHistorySection :: "backfill_event ui list \<Rightarrow> backfill_event ui list" where
  "PriceHistorySection button =
     [Heading ''Price history'',
      Txt (''Refresh historical price data from your stock and crypto providers. ''
        @ ''Fetches one daily quote per instrument since your first transaction.'')] @ button"

text \<open>\<open>answers\<close> are the answers the endpoint may give; Escape closes the dialog.\<close>

inductive backfill_step ::
  "jstring \<Rightarrow> (toast \<times> jstring list list) set \<Rightarrow> backfill_control \<Rightarrow> backfill_control \<Rightarrow> bool" for path answers where
  backfill_press: "e \<in> set (on_offer (BackfillButton day_text hidden title m st)) \<Longrightarrow> backfill_step path answers st (backfill_do path e st)"
| backfill_escape: "backfill_step path answers st (st\<lparr>bc_confirmOpen := False\<rparr>)"
| backfill_answer: "bc_pending st \<Longrightarrow> r \<in> answers \<Longrightarrow> backfill_step path answers st (backfill_settles r st)"

inductive backfill_reach :: "jstring \<Rightarrow> (toast \<times> jstring list list) set \<Rightarrow> backfill_control \<Rightarrow> bool" for path answers where
  backfill_start: "backfill_reach path answers backfill_first"
| backfill_next: "backfill_reach path answers st \<Longrightarrow> backfill_step path answers st st' \<Longrightarrow> backfill_reach path answers st'"

section \<open>Properties\<close>

lemma events_map: "control_events (map_ui f u) = map f (control_events u)"
proof (induction u)
  case (Section us)
  then have "concat (map (\<lambda>u. control_events (map_ui f u)) us) = map f (concat (map control_events us))"
    by (induction us) simp_all
  then show ?case by (simp add: comp_def on_offer_def offers_section)
qed simp_all

lemma offers_renamed: "on_offer (map (map_ui f) us) = map f (on_offer us)"
  by (induction us) (simp_all add: ui_simps events_map)

lemma backfill_offers:
  "OpenBackfill \<in> set (on_offer (BackfillButton day_text hidden title m st)) \<longleftrightarrow> \<not> hidden \<and> \<not> bc_pending st"
  "InDialog BackfillNow \<in> set (on_offer (BackfillButton day_text hidden title m st)) \<longleftrightarrow>
     \<not> hidden \<and> bc_confirmOpen st \<and> \<not> action_disabled m (bc_pending st)"
  using confirm_offered(1) [of day_text m "bc_pending st"]
  by (auto simp: BackfillButton_def ui_simps offers_renamed simp del: offers_map)

definition backfill_ok :: "jstring \<Rightarrow> backfill_control \<Rightarrow> bool" where
  "backfill_ok path st \<longleftrightarrow>
     \<not> (bc_confirmOpen st \<and> bc_pending st) \<and> set (bc_calls st) \<subseteq> {path}
     \<and> length (bc_calls st) = length (bc_toasts st) + (if bc_pending st then 1 else 0)"

text \<open>
  A backfill is sent only from its dialog, one at a time, and each is reported once: the dialog is
  never open while a request is under way, and there is one toast for every request that has been
  answered.
\<close>
theorem backfills_confirmed:
  "backfill_reach path answers st \<Longrightarrow> backfill_ok path st"
proof (induction rule: backfill_reach.induct)
  case (backfill_next st st')
  from backfill_next.hyps(2) show ?case
  proof cases
    case (backfill_press e day_text hidden title m)
    show ?thesis
    proof (cases e)
      case OpenBackfill
      then show ?thesis using backfill_press backfill_next.IH by (simp add: backfill_offers backfill_ok_def)
    next
      case (InDialog c)
      then show ?thesis using backfill_press backfill_next.IH
        by (cases c) (auto simp: backfill_offers action_disabled_def backfill_ok_def)
    qed
  qed (use backfill_next.IH in \<open>auto simp: backfill_ok_def backfill_settles_def\<close>)
qed (simp add: backfill_ok_def backfill_first_def)

text \<open>A summary that failed or is still loading cannot be confirmed.\<close>

lemma bulk_needs_summary:
  "InDialog BackfillNow \<in> set (on_offer (BackfillAllButton day_text preview isLoading isError st)) \<longleftrightarrow>
     bc_confirmOpen st \<and> \<not> bc_pending st \<and> \<not> isLoading \<and> \<not> isError"
  by (auto simp: BackfillAllButton_def backfill_offers action_disabled_def)

end
