(* ===== verification/ReconDialogs.thy ===== *)
theory ReconDialogs
  imports Reconciliation Instruments
begin

text \<open>
  The dialogs of a reconciliation as components of their own: the drawer for a missing transaction
  (\<open>reconciliation/RejectDriftDrawer.tsx\<close>), the dialog that dismisses a drift
  (\<open>DismissDriftDialog.tsx\<close>), the picker of instruments (\<open>AddInstrumentRow.tsx\<close>), and the two calls
  of the page (\<open>lib/reconciliation-api.ts\<close>).  The form they belong to takes what they hand over.
\<close>

section \<open>The drawer for a missing transaction\<close>

datatype drawer_event = StageTxn | CancelDrawer

fun reject_type_text :: "RejectTxnType \<Rightarrow> jstring" where
  "reject_type_text BuyTxn = ''buy''"
| "reject_type_text SellTxn = ''sell''"
| "reject_type_text SpendTxn = ''spend''"

definition RejectDriftDrawer :: "jstring \<Rightarrow> RejectContext \<Rightarrow> DrawerState \<Rightarrow> drawer_event ui list" where
  "RejectDriftDrawer accountName ctx d =
     [Heading ''Add missing transaction'',
      Txt (''For '' @ rc_instrumentSymbol ctx @ '' in '' @ accountName @ '' on '' @ rc_snapshotDate ctx @ ''.''),
      Txt (''Type: '' @ reject_type_text (inferredType (rc_snapshotQty ctx) (rc_appQty ctx))),
      Txt (''Quantity: '' @ number_to_str (absDelta (rc_snapshotQty ctx) (rc_appQty ctx))),
      Txt (''Date: '' @ rc_snapshotDate ctx),
      Input ''Unit price'' (dw_unitPrice d) False False,
      Choice ''Currency'' (currency_text (dw_priceCurrency d)) currency_options False]
     @ only_if (dw_priceCurrency d = USD) [Input ''FX rate (USD per 1 EUR; leave blank to fetch)'' (dw_fxRate d) False False]
     @ [Input (''Fee ('' @ euro_sign @ '')'') (dw_feeEur d) False False, Input ''Note'' (dw_notes d) False False,
        Txt ''This transaction will be linked to this reconciliation event for audit history when you save.'',
        Control ''Cancel'' False CancelDrawer,
        Control ''Stage txn'' (dw_unitPrice d = [] \<or> \<not> hasDriftForButton (rc_snapshotQty ctx) (rc_appQty ctx)) StageTxn]"

text \<open>What the form hears of it.\<close>

fun drawer_tells :: "DrawerState \<Rightarrow> drawer_event \<Rightarrow> FormEvent" where
  "drawer_tells d StageTxn = StageClick d"
| "drawer_tells d CancelDrawer = RejectCancel"

section \<open>The dialog that dismisses a drift\<close>

datatype dismiss_event = ConfirmDismiss | CancelDismiss

definition DismissDriftDialog :: "jstring \<Rightarrow> jstring \<Rightarrow> jstring \<Rightarrow> dismiss_event ui list" where
  "DismissDriftDialog sy snapshotDate reason =
     [Heading ''Dismiss this drift?'',
      Txt (''Dismissing leaves a zero-quantity adjustment record so the audit trail shows you reviewed this '' @ sy @ '' drift on ''
        @ snapshotDate @ ''.''),
      Input ''Reason (optional)'' reason False False, Control ''Cancel'' False CancelDismiss,
      Control ''Dismiss drift'' False ConfirmDismiss]"

fun dismiss_tells :: "jstring \<Rightarrow> dismiss_event \<Rightarrow> FormEvent" where
  "dismiss_tells reason ConfirmDismiss = DismissConfirm reason"
| "dismiss_tells reason CancelDismiss = DismissCancel"

section \<open>The picker of instruments\<close>

record picker =
  pk_open :: bool
  pk_createOpen :: bool
  pk_query :: jstring

definition picker_first :: picker where
  "picker_first = \<lparr>pk_open = False, pk_createOpen = False, pk_query = []\<rparr>"

datatype picker_event = TogglePicker | SelectInstrument PickInstrument | NewInstrument

definition AddInstrumentRow :: "(jstring \<Rightarrow> jstring) \<Rightarrow> PickInstrument list \<Rightarrow> jstring list \<Rightarrow> picker \<Rightarrow> picker_event ui list" where
  "AddInstrumentRow lower instruments exclude st =
     Control (''Add a holding'' @ ellipsis) False TogglePicker
     # only_if (pk_open st)
         ([Input [] (pk_query st) False False]
          @ (case picker_filtered lower instruments exclude (pk_query st) of
               [] \<Rightarrow> [Txt (if pk_query st \<noteq> [] then ''No instruments match '' @ CHR 0x22 # pk_query st @ CHR 0x22 # ''.''
                          else ''No more instruments to add.'')]
             | is \<Rightarrow> map (\<lambda>i. Control (pi_symbol i @ '' '' @ pi_name i) False (SelectInstrument i)) is)
          @ [Control (''New instrument'' @ ellipsis) False NewInstrument])"

text \<open>A created instrument is added from the answer itself, under its base currency.\<close>

definition created_pick :: "InstrumentResponse \<Rightarrow> PickInstrument" where
  "created_pick r =
     \<lparr>pi_id = ir_id r, pi_symbol = ir_symbol r, pi_name = ir_name r, pi_instrument_type = Some (ir_instrument_type r),
      pi_display_decimals = ir_display_decimals r, pi_price_currency = Some (ir_base_currency r)\<rparr>"

fun picker_do :: "picker_event \<Rightarrow> picker \<Rightarrow> picker \<times> FormEvent list" where
  "picker_do TogglePicker st = (st\<lparr>pk_open := \<not> pk_open st\<rparr>, [])"
| "picker_do (SelectInstrument i) st = (st\<lparr>pk_query := [], pk_open := False\<rparr>, [AddHolding i])"
| "picker_do NewInstrument st = (st\<lparr>pk_open := False, pk_createOpen := True\<rparr>, [])"

definition picker_created :: "InstrumentResponse \<Rightarrow> picker \<Rightarrow> picker \<times> FormEvent list" where
  "picker_created r st = (st\<lparr>pk_createOpen := False\<rparr>, [AddHolding (created_pick r)])"

section \<open>The calls\<close>

definition fetchPreview :: "jstring \<Rightarrow> jstring \<Rightarrow> jstring" where
  "fetchPreview accountId snapshotDate =
     ''/api/reconciliation/preview?'' @ query_text [(''account_id'', accountId), (''snapshot_date'', snapshotDate)]"

fun action_text :: "DriftAction \<Rightarrow> jstring" where
  "action_text Accept = ''accept''"
| "action_text Reject = ''reject''"
| "action_text Dismiss = ''dismiss''"
| "action_text Matched = ''matched''"

text \<open>A member that is \<open>null\<close> is sent, one that was never set is not.\<close>

definition opt_json :: "jstring option \<Rightarrow> json" where
  "opt_json v = (case v of Some r \<Rightarrow> JStr r | None \<Rightarrow> JNull)"

definition decision_json :: "DriftDecision \<Rightarrow> json" where
  "decision_json d =
     JObj ([(''instrument_id'', JStr (dd_instrument_id d)), (''action'', JStr (action_text (dd_action d)))]
       @ (case dd_action d of
            Reject \<Rightarrow> [(''rejected_txn_id'', opt_json (dd_rejected_txn_id d))]
          | Dismiss \<Rightarrow> [(''dismiss_reason'', opt_json (dd_dismiss_reason d))]
          | _ \<Rightarrow> []))"

definition reject_json :: "RejectedTxnPayload \<Rightarrow> json" where
  "reject_json p =
     JObj [(''instrument_id'', JStr (rt_instrument_id p)), (''txn_type'', JStr (reject_type_text (rt_txn_type p))),
       (''txn_date'', JStr (rt_txn_date p)), (''unit_price'', JStr (rt_unit_price p)),
       (''price_currency'', JStr (currency_text (rt_price_currency p))), (''fx_rate_to_eur'', opt_json (rt_fx_rate_to_eur p)),
       (''fee_eur'', JStr (rt_fee_eur p)), (''notes'', opt_json (rt_notes p))]"

definition postReconciliationEvent :: "ReconciliationCreate \<Rightarrow> api_call" where
  "postReconciliationEvent p =
     \<lparr>call_method = ''POST'', call_path = ''/api/reconciliation/events'',
      call_body = JObj [(''account_id'', JStr (rx_account_id p)), (''snapshot_date'', JStr (rx_snapshot_date p)),
        (''notes'', opt_json (rx_notes p)),
        (''holdings'', JArr (map (\<lambda>h. JObj [(''instrument_id'', JStr (hs_instrument_id h)), (''snapshot_qty'', JStr (hs_snapshot_qty h))])
           (rx_holdings p))),
        (''decisions'', JArr (map decision_json (rx_decisions p))), (''rejected_txns'', JArr (map reject_json (rx_rejected_txns p)))]\<rparr>"

section \<open>The dialogs and the form\<close>

lemma drawer_offers:
  "StageTxn \<in> set (on_offer (RejectDriftDrawer accountName ctx d)) \<longleftrightarrow> stage_enabled ctx d"
  by (auto simp: RejectDriftDrawer_def stage_enabled_def ui_simps)

lemma picker_offers:
  "SelectInstrument i \<in> set (on_offer (AddInstrumentRow lower instruments exclude st)) \<longleftrightarrow>
     pk_open st \<and> i \<in> set (picker_filtered lower instruments exclude (pk_query st))"
proof -
  have "on_offer (case is of [] \<Rightarrow> [Txt t] | is \<Rightarrow> map (\<lambda>i. Control (pi_symbol i @ '' '' @ pi_name i) False (SelectInstrument i)) is)
      = map SelectInstrument is" for t "is"
    by (cases "is") (simp_all add: ui_simps comp_def)
  then show ?thesis by (auto simp: AddInstrumentRow_def ui_simps)
qed

text \<open>
  The form takes what its dialogs hand over: every event a dialog on screen sends is a step of the
  form, the picker offers no instrument that is in the table already, and the drawer and the dialog
  close afterwards.
\<close>
theorem dialogs_fit_form:
  shows "rf_rejectCtx s = Some ctx \<Longrightarrow> e \<in> set (on_offer (RejectDriftDrawer accountName ctx d)) \<Longrightarrow>
      \<exists>s' out. form_step acc s (drawer_tells d e) = Some (s', out) \<and> rf_rejectCtx s' = None"
    and "rf_dismissCtx s = Some dc \<Longrightarrow>
      \<exists>s' out. form_step acc s (dismiss_tells reason b) = Some (s', out) \<and> rf_dismissCtx s' = None"
    and "table_active s \<Longrightarrow> c \<in> set (on_offer (AddInstrumentRow lower instruments (excludeIds s) pk)) \<Longrightarrow>
      list_all (\<lambda>ev. form_step acc s ev \<noteq> None) (snd (picker_do c pk))"
    and "table_active s \<Longrightarrow> ir_id r \<notin> set (excludeIds s) \<Longrightarrow>
      list_all (\<lambda>ev. form_step acc s ev \<noteq> None) (snd (picker_created r pk))"
proof -
  show "\<exists>s' out. form_step acc s (drawer_tells d e) = Some (s', out) \<and> rf_rejectCtx s' = None"
    if "rf_rejectCtx s = Some ctx" "e \<in> set (on_offer (RejectDriftDrawer accountName ctx d))"
    using that drawer_offers by (cases e) (auto simp: quiet_def onStage_def)
  show "\<exists>s' out. form_step acc s (dismiss_tells reason b) = Some (s', out) \<and> rf_dismissCtx s' = None" if "rf_dismissCtx s = Some dc"
    using that by (cases b) (auto simp: quiet_def onConfirmDismiss_def)
  show "list_all (\<lambda>ev. form_step acc s ev \<noteq> None) (snd (picker_do c pk))"
    if "table_active s" "c \<in> set (on_offer (AddInstrumentRow lower instruments (excludeIds s) pk))"
    using that picker_offers [of _ lower instruments "excludeIds s" pk] by (cases c) (auto simp: picker_filtered_def Let_def)
  show "list_all (\<lambda>ev. form_step acc s ev \<noteq> None) (snd (picker_created r pk))" if "table_active s" "ir_id r \<notin> set (excludeIds s)"
    using that by (simp add: picker_created_def created_pick_def)
qed

text \<open>The price of a missing transaction is not checked: any text can be staged.\<close>

lemma unit_price_unchecked:
  assumes "hasDriftForButton (rc_snapshotQty ctx) (rc_appQty ctx)" "t \<noteq> []"
  shows "StageTxn \<in> set (on_offer (RejectDriftDrawer accountName ctx (drawer_reset\<lparr>dw_unitPrice := t\<rparr>)))"
    "pr_unit_price (fst (handleStage ctx (drawer_reset\<lparr>dw_unitPrice := t\<rparr>))) = t"
  using assms by (simp_all add: drawer_offers stage_enabled_def handleStage_def)

end
