(* ===== verification/Frame.thy ===== *)
theory Frame
  imports Navigation FormKit
begin

text \<open>
  The frame of pages and forms: the parts of a form field (\<open>ui/form.tsx\<close>), the dialog that is a
  drawer on a narrow screen (\<open>ui/responsive-dialog.tsx\<close>, \<open>lib/use-media-query.ts\<close>), the banner that
  carries an action (\<open>ui/action-banner.tsx\<close>), the placeholder of a range not yet chosen
  (\<open>charts/CustomRangeEmpty.tsx\<close>), and the pages that are made of other components
  (\<open>app/(app)/settings\<close>, \<open>reconcile\<close>, \<open>track\<close>).
\<close>

section \<open>A form field\<close>

record form_field =
  ff_name :: jstring
  ff_item :: jstring
  ff_error :: "jstring option"

definition useFormField :: "jstring \<Rightarrow> field_error list \<Rightarrow> jstring \<Rightarrow> form_field" where
  "useFormField name errs item =
     \<lparr>ff_name = name, ff_item = item, ff_error = map_option snd (find (\<lambda>e. fst e = name) errs)\<rparr>"

definition formItemId :: "form_field \<Rightarrow> jstring" where
  "formItemId f = ff_item f @ ''-form-item''"

definition formDescriptionId :: "form_field \<Rightarrow> jstring" where
  "formDescriptionId f = ff_item f @ ''-form-item-description''"

definition formMessageId :: "form_field \<Rightarrow> jstring" where
  "formMessageId f = ff_item f @ ''-form-item-message''"

record form_control =
  fc_id :: jstring
  fc_describedby :: jstring
  fc_invalid :: bool

definition FormControl :: "form_field \<Rightarrow> form_control" where
  "FormControl f =
     \<lparr>fc_id = formItemId f,
      fc_describedby = (if ff_error f = None then formDescriptionId f else formDescriptionId f @ '' '' @ formMessageId f),
      fc_invalid = (ff_error f \<noteq> None)\<rparr>"

text \<open>A label: the element it is for, and whether it is shown as wrong.\<close>

definition FormLabel :: "form_field \<Rightarrow> jstring \<times> bool" where
  "FormLabel f = (formItemId f, ff_error f \<noteq> None)"

text \<open>The message with its id; \<open>children\<close> is shown where there is no error.\<close>

definition FormMessage :: "form_field \<Rightarrow> jstring \<Rightarrow> (jstring \<times> jstring) option" where
  "FormMessage f children =
     (let body = (case ff_error f of Some m \<Rightarrow> m | None \<Rightarrow> children) in if body = [] then None else Some (formMessageId f, body))"

section \<open>A dialog or a drawer\<close>

text \<open>\<open>matches\<close> is what the browser answers to a query; the server has no screen and answers no.\<close>

definition useMediaQuery :: "(jstring \<Rightarrow> bool) option \<Rightarrow> jstring \<Rightarrow> bool" where
  "useMediaQuery matches query = (case matches of None \<Rightarrow> False | Some m \<Rightarrow> m query)"

definition RESPONSIVE_DIALOG_BREAKPOINT :: jstring where
  "RESPONSIVE_DIALOG_BREAKPOINT = ''(min-width: 768px)''"

datatype shell = DialogShell | DrawerShell

definition useResponsiveDialogDesktop :: "(jstring \<Rightarrow> bool) option \<Rightarrow> bool" where
  "useResponsiveDialogDesktop matches = useMediaQuery matches RESPONSIVE_DIALOG_BREAKPOINT"

definition ResponsiveDialog :: "(jstring \<Rightarrow> bool) option \<Rightarrow> bool \<Rightarrow> (shell \<times> bool)" where
  "ResponsiveDialog matches is_open = ((if useResponsiveDialogDesktop matches then DialogShell else DrawerShell), is_open)"

definition ResponsiveDialogHeader :: "(jstring \<Rightarrow> bool) option \<Rightarrow> shell" where
  "ResponsiveDialogHeader matches = (if useResponsiveDialogDesktop matches then DialogShell else DrawerShell)"

text \<open>
  What is rendered inside keeps its state from one rendering to the next while the element around it
  is of the same kind and open; otherwise it is mounted anew and starts from its first state.
\<close>

definition child_state :: "'s \<Rightarrow> shell \<times> bool \<Rightarrow> shell \<times> bool \<Rightarrow> 's \<Rightarrow> 's" where
  "child_state first old new s = (if old = new \<and> snd new then s else first)"

section \<open>Banners, placeholders and pages\<close>

definition ActionBanner :: "jstring \<Rightarrow> 'e ui list \<Rightarrow> 'e ui list \<Rightarrow> 'e ui list" where
  "ActionBanner title body action = [Heading title] @ body @ action"

definition CustomRangeEmpty :: "'e ui list" where
  "CustomRangeEmpty = [Txt ''Pick a custom range'', Txt ''Open the Custom pill and choose a from-date and to-date.'']"

datatype settings_part =
    AccountsPart | PriceHistoryPart | ConcentrationPart | MutedPart | UnclassifiedPart | UpdatesPart | SecurityPart | DataSourcesPart

definition SettingsPage :: "settings_part list" where
  "SettingsPage =
     [AccountsPart, PriceHistoryPart, ConcentrationPart, MutedPart, UnclassifiedPart, UpdatesPart, SecurityPart, DataSourcesPart]"

text \<open>The page of a reconciliation: without an account the visitor is sent to the settings.\<close>

datatype page_result = ShowReconciliation jstring | RedirectTo jstring

definition ReconcilePage :: "jstring option \<Rightarrow> page_result" where
  "ReconcilePage account = (case Option.bind account or_null of Some a \<Rightarrow> ShowReconciliation a | None \<Rightarrow> RedirectTo ''/settings'')"

datatype dashboard_part = BannerPart | NetWorthPart | PerformancePart

definition Dashboard :: "dashboard_part list" where
  "Dashboard = [BannerPart, NetWorthPart, PerformancePart]"

section \<open>Properties\<close>

text \<open>
  The parts of a field agree: a control is marked as wrong exactly when its message shows an error
  that is not empty, and it then refers to that message.
\<close>

lemma field_parts_agree:
  assumes "\<forall>e \<in> set errs. snd e \<noteq> []" "f = useFormField name errs item"
  shows "fc_invalid (FormControl f) \<longleftrightarrow> (\<exists>m. FormMessage f [] = Some (formMessageId f, m) \<and> (name, m) \<in> set errs)"
    "fc_invalid (FormControl f) \<Longrightarrow> sublist (formMessageId f) (fc_describedby (FormControl f))"
    "fst (FormLabel f) = fc_id (FormControl f)"
proof -
  show "fst (FormLabel f) = fc_id (FormControl f)" by (simp add: FormLabel_def FormControl_def)
  show "sublist (formMessageId f) (fc_describedby (FormControl f))" if "fc_invalid (FormControl f)"
  proof -
    have "fc_describedby (FormControl f) = (formDescriptionId f @ '' '') @ formMessageId f @ []"
      using that by (auto simp: FormControl_def)
    then show ?thesis unfolding sublist_def by blast
  qed
  show "fc_invalid (FormControl f) \<longleftrightarrow> (\<exists>m. FormMessage f [] = Some (formMessageId f, m) \<and> (name, m) \<in> set errs)"
  proof (cases "find (\<lambda>e. fst e = name) errs")
    case None
    then show ?thesis by (simp add: assms(2) FormControl_def FormMessage_def useFormField_def)
  next
    case (Some e)
    then have "e \<in> set errs" "fst e = name" by (auto simp: find_Some_iff)
    then show ?thesis using Some assms(1) by (cases e) (auto simp: assms(2) FormControl_def FormMessage_def useFormField_def Let_def)
  qed
qed

text \<open>Header, title and description follow the choice of the shell around them.\<close>

lemma shell_shared: "ResponsiveDialogHeader matches = fst (ResponsiveDialog matches b)"
  by (simp add: ResponsiveDialogHeader_def ResponsiveDialog_def)

text \<open>When an open form crosses the breakpoint, what was typed is lost.\<close>

lemma resize_discards:
  assumes "useMediaQuery (Some before) RESPONSIVE_DIALOG_BREAKPOINT \<noteq> useMediaQuery (Some after) RESPONSIVE_DIALOG_BREAKPOINT"
  shows "child_state first (ResponsiveDialog (Some before) True) (ResponsiveDialog (Some after) True) s = first"
  using assms by (auto simp: child_state_def ResponsiveDialog_def useResponsiveDialogDesktop_def)

end
