(* ===== verification/QueryCache.thy ===== *)
theory QueryCache
  imports Reconciliation PriceChart Ledger Settings Updates Tags Closed Analytics InstrumentForms Concentration
    Histories Backfill ReconDialogs Accounts
begin

text \<open>
  The answers the views share: every query of the program with its key and its request
  (the \<open>useQuery\<close> calls of the components and \<open>lib/query-client.tsx\<close>), what each saved change makes
  stale, what it changes in the back end, and the cache between them as a state machine.  The cache is the query library's: an entry
  per key, its age, and a mark that a change was saved; a view asks when its entry is missing, marked
  or too old, and shows the entry otherwise.  An answer is computed when it arrives.
\<close>

section \<open>The queries\<close>

text \<open>
  One constructor per use, with what the component knows.  The list of the ledger and the trades of the
  price chart share a key, and so do the instruments of the pages and of the net worth chart.
\<close>

datatype 'd app_query =
    QTransaction jstring
  | QAudit jstring
  | QTransactions "jstring option" jstring
  | QPriceTransactions jstring
  | QAccounts
  | QInstruments
  | QChartInstruments
  | QHeldInstruments
  | QInstrument jstring
  | QInstrumentHoldings jstring
  | QFxRate jstring
  | QFxHistory fx_history
  | QPerf PerfTableProps
  | QOpenPerf currency
  | QNetWorth currency "'d nw_props"
  | QClosed currency "jstring option"
  | QRealized currency "jstring option"
  | QAllocation Dimension currency "jstring option"
  | QContributions Period currency "jstring option"
  | QConcentration
  | QMutes
  | QSettings
  | QTags
  | QUpdateStatus
  | QTwoFactor
  | QKeys
  | QConfig
  | QBackfillPreview
  | QReconciliation jstring jstring
  | QNavHistory jstring
  | QPriceLatest jstring
  | QPriceHistory "'d price_props"
  | QApyConfig jstring

text \<open>An object in a key: members that are \<open>undefined\<close> do not count.\<close>

definition list_key :: "bool \<Rightarrow> jstring option \<Rightarrow> json list" where
  "list_key deleted i =
     [JStr ''transactions'',
      JObj ((''includeDeleted'', JBool deleted) # (case i of None \<Rightarrow> [] | Some v \<Rightarrow> [(''instrumentId'', JStr v)]))]"

definition nw_key_json :: "nw_key \<Rightarrow> json" where
  "nw_key_json k =
     JObj [(''timeframe'', JStr (timeframe_text (key_timeframe k))), (''currency'', JStr (currency_text (key_currency k))),
       (''from'', opt_json (key_from k)), (''to'', opt_json (key_to k)), (''instrumentIds'', JArr (map JStr (key_ids k))),
       (''includeCostBasis'', JBool (key_cost k)), (''tagFilter'', opt_json (key_tag k))]"

fun mode_text :: "TableMode \<Rightarrow> jstring" where
  "mode_text OpenMode = ''open''"
| "mode_text ClosedMode = ''closed''"

definition perf_key :: "PerfTableProps \<Rightarrow> json list" where
  "perf_key p =
     [JStr ''perf'', JStr (mode_text (pp_mode p)), JStr (timeframe_text (table_timeframe p)),
      JStr (currency_text (pp_currency p)), opt_json (pp_tagFilter p), JBool (includeClosed p),
      opt_json (pp_from p), opt_json (pp_to p)]"

definition price_key :: "('d \<Rightarrow> int \<times> int \<times> int) \<Rightarrow> 'd price_props \<Rightarrow> json list" where
  "price_key local_day p =
     [JStr ''price-history'', JStr (pc_instrumentId p), JStr (timeframe_text (pc_timeframe p)),
      opt_json (custom_iso local_day (pc_timeframe p) (pc_from p)),
      opt_json (custom_iso local_day (pc_timeframe p) (pc_to p))]"

text \<open>
  A query as a component asks it: key, request, and for how many milliseconds its answer is fresh.  The
  client's default is half a minute; the flags of the server never age.
\<close>

record query_use =
  qu_key :: "json list"
  qu_url :: jstring
  qu_stale :: "int option"

definition DEFAULT_STALE :: "int option" where
  "DEFAULT_STALE = Some 30000"

definition use_transaction :: "jstring \<Rightarrow> query_use" where
  "use_transaction i =
     \<lparr>qu_key = [JStr ''transaction'', JStr i],
      qu_url = ''/api/transactions/'' @ i, qu_stale = DEFAULT_STALE\<rparr>"

definition use_audit :: "jstring \<Rightarrow> query_use" where
  "use_audit i =
     \<lparr>qu_key = [JStr ''audit'', JStr i],
      qu_url = ''/api/transactions/'' @ i @ ''/audit'', qu_stale = DEFAULT_STALE\<rparr>"

definition use_ledger :: "jstring option \<Rightarrow> jstring \<Rightarrow> query_use" where
  "use_ledger prop_id search =
     \<lparr>qu_key = list_key (include_deleted search) (list_instrument prop_id search),
      qu_url = list_url prop_id search, qu_stale = DEFAULT_STALE\<rparr>"

definition use_price_trades :: "jstring \<Rightarrow> query_use" where
  "use_price_trades i =
     \<lparr>qu_key = list_key False (Some i),
      qu_url = ''/api/transactions?instrument_id='' @ i, qu_stale = DEFAULT_STALE\<rparr>"

definition use_accounts :: "query_use" where
  "use_accounts = \<lparr>qu_key = [JStr ''accounts''], qu_url = ''/api/accounts'', qu_stale = DEFAULT_STALE\<rparr>"

definition use_instruments :: "query_use" where
  "use_instruments =
     \<lparr>qu_key = [JStr ''instruments''],
      qu_url = ''/api/instruments'', qu_stale = DEFAULT_STALE\<rparr>"

definition use_chart_instruments :: "query_use" where
  "use_chart_instruments =
     \<lparr>qu_key = [JStr ''instruments''],
      qu_url = ''/api/instruments'', qu_stale = Some 60000\<rparr>"

definition use_held_instruments :: "query_use" where
  "use_held_instruments =
     \<lparr>qu_key = [JStr ''instruments'', JObj [(''held'', JBool True)]],
      qu_url = ''/api/instruments?held=true'', qu_stale = Some 60000\<rparr>"

definition use_instrument :: "jstring \<Rightarrow> query_use" where
  "use_instrument i =
     \<lparr>qu_key = [JStr ''instrument'', JStr i],
      qu_url = ''/api/instruments/'' @ i, qu_stale = DEFAULT_STALE\<rparr>"

definition use_instrument_holdings :: "jstring \<Rightarrow> query_use" where
  "use_instrument_holdings i =
     \<lparr>qu_key = [JStr ''instrument-holdings'', JStr i],
      qu_url = ''/api/instruments/'' @ i @ ''/holdings'', qu_stale = DEFAULT_STALE\<rparr>"

definition use_fx_rate :: "jstring \<Rightarrow> query_use" where
  "use_fx_rate day =
     \<lparr>qu_key = [JStr ''fx-rate'', JStr day],
      qu_url = ''/api/fx/'' @ day @ ''?from=USD&to=EUR'', qu_stale = DEFAULT_STALE\<rparr>"

definition use_fx_history :: "fx_history \<Rightarrow> query_use" where
  "use_fx_history st =
     \<lparr>qu_key = [JStr ''fx-history'', JStr (fx_timeframe_text (fh_timeframe st)), JNum (Num (of_nat (fh_page st)))],
      qu_url = fx_url st, qu_stale = DEFAULT_STALE\<rparr>"

definition use_perf :: "PerfTableProps \<Rightarrow> query_use" where
  "use_perf p = \<lparr>qu_key = perf_key p, qu_url = perf_url p, qu_stale = DEFAULT_STALE\<rparr>"

definition use_open_perf :: "currency \<Rightarrow> query_use" where
  "use_open_perf cur =
     \<lparr>qu_key = [JStr ''perf'', JStr ''open'', JStr ''all'', JStr (currency_text cur), JNull, JBool True],
      qu_url = open_perf_url cur, qu_stale = DEFAULT_STALE\<rparr>"

definition use_networth :: "('d \<Rightarrow> int \<times> int \<times> int) \<Rightarrow> currency \<Rightarrow> 'd nw_props \<Rightarrow> query_use" where
  "use_networth ld cur p =
     \<lparr>qu_key = [JStr ''networth'', nw_key_json (networth_key ld cur p)],
      qu_url = networth_url ld cur p, qu_stale = DEFAULT_STALE\<rparr>"

definition use_closed :: "currency \<Rightarrow> jstring option \<Rightarrow> query_use" where
  "use_closed cur tag =
     \<lparr>qu_key = [JStr ''closed'', JStr (currency_text cur), opt_json tag],
      qu_url = closed_url cur tag, qu_stale = DEFAULT_STALE\<rparr>"

definition use_realized :: "currency \<Rightarrow> jstring option \<Rightarrow> query_use" where
  "use_realized cur tag =
     \<lparr>qu_key = [JStr ''realized'', JStr (currency_text cur), opt_json tag],
      qu_url = realized_url cur tag, qu_stale = DEFAULT_STALE\<rparr>"

definition use_allocation :: "Dimension \<Rightarrow> currency \<Rightarrow> jstring option \<Rightarrow> query_use" where
  "use_allocation d cur tag =
     \<lparr>qu_key = [JStr ''allocation'', JStr (dimension_text d), JStr (currency_text cur), opt_json tag],
      qu_url = allocation_url d cur tag, qu_stale = DEFAULT_STALE\<rparr>"

definition use_contributions :: "Period \<Rightarrow> currency \<Rightarrow> jstring option \<Rightarrow> query_use" where
  "use_contributions p cur tag =
     \<lparr>qu_key = [JStr ''contributions-bars'', JStr (period_text p), JStr (currency_text cur), opt_json tag],
      qu_url = contributions_url p cur tag, qu_stale = DEFAULT_STALE\<rparr>"

definition use_concentration :: "query_use" where
  "use_concentration =
     \<lparr>qu_key = [JStr ''concentration''],
      qu_url = ''/api/concentration'', qu_stale = DEFAULT_STALE\<rparr>"

definition use_mutes :: "query_use" where
  "use_mutes =
     \<lparr>qu_key = [JStr ''concentration-mutes''],
      qu_url = ''/api/concentration/mutes'', qu_stale = DEFAULT_STALE\<rparr>"

definition use_settings :: "query_use" where
  "use_settings = \<lparr>qu_key = [JStr ''settings''], qu_url = ''/api/settings'', qu_stale = DEFAULT_STALE\<rparr>"

definition use_tags :: "query_use" where
  "use_tags = \<lparr>qu_key = [JStr ''tags''], qu_url = ''/api/tags'', qu_stale = DEFAULT_STALE\<rparr>"

definition use_update_status :: "query_use" where
  "use_update_status =
     \<lparr>qu_key = [JStr ''update-status''],
      qu_url = ''/api/update-status'', qu_stale = DEFAULT_STALE\<rparr>"

definition use_twofa :: "query_use" where
  "use_twofa = \<lparr>qu_key = [JStr ''2fa-status''], qu_url = ''/api/auth/2fa'', qu_stale = DEFAULT_STALE\<rparr>"

definition use_keys :: "query_use" where
  "use_keys = \<lparr>qu_key = [JStr ''keys''], qu_url = ''/api/keys'', qu_stale = DEFAULT_STALE\<rparr>"

definition use_config :: "query_use" where
  "use_config = \<lparr>qu_key = [JStr ''config''], qu_url = ''/api/config'', qu_stale = None\<rparr>"

definition use_backfill_preview :: "query_use" where
  "use_backfill_preview =
     \<lparr>qu_key = [JStr ''backfill-preview''],
      qu_url = ''/api/instruments/backfill-preview'', qu_stale = DEFAULT_STALE\<rparr>"

definition use_reconciliation :: "jstring \<Rightarrow> jstring \<Rightarrow> query_use" where
  "use_reconciliation account day =
     \<lparr>qu_key = [JStr ''reconciliation'', JStr account, JStr day],
      qu_url = fetchPreview account day, qu_stale = DEFAULT_STALE\<rparr>"

definition use_nav_history :: "jstring \<Rightarrow> query_use" where
  "use_nav_history i =
     \<lparr>qu_key = [JStr ''nav-history'', JStr i],
      qu_url = nav_history_url i, qu_stale = DEFAULT_STALE\<rparr>"

definition use_price_latest :: "jstring \<Rightarrow> query_use" where
  "use_price_latest i =
     \<lparr>qu_key = [JStr ''price-latest'', JStr i],
      qu_url = ''/api/prices/'' @ i @ ''/latest'', qu_stale = DEFAULT_STALE\<rparr>"

definition use_price_history :: "('d \<Rightarrow> int \<times> int \<times> int) \<Rightarrow> 'd price_props \<Rightarrow> query_use" where
  "use_price_history ld p = \<lparr>qu_key = price_key ld p, qu_url = historyUrl ld p, qu_stale = Some 60000\<rparr>"

definition use_apy_config :: "jstring \<Rightarrow> query_use" where
  "use_apy_config i =
     \<lparr>qu_key = [JStr ''apy-config'', JStr i],
      qu_url = ''/api/apy-config?instrument_id='' @ i, qu_stale = DEFAULT_STALE\<rparr>"

lemmas use_defs = use_transaction_def use_audit_def use_ledger_def use_price_trades_def use_accounts_def use_instruments_def 
  use_chart_instruments_def use_held_instruments_def use_instrument_def use_instrument_holdings_def use_fx_rate_def use_fx_history_def 
  use_perf_def use_open_perf_def use_networth_def use_closed_def use_realized_def use_allocation_def 
  use_contributions_def use_concentration_def use_mutes_def use_settings_def use_tags_def use_update_status_def 
  use_twofa_def use_keys_def use_config_def use_backfill_preview_def use_reconciliation_def use_nav_history_def 
  use_price_latest_def use_price_history_def use_apy_config_def

text \<open>All queries, and their key, request and time.\<close>

fun query_of :: "('d \<Rightarrow> int \<times> int \<times> int) \<Rightarrow> 'd app_query \<Rightarrow> query_use" where
  "query_of ld (QTransaction i) = use_transaction i"
| "query_of ld (QAudit i) = use_audit i"
| "query_of ld (QTransactions prop_id search) = use_ledger prop_id search"
| "query_of ld (QPriceTransactions i) = use_price_trades i"
| "query_of ld QAccounts = use_accounts"
| "query_of ld QInstruments = use_instruments"
| "query_of ld QChartInstruments = use_chart_instruments"
| "query_of ld QHeldInstruments = use_held_instruments"
| "query_of ld (QInstrument i) = use_instrument i"
| "query_of ld (QInstrumentHoldings i) = use_instrument_holdings i"
| "query_of ld (QFxRate day) = use_fx_rate day"
| "query_of ld (QFxHistory st) = use_fx_history st"
| "query_of ld (QPerf p) = use_perf p"
| "query_of ld (QOpenPerf cur) = use_open_perf cur"
| "query_of ld (QNetWorth cur p) = use_networth ld cur p"
| "query_of ld (QClosed cur tag) = use_closed cur tag"
| "query_of ld (QRealized cur tag) = use_realized cur tag"
| "query_of ld (QAllocation d cur tag) = use_allocation d cur tag"
| "query_of ld (QContributions p cur tag) = use_contributions p cur tag"
| "query_of ld QConcentration = use_concentration"
| "query_of ld QMutes = use_mutes"
| "query_of ld QSettings = use_settings"
| "query_of ld QTags = use_tags"
| "query_of ld QUpdateStatus = use_update_status"
| "query_of ld QTwoFactor = use_twofa"
| "query_of ld QKeys = use_keys"
| "query_of ld QConfig = use_config"
| "query_of ld QBackfillPreview = use_backfill_preview"
| "query_of ld (QReconciliation account day) = use_reconciliation account day"
| "query_of ld (QNavHistory i) = use_nav_history i"
| "query_of ld (QPriceLatest i) = use_price_latest i"
| "query_of ld (QPriceHistory p) = use_price_history ld p"
| "query_of ld (QApyConfig i) = use_apy_config i"

definition query_key :: "('d \<Rightarrow> int \<times> int \<times> int) \<Rightarrow> 'd app_query \<Rightarrow> json list" where
  "query_key ld q = qu_key (query_of ld q)"

definition query_url :: "('d \<Rightarrow> int \<times> int \<times> int) \<Rightarrow> 'd app_query \<Rightarrow> jstring" where
  "query_url ld q = qu_url (query_of ld q)"

definition staleTime :: "('d \<Rightarrow> int \<times> int \<times> int) \<Rightarrow> 'd app_query \<Rightarrow> int option" where
  "staleTime ld q = qu_stale (query_of ld q)"

lemma query_key_simps [simp]:
  "query_key ld (QTransaction i) = [JStr ''transaction'', JStr i]"
  "query_key ld (QAudit i) = [JStr ''audit'', JStr i]"
  "query_key ld (QTransactions prop_id search) = list_key (include_deleted search) (list_instrument prop_id search)"
  "query_key ld (QPriceTransactions i) = list_key False (Some i)"
  "query_key ld QAccounts = [JStr ''accounts'']"
  "query_key ld QInstruments = [JStr ''instruments'']"
  "query_key ld QChartInstruments = [JStr ''instruments'']"
  "query_key ld QHeldInstruments = [JStr ''instruments'', JObj [(''held'', JBool True)]]"
  "query_key ld (QInstrument i) = [JStr ''instrument'', JStr i]"
  "query_key ld (QInstrumentHoldings i) = [JStr ''instrument-holdings'', JStr i]"
  "query_key ld (QFxRate day) = [JStr ''fx-rate'', JStr day]"
  "query_key ld (QFxHistory st) = [JStr ''fx-history'', JStr (fx_timeframe_text (fh_timeframe st)), JNum (Num (of_nat (fh_page st)))]"
  "query_key ld (QPerf p) = perf_key p"
  "query_key ld (QOpenPerf cur) = [JStr ''perf'', JStr ''open'', JStr ''all'', JStr (currency_text cur), JNull, JBool True]"
  "query_key ld (QNetWorth cur n) = [JStr ''networth'', nw_key_json (networth_key ld cur n)]"
  "query_key ld (QClosed cur tag) = [JStr ''closed'', JStr (currency_text cur), opt_json tag]"
  "query_key ld (QRealized cur tag) = [JStr ''realized'', JStr (currency_text cur), opt_json tag]"
  "query_key ld (QAllocation d cur tag) = [JStr ''allocation'', JStr (dimension_text d), JStr (currency_text cur), opt_json tag]"
  "query_key ld (QContributions r cur tag) = [JStr ''contributions-bars'', JStr (period_text r), JStr (currency_text cur), opt_json tag]"
  "query_key ld QConcentration = [JStr ''concentration'']"
  "query_key ld QMutes = [JStr ''concentration-mutes'']"
  "query_key ld QSettings = [JStr ''settings'']"
  "query_key ld QTags = [JStr ''tags'']"
  "query_key ld QUpdateStatus = [JStr ''update-status'']"
  "query_key ld QTwoFactor = [JStr ''2fa-status'']"
  "query_key ld QKeys = [JStr ''keys'']"
  "query_key ld QConfig = [JStr ''config'']"
  "query_key ld QBackfillPreview = [JStr ''backfill-preview'']"
  "query_key ld (QReconciliation account day) = [JStr ''reconciliation'', JStr account, JStr day]"
  "query_key ld (QNavHistory i) = [JStr ''nav-history'', JStr i]"
  "query_key ld (QPriceLatest i) = [JStr ''price-latest'', JStr i]"
  "query_key ld (QPriceHistory h) = price_key ld h"
  "query_key ld (QApyConfig i) = [JStr ''apy-config'', JStr i]"
  by (simp_all add: query_key_def use_defs)

lemma query_url_simps [simp]:
  "query_url ld (QTransaction i) = ''/api/transactions/'' @ i"
  "query_url ld (QAudit i) = ''/api/transactions/'' @ i @ ''/audit''"
  "query_url ld (QTransactions prop_id search) = list_url prop_id search"
  "query_url ld (QPriceTransactions i) = ''/api/transactions?instrument_id='' @ i"
  "query_url ld QAccounts = ''/api/accounts''"
  "query_url ld QInstruments = ''/api/instruments''"
  "query_url ld QChartInstruments = ''/api/instruments''"
  "query_url ld QHeldInstruments = ''/api/instruments?held=true''"
  "query_url ld (QInstrument i) = ''/api/instruments/'' @ i"
  "query_url ld (QInstrumentHoldings i) = ''/api/instruments/'' @ i @ ''/holdings''"
  "query_url ld (QFxRate day) = ''/api/fx/'' @ day @ ''?from=USD&to=EUR''"
  "query_url ld (QFxHistory st) = fx_url st"
  "query_url ld (QPerf p) = perf_url p"
  "query_url ld (QOpenPerf cur) = open_perf_url cur"
  "query_url ld (QNetWorth cur n) = networth_url ld cur n"
  "query_url ld (QClosed cur tag) = closed_url cur tag"
  "query_url ld (QRealized cur tag) = realized_url cur tag"
  "query_url ld (QAllocation d cur tag) = allocation_url d cur tag"
  "query_url ld (QContributions r cur tag) = contributions_url r cur tag"
  "query_url ld QConcentration = ''/api/concentration''"
  "query_url ld QMutes = ''/api/concentration/mutes''"
  "query_url ld QSettings = ''/api/settings''"
  "query_url ld QTags = ''/api/tags''"
  "query_url ld QUpdateStatus = ''/api/update-status''"
  "query_url ld QTwoFactor = ''/api/auth/2fa''"
  "query_url ld QKeys = ''/api/keys''"
  "query_url ld QConfig = ''/api/config''"
  "query_url ld QBackfillPreview = ''/api/instruments/backfill-preview''"
  "query_url ld (QReconciliation account day) = fetchPreview account day"
  "query_url ld (QNavHistory i) = nav_history_url i"
  "query_url ld (QPriceLatest i) = ''/api/prices/'' @ i @ ''/latest''"
  "query_url ld (QPriceHistory h) = historyUrl ld h"
  "query_url ld (QApyConfig i) = ''/api/apy-config?instrument_id='' @ i"
  by (simp_all add: query_url_def use_defs)

lemma staleTime_positive: "case staleTime ld q of None \<Rightarrow> True | Some t \<Rightarrow> 0 < t"
  by (cases q) (simp_all add: staleTime_def use_defs DEFAULT_STALE_def)

section \<open>A key has one request\<close>

lemma texts_differ:
  "timeframe_text a = timeframe_text b \<longleftrightarrow> a = b"
  "fx_timeframe_text u = fx_timeframe_text v \<longleftrightarrow> u = v"
  "currency_text c = currency_text d \<longleftrightarrow> c = d"
  "mode_text m = mode_text n \<longleftrightarrow> m = n"
  "dimension_text x = dimension_text y \<longleftrightarrow> x = y"
  "period_text p = period_text q \<longleftrightarrow> p = q"
  "opt_json i = opt_json j \<longleftrightarrow> i = j"
  subgoal by (cases a; cases b) simp_all
  subgoal by (cases u; cases v) simp_all
  subgoal by (cases c; cases d) simp_all
  subgoal by (cases m; cases n) simp_all
  subgoal by (cases x; cases y) simp_all
  subgoal by (cases p; cases q) simp_all
  subgoal by (cases i; cases j) (simp_all add: opt_json_def)
  done

lemma list_key_inj: "list_key b i = list_key c j \<longleftrightarrow> b = c \<and> i = j"
  by (auto simp: list_key_def split: option.splits)

lemma nw_key_json_inj: "nw_key_json k = nw_key_json l \<longleftrightarrow> k = l"
  by (cases k; cases l) (auto simp: nw_key_json_def texts_differ inj_map_eq_map inj_def)

lemma perf_key_request: "perf_key p = perf_key q \<Longrightarrow> perf_url p = perf_url q"
  by (auto simp: perf_key_def perf_url_def timeframeQuery_def customQuery_def texts_differ cong: option.case_cong)

lemma price_key_request: "price_key ld p = price_key ld q \<Longrightarrow> historyUrl ld p = historyUrl ld q"
  by (auto simp: price_key_def historyUrl_def texts_differ cong: option.case_cong)

lemma list_key_request:
  "list_key (include_deleted s) (list_instrument p s) = list_key (include_deleted t) (list_instrument q t)
    \<Longrightarrow> list_url p s = list_url q t"
  by (simp add: list_key_inj list_url_def)

lemma fx_key_request:
  "fh_timeframe st = fh_timeframe st' \<Longrightarrow> fh_page st = fh_page st' \<Longrightarrow> fx_url st = fx_url st'"
  by (simp add: fx_url_def)
lemma list_key_cons:
  "list_key b i = x # xs \<longleftrightarrow> x = JStr ''transactions'' \<and> xs = tl (list_key b i)"
  "x # xs = list_key b i \<longleftrightarrow> x = JStr ''transactions'' \<and> xs = tl (list_key b i)"
  by (auto simp: list_key_def)

lemmas key_forms = list_key_cons perf_key_def price_key_def texts_differ nw_key_json_inj

lemma price_transactions_url:
  "list_key (include_deleted s) (list_instrument p s) = list_key False (Some i) \<Longrightarrow>
   query_url ld (QTransactions p s) = ''/api/transactions?include_deleted=false'' @ (if i = [] then [] else ''&instrument_id='' @ i)"
  by (simp add: list_key_inj list_url_def or_null_def)

text \<open>
  The price chart leaves out \<open>include_deleted\<close>, whose default is \<open>false\<close> in the back end, and always
  sends an instrument.  For every other pair of queries a shared key means the same request.
\<close>

definition list_pair :: "jstring \<Rightarrow> jstring \<Rightarrow> bool" where
  "list_pair u v \<longleftrightarrow> (\<exists>i. u = ''/api/transactions?include_deleted=false'' @ (if i = [] then [] else ''&instrument_id='' @ i)
     \<and> v = ''/api/transactions?instrument_id='' @ i)"

text \<open>The first part of a key, by its place in a table, tells the queries apart.\<close>

definition key_names :: "json list" where
  "key_names = map JStr
     [''transaction'', ''audit'', ''transactions'', ''accounts'', ''instruments'', ''instrument'', ''instrument-holdings'', 
      ''fx-rate'', ''fx-history'', ''perf'', ''networth'', ''closed'', ''realized'', ''allocation'', 
      ''contributions-bars'', ''concentration'', ''concentration-mutes'', ''settings'', ''tags'', ''update-status'', ''2fa-status'', 
      ''keys'', ''config'', ''backfill-preview'', ''reconciliation'', ''nav-history'', ''price-latest'', ''price-history'', 
      ''apy-config'']"

fun key_slot :: "'d app_query \<Rightarrow> nat" where
  "key_slot (QTransaction _) = 0"
| "key_slot (QAudit _) = 1"
| "key_slot (QTransactions _ _) = 2"
| "key_slot (QPriceTransactions _) = 2"
| "key_slot QAccounts = 3"
| "key_slot QInstruments = 4"
| "key_slot QChartInstruments = 4"
| "key_slot QHeldInstruments = 4"
| "key_slot (QInstrument _) = 5"
| "key_slot (QInstrumentHoldings _) = 6"
| "key_slot (QFxRate _) = 7"
| "key_slot (QFxHistory _) = 8"
| "key_slot (QPerf _) = 9"
| "key_slot (QOpenPerf _) = 9"
| "key_slot (QNetWorth _ _) = 10"
| "key_slot (QClosed _ _) = 11"
| "key_slot (QRealized _ _) = 12"
| "key_slot (QAllocation _ _ _) = 13"
| "key_slot (QContributions _ _ _) = 14"
| "key_slot QConcentration = 15"
| "key_slot QMutes = 16"
| "key_slot QSettings = 17"
| "key_slot QTags = 18"
| "key_slot QUpdateStatus = 19"
| "key_slot QTwoFactor = 20"
| "key_slot QKeys = 21"
| "key_slot QConfig = 22"
| "key_slot QBackfillPreview = 23"
| "key_slot (QReconciliation _ _) = 24"
| "key_slot (QNavHistory _) = 25"
| "key_slot (QPriceLatest _) = 26"
| "key_slot (QPriceHistory _) = 27"
| "key_slot (QApyConfig _) = 28"

lemma key_slot_name: "key_slot q < length key_names \<and> hd (query_key ld q) = key_names ! key_slot q"
  by (cases q) (simp_all add: key_names_def list_key_def perf_key_def price_key_def)

lemma names_apart: "distinct key_names"
  by (simp add: key_names_def)

lemma same_slot: "query_key ld q = query_key ld q' \<Longrightarrow> key_slot q = key_slot q'"
  using key_slot_name [of q ld] key_slot_name [of q' ld] names_apart by (auto simp: nth_eq_iff_index_eq)

fun_cases slot_elims:
  "key_slot q = 0" "key_slot q = 1" "key_slot q = 2" "key_slot q = 3" "key_slot q = 4" "key_slot q = 5"
  "key_slot q = 6" "key_slot q = 7" "key_slot q = 8" "key_slot q = 9" "key_slot q = 10" "key_slot q = 11"
  "key_slot q = 12" "key_slot q = 13" "key_slot q = 14" "key_slot q = 15" "key_slot q = 16" "key_slot q = 17"
  "key_slot q = 18" "key_slot q = 19" "key_slot q = 20" "key_slot q = 21" "key_slot q = 22" "key_slot q = 23"
  "key_slot q = 24" "key_slot q = 25" "key_slot q = 26" "key_slot q = 27" "key_slot q = 28"

lemma perf_keys_apart: "perf_key p \<noteq> [a, b, c, d, e, f]" "[a, b, c, d, e, f] \<noteq> perf_key p"
  by (simp_all add: perf_key_def)

lemma same_key:
  assumes "query_key ld q = query_key ld q'"
  shows "query_url ld q = query_url ld q' \<or> list_pair (query_url ld q) (query_url ld q') \<or> list_pair (query_url ld q') (query_url ld q)"
  using same_slot [OF assms, symmetric] assms
  apply (cases q; simp only: key_slot.simps; elim slot_elims)
  apply (simp_all add: texts_differ perf_keys_apart nw_key_json_inj list_key_inj list_url_def list_pair_def or_null_def)
  apply (auto intro: fx_key_request perf_key_request price_key_request key_decides_request
      simp: eq_commute [of "Some _" "list_instrument _ _"] or_null_def)
  done

section \<open>What a saved change makes stale\<close>

datatype mutation =
    SaveTransaction
  | DeleteTransaction
  | SaveReconciliation
  | SaveManualPrice jstring
  | DeleteManualPrice jstring
  | SaveRate jstring
  | DeleteRate jstring
  | BackfillEverything
  | BackfillFromPage jstring
  | BackfillFromList jstring
  | ChangeHoldingTags jstring
  | CreateTag
  | DeleteTag
  | SaveAccount
  | CreateInstrument
  | UpdateInstrument jstring
  | DeleteInstrument jstring
  | MuteHolding
  | SaveThreshold
  | SaveProviderKey
  | SaveSetupKey
  | ChangeUpdates
  | ChangeTwoFactor

definition portfolio_keys :: "jstring list list" where
  "portfolio_keys = map (\<lambda>k. [k]) PORTFOLIO_CACHE_KEYS"

fun invalidations :: "mutation \<Rightarrow> jstring list list" where
  "invalidations SaveTransaction = portfolio_keys"
| "invalidations DeleteTransaction = portfolio_keys"
| "invalidations SaveReconciliation = portfolio_keys @ [[''reconciliation''], [''accounts'']]"
| "invalidations (SaveManualPrice i) = [''nav-history'', i] # portfolio_keys"
| "invalidations (DeleteManualPrice i) = [[''nav-history'', i], [''holdings'']]"
| "invalidations (SaveRate i) = [[''apy-config'', i]]"
| "invalidations (DeleteRate i) = [[''apy-config'', i]]"
| "invalidations BackfillEverything = portfolio_keys @ [[''nav-history''], [''instruments''], [''instrument'']]"
| "invalidations (BackfillFromPage i) = button_backfill_keys i"
| "invalidations (BackfillFromList i) = list_backfill_keys i"
| "invalidations (ChangeHoldingTags i) = [''tags''] # [''instrument-holdings'', i] # portfolio_keys"
| "invalidations CreateTag = [[''tags'']]"
| "invalidations DeleteTag =
     map (\<lambda>k. [k]) [''tags'', ''instrument-holdings'', ''perf'', ''networth'', ''allocation'', ''contributions-bars'',
       ''contributions-overlay'', ''closed'', ''realized'']"
| "invalidations SaveAccount = [[''accounts'']]"
| "invalidations CreateInstrument = [[''instruments'']]"
| "invalidations (UpdateInstrument i) = [[''instruments''], [''instrument'', i]]"
| "invalidations (DeleteInstrument i) = [[''instruments'']]"
| "invalidations MuteHolding = [[''concentration''], [''concentration-mutes'']]"
| "invalidations SaveThreshold = [[''concentration''], [''settings'']]"
| "invalidations SaveProviderKey = [[''keys'']]"
| "invalidations SaveSetupKey = []"
| "invalidations ChangeUpdates = [[''update-status'']]"
| "invalidations ChangeTwoFactor = [[''2fa-status'']]"

text \<open>They are the keys the effects of the components name.\<close>

definition page_keys :: "page_effect list \<Rightarrow> jstring list list" where
  "page_keys es = List.map_filter (\<lambda>e. case e of PageInvalidate k \<Rightarrow> Some k | _ \<Rightarrow> None) es"

definition tag_keys :: "tag_effect list \<Rightarrow> jstring list list" where
  "tag_keys es = List.map_filter (\<lambda>e. case e of TagInvalidate k \<Rightarrow> Some k | _ \<Rightarrow> None) es"

definition account_keys :: "account_effect list \<Rightarrow> jstring list list" where
  "account_keys es = List.map_filter (\<lambda>e. case e of AccountInvalidate k \<Rightarrow> Some k | _ \<Rightarrow> None) es"

lemmas effect_keys = page_keys_def tag_keys_def account_keys_def List.map_filter_simps PORTFOLIO_CACHE_KEYS_def
  portfolio_keys_def

lemma invalidations_of_forms:
  "map (\<lambda>k. [k]) (keys_of (txn_success t ins inner v)) = invalidations SaveTransaction"
  "map (\<lambda>k. [k]) (keys_of (yield_success t ins inner y)) = invalidations SaveTransaction"
  "map (\<lambda>k. [k]) (keys_of (delete_effects (Inr res))) = invalidations DeleteTransaction"
  by (simp_all add: txn_success_def yield_success_def delete_effects_def keys_of_def invalidatePortfolioCache_def Let_def effect_keys)

lemma invalidations_of_pages:
  "page_keys (nav_saved i name v) = invalidations (SaveManualPrice i)"
  "page_keys (nav_delete_effects i (Inr ())) = invalidations (DeleteManualPrice i)"
  "page_keys (apy_saved i a) = invalidations (SaveRate i)"
  "page_keys (apy_delete_effects i (Inr ())) = invalidations (DeleteRate i)"
  "page_keys (mute_effects s (Inr ())) = invalidations MuteHolding"
  "page_keys (unmute_effects s (Inr ())) = invalidations MuteHolding"
  "tag_keys (attach_effects i (Inr ())) = invalidations (ChangeHoldingTags i)"
  "tag_keys (detach_effects i (Inr ())) = invalidations (ChangeHoldingTags i)"
  "account_keys (hook_effects (Inr acct)) = invalidations SaveAccount"
  "snd (bulk_success b) = invalidations BackfillEverything"
  by (simp_all add: nav_saved_def portfolio_invalid_def nav_delete_effects_def apy_saved_def apy_delete_effects_def
    mute_effects_def unmute_effects_def mutes_invalid_def attach_effects_def detach_effects_def tags_changed_def
    portfolio_effects_def hook_effects_def bulk_success_def Let_def effect_keys)

lemma invalidations_of_deletion:
  "tag_keys (delete_success tagFilter t) = invalidations DeleteTag"
  by (simp add: delete_success_def clear_filter_def effect_keys)

lemma invalidations_of_reconciliation:
  "save_invalidations = map (\<lambda>ks. Reconciliation.InvalidateKey (hd ks)) (invalidations SaveReconciliation)"
  by (simp add: save_invalidations_def effect_keys)


section \<open>What a saved change changes\<close>

text \<open>
  The state of the back end in the parts the requests of the program read, from \<open>backend/app\<close>: the
  transactions, their journal, the exchange rates, the list of instruments, what is shown of those that
  have transactions, one instrument, its prices, the prices as the reports use them, and so on.  What
  the back end does by itself (its scheduler, accrued yields, a missing rate fetched on a read) is not
  a change a client saves.
\<close>

datatype store_part =
    Ledger
  | Journal
  | Exchange
  | Catalog
  | Traded
  | Entry jstring
  | Prices jstring
  | Quotes
  | Accounts_kept
  | Snapshots
  | Tags_kept
  | Tagged
  | TagsOf jstring
  | Mutes
  | Threshold_kept
  | Rates jstring
  | Keys_kept
  | TwoFactor
  | Releases

text \<open>
  What the handlers of the back end write.  A transaction in dollars and a backfill store exchange
  rates; an instrument is only deleted when it has no transaction, so it is not muted or tagged.
\<close>

fun writes :: "mutation \<Rightarrow> store_part \<Rightarrow> bool" where
  "writes SaveTransaction p = (p \<in> {Ledger, Journal, Exchange})"
| "writes DeleteTransaction p = (p \<in> {Ledger, Journal})"
| "writes SaveReconciliation p = (p \<in> {Ledger, Snapshots, Exchange})"
| "writes (SaveManualPrice i) p = (p \<in> {Prices i, Quotes})"
| "writes (DeleteManualPrice i) p = (p \<in> {Prices i, Quotes})"
| "writes (SaveRate i) p = (p = Rates i)"
| "writes (DeleteRate i) p = (p = Rates i)"
| "writes BackfillEverything p = (case p of Prices _ \<Rightarrow> True | _ \<Rightarrow> p \<in> {Exchange, Quotes})"
| "writes (BackfillFromPage i) p = (p \<in> {Prices i, Quotes, Exchange})"
| "writes (BackfillFromList i) p = (p \<in> {Prices i, Quotes, Exchange})"
| "writes (ChangeHoldingTags i) p = (p \<in> {Tagged, TagsOf i})"
| "writes CreateTag p = (p = Tags_kept)"
| "writes DeleteTag p = (case p of TagsOf _ \<Rightarrow> True | _ \<Rightarrow> p \<in> {Tags_kept, Tagged})"
| "writes SaveAccount p = (p = Accounts_kept)"
| "writes CreateInstrument p = (p = Catalog)"
| "writes (UpdateInstrument i) p = (p \<in> {Catalog, Traded, Entry i})"
| "writes (DeleteInstrument i) p = (p \<in> {Catalog, Entry i, Prices i, Rates i})"
| "writes MuteHolding p = (p = Mutes)"
| "writes SaveThreshold p = (p = Threshold_kept)"
| "writes SaveProviderKey p = (p = Keys_kept)"
| "writes SaveSetupKey p = (p = Keys_kept)"
| "writes ChangeUpdates p = (p = Releases)"
| "writes ChangeTwoFactor p = (p = TwoFactor)"

text \<open>What they read to answer a query.\<close>

fun reads :: "'d app_query \<Rightarrow> store_part list" where
  "reads (QTransaction _) = [Ledger]"
| "reads (QAudit _) = [Journal]"
| "reads (QTransactions _ _) = [Ledger, Accounts_kept, Traded]"
| "reads (QPriceTransactions _) = [Ledger, Accounts_kept, Traded]"
| "reads QAccounts = [Accounts_kept, Snapshots]"
| "reads QInstruments = [Catalog]"
| "reads QChartInstruments = [Catalog]"
| "reads QHeldInstruments = [Catalog, Ledger]"
| "reads (QInstrument i) = [Entry i]"
| "reads (QInstrumentHoldings i) = [Ledger, Accounts_kept, TagsOf i]"
| "reads (QFxRate _) = [Exchange]"
| "reads (QFxHistory _) = [Exchange]"
| "reads (QPerf _) = [Ledger, Quotes, Exchange, Traded, Accounts_kept, Tagged]"
| "reads (QOpenPerf _) = [Ledger, Quotes, Exchange, Traded, Accounts_kept, Tagged]"
| "reads (QNetWorth _ _) = [Ledger, Quotes, Exchange, Traded, Tagged]"
| "reads (QClosed _ _) = [Ledger, Quotes, Exchange, Traded, Accounts_kept, Tagged]"
| "reads (QRealized _ _) = [Ledger, Exchange, Traded, Tagged]"
| "reads (QAllocation _ _ _) = [Ledger, Quotes, Exchange, Traded, Accounts_kept, Tagged]"
| "reads (QContributions _ _ _) = [Ledger, Quotes, Exchange, Tagged]"
| "reads QConcentration = [Ledger, Quotes, Exchange, Traded, Mutes, Threshold_kept]"
| "reads QMutes = [Mutes, Traded]"
| "reads QSettings = [Threshold_kept]"
| "reads QTags = [Tags_kept, Tagged]"
| "reads QUpdateStatus = [Releases]"
| "reads QTwoFactor = [TwoFactor]"
| "reads QKeys = [Keys_kept]"
| "reads QConfig = []"
| "reads QBackfillPreview = [Ledger, Traded]"
| "reads (QReconciliation _ _) = [Accounts_kept, Ledger, Traded, Quotes, Exchange, Snapshots]"
| "reads (QNavHistory i) = [Prices i]"
| "reads (QPriceLatest i) = [Prices i]"
| "reads (QPriceHistory p) = [Prices (pc_instrumentId p)]"
| "reads (QApyConfig i) = [Rates i]"

definition affects :: "mutation \<Rightarrow> 'd app_query \<Rightarrow> bool" where
  "affects m q \<longleftrightarrow> list_ex (writes m) (reads q)"

text \<open>
  The pairs of a change and a query it affects without making it stale, by hand: what the program leaves
  to the age of the answer.
\<close>

definition reads_holdings :: "'d app_query \<Rightarrow> bool" where
  "reads_holdings q \<longleftrightarrow>
     (case q of QTransaction _ \<Rightarrow> True | QHeldInstruments \<Rightarrow> True | QInstrumentHoldings _ \<Rightarrow> True
      | QBackfillPreview \<Rightarrow> True | _ \<Rightarrow> False)"

definition reads_rates :: "'d app_query \<Rightarrow> bool" where
  "reads_rates q \<longleftrightarrow> (case q of QFxRate _ \<Rightarrow> True | QFxHistory _ \<Rightarrow> True | _ \<Rightarrow> False)"

definition reads_price_of :: "jstring \<Rightarrow> 'd app_query \<Rightarrow> bool" where
  "reads_price_of i q \<longleftrightarrow>
     (case q of QPriceLatest j \<Rightarrow> j = i | QPriceHistory p \<Rightarrow> pc_instrumentId p = i | _ \<Rightarrow> False)"

definition reads_by_account :: "'d app_query \<Rightarrow> bool" where
  "reads_by_account q \<longleftrightarrow>
     (case q of QPerf _ \<Rightarrow> True | QOpenPerf _ \<Rightarrow> True | QClosed _ _ \<Rightarrow> True | QAllocation _ _ _ \<Rightarrow> True | _ \<Rightarrow> False)"

definition reads_values :: "'d app_query \<Rightarrow> bool" where
  "reads_values q \<longleftrightarrow>
     reads_by_account q \<or> (case q of QContributions _ _ _ \<Rightarrow> True | QConcentration \<Rightarrow> True | QReconciliation _ _ \<Rightarrow> True | _ \<Rightarrow> False)"

fun gap :: "mutation \<Rightarrow> 'd app_query \<Rightarrow> bool" where
  "gap SaveTransaction q = (reads_holdings q \<or> reads_rates q \<or> (case q of QAudit _ \<Rightarrow> True | QReconciliation _ _ \<Rightarrow> True | _ \<Rightarrow> False))"
| "gap DeleteTransaction q = (reads_holdings q \<or> (case q of QAudit _ \<Rightarrow> True | QReconciliation _ _ \<Rightarrow> True | _ \<Rightarrow> False))"
| "gap SaveReconciliation q = (reads_holdings q \<or> reads_rates q)"
| "gap (SaveManualPrice i) q = (reads_price_of i q \<or> (case q of QReconciliation _ _ \<Rightarrow> True | _ \<Rightarrow> False))"
| "gap (DeleteManualPrice i) q = (reads_price_of i q \<or> reads_values q \<or> (case q of QNetWorth _ _ \<Rightarrow> True | _ \<Rightarrow> False))"
| "gap BackfillEverything q =
     (reads_rates q \<or> (case q of QPriceLatest _ \<Rightarrow> True | QPriceHistory _ \<Rightarrow> True | QReconciliation _ _ \<Rightarrow> True | _ \<Rightarrow> False))"
| "gap (BackfillFromPage i) q = (reads_price_of i q \<or> reads_values q \<or> reads_rates q \<or> (case q of QRealized _ _ \<Rightarrow> True | _ \<Rightarrow> False))"
| "gap (BackfillFromList i) q =
     (reads_price_of i q \<or> reads_values q \<or> reads_rates q \<or> (case q of QRealized _ _ \<Rightarrow> True | QNavHistory j \<Rightarrow> j = i | _ \<Rightarrow> False))"
| "gap SaveAccount q =
     (reads_by_account q
      \<or> (case q of QTransactions _ _ \<Rightarrow> True | QPriceTransactions _ \<Rightarrow> True | QInstrumentHoldings _ \<Rightarrow> True | QReconciliation _ _ \<Rightarrow> True | _ \<Rightarrow> False))"
| "gap (UpdateInstrument i) q =
     (reads_by_account q
      \<or> (case q of QTransactions _ _ \<Rightarrow> True | QPriceTransactions _ \<Rightarrow> True | QNetWorth _ _ \<Rightarrow> True | QRealized _ _ \<Rightarrow> True
         | QConcentration \<Rightarrow> True | QMutes \<Rightarrow> True | QBackfillPreview \<Rightarrow> True | QReconciliation _ _ \<Rightarrow> True | _ \<Rightarrow> False))"
| "gap (DeleteInstrument i) q =
     (reads_price_of i q \<or> (case q of QInstrument j \<Rightarrow> j = i | QNavHistory j \<Rightarrow> j = i | QApyConfig j \<Rightarrow> j = i | _ \<Rightarrow> False))"
| "gap SaveSetupKey q = (case q of QKeys \<Rightarrow> True | _ \<Rightarrow> False)"
| "gap _ q = False"

section \<open>The cache\<close>

text \<open>
  The cache is the library's.  What the program relies on is stated of its operations, which are a
  parameter: an entry is found under the key it was put under, \<open>invalidateQueries\<close> marks every entry
  whose key begins with the given one, and an entry is asked for again when it is marked or has
  outlived its time.
\<close>

definition matches :: "jstring list \<Rightarrow> json list \<Rightarrow> bool" where
  "matches ks key \<longleftrightarrow> take (length ks) key = map JStr ks"

record 'a cache_entry =
  en_data :: 'a
  en_at :: int
  en_stale :: bool

record ('c, 'a) query_library =
  ql_empty :: 'c
  ql_get :: "'c \<Rightarrow> json list \<Rightarrow> 'a cache_entry option"
  ql_put :: "json list \<Rightarrow> 'a cache_entry \<Rightarrow> 'c \<Rightarrow> 'c"
  ql_invalidate :: "jstring list \<Rightarrow> 'c \<Rightarrow> 'c"
  ql_due :: "int option \<Rightarrow> int \<Rightarrow> 'a cache_entry \<Rightarrow> bool"

definition documented :: "('c, 'a) query_library \<Rightarrow> bool" where
  "documented lib \<longleftrightarrow>
     (\<forall>key. ql_get lib (ql_empty lib) key = None)
     \<and> (\<forall>c key e key'. ql_get lib (ql_put lib key e c) key' = (if key' = key then Some e else ql_get lib c key'))
     \<and> (\<forall>c ks key. ql_get lib (ql_invalidate lib ks c) key =
          map_option (\<lambda>e. if matches ks key then e\<lparr>en_stale := True\<rparr> else e) (ql_get lib c key))
     \<and> (\<forall>t now e. ql_due lib t now e \<longleftrightarrow> en_stale e \<or> (case t of None \<Rightarrow> False | Some d \<Rightarrow> en_at e + d \<le> now))"

text \<open>
  \<open>ans s u\<close> is what the back end answers to a request for \<open>u\<close> in its state \<open>s\<close>.  A change carries the
  time the back end made it; \<open>wd_pending\<close> holds those whose answer is still under way, \<open>wd_log\<close> all.
\<close>

record ('v, 'c) world =
  wd_now :: int
  wd_server :: "store_part \<Rightarrow> 'v"
  wd_cache :: 'c
  wd_pending :: "(mutation \<times> int) list"
  wd_log :: "(mutation \<times> int) list"

definition world_first :: "('c, 'a) query_library \<Rightarrow> (store_part \<Rightarrow> 'v) \<Rightarrow> ('v, 'c) world" where
  "world_first lib s = \<lparr>wd_now = 0, wd_server = s, wd_cache = ql_empty lib, wd_pending = [], wd_log = []\<rparr>"

definition needs_request :: "('c, 'a) query_library \<Rightarrow> ('d \<Rightarrow> int \<times> int \<times> int) \<Rightarrow> 'd app_query \<Rightarrow> ('v, 'c) world \<Rightarrow> bool" where
  "needs_request lib ld q w \<longleftrightarrow>
     (case ql_get lib (wd_cache w) (query_key ld q) of
        None \<Rightarrow> True
      | Some e \<Rightarrow> ql_due lib (staleTime ld q) (wd_now w) e)"

definition answered :: "('c, 'a) query_library \<Rightarrow> ((store_part \<Rightarrow> 'v) \<Rightarrow> jstring \<Rightarrow> 'a) \<Rightarrow> ('d \<Rightarrow> int \<times> int \<times> int) \<Rightarrow> 'd app_query \<Rightarrow> ('v, 'c) world \<Rightarrow> ('v, 'c) world" where
  "answered lib ans ld q w =
     w\<lparr>wd_cache := ql_put lib (query_key ld q)
         \<lparr>en_data = ans (wd_server w) (query_url ld q), en_at = wd_now w, en_stale = False\<rparr> (wd_cache w)\<rparr>"

text \<open>A view appears: it asks if it has to, and then shows what the cache has.\<close>

definition view_mounts :: "('c, 'a) query_library \<Rightarrow> ((store_part \<Rightarrow> 'v) \<Rightarrow> jstring \<Rightarrow> 'a) \<Rightarrow> ('d \<Rightarrow> int \<times> int \<times> int) \<Rightarrow> 'd app_query \<Rightarrow> ('v, 'c) world \<Rightarrow> ('v, 'c) world" where
  "view_mounts lib ans ld q w = (if needs_request lib ld q w then answered lib ans ld q w else w)"

definition shown :: "('c, 'a) query_library \<Rightarrow> ('d \<Rightarrow> int \<times> int \<times> int) \<Rightarrow> 'd app_query \<Rightarrow> ('v, 'c) world \<Rightarrow> 'a option" where
  "shown lib ld q w = map_option en_data (ql_get lib (wd_cache w) (query_key ld q))"

text \<open>
  A change takes effect in the back end when it is committed, and in the cache when its answer comes,
  with any number of requests in between; a change whose answer is lost stays pending.
\<close>

inductive cache_reach :: "('c, 'a) query_library \<Rightarrow> ((store_part \<Rightarrow> 'v) \<Rightarrow> jstring \<Rightarrow> 'a) \<Rightarrow> ('d \<Rightarrow> int \<times> int \<times> int) \<Rightarrow> (store_part \<Rightarrow> 'v) \<Rightarrow> ('v, 'c) world \<Rightarrow> bool"
  for lib ans ld s0 where
  cache_start: "cache_reach lib ans ld s0 (world_first lib s0)"
| cache_time: "cache_reach lib ans ld s0 w \<Longrightarrow> 0 \<le> d \<Longrightarrow> cache_reach lib ans ld s0 (w\<lparr>wd_now := wd_now w + d\<rparr>)"
| cache_asks: "cache_reach lib ans ld s0 w \<Longrightarrow> cache_reach lib ans ld s0 (answered lib ans ld q w)"
| cache_commit: "cache_reach lib ans ld s0 w \<Longrightarrow> (\<And>p. \<not> writes m p \<Longrightarrow> s' p = wd_server w p) \<Longrightarrow>
    cache_reach lib ans ld s0 (w\<lparr>wd_server := s', wd_pending := wd_pending w @ [(m, wd_now w)],
      wd_log := wd_log w @ [(m, wd_now w)]\<rparr>)"
| cache_settle: "cache_reach lib ans ld s0 w \<Longrightarrow> (m, t) \<in> set (wd_pending w) \<Longrightarrow>
    cache_reach lib ans ld s0 (w\<lparr>wd_pending := remove1 (m, t) (wd_pending w),
      wd_cache := fold (ql_invalidate lib) (invalidations m) (wd_cache w)\<rparr>)"
| cache_clear: "cache_reach lib ans ld s0 w \<Longrightarrow> cache_reach lib ans ld s0 (w\<lparr>wd_cache := ql_empty lib\<rparr>)"

text \<open>The default of the list of transactions, from \<open>backend/app/routers/transactions.py\<close>.\<close>

definition list_default :: "((store_part \<Rightarrow> 'v) \<Rightarrow> jstring \<Rightarrow> 'a) \<Rightarrow> bool" where
  "list_default ans \<longleftrightarrow> (\<forall>s u v. list_pair u v \<longrightarrow> ans s u = ans s v)"

text \<open>
  The answer to a query depends on the parts it reads.  The ids and days in the paths are plain (the back
  end's ids are UUIDs): an id with a slash would turn one request into another.
\<close>

definition plain_id :: "jstring \<Rightarrow> bool" where
  "plain_id i \<longleftrightarrow> i \<noteq> [] \<and> list_all (\<lambda>c. c \<noteq> CHR ''/'' \<and> c \<noteq> CHR ''?'') i \<and> i \<noteq> ''backfill-preview''"

fun plain_query :: "'d app_query \<Rightarrow> bool" where
  "plain_query (QTransaction i) = plain_id i"
| "plain_query (QAudit i) = plain_id i"
| "plain_query (QInstrument i) = plain_id i"
| "plain_query (QInstrumentHoldings i) = plain_id i"
| "plain_query (QFxRate day) = plain_id day"
| "plain_query (QNavHistory i) = plain_id i"
| "plain_query (QPriceLatest i) = plain_id i"
| "plain_query (QPriceHistory p) = plain_id (pc_instrumentId p)"
| "plain_query _ = True"

definition answers_depend :: "((store_part \<Rightarrow> 'v) \<Rightarrow> jstring \<Rightarrow> 'a) \<Rightarrow> ('d \<Rightarrow> int \<times> int \<times> int) \<Rightarrow> bool" where
  "answers_depend ans ld \<longleftrightarrow>
     (\<forall>q s s'. plain_query q \<longrightarrow> (\<forall>p \<in> set (reads q). s p = s' p) \<longrightarrow> ans s (query_url ld q) = ans s' (query_url ld q))"

lemma same_answer: "list_default ans \<Longrightarrow> query_key ld q = query_key ld q' \<Longrightarrow> ans s (query_url ld q) = ans s (query_url ld q')"
  using same_key [of ld q q'] by (metis list_default_def)

lemma library_laws:
  assumes "documented lib"
  shows get_empty: "ql_get lib (ql_empty lib) key = None"
    and get_put: "ql_get lib (ql_put lib key e c) key' = (if key' = key then Some e else ql_get lib c key')"
    and get_invalidate: "ql_get lib (ql_invalidate lib ks c) key =
      map_option (\<lambda>e. if matches ks key then e\<lparr>en_stale := True\<rparr> else e) (ql_get lib c key)"
    and due_iff: "ql_due lib t now e \<longleftrightarrow> en_stale e \<or> (case t of None \<Rightarrow> False | Some d \<Rightarrow> en_at e + d \<le> now)"
  using assms by (auto simp: documented_def)

lemma get_invalidated:
  "documented lib \<Longrightarrow> ql_get lib (fold (ql_invalidate lib) kss c) key =
     map_option (\<lambda>e. if list_ex (\<lambda>ks. matches ks key) kss then e\<lparr>en_stale := True\<rparr> else e) (ql_get lib c key)"
proof (induction kss arbitrary: c)
  case Nil
  then show ?case by (cases "ql_get lib c key") simp_all
next
  case (Cons ks kss)
  then show ?case by (cases "ql_get lib c key") (auto simp: get_invalidate)
qed

lemma fresh_kept:
  "documented lib \<Longrightarrow> ql_get lib (fold (ql_invalidate lib) kss c) key = Some e \<Longrightarrow> \<not> en_stale e \<Longrightarrow>
     ql_get lib c key = Some e \<and> \<not> list_ex (\<lambda>ks. matches ks key) kss"
  by (cases "ql_get lib c key") (auto simp: get_invalidated split: if_splits)

lemmas gap_parts = reads_holdings_def reads_rates_def reads_price_of_def reads_by_account_def reads_values_def

lemmas key_starts = matches_def list_key_def perf_key_def price_key_def portfolio_keys_def PORTFOLIO_CACHE_KEYS_def
  button_backfill_keys_def list_backfill_keys_def

text \<open>The table is exact: every other query a change affects is among those it makes stale.\<close>

lemma gap_iff:
  "gap m q \<longleftrightarrow> affects m q \<and> \<not> list_ex (\<lambda>ks. matches ks (query_key ld q)) (invalidations m)"
  by (cases m; cases q) (auto simp: affects_def gap_parts key_starts)

definition cache_ok :: "('c, 'a) query_library \<Rightarrow> ((store_part \<Rightarrow> 'v) \<Rightarrow> jstring \<Rightarrow> 'a) \<Rightarrow> ('d \<Rightarrow> int \<times> int \<times> int) \<Rightarrow> ('v, 'c) world \<Rightarrow> bool" where
  "cache_ok lib ans ld w \<longleftrightarrow>
     set (wd_pending w) \<subseteq> set (wd_log w)
     \<and> (\<forall>q e. plain_query q \<longrightarrow> ql_get lib (wd_cache w) (query_key ld q) = Some e \<longrightarrow> \<not> en_stale e
        \<longrightarrow> en_at e \<le> wd_now w
          \<and> (en_data e = ans (wd_server w) (query_url ld q)
             \<or> (\<exists>m t. (m, t) \<in> set (wd_pending w) \<and> affects m q \<and> en_at e \<le> t)
             \<or> (\<exists>m t. (m, t) \<in> set (wd_log w) \<and> gap m q \<and> en_at e \<le> t)))"

lemma cache_okI:
  assumes "set (wd_pending w) \<subseteq> set (wd_log w)"
    and "\<And>q e. plain_query q \<Longrightarrow> ql_get lib (wd_cache w) (query_key ld q) = Some e \<Longrightarrow> \<not> en_stale e \<Longrightarrow>
      en_at e \<le> wd_now w
          \<and> (en_data e = ans (wd_server w) (query_url ld q)
             \<or> (\<exists>m t. (m, t) \<in> set (wd_pending w) \<and> affects m q \<and> en_at e \<le> t)
             \<or> (\<exists>m t. (m, t) \<in> set (wd_log w) \<and> gap m q \<and> en_at e \<le> t))"
  shows "cache_ok lib ans ld w"
  using assms unfolding cache_ok_def by blast

lemma cache_okD:
  assumes "cache_ok lib ans ld w" "plain_query q" "ql_get lib (wd_cache w) (query_key ld q) = Some e" "\<not> en_stale e"
  shows "en_at e \<le> wd_now w"
    and "en_data e = ans (wd_server w) (query_url ld q)
             \<or> (\<exists>m t. (m, t) \<in> set (wd_pending w) \<and> affects m q \<and> en_at e \<le> t)
             \<or> (\<exists>m t. (m, t) \<in> set (wd_log w) \<and> gap m q \<and> en_at e \<le> t)"
  using assms unfolding cache_ok_def by blast+

lemma cache_ok_asks:
  assumes "documented lib" "list_default ans" "cache_ok lib ans ld w"
  shows "cache_ok lib ans ld (answered lib ans ld q w)"
proof (rule cache_okI)
  show "set (wd_pending (answered lib ans ld q w)) \<subseteq> set (wd_log (answered lib ans ld q w))"
    using assms(3) by (simp add: cache_ok_def answered_def)
next
  fix q' e
  assume q: "plain_query q'" "ql_get lib (wd_cache (answered lib ans ld q w)) (query_key ld q') = Some e" "\<not> en_stale e"
  show "en_at e \<le> wd_now (answered lib ans ld q w)
          \<and> (en_data e = ans (wd_server (answered lib ans ld q w)) (query_url ld q')
             \<or> (\<exists>m t. (m, t) \<in> set (wd_pending (answered lib ans ld q w)) \<and> affects m q' \<and> en_at e \<le> t)
             \<or> (\<exists>m t. (m, t) \<in> set (wd_log (answered lib ans ld q w)) \<and> gap m q' \<and> en_at e \<le> t))"
  proof (cases "query_key ld q' = query_key ld q")
    case True
    then show ?thesis using q(2) same_answer [OF assms(2) True] by (auto simp: answered_def get_put [OF assms(1)])
  next
    case False
    then have "ql_get lib (wd_cache w) (query_key ld q') = Some e"
      using q(2) by (simp add: answered_def get_put [OF assms(1)])
    from cache_okD [OF assms(3) q(1) this q(3)] show ?thesis by (simp add: answered_def)
  qed
qed

lemma unaffected_answer:
  assumes "answers_depend ans ld" "plain_query q" "\<not> affects m q" "\<And>p. \<not> writes m p \<Longrightarrow> s' p = s p"
  shows "ans s' (query_url ld q) = ans s (query_url ld q)"
  using assms unfolding answers_depend_def affects_def list_ex_iff by blast

lemma cache_ok_commit:
  assumes "answers_depend ans ld" "cache_ok lib ans ld w" "\<And>p. \<not> writes m p \<Longrightarrow> s' p = wd_server w p"
  shows "cache_ok lib ans ld (w\<lparr>wd_server := s', wd_pending := wd_pending w @ [(m, wd_now w)], wd_log := wd_log w @ [(m, wd_now w)]\<rparr>)"
    (is "cache_ok lib ans ld ?w")
proof (rule cache_okI)
  show "set (wd_pending ?w) \<subseteq> set (wd_log ?w)"
    using assms(2) by (auto simp: cache_ok_def)
next
  fix q e
  assume q: "plain_query q" "ql_get lib (wd_cache ?w) (query_key ld q) = Some e" "\<not> en_stale e"
  note old = cache_okD [OF assms(2) q(1) _ q(3), simplified, OF q(2) [simplified]]
  show "en_at e \<le> wd_now ?w
          \<and> (en_data e = ans (wd_server ?w) (query_url ld q)
             \<or> (\<exists>m t. (m, t) \<in> set (wd_pending ?w) \<and> affects m q \<and> en_at e \<le> t)
             \<or> (\<exists>m t. (m, t) \<in> set (wd_log ?w) \<and> gap m q \<and> en_at e \<le> t))"
  proof (cases "affects m q")
    case True
    then show ?thesis using old(1) by auto
  next
    case False
    from unaffected_answer [OF assms(1) q(1) False assms(3)]
    show ?thesis using old by auto
  qed
qed

lemma cache_ok_settle:
  assumes "documented lib" "cache_ok lib ans ld w" "(m, t) \<in> set (wd_pending w)"
  shows "cache_ok lib ans ld (w\<lparr>wd_pending := remove1 (m, t) (wd_pending w),
      wd_cache := fold (ql_invalidate lib) (invalidations m) (wd_cache w)\<rparr>)" (is "cache_ok lib ans ld ?w")
proof (rule cache_okI)
  show "set (wd_pending ?w) \<subseteq> set (wd_log ?w)"
    using assms(2) set_remove1_subset [of "(m, t)" "wd_pending w"] by (auto simp: cache_ok_def)
next
  fix q e
  assume q: "plain_query q" "ql_get lib (wd_cache ?w) (query_key ld q) = Some e" "\<not> en_stale e"
  then have old: "ql_get lib (wd_cache w) (query_key ld q) = Some e" "\<not> list_ex (\<lambda>ks. matches ks (query_key ld q)) (invalidations m)"
    by (auto dest: fresh_kept [OF assms(1)])
  then have unseen: "affects m q \<Longrightarrow> gap m q"
    by (simp add: gap_iff [where ld = ld])
  have logged: "(m, t) \<in> set (wd_log w)"
    using assms(2,3) by (auto simp: cache_ok_def)
  have other: "(m', t') \<in> set (wd_pending w) \<Longrightarrow> (m', t') = (m, t) \<or> (m', t') \<in> set (remove1 (m, t) (wd_pending w))" for m' t'
    by (metis in_set_remove1)
  show "en_at e \<le> wd_now ?w
          \<and> (en_data e = ans (wd_server ?w) (query_url ld q)
             \<or> (\<exists>m t. (m, t) \<in> set (wd_pending ?w) \<and> affects m q \<and> en_at e \<le> t)
             \<or> (\<exists>m t. (m, t) \<in> set (wd_log ?w) \<and> gap m q \<and> en_at e \<le> t))"
    using cache_okD [OF assms(2) q(1) old(1) q(3)] unseen logged other by simp (metis prod.inject)
qed

lemma cache_ok_reach:
  assumes "documented lib" "list_default ans" "answers_depend ans ld" "cache_reach lib ans ld s0 w"
  shows "cache_ok lib ans ld w"
  using assms(4)
proof induction
  case cache_start
  then show ?case by (simp add: cache_ok_def world_first_def get_empty [OF assms(1)])
next
  case (cache_time w d)
  then show ?case by (auto simp: cache_ok_def)
next
  case (cache_asks w q)
  then show ?case by (intro cache_ok_asks assms(1,2))
next
  case (cache_commit w m s')
  then show ?case by (intro cache_ok_commit assms(3))
next
  case (cache_settle w m t)
  then show ?case by (intro cache_ok_settle assms(1))
next
  case (cache_clear w)
  then show ?case by (simp add: cache_ok_def get_empty [OF assms(1)])
qed

section \<open>Properties\<close>

text \<open>
  C39: Views that share an entry of the cache agree on what it is.  Whatever two components of the
  program use the same key, with whatever properties, they send the same request; the one exception is
  the trades of the price chart, which leave out a parameter of the ledger's request that has its
  default there.
\<close>
theorem one_key_one_request:
  assumes "query_key ld q = query_key ld q'"
  shows "query_url ld q = query_url ld q' \<or> list_pair (query_url ld q) (query_url ld q') \<or> list_pair (query_url ld q') (query_url ld q)"
  using assms by (rule same_key)

theorem one_key_one_request_witness:
  "list_pair (query_url id (QTransactions (Some ''i'') [])) (query_url id (QPriceTransactions ''i''))"
proof -
  have shows_all: "\<not> include_deleted []" by code_simp
  then show ?thesis
    using one_key_one_request [of id "QTransactions (Some ''i'') []" "QPriceTransactions ''i''"]
    by (simp add: list_key_def list_instrument_def list_url_def or_null_def list_pair_def)
qed


text \<open>The shortest history of a save: an answer, the commit, the answer to the save.\<close>

definition after_save :: "('c, 'a) query_library \<Rightarrow> ((store_part \<Rightarrow> 'v) \<Rightarrow> jstring \<Rightarrow> 'a) \<Rightarrow> ('d \<Rightarrow> int \<times> int \<times> int) \<Rightarrow> 'd app_query \<Rightarrow> mutation \<Rightarrow> (store_part \<Rightarrow> 'v) \<Rightarrow> (store_part \<Rightarrow> 'v) \<Rightarrow> ('v, 'c) world" where
  "after_save lib ans ld q m s0 s1 =
     \<lparr>wd_now = 0, wd_server = s1,
      wd_cache = fold (ql_invalidate lib) (invalidations m) (wd_cache (answered lib ans ld q (world_first lib s0))),
      wd_pending = [], wd_log = [(m, 0)]\<rparr>"

lemma after_save_reach:
  assumes "\<And>p. \<not> writes m p \<Longrightarrow> s1 p = s0 p"
  shows "cache_reach lib ans ld s0 (after_save lib ans ld q m s0 s1)"
proof -
  let ?a = "answered lib ans ld q (world_first lib s0)"
  have "cache_reach lib ans ld s0 (?a\<lparr>wd_server := s1, wd_pending := wd_pending ?a @ [(m, wd_now ?a)], wd_log := wd_log ?a @ [(m, wd_now ?a)]\<rparr>)"
    by (rule cache_commit [OF cache_asks [OF cache_start]]) (simp add: assms answered_def world_first_def)
  from cache_settle [OF this, of m 0] show ?thesis
    by (simp add: answered_def world_first_def after_save_def)
qed

text \<open>A library that keeps its laws: the entries in a list, newest first.\<close>

definition map_library :: "((json list \<times> 'a cache_entry) list, 'a) query_library" where
  "map_library =
     \<lparr>ql_empty = [], ql_get = map_of, ql_put = (\<lambda>key e c. (key, e) # c),
      ql_invalidate = (\<lambda>ks. map (\<lambda>(key, e). (key, if matches ks key then e\<lparr>en_stale := True\<rparr> else e))),
      ql_due = (\<lambda>t now e. en_stale e \<or> (case t of None \<Rightarrow> False | Some d \<Rightarrow> en_at e + d \<le> now))\<rparr>"

lemma map_library_documented: "documented map_library"
proof -
  have "map_of (map (\<lambda>(key, e). (key, if matches ks key then e\<lparr>en_stale := True\<rparr> else e)) c) key =
      map_option (\<lambda>e. if matches ks key then e\<lparr>en_stale := True\<rparr> else e) (map_of c key)"
    for ks key and c :: "(json list \<times> 'a cache_entry) list"
    by (induction c) auto
  then show ?thesis by (simp add: documented_def map_library_def)
qed

text \<open>A back end whose warning depends on the ledger and whose other answers never change.\<close>

definition warning_only :: "(store_part \<Rightarrow> nat) \<Rightarrow> jstring \<Rightarrow> nat" where
  "warning_only s u = (if u = ''/api/concentration'' then s Ledger else 0)"

lemma warning_only_depends: "answers_depend warning_only ld" "list_default warning_only"
proof -
  have "query_url ld q = ''/api/concentration'' \<Longrightarrow> Ledger \<in> set (reads q)" for q
    by (cases q) (simp_all add: list_url_def fx_url_def perf_url_def open_perf_url_def networth_url_def closed_url_def
      realized_url_def allocation_url_def contributions_url_def fetchPreview_def nav_history_url_def historyUrl_def)
  then show "answers_depend warning_only ld"
    by (simp add: answers_depend_def warning_only_def)
  show "list_default warning_only"
    by (auto simp: list_default_def list_pair_def warning_only_def)
qed


text \<open>
  What a save affects and does not name stays fresh for half a minute.  After an edit the dialog opened
  on the same transaction again shows, and on saving sends, the values from before the edit, and its
  history lacks the edit; after a manual price the price chart and the current price lag behind; a new
  holding is missing from the filter of the net worth chart.
\<close>

lemma unnamed_query_stale:
  assumes "documented lib" "gap m q" "\<And>p. \<not> writes m p \<Longrightarrow> s1 p = s0 p"
  shows "\<exists>w. cache_reach lib ans ld s0 w \<and> wd_pending w = [] \<and> wd_server w = s1
    \<and> shown lib ld q (view_mounts lib ans ld q w) = Some (ans s0 (query_url ld q))"
proof (intro exI conjI)
  let ?w = "after_save lib ans ld q m s0 s1"
  show "cache_reach lib ans ld s0 ?w" by (rule after_save_reach [OF assms(3)])
  show "shown lib ld q (view_mounts lib ans ld q ?w) = Some (ans s0 (query_url ld q))"
    using assms(2) [unfolded gap_iff [where ld = ld]] staleTime_positive [of ld q]
    by (auto simp: shown_def view_mounts_def needs_request_def get_invalidated [OF assms(1)] library_laws [OF assms(1)]
      answered_def world_first_def after_save_def split: option.splits)
qed (simp_all add: after_save_def)

lemma stale_after_edit:
  assumes "documented lib" "\<And>p. p \<notin> {Ledger, Journal, Exchange} \<Longrightarrow> s1 p = s0 p"
  shows "\<exists>w. cache_reach lib ans ld s0 w \<and> wd_pending w = [] \<and> wd_server w = s1
     \<and> shown lib ld (QTransaction i) (view_mounts lib ans ld (QTransaction i) w) = Some (ans s0 (''/api/transactions/'' @ i))"
  "\<exists>w. cache_reach lib ans ld s0 w \<and> wd_pending w = [] \<and> wd_server w = s1
     \<and> shown lib ld (QAudit i) (view_mounts lib ans ld (QAudit i) w) = Some (ans s0 (''/api/transactions/'' @ i @ ''/audit''))"
  "\<exists>w. cache_reach lib ans ld s0 w \<and> wd_pending w = [] \<and> wd_server w = s1
     \<and> shown lib ld QHeldInstruments (view_mounts lib ans ld QHeldInstruments w) = Some (ans s0 ''/api/instruments?held=true'')"
proof -
  have off: "\<not> writes SaveTransaction p \<Longrightarrow> s1 p = s0 p" for p
    using assms(2) by simp
  note stale = unnamed_query_stale [where m = SaveTransaction, OF assms(1) _ off]
  show "\<exists>w. cache_reach lib ans ld s0 w \<and> wd_pending w = [] \<and> wd_server w = s1
     \<and> shown lib ld (QTransaction i) (view_mounts lib ans ld (QTransaction i) w) = Some (ans s0 (''/api/transactions/'' @ i))"
    using stale [of "QTransaction i"] by (simp add: gap_parts)
  show "\<exists>w. cache_reach lib ans ld s0 w \<and> wd_pending w = [] \<and> wd_server w = s1
     \<and> shown lib ld (QAudit i) (view_mounts lib ans ld (QAudit i) w) = Some (ans s0 (''/api/transactions/'' @ i @ ''/audit''))"
    using stale [of "QAudit i"] by (simp add: gap_parts)
  show "\<exists>w. cache_reach lib ans ld s0 w \<and> wd_pending w = [] \<and> wd_server w = s1
     \<and> shown lib ld QHeldInstruments (view_mounts lib ans ld QHeldInstruments w) = Some (ans s0 ''/api/instruments?held=true'')"
    using stale [of QHeldInstruments] by (simp add: gap_parts)
qed

lemma stale_after_price:
  assumes "documented lib" "\<And>p. p \<notin> {Prices (pc_instrumentId h), Quotes} \<Longrightarrow> s1 p = s0 p"
  shows "\<exists>w. cache_reach lib ans ld s0 w \<and> wd_pending w = [] \<and> wd_server w = s1
     \<and> shown lib ld (QPriceLatest (pc_instrumentId h)) (view_mounts lib ans ld (QPriceLatest (pc_instrumentId h)) w)
         = Some (ans s0 (''/api/prices/'' @ pc_instrumentId h @ ''/latest''))"
  "\<exists>w. cache_reach lib ans ld s0 w \<and> wd_pending w = [] \<and> wd_server w = s1
     \<and> shown lib ld (QPriceHistory h) (view_mounts lib ans ld (QPriceHistory h) w) = Some (ans s0 (historyUrl ld h))"
proof -
  have off: "\<not> writes (SaveManualPrice (pc_instrumentId h)) p \<Longrightarrow> s1 p = s0 p" for p
    using assms(2) by simp
  note stale = unnamed_query_stale [where m = "SaveManualPrice (pc_instrumentId h)", OF assms(1) _ off]
  show "\<exists>w. cache_reach lib ans ld s0 w \<and> wd_pending w = [] \<and> wd_server w = s1
     \<and> shown lib ld (QPriceLatest (pc_instrumentId h)) (view_mounts lib ans ld (QPriceLatest (pc_instrumentId h)) w)
         = Some (ans s0 (''/api/prices/'' @ pc_instrumentId h @ ''/latest''))"
    using stale [of "QPriceLatest (pc_instrumentId h)"] by (simp add: gap_parts)
  show "\<exists>w. cache_reach lib ans ld s0 w \<and> wd_pending w = [] \<and> wd_server w = s1
     \<and> shown lib ld (QPriceHistory h) (view_mounts lib ans ld (QPriceHistory h) w) = Some (ans s0 (historyUrl ld h))"
    using stale [of "QPriceHistory h"] by (simp add: gap_parts)
qed

end
