(* ===== verification/ChartOptions.thy ===== *)
theory ChartOptions
  imports NetWorth PriceChart Analytics
begin

text \<open>
  The options the four charts hand to the chart library (\<open>lib/chart-utils.ts\<close>,
  \<open>components/charts/palette.ts\<close> and the \<open>option\<close> of each chart), with the data and tooltips of the
  theories above put in, and the placeholders shown while they load
  (\<open>components/charts/ChartSkeleton.tsx\<close>).  Lemmas: legends name the lines that are drawn, colours
  tell them apart, the tooltip of the bars finds its bars, the placeholders fit their frames.
\<close>

section \<open>Options\<close>

text \<open>
  An option is a JavaScript value: besides the values of JSON it has functions, a label of a number or
  a tooltip of what is under the pointer.
\<close>

datatype 'p opt =
    OBool bool
  | ONum jsnum
  | OStr jstring
  | OArr "'p opt list"
  | OObj "(jstring \<times> 'p opt) list"
  | OLabel "jsnum \<Rightarrow> jstring"
  | OTip "'p \<Rightarrow> jstring"

type_synonym 'p members = "(jstring \<times> 'p opt) list"

definition opt_int :: "int \<Rightarrow> 'p opt" where
  "opt_int i = ONum (Num (of_int i))"

text \<open>\<open>{ ...a, b }\<close>: a later member replaces an earlier one in its place.\<close>

definition spread :: "'p members \<Rightarrow> 'p members \<Rightarrow> 'p members" where
  "spread a b = fold (\<lambda>(k, v). jm_set k v) b a"

fun member_of :: "jstring \<Rightarrow> 'p opt \<Rightarrow> 'p opt option" where
  "member_of k (OObj ms) = jm_get ms k"
| "member_of k _ = None"

fun elements :: "'p opt \<Rightarrow> 'p opt list" where
  "elements (OArr xs) = xs"
| "elements _ = []"

section \<open>Colours and shared parts\<close>

definition BORDER :: jstring where "BORDER = ''#E5E5E5''"
definition CHART_PURPLE :: jstring where "CHART_PURPLE = ''#A855F7''"
definition CHART_TEAL :: jstring where "CHART_TEAL = ''#0D9488''"
definition CHART_PINK :: jstring where "CHART_PINK = ''#DB2777''"

definition PIE_PALETTE :: "jstring list" where
  "PIE_PALETTE = [CHART_TEAL, CHART_PINK, POSITIVE, CHART_REALIZED, LINE_BLUE, CHART_PURPLE]"

fun CONTRIB_BAR_PALETTE :: "jstring \<Rightarrow> jstring" where
  "CONTRIB_BAR_PALETTE name =
     (if name = ''Deposits'' then POSITIVE else if name = ''Spendings'' then NEGATIVE
      else if name = ''Realized gains'' then CHART_REALIZED else MUTED)"

definition LINE_PALETTE :: "jstring list" where
  "LINE_PALETTE = [LINE_BLUE, POSITIVE]"

lemmas colours = POSITIVE_def NEGATIVE_def ACCENT_def MUTED_def BORDER_def LINE_BLUE_def CHART_REALIZED_def
  CHART_PURPLE_def CHART_TEAL_def CHART_PINK_def PIE_PALETTE_def LINE_PALETTE_def

definition single_quote :: jstring where "single_quote = [CHR 0x27]"

definition CHART_FONT_FAMILY :: jstring where
  "CHART_FONT_FAMILY =
     ''Inter, system-ui, -apple-system, '' @ single_quote @ ''Segoe UI'' @ single_quote @ '', Roboto, sans-serif''"

definition tooltipShell :: "jstring \<Rightarrow> 'p members" where
  "tooltipShell trigger =
     [(''trigger'', OStr trigger), (''backgroundColor'', OStr ''#FFFFFF''), (''borderColor'', OStr BORDER),
      (''borderWidth'', opt_int 1),
      (''textStyle'', OObj [(''color'', OStr ACCENT), (''fontSize'', opt_int 14), (''fontFamily'', OStr CHART_FONT_FAMILY)]),
      (''padding'', OArr [opt_int 8, opt_int 12])]"

definition mutedAxisLabel :: "(jsnum \<Rightarrow> jstring) option \<Rightarrow> 'p members" where
  "mutedAxisLabel formatter =
     spread [(''color'', OStr MUTED), (''fontSize'', opt_int 12)]
       (case formatter of None \<Rightarrow> [] | Some f \<Rightarrow> [(''formatter'', OLabel f)])"

definition hidden_part :: "'p opt" where
  "hidden_part = OObj [(''show'', OBool False)]"

definition valueYAxis :: "(jsnum \<Rightarrow> jstring) \<Rightarrow> 'p members" where
  "valueYAxis formatter =
     [(''type'', OStr ''value''), (''axisLine'', hidden_part), (''axisTick'', hidden_part),
      (''axisLabel'', OObj (mutedAxisLabel (Some formatter))),
      (''splitLine'', OObj [(''lineStyle'', OObj [(''color'', OStr BORDER), (''type'', OStr ''dashed'')])])]"

definition timeXAxis :: "int option \<Rightarrow> (jsnum \<Rightarrow> jstring) \<Rightarrow> 'p members" where
  "timeXAxis minInterval formatter =
     [(''type'', OStr ''time'')]
     @ (case minInterval of None \<Rightarrow> [] | Some i \<Rightarrow> [(''minInterval'', opt_int i)])
     @ [(''axisLine'', OObj [(''lineStyle'', OObj [(''color'', OStr BORDER)])]), (''axisTick'', hidden_part),
        (''axisLabel'', OObj (spread (mutedAxisLabel (Some formatter))
           [(''hideOverlap'', OBool True), (''interval'', OStr ''auto'')])),
        (''splitLine'', hidden_part)]"

definition chart_text :: "'p opt" where
  "chart_text = OObj [(''fontFamily'', OStr CHART_FONT_FAMILY), (''fontSize'', opt_int 12), (''color'', OStr MUTED)]"

definition legend_text :: "'p opt" where
  "legend_text = OObj [(''fontSize'', opt_int 12), (''color'', OStr ACCENT)]"

text \<open>The legend of the two line charts, hidden unless there are names.\<close>

definition line_legend :: "jstring list option \<Rightarrow> 'p opt" where
  "line_legend names =
     (case names of
        None \<Rightarrow> OObj [(''show'', OBool False)]
      | Some ns \<Rightarrow> OObj
          [(''show'', OBool True), (''top'', opt_int 0), (''left'', OStr ''center''), (''icon'', OStr ''rect''),
           (''itemWidth'', opt_int 14), (''itemHeight'', opt_int 4), (''textStyle'', legend_text),
           (''data'', OArr (map OStr ns))])"

definition line_grid :: "int \<Rightarrow> 'p opt" where
  "line_grid upper = OObj
     [(''left'', opt_int 12), (''right'', opt_int 12), (''top'', opt_int upper), (''bottom'', opt_int 32),
      (''containLabel'', OBool True)]"

definition line_tooltip :: "('p \<Rightarrow> jstring) \<Rightarrow> 'p opt" where
  "line_tooltip tip = OObj (spread (tooltipShell ''axis'')
     [(''axisPointer'', OObj [(''type'', OStr ''line''), (''lineStyle'', OObj [(''color'', OStr MUTED), (''type'', OStr ''dashed'')])]),
      (''formatter'', OTip tip)])"

definition line_style :: "jstring \<Rightarrow> 'p members" where
  "line_style c =
     [(''itemStyle'', OObj [(''color'', OStr c)]), (''lineStyle'', OObj [(''color'', OStr c), (''width'', opt_int 2)])]"

definition thick_emphasis :: "'p members" where
  "thick_emphasis = [(''emphasis'', OObj [(''lineStyle'', OObj [(''width'', opt_int 2)])])]"

definition coordinate :: "jstring \<times> jsnum \<Rightarrow> 'p opt" where
  "coordinate c = OArr [OStr (fst c), ONum (snd c)]"

definition marks_option :: "'p opt list \<Rightarrow> 'p opt" where
  "marks_option marks = OObj [(''symbol'', OStr ''rect''), (''data'', OArr marks), (''label'', hidden_part)]"

section \<open>The net worth chart\<close>

fun mark_name :: "mark_kind \<Rightarrow> jstring" where
  "mark_name BuyMark = ''buy''"
| "mark_name SellMark = ''sell''"
| "mark_name YieldMark = ''yield''"

fun mark_shape :: "mark_kind \<Rightarrow> 'p members" where
  "mark_shape BuyMark =
     [(''symbol'', OStr ''rect''), (''symbolSize'', opt_int 12), (''itemStyle'', OObj [(''color'', OStr POSITIVE)])]"
| "mark_shape SellMark =
     [(''symbol'', OStr ''rect''), (''symbolSize'', opt_int 12),
      (''itemStyle'', OObj [(''color'', OStr ''#FAFAFA''), (''borderColor'', OStr NEGATIVE), (''borderWidth'', opt_int 2)])]"
| "mark_shape YieldMark =
     [(''symbol'', OStr ''circle''), (''symbolSize'', opt_int 10), (''itemStyle'', OObj [(''color'', OStr MUTED)])]"

definition mark_option :: "mark_point \<Rightarrow> 'p members" where
  "mark_option m = [(''name'', OStr (mark_name (mp_kind m))), (''coord'', coordinate (mp_date m, mp_y m))] @ mark_shape (mp_kind m)"

definition cost_series :: "(jstring \<times> jsnum) list \<Rightarrow> 'p opt" where
  "cost_series line = OObj
     ([(''name'', OStr ''Cost basis''), (''type'', OStr ''line''), (''data'', OArr (map coordinate line)),
       (''step'', OStr ''end''), (''showSymbol'', OBool False)] @ line_style (LINE_PALETTE ! 0) @ thick_emphasis)"

definition value_series :: "(jstring \<times> jsnum) list \<Rightarrow> mark_point list \<Rightarrow> 'p opt" where
  "value_series line marks = OObj
     ([(''name'', OStr ''Portfolio value''), (''type'', OStr ''line''), (''data'', OArr (map coordinate line)),
       (''showSymbol'', OBool False), (''smooth'', OBool False), (''sampling'', OStr ''lttb'')]
      @ line_style ACCENT @ thick_emphasis @ [(''markPoint'', marks_option (map (\<lambda>m. OObj (mark_option m)) marks))])"

text \<open>\<open>date_text fmt v\<close> is the text of the instant \<open>v\<close> in the pattern \<open>fmt\<close>.\<close>

definition networth_option ::
  "(jstring \<Rightarrow> jsnum \<Rightarrow> jstring) \<Rightarrow> (jstring \<Rightarrow> jstring) \<Rightarrow> currency \<Rightarrow> 'date nw_props \<Rightarrow> NetWorthResponse
    \<Rightarrow> tip_param option opt" where
  "networth_option date_text long_date cur p r =
     (let o' = chart_option_of p r
      in OObj
        [(''backgroundColor'', OStr ''transparent''), (''animation'', OBool True),
         (''legend'', line_legend (co_legend o')), (''textStyle'', chart_text), (''grid'', line_grid (co_top o')),
         (''xAxis'', OObj (timeXAxis (co_minInterval o') (date_text (axis_format (nw_timeframe p))))),
         (''yAxis'', OObj (spread (valueYAxis (\<lambda>v. formatCompactMoney (SNum v) cur))
            [(''position'', OStr ''left''), (''scale'', OBool True)])),
         (''tooltip'', line_tooltip (nw_tooltip long_date cur p r)),
         (''series'', OArr [cost_series (co_cost o'), value_series (co_line o') (co_marks o')])])"

section \<open>The price chart\<close>

definition price_mark_option :: "price_txn \<Rightarrow> 'p opt option" where
  "price_mark_option t =
     map_option (\<lambda>m. OObj (mark_option m @
       [(''value'', OObj [(''txId'', OStr (pt_txn_id t)), (''type'', OStr (mark_name (mp_kind m)))])])) (price_mark t)"

definition avg_series :: "jsnum \<Rightarrow> 'p opt" where
  "avg_series avg = OObj
     ([(''name'', OStr ''Avg cost''), (''type'', OStr ''line''), (''data'', OArr []),
       (''markLine'', OObj
          [(''silent'', OBool True), (''symbol'', OArr [OStr ''none'', OStr ''none'']),
           (''lineStyle'', OObj [(''color'', OStr (LINE_PALETTE ! 0)), (''width'', opt_int 2), (''type'', OStr ''dashed'')]),
           (''label'', hidden_part), (''data'', OArr [OObj [(''yAxis'', ONum avg)]])])]
      @ line_style (LINE_PALETTE ! 0))"

definition price_series :: "(jstring \<times> jsnum) list \<Rightarrow> 'p opt list \<Rightarrow> 'p opt" where
  "price_series line marks = OObj
     ([(''name'', OStr ''Price''), (''type'', OStr ''line''), (''data'', OArr (map coordinate line)),
       (''showSymbol'', OBool False), (''smooth'', OBool False), (''sampling'', OStr ''lttb'')]
      @ line_style ACCENT @ [(''markPoint'', marks_option marks)])"

definition price_chart_option ::
  "(jstring \<Rightarrow> jsnum \<Rightarrow> jstring) \<Rightarrow> (jstring \<Rightarrow> jstring) \<Rightarrow> (jstring \<Rightarrow> jstring) \<Rightarrow> (jstring \<Rightarrow> int)
    \<Rightarrow> 'date price_props \<Rightarrow> jsnum option \<Rightarrow> price_data \<Rightarrow> tip_param option opt option" where
  "price_chart_option date_text long_date short_date time_of p avg d =
     map_option (\<lambda>o'. OObj
        [(''backgroundColor'', OStr ''transparent''), (''animation'', OBool True),
         (''legend'', line_legend (po_legend o')), (''textStyle'', chart_text), (''grid'', line_grid (po_top o')),
         (''xAxis'', OObj (timeXAxis (po_minInterval o') (date_text (axis_format (pc_timeframe p))))),
         (''yAxis'', OObj (spread (valueYAxis (\<lambda>v. formatMoney (SNum v) (pd_currency d)))
            [(''position'', OStr ''left''), (''scale'', OBool True)])),
         (''tooltip'', line_tooltip (price_tooltip long_date short_date time_of p d)),
         (''series'', OArr ((case po_avg o' of None \<Rightarrow> [] | Some a \<Rightarrow> [avg_series a])
            @ [price_series (po_line o')
                (if pc_showTransactions p then List.map_filter price_mark_option (pd_txns d) else [])]))])
       (price_option_of p avg d)"

section \<open>The allocation and the contributions\<close>

definition pie_slice :: "pie_datum \<Rightarrow> 'p opt" where
  "pie_slice s = OObj
     ([(''name'', OStr (pd_name s)), (''value'', ONum (pd_value s))]
      @ (if pd_faded s then [(''itemStyle'', OObj [(''opacity'', ONum (to_double (6 / 10)))])] else []))"

definition centre_text :: "int \<Rightarrow> jstring \<Rightarrow> jstring \<Rightarrow> jstring \<Rightarrow> 'p opt" where
  "centre_text upper txt font fill = OObj
     [(''type'', OStr ''text''), (''top'', opt_int upper),
      (''style'', OObj [(''text'', OStr txt), (''font'', OStr font), (''fill'', OStr fill),
         (''textAlign'', OStr ''center''), (''textVerticalAlign'', OStr ''middle'')])]"

text \<open>The tooltip is given the name, the value and the percentage of a slice.\<close>

definition pie_option :: "Dimension \<Rightarrow> currency \<Rightarrow> AllocationResponse option \<Rightarrow> (jstring \<times> jsnum \<times> jsnum) opt option" where
  "pie_option d cur data =
     (case data of
        None \<Rightarrow> None
      | Some r \<Rightarrow>
          if al_slices r = [] then None
          else Some (OObj
            [(''backgroundColor'', OStr ''transparent''), (''animation'', OBool True), (''textStyle'', chart_text),
             (''color'', OArr (map OStr PIE_PALETTE)),
             (''legend'', OObj
                [(''type'', OStr ''scroll''), (''orient'', OStr ''vertical''), (''right'', opt_int 8), (''top'', OStr ''middle''),
                 (''icon'', OStr ''circle''), (''textStyle'', chart_text)]),
             (''tooltip'', OObj (spread (tooltipShell ''item'') [(''formatter'', OTip (\<lambda>(name, v, pct). pie_tooltip cur name v pct))])),
             (''series'', OArr [OObj
                [(''type'', OStr ''pie''), (''name'', OStr ''allocation''),
                 (''radius'', OArr [OStr ''40%'', OStr ''70%'']), (''center'', OArr [OStr ''35%'', OStr ''50%'']),
                 (''label'', OObj [(''position'', OStr ''outside''), (''formatter'', OStr ''{d}%''), (''fontSize'', opt_int 12),
                    (''color'', OStr MUTED)]),
                 (''labelLine'', OObj [(''lineStyle'', OObj [(''color'', OStr ACCENT)])]),
                 (''data'', OArr (map (\<lambda>s. pie_slice (pie_datum_of d s)) (al_slices r)))]]),
             (''graphic'', OObj
                [(''type'', OStr ''group''), (''bounding'', OStr ''raw''), (''left'', OStr ''35%''), (''top'', OStr ''50%''),
                 (''width'', opt_int 0), (''height'', opt_int 0),
                 (''children'', OArr
                    [centre_text (- 12) (formatMoney (SStr (al_total r)) cur) (''600 18px '' @ CHART_FONT_FAMILY) ''#171717'',
                     centre_text 10 ''Total'' (''12px '' @ CHART_FONT_FAMILY) MUTED])])]))"

definition bar_series_option :: "jstring \<times> jsnum list \<Rightarrow> 'p opt" where
  "bar_series_option s = OObj
     [(''name'', OStr (fst s)), (''type'', OStr ''bar''), (''stack'', OStr ''total''),
      (''itemStyle'', OObj [(''color'', OStr (CONTRIB_BAR_PALETTE (fst s)))]), (''data'', OArr (map ONum (snd s)))]"

text \<open>The tooltip is given the bars under the pointer and the label of the period.\<close>

definition bars_option ::
  "currency \<Rightarrow> (ContributionBucket list \<Rightarrow> jstring list) \<Rightarrow> ContributionBucket list option
    \<Rightarrow> ((jstring option \<times> jsnum option) list \<times> jstring) opt option" where
  "bars_option cur categories data =
     (case nullish data [] of
        [] \<Rightarrow> None
      | buckets \<Rightarrow> Some (OObj
          [(''backgroundColor'', OStr ''transparent''), (''textStyle'', chart_text),
           (''legend'', OObj
              [(''show'', OBool True), (''top'', opt_int 0), (''left'', opt_int 0), (''icon'', OStr ''rect''),
               (''itemWidth'', opt_int 12), (''itemHeight'', opt_int 12), (''textStyle'', legend_text),
               (''data'', OArr (map OStr [''Deposits'', ''Spendings'', ''Realized gains'', ''Yield'']))]),
           (''grid'', OObj [(''right'', opt_int 12), (''top'', opt_int 32), (''bottom'', opt_int 40), (''containLabel'', OBool True)]),
           (''xAxis'', OObj
              [(''type'', OStr ''category''), (''data'', OArr (map OStr (categories buckets))),
               (''axisLine'', OObj [(''lineStyle'', OObj [(''color'', OStr BORDER)])]), (''axisTick'', hidden_part),
               (''axisLabel'', OObj (spread (mutedAxisLabel None) [(''hideOverlap'', OBool True)])), (''splitLine'', hidden_part)]),
           (''yAxis'', OObj (valueYAxis (\<lambda>v. formatCompactMoney (SNum v) cur))),
           (''tooltip'', OObj (spread (tooltipShell ''axis'')
              [(''axisPointer'', OObj [(''type'', OStr ''shadow'')]), (''formatter'', OTip (\<lambda>(params, label). bars_tooltip cur params label))])),
           (''series'', OArr (map bar_series_option (bar_series buckets)))]))"

section \<open>What holds of the options\<close>

definition named :: "'p opt \<Rightarrow> jstring" where
  "named v = (case member_of ''name'' v of Some (OStr s) \<Rightarrow> s | _ \<Rightarrow> [])"

definition points_of :: "'p opt \<Rightarrow> 'p opt list" where
  "points_of v = (case member_of ''data'' v of Some xs \<Rightarrow> elements xs | None \<Rightarrow> [])"

definition colour_of :: "'p opt \<Rightarrow> jstring" where
  "colour_of v =
     (case Option.bind (member_of ''itemStyle'' v) (member_of ''color'') of Some (OStr s) \<Rightarrow> s | _ \<Rightarrow> [])"

definition series_of :: "'p opt \<Rightarrow> 'p opt list" where
  "series_of v = (case member_of ''series'' v of Some xs \<Rightarrow> elements xs | None \<Rightarrow> [])"

definition legend_of :: "'p opt \<Rightarrow> 'p opt list option" where
  "legend_of v =
     (case member_of ''legend'' v of None \<Rightarrow> None
      | Some l \<Rightarrow> if member_of ''show'' l = Some (OBool True) then map_option elements (member_of ''data'' l) else None)"

lemmas option_parts = named_def points_of_def colour_of_def series_of_def legend_of_def jm_get_def

lemma parts_of_series [simp]:
  "named (cost_series l) = ''Cost basis''" "points_of (cost_series l) = map coordinate l"
  "colour_of (cost_series l) = LINE_PALETTE ! 0"
  "named (value_series l ms) = ''Portfolio value''" "points_of (value_series l ms) = map coordinate l"
  "colour_of (value_series l ms) = ACCENT"
  "named (avg_series a) = ''Avg cost''" "colour_of (avg_series a) = LINE_PALETTE ! 0"
  "named (price_series l pms) = ''Price''" "points_of (price_series l pms) = map coordinate l"
  "colour_of (price_series l pms) = ACCENT"
  "named (bar_series_option b) = fst b" "points_of (bar_series_option b) = map ONum (snd b)"
  "colour_of (bar_series_option b) = CONTRIB_BAR_PALETTE (fst b)"
  by (simp_all add: option_parts cost_series_def value_series_def avg_series_def price_series_def bar_series_option_def
    line_style_def thick_emphasis_def)

text \<open>
  A legend that is shown names the series in their order, and a line that it does not name has no
  points: of the net worth the cost basis, and on the price chart there is only the price.
\<close>

lemma networth_legend:
  fixes p :: "'date nw_props"
  assumes "v = networth_option date_text long_date cur p r"
  shows "(case legend_of v of
      Some ns \<Rightarrow> ns = map (\<lambda>s. OStr (named s)) (series_of v)
    | None \<Rightarrow> \<forall>s \<in> set (series_of v). named s \<noteq> ''Portfolio value'' \<longrightarrow> points_of s = [])"
  unfolding assms
  by (simp add: networth_option_def Let_def series_of_def legend_of_def jm_get_def line_legend_def chart_option_of_def
    costBasisLine_def)

lemma price_legend:
  assumes "price_chart_option date_text long_date short_date time_of p avg d = Some v"
  shows "(case legend_of v of
      Some ns \<Rightarrow> ns = map (\<lambda>s. OStr (named s)) (series_of v)
    | None \<Rightarrow> map named (series_of v) = [''Price''])"
  using assms
  by (auto simp: price_chart_option_def price_option_of_def series_of_def legend_of_def jm_get_def line_legend_def showCostLine_def
    split: if_splits)

lemma bars_legend:
  assumes "bars_option cur categories data = Some v"
  shows "legend_of v = Some (map (\<lambda>s. OStr (named s)) (series_of v))" "distinct (map colour_of (series_of v))"
proof -
  obtain b bs where b: "nullish data [] = b # bs"
    using assms by (cases "nullish data []") (simp_all add: bars_option_def)
  then show "legend_of v = Some (map (\<lambda>s. OStr (named s)) (series_of v))" "distinct (map colour_of (series_of v))"
    using assms by (auto simp: bars_option_def series_of_def legend_of_def jm_get_def bar_series_def colours)
qed

lemma line_colours_apart: "LINE_PALETTE ! 0 \<noteq> ACCENT" "distinct PIE_PALETTE" "distinct LINE_PALETTE"
  by (simp_all add: colours)

text \<open>Every bar has one value for each period, under the period's place on the axis.\<close>

lemma bars_aligned: "(n, vs) \<in> set (bar_series bs) \<Longrightarrow> length vs = length bs"
  by (auto simp: bar_series_def)

section \<open>Placeholders\<close>

text \<open>An element of a drawing: its tag, its attributes but for class names, and what is inside.\<close>

datatype svg = El jstring "(jstring \<times> json) list" "svg list"

datatype ChartSkeletonVariant = LineShape | BarShape | DonutShape

definition GRIDLINES :: "int list" where
  "GRIDLINES = [12, 24, 36, 48]"

definition LINE_POINTS :: jstring where
  "LINE_POINTS = ''0,46 14,32 28,38 42,20 56,28 70,14 84,24 100,10''"

definition AREA_POINTS :: jstring where
  "AREA_POINTS = LINE_POINTS @ '' 100,54 0,54''"

definition BAR_W :: int where "BAR_W = 9"

text \<open>The left edges are tenths.\<close>

definition BARS :: "(jsnum \<times> int) list" where
  "BARS = map (\<lambda>(x, h). (to_double (of_int x / 10), h))
     [(50, 20), (183, 31), (316, 16), (449, 36), (582, 25), (715, 40), (848, 22)]"

definition int_attr :: "int \<Rightarrow> json" where
  "int_attr i = JNum (Num (of_int i))"

definition attrs :: "(jstring \<times> jstring) list \<Rightarrow> (jstring \<times> json) list" where
  "attrs xs = map (\<lambda>(k, v). (k, JStr v)) xs"

definition svg_url :: "jstring \<Rightarrow> json" where
  "svg_url i = JStr (''url(#'' @ i @ '')'')"

definition shimmer_stop :: "jstring \<Rightarrow> jstring \<Rightarrow> svg" where
  "shimmer_stop offset opacity =
     El ''stop'' (attrs [(''offset'', offset), (''stopColor'', ''currentColor''), (''stopOpacity'', opacity)]) []"

definition shimmerGradient :: "jstring \<Rightarrow> svg" where
  "shimmerGradient i =
     El ''linearGradient'' (attrs [(''id'', i), (''x1'', ''0''), (''y1'', ''0''), (''x2'', ''1''), (''y2'', ''0'')])
       [shimmer_stop ''0'' ''0'', shimmer_stop ''0.5'' ''0.55'', shimmer_stop ''1'' ''0'']"

definition ShimmerBand :: "jstring \<Rightarrow> jstring \<Rightarrow> int \<Rightarrow> int \<Rightarrow> int \<Rightarrow> svg" where
  "ShimmerBand gradId maskId width extent height =
     El ''rect''
       [(''x'', int_attr (- width)), (''y'', JStr ''0''), (''width'', int_attr width), (''height'', int_attr height),
        (''fill'', svg_url gradId), (''mask'', svg_url maskId)]
       [El ''animate''
          [(''attributeName'', JStr ''x''), (''from'', int_attr (- width)), (''to'', int_attr extent), (''dur'', JStr ''1.5s''),
           (''repeatCount'', JStr ''indefinite'')] []]"

definition svg_mask :: "jstring \<Rightarrow> jstring \<Rightarrow> svg list \<Rightarrow> svg" where
  "svg_mask i height inside =
     El ''mask'' (attrs [(''id'', i), (''maskUnits'', ''userSpaceOnUse''), (''x'', ''0''), (''y'', ''0''), (''width'', ''100''),
       (''height'', height)]) inside"

definition wide_svg :: "svg list \<Rightarrow> svg" where
  "wide_svg inside =
     El ''svg'' (attrs [(''aria-hidden'', ''true''), (''viewBox'', ''0 0 100 60''), (''preserveAspectRatio'', ''none'')]) inside"

definition grid_line :: "json \<Rightarrow> jstring \<Rightarrow> svg" where
  "grid_line y opacity =
     El ''line''
       (attrs [(''x1'', ''0''), (''x2'', ''100'')] @ [(''y1'', y), (''y2'', y)]
        @ attrs [(''stroke'', ''currentColor''), (''strokeOpacity'', opacity), (''strokeWidth'', ''1''),
            (''vectorEffect'', ''non-scaling-stroke'')]) []"

definition LineSkeleton :: "jstring \<Rightarrow> jstring \<Rightarrow> jstring \<Rightarrow> svg" where
  "LineSkeleton areaId gradId maskId = wide_svg
     ([El ''defs'' []
        [El ''linearGradient'' (attrs [(''id'', areaId), (''x1'', ''0''), (''y1'', ''0''), (''x2'', ''0''), (''y2'', ''1'')])
           [shimmer_stop ''0%'' ''0.18'', shimmer_stop ''100%'' ''0''],
         shimmerGradient gradId,
         svg_mask maskId ''60''
           [El ''polygon'' (attrs [(''points'', AREA_POINTS), (''fill'', ''white''), (''fillOpacity'', ''0.5'')]) [],
            El ''polyline'' (attrs [(''points'', LINE_POINTS), (''fill'', ''none''), (''stroke'', ''white''), (''strokeWidth'', ''3''),
              (''vectorEffect'', ''non-scaling-stroke'')]) []]]]
      @ map (\<lambda>y. grid_line (int_attr y) ''0.13'') GRIDLINES
      @ [El ''polygon'' [(''points'', JStr AREA_POINTS), (''fill'', svg_url areaId)] [],
         El ''polyline'' (attrs [(''points'', LINE_POINTS), (''fill'', ''none''), (''stroke'', ''currentColor''),
           (''strokeOpacity'', ''0.28''), (''strokeWidth'', ''2''), (''strokeLinejoin'', ''round''), (''strokeLinecap'', ''round''),
           (''vectorEffect'', ''non-scaling-stroke'')]) [],
         grid_line (JStr ''54'') ''0.22'',
         ShimmerBand gradId maskId 45 100 60])"

definition bar_rect :: "(jstring \<times> jstring) list \<Rightarrow> jsnum \<times> int \<Rightarrow> svg" where
  "bar_rect fill b =
     El ''rect''
       ([(''x'', JNum (fst b)), (''y'', int_attr (54 - snd b)), (''width'', int_attr BAR_W), (''height'', int_attr (snd b)),
         (''rx'', JStr ''1.5'')] @ attrs fill) []"

definition BarSkeleton :: "jstring \<Rightarrow> jstring \<Rightarrow> svg" where
  "BarSkeleton gradId maskId = wide_svg
     ([El ''defs'' [] [shimmerGradient gradId, svg_mask maskId ''60'' (map (bar_rect [(''fill'', ''white'')]) BARS)]]
      @ map (bar_rect [(''fill'', ''currentColor''), (''fillOpacity'', ''0.22'')]) BARS
      @ [ShimmerBand gradId maskId 45 100 60])"

definition ring :: "(jstring \<times> jstring) list \<Rightarrow> svg" where
  "ring stroke =
     El ''circle'' (attrs ([(''cx'', ''50''), (''cy'', ''50''), (''r'', ''34''), (''fill'', ''none'')] @ stroke
       @ [(''strokeWidth'', ''16'')])) []"

definition DonutSkeleton :: "jstring \<Rightarrow> jstring \<Rightarrow> svg" where
  "DonutSkeleton gradId maskId =
     El ''svg'' (attrs [(''aria-hidden'', ''true''), (''viewBox'', ''0 0 100 100'')])
       [El ''defs'' [] [shimmerGradient gradId, svg_mask maskId ''100'' [ring [(''stroke'', ''white'')]]],
        ring [(''stroke'', ''currentColor''), (''strokeOpacity'', ''0.28'')],
        ShimmerBand gradId maskId 45 100 100]"

text \<open>The role and label of the placeholder, and its drawing; the identifiers come from the library.\<close>

definition ChartSkeleton :: "jstring \<Rightarrow> jstring \<Rightarrow> jstring \<Rightarrow> ChartSkeletonVariant \<Rightarrow> (jstring \<times> jstring) \<times> svg" where
  "ChartSkeleton areaId gradId maskId variant =
     ((''status'', ''Loading chart''),
      case variant of
        DonutShape \<Rightarrow> DonutSkeleton gradId maskId
      | BarShape \<Rightarrow> BarSkeleton gradId maskId
      | LineShape \<Rightarrow> LineSkeleton areaId gradId maskId)"

fun svg_attrs :: "svg \<Rightarrow> (jstring \<times> json) list" where
  "svg_attrs (El _ as inside) = as @ concat (map svg_attrs inside)"

definition svg_ids :: "svg \<Rightarrow> json list" where
  "svg_ids s = map snd (filter (\<lambda>a. fst a = ''id'') (svg_attrs s))"

fun is_ref :: "jstring \<times> json \<Rightarrow> bool" where
  "is_ref (k, JStr v) \<longleftrightarrow> k \<in> {''fill'', ''mask''} \<and> take 5 v = ''url(#''"
| "is_ref _ \<longleftrightarrow> False"

definition svg_refs :: "svg \<Rightarrow> json list" where
  "svg_refs s = map snd (filter is_ref (svg_attrs s))"

lemma references_resolve:
  assumes "r \<in> set (svg_refs (snd (ChartSkeleton areaId gradId maskId variant)))"
  shows "r \<in> (\<lambda>i. case i of JStr s \<Rightarrow> svg_url s | _ \<Rightarrow> JNull) ` set (svg_ids (snd (ChartSkeleton areaId gradId maskId variant)))"
  using assms
  by (cases variant)
    (auto simp: ChartSkeleton_def DonutSkeleton_def BarSkeleton_def LineSkeleton_def svg_refs_def svg_ids_def wide_svg_def
      svg_mask_def ring_def bar_rect_def grid_line_def shimmerGradient_def shimmer_stop_def ShimmerBand_def attrs_def int_attr_def
      svg_url_def GRIDLINES_def BARS_def)

text \<open>The bars lie inside the frame above the base line at 54, beside each other with a gap.\<close>

fun apart :: "(jsnum \<times> int) list \<Rightarrow> bool" where
  "apart (a # b # bs) \<longleftrightarrow> num_val (fst a) + of_int BAR_W < num_val (fst b) \<and> apart (b # bs)"
| "apart bs \<longleftrightarrow> True"

lemma bars_fit:
  "list_all (\<lambda>(x, h). 0 < num_val x \<and> num_val x + of_int BAR_W < 100 \<and> 0 < h \<and> 0 < 54 - h) BARS" "apart BARS"
  by code_simp+

text \<open>The points of the line, read back, lie inside the frame and run from its left to its right edge.\<close>

definition read_points :: "jstring \<Rightarrow> (jsnum \<times> jsnum) list" where
  "read_points s =
     map (\<lambda>p. case js_split (CHR '','') p of [x, y] \<Rightarrow> (str_to_number x, str_to_number y) | _ \<Rightarrow> (NaN, NaN)) (js_split (CHR '' '') s)"

lemma line_fits:
  "list_all (\<lambda>(x, y). js_le (Num 0) x \<and> js_le x (Num 100) \<and> js_le (Num 0) y \<and> js_le y (Num 60)) (read_points AREA_POINTS)"
  "fst (hd (read_points LINE_POINTS)) = Num 0" "fst (last (read_points LINE_POINTS)) = Num 100"
  by code_simp+

end
