(* ===== verification/Dialogs.thy ===== *)
theory Dialogs
  imports Frame Ledger AddTxn Instruments InstrumentForms Tags PriceChart NetSection
begin

text \<open>
  Dialogs in the components that open them: the new instrument created from inside a transaction form
  (\<open>CreateInstrumentDialog.tsx\<close> in the four forms), the three dialogs of the list of transactions
  (\<open>TxnList.tsx\<close>), the editor on the page of an instrument (\<open>OverviewTab.tsx\<close>,
  \<open>InstrumentFormDialog.tsx\<close>), the frames around the forms, and the providers the layout nests
  (\<open>app/(app)/layout.tsx\<close>).  Lemmas: a select always has an option for what it holds, one dialog at a
  time, the focus goes back to where it came from, no hook misses its provider.
\<close>

section \<open>A new instrument from inside a form\<close>

text \<open>
  A form has one field for an instrument, or one per leg; \<open>put\<close> writes it.  \<open>ne_open\<close> is the field the
  dialog is open for, \<open>ne_saving\<close> the field of the creation under way, \<open>ne_pricing\<close> the created
  instruments whose first price is still being saved, each with the field it was created for.
\<close>

record ('v, 's) nested =
  ne_values :: 'v
  ne_open :: "'s option"
  ne_saving :: "'s option"
  ne_pricing :: "('s \<times> InstrumentResponse) list"
  ne_list :: "InstrumentResponse list option"

definition nested_first :: "'v \<Rightarrow> InstrumentResponse list option \<Rightarrow> ('v, 's) nested" where
  "nested_first v known = \<lparr>ne_values = v, ne_open = None, ne_saving = None, ne_pricing = [], ne_list = known\<rparr>"

text \<open>What the select offers: the known instruments, and the entry that opens the dialog.\<close>

definition select_values :: "('v, 's) nested \<Rightarrow> jstring list" where
  "select_values st = map ir_id (nullish (ne_list st) []) @ [CREATE_NEW_INSTRUMENT]"

definition onValueChange :: "('s \<Rightarrow> jstring \<Rightarrow> 'v \<Rightarrow> 'v) \<Rightarrow> 's \<Rightarrow> jstring \<Rightarrow> ('v, 's) nested \<Rightarrow> ('v, 's) nested" where
  "onValueChange put slot v st =
     (if v = CREATE_NEW_INSTRUMENT then st\<lparr>ne_open := Some slot\<rparr> else st\<lparr>ne_values := put slot v (ne_values st)\<rparr>)"

definition create_submitted :: "('v, 's) nested \<Rightarrow> ('v, 's) nested" where
  "create_submitted st = st\<lparr>ne_saving := ne_open st\<rparr>"

text \<open>The dialog goes away, by its button or by Escape: what it waits for is not reported any more.\<close>

definition create_dismissed :: "('v, 's) nested \<Rightarrow> ('v, 's) nested" where
  "create_dismissed st = st\<lparr>ne_open := None, ne_saving := None\<rparr>"

text \<open>\<open>onCreated(instrument); onOpenChange(false)\<close>, with the field the dialog was open for when it was sent.\<close>

definition onCreated :: "('s \<Rightarrow> jstring \<Rightarrow> 'v \<Rightarrow> 'v) \<Rightarrow> 's \<Rightarrow> InstrumentResponse \<Rightarrow> ('v, 's) nested \<Rightarrow> ('v, 's) nested" where
  "onCreated put slot inst st = create_dismissed (st\<lparr>ne_values := put slot (ir_id inst) (ne_values st)\<rparr>)"

definition creation_settles ::
  "('s \<Rightarrow> jstring \<Rightarrow> 'v \<Rightarrow> 'v) \<Rightarrow> bool \<Rightarrow> InstrumentResponse \<Rightarrow> ('v, 's) nested \<Rightarrow> ('v, 's) nested" where
  "creation_settles put with_price inst st =
     (let st' = st\<lparr>ne_list := cache_created inst (ne_list st), ne_saving := None\<rparr>
      in case ne_saving st of
           None \<Rightarrow> st'
         | Some slot \<Rightarrow> if with_price then st'\<lparr>ne_pricing := ne_pricing st @ [(slot, inst)]\<rparr> else onCreated put slot inst st')"

definition first_price_settles ::
  "('s \<Rightarrow> jstring \<Rightarrow> 'v \<Rightarrow> 'v) \<Rightarrow> nat \<Rightarrow> bool \<Rightarrow> ('v, 's) nested \<Rightarrow> ('v, 's) nested" where
  "first_price_settles put k ok st =
     (if length (ne_pricing st) \<le> k then st
      else let (slot, inst) = ne_pricing st ! k;
               st' = st\<lparr>ne_pricing := take k (ne_pricing st) @ drop (Suc k) (ne_pricing st)\<rparr>
           in if ok then onCreated put slot inst st' else st')"

text \<open>
  The select is behind the dialog while that is open.  The list is fetched again at any time, and the
  back end does not forget instruments on its own.
\<close>

inductive nested_step :: "('s \<Rightarrow> jstring \<Rightarrow> 'v \<Rightarrow> 'v) \<Rightarrow> ('v, 's) nested \<Rightarrow> ('v, 's) nested \<Rightarrow> bool" for put where
  nested_choose: "ne_open st = None \<Longrightarrow> v \<in> set (select_values st) \<Longrightarrow> nested_step put st (onValueChange put slot v st)"
| nested_submit: "ne_open st \<noteq> None \<Longrightarrow> ne_saving st = None \<Longrightarrow> nested_step put st (create_submitted st)"
| nested_dismiss: "ne_open st \<noteq> None \<Longrightarrow> nested_step put st (create_dismissed st)"
| nested_created: "ir_id inst \<noteq> CREATE_NEW_INSTRUMENT \<Longrightarrow> nested_step put st (creation_settles put with_price inst st)"
| nested_priced: "nested_step put st (first_price_settles put k ok st)"
| nested_list: "ir_id ` set (nullish (ne_list st) []) \<subseteq> ir_id ` set xs \<Longrightarrow> CREATE_NEW_INSTRUMENT \<notin> ir_id ` set xs \<Longrightarrow>
    nested_step put st (st\<lparr>ne_list := Some xs\<rparr>)"

inductive nested_reach :: "('s \<Rightarrow> jstring \<Rightarrow> 'v \<Rightarrow> 'v) \<Rightarrow> 'v \<Rightarrow> InstrumentResponse list option \<Rightarrow> ('v, 's) nested \<Rightarrow> bool"
  for put v0 known where
  nested_start: "nested_reach put v0 known (nested_first v0 known)"
| nested_more: "nested_reach put v0 known st \<Longrightarrow> nested_step put st st' \<Longrightarrow> nested_reach put v0 known st'"

text \<open>What a form needs for this: fields that can be written one at a time.\<close>

locale instrument_fields =
  fixes pick :: "'s \<Rightarrow> 'v \<Rightarrow> jstring"
    and put :: "'s \<Rightarrow> jstring \<Rightarrow> 'v \<Rightarrow> 'v"
  assumes pick_put: "pick s (put t x v) = (if s = t then x else pick s v)"
begin

definition shows_choice :: "('v, 's) nested \<Rightarrow> bool" where
  "shows_choice st \<longleftrightarrow>
     (\<forall>s. pick s (ne_values st) = [] \<or> pick s (ne_values st) \<in> ir_id ` set (nullish (ne_list st) []))
     \<and> (\<forall>(s, i) \<in> set (ne_pricing st). ir_id i \<in> ir_id ` set (nullish (ne_list st) []))
     \<and> CREATE_NEW_INSTRUMENT \<notin> ir_id ` set (nullish (ne_list st) [])"

lemma created_listed:
  "ir_id ` set (nullish (cache_created i l) []) = insert (ir_id i) (ir_id ` set (nullish l []))"
proof (cases l)
  case (Some xs)
  have "list_ex (\<lambda>j. ir_id j = ir_id i) xs \<longleftrightarrow> ir_id i \<in> ir_id ` set xs" by (auto simp: list_ex_iff image_iff eq_commute)
  then show ?thesis using Some by (auto simp: cache_created_def nullish_def)
qed (simp add: cache_created_def nullish_def)

lemma onCreated_keeps:
  "shows_choice st \<Longrightarrow> ir_id i \<in> ir_id ` set (nullish (ne_list st) []) \<Longrightarrow> shows_choice (onCreated put s i st)"
  by (auto simp: shows_choice_def onCreated_def create_dismissed_def pick_put)

lemma step_keeps:
  assumes "nested_step put st st'" "shows_choice st"
  shows "shows_choice st'"
  using assms
proof cases
  case (nested_choose v slot)
  then show ?thesis using assms(2) by (auto simp: shows_choice_def onValueChange_def select_values_def pick_put)
next
  case (nested_created inst with_price)
  let ?st = "st\<lparr>ne_list := cache_created inst (ne_list st), ne_saving := None\<rparr>"
  have k: "shows_choice ?st" using assms(2) nested_created by (auto simp: shows_choice_def created_listed)
  have i: "ir_id inst \<in> ir_id ` set (nullish (ne_list ?st) [])" by (simp add: created_listed)
  show ?thesis
  proof (cases "ne_saving st")
    case None
    then show ?thesis using k nested_created by (simp add: creation_settles_def Let_def)
  next
    case (Some slot)
    then show ?thesis using onCreated_keeps [OF k i, of slot] k i nested_created
      by (auto simp: creation_settles_def Let_def shows_choice_def)
  qed
next
  case (nested_priced k ok)
  show ?thesis
  proof (cases "k < length (ne_pricing st)")
    case True
    obtain slot inst where n: "ne_pricing st ! k = (slot, inst)" by (cases "ne_pricing st ! k")
    let ?st = "st\<lparr>ne_pricing := take k (ne_pricing st) @ drop (Suc k) (ne_pricing st)\<rparr>"
    have "(slot, inst) \<in> set (ne_pricing st)" using True n by (metis nth_mem)
    then have i: "ir_id inst \<in> ir_id ` set (nullish (ne_list ?st) [])" using assms(2) by (auto simp: shows_choice_def)
    have "shows_choice ?st" using assms(2) by (auto simp: shows_choice_def dest: in_set_takeD in_set_dropD)
    then show ?thesis using nested_priced True n onCreated_keeps [OF _ i, of slot]
      by (auto simp: first_price_settles_def Let_def)
  qed (use nested_priced assms(2) in \<open>simp add: first_price_settles_def\<close>)
next
  case (nested_list xs)
  then have sub: "\<And>i. i \<in> ir_id ` set (nullish (ne_list st) []) \<Longrightarrow> i \<in> ir_id ` set (nullish (Some xs) [])"
    by (auto simp: nullish_def)
  show ?thesis using assms(2) sub nested_list(1,3) by (fastforce simp: shows_choice_def nullish_def)
qed (auto simp: shows_choice_def create_submitted_def create_dismissed_def)

lemma always_shown:
  assumes "nested_reach put v0 known st" "shows_choice (nested_first v0 known)"
  shows "shows_choice st"
  using assms by (induction) (auto dest: step_keeps)

end

definition put_txn :: "unit \<Rightarrow> jstring \<Rightarrow> TxnValues \<Rightarrow> TxnValues" where
  "put_txn slot i v = v\<lparr>tv_instrument_id := i\<rparr>"

definition put_spend :: "unit \<Rightarrow> jstring \<Rightarrow> SpendValues \<Rightarrow> SpendValues" where
  "put_spend slot i v = v\<lparr>sv_instrument_id := i\<rparr>"

definition put_yield :: "unit \<Rightarrow> jstring \<Rightarrow> YieldValues \<Rightarrow> YieldValues" where
  "put_yield slot i v = v\<lparr>yv_instrument_id := i\<rparr>"

definition leg_instrument :: "leg_side \<Rightarrow> TradeValues \<Rightarrow> jstring" where
  "leg_instrument s v = lv_instrument_id (leg_of s v)"

definition put_leg :: "leg_side \<Rightarrow> jstring \<Rightarrow> TradeValues \<Rightarrow> TradeValues" where
  "put_leg s i v = set_leg s ((leg_of s v)\<lparr>lv_instrument_id := i\<rparr>) v"

text \<open>The handlers are those of the forms.\<close>

lemma nested_is_form:
  "tx_values (pick_instrument i t) = ne_values (onValueChange put_txn () i (st\<lparr>ne_values := tx_values t\<rparr>))"
  "leg_pick_instrument s False i (ne_values nt, ne_open nt) = (ne_values (onValueChange put_leg s i nt), ne_open (onValueChange put_leg s i nt))"
  "ne_open nt = Some s \<Longrightarrow> fst (trade_instrument_created \<lparr>ins_id = ir_id r, ins_symbol = ir_symbol r, ins_name = ir_name r\<rparr> (ne_values nt, ne_open nt))
    = ne_values (onCreated put_leg s r nt)"
  by (simp_all add: pick_instrument_def onValueChange_def put_txn_def leg_pick_instrument_def put_leg_def
    trade_instrument_created_def onCreated_def create_dismissed_def)

interpretation txn_field: instrument_fields "\<lambda>_. tv_instrument_id" put_txn
  by unfold_locales (simp add: put_txn_def)

interpretation spend_field: instrument_fields "\<lambda>_. sv_instrument_id" put_spend
  by unfold_locales (simp add: put_spend_def)

interpretation yield_field: instrument_fields "\<lambda>_. yv_instrument_id" put_yield
  by unfold_locales (simp add: put_yield_def)

interpretation trade_fields: instrument_fields leg_instrument put_leg
  by unfold_locales (auto simp: leg_instrument_def put_leg_def leg_of_def set_leg_def split: leg_side.splits)

definition listed :: "jstring \<Rightarrow> ('v, 's) nested \<Rightarrow> bool" where
  "listed i st \<longleftrightarrow> i = [] \<or> i \<in> ir_id ` set (nullish (ne_list st) [])"

text \<open>
  C40: A select can always show what it holds.  A form is opened empty, an instrument is created from
  inside it by the entry at the end of the select, with or without a first price, in any order with
  fetching the list again, dismissing the dialog and choosing otherwise; as long as the back end loses
  no instrument, in every reachable state the
  field of every form, and both fields of a trade, are empty or one of the instruments listed, and
  never the entry itself.
\<close>
theorem new_instrument_listed:
  assumes "CREATE_NEW_INSTRUMENT \<notin> ir_id ` set (nullish known [])"
    and "tv_instrument_id v1 = []" "sv_instrument_id v2 = []" "yv_instrument_id v3 = []"
    and "lv_instrument_id (sold v4) = []" "lv_instrument_id (received v4) = []"
    and "nested_reach put_txn v1 known st1" "nested_reach put_spend v2 known st2"
    and "nested_reach put_yield v3 known st3" "nested_reach put_leg v4 known st4"
  shows "listed (tv_instrument_id (ne_values st1)) st1 \<and> tv_instrument_id (ne_values st1) \<noteq> CREATE_NEW_INSTRUMENT
    \<and> listed (sv_instrument_id (ne_values st2)) st2 \<and> sv_instrument_id (ne_values st2) \<noteq> CREATE_NEW_INSTRUMENT
    \<and> listed (yv_instrument_id (ne_values st3)) st3 \<and> yv_instrument_id (ne_values st3) \<noteq> CREATE_NEW_INSTRUMENT
    \<and> (\<forall>s. listed (leg_instrument s (ne_values st4)) st4 \<and> leg_instrument s (ne_values st4) \<noteq> CREATE_NEW_INSTRUMENT)"
proof -
  have start: "txn_field.shows_choice (nested_first v1 known)" "spend_field.shows_choice (nested_first v2 known)"
    "yield_field.shows_choice (nested_first v3 known)"
    using assms(1-4)
    by (simp_all add: txn_field.shows_choice_def spend_field.shows_choice_def yield_field.shows_choice_def nested_first_def)
  have legs: "leg_instrument s v4 = []" for s using assms(5,6) by (cases s) (simp_all add: leg_instrument_def leg_of_def)
  then have "trade_fields.shows_choice (nested_first v4 known)"
    using assms(1) by (simp add: trade_fields.shows_choice_def nested_first_def)
  moreover have "CREATE_NEW_INSTRUMENT \<noteq> []" by (simp add: CREATE_NEW_INSTRUMENT_def)
  ultimately show ?thesis
    using txn_field.always_shown [OF assms(7) start(1)] spend_field.always_shown [OF assms(8) start(2)]
      yield_field.always_shown [OF assms(9) start(3)] trade_fields.always_shown [OF assms(10)]
    unfolding listed_def txn_field.shows_choice_def spend_field.shows_choice_def yield_field.shows_choice_def
      trade_fields.shows_choice_def
    by metis
qed

definition new_fund :: InstrumentResponse where
  "new_fund = \<lparr>ir_id = ''f'', ir_symbol = ''FND'', ir_name = ''Fund'', ir_instrument_type = ''fund'', ir_base_currency = ''EUR'',
     ir_price_source = ''ft'', ir_risk_level = ''Medium'', ir_ticker_override = None, ir_display_decimals = None\<rparr>"

definition empty_trade :: TradeValues where
  "empty_trade = \<lparr>sold = blank_leg, received = blank_leg, tr_date = [], tr_fee_eur = [], tr_notes = []\<rparr>"

text \<open>A trade whose received instrument is created from inside the form, with a first price.\<close>

definition created_in_trade :: "(TradeValues, leg_side) nested" where
  "created_in_trade =
     first_price_settles put_leg 0 True
       (creation_settles put_leg True new_fund
         (create_submitted (onValueChange put_leg ReceivedSide CREATE_NEW_INSTRUMENT (nested_first empty_trade None))))"

lemma created_in_trade_reach: "nested_reach put_leg empty_trade None created_in_trade"
proof -
  let ?s = "onValueChange put_leg ReceivedSide CREATE_NEW_INSTRUMENT (nested_first empty_trade None)"
  have "nested_reach put_leg empty_trade None ?s"
    by (rule nested_more [OF nested_start nested_choose]) (simp_all add: nested_first_def select_values_def)
  then have "nested_reach put_leg empty_trade None (create_submitted ?s)"
    by (rule nested_more [OF _ nested_submit]) (simp_all add: onValueChange_def nested_first_def)
  then show ?thesis
    unfolding created_in_trade_def
    by (rule nested_more [OF nested_more [OF _ nested_created] nested_priced])
      (simp add: new_fund_def CREATE_NEW_INSTRUMENT_def)
qed

theorem new_instrument_listed_witness:
  "leg_instrument ReceivedSide (ne_values created_in_trade) = ''f''
    \<and> listed (leg_instrument ReceivedSide (ne_values created_in_trade)) created_in_trade"
proof -
  let ?t = "\<lparr>tv_account_id = [], tv_instrument_id = [], tv_txn_type = Buy, tv_date = [], tv_quantity = [], tv_unit_price = [],
    tv_price_currency = EUR, tv_fx_rate_to_eur = [], tv_fee_eur = [], tv_notes = []\<rparr>"
  let ?s = "\<lparr>sv_account_id = [], sv_instrument_id = [], sv_date = [], sv_quantity = [], sv_unit_price = [],
    sv_price_currency = EUR, sv_fx_rate_to_eur = [], sv_notes = []\<rparr>"
  let ?y = "\<lparr>yv_account_id = [], yv_instrument_id = [], yv_date = [], yv_quantity = [], yv_notes = []\<rparr>"
  have "leg_instrument ReceivedSide (ne_values created_in_trade) = ''f''"
    by (simp add: created_in_trade_def first_price_settles_def creation_settles_def create_submitted_def onValueChange_def
      nested_first_def onCreated_def create_dismissed_def new_fund_def Let_def leg_instrument_def put_leg_def leg_of_def set_leg_def)
  moreover have "\<forall>s. listed (leg_instrument s (ne_values created_in_trade)) created_in_trade"
    using new_instrument_listed [where ?v1.0 = ?t and ?v2.0 = ?s and ?v3.0 = ?y,
        OF _ _ _ _ _ _ nested_start nested_start nested_start created_in_trade_reach]
    by (simp add: nullish_def empty_trade_def blank_leg_def)
  ultimately show ?thesis by blast
qed

text \<open>
  The first price may come back late.  A dialog dismissed meanwhile still writes the leg it was opened
  for, and closes the dialog that has since been opened for the other leg.
\<close>

lemma late_price_intrudes:
  fixes inst :: InstrumentResponse
  assumes "nested_reach put_leg v known st" "ne_open st = None" "ne_saving st = None" "ne_pricing st = []"
    and "ir_id inst \<noteq> CREATE_NEW_INSTRUMENT"
  shows "\<exists>st'. nested_reach put_leg v known st' \<and> ne_open st' = Some ReceivedSide \<and> ne_values st' = ne_values st
    \<and> nested_step put_leg st' (first_price_settles put_leg 0 True st')
    \<and> ne_open (first_price_settles put_leg 0 True st') = None
    \<and> leg_instrument SoldSide (ne_values (first_price_settles put_leg 0 True st')) = ir_id inst"
proof -
  let ?ask = "\<lambda>s st. onValueChange put_leg s CREATE_NEW_INSTRUMENT st"
  let ?a = "?ask SoldSide st" and ?b = "create_submitted (?ask SoldSide st)"
  let ?c = "creation_settles put_leg True inst ?b"
  let ?d = "create_dismissed ?c"
  have ask: "nested_step put_leg x (?ask s x)" if "ne_open x = None" for s x
    using that by (rule nested_choose) (simp add: select_values_def)
  have a: "nested_reach put_leg v known ?a" by (rule nested_more [OF assms(1) ask]) (rule assms(2))
  have b: "nested_reach put_leg v known ?b"
    by (rule nested_more [OF a nested_submit]) (simp_all add: onValueChange_def assms)
  have c: "nested_reach put_leg v known ?c" by (rule nested_more [OF b nested_created]) (rule assms(5))
  have shape: "ne_open ?c = Some SoldSide" "ne_pricing ?c = [(SoldSide, inst)]" "ne_values ?c = ne_values st"
    by (simp_all add: creation_settles_def create_submitted_def onValueChange_def assms Let_def)
  have d: "nested_reach put_leg v known ?d" by (rule nested_more [OF c nested_dismiss]) (simp add: shape)
  have "nested_reach put_leg v known (?ask ReceivedSide ?d)"
    by (rule nested_more [OF d ask]) (simp add: create_dismissed_def)
  then show ?thesis
    using shape nested_priced [of put_leg "?ask ReceivedSide ?d" 0 True]
    by (intro exI [of _ "?ask ReceivedSide ?d"])
      (auto simp: onValueChange_def create_dismissed_def first_price_settles_def onCreated_def
        leg_instrument_def put_leg_def leg_of_def set_leg_def)
qed

section \<open>The dialogs of the list\<close>

text \<open>
  \<open>button r\<close> is the element a row is edited from: its button, or the trigger of its menu on a small
  screen.  A row is out of reach while a dialog is open.
\<close>

record ledger_page =
  lp_state :: ledger_state
  lp_rows :: "Transaction list"
  lp_focus :: "nat option"

definition ledger_page_first :: "Transaction list \<Rightarrow> ledger_page" where
  "ledger_page_first rows =
     \<lparr>lp_state = \<lparr>editTxnId = None, editDrawerOpen = False, historyTxnId = None, deleteTxn = None, rowTrigger = None\<rparr>,
      lp_rows = rows, lp_focus = None\<rparr>"

definition no_dialog :: "ledger_state \<Rightarrow> bool" where
  "no_dialog st \<longleftrightarrow> \<not> editDrawerOpen st \<and> historyTxnId st = None \<and> deleteTxn st = None"

fun row_do :: "(jstring \<Rightarrow> nat) \<Rightarrow> Transaction \<Rightarrow> row_action \<Rightarrow> ledger_page \<Rightarrow> ledger_page" where
  "row_do button r EditAction p =
     p\<lparr>lp_state := openEdit (tx_id r) (button (tx_id r)) (lp_state p), lp_focus := Some (button (tx_id r))\<rparr>"
| "row_do button r DisabledEdit p = p"
| "row_do button r DeleteAction p = p\<lparr>lp_state := (lp_state p)\<lparr>deleteTxn := Some r\<rparr>\<rparr>"
| "row_do button r HistoryAction p = p\<lparr>lp_state := (lp_state p)\<lparr>historyTxnId := Some (tx_id r)\<rparr>\<rparr>"

text \<open>\<open>handleCloseAutoFocus\<close>: closing the editor gives the focus to the row it was opened from.\<close>

definition edit_closes :: "ledger_page \<Rightarrow> ledger_page" where
  "edit_closes p =
     p\<lparr>lp_state := closeEditDrawer (lp_state p),
       lp_focus := (case rowTrigger (lp_state p) of Some el \<Rightarrow> Some el | None \<Rightarrow> lp_focus p)\<rparr>"

definition history_closes :: "ledger_page \<Rightarrow> ledger_page" where
  "history_closes p = p\<lparr>lp_state := (lp_state p)\<lparr>historyTxnId := None\<rparr>\<rparr>"

definition delete_closes :: "ledger_page \<Rightarrow> ledger_page" where
  "delete_closes p = p\<lparr>lp_state := (lp_state p)\<lparr>deleteTxn := None\<rparr>\<rparr>"

inductive ledger_page_step :: "(jstring \<Rightarrow> nat) \<Rightarrow> bool \<Rightarrow> ledger_page \<Rightarrow> ledger_page \<Rightarrow> bool" for button wide where
  page_row: "no_dialog (lp_state p) \<Longrightarrow> r \<in> set (lp_rows p) \<Longrightarrow>
    a \<in> set (on_offer (row_menu wide (tx_txn_type r) (tx_deleted_at r \<noteq> None))) \<Longrightarrow>
    ledger_page_step button wide p (row_do button r a p)"
| page_edit_closes: "editDrawerOpen (lp_state p) \<Longrightarrow> ledger_page_step button wide p (edit_closes p)"
| page_history_closes: "historyTxnId (lp_state p) \<noteq> None \<Longrightarrow> ledger_page_step button wide p (history_closes p)"
| page_delete_closes: "deleteTxn (lp_state p) \<noteq> None \<Longrightarrow> ledger_page_step button wide p (delete_closes p)"
| page_rows: "ledger_page_step button wide p (p\<lparr>lp_rows := rows\<rparr>)"

inductive ledger_page_reach :: "(jstring \<Rightarrow> nat) \<Rightarrow> bool \<Rightarrow> ledger_page \<Rightarrow> bool" for button wide where
  page_start: "ledger_page_reach button wide (ledger_page_first rows)"
| page_more: "ledger_page_reach button wide p \<Longrightarrow> ledger_page_step button wide p q \<Longrightarrow> ledger_page_reach button wide q"

definition one_dialog :: "(jstring \<Rightarrow> nat) \<Rightarrow> ledger_state \<Rightarrow> bool" where
  "one_dialog button st \<longleftrightarrow>
     (editDrawerOpen st \<longleftrightarrow> editTxnId st \<noteq> None)
     \<and> (\<forall>i. editTxnId st = Some i \<longrightarrow> rowTrigger st = Some (button i) \<and> historyTxnId st = None \<and> deleteTxn st = None)
     \<and> \<not> (historyTxnId st \<noteq> None \<and> deleteTxn st \<noteq> None)"

lemma row_do_one: "no_dialog (lp_state p) \<Longrightarrow> one_dialog button (lp_state p) \<Longrightarrow> one_dialog button (lp_state (row_do button r a p))"
  by (cases a) (auto simp: one_dialog_def no_dialog_def openEdit_def)

text \<open>
  At most one dialog is open, the editor with the transaction whose row has the focus afterwards; and
  what it is opened for was listed, not deleted and not an adjustment.
\<close>

lemma ledger_one_dialog:
  assumes "ledger_page_reach button wide p"
  shows "one_dialog button (lp_state p)"
  using assms
proof induction
  case (page_start rows)
  then show ?case by (simp add: one_dialog_def ledger_page_first_def)
next
  case (page_more p q)
  from page_more.hyps(2) show ?case
  proof cases
    case (page_row r a)
    then show ?thesis using page_more.IH by (simp add: row_do_one)
  qed (use page_more.IH in \<open>auto simp: one_dialog_def edit_closes_def history_closes_def delete_closes_def closeEditDrawer_def\<close>)
qed

lemma ledger_edit_offered:
  assumes "ledger_page_step button wide p q" "\<not> editDrawerOpen (lp_state p)" "editDrawerOpen (lp_state q)"
  shows "\<exists>r \<in> set (lp_rows p). editTxnId (lp_state q) = Some (tx_id r) \<and> tx_deleted_at r = None \<and> tx_txn_type r \<noteq> ''adjustment''
    \<and> lp_focus (edit_closes q) = Some (button (tx_id r))"
  using assms
proof cases
  case (page_row r a)
  then have a: "a = EditAction" using assms(2,3) by (cases a) auto
  show ?thesis
    using page_row a
    by (intro bexI [of _ r])
      (auto simp: row_menu_def row_actions_def ui_simps openEdit_def edit_closes_def closeEditDrawer_def split: if_splits)
qed (auto simp: edit_closes_def history_closes_def delete_closes_def closeEditDrawer_def)

section \<open>The editor of an instrument\<close>

text \<open>
  The page renders the editor while it is wanted and the instrument is known; a component that is not
  rendered loses its state, and is mounted anew with the values of the instrument at that time.
\<close>

record overview_page =
  ov_query :: overview_query
  ov_editOpen :: bool
  ov_form :: "edit_state option"

definition overview_render :: "overview_page \<Rightarrow> overview_page" where
  "overview_render p =
     p\<lparr>ov_form := (case ov_query p of
         OverviewData (Some i) \<Rightarrow>
           if ov_editOpen p then Some (case ov_form p of Some f \<Rightarrow> f | None \<Rightarrow> edit_open i) else None
       | _ \<Rightarrow> None)\<rparr>"

definition overview_first :: overview_page where
  "overview_first = \<lparr>ov_query = OverviewLoading, ov_editOpen = False, ov_form = None\<rparr>"

definition press_edit :: "overview_page \<Rightarrow> overview_page" where
  "press_edit p = overview_render (p\<lparr>ov_editOpen := True\<rparr>)"

definition editor_closes :: "overview_page \<Rightarrow> overview_page" where
  "editor_closes p = overview_render (p\<lparr>ov_editOpen := False\<rparr>)"

definition overview_answers :: "overview_query \<Rightarrow> overview_page \<Rightarrow> overview_page" where
  "overview_answers q p = overview_render (p\<lparr>ov_query := q\<rparr>)"

definition editor_changes :: "edit_state \<Rightarrow> overview_page \<Rightarrow> overview_page" where
  "editor_changes f p = (if ov_form p = None then p else p\<lparr>ov_form := Some f\<rparr>)"

definition known_instrument :: "overview_page \<Rightarrow> InstrumentResponse option" where
  "known_instrument p = (case ov_query p of OverviewData d \<Rightarrow> d | _ \<Rightarrow> None)"

inductive overview_reach :: "overview_page \<Rightarrow> bool" where
  overview_start: "overview_reach overview_first"
| overview_press: "overview_reach p \<Longrightarrow> known_instrument p \<noteq> None \<Longrightarrow> overview_reach (press_edit p)"
| overview_close: "overview_reach p \<Longrightarrow> ov_form p \<noteq> None \<Longrightarrow> overview_reach (editor_closes p)"
| overview_answer: "overview_reach p \<Longrightarrow> overview_reach (overview_answers q p)"
| overview_edit: "overview_reach p \<Longrightarrow> overview_reach (editor_changes f p)"

lemma render_form: "ov_form (overview_render p) \<noteq> None \<longleftrightarrow> ov_editOpen p \<and> known_instrument p \<noteq> None"
  by (auto simp: overview_render_def known_instrument_def split: overview_query.splits option.splits)

lemma render_keeps [simp]:
  "ov_editOpen (overview_render p) = ov_editOpen p" "known_instrument (overview_render p) = known_instrument p"
  by (simp_all add: overview_render_def known_instrument_def)

text \<open>The editor is on screen exactly when it is wanted and there is something to edit.\<close>

lemma editor_rendered: "overview_reach p \<Longrightarrow> ov_form p \<noteq> None \<longleftrightarrow> ov_editOpen p \<and> known_instrument p \<noteq> None"
proof (induction rule: overview_reach.induct)
  case (overview_edit p f)
  then show ?case by (auto simp: editor_changes_def known_instrument_def)
next
  case overview_start
  then show ?case by (simp add: overview_first_def)
qed (simp_all only: press_edit_def editor_closes_def overview_answers_def render_form render_keeps)

lemma editor_starts_fresh:
  assumes "overview_reach p" "known_instrument p = Some i" "ov_form p = None"
  shows "ov_form (press_edit p) = Some (edit_open i)"
  using assms by (simp add: press_edit_def overview_render_def known_instrument_def split: overview_query.splits)

text \<open>
  A refetch that fails while the editor is open takes it off the screen with what was typed; the next
  answer opens it again with the stored values.
\<close>

lemma failed_refetch_discards:
  assumes "overview_reach p" "ov_form p = Some f"
  shows "ov_form (overview_answers OverviewFailed p) = None"
    and "ov_form (overview_answers (OverviewData (Some i)) (overview_answers OverviewFailed p)) = Some (edit_open i)"
  using editor_rendered [OF assms(1)] assms(2) by (simp_all add: overview_answers_def overview_render_def)

text \<open>
  Below the header: the chart, which can show the price of the instrument instead of its value, and the
  transactions of the instrument.
\<close>

definition overview_section :: "jstring \<Rightarrow> nw_section_props" where
  "overview_section instrumentId = \<lparr>sp_heading = ''Performance over time'', sp_instrumentId = Some instrumentId, sp_hasPriceChart = True\<rparr>"

definition overview_price_props ::
  "InstrumentResponse \<Rightarrow> jstring \<Rightarrow> Timeframe \<Rightarrow> 'date option \<Rightarrow> 'date option \<Rightarrow> bool \<Rightarrow> currency \<Rightarrow> 'date price_props" where
  "overview_price_props i instrumentId timeframe from_date to_date with_txns displayCurrency =
     \<lparr>pc_instrumentId = instrumentId, pc_baseCurrency = (if ir_base_currency i = ''USD'' then USD else EUR),
      pc_instrumentType = ir_instrument_type i, pc_displayDecimals = ir_display_decimals i,
      pc_timeframe = timeframe, pc_from = from_date, pc_to = to_date, pc_showTransactions = with_txns,
      pc_displayCurrency = displayCurrency\<rparr>"

definition overview_ledger :: "jstring \<Rightarrow> jstring \<Rightarrow> jstring" where
  "overview_ledger instrumentId query = list_url (Some instrumentId) query"

text \<open>The page lists the transactions of its instrument, whatever the address says.\<close>

lemma overview_ledger_own:
  "list_instrument (Some instrumentId) query = Some instrumentId"
  by (simp add: list_instrument_def)

section \<open>Frames\<close>

text \<open>What surrounds a form: where it is shown, its title and description, what names it, and its content.\<close>

datatype container = InDialog | InDrawer | InSheet | InPlace

record 'b framed =
  fr_container :: container
  fr_title :: jstring
  fr_description :: "jstring option"
  fr_describedby :: "jstring option"
  fr_content :: 'b

definition responsive_container :: "(jstring \<Rightarrow> bool) option \<Rightarrow> container" where
  "responsive_container screen_is = (case fst (ResponsiveDialog screen_is True) of DialogShell \<Rightarrow> InDialog | DrawerShell \<Rightarrow> InDrawer)"

definition when_open :: "bool \<Rightarrow> 'b framed \<Rightarrow> 'b framed option" where
  "when_open vis f = (if vis then Some f else None)"

definition CreateInstrumentDialog :: "bool \<Rightarrow> 'b \<Rightarrow> 'b framed option" where
  "CreateInstrumentDialog vis form = when_open vis
     \<lparr>fr_container = InDialog, fr_title = ''Add instrument'',
      fr_description = Some (''Add a stock, ETF, fund, crypto, or stablecoin you hold. You can edit''
        @ '' details later from the instrument detail page.''),
      fr_describedby = None, fr_content = form\<rparr>"

definition right_quote :: jstring where "right_quote = [CHR 0xE2, CHR 0x80, CHR 0x99]"

definition InstrumentFormDialog :: "bool \<Rightarrow> 'b \<Rightarrow> 'b framed option" where
  "InstrumentFormDialog vis form = when_open vis
     \<lparr>fr_container = InDialog, fr_title = ''Edit instrument'',
      fr_description = Some (''Update this instrument'' @ right_quote @ ''s metadata. Symbol and ID are read-only.''),
      fr_describedby = None, fr_content = form\<rparr>"

text \<open>The group above the form of an edit, which names the dialog; both legs of a trade are read out.\<close>

definition leg_place :: "edit_data \<Rightarrow> Transaction \<Rightarrow> jstring \<times> jstring" where
  "leg_place d t =
     (symbolFor (instruments d) (tx_instrument_id t) (tx_instrument_symbol t), account_name (accounts d) (tx_account_id t))"

definition chip_label :: "edit_data \<Rightarrow> jstring" where
  "chip_label d =
     (case (isTrade (txnData d), soldLeg d, receivedLeg d) of
        (True, Some s, Some r) \<Rightarrow>
          ''Trade: '' @ fst (leg_place d s) @ '' from '' @ snd (leg_place d s)
          @ '', swapped to '' @ fst (leg_place d r) @ '' on '' @ snd (leg_place d r)
      | _ \<Rightarrow> ''Transaction context'')"

definition EditTxnDialog ::
  "(jstring \<Rightarrow> bool) option \<Rightarrow> dialog_mode \<Rightarrow> bool \<Rightarrow> edit_data \<Rightarrow> (jstring \<times> chip_view \<times> dialog_body) framed option" where
  "EditTxnDialog screen_is m vis d = when_open vis
     \<lparr>fr_container = responsive_container screen_is, fr_title = dialog_title m (txnData d),
      fr_description = dialog_description m (txnData d), fr_describedby = Some ''dialog-chip'',
      fr_content = (chip_label d, chip m d, body m d)\<rparr>"

text \<open>The label and the chips of a trade name the same legs, and the form below holds them.\<close>

lemma chips_named:
  assumes "chip m d = TradeChips a b"
  shows "\<exists>s r. soldLeg d = Some s \<and> receivedLeg d = Some r \<and> a = leg_chip d s \<and> b = leg_chip d r
    \<and> chip_label d = ''Trade: '' @ fst (leg_place d s) @ '' from '' @ snd (leg_place d s)
        @ '', swapped to '' @ fst (leg_place d r) @ '' on '' @ snd (leg_place d r)"
  using assms by (auto simp: chip_def chip_label_def split: if_splits option.splits bool.splits)

definition trade_frame :: "chrome \<Rightarrow> bool \<Rightarrow> 'b \<Rightarrow> 'b framed option" where
  "trade_frame c vis form = when_open vis
     (case c of
        InlineChrome \<Rightarrow> \<lparr>fr_container = InPlace, fr_title = [], fr_description = None, fr_describedby = None, fr_content = form\<rparr>
      | SheetChrome \<Rightarrow>
          \<lparr>fr_container = InSheet, fr_title = ''Add trade'',
           fr_description = Some (''Sells must be paired with what you received. The cost basis flows''
             @ '' from the asset sold to the asset received.''),
           fr_describedby = None, fr_content = form\<rparr>)"

definition yield_buttons :: "jstring option \<Rightarrow> bool \<Rightarrow> bool \<Rightarrow> (jstring \<times> bool) list" where
  "yield_buttons txnId has_cancel is_pending =
     (if has_cancel then [(''Cancel'', False)] else [])
     @ [(submit_label is_pending (is_edit txnId) ''Save transaction'', is_pending)]"

lemma yield_buttons_as_buy: "yield_buttons = txn_buttons"
  by (simp add: fun_eq_iff yield_buttons_def txn_buttons_def)

text \<open>A hint beside a locked field: what it says, aloud and on hovering; it is not in the tab order.\<close>

definition LockedFieldHint :: "jstring \<Rightarrow> jstring \<times> int \<times> jstring" where
  "LockedFieldHint hint = (hint, - 1, hint)"

definition DELETE_COPY_LEAD :: jstring where
  "DELETE_COPY_LEAD = ''Soft-deleted transactions stay on file with full history but are excluded from analytics. Toggle''"

definition DELETE_SHOW_LABEL :: jstring where "DELETE_SHOW_LABEL = ''Show deleted''"

definition DELETE_COPY_TAIL :: jstring where "DELETE_COPY_TAIL = ''in the ledger to view them.''"

definition DELETE_DIALOG_SOFT_DELETE_COPY :: jstring where
  "DELETE_DIALOG_SOFT_DELETE_COPY = DELETE_COPY_LEAD @ '' '' @ DELETE_SHOW_LABEL @ '' '' @ DELETE_COPY_TAIL"

text \<open>The sentence the tests check is the one the dialog shows last.\<close>

lemma delete_copy_shown: "last (delete_lines t ts) = DELETE_DIALOG_SOFT_DELETE_COPY"
  by (simp add: delete_lines_def DELETE_DIALOG_SOFT_DELETE_COPY_def DELETE_COPY_LEAD_def DELETE_SHOW_LABEL_def DELETE_COPY_TAIL_def)

text \<open>The menu of the picker and the sheet of a form.\<close>

definition AddTxnPicker :: "(jstring \<Rightarrow> bool) option \<Rightarrow> add_txn \<Rightarrow> (AddTxnFormType \<times> jstring \<times> jstring) list framed option" where
  "AddTxnPicker screen_is st = when_open (flow st = Picker)
     \<lparr>fr_container = responsive_container screen_is, fr_title = ''Add transaction'',
      fr_description = Some ''Pick the type to start.'', fr_describedby = None, fr_content = ROWS\<rparr>"

definition AddTxnFormSheet :: "(jstring \<Rightarrow> bool) option \<Rightarrow> (AddTxnFormType \<Rightarrow> 'b) \<Rightarrow> add_txn \<Rightarrow> 'b framed option" where
  "AddTxnFormSheet screen_is renderForm st =
     (case flow st of
        FormOpen t \<Rightarrow> Some
          \<lparr>fr_container = responsive_container screen_is, fr_title = fst (sheet_heading st),
           fr_description = Some (snd (sheet_heading st)), fr_describedby = None, fr_content = renderForm t\<rparr>
      | _ \<Rightarrow> None)"

lemma picker_or_sheet:
  "AddTxnPicker screen_is st = None \<or> AddTxnFormSheet screen_is renderForm st = None"
  "p \<in> set ROWS \<Longrightarrow> AddTxnFormSheet screen_is renderForm (row_click (fst p) st) = Some
     \<lparr>fr_container = responsive_container screen_is, fr_title = TITLE_BY_TYPE (fst p),
      fr_description = Some (DESCRIPTION_BY_TYPE (fst p)), fr_describedby = None, fr_content = renderForm (fst p)\<rparr>"
  by (simp_all add: AddTxnPicker_def AddTxnFormSheet_def when_open_def row_click_def dispatch_def sheet_heading_def
    split: AddTxnState.splits)

text \<open>Removing a tag by its chip does what the editor does.\<close>

definition useDetachTag :: "jstring \<Rightarrow> jstring \<Rightarrow> jstring \<Rightarrow> (jstring \<times> jstring \<times> jstring) \<times> (thrown + unit \<Rightarrow> tag_effect list)" where
  "useDetachTag accountId instrumentId tagId =
     ((''DELETE'', ''/api/holdings/'' @ accountId @ ''/'' @ instrumentId @ ''/tags/'' @ tagId, []),
      \<lambda>r. case r of
            Inr _ \<Rightarrow> [TagInvalidate [''tags''], TagInvalidate [''instrument-holdings'', instrumentId]] @ portfolio_effects
          | Inl err \<Rightarrow> [TagFailed (''Could not remove tag. '' @ thrown_text err @ ''.'')])"

lemma detach_as_editor: "useDetachTag a i t = (detach_call a i t, detach_effects i)"
  by (simp add: useDetachTag_def detach_call_def holding_tags_path_def fun_eq_iff detach_effects_def tags_changed_def
    split: sum.split)

section \<open>Providers\<close>

text \<open>A hook reads the value of the nearest provider, and throws where there is none.\<close>

datatype ctx = CurrencyCtx | TagFilterCtx | TagsManagerCtx | MoreSheetCtx | AddTxnCtx | ConcentrationCtx | UpdateCtx

fun hook_name :: "ctx \<Rightarrow> jstring" where
  "hook_name CurrencyCtx = ''Currency''"
| "hook_name TagFilterCtx = ''TagFilter''"
| "hook_name TagsManagerCtx = ''TagsManager''"
| "hook_name MoreSheetCtx = ''MoreSheet''"
| "hook_name AddTxnCtx = ''AddTxn''"
| "hook_name ConcentrationCtx = ''ConcentrationBanner''"
| "hook_name UpdateCtx = ''UpdateBanner''"

definition use_context :: "ctx \<Rightarrow> (ctx \<times> 'v) list \<Rightarrow> thrown + 'v" where
  "use_context c provided =
     (case map_of provided c of
        Some v \<Rightarrow> Inr v
      | None \<Rightarrow> Inl (OtherErr (''use'' @ hook_name c @ '' must be used inside '' @ hook_name c @ ''Provider'')))"

text \<open>A tree of components: providers, and components with the hooks they call themselves.\<close>

datatype component = Provider ctx "component list" | Part jstring "ctx list" "component list"

fun missing :: "ctx list \<Rightarrow> component \<Rightarrow> (jstring \<times> ctx) list" where
  "missing provided (Provider c inside) = concat (map (missing (c # provided)) inside)"
| "missing provided (Part n cs inside) =
     map (Pair n) (filter (\<lambda>c. c \<notin> set provided) cs) @ concat (map (missing provided) inside)"

definition header_parts :: "component list" where
  "header_parts =
     [Part ''AppHeader'' []
        [Part ''AddButton'' [AddTxnCtx] [], Part ''TagFilterChip'' [TagFilterCtx, TagsManagerCtx] [],
         Part ''CurrencyChip'' [CurrencyCtx] [], Part ''UserMenu'' [] []],
      Part ''MobileAppBar'' [] []]"

definition overlay_parts :: "component list" where
  "overlay_parts =
     [Part ''TagsManager'' [TagFilterCtx, TagsManagerCtx] [], Part ''AddTxnPicker'' [AddTxnCtx] [],
      Part ''AddTxnFormSheet'' [AddTxnCtx] [], Part ''BottomTabBar'' [MoreSheetCtx] [],
      Part ''AddTxnFab'' [AddTxnCtx, MoreSheetCtx] [],
      Part ''MoreSheet'' [MoreSheetCtx]
        [Part ''TagFilterChip'' [TagFilterCtx, TagsManagerCtx] [], Part ''CurrencyChip'' [CurrencyCtx] [],
         Part ''LogoutButton'' [] []]]"

definition AppLayout :: "component list \<Rightarrow> component" where
  "AppLayout page =
     Provider CurrencyCtx [Provider TagFilterCtx [Provider TagsManagerCtx [Provider MoreSheetCtx [Provider AddTxnCtx
       [Provider ConcentrationCtx [Provider UpdateCtx
          (header_parts
           @ [Part ''main'' [] ([Part ''DemoBanner'' [] [], Part ''UpdateBanner'' [UpdateCtx] []] @ page)]
           @ overlay_parts)]]]]]]"

lemma nothing_missing: "(\<And>c. c \<in> set provided) \<Longrightarrow> missing provided x = []"
proof (induction x arbitrary: provided)
  case (Provider c inside)
  then show ?case by simp
next
  case (Part n cs inside)
  then show ?case by (simp add: filter_empty_conv)
qed

text \<open>Whatever a page is made of, no hook under the layout is without its provider.\<close>

lemma layout_provides: "missing [] (AppLayout page) = []"
proof -
  let ?all = "[UpdateCtx, ConcentrationCtx, AddTxnCtx, MoreSheetCtx, TagsManagerCtx, TagFilterCtx, CurrencyCtx]"
  have "missing ?all x = []" for x
  proof (rule nothing_missing)
    show "c \<in> set ?all" for c by (cases c) simp_all
  qed
  then show ?thesis by (simp add: AppLayout_def)
qed

lemma provided_no_error: "c \<in> fst ` set provided \<Longrightarrow> \<exists>v. use_context c provided = Inr v"
  by (cases "map_of provided c") (auto simp: use_context_def map_of_eq_None_iff)

text \<open>The menu of the user: two pages, and signing out.\<close>

definition UserMenu :: "unit ui list" where
  "UserMenu = [Anchor ''Instruments'' ''/instruments'', Anchor ''Settings'' ''/settings'', Control ''Log out'' False ()]"

end
