(* ===== verification/Spec2Isabelle.thy ===== *)
theory Spec2Isabelle
  imports Reconciliation PriceChart Session Ledger Instruments Settings Updates Tags Closed
    Analytics InstrumentForms Concentration Accounts Histories Navigation Backfill ReconDialogs Frame QueryCache ChartOptions
    Dialogs
begin

text \<open>
  The front end of flowfolio, a self-hosted portfolio tracker.

  The program.  flowfolio is a FastAPI back end, which keeps transactions and prices and computes
  holdings, and a Next.js front end in TypeScript under \<open>src/frontend\<close>, which this development is
  about.  A request first passes the route guard (\<open>middleware.ts\<close>), which sends the visitor to the
  setup, the login or the page.  The pages read the back end through one client
  (\<open>lib/api-client.ts\<close>) and a query cache: every view is a function of the cached answers, of its
  own state and of the preferences kept in cookies (\<open>lib/prefs.tsx\<close>).  What the user does changes
  that state or posts a request; a saved request makes the cache keys of
  \<open>lib/invalidate-cache.ts\<close> stale, so that the views ask again.  Amounts travel as decimal strings
  and are compared as strings (\<open>lib/decimal-strings.ts\<close>); only what is displayed or aggregated for
  display goes through floating point (\<open>lib/format.ts\<close>, \<open>lib/holdings-aggregation.ts\<close>).

  How the code is modelled.  An interface or a component's state is a record, a union a datatype, a
  function or handler a definition of the same name.  A component's events are the constructors of a
  datatype; \<open>View.ui\<close> is what it renders, without styling, and \<open>on_offer\<close> are the events of the
  controls that are not disabled, so that a step relation lets a user do what is on the screen and
  nothing else.  Answers of the server are arguments of the steps, and any answer may come at any
  time it is awaited.  A thrown error is a value (\<open>thrown + 'a\<close>).  A \<open>Map\<close> is an association list in
  insertion order (\<open>jsmap\<close>), because the code iterates over it; a string is the list of the bytes
  of its UTF-8 encoding.

  Theories, bottom up.
  \<^item> \<open>Prelude\<close>: strings, the operations of \<open>String\<close>, \<open>Map\<close> and \<open>Array\<close> the code calls, the
    collections of simplification rules, and two interfaces: \<open>key_store\<close> (what a lookup finds after a
    write; interpreted for \<open>jsmap\<close>) and \<open>canonical_form\<close> (equality by a normal form).
  \<^item> \<open>JsNumber\<close>: IEEE doubles as exact rationals with one rounding, \<open>Number(text)\<close> and
    \<open>String(number)\<close>; \<open>NumberText\<close> proves them inverse on the range printed without exponent.
  \<^item> \<open>DecimalStrings\<close>, \<open>Format\<close>: \<open>lib/decimal-strings.ts\<close> and \<open>lib/format.ts\<close>; the normal form is
    interpreted as \<open>canonical_form\<close>, amounts are shown to the exact half cent.
  \<^item> \<open>Json\<close>, \<open>Uri\<close>, \<open>Queries\<close>: \<open>JSON.parse\<close> and \<open>stringify\<close>, \<open>encodeURIComponent\<close> and
    \<open>URLSearchParams\<close>, with their round trips (\<open>query_encoding\<close>, \<open>pair_encoding\<close>).
  \<^item> \<open>StableSort\<close>: sorting by a comparator that is only used through \<open>weak_order\<close>; interpreted for the
    comparators of the tables, the instrument page, the selections and the versions.
  \<^item> \<open>View\<close>, \<open>FormKit\<close>, \<open>Frame\<close>: rendered trees, form fields (\<open>ui/form.tsx\<close>), the dialog that becomes
    a drawer (\<open>ui/responsive-dialog.tsx\<close>), and what the pages put together.
  \<^item> \<open>Api\<close>, \<open>Session\<close>, \<open>Navigation\<close>: the client with its error texts and the expiry of a session
    (\<open>lib/session-expiry.ts\<close>), the guard, the login and the setup wizard, and the routes, tabs, titles
    and buttons of \<open>components/header\<close>; the two add buttons render on their own, in any order.
  \<^item> \<open>Prefs\<close>: cookies, their change listeners and the migration from local storage; \<open>pref_slot\<close> is the
    contract of one preference, interpreted for the currency, the tag and the filter.
  \<^item> \<open>Drift\<close>, \<open>Reconciliation\<close>, \<open>ReconDialogs\<close>: \<open>components/reconciliation\<close>: rows, the form as a state
    machine, its dialogs and the bytes of its requests.
  \<^item> \<open>HoldingsAgg\<close>, \<open>PerfTable\<close>, \<open>Closed\<close>: aggregation by instrument, the performance table with its
    requests, sorting and totals, and the table of closed positions.
  \<^item> \<open>TxnForms\<close>, \<open>TradeForm\<close>, \<open>AddTxn\<close>, \<open>Ledger\<close>, \<open>Histories\<close>: \<open>components/transactions\<close>: the forms,
    the two calls of a trade, the flow that hosts them (\<open>hosted_form\<close> is what it needs of a form;
    interpreted for all five), the list with its edit and delete dialogs, the audit history and the
    table of exchange rates (\<open>components/fx\<close>).
  \<^item> \<open>Instruments\<close>, \<open>Backfill\<close>, \<open>InstrumentPage\<close>, \<open>InstrumentForms\<close>: \<open>components/instruments\<close>,
    \<open>lib/instrument-eligibility.ts\<close> and the page of one instrument; \<open>sound_form\<close> is the contract of a
    form (what the schema lets through makes a good request), interpreted for the manual price, the
    yield rate and the concentration threshold.
  \<^item> \<open>NetWorth\<close>, \<open>NetSection\<close>, \<open>PriceChart\<close>, \<open>Analytics\<close>, \<open>ChartOptions\<close>: the charts: requests, data,
    tooltips as HTML, switches, ranges and filters, the allocation with its drill, the bars of
    contributions, the options given to the chart library and the placeholders before them.
  \<^item> \<open>Settings\<close>, \<open>Updates\<close>, \<open>Tags\<close>, \<open>Concentration\<close>, \<open>Accounts\<close>: the settings page, the notice of a
    release, tags, the alert on large holdings and the accounts.
  \<^item> \<open>Dialogs\<close>: dialogs in the components that open them (\<open>instrument_fields\<close> is what a form needs for
    creating an instrument on the way; interpreted for the four forms), and the providers of the layout.
  \<^item> \<open>QueryCache\<close>: the composition of the views above: key, request and time of every query, what each
    saved change makes stale (equal to the effects of the components), which parts of the back end's
    state each change writes and each query reads (\<open>writes\<close> and \<open>reads\<close>, from \<open>backend/app\<close>), and the
    cache between them as a step relation; the operations of the query library are a parameter with laws
    (\<open>documented\<close>).  \<open>gap\<close> lists by hand the pairs of a change and a query the program leaves to the
    age of the answer, and \<open>gap_iff\<close> shows the list exact.
\<close>

text \<open>
  What is shown.  Per component: invariants of every reachable state by rule induction (what is
  staged, posted or stored is well formed: reconciliation, instrument forms, two-factor codes, tags,
  accounts, thresholds); what each operation does on every branch, failures included (the outcomes of
  a trade's two calls, of the add flow, of an expired session); safety of the guards (a
  reconciliation is only saved when every row is blank, equal or decided; a login only leads to the
  same origin, unless the target holds a backslash; a saved change reaches every view outside the table
  of gaps; a symbol cannot add markup to a tooltip); equivalence of the loops with what they are
  for (grouping, dominant currency, nearest point, version order); refinement (the trades of the
  tooltips are the kept trades, the cached list of instruments is a map); termination of the redirects; round trips (preferences, the return
  to a page after a login, thresholds, the switch in the address); bounds (the error of displayed
  money, the pages of a table).

  Bounds and fuel.  Redirects are followed with fuel 4, which \<open>redirects_terminate\<close> shows to be
  enough for every request and server.  The JSON parser and the trimming of strings carry the length
  of their input as fuel, which each step consumes (lemmas beside them).  The search for the shortest
  digits of a number tries up to 1400 of them, more than the exact value of any double has;
  \<open>NumberText.search_succeeds\<close> proves it for the numbers printed without an exponent.  All other recursions are
  structural.

  Parameters.  Collation, lower-casing of a locale, the texts of dates and instants, identifiers made by
  the library, the clock and the length of a text in a schema are arguments of the definitions that
  use them; theorems assume of them only what is stated (an order, for collation; that an answer of the
  back end depends on the parts its query reads).

  Not modelled.  Styling, icons, the drawing of the chart library, the wrappers of library primitives under
  \<open>components/ui\<close> (they pass properties and class names on), fonts and metadata, the
  scheduling of React beyond the order of renders, requests of the query cache that are cancelled or repeated, the landing site,
  the configuration and test files, and the back end, which is a program of its own in Python: its
  answers are arguments everywhere.
\<close>

end
